(* ===== verification/Rust_Prelude.thy ===== *)
theory Rust_Prelude
  imports Complex_Main "HOL-Library.AList" "HOL-Library.Word"
begin

text \<open>
  The shared vocabulary of the development: Rust's machine integers, results and checked
  arithmetic, strings as UTF-8 bytes with the operations the program uses on them, and hash
  maps as association lists behind a contract (locale \<open>keyed_store\<close>).
\<close>

named_theorems rust_simps \<open>unfolding rules of the Rust primitives\<close>
named_theorems frame_simps \<open>state components an operation leaves alone\<close>
named_theorems store_defs \<open>definitions of the store's statements\<close>

section \<open>Identifiers, time, results\<close>

text \<open>
  A \<open>Uuid\<close> is an opaque number; fresh ones (\<open>Uuid::new_v4\<close>) and the clock (\<open>Utc::now\<close>) are
  arguments of the operations that draw them. Instants are counted in nanoseconds.
\<close>

type_synonym uuid = nat
type_synonym time = int
type_synonym path = string
type_synonym u64 = "64 word"
type_synonym ('a, 'e) result = "'e + 'a"

abbreviation Ok :: "'a \<Rightarrow> ('a, 'e) result" where "Ok \<equiv> Inr"
abbreviation Err :: "'e \<Rightarrow> ('a, 'e) result" where "Err \<equiv> Inl"

definition res_bind :: "('a, 'e) result \<Rightarrow> ('a \<Rightarrow> ('b, 'e) result) \<Rightarrow> ('b, 'e) result" where
  "res_bind m f = (case m of Inl e \<Rightarrow> Inl e | Inr x \<Rightarrow> f x)"

definition map_err :: "('e \<Rightarrow> 'f) \<Rightarrow> ('a, 'e) result \<Rightarrow> ('a, 'f) result" where
  "map_err g m = (case m of Inl e \<Rightarrow> Inl (g e) | Inr x \<Rightarrow> Inr x)"

definition ok_or :: "'e \<Rightarrow> 'a option \<Rightarrow> ('a, 'e) result" where
  "ok_or e m = (case m of None \<Rightarrow> Inl e | Some x \<Rightarrow> Inr x)"

definition opt_or :: "'a option \<Rightarrow> 'a option \<Rightarrow> 'a option" where
  "opt_or a b = (case a of None \<Rightarrow> b | Some x \<Rightarrow> Some x)"

definition opt_filter :: "('a \<Rightarrow> bool) \<Rightarrow> 'a option \<Rightarrow> 'a option" where
  "opt_filter P m = (case m of None \<Rightarrow> None | Some x \<Rightarrow> if P x then Some x else None)"

definition is_some_and :: "'a option \<Rightarrow> ('a \<Rightarrow> bool) \<Rightarrow> bool" where
  "is_some_and m P = (case m of None \<Rightarrow> False | Some x \<Rightarrow> P x)"

definition unwrap_or :: "'a \<Rightarrow> 'a option \<Rightarrow> 'a" where
  "unwrap_or d m = (case m of None \<Rightarrow> d | Some x \<Rightarrow> x)"

lemma res_bind_simps [simp]: "res_bind (Inl e) f = Inl e" "res_bind (Inr x) f = f x"
  by (simp_all add: res_bind_def)

lemma res_bind_Ok_iff: "res_bind m f = Inr y \<longleftrightarrow> (\<exists>x. m = Inr x \<and> f x = Inr y)"
  by (cases m) auto

lemma map_err_simps [simp]: "map_err g (Inl e) = Inl (g e)" "map_err g (Inr x) = Inr x"
  by (simp_all add: map_err_def)

lemma map_err_Ok_iff [simp]: "map_err g m = Inr y \<longleftrightarrow> m = Inr y"
  by (cases m) auto

lemma ok_or_simps [simp]: "ok_or e None = Inl e" "ok_or e (Some x) = Inr x"
  by (simp_all add: ok_or_def)

lemma ok_or_Ok_iff [simp]: "ok_or e m = Inr x \<longleftrightarrow> m = Some x"
  by (cases m) auto

lemma opt_or_simps [simp]: "opt_or None b = b" "opt_or (Some x) b = Some x"
  by (simp_all add: opt_or_def)

lemma opt_filter_simps [simp]:
  "opt_filter P None = None" "opt_filter P (Some x) = (if P x then Some x else None)"
  by (simp_all add: opt_filter_def)

lemma opt_filter_Some_iff: "opt_filter P m = Some x \<longleftrightarrow> m = Some x \<and> P x"
  by (cases m) auto

lemma is_some_and_simps [simp]: "is_some_and None P = False" "is_some_and (Some x) P = P x"
  by (simp_all add: is_some_and_def)

lemma is_some_and_iff: "is_some_and m P \<longleftrightarrow> (\<exists>x. m = Some x \<and> P x)"
  by (cases m) auto

lemma unwrap_or_simps [simp]: "unwrap_or d None = d" "unwrap_or d (Some x) = x"
  by (simp_all add: unwrap_or_def)

text \<open>\<open>Iterator::map(..).collect::<Result<Vec<_>, _>>()\<close>: the first error wins.\<close>

fun map_res :: "('a \<Rightarrow> ('b, 'e) result) \<Rightarrow> 'a list \<Rightarrow> ('b list, 'e) result" where
  "map_res f [] = Inr []"
| "map_res f (x # xs) = res_bind (f x) (\<lambda>y. res_bind (map_res f xs) (\<lambda>ys. Inr (y # ys)))"

lemma map_res_Ok_list_all2:
  "map_res f xs = Inr ys \<Longrightarrow> list_all2 (\<lambda>x y. f x = Inr y) xs ys"
  by (induction xs arbitrary: ys) (auto simp: res_bind_Ok_iff)

section \<open>Machine integers\<close>

definition checked_add_u64 :: "nat \<Rightarrow> nat \<Rightarrow> nat option" where
  "checked_add_u64 a b = (if a + b < 2 ^ 64 then Some (a + b) else None)"

definition checked_succ_w64 :: "u64 \<Rightarrow> u64 option" where
  "checked_succ_w64 a = (if a = - 1 then None else Some (a + 1))"

definition i64_max :: int where "i64_max = 9223372036854775807"
definition i64_min :: int where "i64_min = - 9223372036854775808"

definition saturating_add_i64 :: "int \<Rightarrow> int \<Rightarrow> int" where
  "saturating_add_i64 a b = max i64_min (min i64_max (a + b))"

definition wrap_i64 :: "int \<Rightarrow> int" where
  "wrap_i64 x = (x + 9223372036854775808) mod 18446744073709551616 - 9223372036854775808"

text \<open>Rust's \<open>/\<close> truncates towards zero.\<close>

definition rust_div :: "int \<Rightarrow> int \<Rightarrow> int" where
  "rust_div a b = sgn a * sgn b * (\<bar>a\<bar> div \<bar>b\<bar>)"

lemma checked_add_u64_Some:
  "checked_add_u64 a b = Some c \<longleftrightarrow> c = a + b \<and> a + b < 2 ^ 64"
  by (auto simp: checked_add_u64_def)

lemma wrap_i64_id: "i64_min \<le> x \<Longrightarrow> x \<le> i64_max \<Longrightarrow> wrap_i64 x = x"
  by (simp add: wrap_i64_def i64_min_def i64_max_def)

lemma rust_div_two_nonneg: "0 \<le> a \<Longrightarrow> rust_div a 2 = a div 2"
  by (cases "a = 0") (simp_all add: rust_div_def)

lemma checked_succ_w64_unat: "checked_succ_w64 a = Some b \<Longrightarrow> unat b = unat a + 1"
proof -
  assume "checked_succ_w64 a = Some b"
  then have "a \<noteq> - 1" and "b = a + 1" by (auto simp: checked_succ_w64_def split: if_splits)
  then have "1 + a \<noteq> 0" by (metis add.commute add_eq_0_iff add.inverse_inverse)
  then have "unat (1 + a) = Suc (unat a)" by (rule unatSuc)
  with \<open>b = a + 1\<close> show ?thesis by (simp add: add.commute)
qed

section \<open>Strings\<close>

text \<open>
  A \<open>String\<close> is its UTF-8 bytes, one HOL character per byte, so \<open>len\<close> is the list's length.
  \<open>chars\<close> splits it into characters: a lead byte with its continuation bytes.
\<close>

definition byte_of :: "char \<Rightarrow> nat" where
  "byte_of c = of_char c"

definition is_cont :: "char \<Rightarrow> bool" where
  "is_cont c \<longleftrightarrow> 128 \<le> byte_of c \<and> byte_of c < 192"

function utf8_chars :: "string \<Rightarrow> string list" where
  "utf8_chars [] = []"
| "utf8_chars (b # bs) = (b # takeWhile is_cont bs) # utf8_chars (dropWhile is_cont bs)"
  by pat_completeness auto
termination
  by (relation "measure length") (auto simp: less_Suc_eq_le length_dropWhile_le)

definition is_whitespace :: "string \<Rightarrow> bool" where
  \<comment> \<open>\<open>char::is_whitespace\<close>: the Unicode \<open>White_Space\<close> characters, as UTF-8.\<close>
  "is_whitespace c = (case List.map byte_of c of
      [a] \<Rightarrow> (9 \<le> a \<and> a \<le> 13) \<or> a = 32
    | [a, b] \<Rightarrow> a = 194 \<and> (b = 133 \<or> b = 160)
    | [a, b, d] \<Rightarrow>
        (a = 225 \<and> b = 154 \<and> d = 128)
        \<or> (a = 226 \<and> b = 128 \<and> ((128 \<le> d \<and> d \<le> 138) \<or> d = 168 \<or> d = 169 \<or> d = 175))
        \<or> (a = 226 \<and> b = 129 \<and> d = 159)
        \<or> (a = 227 \<and> b = 128 \<and> d = 128)
    | _ \<Rightarrow> False)"

definition trim_end :: "string \<Rightarrow> string" where
  "trim_end s = concat (rev (dropWhile is_whitespace (rev (utf8_chars s))))"

definition trim_start :: "string \<Rightarrow> string" where
  "trim_start s = concat (dropWhile is_whitespace (utf8_chars s))"

definition trim :: "string \<Rightarrow> string" where
  "trim s = concat (rev (dropWhile is_whitespace
              (rev (dropWhile is_whitespace (utf8_chars s)))))"

definition blank :: "string \<Rightarrow> bool" where
  \<comment> \<open>\<open>s.trim().is_empty()\<close>\<close>
  "blank s \<longleftrightarrow> trim s = []"

definition take_chars :: "nat \<Rightarrow> string \<Rightarrow> string" where
  \<comment> \<open>\<open>s.chars().take(n).collect::<String>()\<close>\<close>
  "take_chars n s = concat (take n (utf8_chars s))"

definition len_utf16 :: "string \<Rightarrow> nat" where
  \<comment> \<open>\<open>char::len_utf16\<close> of one UTF-8 encoded character\<close>
  "len_utf16 c = (if 4 \<le> length c then 2 else 1)"

definition contains :: "string \<Rightarrow> string \<Rightarrow> bool" where
  "contains s p = (\<exists>i \<le> length s. take (length p) (drop i s) = p)"

definition starts_with :: "string \<Rightarrow> string \<Rightarrow> bool" where
  "starts_with s p = (take (length p) s = p)"

definition ascii_alphanumeric :: "char \<Rightarrow> bool" where
  "ascii_alphanumeric c = (let b = byte_of c in
     (48 \<le> b \<and> b \<le> 57) \<or> (65 \<le> b \<and> b \<le> 90) \<or> (97 \<le> b \<and> b \<le> 122))"

definition ascii_digit :: "char \<Rightarrow> bool" where
  "ascii_digit c = (48 \<le> byte_of c \<and> byte_of c \<le> 57)"

definition ascii_uppercase :: "char \<Rightarrow> bool" where
  "ascii_uppercase c = (65 \<le> byte_of c \<and> byte_of c \<le> 90)"

definition to_ascii_lower :: "char \<Rightarrow> char" where
  "to_ascii_lower c = (if ascii_uppercase c then char_of (byte_of c + 32) else c)"

text \<open>\<open>str::split(sep)\<close> on one byte; always yields at least one piece.\<close>

fun split_byte :: "char \<Rightarrow> string \<Rightarrow> string list" where
  "split_byte d [] = [[]]"
| "split_byte d (c # cs) =
     (if c = d then [] # split_byte d cs
      else case split_byte d cs of [] \<Rightarrow> [[c]] | w # ws \<Rightarrow> (c # w) # ws)"

fun join :: "string \<Rightarrow> string list \<Rightarrow> string" where
  "join sep [] = []"
| "join sep [w] = w"
| "join sep (w # v # ws) = w @ sep @ join sep (v # ws)"

subsection \<open>Facts about strings\<close>

lemma concat_utf8_chars [simp]: "concat (utf8_chars s) = s"
  by (induction s rule: utf8_chars.induct) simp_all

lemma utf8_chars_nonempty: "c \<in> set (utf8_chars s) \<Longrightarrow> c \<noteq> []"
  by (induction s rule: utf8_chars.induct) auto

text \<open>
  A sequence of characters is what \<open>chars\<close> yields when no character but the first starts with
  a continuation byte and every tail consists of continuation bytes; any slice of the
  characters of a string is such a sequence.
\<close>

definition char_shaped :: "string \<Rightarrow> bool" where
  "char_shaped c \<longleftrightarrow> c \<noteq> [] \<and> list_all is_cont (tl c)"

fun chars_seq :: "string list \<Rightarrow> bool" where
  "chars_seq [] = True"
| "chars_seq [c] = char_shaped c"
| "chars_seq (c # d # ds) = (char_shaped c \<and> \<not> is_cont (hd d) \<and> chars_seq (d # ds))"

lemma chars_seq_Cons:
  "chars_seq (c # ds) \<longleftrightarrow>
     char_shaped c \<and> (ds = [] \<or> \<not> is_cont (hd (hd ds))) \<and> chars_seq ds"
  by (cases ds) auto

lemma utf8_chars_hd: "utf8_chars s = c # cs \<Longrightarrow> hd c = hd s"
  by (cases s) auto

lemma chars_seq_utf8_chars: "chars_seq (utf8_chars s)"
proof (induction s rule: utf8_chars.induct)
  case 1 show ?case by simp
next
  case (2 b bs)
  have sh: "char_shaped (b # takeWhile is_cont bs)"
    by (auto simp: char_shaped_def list_all_iff dest: set_takeWhileD)
  have "utf8_chars (dropWhile is_cont bs) = [] \<or>
        \<not> is_cont (hd (hd (utf8_chars (dropWhile is_cont bs))))"
  proof (cases "dropWhile is_cont bs")
    case Nil then show ?thesis by (simp only: utf8_chars.simps simp_thms)
  next
    case (Cons x xs)
    then have "\<not> is_cont x" by (metis dropWhile_eq_Cons_conv)
    with Cons show ?thesis by (simp only: utf8_chars.simps list.sel simp_thms)
  qed
  with sh 2 show ?case by (simp only: utf8_chars.simps chars_seq_Cons)
qed

lemma chars_seq_take: "chars_seq cs \<Longrightarrow> chars_seq (take n cs)"
proof (induction cs arbitrary: n)
  case (Cons c cs)
  show ?case
  proof (cases n)
    case (Suc m)
    with Cons show ?thesis
      by (auto simp: chars_seq_Cons take_eq_Nil hd_take)
  qed simp
qed simp

lemma chars_seq_drop: "chars_seq cs \<Longrightarrow> chars_seq (drop n cs)"
proof (induction cs arbitrary: n)
  case (Cons c cs)
  then show ?case by (cases n) (auto simp: chars_seq_Cons)
qed simp

lemma utf8_chars_concat: "chars_seq cs \<Longrightarrow> utf8_chars (concat cs) = cs"
proof (induction cs)
  case (Cons c cs)
  then obtain b t where c: "c = b # t" and t: "list_all is_cont t"
    by (auto simp: chars_seq_Cons char_shaped_def neq_Nil_conv)
  have tw: "takeWhile is_cont (t @ concat cs) = t \<and> dropWhile is_cont (t @ concat cs) = concat cs"
  proof (cases "cs")
    case Nil with t show ?thesis by (simp add: list_all_iff takeWhile_eq_all_conv dropWhile_eq_Nil_conv)
  next
    case (Cons d ds)
    with Cons.prems obtain x u where "d = x # u" "\<not> is_cont x"
      by (auto simp: chars_seq_Cons char_shaped_def neq_Nil_conv)
    with t Cons show ?thesis
      by (simp add: list_all_iff takeWhile_append dropWhile_append3 dropWhile_append2 takeWhile_append2)
  qed
  from Cons have "utf8_chars (concat cs) = cs" by (simp add: chars_seq_Cons)
  with c tw show ?case by simp
qed simp

lemma utf8_chars_take_chars: "utf8_chars (take_chars n s) = take n (utf8_chars s)"
  by (simp add: take_chars_def utf8_chars_concat chars_seq_take chars_seq_utf8_chars)

lemma take_chars_prefix: "\<exists>r. s = take_chars n s @ r"
  unfolding take_chars_def by (metis append_take_drop_id concat_append concat_utf8_chars)

lemma take_chars_length: "length (take_chars n s) \<le> length s"
  by (metis take_chars_prefix length_append le_add1)

lemma dropWhile_as_drop: "\<exists>n. dropWhile P xs = drop n xs"
  by (metis dropWhile_eq_drop)

lemma rev_dropWhile_rev_as_take: "\<exists>n. rev (dropWhile P (rev xs)) = take n xs"
  by (metis dropWhile_eq_drop rev_drop rev_rev_ident)

lemma utf8_chars_trim:
  "utf8_chars (trim s) = rev (dropWhile is_whitespace (rev (dropWhile is_whitespace (utf8_chars s))))"
proof -
  obtain n where n: "dropWhile is_whitespace (utf8_chars s) = drop n (utf8_chars s)"
    using dropWhile_as_drop by blast
  obtain m where "rev (dropWhile is_whitespace (rev (drop n (utf8_chars s)))) = take m (drop n (utf8_chars s))"
    using rev_dropWhile_rev_as_take by blast
  with n show ?thesis
    by (simp add: trim_def utf8_chars_concat chars_seq_take chars_seq_drop chars_seq_utf8_chars)
qed

lemma trim_empty [simp]: "trim [] = []"
  by (simp add: trim_def)

lemma blank_empty [simp]: "blank []"
  by (simp add: blank_def)

lemma strip_Nil_iff:
  "rev (dropWhile P (rev (dropWhile P xs))) = [] \<longleftrightarrow> (\<forall>x \<in> set xs. P x)"
proof (cases "dropWhile P xs")
  case Nil
  then have "\<forall>x \<in> set xs. P x" by (simp only: dropWhile_eq_Nil_conv)
  with Nil show ?thesis by (simp only: dropWhile.simps rev.simps) simp
next
  case (Cons y ys)
  then have "\<not> P y" by (metis dropWhile_eq_Cons_conv)
  moreover from Cons have "y \<in> set xs" by (metis list.set_intros(1) set_dropWhileD)
  ultimately show ?thesis using Cons by (auto simp: dropWhile_eq_Nil_conv)
qed

lemma blank_iff: "blank s \<longleftrightarrow> (\<forall>c \<in> set (utf8_chars s). is_whitespace c)"
proof -
  have "trim s = [] \<longleftrightarrow> utf8_chars (trim s) = []"
    by (metis concat.simps(1) concat_utf8_chars utf8_chars.simps(1))
  then show ?thesis by (simp only: blank_def utf8_chars_trim strip_Nil_iff)
qed

lemma dropWhile_idem: "dropWhile P (dropWhile P xs) = dropWhile P xs"
  by (induction xs) auto

lemma hd_strip_end: "rev (dropWhile P (rev ys)) \<noteq> [] \<Longrightarrow> hd (rev (dropWhile P (rev ys))) = hd ys"
  by (metis hd_take rev_dropWhile_rev_as_take take_eq_Nil2 neq0_conv)

lemma strip_idem:
  fixes P :: "'a \<Rightarrow> bool"
  defines "strip \<equiv> \<lambda>xs. rev (dropWhile P (rev (dropWhile P xs)))"
  shows "strip (strip xs) = strip xs"
proof (cases "strip xs = []")
  case True
  have "strip [] = []" by (simp add: strip_def)
  with True show ?thesis by simp
next
  case False
  let ?ys = "dropWhile P xs"
  from False have "hd (strip xs) = hd ?ys" unfolding strip_def by (rule hd_strip_end)
  moreover from False have "?ys \<noteq> []"
    unfolding strip_def by (metis dropWhile.simps(1) rev.simps(1))
  ultimately have "\<not> P (hd (strip xs))" by (simp add: hd_dropWhile)
  with False have "dropWhile P (strip xs) = strip xs" by (cases "strip xs") auto
  then show ?thesis by (simp add: strip_def dropWhile_idem)
qed

lemma trim_trim [simp]: "trim (trim s) = trim s"
  by (metis utf8_chars_trim strip_idem concat_utf8_chars)

lemma trim_length: "length (trim s) \<le> length s"
proof -
  have "\<exists>a b. s = a @ trim s @ b"
  proof -
    obtain n where n: "dropWhile is_whitespace (utf8_chars s) = drop n (utf8_chars s)"
      using dropWhile_as_drop by blast
    obtain m where m: "trim s = concat (take m (drop n (utf8_chars s)))"
      unfolding trim_def n using rev_dropWhile_rev_as_take by metis
    have "s = concat (take n (utf8_chars s)) @ concat (take m (drop n (utf8_chars s)))
              @ concat (drop m (drop n (utf8_chars s)))"
      by (metis append_take_drop_id concat_append concat_utf8_chars)
    with m show ?thesis by metis
  qed
  then show ?thesis by (metis length_append le_add1 le_add2 le_trans)
qed

section \<open>Hash maps\<close>

text \<open>
  A \<open>HashMap\<close> is an association list with distinct keys. Its iteration order is the list's
  order: since every list is allowed, a fact proved for all lists holds for every order in
  which the hash map may yield its entries.
\<close>

type_synonym ('k, 'v) hmap = "('k \<times> 'v) list"

definition hm_get :: "('k, 'v) hmap \<Rightarrow> 'k \<Rightarrow> 'v option" where
  "hm_get m k = map_of m k"

definition hm_contains :: "('k, 'v) hmap \<Rightarrow> 'k \<Rightarrow> bool" where
  "hm_contains m k = (hm_get m k \<noteq> None)"

definition hm_insert :: "'k \<Rightarrow> 'v \<Rightarrow> ('k, 'v) hmap \<Rightarrow> ('k, 'v) hmap" where
  "hm_insert k v m = AList.update k v m"

definition hm_remove :: "'k \<Rightarrow> ('k, 'v) hmap \<Rightarrow> ('k, 'v) hmap" where
  "hm_remove k m = AList.delete k m"

definition hm_values :: "('k, 'v) hmap \<Rightarrow> 'v list" where
  "hm_values m = List.map snd m"

definition hm_keys :: "('k, 'v) hmap \<Rightarrow> 'k list" where
  "hm_keys m = List.map fst m"

definition hm_ok :: "('k, 'v) hmap \<Rightarrow> bool" where
  "hm_ok m = distinct (List.map fst m)"

text \<open>The contract its clients rely on.\<close>

locale keyed_store =
  fixes get :: "'m \<Rightarrow> 'k \<Rightarrow> 'v option"
    and ins :: "'k \<Rightarrow> 'v \<Rightarrow> 'm \<Rightarrow> 'm"
    and rem :: "'k \<Rightarrow> 'm \<Rightarrow> 'm"
    and vals :: "'m \<Rightarrow> 'v list"
    and invar :: "'m \<Rightarrow> bool"
  assumes get_ins: "get (ins k v m) k' = (if k' = k then Some v else get m k')"
    and get_rem: "invar m \<Longrightarrow> get (rem k m) k' = (if k' = k then None else get m k')"
    and vals_iff: "invar m \<Longrightarrow> v \<in> set (vals m) \<longleftrightarrow> (\<exists>k. get m k = Some v)"
    and invar_ins: "invar m \<Longrightarrow> invar (ins k v m)"
    and invar_rem: "invar m \<Longrightarrow> invar (rem k m)"
begin

lemma get_ins_same [simp]: "get (ins k v m) k = Some v"
  by (simp add: get_ins)

lemma get_ins_other: "k' \<noteq> k \<Longrightarrow> get (ins k v m) k' = get m k'"
  by (simp add: get_ins)

lemma vals_ins:
  "invar m \<Longrightarrow> w \<in> set (vals (ins k v m)) \<longleftrightarrow> w = v \<or> (\<exists>k'. k' \<noteq> k \<and> get m k' = Some w)"
  by (auto simp: vals_iff invar_ins get_ins)

lemma vals_ins_subset: "invar m \<Longrightarrow> set (vals (ins k v m)) \<subseteq> insert v (set (vals m))"
  by (auto simp: vals_ins vals_iff)

text \<open>A map keyed by a field of its values: the field identifies the value.\<close>

definition keyed_by :: "('v \<Rightarrow> 'k) \<Rightarrow> 'm \<Rightarrow> bool" where
  "keyed_by f m \<longleftrightarrow> (\<forall>k v. get m k = Some v \<longrightarrow> f v = k)"

lemma keyed_by_ins: "keyed_by f m \<Longrightarrow> f v = k \<Longrightarrow> keyed_by f (ins k v m)"
  by (auto simp: keyed_by_def get_ins)

lemma keyed_by_rem: "invar m \<Longrightarrow> keyed_by f m \<Longrightarrow> keyed_by f (rem k m)"
  by (auto simp: keyed_by_def get_rem)

lemma keyed_by_vals: "invar m \<Longrightarrow> keyed_by f m \<Longrightarrow> v \<in> set (vals m) \<longleftrightarrow> get m (f v) = Some v"
  by (auto simp: vals_iff keyed_by_def)

end

interpretation hm: keyed_store hm_get hm_insert hm_remove hm_values hm_ok
proof unfold_locales
  fix k k' :: 'a and v :: 'b and m
  show "hm_get (hm_insert k v m) k' = (if k' = k then Some v else hm_get m k')"
    by (simp add: hm_get_def hm_insert_def update_conv)
  show "hm_ok m \<Longrightarrow> hm_get (hm_remove k m) k' = (if k' = k then None else hm_get m k')"
    by (simp add: hm_get_def hm_remove_def delete_conv)
  show "hm_ok m \<Longrightarrow> hm_ok (hm_insert k v m)"
    by (simp add: hm_ok_def hm_insert_def distinct_update)
  show "hm_ok m \<Longrightarrow> hm_ok (hm_remove k m)"
    by (simp add: hm_ok_def hm_remove_def distinct_delete)
next
  fix v :: 'b and m :: "('a \<times> 'b) list"
  assume ok: "hm_ok m"
  show "v \<in> set (hm_values m) \<longleftrightarrow> (\<exists>k. hm_get m k = Some v)"
  proof
    assume "v \<in> set (hm_values m)"
    then obtain k where "(k, v) \<in> set m" by (auto simp: hm_values_def)
    with ok show "\<exists>k. hm_get m k = Some v"
      by (auto simp: hm_ok_def hm_get_def)
  next
    assume "\<exists>k. hm_get m k = Some v"
    then show "v \<in> set (hm_values m)"
      by (force simp: hm_get_def hm_values_def dest: map_of_SomeD)
  qed
qed

abbreviation hm_keyed :: "('v \<Rightarrow> 'k) \<Rightarrow> ('k, 'v) hmap \<Rightarrow> bool" where
  "hm_keyed \<equiv> hm.keyed_by"

lemma hm_contains_insert: "hm_contains (hm_insert k v m) k' \<longleftrightarrow> k' = k \<or> hm_contains m k'"
  by (simp add: hm_contains_def hm.get_ins)

lemma hm_get_in_values: "hm_get m k = Some v \<Longrightarrow> v \<in> set (hm_values m)"
  by (force simp: hm_get_def hm_values_def dest: map_of_SomeD)

text \<open>Hash sets are lists used as sets.\<close>

definition hs_insert :: "'a \<Rightarrow> 'a list \<Rightarrow> 'a list" where
  "hs_insert x s = List.insert x s"

definition hs_remove :: "'a \<Rightarrow> 'a list \<Rightarrow> 'a list" where
  "hs_remove x s = removeAll x s"

lemma set_hs_insert [simp]: "set (hs_insert x s) = insert x (set s)"
  by (simp add: hs_insert_def)

lemma set_hs_remove [simp]: "set (hs_remove x s) = set s - {x}"
  by (simp add: hs_remove_def)

section \<open>Numbers and words of a text\<close>

text \<open>\<open>Display\<close> of integers; the words \<open>split_whitespace\<close> yields, joined by one space.\<close>

fun show_nat :: "nat \<Rightarrow> string" where
  "show_nat n = (if n < 10 then [char_of (48 + n)] else show_nat (n div 10) @ [char_of (48 + n mod 10)])"

declare show_nat.simps [simp del]

definition show_int :: "int \<Rightarrow> string" where
  "show_int k = (if k < 0 then CHR ''-'' # show_nat (nat (- k)) else show_nat (nat k))"

fun split_when :: "('a \<Rightarrow> bool) \<Rightarrow> 'a list \<Rightarrow> 'a list list" where
  "split_when P [] = [[]]"
| "split_when P (c # cs) =
     (if P c then [] # split_when P cs
      else case split_when P cs of [] \<Rightarrow> [[c]] | v # vs \<Rightarrow> (c # v) # vs)"

definition compact_whitespace :: "string \<Rightarrow> string" where
  \<comment> \<open>\<open>split_whitespace().collect::<Vec<_>>().join(" ")\<close>\<close>
  "compact_whitespace s = join '' '' (List.map concat
     (List.filter (\<lambda>cs. cs \<noteq> []) (split_when is_whitespace (utf8_chars s))))"

section \<open>Iterator adapters\<close>

text \<open>\<open>Iterator::max\<close> on naturals, \<open>position\<close> and \<open>min_by_key\<close> (the first minimum wins).\<close>

definition max_or :: "nat \<Rightarrow> nat list \<Rightarrow> nat" where
  "max_or d xs = (case xs of [] \<Rightarrow> d | _ \<Rightarrow> fold max xs 0)"

fun position :: "('a \<Rightarrow> bool) \<Rightarrow> 'a list \<Rightarrow> nat option" where
  "position P [] = None"
| "position P (x # xs) = (if P x then Some 0 else map_option Suc (position P xs))"

fun min_by_key :: "('a \<Rightarrow> 'k::linorder) \<Rightarrow> 'a list \<Rightarrow> 'a option" where
  "min_by_key f [] = None"
| "min_by_key f (x # xs) =
     (case min_by_key f xs of None \<Rightarrow> Some x | Some y \<Rightarrow> if f y < f x then Some y else Some x)"

definition insert_at :: "nat \<Rightarrow> 'a \<Rightarrow> 'a list \<Rightarrow> 'a list" where
  \<comment> \<open>\<open>Vec::insert\<close>\<close>
  "insert_at i x xs = take i xs @ x # drop i xs"

lemma fold_max_ge: "a \<le> fold max xs (a::nat)"
proof (induction xs arbitrary: a)
  case (Cons y ys)
  have "a \<le> max y a" by simp
  also have "\<dots> \<le> fold max ys (max y a)" by (rule Cons.IH)
  finally show ?case by simp
qed simp

lemma fold_max_upper: "x \<in> set xs \<Longrightarrow> x \<le> fold max xs (a::nat)"
proof (induction xs arbitrary: a)
  case (Cons y ys)
  then show ?case using fold_max_ge[of "max y a" ys] by auto
qed simp

lemma max_or_upper: "x \<in> set xs \<Longrightarrow> x \<le> max_or d xs"
  using fold_max_upper[of x xs 0] by (cases xs) (auto simp: max_or_def)

lemma position_Some: "position P xs = Some i \<Longrightarrow> i < length xs \<and> P (xs ! i) \<and> (\<forall>j<i. \<not> P (xs ! j))"
proof (induction xs arbitrary: i)
  case (Cons x xs)
  show ?case
  proof (cases "P x")
    case False
    with Cons.prems obtain j where "position P xs = Some j" "i = Suc j" by auto
    with Cons.IH[of j] False show ?thesis by (auto simp: less_Suc_eq_0_disj)
  qed (use Cons.prems in auto)
qed simp

lemma min_by_key_None [simp]: "min_by_key f xs = None \<longleftrightarrow> xs = []"
  by (cases xs) (auto split: option.splits)

lemma min_by_key_Some: "min_by_key f xs = Some y \<Longrightarrow> y \<in> set xs \<and> (\<forall>x \<in> set xs. f y \<le> f x)"
proof (induction xs arbitrary: y)
  case (Cons x xs)
  show ?case
  proof (cases "min_by_key f xs")
    case None with Cons.prems show ?thesis by auto
  next
    case (Some z)
    with Cons show ?thesis by (fastforce split: if_splits)
  qed
qed simp

lemma set_insert_at [simp]: "set (insert_at i x xs) = insert x (set xs)"
  by (metis append_take_drop_id insert_at_def list.simps(15) set_append Un_insert_right)

end
