(* ===== verification/Domain.thy ===== *)
theory Domain
  imports Rust_Prelude
begin

text \<open>
  The data of \<open>crates/ditch_core/src\<close> (\<open>lib.rs\<close>, \<open>tasks.rs\<close>, \<open>acceptance.rs\<close>, \<open>skills.rs\<close>,
  \<open>github.rs\<close>) and the chat, attention and event types of \<open>crates/ditch_protocol/src/lib.rs\<close>:
  structs as records, enums as datatypes. Field and constructor names carry a short prefix of
  their type, since several types of the source share names. Identifier newtypes are the
  \<open>Uuid\<close> they wrap.
\<close>

type_synonym project_id = uuid
type_synonym task_id = uuid
type_synonym attempt_id = uuid
type_synonym agent_id = uuid
type_synonym pane_id = uuid

datatype json = JNull | JBool bool | JInt int | JStr string | JArr "json list"
  | JObj "(string \<times> json) list"

section \<open>Agents and projects\<close>

datatype agent_state = AsStarting | AsWorking | AsStopping | AsAwaitingApproval | AsBlocked
  | AsIdle | AsCompleted | AsFailed | AsStale | AsInterrupted | AsUnknown

datatype agent_resume_block_reason = NoCodexThread | CodexHomeMismatch

datatype attention_kind = AkApprovalRequired | AkBlocked | AkCompleted | AkFailed | AkStale
  | AkNoOutput | AkUnknownState

datatype agent_provider = Codex | Claude | Shell

datatype codex_launch_mode = InteractiveTui | Exec

datatype agent_approval_preset = Ask | ApproveForMe | FullAccess

datatype agent_transport = Legacy | AppServer

datatype task_actor = User | Agent | Daemon | Ditchmaster

record skill_binding =
  sb_identity :: string
  sb_name :: string
  sb_path :: path
  sb_content_hash :: string
  sb_revision :: "string option"
  sb_origin :: task_actor
  sb_reason :: "string option"
  sb_created_at :: time

record agent_execution_profile =
  ep_transport :: agent_transport
  ep_skills :: "skill_binding list"
  ep_model :: "string option"
  ep_reasoning_effort :: "string option"
  ep_approval :: agent_approval_preset

definition default_profile :: agent_execution_profile where
  "default_profile = \<lparr>ep_transport = Legacy, ep_skills = [], ep_model = None,
     ep_reasoning_effort = None, ep_approval = ApproveForMe\<rparr>"

datatype project_git_policy = RequireRepository | InitializeRepository | AllowOutsideGit

datatype project_execution_target = Local
  | Remote (remote_machine_id: uuid) (ssh_host_alias: string)

record project =
  p_id :: project_id
  p_name :: string
  p_root :: path
  p_created_at :: time
  p_archived_at :: "time option"
  p_git_policy :: project_git_policy
  p_execution_target :: project_execution_target

definition is_remote :: "project \<Rightarrow> bool" where
  "is_remote p = (case p_execution_target p of Remote _ _ \<Rightarrow> True | Local \<Rightarrow> False)"

record agent_run =
  ar_coordinator_group :: "uuid option"
  ar_id :: agent_id
  ar_provider :: agent_provider
  ar_state :: agent_state
  ar_can_stop :: bool
  ar_launch_mode :: codex_launch_mode
  ar_execution_profile :: agent_execution_profile
  ar_project_id :: project_id
  ar_task_id :: "task_id option"
  ar_pane_id :: "pane_id option"
  ar_native_session_id :: "string option"
  ar_codex_title :: "string option"
  ar_naming_failed :: bool
  ar_user_title :: "string option"
  ar_origin_codex_home :: "string option"
  ar_current_prompt :: "string option"
  ar_last_visible_action :: "string option"
  ar_state_confidence :: real
  ar_state_evidence :: string
  ar_started_at :: time
  ar_updated_at :: time
  ar_finished_at :: "time option"
  ar_exit_code :: "int option"
  ar_resume_block_reason :: "agent_resume_block_reason option"

datatype agent_chat_role = CrUser | CrAssistant | CrSystem | CrTool

record agent_chat_message =
  cm_agent_id :: agent_id
  cm_role :: agent_chat_role
  cm_text :: string
  cm_created_at :: time

record runtime_attention =
  at_id :: uuid
  at_kind :: attention_kind
  at_agent_id :: "agent_id option"
  at_project_id :: "project_id option"
  at_project_name :: "string option"
  at_agent_name :: "string option"
  at_title :: string
  at_body :: string
  at_created_at :: time
  at_read_at :: "time option"

section \<open>GitHub sources\<close>

record github_issue_type =
  it_id :: nat
  it_name :: string
  it_color :: "string option"

record github_task_source =
  gs_issue_type :: "github_issue_type option"
  gs_project_paths :: "string list"
  gs_repository_id :: nat
  gs_issue_id :: nat
  gs_repository :: string
  gs_number :: nat
  gs_url :: string
  gs_state :: string
  gs_last_synced_at :: string

record github_user =
  gu_login :: string

record github_label =
  gl_name :: string
  gl_color :: string

record github_issue =
  gi_issue_type :: "github_issue_type option"
  gi_id :: nat
  gi_number :: nat
  gi_title :: string
  gi_body :: "string option"
  gi_state :: string
  gi_state_reason :: "string option"
  gi_html_url :: string
  gi_updated_at :: string
  gi_created_at :: string
  gi_closed_at :: "string option"
  gi_user :: "github_user option"
  gi_labels :: "github_label list"
  gi_assignees :: "github_user list"
  gi_comments :: nat

section \<open>Acceptance contracts and their evidence\<close>

datatype retry_mode = Fresh | Resume

record loop_policy =
  lp_enabled :: bool
  lp_max_attempts :: nat
  lp_deadline_seconds :: nat
  lp_validator_timeout_seconds :: nat
  lp_stop_on_denial :: bool
  lp_stop_on_identical_failure :: bool
  lp_require_change :: bool
  lp_retry_mode :: retry_mode

definition default_loop_policy :: loop_policy where
  "default_loop_policy = \<lparr>lp_enabled = False, lp_max_attempts = 3, lp_deadline_seconds = 1800,
     lp_validator_timeout_seconds = 60, lp_stop_on_denial = True,
     lp_stop_on_identical_failure = True, lp_require_change = False, lp_retry_mode = Fresh\<rparr>"

record command_check =
  cc_argv :: "string list"
  cc_cwd :: string
  cc_timeout_seconds :: nat
  cc_expected_exit :: int

datatype file_predicate = Exists | Absent | Contains string | NotContains string

datatype git_predicate = Clean | Dirty | ChangedPath string | ForbiddenPath string
  | MaxDiffBytes nat

datatype criterion_kind = Human | AgentAssertion | Command command_check
  | TestPreset string | File string file_predicate | Git git_predicate

record acceptance_criterion =
  ac_id :: uuid
  ac_label :: string
  ac_required :: bool
  ac_kind :: criterion_kind

record acceptance_config =
  cfg_policy :: loop_policy
  cfg_criteria :: "acceptance_criterion list"

definition default_acceptance_config :: acceptance_config where
  "default_acceptance_config = \<lparr>cfg_policy = default_loop_policy, cfg_criteria = []\<rparr>"

record workspace_evidence =
  we_fingerprint :: string
  we_head :: "string option"
  we_dirty_paths :: "string list"
  we_diff_stat :: string
  we_diff_bytes :: nat
  we_warnings :: "string list"
  we_captured_at :: time

datatype check_status = CkPassed | CkFailed | CkHumanReview | CkAssertion
  | CkInfrastructureError | CkCancelled

record validator_evidence =
  ve_criterion :: acceptance_criterion
  ve_status :: check_status
  ve_command :: "command_check option"
  ve_started_at :: time
  ve_duration_ms :: nat
  ve_exit_code :: "int option"
  ve_output :: string

datatype attempt_result = ArQueued | ArWorking | ArValidating | ArPassed | ArFailed
  | ArBlocked | ArCancelled | ArInterrupted

fun result_active :: "attempt_result \<Rightarrow> bool" where
  "result_active ArQueued = True"
| "result_active ArWorking = True"
| "result_active ArValidating = True"
| "result_active _ = False"

record attempt_failure =
  af_code :: string
  af_message :: string

record task_attempt =
  ta_validation_only :: bool
  ta_id :: uuid
  ta_cycle_id :: uuid
  ta_task_id :: task_id
  ta_agent_id :: agent_id
  ta_thread_id :: "string option"
  ta_ordinal :: nat
  ta_skills :: "skill_binding list"
  ta_execution_profile :: agent_execution_profile
  ta_prompt :: string
  ta_reviewer_feedback :: "string option"
  ta_started_at :: time
  ta_ended_at :: "time option"
  ta_result :: attempt_result
  ta_failure :: "attempt_failure option"
  ta_base :: workspace_evidence
  ta_workspace :: "workspace_evidence option"
  ta_validators :: "validator_evidence list"
  ta_summary :: "string option"
  ta_provider_usage :: "json option"
  ta_approvals :: "string list"

record review_submission =
  rs_id :: uuid
  rs_attempt_id :: "uuid option"
  rs_agent_id :: "agent_id option"
  rs_summary :: string
  rs_criteria :: "validator_evidence list"
  rs_workspace :: workspace_evidence
  rs_preexisting_dirty_paths :: "string list"
  rs_approvals :: "string list"
  rs_created_at :: time

record task_acceptance =
  acc_config :: acceptance_config
  acc_attempts :: "task_attempt list"
  acc_submissions :: "review_submission list"
  acc_current_submission :: "uuid option"

definition default_task_acceptance :: task_acceptance where
  "default_task_acceptance = \<lparr>acc_config = default_acceptance_config, acc_attempts = [],
     acc_submissions = [], acc_current_submission = None\<rparr>"

section \<open>Tasks\<close>

datatype task_state = TsDraft | TsBacklog | TsReady | TsRunning | TsBlocked | TsInReview
  | TsAccepted | TsRejected | TsCancelled

datatype task_column = Backlog | Todo | InProgress | InReview | Done

datatype task_condition = TcIdle | TcQueued | TcRunning | TcAwaitingApproval | TcBlocked
  | TcFailed | TcCancelled

datatype task_priority = Low | Normal | High | Urgent

datatype task_issue_kind = Bug | Feature | Custom

record task_plan_job =
  pj_id :: uuid
  pj_status :: string
  pj_title :: string
  pj_description :: string
  pj_previous_plan :: string
  pj_started_at :: time
  pj_finished_at :: "time option"
  pj_result :: "string option"
  pj_error :: "string option"

record task_planning =
  pl_text :: string
  pl_job :: "task_plan_job option"

record task_execution_queue =
  q_agent_id :: "agent_id option"
  q_position :: nat
  q_profile :: agent_execution_profile
  q_feedback :: "string option"

record task =
  t_release_id :: "uuid option"
  t_issue_kind :: task_issue_kind
  t_execution_queue :: "task_execution_queue option"
  t_planning :: task_planning
  t_remote_pending :: bool
  t_github_source :: "github_task_source option"
  t_coordinator_group :: "uuid option"
  t_continue_agent_id :: "agent_id option"
  t_acceptance :: task_acceptance
  t_skills :: "skill_binding list"
  t_id :: task_id
  t_project_id :: project_id
  t_title :: string
  t_description :: string
  t_state :: task_state
  t_acceptance_criteria :: "string list"
  t_created_at :: time
  t_condition :: task_condition
  t_order_key :: int
  t_priority :: task_priority
  t_creator :: task_actor
  t_assigned_agent_id :: "agent_id option"
  t_revision :: u64
  t_updated_at :: "time option"
  t_started_at :: "time option"
  t_submitted_at :: "time option"
  t_completed_at :: "time option"
  t_cancelled_at :: "time option"
  t_archived :: bool
  t_last_reason :: "string option"
  t_review_summary :: "string option"

datatype task_action = Prioritize | ReturnToBacklog | Start | Submit (submit_summary: string)
  | RequestChanges (changes_feedback: string) | Accept | Cancel (cancel_reason: string) | Reopen
  | ReturnToTodo (todo_reason: string)

record task_draft =
  d_issue_kind :: task_issue_kind
  d_skills :: "skill_binding list"
  d_title :: string
  d_description :: string
  d_acceptance_criteria :: "string list"
  d_priority :: task_priority

record task_audit =
  au_id :: uuid
  au_task_id :: task_id
  au_actor :: task_actor
  au_action :: string
  au_from_column :: "task_column option"
  au_to_column :: task_column
  au_agent_id :: "agent_id option"
  au_created_at :: time
  au_reason :: "string option"
  au_summary :: "string option"

record task_detail =
  td_task :: task
  td_history :: "task_audit list"

datatype task_error_code = NotFound | InvalidInput | IllegalTransition | RevisionConflict
  | AgentBusy | WorkspaceBusy | IdempotencyConflict | HasHistory | Storage | Unsupported

datatype task_error = TaskError (te_code: task_error_code) (te_message: string)

type_synonym 'a tres = "('a, task_error) result"

record project_release =
  rel_id :: uuid
  rel_project_id :: project_id
  rel_name :: string
  rel_created_at :: time

record task_revision =
  tr_task_id :: task_id
  tr_expected_revision :: u64

datatype release_destination = Other | Existing uuid | New string

record workspace_lease =
  wl_coordinator_group :: "uuid option"
  wl_target :: string
  wl_root :: path
  wl_unconfined :: bool

record board_execution_state =
  bx_project_id :: project_id
  bx_paused :: bool
  bx_revision :: nat

section \<open>The task protocol\<close>

datatype task_operation =
    ListReleases
  | AcceptRelease "task_revision list" release_destination
  | AssignRelease "task_revision list" release_destination
  | MaterializeBoardTask task "task option"
  | RepositoryDiscovery
  | AttachGitHub task_id github_task_source github_issue
  | BoardExecution "bool option" "nat option"
  | Enqueue task_id u64 agent_execution_profile
  | ReorderQueue task_id u64 "task_id option"
  | GeneratePlan task_id u64 "string option"
  | CancelPlan task_id uuid
  | UpdateDescription task_id string string string string
      \<comment> \<open>expected description, expected plan, description, plan\<close>
  | BoardProjects "project_id list option"
  | ConfigureAcceptance task_id u64 acceptance_config "command_check list"
  | ApproveTestPreset string command_check
  | TestPresets
  | ReviewDiff task_id uuid
  | Revalidate task_id u64
  | CancelLoop task_id u64
  | List "task_column option" bool
  | Get task_id
  | CreateBacklog task_draft
  | CreateIdentified "task option" task_id "uuid option" "agent_id option" task_draft
      \<comment> \<open>board task, task id, coordinator group, conversation to continue, draft\<close>
  | Create task_draft
  | Update task_id u64 task_draft
  | Transition task_id u64 task_action
  | Move task_id u64 task_column "task_id option"
  | StartTask task_id u64 agent_execution_profile
  | Link task_id u64 agent_id
  | SelectAgent task_id u64 "agent_id option" "task_id option" "u64 option"
      \<comment> \<open>agent, task it is taken from, that task's revision\<close>
  | Delete task_id u64

record task_request =
  rq_project_id :: "project_id option"
  rq_request_id :: uuid
  rq_operation :: task_operation

datatype task_response =
    RReleases "project_release list"
  | RReleaseBatch "task list" "project_release list"
  | RMaterialized task
  | RRepositoryDiscovery json
  | RBoardExecution board_execution_state
  | RBoardProjects "project_id list"
  | RDiff string
  | RTestPresets "(string \<times> command_check) list"
  | RTasks "task list"
  | RDetail task_detail
  | RChanged task
  | RDeleted task_id
  | RError task_error

section \<open>Permissions, snapshots and events\<close>

datatype permission_action_kind = AnswerQuestion | EditFiles | RunCommand | InstallDependencies
  | ModifyGitState | AccessNetwork | ManageCodexConfig | ManageProjectTools | StopProcessGroup

record agent_question_option =
  qo_label :: string
  qo_description :: string

record agent_question =
  qu_id :: string
  qu_header :: string
  qu_question :: string
  qu_options :: "agent_question_option list"
  qu_is_other :: bool
  qu_is_secret :: bool

record permission_request =
  pq_response_pending :: bool
  pq_questions :: "agent_question list"
  pq_id :: uuid
  pq_project_id :: project_id
  pq_agent_id :: "agent_id option"
  pq_action :: permission_action_kind
  pq_summary :: string
  pq_target :: string
  pq_command :: "string option"
  pq_created_at :: time
  pq_expires_at :: "time option"

record remote_host_presence =
  hp_ssh_host_alias :: string
  hp_state :: string
  hp_updated_at :: time
  hp_detail :: "string option"

record snapshot =
  sn_event_epoch :: uuid
  sn_event_sequence :: nat
  sn_remote_hosts :: "remote_host_presence list"
  sn_projects :: "project list"
  sn_releases :: "project_release list"
  sn_tasks :: "task list"
  sn_agents :: "agent_run list"
  sn_attention :: "runtime_attention list"
  sn_messages :: "agent_chat_message list"
  sn_permissions :: "permission_request list"

text \<open>The events the modelled operations broadcast or receive.\<close>

datatype server_event =
    PermissionResolved uuid
  | AgentStreamingText agent_id string
  | SkillsChanged "project_id option"
  | SnapshotReplaced snapshot
  | AttentionSnapshotReplaced "runtime_attention list"
  | RemoteHostStatusChanged remote_host_presence
  | RemoteRuntimeRestarted string
  | ProjectChanged project
  | ProjectDeleted project_id
  | ReleaseCreated project_release
  | TaskChanged task
  | BoardExecutionChanged board_execution_state
  | TaskDeleted task_id project_id
  | AgentChanged agent_run
  | AgentDeleted agent_id
  | AgentMessageAppended agent_chat_message
  | AttentionRaised runtime_attention
  | AttentionDismissed uuid
  | AttentionRead "uuid list"
  | PermissionRequested permission_request
  | ProjectTerminalOutput uuid "nat list"
  | ProjectTerminalExited uuid

end
