(* ===== verification/Task_Workflow.thy ===== *)
theory Task_Workflow
  imports Domain
begin

text \<open>
  The task workflow of \<open>crates/ditch_core/src/tasks.rs\<close>: draft validation, task creation, the
  board column of a state, revisions, audit records and the guarded transition function; then
  workspace leases and release names. The board as its users see it is the step relation
  \<open>board_step\<close>, which \<open>transition\<close> implements exactly; the optimistic lock it gives its
  callers is the contract \<open>versioned\<close>.
\<close>

section \<open>Drafts, creation, revisions, audits\<close>

definition validate_draft :: "task_draft \<Rightarrow> unit tres" where
  "validate_draft d =
     (if blank (d_title d)
        \<or> 512 < length (d_title d)
        \<or> 65536 < length (d_description d)
        \<or> 100 < length (d_acceptance_criteria d)
        \<or> (\<exists>s \<in> set (d_acceptance_criteria d). blank s \<or> 4096 < length s)
      then Err (TaskError InvalidInput
        ''Provide a title (up to 512 bytes), description (64 KiB), and up to 100 non-empty criteria.'')
      else Ok ())"

definition new_task :: "uuid \<Rightarrow> time \<Rightarrow> project_id \<Rightarrow> task_draft \<Rightarrow> int \<Rightarrow> task tres" where
  "new_task uid now project_id draft order_key =
     res_bind (validate_draft draft) (\<lambda>_. Ok
       \<lparr>t_release_id = None,
        t_issue_kind = d_issue_kind draft,
        t_execution_queue = None,
        t_planning = \<lparr>pl_text = [], pl_job = None\<rparr>,
        t_remote_pending = False,
        t_github_source = None,
        t_coordinator_group = None,
        t_continue_agent_id = None,
        t_acceptance = default_task_acceptance,
        t_skills = d_skills draft,
        t_id = uid,
        t_project_id = project_id,
        t_title = trim (d_title draft),
        t_description = d_description draft,
        t_state = TsReady,
        t_acceptance_criteria = d_acceptance_criteria draft,
        t_created_at = now,
        t_condition = TcIdle,
        t_order_key = order_key,
        t_priority = d_priority draft,
        t_creator = User,
        t_assigned_agent_id = None,
        t_revision = 1,
        t_updated_at = Some now,
        t_started_at = None,
        t_submitted_at = None,
        t_completed_at = None,
        t_cancelled_at = None,
        t_archived = False,
        t_last_reason = None,
        t_review_summary = None\<rparr>)"

fun state_column :: "task_state \<Rightarrow> task_column" where
  "state_column TsBacklog = Backlog"
| "state_column TsDraft = Todo"
| "state_column TsReady = Todo"
| "state_column TsCancelled = Todo"
| "state_column TsRunning = InProgress"
| "state_column TsBlocked = InProgress"
| "state_column TsRejected = InProgress"
| "state_column TsInReview = InReview"
| "state_column TsAccepted = Done"

definition column :: "task \<Rightarrow> task_column" where
  "column t = state_column (t_state t)"

definition check_revision :: "task \<Rightarrow> u64 \<Rightarrow> unit tres" where
  "check_revision t expected =
     (if t_revision t \<noteq> expected
      then Err (TaskError RevisionConflict ''This task changed. Refresh it and retry.'')
      else Ok ())"

definition waiting_in_queue :: "task \<Rightarrow> bool" where
  "waiting_in_queue t =
     (t_execution_queue t \<noteq> None
      \<and> column t = InProgress
      \<and> t_condition t = TcQueued
      \<and> t_assigned_agent_id t = None
      \<and> \<not> t_archived t)"

definition touch :: "time \<Rightarrow> task \<Rightarrow> task" where
  "touch now t = t\<lparr>t_revision := t_revision t + 1, t_updated_at := Some now\<rparr>"

definition audit :: "uuid \<Rightarrow> time \<Rightarrow> task \<Rightarrow> task_actor \<Rightarrow> string \<Rightarrow> task_column option \<Rightarrow>
    string option \<Rightarrow> task_audit" where
  "audit uid now t actor action from_column reason =
     \<lparr>au_id = uid, au_task_id = t_id t, au_actor = actor, au_action = action,
      au_from_column = from_column, au_to_column = column t,
      au_agent_id = t_assigned_agent_id t, au_created_at = now,
      au_reason = reason, au_summary = None\<rparr>"

section \<open>Transitions\<close>

text \<open>
  The \<open>match\<close> of \<open>Task::transition\<close>: the action's name, the next task, the reason and the
  summary, or \<open>None\<close> where no guarded arm applies. One reading of the clock stands for the
  readings of one call.
\<close>

definition active_task :: "task \<Rightarrow> bool" where
  "active_task t \<longleftrightarrow> \<not> t_archived t \<and> t_condition t \<noteq> TcCancelled"

fun transition_arm :: "time \<Rightarrow> task \<Rightarrow> bool \<Rightarrow> bool \<Rightarrow> task_column \<Rightarrow> task_action \<Rightarrow>
    (string \<times> task \<times> string option \<times> string option) option" where
  "transition_arm now t user active col Prioritize =
     (if user \<and> active \<and> col = Backlog
      then Some (''prioritize'', t\<lparr>t_state := TsReady\<rparr>, None, None) else None)"
| "transition_arm now t user active col ReturnToBacklog =
     (if user \<and> active \<and> col = Todo
      then Some (''return_to_backlog'', t\<lparr>t_state := TsBacklog\<rparr>, None, None) else None)"
| "transition_arm now t user active col Start =
     (if active \<and> (col = Todo \<or> col = InProgress)
      then Some (''start'',
        t\<lparr>t_state := TsRunning, t_condition := TcIdle,
          t_started_at := Some (unwrap_or now (t_started_at t))\<rparr>, None, None)
      else None)"
| "transition_arm now t user active col (Submit text) =
     (if active \<and> col = InProgress \<and> \<not> blank text \<and> length text \<le> 65536
      then Some (''submit'',
        t\<lparr>t_state := TsInReview, t_condition := TcIdle,
          t_review_summary := Some text, t_submitted_at := Some now\<rparr>, None, Some text)
      else None)"
| "transition_arm now t user active col (RequestChanges feedback) =
     (if user \<and> active \<and> col = InReview \<and> \<not> blank feedback \<and> length feedback \<le> 65536
      then Some (''request_changes'',
        t\<lparr>t_state := TsRunning, t_condition := TcIdle,
          t_last_reason := Some feedback\<rparr>, Some feedback, None)
      else None)"
| "transition_arm now t user active col Accept =
     (if user \<and> active \<and> col = InReview \<and> is_some_and (t_review_summary t) (\<lambda>s. \<not> blank s)
      then Some (''accept'',
        t\<lparr>t_state := TsAccepted, t_completed_at := Some now\<rparr>, None, None)
      else None)"
| "transition_arm now t user active col (Cancel text) =
     (if user \<and> active \<and> col \<noteq> Done
      then Some (''cancel'',
        t\<lparr>t_condition := TcCancelled, t_archived := True, t_cancelled_at := Some now\<rparr>,
        Some (take_chars 4096 text), None)
      else None)"
| "transition_arm now t user active col Reopen =
     (if user \<and> (col = Done \<or> \<not> active)
      then Some (''reopen'',
        t\<lparr>t_state := TsReady, t_condition := TcIdle, t_archived := False,
          t_completed_at := None, t_release_id := None, t_cancelled_at := None\<rparr>, None, None)
      else None)"
| "transition_arm now t user active col (ReturnToTodo text) =
     (if user \<and> active \<and> col = InProgress \<and> \<not> blank text
      then Some (''return_to_todo'',
        t\<lparr>t_state := TsReady, t_condition := TcIdle\<rparr>, Some (take_chars 4096 text), None)
      else None)"

definition illegal_transition :: task_error where
  "illegal_transition = TaskError IllegalTransition
     ''This transition is not allowed. Done requires explicit human acceptance from In Review; review and backward moves require a summary or feedback.''"

definition transition :: "uuid \<Rightarrow> time \<Rightarrow> task \<Rightarrow> task_action \<Rightarrow> task_actor \<Rightarrow> u64 \<Rightarrow> bool \<Rightarrow>
    (task \<times> task_audit) tres" where
  "transition uid now t action actor expected live_child =
     res_bind (check_revision t expected) (\<lambda>_.
       if live_child
       then Err (TaskError AgentBusy
         ''Stop the active agent before changing this task's workflow.'')
       else
         (case transition_arm now t (actor = User) (active_task t) (column t) action of
            None \<Rightarrow> Err illegal_transition
          | Some (name, next, reason, summary) \<Rightarrow>
              let next = touch now next;
                  au = audit uid now next actor name (Some (column t)) reason
              in Ok (next, au\<lparr>au_summary := summary\<rparr>)))"

section \<open>Leases and releases\<close>

definition lease_conflicts :: "workspace_lease \<Rightarrow> workspace_lease \<Rightarrow> bool" where
  "lease_conflicts a b =
     (wl_coordinator_group a \<noteq> None
      \<and> wl_coordinator_group a = wl_coordinator_group b
      \<and> wl_target a = wl_target b
      \<and> wl_root a = wl_root b)"

definition en_dash :: string where
  "en_dash = [CHR 0xE2, CHR 0x80, CHR 0x93]"

definition new_release :: "uuid \<Rightarrow> time \<Rightarrow> project_id \<Rightarrow> string \<Rightarrow> project_release tres" where
  "new_release uid now project_id name0 =
     (let name = trim name0 in
      if name = [] \<or> 128 < length name
      then Err (TaskError InvalidInput
        (''Release names must contain 1'' @ en_dash @ ''128 bytes after trimming.''))
      else Ok \<lparr>rel_id = uid, rel_project_id = project_id, rel_name = name,
               rel_created_at = now\<rparr>)"

section \<open>The board as its users see it\<close>

text \<open>
  A board position is a column together with whether the card is live (neither archived nor
  cancelled). Only the user moves a card backwards, into Done, or out of the board.
\<close>

record board_pos =
  bp_column :: task_column
  bp_live :: bool

definition board_of :: "task \<Rightarrow> board_pos" where
  "board_of t = \<lparr>bp_column = column t, bp_live = active_task t\<rparr>"

inductive board_step :: "task_actor \<Rightarrow> task_action \<Rightarrow> board_pos \<Rightarrow> board_pos \<Rightarrow> bool" where
  prioritize: "board_step User Prioritize \<lparr>bp_column = Backlog, bp_live = True\<rparr>
     \<lparr>bp_column = Todo, bp_live = True\<rparr>"
| to_backlog: "board_step User ReturnToBacklog \<lparr>bp_column = Todo, bp_live = True\<rparr>
     \<lparr>bp_column = Backlog, bp_live = True\<rparr>"
| start: "c \<in> {Todo, InProgress} \<Longrightarrow>
     board_step actor Start \<lparr>bp_column = c, bp_live = True\<rparr>
       \<lparr>bp_column = InProgress, bp_live = True\<rparr>"
| submit: "\<not> blank s \<Longrightarrow> length s \<le> 65536 \<Longrightarrow>
     board_step actor (Submit s) \<lparr>bp_column = InProgress, bp_live = True\<rparr>
       \<lparr>bp_column = InReview, bp_live = True\<rparr>"
| request_changes: "\<not> blank s \<Longrightarrow> length s \<le> 65536 \<Longrightarrow>
     board_step User (RequestChanges s) \<lparr>bp_column = InReview, bp_live = True\<rparr>
       \<lparr>bp_column = InProgress, bp_live = True\<rparr>"
| accept: "board_step User Accept \<lparr>bp_column = InReview, bp_live = True\<rparr>
     \<lparr>bp_column = Done, bp_live = True\<rparr>"
| cancel: "c \<noteq> Done \<Longrightarrow>
     board_step User (Cancel s) \<lparr>bp_column = c, bp_live = True\<rparr>
       \<lparr>bp_column = c, bp_live = False\<rparr>"
| reopen: "c = Done \<or> \<not> l \<Longrightarrow>
     board_step User Reopen \<lparr>bp_column = c, bp_live = l\<rparr>
       \<lparr>bp_column = Todo, bp_live = True\<rparr>"
| to_todo: "\<not> blank s \<Longrightarrow>
     board_step User (ReturnToTodo s) \<lparr>bp_column = InProgress, bp_live = True\<rparr>
       \<lparr>bp_column = Todo, bp_live = True\<rparr>"

inductive_cases board_step_to_done: "board_step actor a p \<lparr>bp_column = Done, bp_live = True\<rparr>"

inductive_simps board_step_simps:
  "board_step actor Prioritize p q"
  "board_step actor ReturnToBacklog p q"
  "board_step actor Start p q"
  "board_step actor (Submit s) p q"
  "board_step actor (RequestChanges s) p q"
  "board_step actor Accept p q"
  "board_step actor (Cancel s) p q"
  "board_step actor Reopen p q"
  "board_step actor (ReturnToTodo s) p q"

section \<open>Facts the components use\<close>

lemma column_update [simp]:
  "column (t\<lparr>t_condition := c\<rparr>) = column t"
  "column (t\<lparr>t_archived := b\<rparr>) = column t"
  "column (t\<lparr>t_revision := r\<rparr>) = column t"
  "column (t\<lparr>t_updated_at := u\<rparr>) = column t"
  "column (t\<lparr>t_last_reason := lr\<rparr>) = column t"
  "column (t\<lparr>t_assigned_agent_id := aa\<rparr>) = column t"
  "column (t\<lparr>t_continue_agent_id := ca\<rparr>) = column t"
  "column (t\<lparr>t_execution_queue := q\<rparr>) = column t"
  "column (t\<lparr>t_acceptance := ac\<rparr>) = column t"
  "column (t\<lparr>t_started_at := sa\<rparr>) = column t"
  "column (t\<lparr>t_submitted_at := su\<rparr>) = column t"
  "column (t\<lparr>t_completed_at := co\<rparr>) = column t"
  "column (t\<lparr>t_cancelled_at := cl\<rparr>) = column t"
  "column (t\<lparr>t_release_id := ri\<rparr>) = column t"
  "column (t\<lparr>t_review_summary := rv\<rparr>) = column t"
  "column (t\<lparr>t_order_key := ok\<rparr>) = column t"
  "column (t\<lparr>t_planning := pl\<rparr>) = column t"
  "column (t\<lparr>t_remote_pending := rp\<rparr>) = column t"
  "column (t\<lparr>t_state := st\<rparr>) = state_column st"
  by (simp_all add: column_def)

lemma touch_simps [simp]:
  "t_revision (touch now t) = t_revision t + 1"
  "t_updated_at (touch now t) = Some now"
  "t_id (touch now t) = t_id t"
  "t_project_id (touch now t) = t_project_id t"
  "t_state (touch now t) = t_state t"
  "t_condition (touch now t) = t_condition t"
  "t_archived (touch now t) = t_archived t"
  "t_assigned_agent_id (touch now t) = t_assigned_agent_id t"
  "t_continue_agent_id (touch now t) = t_continue_agent_id t"
  "t_execution_queue (touch now t) = t_execution_queue t"
  "t_acceptance (touch now t) = t_acceptance t"
  "t_planning (touch now t) = t_planning t"
  "t_last_reason (touch now t) = t_last_reason t"
  "t_review_summary (touch now t) = t_review_summary t"
  "t_order_key (touch now t) = t_order_key t"
  "t_remote_pending (touch now t) = t_remote_pending t"
  "t_coordinator_group (touch now t) = t_coordinator_group t"
  "t_release_id (touch now t) = t_release_id t"
  "t_skills (touch now t) = t_skills t"
  "t_description (touch now t) = t_description t"
  "t_started_at (touch now t) = t_started_at t"
  "column (touch now t) = column t"
  "active_task (touch now t) = active_task t"
  "waiting_in_queue (touch now t) = waiting_in_queue t"
  by (simp_all add: touch_def column_def active_task_def waiting_in_queue_def)

lemma audit_simps [simp]:
  "au_id (audit uid now t actor act fc r) = uid"
  "au_task_id (audit uid now t actor act fc r) = t_id t"
  "au_actor (audit uid now t actor act fc r) = actor"
  "au_action (audit uid now t actor act fc r) = act"
  "au_from_column (audit uid now t actor act fc r) = fc"
  "au_to_column (audit uid now t actor act fc r) = column t"
  "au_reason (audit uid now t actor act fc r) = r"
  "au_summary (audit uid now t actor act fc r) = None"
  by (simp_all add: audit_def)

lemma check_revision_Ok [simp]: "check_revision t e = Inr u \<longleftrightarrow> t_revision t = e"
  by (simp add: check_revision_def)

lemma check_revision_eq: "t_revision t = e \<Longrightarrow> check_revision t e = Inr ()"
  by (simp add: check_revision_def)

lemma word_succ_neq: "(r :: u64) + 1 \<noteq> r"
  by simp

text \<open>Success of \<open>transition\<close>, taken apart once for all proofs.\<close>

lemma transition_Ok_iff:
  "transition uid now t action actor e live = Inr (t', a) \<longleftrightarrow>
     t_revision t = e \<and> \<not> live \<and>
     (\<exists>name next reason summary.
        transition_arm now t (actor = User) (active_task t) (column t) action
          = Some (name, next, reason, summary)
        \<and> t' = touch now next
        \<and> a = (audit uid now t' actor name (Some (column t)) reason)\<lparr>au_summary := summary\<rparr>)"
  by (auto simp: transition_def res_bind_Ok_iff Let_def split: option.splits)

lemma transition_arm_ids:
  "transition_arm now t u ac c action = Some (name, next, reason, summary) \<Longrightarrow>
     t_id next = t_id t \<and> t_project_id next = t_project_id t \<and> t_revision next = t_revision t
     \<and> t_execution_queue next = t_execution_queue t \<and> t_acceptance next = t_acceptance t
     \<and> t_assigned_agent_id next = t_assigned_agent_id t
     \<and> t_continue_agent_id next = t_continue_agent_id t
     \<and> t_coordinator_group next = t_coordinator_group t
     \<and> t_remote_pending next = t_remote_pending t \<and> t_order_key next = t_order_key t"
  by (cases action) (auto split: if_splits)

lemma transition_keeps:
  assumes "transition uid now t action actor e live = Inr (t', a)"
  shows "t_id t' = t_id t" "t_project_id t' = t_project_id t" "t_revision t' = t_revision t + 1"
    "t_execution_queue t' = t_execution_queue t" "t_acceptance t' = t_acceptance t"
    "t_assigned_agent_id t' = t_assigned_agent_id t"
    "t_continue_agent_id t' = t_continue_agent_id t"
    "t_coordinator_group t' = t_coordinator_group t"
    "t_remote_pending t' = t_remote_pending t" "t_order_key t' = t_order_key t"
    "t_revision t = e" "\<not> live"
  using assms by (auto simp: transition_Ok_iff dest!: transition_arm_ids)

section \<open>Optimistic locking\<close>

text \<open>
  What a client of revision-checked updates relies on: a stale revision is refused, an accepted
  update moves the revision on. Interpreted on \<open>transition\<close> below; the queue and board handlers
  keep the same contract.
\<close>

locale versioned =
  fixes rev_of :: "'s \<Rightarrow> u64"
    and upd :: "'r \<Rightarrow> u64 \<Rightarrow> 's \<Rightarrow> ('s, 'e) result"
    and stale :: 'e
  assumes stale_refused: "rev_of s \<noteq> e \<Longrightarrow> upd r e s = Inl stale"
    and accepted_bumps: "upd r e s = Inr s' \<Longrightarrow> rev_of s' = rev_of s + 1"
begin

lemma accepted_current: "upd r e s = Inr s' \<Longrightarrow> rev_of s = e"
  using stale_refused by fastforce

lemma second_writer_refused: "upd r e s = Inr s' \<Longrightarrow> upd r' e s' = Inl stale"
  using accepted_current accepted_bumps stale_refused by (metis word_succ_neq)

text \<open>Submitting a series of requests; a refused one leaves the state alone.\<close>

fun submit_all :: "('r \<times> u64) list \<Rightarrow> 's \<Rightarrow> nat \<times> 's" where
  "submit_all [] s = (0, s)"
| "submit_all ((r, e) # rs) s =
     (case upd r e s of Inl _ \<Rightarrow> submit_all rs s
      | Inr s' \<Rightarrow> (let (n, u) = submit_all rs s' in (Suc n, u)))"

lemma submit_all_revision:
  "submit_all rs s = (n, u) \<Longrightarrow> rev_of u = rev_of s + of_nat n"
proof (induction rs s arbitrary: n u rule: submit_all.induct)
  case (2 r e rs s)
  show ?case
  proof (cases "upd r e s")
    case (Inl x) with 2 show ?thesis by simp
  next
    case (Inr s')
    obtain m w where mw: "submit_all rs s' = (m, w)" by fastforce
    with Inr 2 have "rev_of w = rev_of s' + of_nat m" by simp
    with mw Inr 2(3) accepted_bumps[OF Inr] show ?thesis by (auto simp: add.assoc)
  qed
qed simp

text \<open>Of many writers holding one revision at most one is served.\<close>

lemma one_winner:
  assumes "\<forall>(r, e') \<in> set rs. e' = e" and "submit_all rs s = (n, u)"
  shows "n \<le> 1"
proof -
  have none: "fst (submit_all rs s) = 0"
    if "\<forall>(r, e') \<in> set rs. e' = e" "rev_of s \<noteq> e" for rs s
    using that by (induction rs s rule: submit_all.induct) (auto simp: stale_refused)
  from assms(1,2) show ?thesis
  proof (induction rs s arbitrary: n u rule: submit_all.induct)
    case (2 r e' rs s)
    show ?case
    proof (cases "upd r e' s")
      case (Inl x) with 2 show ?thesis by simp
    next
      case (Inr s')
      with 2 have "rev_of s' = e + 1" using accepted_bumps accepted_current by fastforce
      then have "rev_of s' \<noteq> e" by simp
      with 2 have "fst (submit_all rs s') = 0" by (intro none) auto
      with Inr 2 show ?thesis by (auto split: prod.splits)
    qed
  qed simp
qed

end

definition transition_upd ::
    "(uuid \<times> time \<times> task_action \<times> task_actor \<times> bool) \<Rightarrow> u64 \<Rightarrow> task \<Rightarrow> task tres" where
  "transition_upd r e t = (case r of (uid, now, action, actor, live) \<Rightarrow>
     (case transition uid now t action actor e live of Inl x \<Rightarrow> Inl x | Inr (t', _) \<Rightarrow> Inr t'))"

abbreviation stale_task_error :: task_error where
  "stale_task_error \<equiv> TaskError RevisionConflict ''This task changed. Refresh it and retry.''"

interpretation task_lock: versioned t_revision transition_upd stale_task_error
proof
  fix s e and r :: "uuid \<times> time \<times> task_action \<times> task_actor \<times> bool"
  show "t_revision s \<noteq> e \<Longrightarrow> transition_upd r e s = Inl stale_task_error"
    by (cases r) (simp add: transition_upd_def transition_def check_revision_def)
  fix s'
  assume "transition_upd r e s = Inr s'"
  then show "t_revision s' = t_revision s + 1"
    by (cases r) (auto simp: transition_upd_def dest: transition_keeps(3) split: sum.splits)
qed

text \<open>How many of a series of transition requests, each with its revision, are served.\<close>

fun transitions_served :: "((uuid \<times> time \<times> task_action \<times> task_actor \<times> bool) \<times> u64) list \<Rightarrow> task \<Rightarrow>
    nat" where
  "transitions_served [] t = 0"
| "transitions_served (((uid, now, action, actor, live), e) # rs) t =
     (case transition uid now t action actor e live of
        Inl _ \<Rightarrow> transitions_served rs t
      | Inr (t', _) \<Rightarrow> Suc (transitions_served rs t'))"

lemma transitions_served_eq: "transitions_served rs t = fst (task_lock.submit_all rs t)"
proof (induction rs t rule: transitions_served.induct)
  case (2 uid now action actor live e rs t)
  show ?case
  proof (cases "transition uid now t action actor e live")
    case (Inl x)
    then have "transition_upd (uid, now, action, actor, live) e t = Inl x"
      by (simp add: transition_upd_def)
    with Inl 2(1) show ?thesis by simp
  next
    case (Inr r)
    obtain t' a where r: "r = (t', a)" by fastforce
    with Inr have "transition_upd (uid, now, action, actor, live) e t = Inr t'"
      by (simp add: transition_upd_def)
    with Inr r 2(2) show ?thesis by (simp split: prod.splits)
  qed
qed simp

section \<open>Runs\<close>

inductive task_run :: "task \<Rightarrow> (task_actor \<times> task_action) list \<Rightarrow> task \<Rightarrow> bool" where
  here: "task_run t [] t"
| more: "task_run t h u \<Longrightarrow> transition uid now u action actor e live = Inr (v, a) \<Longrightarrow>
     task_run t (h @ [(actor, action)]) v"

definition sample_draft :: task_draft where
  "sample_draft = \<lparr>d_issue_kind = Custom, d_skills = [], d_title = ''Work '', d_description = [],
     d_acceptance_criteria = [''Reviewed''], d_priority = Normal\<rparr>"

definition sample_task :: task where
  "sample_task = (case new_task 7 100 1 sample_draft 1024 of Inr t \<Rightarrow> t)"

lemma sample_new_task: "new_task 7 100 1 sample_draft 1024 = Inr sample_task"
  by (simp add: sample_task_def new_task_def sample_draft_def validate_draft_def blank_def
    trim_def is_whitespace_def byte_of_def is_cont_def)

lemma new_task_fields:
  "new_task uid now pid d k = Inr t \<Longrightarrow>
     column t = Todo \<and> active_task t \<and> t_revision t = 1 \<and> t_id t = uid \<and> t_project_id t = pid
     \<and> t_state t = TsReady \<and> t_condition t = TcIdle \<and> \<not> t_archived t
     \<and> t_execution_queue t = None \<and> t_assigned_agent_id t = None \<and> t_review_summary t = None
     \<and> t_acceptance t = default_task_acceptance \<and> t_coordinator_group t = None
     \<and> t_continue_agent_id t = None \<and> \<not> t_remote_pending t \<and> t_order_key t = k"
  by (auto simp: new_task_def res_bind_Ok_iff column_def active_task_def)

lemmas sample_task_simps [simp] = new_task_fields[OF sample_new_task, THEN conjunct1]
  new_task_fields[OF sample_new_task, THEN conjunct2, THEN conjunct1]
  new_task_fields[OF sample_new_task, THEN conjunct2, THEN conjunct2, THEN conjunct1]

lemma sample_task_live [simp]: "\<not> t_archived sample_task" "t_condition sample_task = TcIdle"
  using new_task_fields[OF sample_new_task] by simp_all

section \<open>Properties\<close>

text \<open>C24: every successful transition of a task is a step of the board as its users see it:
  only the user prioritises, returns, accepts, cancels and reopens, review needs a non-blank
  summary of at most 64 KiB, and no other move of a card exists.\<close>

theorem transition_refines_board:
  assumes "transition uid now t action actor e live = Inr (t', a)"
  shows "board_step actor action (board_of t) (board_of t')"
proof -
  from assms obtain name nx reason summary where
    arm: "transition_arm now t (actor = User) (active_task t) (column t) action
            = Some (name, nx, reason, summary)" and t': "t' = touch now nx"
    by (auto simp: transition_Ok_iff)
  have "board_of t' = board_of nx" by (simp add: t' board_of_def)
  with arm show ?thesis
    by (cases action)
       (auto simp: board_step_simps board_of_def active_task_def split: if_splits)
qed

theorem transition_refines_board_witness:
  "\<exists>t' a. transition 9 200 sample_task Start Agent 1 False = Inr (t', a)
     \<and> board_step Agent Start (board_of sample_task) (board_of t')"
proof -
  have "\<exists>t' a. transition 9 200 sample_task Start Agent 1 False = Inr (t', a)"
    by (auto simp: transition_Ok_iff)
  then show ?thesis using transition_refines_board by blast
qed

text \<open>Conversely the workflow never refuses a board step its caller is entitled to: with the
  current revision, no live child, and for acceptance a non-blank recorded summary, the
  transition succeeds and reaches the position the step names.\<close>

theorem transition_complete:
  assumes "t_revision t = e" and "board_step actor action (board_of t) q"
    and "action = Accept \<Longrightarrow> is_some_and (t_review_summary t) (\<lambda>s. \<not> blank s)"
  shows "\<exists>t' a. transition uid now t action actor e False = Inr (t', a) \<and> board_of t' = q"
proof -
  have "\<exists>name nx reason summary.
      transition_arm now t (actor = User) (active_task t) (column t) action
        = Some (name, nx, reason, summary) \<and> board_of nx = q"
    using assms(2,3)
    by (cases action) (auto simp: board_step_simps board_of_def active_task_def)
  then obtain name nx reason summary where
    "transition_arm now t (actor = User) (active_task t) (column t) action
        = Some (name, nx, reason, summary)" and "board_of nx = q" by blast
  moreover have "board_of (touch now nx) = board_of nx" by (simp add: board_of_def)
  ultimately show ?thesis using assms(1) by (auto simp: transition_Ok_iff)
qed

theorem transition_complete_witness:
  "\<exists>t' a. transition 9 200 sample_task Start Daemon 1 False = Inr (t', a)
     \<and> board_of t' = \<lparr>bp_column = InProgress, bp_live = True\<rparr>"
proof (rule transition_complete)
  show "t_revision sample_task = 1" by simp
  have "board_of sample_task = \<lparr>bp_column = Todo, bp_live = True\<rparr>"
    by (simp add: board_of_def)
  then show "board_step Daemon Start (board_of sample_task) \<lparr>bp_column = InProgress, bp_live = True\<rparr>"
    by (simp add: board_step.start)
qed simp

text \<open>C4: whatever sequence of transitions users, agents and daemons make from a freshly created
  task, when it stands in Done its last two transitions were a submission with a non-blank
  summary, which it still carries, and the user's acceptance.\<close>

theorem done_needs_submission_and_user:
  assumes "new_task uid now pid d k = Inr t0" and "task_run t0 h t" and "column t = Done"
  shows "\<exists>h' actor s. h = h' @ [(actor, Submit s), (User, Accept)] \<and> \<not> blank s
           \<and> t_review_summary t = Some s"
proof -
  have "task_run t0 h t \<Longrightarrow> column t0 = Todo \<Longrightarrow>
    (column t = Done \<longrightarrow> (\<exists>h' actor s. h = h' @ [(actor, Submit s), (User, Accept)] \<and> \<not> blank s
        \<and> t_review_summary t = Some s))
    \<and> (column t = InReview \<and> active_task t \<longrightarrow>
        (\<exists>h' actor s. h = h' @ [(actor, Submit s)] \<and> \<not> blank s \<and> t_review_summary t = Some s))"
  proof (induction rule: task_run.induct)
    case (here t) then show ?case by simp
  next
    case (more t h u uid now action actor e live v a)
    from more.hyps(2) obtain name nx reason summary where
      arm: "transition_arm now u (actor = User) (active_task u) (column u) action
              = Some (name, nx, reason, summary)" and v: "v = touch now nx"
      by (auto simp: transition_Ok_iff)
    from more.IH[OF more.prems] arm show ?case
      by (cases action) (auto simp: v active_task_def split: if_splits)
  qed
  moreover have "column t0 = Todo"
    using assms(1) by (auto simp: new_task_def res_bind_Ok_iff column_def)
  ultimately show ?thesis using assms(2,3) by blast
qed

lemma sample_run_to_done:
  "\<exists>t. task_run sample_task [(Agent, Start), (Agent, Submit ''ok''), (User, Accept)] t
     \<and> column t = Done"
proof -
  have ok: "\<not> blank ''ok''"
    by (simp add: blank_iff is_whitespace_def byte_of_def is_cont_def)
  define t1 where "t1 = touch 5 (sample_task\<lparr>t_state := TsRunning, t_condition := TcIdle,
      t_started_at := Some (unwrap_or 5 (t_started_at sample_task))\<rparr>)"
  define t2 where "t2 = touch 6 (t1\<lparr>t_state := TsInReview, t_condition := TcIdle,
      t_review_summary := Some ''ok'', t_submitted_at := Some 6\<rparr>)"
  define t3 where "t3 = touch 7 (t2\<lparr>t_state := TsAccepted, t_completed_at := Some 7\<rparr>)"
  have "\<exists>a. transition 1 5 sample_task Start Agent 1 False = Inr (t1, a)"
    by (auto simp: transition_Ok_iff t1_def)
  moreover have "\<exists>a. transition 2 6 t1 (Submit ''ok'') Agent (t_revision t1) False = Inr (t2, a)"
    using ok by (auto simp: transition_Ok_iff t1_def t2_def active_task_def)
  moreover have "\<exists>a. transition 3 7 t2 Accept User (t_revision t2) False = Inr (t3, a)"
    using ok by (auto simp: transition_Ok_iff t1_def t2_def t3_def active_task_def)
  ultimately have "task_run sample_task
      ((([] @ [(Agent, Start)]) @ [(Agent, Submit ''ok'')]) @ [(User, Accept)]) t3"
    by (blast intro: task_run.intros)
  moreover have "column t3 = Done" by (simp add: t3_def)
  ultimately show ?thesis by auto
qed

theorem done_needs_submission_and_user_witness:
  "\<exists>t h. task_run sample_task h t \<and> column t = Done
     \<and> (\<exists>h' actor s. h = h' @ [(actor, Submit s), (User, Accept)] \<and> \<not> blank s
           \<and> t_review_summary t = Some s)"
proof -
  obtain t where t: "task_run sample_task
      [(Agent, Start), (Agent, Submit ''ok''), (User, Accept)] t" and d: "column t = Done"
    using sample_run_to_done by blast
  show ?thesis
    by (rule exI, rule exI, rule conjI[OF t], rule conjI[OF d])
       (rule done_needs_submission_and_user[OF sample_new_task t d])
qed

text \<open>Optimistic locking: of any number of transition requests that name one revision, issued
  in any order by any actors, at most one changes the task.\<close>

theorem transition_one_winner:
  assumes "\<forall>(r, e') \<in> set rs. e' = e"
  shows "transitions_served rs t \<le> 1"
  unfolding transitions_served_eq by (rule task_lock.one_winner[OF assms prod.collapse[symmetric]])

theorem transition_one_winner_witness:
  "transitions_served
      [((1, 5, Start, User, False), 1), ((2, 5, Cancel [], User, False), 1)] sample_task \<le> 1"
  by (rule transition_one_winner[of _ 1]) simp

end
