(* ===== verification/Store_Database.thy ===== *)
theory Store_Database
  imports Task_Workflow "HOL-Library.Product_Lexorder" "HOL-Library.List_Lexorder"
    "HOL-Library.Char_ord"
begin

text \<open>
  The SQLite database of \<open>crates/ditch_store/src/lib.rs\<close>: its tables with their unique and
  foreign keys, transactions that roll back, and the operations on projects, agents, messages,
  attention, settings and runtime operations. A JSON column is the value it encodes; a row is the
  columns a query reads. Every statement that writes can fail: \<open>st_faults\<close> schedules the
  failures the disk brings, one entry per transaction, and constraint failures follow from the
  tables. Reads of a healthy database do not fail.
\<close>

section \<open>Errors, tables, transactions\<close>

datatype store_error = IoError string | Database string | InvalidData string

definition store_message :: "store_error \<Rightarrow> string" where
  "store_message e = (case e of
      IoError m \<Rightarrow> ''filesystem error: '' @ m
    | Database m \<Rightarrow> ''database error: '' @ m
    | InvalidData m \<Rightarrow> ''stored data is invalid: '' @ m)"

datatype setting_key = BoardExecutionKey project_id | BoardProjectsKey project_id
  | PresetsKey project_id | HandoffKey task_id | HandoffActionKey uuid | NamedKey string

datatype setting_value = SvText string | SvBoardExecution board_execution_state
  | SvBoardProjects "project_id list" | SvPresets "(string \<times> command_check) list"
  | SvHandoff "task_request option" | SvHandoffAction task_request task_request

record task_row =
  tk_project :: project_id
  tk_revision :: int
  tk_order :: int
  tk_task :: task

record agent_row =
  agr_project :: project_id
  agr_task :: "task_id option"
  agr_started :: time
  agr_run :: agent_run
  agr_failure :: "string option"
  agr_home :: "string option"

record attention_row =
  atr_project :: "project_id option"
  atr_agent :: "agent_id option"
  atr_json :: runtime_attention
  atr_created :: time
  atr_dismissed :: "time option"

record writer_row =
  wr_lease :: workspace_lease
  wr_pid :: "int option"
  wr_validator :: bool

record permission_row =
  pr_project :: project_id
  pr_agent :: "agent_id option"

record database =
  db_projects :: "(project_id, project) hmap"
  db_tasks :: "(task_id, task_row) hmap"
  db_agents :: "(agent_id, agent_row) hmap"
  db_messages :: "(agent_id \<times> nat \<times> agent_chat_message) list"
  db_attention :: "(uuid, attention_row) hmap"
  db_permissions :: "(uuid, permission_row) hmap"
  db_audits :: "task_audit list"
  db_releases :: "(uuid, project_release) hmap"
  db_writers :: "(agent_id, writer_row) hmap"
  db_requests :: "(uuid, task_request \<times> task_response) hmap"
  db_settings :: "(setting_key, setting_value) hmap"
  db_operations :: "(uuid, string \<times> string option) hmap"

record store =
  st_db :: database
  st_faults :: "bool list"

type_synonym 'a stmt = "database \<Rightarrow> ('a, store_error) result"

definition disk_error :: store_error where
  "disk_error = Database ''disk I/O error''"

definition foreign_key_error :: store_error where
  "foreign_key_error = Database ''FOREIGN KEY constraint failed''"

definition unique_error :: "string \<Rightarrow> store_error" where
  "unique_error col = Database (''UNIQUE constraint failed: '' @ col)"

text \<open>
  \<open>connection.transaction()\<close> to \<open>commit\<close>, or one statement in autocommit mode: the tables change
  only when every statement succeeded and the disk did.
\<close>

definition in_tx :: "database stmt \<Rightarrow> store \<Rightarrow> (unit, store_error) result \<times> store" where
  "in_tx body s =
     (let s' = s\<lparr>st_faults := tl (st_faults s)\<rparr> in
      if st_faults s \<noteq> [] \<and> hd (st_faults s) then (Err disk_error, s')
      else case body (st_db s) of
          Inl e \<Rightarrow> (Err e, s')
        | Inr db \<Rightarrow> (Ok (), s'\<lparr>st_db := db\<rparr>))"

fun each_stmt :: "('a \<Rightarrow> database stmt) \<Rightarrow> 'a list \<Rightarrow> database stmt" where
  "each_stmt f [] db = Ok db"
| "each_stmt f (x # xs) db = res_bind (f x db) (each_stmt f xs)"

text \<open>A sequence of transactions: the first that fails ends it, those before it stand.\<close>

fun each_tx :: "('a \<Rightarrow> store \<Rightarrow> (unit, store_error) result \<times> store) \<Rightarrow> 'a list \<Rightarrow> store \<Rightarrow>
    (unit, store_error) result \<times> store" where
  "each_tx f [] s = (Ok (), s)"
| "each_tx f (x # xs) s = (case f x s of (Inl e, s') \<Rightarrow> (Err e, s') | (Inr _, s') \<Rightarrow> each_tx f xs s')"

section \<open>Runtime operations and settings\<close>

definition operation_outcome :: "uuid \<Rightarrow> store \<Rightarrow> (string \<times> string option) option" where
  "operation_outcome i s = hm_get (db_operations (st_db s)) i"

text \<open>\<open>INSERT OR IGNORE\<close>: the result says whether this call made the reservation.\<close>

definition reserve_operation :: "uuid \<Rightarrow> string \<Rightarrow> store \<Rightarrow> (bool, store_error) result \<times> store"
where
  "reserve_operation i hash s =
     (let new = \<not> hm_contains (db_operations (st_db s)) i;
          r = in_tx (\<lambda>db. Ok (if new
                then db\<lparr>db_operations := hm_insert i (hash, None) (db_operations db)\<rparr>
                else db)) s
      in (map_sum id (\<lambda>_. new) (fst r), snd r))"

definition finish_operation :: "uuid \<Rightarrow> string \<Rightarrow> store \<Rightarrow> (unit, store_error) result \<times> store" where
  "finish_operation i response = in_tx (\<lambda>db. Ok (
     case hm_get (db_operations db) i of
       None \<Rightarrow> db
     | Some (hash, _) \<Rightarrow>
         db\<lparr>db_operations := hm_insert i (hash, Some response) (db_operations db)\<rparr>))"

definition setting :: "setting_key \<Rightarrow> store \<Rightarrow> setting_value option" where
  "setting key s = hm_get (db_settings (st_db s)) key"

definition stmt_set_setting :: "setting_key \<Rightarrow> setting_value \<Rightarrow> database stmt" where
  "stmt_set_setting key v db = Ok (db\<lparr>db_settings := hm_insert key v (db_settings db)\<rparr>)"

definition set_setting :: "setting_key \<Rightarrow> setting_value \<Rightarrow> store \<Rightarrow>
    (unit, store_error) result \<times> store" where
  "set_setting key v = in_tx (stmt_set_setting key v)"

section \<open>Projects\<close>

definition stmt_upsert_project :: "project \<Rightarrow> database stmt" where
  "stmt_upsert_project p db =
     (if \<exists>q \<in> set (hm_values (db_projects db)). p_id q \<noteq> p_id p
           \<and> p_execution_target q = p_execution_target p \<and> p_root q = p_root p
      then Err (unique_error ''projects.execution_target, projects.root'')
      else Ok (db\<lparr>db_projects := hm_insert (p_id p)
        (case hm_get (db_projects db) (p_id p) of
           None \<Rightarrow> p
         | Some old \<Rightarrow> p\<lparr>p_created_at := p_created_at old\<rparr>) (db_projects db)\<rparr>))"

definition upsert_project :: "project \<Rightarrow> store \<Rightarrow> (unit, store_error) result \<times> store" where
  "upsert_project p = in_tx (stmt_upsert_project p)"

text \<open>\<open>agent_id IN (SELECT id FROM agents WHERE project_id=?1)\<close>\<close>

definition project_agent :: "database \<Rightarrow> project_id \<Rightarrow> agent_id option \<Rightarrow> bool" where
  "project_agent db pid a =
     is_some_and a (\<lambda>i. is_some_and (hm_get (db_agents db) i) (\<lambda>r. agr_project r = pid))"

definition project_has_tasks :: store_error where
  "project_has_tasks = InvalidData
     ''This project has tasks. Keep the project registered to preserve task and review history; delete untouched drafts first.''"

definition stmt_delete_project :: "project_id \<Rightarrow> database stmt" where
  "stmt_delete_project pid db = (let
      keep_p = (\<lambda>(_, r). \<not> (pr_project r = pid \<or> project_agent db pid (pr_agent r)));
      keep_t = (\<lambda>(_, r). \<not> (atr_project r = Some pid \<or> project_agent db pid (atr_agent r)));
      keep_m = (\<lambda>(a, _, _). \<not> project_agent db pid (Some a))
    in Ok (db\<lparr>db_permissions := List.filter keep_p (db_permissions db),
             db_attention := List.filter keep_t (db_attention db),
             db_messages := List.filter keep_m (db_messages db),
             db_agents := List.filter (\<lambda>(_, r). agr_project r \<noteq> pid) (db_agents db),
             db_tasks := List.filter (\<lambda>(_, r). tk_project r \<noteq> pid) (db_tasks db),
             db_releases := List.filter (\<lambda>(_, r). rel_project_id r \<noteq> pid) (db_releases db),
             db_projects := hm_remove pid (db_projects db)\<rparr>))"

definition delete_project :: "project_id \<Rightarrow> store \<Rightarrow> (unit, store_error) result \<times> store" where
  "delete_project pid s =
     (if \<exists>r \<in> set (hm_values (db_tasks (st_db s))). tk_project r = pid
      then (Err project_has_tasks, s)
      else in_tx (stmt_delete_project pid) s)"

section \<open>Agents, messages, attention\<close>

definition task_exists :: "database \<Rightarrow> task_id option \<Rightarrow> bool" where
  "task_exists db t = (case t of None \<Rightarrow> True | Some i \<Rightarrow> hm_contains (db_tasks db) i)"

definition stmt_upsert_agent :: "agent_run \<Rightarrow> string option \<Rightarrow> string option \<Rightarrow> database stmt" where
  "stmt_upsert_agent run failure home db =
     (let put = (\<lambda>r. Ok (db\<lparr>db_agents := hm_insert (ar_id run) r (db_agents db)\<rparr>)) in
      if \<not> task_exists db (ar_task_id run) then Err foreign_key_error
      else case hm_get (db_agents db) (ar_id run) of
          Some old \<Rightarrow> put (old\<lparr>agr_task := ar_task_id run, agr_run := run, agr_failure := failure,
                             agr_home := opt_or (agr_home old) home\<rparr>)
        | None \<Rightarrow>
            if \<not> hm_contains (db_projects db) (ar_project_id run) then Err foreign_key_error
            else put \<lparr>agr_project = ar_project_id run, agr_task = ar_task_id run,
                      agr_started = ar_started_at run, agr_run = run, agr_failure = failure,
                      agr_home = home\<rparr>)"

definition upsert_agent :: "agent_run \<Rightarrow> string option \<Rightarrow> string option \<Rightarrow> store \<Rightarrow>
    (unit, store_error) result \<times> store" where
  "upsert_agent run failure home = in_tx (stmt_upsert_agent run failure home)"

definition messages_of :: "database \<Rightarrow> agent_id \<Rightarrow> (nat \<times> agent_chat_message) list" where
  "messages_of db a =
     sort_key fst (List.map snd (List.filter (\<lambda>(b, _). b = a) (db_messages db)))"

definition last_sequence :: "database \<Rightarrow> agent_id \<Rightarrow> nat" where
  "last_sequence db a = max_or 0 (List.map fst (messages_of db a))"

definition stmt_insert_message :: "agent_id \<Rightarrow> nat \<Rightarrow> agent_chat_message \<Rightarrow> database stmt" where
  "stmt_insert_message a n msg db =
     (if \<exists>x \<in> set (db_messages db). fst x = a \<and> fst (snd x) = n
      then Err (unique_error ''agent_messages.agent_id, agent_messages.sequence'')
      else if \<not> hm_contains (db_agents db) a then Err foreign_key_error
      else Ok (db\<lparr>db_messages := db_messages db @ [(a, n, msg)]\<rparr>))"

definition stmt_append_message :: "agent_chat_message \<Rightarrow> database stmt" where
  "stmt_append_message msg db =
     stmt_insert_message (cm_agent_id msg) (last_sequence db (cm_agent_id msg) + 1) msg db"

definition append_message :: "agent_chat_message \<Rightarrow> store \<Rightarrow> (unit, store_error) result \<times> store"
where
  "append_message msg = in_tx (stmt_append_message msg)"

definition agent_messages_after :: "agent_id \<Rightarrow> nat \<Rightarrow> store \<Rightarrow>
    (nat \<times> agent_chat_message) list" where
  "agent_messages_after a n s =
     take 201 (List.filter (\<lambda>(k, _). min n (2 ^ 63 - 1) < k) (messages_of (st_db s) a))"

record message_page =
  mp_agent_id :: agent_id
  mp_next_before :: "nat option"
  mp_has_more :: bool
  mp_messages :: "(nat \<times> agent_chat_message) list"

definition list_agent_messages :: "agent_id \<Rightarrow> nat option \<Rightarrow> nat \<Rightarrow> store \<Rightarrow> message_page" where
  "list_agent_messages a before limit0 s = (let
      limit = max 1 (min 200 limit0);
      bound = min (unwrap_or (2 ^ 64 - 1) before) (2 ^ 63 - 1);
      newest = take (limit + 1)
        (rev (List.filter (\<lambda>(k, _). k < bound) (messages_of (st_db s) a)));
      more = limit < length newest;
      page = rev (if more then take limit newest else newest)
    in \<lparr>mp_agent_id = a,
        mp_next_before = (if more then (case page of [] \<Rightarrow> None | x # _ \<Rightarrow> Some (fst x)) else None),
        mp_has_more = more,
        mp_messages = page\<rparr>)"

definition persist_new_agent :: "agent_run \<Rightarrow> agent_chat_message \<Rightarrow> string option \<Rightarrow> store \<Rightarrow>
    (unit, store_error) result \<times> store" where
  "persist_new_agent run msg home = in_tx (\<lambda>db.
     res_bind (stmt_upsert_agent run None home db) (\<lambda>db.
       stmt_insert_message (ar_id run) (last_sequence db (ar_id run) + 1) msg db))"

definition attention_row_of :: "runtime_attention \<Rightarrow> attention_row" where
  "attention_row_of att = \<lparr>atr_project = at_project_id att, atr_agent = at_agent_id att,
     atr_json = att, atr_created = at_created_at att, atr_dismissed = None\<rparr>"

definition attention_fk :: "database \<Rightarrow> runtime_attention \<Rightarrow> bool" where
  "attention_fk db att =
     ((at_project_id att = None \<or> is_some_and (at_project_id att) (hm_contains (db_projects db)))
      \<and> (at_agent_id att = None \<or> is_some_and (at_agent_id att) (hm_contains (db_agents db))))"

definition stmt_insert_attention :: "runtime_attention \<Rightarrow> database stmt" where
  "stmt_insert_attention att db =
     (if hm_contains (db_attention db) (at_id att) then Err (unique_error ''attention_events.id'')
      else if \<not> attention_fk db att then Err foreign_key_error
      else Ok (db\<lparr>db_attention := hm_insert (at_id att) (attention_row_of att) (db_attention db)\<rparr>))"

definition persist_failed_agent :: "agent_run \<Rightarrow> agent_chat_message \<Rightarrow> agent_chat_message \<Rightarrow>
    runtime_attention \<Rightarrow> string option \<Rightarrow> store \<Rightarrow> (unit, store_error) result \<times> store" where
  "persist_failed_agent run user_message system_message att home = in_tx (\<lambda>db.
     res_bind (stmt_upsert_agent run (Some (cm_text system_message)) home db) (\<lambda>db.
       (let last = last_sequence db (ar_id run) in
        res_bind (stmt_insert_message (ar_id run) (last + 1) user_message db) (\<lambda>db.
        res_bind (stmt_insert_message (ar_id run) (last + 2) system_message db)
          (stmt_insert_attention att)))))"

definition stmt_upsert_attention :: "runtime_attention \<Rightarrow> database stmt" where
  "stmt_upsert_attention att db =
     (case hm_get (db_attention db) (at_id att) of
        Some row \<Rightarrow> Ok (db\<lparr>db_attention := hm_insert (at_id att)
          (row\<lparr>atr_json := att, atr_dismissed := None\<rparr>) (db_attention db)\<rparr>)
      | None \<Rightarrow> stmt_insert_attention att db)"

definition upsert_attention :: "runtime_attention \<Rightarrow> store \<Rightarrow> (unit, store_error) result \<times> store"
where
  "upsert_attention att = in_tx (stmt_upsert_attention att)"

definition dismiss_attention :: "time \<Rightarrow> uuid \<Rightarrow> store \<Rightarrow> (unit, store_error) result \<times> store" where
  "dismiss_attention now i = in_tx (\<lambda>db. Ok (
     case hm_get (db_attention db) i of
       None \<Rightarrow> db
     | Some row \<Rightarrow> db\<lparr>db_attention :=
         hm_insert i (row\<lparr>atr_dismissed := Some now\<rparr>) (db_attention db)\<rparr>))"

definition stmt_mark_read :: "runtime_attention \<Rightarrow> database stmt" where
  "stmt_mark_read att db = Ok (
     case hm_get (db_attention db) (at_id att) of
       None \<Rightarrow> db
     | Some row \<Rightarrow>
         if atr_dismissed row \<noteq> None then db
         else db\<lparr>db_attention := hm_insert (at_id att) (row\<lparr>atr_json := att\<rparr>) (db_attention db)\<rparr>)"

definition mark_attention_read :: "runtime_attention list \<Rightarrow> store \<Rightarrow>
    (unit, store_error) result \<times> store" where
  "mark_attention_read atts = in_tx (each_stmt stmt_mark_read atts)"

text \<open>
  \<open>DELETE FROM agents\<close> cascades to the agent's messages; the writer reservation of the agent is a
  row of its own, without a foreign key.
\<close>

definition stmt_delete_agent :: "agent_id \<Rightarrow> database stmt" where
  "stmt_delete_agent a db = Ok (db\<lparr>
     db_permissions := List.filter (\<lambda>(_, r). pr_agent r \<noteq> Some a) (db_permissions db),
     db_attention := List.filter (\<lambda>(_, r). atr_agent r \<noteq> Some a) (db_attention db),
     db_messages := List.filter (\<lambda>(b, _, _). b \<noteq> a) (db_messages db),
     db_agents := hm_remove a (db_agents db)\<rparr>)"

definition delete_agent :: "agent_id \<Rightarrow> store \<Rightarrow> (unit, store_error) result \<times> store" where
  "delete_agent a = in_tx (stmt_delete_agent a)"

section \<open>Loading and restart\<close>

record durable_agent =
  da_run :: agent_run
  da_messages :: "agent_chat_message list"
  da_failure :: "string option"
  da_home :: "string option"

record durable_state =
  du_releases :: "project_release list"
  du_tasks :: "task list"
  du_projects :: "project list"
  du_agents :: "durable_agent list"
  du_attention :: "runtime_attention list"

definition load_tasks :: "store \<Rightarrow> task list" where
  "load_tasks s = List.map (\<lambda>(_, r). tk_task r)
     (sort_key (\<lambda>(i, r). (tk_order r, i)) (db_tasks (st_db s)))"

definition load_releases :: "store \<Rightarrow> project_release list" where
  "load_releases s = sort_key (\<lambda>r. (rel_project_id r, rel_name r, rel_id r))
     (hm_values (db_releases (st_db s)))"

definition last_messages :: "nat \<Rightarrow> database \<Rightarrow> agent_id \<Rightarrow> agent_chat_message list" where
  "last_messages n db a = List.map snd (rev (take n (rev (messages_of db a))))"

definition load_attention :: "store \<Rightarrow> runtime_attention list" where
  "load_attention s = List.map atr_json (sort_key atr_created
     (List.filter (\<lambda>r. atr_dismissed r = None) (hm_values (db_attention (st_db s)))))"

definition load_agents :: "store \<Rightarrow> durable_agent list" where
  "load_agents s = List.map
     (\<lambda>r. \<lparr>da_run = agr_run r, da_messages = last_messages 200 (st_db s) (ar_id (agr_run r)),
           da_failure = agr_failure r, da_home = agr_home r\<rparr>)
     (sort_key agr_started (hm_values (db_agents (st_db s))))"

definition load :: "store \<Rightarrow> durable_state" where
  "load s = \<lparr>du_releases = load_releases s, du_tasks = load_tasks s,
     du_projects = sort_key p_created_at (hm_values (db_projects (st_db s))),
     du_agents = load_agents s, du_attention = load_attention s\<rparr>"

fun agent_active :: "agent_state \<Rightarrow> bool" where
  "agent_active AsStarting = True"
| "agent_active AsWorking = True"
| "agent_active AsStopping = True"
| "agent_active AsAwaitingApproval = True"
| "agent_active AsBlocked = True"
| "agent_active _ = False"

definition stale_run :: "time \<Rightarrow> agent_run \<Rightarrow> agent_run" where
  "stale_run now run = run\<lparr>ar_state := AsStale, ar_updated_at := now, ar_finished_at := Some now,
     ar_resume_block_reason := (if ar_native_session_id run = None then Some NoCodexThread else None),
     ar_last_visible_action :=
       Some ''Runtime restarted; the Codex process can no longer be controlled''\<rparr>"

definition restart_message :: "time \<Rightarrow> agent_id \<Rightarrow> agent_chat_message" where
  "restart_message now a = \<lparr>cm_agent_id = a, cm_role = CrSystem,
     cm_text = ''Ditch Runtime restarted while this session was active. Start a new prompt to resume it safely.'',
     cm_created_at = now\<rparr>"

definition reconcile_agent :: "time \<Rightarrow> durable_agent \<Rightarrow> store \<Rightarrow> (unit, store_error) result \<times> store"
where
  "reconcile_agent now a s =
     (if agent_active (ar_state (da_run a))
      then (case upsert_agent (stale_run now (da_run a)) (da_failure a) (da_home a) s of
              (Inl e, s') \<Rightarrow> (Err e, s')
            | (Inr _, s') \<Rightarrow> append_message (restart_message now (ar_id (da_run a))) s')
      else (Ok (), s))"

definition reconcile_active_agents :: "time \<Rightarrow> store \<Rightarrow> (nat, store_error) result \<times> store" where
  "reconcile_active_agents now s = (let du = load s in
     case each_tx (\<lambda>att. if at_kind att = AkApprovalRequired then dismiss_attention now (at_id att)
                        else (\<lambda>s. (Ok (), s))) (du_attention du) s of
       (Inl e, s') \<Rightarrow> (Err e, s')
     | (Inr _, s') \<Rightarrow>
         (case each_tx (reconcile_agent now) (du_agents du) s' of
            (Inl e, s2) \<Rightarrow> (Err e, s2)
          | (Inr _, s2) \<Rightarrow>
              (Ok (length (List.filter (\<lambda>a. agent_active (ar_state (da_run a))) (du_agents du))), s2)))"

end
