(* ===== verification/Task_Store.thy ===== *)
theory Task_Store
  imports Store_Database
begin

text \<open>
  Tasks, their append-only history, retry receipts, releases and writer reservations in the
  store: \<open>crates/ditch_store/src/tasks.rs\<close>. Receipts are the contract \<open>receipt_log\<close>, which the
  request handlers rest on.
\<close>

section \<open>Statements\<close>

definition as_i64 :: "u64 \<Rightarrow> int" where
  "as_i64 w = sint w"

definition as_u64 :: "int \<Rightarrow> u64" where
  "as_u64 i = word_of_int i"

text \<open>The upsert keeps the row's \<open>project_id\<close> and creation column.\<close>

definition write_task :: "task \<Rightarrow> database stmt" where
  "write_task t db =
     (let put = (\<lambda>pid. Ok (db\<lparr>db_tasks := hm_insert (t_id t)
            \<lparr>tk_project = pid, tk_revision = as_i64 (t_revision t), tk_order = t_order_key t,
             tk_task = t\<rparr> (db_tasks db)\<rparr>)) in
      case hm_get (db_tasks db) (t_id t) of
        Some old \<Rightarrow> put (tk_project old)
      | None \<Rightarrow> if hm_contains (db_projects db) (t_project_id t) then put (t_project_id t)
                else Err foreign_key_error)"

definition write_audit :: "task_audit \<Rightarrow> database stmt" where
  "write_audit a db =
     (if \<exists>b \<in> set (db_audits db). au_id b = au_id a then Err (unique_error ''task_audit.id'')
      else if \<not> hm_contains (db_tasks db) (au_task_id a) then Err foreign_key_error
      else Ok (db\<lparr>db_audits := db_audits db @ [a]\<rparr>))"

definition write_change :: "(task \<times> task_audit) \<Rightarrow> database stmt" where
  "write_change c db = res_bind (write_task (fst c) db) (write_audit (snd c))"

definition insert_request :: "task_request \<Rightarrow> task_response \<Rightarrow> database stmt" where
  "insert_request rq resp db =
     (if hm_contains (db_requests db) (rq_request_id rq) then Err (unique_error ''task_requests.id'')
      else Ok (db\<lparr>db_requests := hm_insert (rq_request_id rq) (rq, resp) (db_requests db)\<rparr>))"

definition link_agent :: "agent_run \<Rightarrow> database stmt" where
  "link_agent run db =
     (case hm_get (db_agents db) (ar_id run) of
        None \<Rightarrow> Ok db
      | Some row \<Rightarrow>
          if task_exists db (ar_task_id run)
          then Ok (db\<lparr>db_agents := hm_insert (ar_id run)
                 (row\<lparr>agr_task := ar_task_id run, agr_run := run\<rparr>) (db_agents db)\<rparr>)
          else Err foreign_key_error)"

section \<open>Saving tasks with their history and receipt\<close>

definition stmt_save :: "(task \<times> task_audit) list \<Rightarrow> (task_request \<times> task_response) option \<Rightarrow>
    agent_run list \<Rightarrow> database stmt" where
  "stmt_save changes receipt linked db =
     res_bind (each_stmt write_change changes db) (\<lambda>db.
     res_bind (each_stmt link_agent linked db) (\<lambda>db.
       case receipt of None \<Rightarrow> Ok db | Some (rq, resp) \<Rightarrow> insert_request rq resp db))"

definition save_task_agent_changes :: "(task \<times> task_audit) list \<Rightarrow>
    (task_request \<times> task_response) option \<Rightarrow> agent_run list \<Rightarrow> store \<Rightarrow>
    (unit, store_error) result \<times> store" where
  "save_task_agent_changes changes receipt linked = in_tx (stmt_save changes receipt linked)"

definition save_task_changes :: "(task \<times> task_audit) list \<Rightarrow>
    (task_request \<times> task_response) option \<Rightarrow> agent_run option \<Rightarrow> store \<Rightarrow>
    (unit, store_error) result \<times> store" where
  "save_task_changes changes receipt linked =
     save_task_agent_changes changes receipt (case linked of None \<Rightarrow> [] | Some run \<Rightarrow> [run])"

definition set_task_setting_receipt :: "setting_key \<Rightarrow> setting_value \<Rightarrow> task_request \<Rightarrow>
    task_response \<Rightarrow> store \<Rightarrow> (unit, store_error) result \<times> store" where
  "set_task_setting_receipt key v rq resp = in_tx (\<lambda>db.
     res_bind (stmt_set_setting key v db) (insert_request rq resp))"

definition write_released :: "(task \<times> task_audit) \<Rightarrow> database stmt" where
  "write_released c db = (let t = fst c in
     case opt_filter (\<lambda>r. tk_project r = t_project_id t) (hm_get (db_tasks db) (t_id t)) of
       None \<Rightarrow> Err (Database ''Query returned no rows'')
     | Some row \<Rightarrow>
         if as_u64 (tk_revision row) + 1 \<noteq> t_revision t
         then Err (InvalidData ''Task revision changed; refresh and retry'')
         else if t_release_id t \<noteq> None
           \<and> \<not> is_some_and (t_release_id t) (\<lambda>i. is_some_and (hm_get (db_releases db) i)
                 (\<lambda>r. rel_project_id r = t_project_id t))
         then Err (InvalidData ''Release belongs to another project'')
         else write_change c db)"

definition insert_release :: "project_release \<Rightarrow> database stmt" where
  "insert_release r db =
     (if trim (rel_name r) \<noteq> rel_name r \<or> rel_name r = [] \<or> 128 < length (rel_name r)
      then Err (InvalidData ''Invalid release name'')
      else if hm_contains (db_releases db) (rel_id r)
      then Err (unique_error ''project_releases.id'')
      else if \<exists>q \<in> set (hm_values (db_releases db)).
                rel_project_id q = rel_project_id r \<and> rel_name q = rel_name r
      then Err (unique_error ''project_releases.project_id, project_releases.name'')
      else if \<not> hm_contains (db_projects db) (rel_project_id r) then Err foreign_key_error
      else Ok (db\<lparr>db_releases := hm_insert (rel_id r) r (db_releases db)\<rparr>))"

definition save_release_batch :: "project_release option \<Rightarrow> (task \<times> task_audit) list \<Rightarrow>
    task_request \<Rightarrow> task_response \<Rightarrow> store \<Rightarrow> (unit, store_error) result \<times> store" where
  "save_release_batch release changes rq resp = in_tx (\<lambda>db.
     res_bind (case release of None \<Rightarrow> Ok db | Some r \<Rightarrow> insert_release r db) (\<lambda>db.
     res_bind (each_stmt write_released changes db) (insert_request rq resp)))"

definition load_task_detail :: "task \<Rightarrow> store \<Rightarrow> task_detail" where
  "load_task_detail t s =
     \<lparr>td_task = t,
      td_history = List.filter (\<lambda>a. au_task_id a = t_id t) (db_audits (st_db s))\<rparr>"

text \<open>
  A retried request is answered from its receipt, with the current version of the tasks it
  names; the same id with other input is refused.
\<close>

definition find_task :: "task_id \<Rightarrow> task list \<Rightarrow> task option" where
  "find_task i ts = find (\<lambda>t. t_id t = i) ts"

definition replayed :: "task_response \<Rightarrow> store \<Rightarrow> task_response" where
  "replayed saved s = (case saved of
      RChanged t \<Rightarrow> (case find_task (t_id t) (load_tasks s) of
          Some current \<Rightarrow> RChanged current | None \<Rightarrow> RDeleted (t_id t))
    | RReleaseBatch tasks releases \<Rightarrow>
        RReleaseBatch (List.map_filter (\<lambda>t. find_task (t_id t) (load_tasks s)) tasks) releases
    | other \<Rightarrow> other)"

definition task_replay :: "task_request \<Rightarrow> store \<Rightarrow> task_response option" where
  "task_replay rq s = (case hm_get (db_requests (st_db s)) (rq_request_id rq) of
      None \<Rightarrow> None
    | Some (original, saved) \<Rightarrow>
        if original = rq then Some (replayed saved s)
        else Some (RError (TaskError IdempotencyConflict
          ''This request ID was already used for different task input.'')))"

definition has_references :: "task_id \<Rightarrow> database \<Rightarrow> bool" where
  "has_references i db =
     (0 < length (List.filter (\<lambda>r. agr_task r = Some i) (hm_values (db_agents db)))
        + length (List.filter (\<lambda>a. au_task_id a = i \<and> au_action a \<noteq> ''create'') (db_audits db)))"

definition stmt_delete_draft :: "task \<Rightarrow> task_request \<Rightarrow> database stmt" where
  "stmt_delete_draft t rq db =
     (if t_revision t \<noteq> 1 \<or> t_assigned_agent_id t \<noteq> None \<or> has_references (t_id t) db
      then Err (InvalidData ''Only an untouched draft without references or history can be deleted. Cancel/archive this task instead.'')
      else insert_request rq (RDeleted (t_id t))
        (db\<lparr>db_audits := List.filter (\<lambda>a. au_task_id a \<noteq> t_id t) (db_audits db),
            db_tasks := hm_remove (t_id t) (db_tasks db)\<rparr>))"

definition delete_draft_task :: "task \<Rightarrow> task_request \<Rightarrow> store \<Rightarrow>
    (unit, store_error) result \<times> store" where
  "delete_draft_task t rq = in_tx (stmt_delete_draft t rq)"

section \<open>Restart recovery\<close>

fun condition_live :: "task_condition \<Rightarrow> bool" where
  "condition_live TcQueued = True"
| "condition_live TcRunning = True"
| "condition_live TcAwaitingApproval = True"
| "condition_live _ = False"

definition interrupt_attempt :: "time \<Rightarrow> task_attempt \<Rightarrow> task_attempt" where
  "interrupt_attempt now a =
     (if result_active (ta_result a)
      then a\<lparr>ta_result := ArInterrupted, ta_ended_at := Some now,
             ta_failure := Some \<lparr>af_code = ''daemon_restart'',
               af_message = ''Child ownership is stale. Completed validators retained; explicit revalidation required.''\<rparr>\<rparr>
      else a)"

definition interrupt_attempts :: "time \<Rightarrow> task \<Rightarrow> task" where
  "interrupt_attempts now t = t\<lparr>t_acceptance := (t_acceptance t)\<lparr>acc_attempts :=
     List.map (interrupt_attempt now) (acc_attempts (t_acceptance t))\<rparr>\<rparr>"

definition clear_submission :: "task \<Rightarrow> task" where
  "clear_submission t = t\<lparr>t_acceptance := (t_acceptance t)\<lparr>acc_current_submission := None\<rparr>\<rparr>"

definition restarted :: "time \<Rightarrow> task \<Rightarrow> task" where
  "restarted now t = touch now ((clear_submission (interrupt_attempts now t))
     \<lparr>t_condition := TcBlocked, t_state := TsRunning,
      t_last_reason := Some ''Runtime restarted. Prior child ownership is stale; inspect the agent and explicitly restart the task.''\<rparr>)"

definition needs_restart :: "task \<Rightarrow> bool" where
  "needs_restart t \<longleftrightarrow> \<not> waiting_in_queue t \<and> condition_live (t_condition t)"

definition reconcile_task :: "time \<Rightarrow> (task \<times> uuid) \<Rightarrow> store \<Rightarrow> (unit, store_error) result \<times> store"
where
  "reconcile_task now tu s = (case tu of (t, uid) \<Rightarrow>
     if needs_restart t
     then (let t' = restarted now t in
       save_task_changes
         [(t', audit uid now t' Daemon ''restart_recovery'' (Some (column t')) (t_last_reason t'))]
         None None s)
     else (Ok (), s))"

text \<open>\<open>fresh\<close> supplies the audit ids, one per task.\<close>

definition reconcile_tasks :: "(nat \<Rightarrow> uuid) \<Rightarrow> time \<Rightarrow> store \<Rightarrow> (unit, store_error) result \<times> store"
where
  "reconcile_tasks fresh now s = (let ts = load_tasks s in
     each_tx (reconcile_task now) (List.zip ts (List.map fresh [0..<length ts])) s)"

section \<open>Writer reservations\<close>

definition update_writer :: "agent_id \<Rightarrow> (writer_row \<Rightarrow> writer_row) \<Rightarrow> database \<Rightarrow> database" where
  "update_writer a f db = (case hm_get (db_writers db) a of
      None \<Rightarrow> db
    | Some row \<Rightarrow> db\<lparr>db_writers := hm_insert a (f row) (db_writers db)\<rparr>)"

definition stmt_reserve_writer :: "agent_id \<Rightarrow> workspace_lease \<Rightarrow> database stmt" where
  "stmt_reserve_writer a lease db =
     (if hm_contains (db_writers db) a then Err (unique_error ''writer_reservations.agent_id'')
      else Ok (db\<lparr>db_writers := hm_insert a
        \<lparr>wr_lease = lease, wr_pid = None, wr_validator = False\<rparr> (db_writers db)\<rparr>))"

definition reserve_writer :: "agent_id \<Rightarrow> workspace_lease \<Rightarrow> store \<Rightarrow>
    (unit, store_error) result \<times> store" where
  "reserve_writer a lease = in_tx (stmt_reserve_writer a lease)"

definition writer_stopped :: "agent_id \<Rightarrow> store \<Rightarrow> (unit, store_error) result \<times> store" where
  "writer_stopped a = in_tx (\<lambda>db.
     Ok (update_writer a (\<lambda>r. r\<lparr>wr_pid := None, wr_validator := False\<rparr>) db))"

definition validator_started :: "agent_id \<Rightarrow> int \<Rightarrow> store \<Rightarrow> (unit, store_error) result \<times> store"
where
  "validator_started a pid = in_tx (\<lambda>db.
     Ok (update_writer a (\<lambda>r. r\<lparr>wr_pid := Some pid, wr_validator := True\<rparr>) db))"

definition writer_started :: "agent_id \<Rightarrow> int \<Rightarrow> store \<Rightarrow> (unit, store_error) result \<times> store" where
  "writer_started a pid = in_tx (\<lambda>db.
     Ok (update_writer a (\<lambda>r. r\<lparr>wr_pid := Some pid, wr_validator := False\<rparr>) db))"

definition validator_owners :: "store \<Rightarrow> agent_id list" where
  "validator_owners s =
     List.map fst (List.filter (\<lambda>(_, r). wr_validator r) (db_writers (st_db s)))"

definition stmt_transfer_writer :: "agent_id \<Rightarrow> agent_id \<Rightarrow> database stmt" where
  "stmt_transfer_writer old new db =
     (case hm_get (db_writers db) old of
        None \<Rightarrow> Ok db
      | Some row \<Rightarrow>
          if new \<noteq> old \<and> hm_contains (db_writers db) new
          then Err (unique_error ''writer_reservations.agent_id'')
          else Ok (db\<lparr>db_writers := hm_insert new row (hm_remove old (db_writers db))\<rparr>))"

definition transfer_writer :: "agent_id \<Rightarrow> agent_id \<Rightarrow> store \<Rightarrow>
    (unit, store_error) result \<times> store" where
  "transfer_writer old new = in_tx (stmt_transfer_writer old new)"

definition release_writer_row :: "agent_id \<Rightarrow> store \<Rightarrow> (unit, store_error) result \<times> store" where
  "release_writer_row a = in_tx (\<lambda>db. Ok (db\<lparr>db_writers := hm_remove a (db_writers db)\<rparr>))"

definition update_writer_lease :: "agent_id \<Rightarrow> workspace_lease \<Rightarrow> store \<Rightarrow>
    (unit, store_error) result \<times> store" where
  "update_writer_lease a lease = in_tx (\<lambda>db.
     if hm_contains (db_writers db) a
     then Ok (update_writer a (\<lambda>r. r\<lparr>wr_lease := lease\<rparr>) db)
     else Err (InvalidData ''Writer reservation is missing''))"

definition writer_reservations :: "store \<Rightarrow> (agent_id \<times> workspace_lease \<times> int option) list" where
  "writer_reservations s =
     List.map (\<lambda>(a, r). (a, wr_lease r, wr_pid r)) (db_writers (st_db s))"

end
