(* ===== verification/Store_Integrity.thy ===== *)
theory Store_Integrity
  imports Task_Store
begin

text \<open>
  What the store guarantees: transactions are atomic, every operation keeps the referential
  integrity the schema declares, retried requests are answered once from their receipt,
  restart recovery leaves no task that claims a running agent, and paging through a transcript
  yields it exactly once and in order.
\<close>

section \<open>Tables as hash maps\<close>

lemma hm_get_filter:
  "hm_ok m \<Longrightarrow> hm_get (List.filter P m) k = opt_filter (\<lambda>v. P (k, v)) (hm_get m k)"
proof (induction m)
  case (Cons x m)
  obtain j v where x: "x = (j, v)" by fastforce
  from Cons.prems x have ok: "hm_ok m" and fresh: "j \<notin> fst ` set m" by (auto simp: hm_ok_def)
  from fresh have "map_of m j = None" by (simp add: map_of_eq_None_iff)
  with Cons.IH[OF ok] x show ?case by (auto simp: hm_get_def)
qed (simp add: hm_get_def)

lemma hm_ok_filter: "hm_ok m \<Longrightarrow> hm_ok (List.filter P m)"
  by (auto simp: hm_ok_def distinct_map inj_on_def)

lemma hm_contains_iff: "hm_contains m k \<longleftrightarrow> (\<exists>v. hm_get m k = Some v)"
  by (auto simp: hm_contains_def)

lemma hm_empty [simp]: "hm_ok []" "hm_get [] k = None" "\<not> hm_contains [] k" "hm_values [] = []"
  by (simp_all add: hm_ok_def hm_get_def hm_contains_def hm_values_def)

lemmas hm_simps = hm.get_ins hm.get_rem hm.invar_ins hm.invar_rem hm_contains_insert hm_get_filter
  hm_ok_filter

section \<open>Atomicity\<close>

lemma in_tx_Ok: "fst (in_tx body s) = Inr u \<Longrightarrow> body (st_db s) = Inr (st_db (snd (in_tx body s)))"
  by (auto simp: in_tx_def Let_def split: if_splits sum.splits)

lemma in_tx_Err: "fst (in_tx body s) = Inl e \<Longrightarrow> st_db (snd (in_tx body s)) = st_db s"
  by (auto simp: in_tx_def Let_def split: if_splits sum.splits)

lemma in_tx_healthy:
  "st_faults s = [] \<Longrightarrow> in_tx body s =
     (case body (st_db s) of Inl e \<Rightarrow> (Inl e, s) | Inr db \<Rightarrow> (Inr (), s\<lparr>st_db := db\<rparr>))"
  by (cases s) (simp add: in_tx_def split: sum.splits)

definition keeps :: "(database \<Rightarrow> bool) \<Rightarrow> database stmt \<Rightarrow> bool" where
  "keeps P body \<longleftrightarrow> (\<forall>db db'. P db \<longrightarrow> body db = Inr db' \<longrightarrow> P db')"

lemma keepsI: "(\<And>db db'. P db \<Longrightarrow> body db = Inr db' \<Longrightarrow> P db') \<Longrightarrow> keeps P body"
  by (auto simp: keeps_def)

lemma keepsD: "keeps P body \<Longrightarrow> P db \<Longrightarrow> body db = Inr db' \<Longrightarrow> P db'"
  by (auto simp: keeps_def)

lemma keeps_in_tx: "keeps P body \<Longrightarrow> P (st_db s) \<Longrightarrow> P (st_db (snd (in_tx body s)))"
  by (auto simp: in_tx_def keeps_def Let_def split: if_splits sum.splits)

lemma keeps_each:
  assumes f: "\<And>x. keeps P (f x)"
  shows "keeps P (each_stmt f xs)"
proof (rule keepsI)
  fix db db' assume "P db" "each_stmt f xs db = Inr db'"
  then show "P db'"
  proof (induction xs arbitrary: db)
    case (Cons x xs)
    then obtain db1 where fx: "f x db = Inr db1" and rest: "each_stmt f xs db1 = Inr db'"
      by (cases "f x db") simp_all
    from keepsD[OF f Cons.prems(1) fx] rest show ?case by (rule Cons.IH)
  qed simp
qed

lemma keeps_bind: "keeps P b \<Longrightarrow> keeps P c \<Longrightarrow> keeps P (\<lambda>db. res_bind (b db) c)"
proof (rule keepsI)
  fix db db' assume b: "keeps P b" and c: "keeps P c" and "P db" "res_bind (b db) c = Inr db'"
  then obtain db1 where "b db = Inr db1" and "c db1 = Inr db'" by (cases "b db") simp_all
  with \<open>P db\<close> show "P db'" by (blast intro: keepsD[OF b] keepsD[OF c])
qed

lemma keeps_each_tx:
  assumes f: "\<And>x s. P (st_db s) \<Longrightarrow> P (st_db (snd (f x s)))"
  shows "P (st_db s) \<Longrightarrow> P (st_db (snd (each_tx f xs s)))"
proof (induction xs arbitrary: s)
  case (Cons x xs)
  obtain r s' where fx: "f x s = (r, s')" by fastforce
  with f[OF Cons.prems, of x] have "P (st_db s')" by simp
  with Cons.IH fx show ?case by (cases r) simp_all
qed simp

section \<open>Referential integrity\<close>

text \<open>The primary keys, the unique columns and the foreign keys of the schema.\<close>

definition keys_ok :: "database \<Rightarrow> bool" where
  "keys_ok db \<longleftrightarrow> hm_ok (db_projects db) \<and> hm_ok (db_tasks db) \<and> hm_ok (db_agents db)
     \<and> hm_ok (db_attention db) \<and> hm_ok (db_permissions db) \<and> hm_ok (db_releases db)
     \<and> hm_ok (db_writers db) \<and> hm_ok (db_requests db) \<and> hm_ok (db_settings db)
     \<and> hm_ok (db_operations db)"

definition ids_ok :: "database \<Rightarrow> bool" where
  "ids_ok db \<longleftrightarrow>
     hm_keyed p_id (db_projects db)
     \<and> hm_keyed (\<lambda>r. t_id (tk_task r)) (db_tasks db)
     \<and> hm_keyed (\<lambda>r. ar_id (agr_run r)) (db_agents db)
     \<and> hm_keyed rel_id (db_releases db)
     \<and> hm_keyed (\<lambda>r. rq_request_id (fst r)) (db_requests db)"

text \<open>No two rows with the same key columns.\<close>

definition unique_by :: "('r \<Rightarrow> 'c) \<Rightarrow> ('i, 'r) hmap \<Rightarrow> bool" where
  "unique_by key m \<longleftrightarrow> (\<forall>i j r q. hm_get m i = Some r \<longrightarrow> hm_get m j = Some q \<longrightarrow> key r = key q \<longrightarrow> i = j)"

lemma unique_by_ins:
  assumes "unique_by key m" and "\<And>j q. hm_get m j = Some q \<Longrightarrow> j \<noteq> i \<Longrightarrow> key q \<noteq> key r"
  shows "unique_by key (hm_insert i r m)"
  using assms by (auto simp: unique_by_def hm.get_ins) metis+

lemma unique_by_filter: "hm_ok m \<Longrightarrow> unique_by key m \<Longrightarrow> unique_by key (List.filter P m)"
  by (auto simp: unique_by_def hm_get_filter opt_filter_Some_iff)

lemma unique_by_rem: "hm_ok m \<Longrightarrow> unique_by key m \<Longrightarrow> unique_by key (hm_remove k m)"
  by (auto simp: unique_by_def hm.get_rem split: if_splits)

abbreviation release_names_unique :: "(uuid, project_release) hmap \<Rightarrow> bool" where
  "release_names_unique \<equiv> unique_by (\<lambda>r. (rel_project_id r, rel_name r))"

text \<open>The index \<open>projects_execution_root\<close>.\<close>

abbreviation project_roots_unique :: "(project_id, project) hmap \<Rightarrow> bool" where
  "project_roots_unique \<equiv> unique_by (\<lambda>p. (p_execution_target p, p_root p))"

definition unique_ok :: "database \<Rightarrow> bool" where
  "unique_ok db \<longleftrightarrow>
     distinct (List.map (\<lambda>(a, n, _). (a, n)) (db_messages db))
     \<and> distinct (List.map au_id (db_audits db))
     \<and> release_names_unique (db_releases db)
     \<and> project_roots_unique (db_projects db)"

text \<open>A foreign key: a column of a child table, or of a list of rows, and its parent table.\<close>

definition fk :: "('i, 'r) hmap \<Rightarrow> ('r \<Rightarrow> 'k option) \<Rightarrow> ('k, 'v) hmap \<Rightarrow> bool" where
  "fk child col parent \<longleftrightarrow>
     (\<forall>i r k. hm_get child i = Some r \<longrightarrow> col r = Some k \<longrightarrow> hm_contains parent k)"

definition fk_list :: "'r list \<Rightarrow> ('r \<Rightarrow> 'k) \<Rightarrow> ('k, 'v) hmap \<Rightarrow> bool" where
  "fk_list rows col parent \<longleftrightarrow> (\<forall>r \<in> set rows. hm_contains parent (col r))"

lemma fk_ins_child:
  "fk c col p \<Longrightarrow> (\<And>k. col r = Some k \<Longrightarrow> hm_contains p k) \<Longrightarrow> fk (hm_insert i r c) col p"
  by (auto simp: fk_def hm.get_ins)

lemma fk_ins_child_Some:
  "fk c (\<lambda>r. Some (g r)) p \<Longrightarrow> hm_contains p (g r) \<Longrightarrow> fk (hm_insert i r c) (\<lambda>r. Some (g r)) p"
  by (auto simp: fk_def hm.get_ins)

lemma fk_ins_parent: "fk c col p \<Longrightarrow> fk c col (hm_insert k v p)"
  by (auto simp: fk_def hm_contains_insert)

lemma fk_filter_child: "hm_ok c \<Longrightarrow> fk c col p \<Longrightarrow> fk (List.filter P c) col p"
  by (auto simp: fk_def hm_get_filter opt_filter_Some_iff)

lemma fk_rem_parent:
  "hm_ok p \<Longrightarrow> fk c col p \<Longrightarrow> (\<And>i r. hm_get c i = Some r \<Longrightarrow> col r \<noteq> Some k) \<Longrightarrow>
     fk c col (hm_remove k p)"
  by (fastforce simp: fk_def hm_contains_def hm.get_rem)

lemma fk_filter_parent:
  "hm_ok p \<Longrightarrow> fk c col p \<Longrightarrow>
     (\<And>i r k v. hm_get c i = Some r \<Longrightarrow> col r = Some k \<Longrightarrow> hm_get p k = Some v \<Longrightarrow> P (k, v)) \<Longrightarrow>
     fk c col (List.filter P p)"
  by (fastforce simp: fk_def hm_contains_iff hm_get_filter opt_filter_Some_iff)

lemma fk_list_ins_parent: "fk_list rows col p \<Longrightarrow> fk_list rows col (hm_insert k v p)"
  by (auto simp: fk_list_def hm_contains_insert)

lemma fk_list_snoc: "fk_list rows col p \<Longrightarrow> hm_contains p (col r) \<Longrightarrow> fk_list (rows @ [r]) col p"
  by (auto simp: fk_list_def)

lemma fk_list_filter: "fk_list rows col p \<Longrightarrow> fk_list (List.filter P rows) col p"
  by (auto simp: fk_list_def)

lemma fk_list_rem_parent:
  "hm_ok p \<Longrightarrow> fk_list rows col p \<Longrightarrow> (\<And>r. r \<in> set rows \<Longrightarrow> col r \<noteq> k) \<Longrightarrow>
     fk_list rows col (hm_remove k p)"
  by (fastforce simp: fk_list_def hm_contains_def hm.get_rem)

lemma fk_list_filter_parent:
  "hm_ok p \<Longrightarrow> fk_list rows col p \<Longrightarrow>
     (\<And>r v. r \<in> set rows \<Longrightarrow> hm_get p (col r) = Some v \<Longrightarrow> P (col r, v)) \<Longrightarrow>
     fk_list rows col (List.filter P p)"
  by (fastforce simp: fk_list_def hm_contains_iff hm_get_filter opt_filter_Some_iff)

lemma fk_rem_child: "hm_ok c \<Longrightarrow> fk c col p \<Longrightarrow> fk (hm_remove i c) col p"
  by (auto simp: fk_def hm.get_rem split: if_splits)

text \<open>A delete that first removes the rows referring to the deleted parent.\<close>

lemma fk_rem_parents:
  "hm_ok c \<Longrightarrow> hm_ok p \<Longrightarrow> fk c col p \<Longrightarrow> (\<And>i r. P (i, r) \<Longrightarrow> col r \<noteq> Some k) \<Longrightarrow>
     fk (List.filter P c) col (hm_remove k p)"
  "hm_ok p \<Longrightarrow> fk_list rows lcol p \<Longrightarrow> (\<And>r. Q r \<Longrightarrow> lcol r \<noteq> k) \<Longrightarrow>
     fk_list (List.filter Q rows) lcol (hm_remove k p)"
  subgoal by (auto simp: fk_def hm_get_filter opt_filter_Some_iff hm_contains_def hm.get_rem)
  subgoal by (auto simp: fk_list_def hm_contains_def hm.get_rem)
  done

lemma keyed_filter: "hm_ok m \<Longrightarrow> hm_keyed f m \<Longrightarrow> hm_keyed f (List.filter P m)"
  by (auto simp: hm.keyed_by_def hm_get_filter opt_filter_Some_iff)

definition refs_ok :: "database \<Rightarrow> bool" where
  "refs_ok db \<longleftrightarrow>
     fk (db_tasks db) (\<lambda>r. Some (tk_project r)) (db_projects db)
     \<and> fk (db_agents db) (\<lambda>r. Some (agr_project r)) (db_projects db)
     \<and> fk (db_agents db) agr_task (db_tasks db)
     \<and> fk_list (db_messages db) fst (db_agents db)
     \<and> fk (db_attention db) atr_project (db_projects db)
     \<and> fk (db_attention db) atr_agent (db_agents db)
     \<and> fk (db_permissions db) (\<lambda>r. Some (pr_project r)) (db_projects db)
     \<and> fk (db_permissions db) pr_agent (db_agents db)
     \<and> fk_list (db_audits db) au_task_id (db_tasks db)
     \<and> fk (db_releases db) (\<lambda>r. Some (rel_project_id r)) (db_projects db)"

definition db_ok :: "database \<Rightarrow> bool" where
  "db_ok db \<longleftrightarrow> keys_ok db \<and> ids_ok db \<and> unique_ok db \<and> refs_ok db"

lemmas integrity_defs = db_ok_def keys_ok_def ids_ok_def unique_ok_def refs_ok_def

lemma keyedD: "hm_keyed f m \<Longrightarrow> hm_get m k = Some v \<Longrightarrow> f v = k"
  by (auto simp: hm.keyed_by_def)

lemma fkD:
  "fk c col p \<Longrightarrow> hm_get c i = Some r \<Longrightarrow> col r = Some k \<Longrightarrow> hm_contains p k"
  "fk c (\<lambda>r. Some (scol r)) p \<Longrightarrow> hm_get c i = Some r \<Longrightarrow> hm_contains p (scol r)"
  by (auto simp: fk_def)

lemma db_ok_get:
  assumes "db_ok db"
  shows "hm_get (db_tasks db) i = Some tr \<Longrightarrow> hm_contains (db_projects db) (tk_project tr)"
    and "hm_get (db_agents db) j = Some r \<Longrightarrow> hm_contains (db_projects db) (agr_project r)"
    and "hm_get (db_agents db) j = Some r \<Longrightarrow> task_exists db (agr_task r)"
    and "hm_get (db_agents db) j = Some r \<Longrightarrow> ar_id (agr_run r) = j"
    and "hm_get (db_tasks db) i = Some tr \<Longrightarrow> t_id (tk_task tr) = i"
    and "hm_get (db_attention db) k = Some w \<Longrightarrow> atr_project w = Some p \<Longrightarrow> hm_contains (db_projects db) p"
    and "hm_get (db_attention db) k = Some w \<Longrightarrow> atr_agent w = Some p \<Longrightarrow> hm_contains (db_agents db) p"
    and "hm_get (db_requests db) l = Some (rq, resp) \<Longrightarrow> rq_request_id rq = l"
  using assms unfolding db_ok_def ids_ok_def refs_ok_def
  by (auto dest: fkD keyedD simp: task_exists_def split: option.splits)

subsection \<open>Putting one row\<close>

lemma db_ok_put_project:
  "db_ok db \<Longrightarrow> p_id p = i \<Longrightarrow> (\<And>j q. hm_get (db_projects db) j = Some q \<Longrightarrow> j \<noteq> i \<Longrightarrow>
       \<not> (p_execution_target q = p_execution_target p \<and> p_root q = p_root p)) \<Longrightarrow>
     db_ok (db\<lparr>db_projects := hm_insert i p (db_projects db)\<rparr>)"
  by (simp add: integrity_defs fk_ins_parent hm.invar_ins hm.keyed_by_ins unique_by_ins)

lemma db_ok_put_task:
  "db_ok db \<Longrightarrow> t_id (tk_task r) = i \<Longrightarrow> hm_contains (db_projects db) (tk_project r) \<Longrightarrow>
     db_ok (db\<lparr>db_tasks := hm_insert i r (db_tasks db)\<rparr>)"
  by (simp add: integrity_defs fk_ins_parent fk_list_ins_parent fk_ins_child fk_ins_child_Some hm.invar_ins
    hm.keyed_by_ins)

lemma db_ok_put_agent:
  assumes "db_ok db" and "ar_id (agr_run r) = i" and "hm_contains (db_projects db) (agr_project r)"
    and "task_exists db (agr_task r)"
  shows "db_ok (db\<lparr>db_agents := hm_insert i r (db_agents db)\<rparr>)"
proof -
  from assms(1,4) have "fk (hm_insert i r (db_agents db)) agr_task (db_tasks db)"
    by (intro fk_ins_child) (simp_all add: integrity_defs task_exists_def)
  with assms(1-3) show ?thesis
    by (simp add: integrity_defs fk_ins_parent fk_list_ins_parent fk_ins_child_Some hm.invar_ins
      hm.keyed_by_ins)
qed

lemma db_ok_put_attention:
  "db_ok db \<Longrightarrow> (\<And>p. atr_project r = Some p \<Longrightarrow> hm_contains (db_projects db) p) \<Longrightarrow>
     (\<And>a. atr_agent r = Some a \<Longrightarrow> hm_contains (db_agents db) a) \<Longrightarrow>
     db_ok (db\<lparr>db_attention := hm_insert i r (db_attention db)\<rparr>)"
  by (simp add: integrity_defs fk_ins_child fk_ins_child_Some hm.invar_ins)

lemma db_ok_put_request:
  "db_ok db \<Longrightarrow> rq_request_id (fst r) = i \<Longrightarrow>
     db_ok (db\<lparr>db_requests := hm_insert i r (db_requests db)\<rparr>)"
  by (simp add: integrity_defs hm.invar_ins hm.keyed_by_ins)

lemma db_ok_put_release:
  assumes "db_ok db" and "rel_id r = i" and "hm_contains (db_projects db) (rel_project_id r)"
    and "\<And>j q. hm_get (db_releases db) j = Some q \<Longrightarrow>
           \<not> (rel_project_id q = rel_project_id r \<and> rel_name q = rel_name r)"
  shows "db_ok (db\<lparr>db_releases := hm_insert i r (db_releases db)\<rparr>)"
proof -
  have "release_names_unique (hm_insert i r (db_releases db))"
    using assms(1,4) by (intro unique_by_ins) (auto simp: db_ok_def unique_ok_def)
  with assms(1-3) show ?thesis
    by (simp add: integrity_defs fk_ins_child_Some hm.invar_ins hm.keyed_by_ins)
qed

lemma db_ok_put_writers: "db_ok db \<Longrightarrow> hm_ok w \<Longrightarrow> db_ok (db\<lparr>db_writers := w\<rparr>)"
  by (simp add: integrity_defs)

lemma db_ok_put_settings: "db_ok db \<Longrightarrow> hm_ok v \<Longrightarrow> db_ok (db\<lparr>db_settings := v\<rparr>)"
  by (simp add: integrity_defs)

lemma db_ok_put_operations: "db_ok db \<Longrightarrow> hm_ok v \<Longrightarrow> db_ok (db\<lparr>db_operations := v\<rparr>)"
  by (simp add: integrity_defs)

lemma db_ok_snoc_message:
  "db_ok db \<Longrightarrow> hm_contains (db_agents db) a \<Longrightarrow> \<forall>x \<in> set (db_messages db). \<not> (fst x = a \<and> fst (snd x) = n) \<Longrightarrow>
     db_ok (db\<lparr>db_messages := db_messages db @ [(a, n, msg)]\<rparr>)"
  by (force simp add: db_ok_def keys_ok_def ids_ok_def unique_ok_def refs_ok_def fk_list_snoc)

lemma db_ok_snoc_audit:
  "db_ok db \<Longrightarrow> hm_contains (db_tasks db) (au_task_id a) \<Longrightarrow> \<forall>b \<in> set (db_audits db). au_id b \<noteq> au_id a \<Longrightarrow>
     db_ok (db\<lparr>db_audits := db_audits db @ [a]\<rparr>)"
  by (force simp add: db_ok_def keys_ok_def ids_ok_def unique_ok_def refs_ok_def fk_list_snoc)

subsection \<open>Every statement keeps integrity\<close>

lemma keeps_upsert_project: "keeps db_ok (stmt_upsert_project p)"
proof (rule keepsI)
  fix db db' assume ok: "db_ok db" and st: "stmt_upsert_project p db = Inr db'"
  then obtain q where db': "db' = db\<lparr>db_projects := hm_insert (p_id p) q (db_projects db)\<rparr>"
    and q: "p_id q = p_id p" "p_execution_target q = p_execution_target p" "p_root q = p_root p"
    by (auto simp: stmt_upsert_project_def split: if_splits option.splits)
  have "\<not> (p_execution_target x = p_execution_target q \<and> p_root x = p_root q)"
    if "hm_get (db_projects db) j = Some x" "j \<noteq> p_id p" for j x
    using that st ok q(2,3) keyedD[of p_id "db_projects db" j x] hm_get_in_values[OF that(1)]
    by (auto simp: stmt_upsert_project_def integrity_defs split: if_splits)
  with ok q(1) show "db_ok db'" unfolding db' by (intro db_ok_put_project) auto
qed

lemma keeps_set_setting: "keeps db_ok (stmt_set_setting k v)"
  by (rule keepsI) (auto simp: stmt_set_setting_def integrity_defs intro: hm.invar_ins)

lemma keeps_upsert_agent: "keeps db_ok (stmt_upsert_agent run f h)"
  by (rule keepsI) (auto simp: stmt_upsert_agent_def Let_def split: if_splits option.splits
    intro!: db_ok_put_agent intro: db_ok_get)

lemma keeps_insert_message: "keeps db_ok (stmt_insert_message a n msg)"
  by (rule keepsI) (auto simp: stmt_insert_message_def split: if_splits intro!: db_ok_snoc_message)

lemma keeps_insert_attention: "keeps db_ok (stmt_insert_attention att)"
  by (rule keepsI) (auto simp: stmt_insert_attention_def attention_row_of_def attention_fk_def
    split: if_splits intro!: db_ok_put_attention)

lemma keeps_upsert_attention: "keeps db_ok (stmt_upsert_attention att)"
  by (rule keepsI) (auto simp: stmt_upsert_attention_def split: option.splits
    intro!: db_ok_put_attention intro: db_ok_get keepsD[OF keeps_insert_attention])

lemma keeps_mark_read: "keeps db_ok (stmt_mark_read att)"
  by (rule keepsI) (auto simp: stmt_mark_read_def split: if_splits option.splits
    intro!: db_ok_put_attention intro: db_ok_get)

lemma keeps_delete_agent: "keeps db_ok (stmt_delete_agent a)"
proof (rule keepsI)
  fix db db' assume ok: "db_ok db" and "stmt_delete_agent a db = Inr db'"
  then have db': "db' = db\<lparr>
     db_permissions := List.filter (\<lambda>(_, r). pr_agent r \<noteq> Some a) (db_permissions db),
     db_attention := List.filter (\<lambda>(_, r). atr_agent r \<noteq> Some a) (db_attention db),
     db_messages := List.filter (\<lambda>(b, _, _). b \<noteq> a) (db_messages db),
     db_agents := hm_remove a (db_agents db)\<rparr>" by (simp add: stmt_delete_agent_def)
  from ok have "keys_ok db'" "ids_ok db'"
    by (simp_all add: db' integrity_defs hm_ok_filter hm.invar_rem hm.keyed_by_rem)
  moreover from ok have "unique_ok db'"
    by (simp add: db' integrity_defs distinct_map_filter)
  moreover from ok have "refs_ok db'"
    by (auto simp: db' integrity_defs fk_filter_child fk_rem_child intro!: fk_rem_parents)
  ultimately show "db_ok db'" by (simp add: db_ok_def)
qed

lemma keeps_write_task: "keeps db_ok (write_task t)"
  by (rule keepsI) (auto simp: write_task_def Let_def split: if_splits option.splits
    intro!: db_ok_put_task intro: db_ok_get)

lemma keeps_write_audit: "keeps db_ok (write_audit a)"
  by (rule keepsI) (auto simp: write_audit_def split: if_splits intro!: db_ok_snoc_audit)

lemma keeps_insert_request: "keeps db_ok (insert_request rq resp)"
  by (rule keepsI) (auto simp: insert_request_def split: if_splits intro!: db_ok_put_request)

lemma keeps_link_agent: "keeps db_ok (link_agent run)"
  by (rule keepsI) (auto simp: link_agent_def split: if_splits option.splits
    intro!: db_ok_put_agent intro: db_ok_get)

lemma keeps_insert_release: "keeps db_ok (insert_release r)"
  by (rule keepsI) (auto simp: insert_release_def split: if_splits intro!: db_ok_put_release
    dest: hm_get_in_values)

lemma keeps_delete_draft: "keeps db_ok (stmt_delete_draft t rq)"
proof (rule keepsI)
  fix db db' assume ok: "db_ok db" and del: "stmt_delete_draft t rq db = Inr db'"
  let ?d = "db\<lparr>db_audits := List.filter (\<lambda>a. au_task_id a \<noteq> t_id t) (db_audits db),
              db_tasks := hm_remove (t_id t) (db_tasks db)\<rparr>"
  from del have nr: "\<not> has_references (t_id t) db" and ins: "insert_request rq (RDeleted (t_id t)) ?d = Inr db'"
    by (auto simp: stmt_delete_draft_def split: if_splits)
  from nr have "\<forall>r \<in> set (hm_values (db_agents db)). agr_task r \<noteq> Some (t_id t)"
    by (auto simp: has_references_def filter_empty_conv)
  then have nt: "\<And>i r. hm_get (db_agents db) i = Some r \<Longrightarrow> agr_task r \<noteq> Some (t_id t)"
    by (auto dest: hm_get_in_values)
  from ok have "keys_ok ?d" "ids_ok ?d" "unique_ok ?d"
    by (simp_all add: integrity_defs hm.invar_rem hm.keyed_by_rem distinct_map_filter)
  moreover from ok nt have "refs_ok ?d"
    by (auto simp: integrity_defs fk_rem_child intro!: fk_rem_parent fk_rem_parents)
  ultimately have "db_ok ?d" by (simp add: db_ok_def)
  with ins show "db_ok db'" by (blast intro: keepsD[OF keeps_insert_request])
qed

lemma fk_filters:
  "hm_ok c \<Longrightarrow> hm_ok p \<Longrightarrow> fk c col p \<Longrightarrow>
     (\<And>i r k v. P (i, r) \<Longrightarrow> col r = Some k \<Longrightarrow> hm_get p k = Some v \<Longrightarrow> Q (k, v)) \<Longrightarrow>
     fk (List.filter P c) col (List.filter Q p)"
  by (fastforce simp: fk_def hm_contains_iff hm_get_filter opt_filter_Some_iff)

lemma fk_list_filters:
  "hm_ok p \<Longrightarrow> fk_list rows col p \<Longrightarrow>
     (\<And>r v. P r \<Longrightarrow> hm_get p (col r) = Some v \<Longrightarrow> Q (col r, v)) \<Longrightarrow>
     fk_list (List.filter P rows) col (List.filter Q p)"
  by (fastforce simp: fk_list_def hm_contains_iff hm_get_filter opt_filter_Some_iff)

lemma db_ok_delete_project:
  assumes ok: "db_ok db" and none: "\<forall>r \<in> set (hm_values (db_tasks db)). tk_project r \<noteq> pid"
    and del: "stmt_delete_project pid db = Inr db'"
  shows "db_ok db'"
proof -
  let ?p = "\<lambda>(i :: uuid, r). \<not> (pr_project r = pid \<or> project_agent db pid (pr_agent r))"
  let ?t = "\<lambda>(i :: uuid, r). \<not> (atr_project r = Some pid \<or> project_agent db pid (atr_agent r))"
  let ?m = "\<lambda>(a, i :: nat, m :: agent_chat_message). \<not> project_agent db pid (Some a)"
  let ?a = "\<lambda>(i :: agent_id, r). agr_project r \<noteq> pid"
  have tasks: "List.filter (\<lambda>(_, r). tk_project r \<noteq> pid) (db_tasks db) = db_tasks db"
    using none by (auto simp: filter_id_conv hm_values_def)
  from del have db': "db' = db\<lparr>db_permissions := List.filter ?p (db_permissions db),
      db_attention := List.filter ?t (db_attention db),
      db_messages := List.filter ?m (db_messages db),
      db_agents := List.filter ?a (db_agents db),
      db_releases := List.filter (\<lambda>(_, r). rel_project_id r \<noteq> pid) (db_releases db),
      db_projects := hm_remove pid (db_projects db)\<rparr>"
    by (simp add: stmt_delete_project_def Let_def tasks)
  have task_project: "\<And>i r. hm_get (db_tasks db) i = Some r \<Longrightarrow> tk_project r \<noteq> pid"
    using none by (auto dest: hm_get_in_values)
  have pa: "project_agent db pid (Some k)" if "hm_get (db_agents db) k = Some v" "agr_project v = pid" for k v
    using that by (simp add: project_agent_def)
  have keys: "keys_ok db'" "ids_ok db'"
    using ok by (simp_all add: db' integrity_defs hm_ok_filter hm.invar_rem hm.keyed_by_rem keyed_filter)
  have uniq: "unique_ok db'"
    using ok by (simp add: db' integrity_defs distinct_map_filter unique_by_filter unique_by_rem)
  note ok' = ok[unfolded integrity_defs]
  have r1: "fk (db_tasks db) (\<lambda>r. Some (tk_project r)) (hm_remove pid (db_projects db))"
    using ok' task_project by (intro fk_rem_parent) auto
  have r2: "fk (List.filter ?a (db_agents db)) (\<lambda>r. Some (agr_project r)) (hm_remove pid (db_projects db))"
    using ok' by (intro fk_rem_parents) auto
  have r3: "fk (List.filter ?a (db_agents db)) agr_task (db_tasks db)"
    using ok' by (intro fk_filter_child) auto
  have r4: "fk_list (List.filter ?m (db_messages db)) fst (List.filter ?a (db_agents db))"
    using ok' pa by (intro fk_list_filters) auto
  have r5: "fk (List.filter ?t (db_attention db)) atr_project (hm_remove pid (db_projects db))"
    using ok' by (intro fk_rem_parents) auto
  have r6: "fk (List.filter ?t (db_attention db)) atr_agent (List.filter ?a (db_agents db))"
    using ok' pa by (intro fk_filters) auto
  have r7: "fk (List.filter ?p (db_permissions db)) (\<lambda>r. Some (pr_project r)) (hm_remove pid (db_projects db))"
    using ok' by (intro fk_rem_parents) auto
  have r8: "fk (List.filter ?p (db_permissions db)) pr_agent (List.filter ?a (db_agents db))"
    using ok' pa by (intro fk_filters) auto
  have r9: "fk_list (db_audits db) au_task_id (db_tasks db)" using ok' by simp
  have r10: "fk (List.filter (\<lambda>(_, r). rel_project_id r \<noteq> pid) (db_releases db))
        (\<lambda>r. Some (rel_project_id r)) (hm_remove pid (db_projects db))"
    using ok' by (intro fk_rem_parents) auto
  have refs: "refs_ok db'"
    using r1 r2 r3 r4 r5 r6 r7 r8 r9 r10 by (simp add: refs_ok_def db')
  from keys uniq refs show ?thesis by (simp add: db_ok_def)
qed

section \<open>The store as a transition system\<close>

text \<open>One step is one operation, with whatever arguments, whether it succeeds or fails.\<close>

inductive store_step :: "store \<Rightarrow> store \<Rightarrow> bool" where
  reserve_op: "store_step s (snd (reserve_operation i hash s))"
| finish_op: "store_step s (snd (finish_operation i response s))"
| set_setting: "store_step s (snd (set_setting k v s))"
| upsert_project: "store_step s (snd (upsert_project p s))"
| delete_project: "store_step s (snd (delete_project pid s))"
| upsert_agent: "store_step s (snd (upsert_agent run f h s))"
| append_message: "store_step s (snd (append_message msg s))"
| persist_new_agent: "store_step s (snd (persist_new_agent run msg h s))"
| persist_failed_agent: "store_step s (snd (persist_failed_agent run um sm att h s))"
| upsert_attention: "store_step s (snd (upsert_attention att s))"
| dismiss_attention: "store_step s (snd (dismiss_attention now i s))"
| mark_read: "store_step s (snd (mark_attention_read atts s))"
| delete_agent: "store_step s (snd (delete_agent a s))"
| reconcile_agents: "store_step s (snd (reconcile_active_agents now s))"
| save_task: "store_step s (snd (save_task_agent_changes changes receipt linked s))"
| setting_receipt: "store_step s (snd (set_task_setting_receipt k v rq resp s))"
| release_batch: "store_step s (snd (save_release_batch release changes rq resp s))"
| delete_draft: "store_step s (snd (delete_draft_task t rq s))"
| reconcile_tasks: "store_step s (snd (reconcile_tasks fresh now s))"
| reserve_writer: "store_step s (snd (reserve_writer a lease s))"
| writer_stopped: "store_step s (snd (writer_stopped a s))"
| validator_started: "store_step s (snd (validator_started a pid s))"
| writer_started: "store_step s (snd (writer_started a pid s))"
| transfer_writer: "store_step s (snd (transfer_writer old new s))"
| release_writer: "store_step s (snd (release_writer_row a s))"
| update_lease: "store_step s (snd (update_writer_lease a lease s))"

definition empty_database :: database where
  "empty_database = \<lparr>db_projects = [], db_tasks = [], db_agents = [], db_messages = [],
     db_attention = [], db_permissions = [], db_audits = [], db_releases = [], db_writers = [],
     db_requests = [], db_settings = [], db_operations = []\<rparr>"

lemma db_ok_empty: "db_ok empty_database"
  by (simp add: empty_database_def integrity_defs fk_def fk_list_def unique_by_def
    hm.keyed_by_def)

text \<open>
  An invariant of the base statements is an invariant of the store. Besides integrity, the
  permanence of receipts and of task histories are such invariants.
\<close>

locale statement_invariant =
  fixes P :: "database \<Rightarrow> bool"
  assumes k_operations: "P db \<Longrightarrow> (hm_ok (db_operations db) \<Longrightarrow> hm_ok ops) \<Longrightarrow> P (db\<lparr>db_operations := ops\<rparr>)"
    and k_setting: "keeps P (stmt_set_setting k v)"
    and k_project: "keeps P (stmt_upsert_project p)"
    and k_delete_project: "P db \<Longrightarrow> \<forall>r \<in> set (hm_values (db_tasks db)). tk_project r \<noteq> pid \<Longrightarrow>
      stmt_delete_project pid db = Inr db' \<Longrightarrow> P db'"
    and k_agent: "keeps P (stmt_upsert_agent run f h)"
    and k_message: "keeps P (stmt_insert_message a n msg)"
    and k_attention: "keeps P (stmt_upsert_attention att)" "keeps P (stmt_insert_attention att)"
      "keeps P (stmt_mark_read att)"
    and k_dismiss: "P db \<Longrightarrow> hm_get (db_attention db) i = Some row \<Longrightarrow>
      P (db\<lparr>db_attention := hm_insert i (row\<lparr>atr_dismissed := Some now\<rparr>) (db_attention db)\<rparr>)"
    and k_delete_agent: "keeps P (stmt_delete_agent a)"
    and k_task: "keeps P (write_task t)" "keeps P (write_audit au)"
    and k_request: "keeps P (insert_request rq resp)"
    and k_link: "keeps P (link_agent run)"
    and k_release: "keeps P (insert_release rel)"
    and k_draft: "keeps P (stmt_delete_draft t rq)"
    and k_writers: "P db \<Longrightarrow> (hm_ok (db_writers db) \<Longrightarrow> hm_ok w) \<Longrightarrow> P (db\<lparr>db_writers := w\<rparr>)"
begin

lemma k_change: "keeps P (write_change c)"
  unfolding write_change_def by (rule keeps_bind[OF k_task])

lemma k_released: "keeps P (write_released c)"
  by (rule keepsI) (auto simp: write_released_def Let_def split: option.splits if_splits
    intro: keepsD[OF k_change])

lemma k_save: "keeps P (stmt_save changes receipt linked)"
proof -
  have "keeps P (\<lambda>db. case receipt of None \<Rightarrow> Ok db | Some (rq, resp) \<Rightarrow> insert_request rq resp db)"
    by (cases receipt) (auto simp: keeps_def dest: keepsD[OF k_request])
  then show ?thesis unfolding stmt_save_def by (intro keeps_bind keeps_each k_change k_link)
qed

lemma k_persist_new:
  "keeps P (\<lambda>db. res_bind (stmt_upsert_agent run f h db) (\<lambda>db.
     stmt_insert_message (ar_id run) (last_sequence db (ar_id run) + 1) msg db))"
  by (intro keeps_bind k_agent keepsI) (blast intro: keepsD[OF k_message])

lemma k_persist_failed:
  "keeps P (\<lambda>db. res_bind (stmt_upsert_agent run f h db) (\<lambda>db.
       (let last = last_sequence db (ar_id run) in
        res_bind (stmt_insert_message (ar_id run) (last + 1) um db) (\<lambda>db.
        res_bind (stmt_insert_message (ar_id run) (last + 2) sm db) (stmt_insert_attention att)))))"
proof (intro keeps_bind k_agent)
  have k: "keeps P (\<lambda>db. res_bind (stmt_insert_message (ar_id run) n um db) (\<lambda>db.
        res_bind (stmt_insert_message (ar_id run) m sm db) (stmt_insert_attention att)))" for n m
    by (intro keeps_bind k_message k_attention)
  show "keeps P (\<lambda>db. let last = last_sequence db (ar_id run) in
        res_bind (stmt_insert_message (ar_id run) (last + 1) um db) (\<lambda>db.
        res_bind (stmt_insert_message (ar_id run) (last + 2) sm db) (stmt_insert_attention att)))"
    unfolding Let_def by (rule keepsI) (blast intro: keepsD[OF k])
qed

lemma k_release_batch:
  "keeps P (\<lambda>db. res_bind (case release of None \<Rightarrow> Ok db | Some r \<Rightarrow> insert_release r db) (\<lambda>db.
     res_bind (each_stmt write_released changes db) (insert_request rq resp)))"
proof (intro keeps_bind keeps_each k_released k_request)
  show "keeps P (\<lambda>db. case release of None \<Rightarrow> Ok db | Some r \<Rightarrow> insert_release r db)"
    by (cases release) (auto simp: keeps_def dest: keepsD[OF k_release])
qed

lemma k_setting_receipt:
  "keeps P (\<lambda>db. res_bind (stmt_set_setting k v db) (insert_request rq resp))"
  by (intro keeps_bind k_setting k_request)

lemma k_ops: "keeps P (\<lambda>db. Ok (if b then db\<lparr>db_operations := hm_insert i v (db_operations db)\<rparr> else db))"
proof (rule keepsI)
  fix db db' assume "P db" "Inr (if b then db\<lparr>db_operations := hm_insert i v (db_operations db)\<rparr> else db) = Inr db'"
  then show "P db'" using k_operations[of db "hm_insert i v (db_operations db)"] by (cases b) (simp_all add: hm.invar_ins)
qed

lemma k_finish:
  "keeps P (\<lambda>db. Ok (case hm_get (db_operations db) i of None \<Rightarrow> db
     | Some (hash, _) \<Rightarrow> db\<lparr>db_operations := hm_insert i (hash, Some response) (db_operations db)\<rparr>))"
proof (rule keepsI)
  fix db db' assume p: "P db" and "Inr (case hm_get (db_operations db) i of None \<Rightarrow> db
     | Some (hash, _) \<Rightarrow> db\<lparr>db_operations := hm_insert i (hash, Some response) (db_operations db)\<rparr>)
     = Inr db'"
  then show "P db'" using k_operations[OF p, of "hm_insert i _ (db_operations db)"]
    by (cases "hm_get (db_operations db) i") (auto simp: hm.invar_ins)
qed

lemma k_update_writer: "P db \<Longrightarrow> P (update_writer a f db)"
  by (auto simp: update_writer_def split: option.splits intro!: k_writers hm.invar_ins)

lemma k_writer_stmts:
  "keeps P (stmt_reserve_writer a lease)" "keeps P (stmt_transfer_writer a b)"
  "keeps P (\<lambda>db. Ok (update_writer a f db))"
  "keeps P (\<lambda>db. Ok (db\<lparr>db_writers := hm_remove a (db_writers db)\<rparr>))"
  "keeps P (\<lambda>db. if hm_contains (db_writers db) a then Ok (update_writer a f db) else Err e)"
  by (rule keepsI, auto simp: stmt_reserve_writer_def stmt_transfer_writer_def
      split: if_splits option.splits intro!: k_writers k_update_writer hm.invar_ins hm.invar_rem)+

lemma k_append: "P (st_db s) \<Longrightarrow> P (st_db (snd (append_message msg s)))"
  unfolding append_message_def stmt_append_message_def
  by (rule keeps_in_tx, rule keepsI, rule keepsD[OF k_message])

lemma k_upsert: "P (st_db s) \<Longrightarrow> P (st_db (snd (upsert_agent run f h s)))"
  unfolding upsert_agent_def by (rule keeps_in_tx[OF k_agent])

lemma k_dismiss_tx: "P (st_db s) \<Longrightarrow> P (st_db (snd (dismiss_attention now i s)))"
  unfolding dismiss_attention_def
  by (rule keeps_in_tx, rule keepsI) (auto split: option.splits intro: k_dismiss)

lemma k_save_tx: "P (st_db s) \<Longrightarrow> P (st_db (snd (save_task_agent_changes c r l s)))"
  unfolding save_task_agent_changes_def by (rule keeps_in_tx[OF k_save])

lemma k_reconcile_agent: "P (st_db s) \<Longrightarrow> P (st_db (snd (reconcile_agent now a s)))"
proof -
  assume p: "P (st_db s)"
  obtain r s' where u: "upsert_agent (stale_run now (da_run a)) (da_failure a) (da_home a) s = (r, s')"
    by fastforce
  with k_upsert[OF p, of "stale_run now (da_run a)" "da_failure a" "da_home a"] have "P (st_db s')"
    by simp
  with p u k_append show ?thesis by (cases r) (simp_all add: reconcile_agent_def)
qed

lemma k_reconcile_agents: "P (st_db s) \<Longrightarrow> P (st_db (snd (reconcile_active_agents now s)))"
proof -
  assume p: "P (st_db s)"
  let ?f = "\<lambda>att. if at_kind att = AkApprovalRequired then dismiss_attention now (at_id att)
                        else (\<lambda>s. (Ok (), s))"
  obtain r s1 where a: "each_tx ?f (du_attention (load s)) s = (r, s1)" by fastforce
  have "P (st_db (snd (each_tx ?f (du_attention (load s)) s)))"
    by (rule keeps_each_tx) (simp_all add: p k_dismiss_tx)
  with a have p1: "P (st_db s1)" by simp
  obtain r2 s2 where b: "each_tx (reconcile_agent now) (du_agents (load s)) s1 = (r2, s2)" by fastforce
  have "P (st_db (snd (each_tx (reconcile_agent now) (du_agents (load s)) s1)))"
    by (rule keeps_each_tx[OF k_reconcile_agent p1])
  with b p1 a show ?thesis
    by (cases r; cases r2) (simp_all add: reconcile_active_agents_def Let_def)
qed

lemma k_reconcile_task: "P (st_db s) \<Longrightarrow> P (st_db (snd (reconcile_task now tu s)))"
  by (cases tu) (simp add: reconcile_task_def Let_def save_task_changes_def k_save_tx)

lemma step_keeps: "store_step s s' \<Longrightarrow> P (st_db s) \<Longrightarrow> P (st_db s')"
proof (induction rule: store_step.induct)
  case (reserve_op s i hash)
  have "snd (reserve_operation i hash s) = snd (in_tx (\<lambda>db. Ok (if \<not> hm_contains (db_operations (st_db s)) i
      then db\<lparr>db_operations := hm_insert i (hash, None) (db_operations db)\<rparr> else db)) s)"
    by (simp add: reserve_operation_def Let_def)
  with reserve_op show ?case by (simp only: keeps_in_tx k_ops)
next
  case (finish_op s i response)
  then show ?case unfolding finish_operation_def by (rule keeps_in_tx[OF k_finish])
next
  case (delete_project s pid)
  show ?case
  proof (cases "\<exists>r \<in> set (hm_values (db_tasks (st_db s))). tk_project r = pid")
    case True
    with delete_project show ?thesis by (simp only: delete_project_def if_True snd_conv)
  next
    case False
    then have none: "\<forall>r \<in> set (hm_values (db_tasks (st_db s))). tk_project r \<noteq> pid" by blast
    have "P (st_db (snd (in_tx (stmt_delete_project pid) s)))"
    proof (cases "fst (in_tx (stmt_delete_project pid) s)")
      case (Inl e)
      with delete_project show ?thesis by (simp only: in_tx_Err)
    next
      case (Inr u)
      show ?thesis by (rule k_delete_project[OF delete_project none in_tx_Ok[OF Inr]])
    qed
    with False show ?thesis by (simp only: delete_project_def if_False)
  qed
next
  case (reconcile_tasks s fresh now)
  show ?case unfolding reconcile_tasks_def Let_def
    by (rule keeps_each_tx[where P = P], erule k_reconcile_task, rule reconcile_tasks)
next
  case (set_setting s k v)
  then show ?case unfolding set_setting_def by (rule keeps_in_tx[OF k_setting])
next
  case (upsert_project s p)
  then show ?case unfolding upsert_project_def by (rule keeps_in_tx[OF k_project])
next
  case (upsert_agent s run f h)
  then show ?case by (rule k_upsert)
next
  case (append_message s msg)
  then show ?case by (rule k_append)
next
  case (persist_new_agent s run msg h)
  then show ?case unfolding persist_new_agent_def by (rule keeps_in_tx[OF k_persist_new])
next
  case (persist_failed_agent s run um sm att h)
  then show ?case unfolding persist_failed_agent_def by (rule keeps_in_tx[OF k_persist_failed])
next
  case (upsert_attention s att)
  then show ?case unfolding upsert_attention_def by (rule keeps_in_tx[OF k_attention(1)])
next
  case (dismiss_attention s now i)
  then show ?case by (rule k_dismiss_tx)
next
  case (mark_read s atts)
  then show ?case unfolding mark_attention_read_def by (rule keeps_in_tx[OF keeps_each[OF k_attention(3)]])
next
  case (delete_agent s a)
  then show ?case unfolding delete_agent_def by (rule keeps_in_tx[OF k_delete_agent])
next
  case (reconcile_agents s now)
  then show ?case by (rule k_reconcile_agents)
next
  case (save_task s changes receipt linked)
  then show ?case by (rule k_save_tx)
next
  case (setting_receipt s k v rq resp)
  then show ?case unfolding set_task_setting_receipt_def by (rule keeps_in_tx[OF k_setting_receipt])
next
  case (release_batch s release changes rq resp)
  then show ?case unfolding save_release_batch_def by (rule keeps_in_tx[OF k_release_batch])
next
  case (delete_draft s t rq)
  then show ?case unfolding delete_draft_task_def by (rule keeps_in_tx[OF k_draft])
next
  case (reserve_writer s a lease)
  then show ?case unfolding reserve_writer_def by (rule keeps_in_tx[OF k_writer_stmts(1)])
next
  case (writer_stopped s a)
  then show ?case unfolding writer_stopped_def by (rule keeps_in_tx[OF k_writer_stmts(3)])
next
  case (validator_started s a pid)
  then show ?case unfolding validator_started_def by (rule keeps_in_tx[OF k_writer_stmts(3)])
next
  case (writer_started s a pid)
  then show ?case unfolding writer_started_def by (rule keeps_in_tx[OF k_writer_stmts(3)])
next
  case (transfer_writer s old new)
  then show ?case unfolding transfer_writer_def by (rule keeps_in_tx[OF k_writer_stmts(2)])
next
  case (release_writer s a)
  then show ?case unfolding release_writer_row_def by (rule keeps_in_tx[OF k_writer_stmts(4)])
next
  case (update_lease s a lease)
  then show ?case unfolding update_writer_lease_def by (rule keeps_in_tx[OF k_writer_stmts(5)])
qed

lemma run_keeps: "store_step\<^sup>*\<^sup>* s s' \<Longrightarrow> P (st_db s) \<Longrightarrow> P (st_db s')"
  by (induction rule: rtranclp_induct) (simp_all add: step_keeps)

end

interpretation integrity: statement_invariant db_ok
proof unfold_locales
  fix db and w :: "(agent_id, writer_row) hmap"
  assume "db_ok db" and "hm_ok (db_writers db) \<Longrightarrow> hm_ok w"
  then show "db_ok (db\<lparr>db_writers := w\<rparr>)"
    by (intro db_ok_put_writers) (simp_all add: db_ok_def keys_ok_def)
next
  fix db and ops :: "(uuid, string \<times> string option) hmap"
  assume "db_ok db" and "hm_ok (db_operations db) \<Longrightarrow> hm_ok ops"
  then show "db_ok (db\<lparr>db_operations := ops\<rparr>)"
    by (intro db_ok_put_operations) (simp_all add: db_ok_def keys_ok_def)
next
  fix db i row now assume "db_ok db" "hm_get (db_attention db) i = Some row"
  then show "db_ok (db\<lparr>db_attention := hm_insert i (row\<lparr>atr_dismissed := Some now\<rparr>) (db_attention db)\<rparr>)"
    by (intro db_ok_put_attention) (auto intro: db_ok_get)
qed (auto intro: keeps_set_setting keeps_upsert_project db_ok_delete_project
  keeps_upsert_agent keeps_insert_message keeps_upsert_attention keeps_insert_attention
  keeps_mark_read keeps_delete_agent keeps_write_task keeps_write_audit keeps_insert_request
  keeps_link_agent keeps_insert_release keeps_delete_draft)

text \<open>Receipts are permanent.\<close>

interpretation receipts: statement_invariant "\<lambda>db. hm_get (db_requests db) i = Some r" for i r
proof unfold_locales
  fix db rq resp
  show "keeps (\<lambda>db. hm_get (db_requests db) i = Some r) (insert_request rq resp)"
    by (cases r) (auto simp: keeps_def insert_request_def hm_contains_def hm.get_ins split: if_splits)
  show "keeps (\<lambda>db. hm_get (db_requests db) i = Some r) (stmt_delete_draft t rq)" for t
    by (cases r) (auto simp: keeps_def stmt_delete_draft_def insert_request_def hm_contains_def
      hm.get_ins split: if_splits)
qed (auto simp: keeps_def stmt_set_setting_def stmt_upsert_project_def stmt_delete_project_def
  stmt_upsert_agent_def stmt_insert_message_def stmt_upsert_attention_def stmt_insert_attention_def
  stmt_mark_read_def stmt_delete_agent_def write_task_def write_audit_def link_agent_def
  insert_release_def Let_def split: if_splits option.splits)

text \<open>Once a task has a history entry besides its creation, its history only grows.\<close>

definition in_history :: "task_audit \<Rightarrow> database \<Rightarrow> bool" where
  "in_history a db \<longleftrightarrow> a \<in> set (db_audits db)
     \<and> (\<exists>b \<in> set (db_audits db). au_task_id b = au_task_id a \<and> au_action b \<noteq> ''create'')"

lemma in_history_draft: "keeps (in_history a) (stmt_delete_draft t rq)"
proof (rule keepsI)
  fix db db' assume h: "in_history a db" and d: "stmt_delete_draft t rq db = Inr db'"
  then have audits: "db_audits db' = List.filter (\<lambda>x. au_task_id x \<noteq> t_id t) (db_audits db)"
    and "\<not> has_references (t_id t) db"
    by (auto simp: stmt_delete_draft_def insert_request_def split: if_splits)
  then have "\<forall>x \<in> set (db_audits db). au_task_id x = t_id t \<longrightarrow> au_action x = ''create''"
    by (auto simp: has_references_def filter_empty_conv)
  with h have "au_task_id a \<noteq> t_id t" by (auto simp: in_history_def)
  with h audits show "in_history a db'" by (auto simp: in_history_def)
qed

lemma in_history_mono:
  "in_history a db \<Longrightarrow> set (db_audits db) \<subseteq> set (db_audits db') \<Longrightarrow> in_history a db'"
  by (auto simp: in_history_def)

lemma keeps_in_history:
  "(\<And>db db'. body db = Inr db' \<Longrightarrow> set (db_audits db) \<subseteq> set (db_audits db')) \<Longrightarrow>
     keeps (in_history a) body"
  by (rule keepsI) (rule in_history_mono)

interpretation history: statement_invariant "in_history a" for a
proof unfold_locales
  show "keeps (in_history a) (stmt_delete_draft t rq)" for t rq by (rule in_history_draft)
next
  fix db db' :: database and pid
  assume "in_history a db" "stmt_delete_project pid db = Inr db'"
  then show "in_history a db'"
    by (elim in_history_mono) (auto simp: stmt_delete_project_def Let_def)
qed ((rule keeps_in_history | erule in_history_mono),
  (auto simp: stmt_set_setting_def stmt_upsert_project_def
    stmt_upsert_agent_def stmt_insert_message_def stmt_upsert_attention_def stmt_insert_attention_def
    stmt_mark_read_def stmt_delete_agent_def write_task_def write_audit_def link_agent_def
    insert_request_def insert_release_def Let_def split: if_splits option.splits)[1])+

section \<open>Saving tasks\<close>

definition stored_task :: "task_id \<Rightarrow> database \<Rightarrow> task option" where
  "stored_task i db = map_option tk_task (hm_get (db_tasks db) i)"

lemma write_change_Ok:
  "write_change c db = Inr db' \<Longrightarrow>
     stored_task i db' = (if i = t_id (fst c) then Some (fst c) else stored_task i db)
     \<and> db_audits db' = db_audits db @ [snd c] \<and> db_requests db' = db_requests db
     \<and> db_agents db' = db_agents db"
  by (auto simp: write_change_def res_bind_Ok_iff write_task_def write_audit_def Let_def
    stored_task_def hm.get_ins split: if_splits option.splits)

lemma each_write_change_Ok:
  "each_stmt write_change cs db = Inr db' \<Longrightarrow>
     stored_task i db' = (case map_of (rev (List.map (\<lambda>(t, _). (t_id t, t)) cs)) i of
         Some t \<Rightarrow> Some t | None \<Rightarrow> stored_task i db)
     \<and> db_audits db' = db_audits db @ List.map snd cs \<and> db_requests db' = db_requests db"
proof (induction cs arbitrary: db)
  case (Cons c cs)
  then obtain db1 where c: "write_change c db = Inr db1" and rest: "each_stmt write_change cs db1 = Inr db'"
    by (auto simp: res_bind_Ok_iff)
  from Cons.IH[OF rest] write_change_Ok[OF c, of i] show ?case
    by (cases c) (auto split: option.splits simp: map_add_def)
qed simp

lemma each_link_Ok:
  "each_stmt link_agent ls db = Inr db' \<Longrightarrow>
     db_tasks db' = db_tasks db \<and> db_audits db' = db_audits db \<and> db_requests db' = db_requests db"
proof (induction ls arbitrary: db)
  case (Cons l ls)
  then obtain db1 where c: "link_agent l db = Inr db1" and rest: "each_stmt link_agent ls db1 = Inr db'"
    by (auto simp: res_bind_Ok_iff)
  from c have "db_tasks db1 = db_tasks db \<and> db_audits db1 = db_audits db \<and> db_requests db1 = db_requests db"
    by (auto simp: link_agent_def split: option.splits if_splits)
  with Cons.IH[OF rest] show ?case by simp
qed simp

lemma stmt_save_Ok:
  assumes "stmt_save cs receipt ls db = Inr db'"
  shows "stored_task i db' = (case map_of (rev (List.map (\<lambda>(t, _). (t_id t, t)) cs)) i of
         Some t \<Rightarrow> Some t | None \<Rightarrow> stored_task i db)"
    and "db_audits db' = db_audits db @ List.map snd cs"
    and "receipt = Some (rq, resp) \<Longrightarrow>
      \<not> hm_contains (db_requests db) (rq_request_id rq)
      \<and> hm_get (db_requests db') (rq_request_id rq) = Some (rq, resp)"
proof -
  from assms obtain d1 d2 where d1: "each_stmt write_change cs db = Inr d1"
    and d2: "each_stmt link_agent ls d1 = Inr d2"
    and r: "(case receipt of None \<Rightarrow> Inr d2 | Some (rq, resp) \<Rightarrow> insert_request rq resp d2) = Inr db'"
    unfolding stmt_save_def by (auto simp: res_bind_Ok_iff)
  from r have "db_tasks db' = db_tasks d2 \<and> db_audits db' = db_audits d2"
    by (auto simp: insert_request_def split: option.splits if_splits)
  with each_write_change_Ok[OF d1, of i] each_link_Ok[OF d2]
  show "stored_task i db' = (case map_of (rev (List.map (\<lambda>(t, _). (t_id t, t)) cs)) i of
         Some t \<Rightarrow> Some t | None \<Rightarrow> stored_task i db)"
    and "db_audits db' = db_audits db @ List.map snd cs" by (simp_all add: stored_task_def)
  show "\<not> hm_contains (db_requests db) (rq_request_id rq)
      \<and> hm_get (db_requests db') (rq_request_id rq) = Some (rq, resp)" if "receipt = Some (rq, resp)"
    using r each_write_change_Ok[OF d1, of i] each_link_Ok[OF d2] that
    by (auto simp: insert_request_def hm.get_ins split: if_splits)
qed

lemma stmt_save_receipt_used:
  "hm_get (db_requests db) (rq_request_id rq) = Some x \<Longrightarrow> \<exists>e. stmt_save cs (Some (rq, resp)) ls db = Inl e"
proof (rule ccontr)
  assume "hm_get (db_requests db) (rq_request_id rq) = Some x" and
    "\<not> (\<exists>e. stmt_save cs (Some (rq, resp)) ls db = Inl e)"
  moreover then obtain db' where "stmt_save cs (Some (rq, resp)) ls db = Inr db'"
    by (cases "stmt_save cs (Some (rq, resp)) ls db") auto
  ultimately show False using stmt_save_Ok(3)[of cs _ ls db db' rq resp]
    by (simp add: hm_contains_def)
qed

section \<open>Restart recovery\<close>

lemma restarted_fields [simp]:
  "t_id (restarted now t) = t_id t" "t_condition (restarted now t) = TcBlocked"
  "\<not> needs_restart (restarted now t)" "t_project_id (restarted now t) = t_project_id t"
  by (simp_all add: restarted_def clear_submission_def interrupt_attempts_def needs_restart_def
    waiting_in_queue_def)

lemma restarted_no_active_attempt:
  "a \<in> set (acc_attempts (t_acceptance (restarted now t))) \<Longrightarrow> \<not> result_active (ta_result a)"
  by (auto simp: restarted_def clear_submission_def interrupt_attempts_def interrupt_attempt_def)

definition recovered :: "time \<Rightarrow> task \<Rightarrow> task" where
  "recovered now t = (if needs_restart t then restarted now t else t)"

lemma stored_task_id: "db_ok db \<Longrightarrow> stored_task i db = Some t \<Longrightarrow> t_id t = i"
  by (auto simp: stored_task_def dest: db_ok_get(5))

lemma stmt_save_one:
  assumes ok: "db_ok db" and old: "stored_task (t_id t) db = Some u"
    and fresh: "uid \<notin> au_id ` set (db_audits db)" and au: "au_task_id a = t_id t" "au_id a = uid"
  shows "\<exists>db'. stmt_save [(t, a)] None [] db = Inr db' \<and> db_ok db'
    \<and> (\<forall>i. stored_task i db' = (if i = t_id t then Some t else stored_task i db))
    \<and> db_audits db' = db_audits db @ [a]"
proof -
  from old obtain row where row: "hm_get (db_tasks db) (t_id t) = Some row"
    by (auto simp: stored_task_def)
  let ?d = "db\<lparr>db_tasks := hm_insert (t_id t) \<lparr>tk_project = tk_project row,
      tk_revision = as_i64 (t_revision t), tk_order = t_order_key t, tk_task = t\<rparr> (db_tasks db)\<rparr>"
  have nf: "\<forall>b \<in> set (db_audits db). au_id b \<noteq> au_id a"
    using fresh au(2) by (metis imageI)
  have "write_task t db = Inr ?d" by (simp add: write_task_def row Let_def)
  moreover have "write_audit a ?d = Inr (?d\<lparr>db_audits := db_audits db @ [a]\<rparr>)"
    using nf by (simp add: write_audit_def hm_contains_insert au)
  ultimately have save: "stmt_save [(t, a)] None [] db = Inr (?d\<lparr>db_audits := db_audits db @ [a]\<rparr>)"
    by (simp add: stmt_save_def write_change_def)
  moreover from ok save have "db_ok (?d\<lparr>db_audits := db_audits db @ [a]\<rparr>)"
    by (rule keepsD[OF integrity.k_save])
  ultimately show ?thesis by (simp add: stored_task_def hm.get_ins)
qed

lemma reconcile_each:
  assumes "db_ok (st_db s)" and "st_faults s = []"
    and "distinct (List.map (\<lambda>(t, _). t_id t) ts)" and "distinct (List.map snd ts)"
    and "\<forall>(t, uid) \<in> set ts. stored_task (t_id t) (st_db s) = Some t
           \<and> uid \<notin> au_id ` set (db_audits (st_db s))"
  shows "\<exists>s'. each_tx (reconcile_task now) ts s = (Inr (), s')
    \<and> (\<forall>i. stored_task i (st_db s') = (if i \<in> (\<lambda>(t, _). t_id t) ` set ts
          then map_option (recovered now) (stored_task i (st_db s)) else stored_task i (st_db s)))"
  using assms
proof (induction ts arbitrary: s)
  case (Cons x ts)
  obtain t uid where x: "x = (t, uid)" by fastforce
  have stored: "stored_task (t_id t) (st_db s) = Some t"
    and uid: "uid \<notin> au_id ` set (db_audits (st_db s))" using Cons.prems(5) x by auto
  obtain s1 where step: "reconcile_task now x s = (Inr (), s1)" and ok1: "db_ok (st_db s1)"
    and f1: "st_faults s1 = []"
    and t1: "\<forall>i. stored_task i (st_db s1) =
      (if i = t_id t then Some (recovered now t) else stored_task i (st_db s))"
    and a1: "au_id ` set (db_audits (st_db s1)) \<subseteq> insert uid (au_id ` set (db_audits (st_db s)))"
  proof (cases "needs_restart t")
    case False
    have "reconcile_task now x s = (Inr (), s)" by (simp add: reconcile_task_def x False)
    moreover have "\<forall>i. stored_task i (st_db s) =
      (if i = t_id t then Some (recovered now t) else stored_task i (st_db s))"
      by (simp add: recovered_def False stored)
    ultimately show thesis using that Cons.prems(1,2) by blast
  next
    case True
    let ?t = "restarted now t"
    let ?a = "audit uid now ?t Daemon ''restart_recovery'' (Some (column ?t)) (t_last_reason ?t)"
    obtain db' where db': "stmt_save [(?t, ?a)] None [] (st_db s) = Inr db'" "db_ok db'"
      "\<forall>i. stored_task i db' = (if i = t_id ?t then Some ?t else stored_task i (st_db s))"
      "db_audits db' = db_audits (st_db s) @ [?a]"
      using stmt_save_one[OF Cons.prems(1), of ?t t uid ?a] stored uid by auto
    have "reconcile_task now x s = (Inr (), s\<lparr>st_db := db'\<rparr>)"
      using True db'(1) Cons.prems(2)
      by (simp add: reconcile_task_def x Let_def save_task_changes_def save_task_agent_changes_def
        in_tx_healthy)
    moreover have "\<forall>i. stored_task i db' =
      (if i = t_id t then Some (recovered now t) else stored_task i (st_db s))"
      using db'(3) by (simp add: recovered_def True)
    ultimately show thesis using that[of "s\<lparr>st_db := db'\<rparr>"] db'(2,4) Cons.prems(2) by simp
  qed
  have "\<forall>(t', uid') \<in> set ts. stored_task (t_id t') (st_db s1) = Some t'
      \<and> uid' \<notin> au_id ` set (db_audits (st_db s1))"
  proof (clarsimp)
    fix t' uid' assume m: "(t', uid') \<in> set ts"
    then have "t_id t' \<noteq> t_id t" "uid' \<noteq> uid" using Cons.prems(3,4) x by force+
    moreover from m Cons.prems(5) have "stored_task (t_id t') (st_db s) = Some t'"
      "uid' \<notin> au_id ` set (db_audits (st_db s))" by auto
    moreover from t1 have "stored_task (t_id t') (st_db s1) =
      (if t_id t' = t_id t then Some (recovered now t) else stored_task (t_id t') (st_db s))" by (rule spec)
    moreover have "uid' \<notin> insert uid (au_id ` set (db_audits (st_db s)))"
      using calculation by (simp only: insert_iff de_Morgan_disj) simp
    ultimately show "stored_task (t_id t') (st_db s1) = Some t'
      \<and> uid' \<notin> au_id ` set (db_audits (st_db s1))"
      using a1 by (simp only: if_False subset_iff) blast
  qed
  then obtain s2 where rest: "each_tx (reconcile_task now) ts s1 = (Inr (), s2)"
    and t2: "\<forall>i. stored_task i (st_db s2) = (if i \<in> (\<lambda>(t, _). t_id t) ` set ts
          then map_option (recovered now) (stored_task i (st_db s1)) else stored_task i (st_db s1))"
    using Cons.IH[OF ok1 f1] Cons.prems(3,4) by (auto simp: x)
  have "t_id t \<notin> (\<lambda>(t, _). t_id t) ` set ts" using Cons.prems(3) x by auto
  then have "\<forall>i. stored_task i (st_db s2) = (if i \<in> (\<lambda>(t, _). t_id t) ` set (x # ts)
          then map_option (recovered now) (stored_task i (st_db s)) else stored_task i (st_db s))"
    using t1 t2 stored x by auto
  with step rest show ?case by auto
qed simp

lemma load_tasks_stored:
  assumes "db_ok (st_db s)"
  shows "t \<in> set (load_tasks s) \<longleftrightarrow> stored_task (t_id t) (st_db s) = Some t"
proof -
  have ok: "hm_ok (db_tasks (st_db s))" and kd: "hm_keyed (\<lambda>r. t_id (tk_task r)) (db_tasks (st_db s))"
    using assms by (simp_all add: integrity_defs)
  have "t \<in> set (load_tasks s) \<longleftrightarrow> (\<exists>r \<in> set (hm_values (db_tasks (st_db s))). tk_task r = t)"
    by (force simp: load_tasks_def hm_values_def)
  also have "\<dots> \<longleftrightarrow> stored_task (t_id t) (st_db s) = Some t"
    by (auto simp: hm.keyed_by_vals[OF ok kd] stored_task_def)
  finally show ?thesis .
qed

lemma load_tasks_ids:
  assumes "db_ok (st_db s)"
  shows "List.map t_id (load_tasks s) = List.map fst (sort_key (\<lambda>(i, r). (tk_order r, i)) (db_tasks (st_db s)))"
    and "distinct (List.map t_id (load_tasks s))"
proof -
  have kd: "hm_keyed (\<lambda>r. t_id (tk_task r)) (db_tasks (st_db s))" and ok: "hm_ok (db_tasks (st_db s))"
    using assms by (simp_all add: integrity_defs)
  have "t_id (tk_task r) = i" if "(i, r) \<in> set (db_tasks (st_db s))" for i r
    using keyedD[OF kd, of i r] that ok by (simp add: hm_get_def hm_ok_def map_of_is_SomeI)
  then show eq: "List.map t_id (load_tasks s) = List.map fst (sort_key (\<lambda>(i, r). (tk_order r, i)) (db_tasks (st_db s)))"
    by (auto simp: load_tasks_def)
  have "distinct (List.map fst (sort_key (\<lambda>(i, r). (tk_order r, i)) (db_tasks (st_db s))))
    \<longleftrightarrow> distinct (List.map fst (db_tasks (st_db s)))"
    by (simp add: distinct_map inj_on_def)
  with ok eq show "distinct (List.map t_id (load_tasks s))" by (simp add: hm_ok_def)
qed

section \<open>Transcripts\<close>

lemma messages_of_strict:
  assumes "db_ok db"
  shows "sorted_wrt (<) (List.map fst (messages_of db a))"
proof -
  let ?l = "List.filter (\<lambda>(b, _). b = a) (db_messages db)"
  have "distinct (List.map (\<lambda>(a, n, _). (a, n)) ?l)"
    using assms by (simp add: integrity_defs distinct_map_filter)
  then have "distinct (List.map fst (List.map snd ?l))"
    by (auto simp: distinct_map inj_on_def)
  then have "distinct (List.map fst (messages_of db a))"
    by (simp add: messages_of_def distinct_map inj_on_def)
  moreover have "sorted (List.map fst (messages_of db a))" by (simp add: messages_of_def)
  ultimately show ?thesis by (simp add: strict_sorted_iff)
qed

lemma filter_below_append:
  fixes xs :: "(nat \<times> 'a) list"
  assumes "sorted_wrt (<) (List.map fst xs)" and "xs = ys @ z # zs"
  shows "List.filter (\<lambda>(k, _). k < fst z) xs = ys"
proof -
  from assms have "\<forall>y \<in> set ys. fst y < fst z" and "\<forall>y \<in> set (z # zs). \<not> fst y < fst z"
    by (auto simp: sorted_wrt_append)
  then have "List.filter (\<lambda>(k, _). k < fst z) ys = ys" "List.filter (\<lambda>(k, _). k < fst z) (z # zs) = []"
    by (auto simp: filter_id_conv filter_empty_conv)
  with assms(2) show ?thesis by simp
qed

text \<open>The page and what lies before it make up the transcript below the cursor.\<close>

lemma page_splits:
  fixes a before limit0 s
  defines "visible \<equiv> \<lambda>b. List.filter (\<lambda>(k, _). k < min (unwrap_or (2 ^ 64 - 1) b) (2 ^ 63 - 1))
              (messages_of (st_db s) a)"
    and "limit \<equiv> max 1 (min 200 limit0)"
    and "page \<equiv> list_agent_messages a before limit0 s"
  assumes ok: "db_ok (st_db s)"
  shows "length (mp_messages page) \<le> limit"
    and "mp_has_more page \<Longrightarrow> \<exists>n. mp_next_before page = Some n
          \<and> visible before = visible (Some n) @ mp_messages page
          \<and> length (visible (Some n)) < length (visible before)"
    and "\<not> mp_has_more page \<Longrightarrow> mp_messages page = visible before"
proof -
  define V where "V = visible before"
  have lim: "1 \<le> limit" by (simp add: limit_def)
  have e: "page = (let newest = take (limit + 1) (rev V); more = limit < length newest;
      page = rev (if more then take limit newest else newest)
    in \<lparr>mp_agent_id = a,
        mp_next_before = (if more then (case page of [] \<Rightarrow> None | x # _ \<Rightarrow> Some (fst x)) else None),
        mp_has_more = more, mp_messages = page\<rparr>)"
    unfolding page_def list_agent_messages_def V_def visible_def limit_def Let_def by (rule refl)
  have more: "mp_has_more page \<longleftrightarrow> limit < length V" by (simp add: e Let_def)
  have msgs: "mp_messages page = (if limit < length V then drop (length V - limit) V else V)"
    by (simp add: e Let_def rev_take take_rev Suc_diff_Suc)
  show "length (mp_messages page) \<le> limit" using msgs by auto
  show "mp_messages page = visible before" if "\<not> mp_has_more page"
    using that more msgs by (simp add: V_def)
  assume hm: "mp_has_more page"
  with more have lt: "limit < length V" by simp
  define i where "i = length V - limit"
  have i: "i < length V" using lt lim by (simp add: i_def)
  have page: "mp_messages page = drop i V" using msgs lt by (simp add: i_def)
  then have ne: "mp_messages page = V ! i # drop (Suc i) V" by (simp add: Cons_nth_drop_Suc i)
  have nb: "mp_next_before page = Some (fst (V ! i))"
  proof -
    have "mp_next_before page = (case mp_messages page of [] \<Rightarrow> None | x # _ \<Rightarrow> Some (fst x))"
      using hm by (simp add: e Let_def)
    with ne show ?thesis by simp
  qed
  have VV: "V = take i V @ V ! i # drop (Suc i) V" by (simp add: id_take_nth_drop i)
  have strict: "sorted_wrt (<) (List.map fst V)"
    unfolding V_def visible_def using messages_of_strict[OF ok, of a]
    by (simp add: sorted_wrt_filter sorted_wrt_map)
  have bound: "fst (V ! i) < 2 ^ 63 - 1"
    using nth_mem[OF i] unfolding V_def visible_def by (auto simp del: nth_mem)
  have "visible (Some (fst (V ! i))) = List.filter (\<lambda>(k, _). k < fst (V ! i)) V"
    using bound nth_mem[OF i] unfolding V_def visible_def
    by (auto simp: min_def intro!: filter_cong)
  also have "\<dots> = take i V" by (rule filter_below_append[OF strict VV])
  finally have v: "visible (Some (fst (V ! i))) = take i V" .
  with nb page i show "\<exists>n. mp_next_before page = Some n
          \<and> visible before = visible (Some n) @ mp_messages page
          \<and> length (visible (Some n)) < length (visible before)"
    by (auto simp: V_def[symmetric])
qed

text \<open>A client that pages backwards until no more is announced; \<open>fuel\<close> bounds the pages.\<close>

fun read_back :: "nat \<Rightarrow> agent_id \<Rightarrow> nat option \<Rightarrow> nat \<Rightarrow> store \<Rightarrow>
    (nat \<times> agent_chat_message) list option" where
  "read_back 0 a before limit s = None"
| "read_back (Suc n) a before limit s = (let page = list_agent_messages a before limit s in
     if mp_has_more page
     then map_option (\<lambda>older. older @ mp_messages page) (read_back n a (mp_next_before page) limit s)
     else Some (mp_messages page))"

lemma read_back_visible:
  assumes "db_ok (st_db s)"
  shows "length (List.filter (\<lambda>(k, _). k < min (unwrap_or (2 ^ 64 - 1) before) (2 ^ 63 - 1))
            (messages_of (st_db s) a)) < fuel \<Longrightarrow>
    read_back fuel a before limit s =
      Some (List.filter (\<lambda>(k, _). k < min (unwrap_or (2 ^ 64 - 1) before) (2 ^ 63 - 1))
              (messages_of (st_db s) a))"
proof (induction fuel arbitrary: before)
  case (Suc n)
  show ?case
  proof (cases "mp_has_more (list_agent_messages a before limit s)")
    case False
    with page_splits(3)[OF assms False] show ?thesis by simp
  next
    case True
    from page_splits(2)[OF assms True] obtain b where
      nb: "mp_next_before (list_agent_messages a before limit s) = Some b" and
      sp: "List.filter (\<lambda>(k, _). k < min (unwrap_or (2 ^ 64 - 1) before) (2 ^ 63 - 1))
              (messages_of (st_db s) a) =
           List.filter (\<lambda>(k, _). k < min (unwrap_or (2 ^ 64 - 1) (Some b)) (2 ^ 63 - 1))
              (messages_of (st_db s) a) @ mp_messages (list_agent_messages a before limit s)" and
      lt: "length (List.filter (\<lambda>(k, _). k < min (unwrap_or (2 ^ 64 - 1) (Some b)) (2 ^ 63 - 1))
              (messages_of (st_db s) a)) <
           length (List.filter (\<lambda>(k, _). k < min (unwrap_or (2 ^ 64 - 1) before) (2 ^ 63 - 1))
              (messages_of (st_db s) a))" by blast
    from lt Suc.prems have "length (List.filter (\<lambda>(k, _). k < min (unwrap_or (2 ^ 64 - 1) (Some b)) (2 ^ 63 - 1))
              (messages_of (st_db s) a)) < n" by linarith
    from Suc.IH[OF this] True nb sp show ?thesis by simp
  qed
qed simp

section \<open>A small store\<close>

definition sample_project :: project where
  "sample_project = \<lparr>p_id = 1, p_name = ''P'', p_root = ''/p'', p_created_at = 0,
     p_archived_at = None, p_git_policy = RequireRepository, p_execution_target = Local\<rparr>"

definition sample_store :: store where
  "sample_store = \<lparr>st_db = empty_database\<lparr>db_projects := [(1, sample_project)]\<rparr>, st_faults = []\<rparr>"

definition sample_request :: task_request where
  "sample_request = \<lparr>rq_project_id = Some 1, rq_request_id = 50, rq_operation = Create sample_draft\<rparr>"

lemma sample_project_simps [simp]:
  "p_id sample_project = 1" "p_execution_target sample_project = Local"
  "p_archived_at sample_project = None" "p_root sample_project = ''/p''"
  by (simp_all add: sample_project_def)

definition with_task :: "task \<Rightarrow> store \<Rightarrow> store" where
  "with_task t s = s\<lparr>st_db := (st_db s)\<lparr>db_tasks := [(t_id t,
     \<lparr>tk_project = t_project_id t, tk_revision = as_i64 (t_revision t), tk_order = t_order_key t,
      tk_task = t\<rparr>)]\<rparr>\<rparr>"

lemma db_ok_sample: "db_ok (st_db sample_store)"
  by (simp add: sample_store_def empty_database_def integrity_defs fk_def fk_list_def hm_ok_def
    unique_by_def hm.keyed_by_def hm_get_def)

lemma db_ok_with_task:
  assumes "t_project_id t = 1"
  shows "db_ok (st_db (with_task t sample_store))"
  using assms
  by (simp add: with_task_def sample_store_def empty_database_def integrity_defs fk_def fk_list_def
    hm_ok_def unique_by_def hm.keyed_by_def hm_get_def hm_contains_def)

lemma with_task_stored [simp]:
  "stored_task i (st_db (with_task t s)) = (if i = t_id t then Some t else None)"
  "st_faults (with_task t s) = st_faults s"
  "db_audits (st_db (with_task t s)) = db_audits (st_db s)"
  "db_requests (st_db (with_task t s)) = db_requests (st_db s)"
  "db_projects (st_db (with_task t s)) = db_projects (st_db s)"
  "db_agents (st_db (with_task t s)) = db_agents (st_db s)"
  by (simp_all add: with_task_def stored_task_def hm_get_def)

lemma sample_store_simps [simp]:
  "st_faults sample_store = []" "db_audits (st_db sample_store) = []"
  "db_requests (st_db sample_store) = []" "db_agents (st_db sample_store) = []"
  "db_tasks (st_db sample_store) = []"
  "hm_get (db_projects (st_db sample_store)) i = (if i = 1 then Some sample_project else None)"
  by (simp_all add: sample_store_def empty_database_def hm_get_def)

section \<open>Properties\<close>

text \<open>C12: starting from an empty database, whatever operations run, succeed or fail, the tables
  keep their primary keys, their unique columns and every foreign key of the schema.\<close>

theorem store_integrity:
  assumes "st_db s = empty_database" and "store_step\<^sup>*\<^sup>* s s'"
  shows "db_ok (st_db s')"
  using integrity.run_keeps[OF assms(2)] assms(1) db_ok_empty by simp

theorem store_integrity_witness:
  "db_ok (st_db (snd (delete_project 1 (snd (upsert_project sample_project
      \<lparr>st_db = empty_database, st_faults = []\<rparr>)))))"
proof -
  let ?s0 = "\<lparr>st_db = empty_database, st_faults = []\<rparr>"
  let ?s1 = "snd (upsert_project sample_project ?s0)"
  have "store_step ?s0 ?s1" by (rule store_step.upsert_project)
  moreover have "store_step ?s1 (snd (delete_project 1 ?s1))" by (rule store_step.delete_project)
  ultimately have "store_step\<^sup>*\<^sup>* ?s0 (snd (delete_project 1 ?s1))" by auto
  then show ?thesis by (rule store_integrity[of ?s0, rotated]) simp
qed

text \<open>What a saved task writes to the table of tasks, and a linked agent to that of agents.\<close>

definition saved_row :: "task \<Rightarrow> (task_id, task_row) hmap \<Rightarrow> (task_id, task_row) hmap" where
  "saved_row t rows = hm_insert (t_id t) \<lparr>tk_project = (case hm_get rows (t_id t) of
       None \<Rightarrow> t_project_id t | Some old \<Rightarrow> tk_project old),
     tk_revision = as_i64 (t_revision t), tk_order = t_order_key t, tk_task = t\<rparr> rows"

definition relinked :: "agent_run list \<Rightarrow> agent_id \<Rightarrow> agent_row option \<Rightarrow> agent_row option" where
  "relinked runs i row = (case (row, map_of (rev (List.map (\<lambda>run. (ar_id run, run)) runs)) i) of
     (Some r, Some run) \<Rightarrow> Some (r\<lparr>agr_task := ar_task_id run, agr_run := run\<rparr>) | _ \<Rightarrow> row)"

lemma each_change_exact:
  "each_stmt write_change cs db = Inr db' \<Longrightarrow>
     db' = db\<lparr>db_tasks := fold (\<lambda>(t, _). saved_row t) cs (db_tasks db), db_audits := db_audits db @ List.map snd cs\<rparr>"
proof (induction cs arbitrary: db)
  case (Cons c cs)
  then obtain d where c: "write_change c db = Inr d" and rest: "each_stmt write_change cs d = Inr db'"
    by (auto simp: res_bind_Ok_iff)
  have "d = db\<lparr>db_tasks := saved_row (fst c) (db_tasks db), db_audits := db_audits db @ [snd c]\<rparr>"
    using c by (auto simp: write_change_def write_task_def write_audit_def saved_row_def res_bind_Ok_iff Let_def
      split: option.splits if_splits)
  with Cons.IH[OF rest] show ?case by (simp add: case_prod_beta)
qed simp

lemma each_link_exact:
  "each_stmt link_agent ls db = Inr db' \<Longrightarrow> db' = db\<lparr>db_agents := db_agents db'\<rparr>
     \<and> (\<forall>i. hm_get (db_agents db') i = relinked ls i (hm_get (db_agents db) i))"
proof (induction ls arbitrary: db)
  case (Cons l ls)
  then obtain d where c: "link_agent l db = Inr d" and rest: "each_stmt link_agent ls d = Inr db'"
    by (auto simp: res_bind_Ok_iff)
  have d: "d = db\<lparr>db_agents := db_agents d\<rparr>" "hm_get (db_agents d) i = relinked [l] i (hm_get (db_agents db) i)" for i
    using c by (auto simp: link_agent_def relinked_def hm.get_ins split: option.splits if_splits)
  have "relinked ls i (relinked [l] i row) = relinked (l # ls) i row" for i row
    by (auto simp: relinked_def map_add_def split: option.splits)
  with Cons.IH[OF rest] d(2) have "db' = d\<lparr>db_agents := db_agents db'\<rparr>"
    "\<forall>i. hm_get (db_agents db') i = relinked (l # ls) i (hm_get (db_agents db) i)" by simp_all
  moreover from this(1) have "db' = db\<lparr>db_agents := db_agents db'\<rparr>" by (subst (asm) d(1)) simp
  ultimately show ?case by blast
qed (simp add: relinked_def split: option.split)

text \<open>C30: saving tasks is atomic and writes exactly what it is given: on any failure, of a constraint or of the
  disk, the tables are as before; on success every given task has its last given version, with its
  revision and order, and no other task changes; exactly the given history entries are appended; every
  stored agent that is given has its last given run and the task it names, and no other agent changes; the
  receipt, which was not there before, is added, or without one the receipts are as before; and nothing
  else is written.\<close>

theorem save_atomic:
  "(case save_task_agent_changes cs receipt linked s of
      (Inl e, s') \<Rightarrow> st_db s' = st_db s
    | (Inr _, s') \<Rightarrow>
        (\<forall>i. stored_task i (st_db s') =
           (case map_of (rev (List.map (\<lambda>(t, _). (t_id t, t)) cs)) i of
              Some t \<Rightarrow> Some t | None \<Rightarrow> stored_task i (st_db s)))
        \<and> (\<forall>i. hm_get (db_agents (st_db s')) i = relinked linked i (hm_get (db_agents (st_db s)) i))
        \<and> (case receipt of None \<Rightarrow> True | Some (rq, resp) \<Rightarrow>
             \<not> hm_contains (db_requests (st_db s)) (rq_request_id rq))
        \<and> st_db s' = (st_db s)\<lparr>
            db_tasks := fold (\<lambda>(t, _). saved_row t) cs (db_tasks (st_db s)),
            db_audits := db_audits (st_db s) @ List.map snd cs,
            db_agents := db_agents (st_db s'),
            db_requests := (case receipt of None \<Rightarrow> db_requests (st_db s)
              | Some (rq, resp) \<Rightarrow> hm_insert (rq_request_id rq) (rq, resp) (db_requests (st_db s)))\<rparr>)"
proof -
  obtain r s' where save: "in_tx (stmt_save cs receipt linked) s = (r, s')" by fastforce
  show ?thesis
  proof (cases r)
    case (Inl e)
    then show ?thesis using in_tx_Err[of "stmt_save cs receipt linked" s e] save
      by (simp add: save_task_agent_changes_def)
  next
    case (Inr u)
    then have ok: "stmt_save cs receipt linked (st_db s) = Inr (st_db s')"
      using in_tx_Ok[of "stmt_save cs receipt linked" s u] save by simp
    then obtain d1 d2 where d1: "each_stmt write_change cs (st_db s) = Inr d1"
      and d2: "each_stmt link_agent linked d1 = Inr d2"
      and d3: "(case receipt of None \<Rightarrow> Inr d2 | Some (rq, resp) \<Rightarrow> insert_request rq resp d2) = Inr (st_db s')"
      unfolding stmt_save_def by (auto simp: res_bind_Ok_iff)
    note e1 = each_change_exact[OF d1]
    note e2 = each_link_exact[OF d2]
    have e3: "st_db s' = d2\<lparr>db_requests := (case receipt of None \<Rightarrow> db_requests d2
              | Some (rq, resp) \<Rightarrow> hm_insert (rq_request_id rq) (rq, resp) (db_requests d2))\<rparr>"
      using d3 by (auto simp: insert_request_def split: option.splits if_splits)
    have ag: "db_agents (st_db s') = db_agents d2" by (simp add: e3)
    have "st_db s' = (st_db s)\<lparr>
            db_tasks := fold (\<lambda>(t, _). saved_row t) cs (db_tasks (st_db s)),
            db_audits := db_audits (st_db s) @ List.map snd cs,
            db_agents := db_agents (st_db s'),
            db_requests := (case receipt of None \<Rightarrow> db_requests (st_db s)
              | Some (rq, resp) \<Rightarrow> hm_insert (rq_request_id rq) (rq, resp) (db_requests (st_db s)))\<rparr>"
    proof -
      have "d2 = (st_db s)\<lparr>db_tasks := fold (\<lambda>(t, _). saved_row t) cs (db_tasks (st_db s)),
            db_audits := db_audits (st_db s) @ List.map snd cs, db_agents := db_agents d2\<rparr>"
        using e2 by (simp add: e1)
      then obtain x where x: "d2 = (st_db s)\<lparr>db_tasks := fold (\<lambda>(t, _). saved_row t) cs (db_tasks (st_db s)),
            db_audits := db_audits (st_db s) @ List.map snd cs, db_agents := x\<rparr>" by blast
      show ?thesis unfolding e3 x by (simp split: option.split)
    qed
    moreover have "\<forall>i. hm_get (db_agents (st_db s')) i = relinked linked i (hm_get (db_agents (st_db s)) i)"
      using e2 e1 ag by simp
    ultimately show ?thesis using Inr save stmt_save_Ok(1,3)[OF ok]
      by (simp add: save_task_agent_changes_def split: option.splits prod.splits)
  qed
qed

text \<open>C31: retries: once a request has its receipt, then after any further operations the same
  request is answered from it, another request with its id is refused as an idempotency
  conflict, and neither can change the tables again by saving tasks (\<open>save_task_agent_changes\<close>).\<close>

theorem receipt_permanent:
  assumes "hm_get (db_requests (st_db s)) (rq_request_id rq) = Some (rq, saved)"
    and "store_step\<^sup>*\<^sup>* s s'"
  shows "task_replay rq s' = Some (replayed saved s')
    \<and> (\<forall>rq'. rq_request_id rq' = rq_request_id rq \<longrightarrow> rq' \<noteq> rq \<longrightarrow>
         task_replay rq' s' = Some (RError (TaskError IdempotencyConflict
           ''This request ID was already used for different task input.'')))
    \<and> (\<forall>rq' cs resp linked. rq_request_id rq' = rq_request_id rq \<longrightarrow>
         (\<exists>e s2. save_task_agent_changes cs (Some (rq', resp)) linked s' = (Inl e, s2)
            \<and> st_db s2 = st_db s'))"
proof -
  have kept: "hm_get (db_requests (st_db s')) (rq_request_id rq) = Some (rq, saved)"
    by (rule receipts.run_keeps[OF assms(2,1)])
  have "\<exists>e s2. save_task_agent_changes cs (Some (rq', resp)) linked s' = (Inl e, s2)
            \<and> st_db s2 = st_db s'" if "rq_request_id rq' = rq_request_id rq" for rq' cs resp linked
  proof -
    from kept that have "hm_get (db_requests (st_db s')) (rq_request_id rq') = Some (rq, saved)"
      by simp
    from stmt_save_receipt_used[OF this, of cs resp linked]
    obtain e where "stmt_save cs (Some (rq', resp)) linked (st_db s') = Inl e" by blast
    then show ?thesis by (auto simp: save_task_agent_changes_def in_tx_def Let_def)
  qed
  with kept show ?thesis by (auto simp: task_replay_def)
qed

theorem receipt_permanent_witness:
  "task_replay sample_request (sample_store\<lparr>st_db := (st_db sample_store)
       \<lparr>db_requests := [(50, (sample_request, RDeleted 7))]\<rparr>\<rparr>) = Some (RDeleted 7)"
  using receipt_permanent[of "sample_store\<lparr>st_db := (st_db sample_store)
       \<lparr>db_requests := [(50, (sample_request, RDeleted 7))]\<rparr>\<rparr>" sample_request "RDeleted 7"]
  by (simp add: sample_request_def hm_get_def replayed_def)

text \<open>The history of a task is append-only: once it has an entry beyond its creation, no
  operation removes any of its entries.\<close>

theorem history_append_only:
  assumes "a \<in> set (db_audits (st_db s))" and "b \<in> set (db_audits (st_db s))"
    and "au_task_id b = au_task_id a" and "au_action b \<noteq> ''create''" and "store_step\<^sup>*\<^sup>* s s'"
  shows "a \<in> set (db_audits (st_db s'))"
  using history.run_keeps[OF assms(5), of a] assms(1-4) by (auto simp: in_history_def)

theorem history_append_only_witness:
  "\<exists>a. a \<in> set (db_audits (st_db (snd (delete_draft_task sample_task sample_request
      (sample_store\<lparr>st_db := (st_db sample_store)\<lparr>db_audits := [a]\<rparr>\<rparr>)))))"
proof -
  let ?a = "audit 3 5 sample_task User ''start'' None None"
  let ?s = "sample_store\<lparr>st_db := (st_db sample_store)\<lparr>db_audits := [?a]\<rparr>\<rparr>"
  have "store_step ?s (snd (delete_draft_task sample_task sample_request ?s))"
    by (rule store_step.delete_draft)
  then have "store_step\<^sup>*\<^sup>* ?s (snd (delete_draft_task sample_task sample_request ?s))" by auto
  then have "?a \<in> set (db_audits (st_db (snd (delete_draft_task sample_task sample_request ?s))))"
    by (rule history_append_only[of ?a ?s ?a, rotated -1]) simp_all
  then show ?thesis by blast
qed

text \<open>After a restart, recovery succeeds on a healthy disk and leaves every task that was not
  waiting in a queue blocked instead of queued, running or awaiting approval, with no attempt
  still active, and every other task, queued work included, untouched.\<close>

theorem reconcile_tasks_recovers:
  assumes "db_ok (st_db s)" and "st_faults s = []" and "inj fresh"
    and "\<forall>n. fresh n \<notin> au_id ` set (db_audits (st_db s))"
  shows "\<exists>s'. reconcile_tasks fresh now s = (Inr (), s')
    \<and> (\<forall>i. stored_task i (st_db s') = map_option (recovered now) (stored_task i (st_db s)))
    \<and> (\<forall>t \<in> set (load_tasks s). needs_restart t \<longrightarrow> t_condition (recovered now t) = TcBlocked
         \<and> (\<forall>a \<in> set (acc_attempts (t_acceptance (recovered now t))). \<not> result_active (ta_result a)))
    \<and> (\<forall>t \<in> set (load_tasks s). \<not> needs_restart t \<longrightarrow> recovered now t = t)"
proof -
  let ?ts = "load_tasks s"
  let ?l = "List.zip ?ts (List.map fresh [0..<length ?ts])"
  have ids: "List.map (\<lambda>(t, _). t_id t) ?l = List.map t_id ?ts"
    by (rule nth_equalityI) simp_all
  have entries: "\<forall>(t, uid) \<in> set ?l. stored_task (t_id t) (st_db s) = Some t
      \<and> uid \<notin> au_id ` set (db_audits (st_db s))"
  proof (clarify, intro conjI)
    fix t uid assume m: "(t, uid) \<in> set ?l"
    from set_zip_leftD[OF m] show "stored_task (t_id t) (st_db s) = Some t"
      by (simp add: load_tasks_stored[OF assms(1)])
    from set_zip_rightD[OF m] obtain n where "uid = fresh n" by auto
    with assms(4) show "uid \<notin> au_id ` set (db_audits (st_db s))" by (simp only: not_False_eq_True)
  qed
  have "List.map snd ?l = List.map fresh [0..<length ?ts]" by (rule nth_equalityI) simp_all
  moreover have "distinct (List.map fresh [0..<length ?ts])"
    using assms(3) by (simp add: distinct_map inj_on_def inj_def)
  ultimately have "\<exists>s'. each_tx (reconcile_task now) ?l s = (Inr (), s')
    \<and> (\<forall>i. stored_task i (st_db s') = (if i \<in> (\<lambda>(t, _). t_id t) ` set ?l
          then map_option (recovered now) (stored_task i (st_db s)) else stored_task i (st_db s)))"
    using assms(1,2,4) load_tasks_ids(2)[OF assms(1)] entries
    by (intro reconcile_each) (simp_all add: ids)
  then obtain s' where run: "each_tx (reconcile_task now) ?l s = (Inr (), s')"
    and st: "\<forall>i. stored_task i (st_db s') = (if i \<in> (\<lambda>(t, _). t_id t) ` set ?l
          then map_option (recovered now) (stored_task i (st_db s)) else stored_task i (st_db s))"
    by blast
  have "(\<lambda>(t, _). t_id t) ` set ?l = set (List.map t_id ?ts)"
    by (metis ids list.set_map)
  then have "stored_task i (st_db s) = None" if "i \<notin> (\<lambda>(t, _). t_id t) ` set ?l" for i
    using that load_tasks_stored[OF assms(1)] stored_task_id[OF assms(1), of i]
    by (cases "stored_task i (st_db s)") force+
  then have "\<forall>i. stored_task i (st_db s') = map_option (recovered now) (stored_task i (st_db s))"
    using st by simp
  with run show ?thesis
    by (auto simp: reconcile_tasks_def Let_def recovered_def dest: restarted_no_active_attempt)
qed

theorem reconcile_tasks_recovers_witness:
  "\<exists>s'. reconcile_tasks (\<lambda>n. n) 9 (with_task (sample_task\<lparr>t_condition := TcRunning,
        t_state := TsRunning\<rparr>) sample_store) = (Inr (), s')
     \<and> map_option t_condition (stored_task (t_id sample_task) (st_db s')) = Some TcBlocked"
proof -
  let ?t = "sample_task\<lparr>t_condition := TcRunning, t_state := TsRunning\<rparr>"
  let ?s = "with_task ?t sample_store"
  have "needs_restart ?t" by (simp add: needs_restart_def waiting_in_queue_def)
  have ok: "db_ok (st_db ?s)"
    by (rule db_ok_with_task) (use new_task_fields[OF sample_new_task] in simp)
  obtain s' where run: "reconcile_tasks (\<lambda>n. n) 9 ?s = (Inr (), s')"
    and st: "\<forall>i. stored_task i (st_db s') = map_option (recovered 9) (stored_task i (st_db ?s))"
    using reconcile_tasks_recovers[of ?s "\<lambda>n. n" 9] ok by (auto simp: inj_def)
  from st have "stored_task (t_id sample_task) (st_db s') = Some (recovered 9 ?t)" by simp
  with run \<open>needs_restart ?t\<close> show ?thesis by (simp add: recovered_def)
qed

text \<open>Paging backwards through a transcript with any page size ends after at most one page
  per message and yields every message exactly once, in the order they were appended.\<close>

theorem transcript_read_back:
  assumes "db_ok (st_db s)"
    and "\<forall>(k, _) \<in> set (messages_of (st_db s) a). k < 2 ^ 63 - 1"
    and "length (messages_of (st_db s) a) < fuel"
  shows "read_back fuel a None limit s = Some (messages_of (st_db s) a)"
proof -
  have "List.filter (\<lambda>(k, _). k < min (unwrap_or (2 ^ 64 - 1) None) (2 ^ 63 - 1)) (messages_of (st_db s) a)
      = messages_of (st_db s) a"
    using assms(2) by (auto simp: filter_id_conv)
  with read_back_visible[OF assms(1), of None a fuel limit] assms(3) show ?thesis by simp
qed

theorem transcript_read_back_witness:
  "read_back 1 4 None 2 sample_store = Some []"
  using transcript_read_back[of sample_store 4 1 2] db_ok_sample
  by (simp add: messages_of_def sample_store_def empty_database_def)

end
