(* ===== verification/Runtime_State.thy ===== *)
theory Runtime_State
  imports Store_Integrity
begin

text \<open>
  The daemon's shared state: \<open>RuntimeState\<close> of \<open>crates/ditchd/src/runtime_shared.rs\<close> with the
  operations of its \<open>impl\<close> blocks in \<open>task_runtime.rs\<close> and \<open>remote_maintenance.rs\<close> that every
  handler uses: the event log with its bounded replay buffer, publication of tasks, attention,
  writer release and reaping, and the synchronisation of a task with its agent.

  A handler holds the state's lock for the whole of one operation, so an operation is a function
  on the state. What the operating system answers is the \<open>world\<close> an operation runs in: the clock,
  fresh identifiers, which process groups are alive, how paths resolve.
\<close>

section \<open>World and state\<close>

record world =
  w_now :: time
  w_uuid :: "nat \<Rightarrow> uuid"
  w_group_exists :: "int \<Rightarrow> bool"
  w_canonical :: "path \<Rightarrow> (path, string) result"
  w_macos :: bool
  w_lower :: "string \<Rightarrow> string"
  w_upgrade_lock :: bool
  w_show_uuid :: "uuid \<Rightarrow> string"
  w_line_len :: "nat \<Rightarrow> server_event \<Rightarrow> nat"

record agent_record =
  rec_run :: agent_run
  rec_project_root :: path
  rec_messages :: "agent_chat_message list"
  rec_failure :: "string option"

record active_child =
  ch_run_id :: uuid
  ch_process_group :: int
  ch_app_server :: bool

record acceptance_control =
  co_owner :: agent_id
  co_cancelled :: bool

record runtime =
  rt_store :: store
  rt_projects :: "(string, project) hmap"
  rt_agents :: "(agent_id, agent_record) hmap"
  rt_releases :: "(uuid, project_release) hmap"
  rt_tasks :: "(task_id, task) hmap"
  rt_controls :: "(task_id, acceptance_control) hmap"
  rt_acceptance_owners :: "agent_id list"
  rt_validator_owners :: "agent_id list"
  rt_writer_leases :: "(agent_id, workspace_lease) hmap"
  rt_remote_uncertain :: "(agent_id, string) hmap"
  rt_orphans :: "(agent_id, int) hmap"
  rt_children :: "(agent_id, active_child) hmap"
  rt_replay :: "(nat \<times> server_event) list"
  rt_replay_bytes :: nat
  rt_next_sequence :: nat
  rt_attention :: "runtime_attention list"
  rt_codex_home :: "path option"
  rt_codex_binary :: "string option"
  rt_remote_runtime :: bool
  rt_maintenance :: "(uuid \<times> time) option"
  rt_draws :: nat
  rt_signals :: "int list"

text \<open>\<open>rt_draws\<close> counts the fresh identifiers drawn, \<open>rt_signals\<close> lists the groups killed.\<close>

definition with_store :: "(store \<Rightarrow> ('a, store_error) result \<times> store) \<Rightarrow> runtime \<Rightarrow>
    ('a, store_error) result \<times> runtime" where
  "with_store f s = (let (r, st) = f (rt_store s) in (r, s\<lparr>rt_store := st\<rparr>))"

definition fresh_uuid :: "world \<Rightarrow> runtime \<Rightarrow> uuid" where
  "fresh_uuid w s = w_uuid w (rt_draws s)"

definition drawn :: "runtime \<Rightarrow> runtime" where
  "drawn s = s\<lparr>rt_draws := Suc (rt_draws s)\<rparr>"

definition storage_error :: "store_error \<Rightarrow> task_error" where
  "storage_error e = TaskError Storage (store_message e)"

definition project_by :: "(project \<Rightarrow> bool) \<Rightarrow> runtime \<Rightarrow> project option" where
  \<comment> \<open>\<open>projects.values().find(..)\<close>\<close>
  "project_by P s = find P (hm_values (rt_projects s))"

definition any_project :: "(project \<Rightarrow> bool) \<Rightarrow> runtime \<Rightarrow> bool" where
  "any_project P s = list_ex P (hm_values (rt_projects s))"

definition any_task :: "(task \<Rightarrow> bool) \<Rightarrow> runtime \<Rightarrow> bool" where
  "any_task P s = list_ex P (hm_values (rt_tasks s))"

fun agent_running :: "agent_state \<Rightarrow> bool" where
  "agent_running AsStarting = True"
| "agent_running AsWorking = True"
| "agent_running AsStopping = True"
| "agent_running AsAwaitingApproval = True"
| "agent_running _ = False"

definition remote_maintenance_active :: "world \<Rightarrow> runtime \<Rightarrow> bool" where
  "remote_maintenance_active w s =
     is_some_and (rt_maintenance s) (\<lambda>(_, until). w_now w < until \<or> w_upgrade_lock w)"

definition active_session_count :: "runtime \<Rightarrow> nat" where
  "active_session_count s =
     max (length (List.filter (\<lambda>r. agent_active (ar_state (rec_run r))) (hm_values (rt_agents s))))
         (length (rt_writer_leases s))"

section \<open>Events\<close>

definition replay_limit :: nat where "replay_limit = 2048"
definition replay_byte_limit :: nat where "replay_byte_limit = 8 * 1024 * 1024"

fun evict :: "(nat \<times> server_event \<Rightarrow> nat) \<Rightarrow> (nat \<times> server_event) list \<Rightarrow> nat \<Rightarrow>
    (nat \<times> server_event) list \<times> nat" where
  "evict len [] bytes = ([], bytes)"
| "evict len (x # xs) bytes =
     (if replay_limit < length (x # xs) \<or> replay_byte_limit < bytes
      then evict len xs (bytes - len x) else (x # xs, bytes))"

definition broadcast_event :: "world \<Rightarrow> server_event \<Rightarrow> runtime \<Rightarrow> runtime" where
  "broadcast_event w ev s =
     (let n = rt_next_sequence s;
          bytes = rt_replay_bytes s + w_line_len w n ev;
          (buf, bytes) = evict (\<lambda>(k, e). w_line_len w k e) (rt_replay s @ [(n, ev)]) bytes
      in s\<lparr>rt_next_sequence := n + 1, rt_replay := buf, rt_replay_bytes := bytes\<rparr>)"

text \<open>\<open>publish_tasks\<close>: task events have no effect on agents, so they are broadcast plainly.\<close>

fun publish_tasks :: "world \<Rightarrow> (task \<times> task_audit) list \<Rightarrow> runtime \<Rightarrow> runtime" where
  "publish_tasks w [] s = s"
| "publish_tasks w ((t, _) # cs) s =
     publish_tasks w cs (broadcast_event w (TaskChanged t)
       (s\<lparr>rt_tasks := hm_insert (t_id t) t (rt_tasks s)\<rparr>))"

section \<open>Attention\<close>

definition attention_title :: "task \<Rightarrow> string" where
  "attention_title t =
     (if column t = InReview then ''Task ready for review''
      else (let code = hd (split_byte (CHR '':'') (unwrap_or [] (t_last_reason t))) in
        if code = ''budget_exhausted'' then ''Attempt budget exhausted''
        else if code = ''workspace_changed'' then ''Workspace changed externally''
        else if code = ''validator_infrastructure'' then ''Validator infrastructure error''
        else if code = ''cancelled'' then ''Task loop cancelled''
        else ''Task loop blocked''))"

definition attention_body :: "task \<Rightarrow> string" where
  "attention_body t = t_title t @ '': '' @
     unwrap_or ''Inspect the summary, then Accept or Request Changes.'' (t_last_reason t)"

definition attention_for :: "world \<Rightarrow> task \<Rightarrow> runtime \<Rightarrow> runtime_attention" where
  "attention_for w t s = \<lparr>at_id = fresh_uuid w s,
     at_kind = (if column t = InReview then AkCompleted else AkBlocked),
     at_agent_id = t_assigned_agent_id t, at_project_id = Some (t_project_id t),
     at_project_name = map_option p_name (project_by (\<lambda>p. p_id p = t_project_id t) s),
     at_agent_name = None, at_title = attention_title t, at_body = attention_body t,
     at_created_at = w_now w, at_read_at = None\<rparr>"

definition already_raised :: "task \<Rightarrow> runtime \<Rightarrow> bool" where
  "already_raised t s =
     list_ex (\<lambda>a. at_agent_id a = t_assigned_agent_id t \<and> at_project_id a = Some (t_project_id t)
            \<and> at_title a = attention_title t \<and> at_body a = attention_body t) (rt_attention s)"

definition task_attention :: "world \<Rightarrow> task \<Rightarrow> runtime \<Rightarrow> runtime" where
  "task_attention w t s =
     (if already_raised t s then s
      else case with_store (upsert_attention (attention_for w t s)) (drawn s) of
             (Inl _, s') \<Rightarrow> s'
           | (Inr _, s') \<Rightarrow> broadcast_event w (AttentionRaised (attention_for w t s))
               (s'\<lparr>rt_attention := rt_attention s' @ [attention_for w t s]\<rparr>))"

section \<open>Liveness and task synchronisation\<close>

definition task_live :: "runtime \<Rightarrow> task \<Rightarrow> bool" where
  "task_live s t =
     (if waiting_in_queue t then False
      else hm_contains (rt_controls s) (t_id t)
        \<or> is_some_and (t_assigned_agent_id t) (\<lambda>i.
            (case hm_get (rt_agents s) i of None \<Rightarrow> True
             | Some r \<Rightarrow> ar_task_id (rec_run r) = Some (t_id t))
            \<and> (hm_contains (rt_children s) i \<or> hm_contains (rt_writer_leases s) i))
        \<or> condition_live (t_condition t))"

definition agent_coordinator_group :: "runtime \<Rightarrow> agent_id \<Rightarrow> uuid option" where
  "agent_coordinator_group s i =
     opt_or (Option.bind (find (\<lambda>t. t_assigned_agent_id t = Some i \<and> t_coordinator_group t \<noteq> None)
               (hm_values (rt_tasks s))) t_coordinator_group)
       (Option.bind (hm_get (rt_agents s) i) (\<lambda>r. ar_coordinator_group (rec_run r)))"

definition final_message :: "agent_record \<Rightarrow> agent_chat_message option" where
  \<comment> \<open>The last assistant message after the last user message.\<close>
  "final_message r = find (\<lambda>m. cm_role m = CrAssistant)
     (takeWhile (\<lambda>m. cm_role m \<noteq> CrUser) (rev (rec_messages r)))"

definition sync_condition :: "bool \<Rightarrow> agent_state \<Rightarrow> task_condition" where
  "sync_condition live st = (case st of
      AsAwaitingApproval \<Rightarrow> TcAwaitingApproval
    | AsBlocked \<Rightarrow> TcBlocked
    | AsFailed \<Rightarrow> if live then TcRunning else TcFailed
    | AsInterrupted \<Rightarrow> if live then TcRunning else TcFailed
    | AsStale \<Rightarrow> if live then TcRunning else TcFailed
    | _ \<Rightarrow> if live then TcRunning else TcIdle)"

definition no_summary_reason :: string where
  "no_summary_reason = ''The agent exited without a final summary. Review its chat and submit a summary manually.''"

text \<open>The change \<open>sync_agent_task\<close> makes to a task, if any, from the record of its agent.\<close>

definition sync_change :: "uuid \<Rightarrow> time \<Rightarrow> bool \<Rightarrow> agent_record \<Rightarrow> task \<Rightarrow> (task \<times> task_audit) option"
where
  "sync_change uid now live r t = (let
      st = ar_state (rec_run r);
      condition = sync_condition live st;
      summary = map_option cm_text (final_message r);
      completed = (\<not> live \<and> st = AsCompleted)
    in if completed \<and> \<not> condition_live (t_condition t) then None
       else if completed \<and> is_some_and summary (\<lambda>m. \<not> blank m)
       then (case transition uid now t (Submit (take_chars 16000 (unwrap_or [] summary))) Agent
               (t_revision t) False of Inl _ \<Rightarrow> None | Inr c \<Rightarrow> Some c)
       else if condition \<noteq> t_condition t \<or> (completed \<and> t_last_reason t = None)
       then (let next = t\<lparr>t_condition := (if completed then TcBlocked else condition)\<rparr>;
                 next = (if completed then next\<lparr>t_last_reason := Some no_summary_reason\<rparr>
                         else if condition = TcFailed \<or> condition = TcBlocked
                         then next\<lparr>t_last_reason :=
                           opt_or (rec_failure r) (ar_last_visible_action (rec_run r))\<rparr>
                         else next);
                 next = touch now next
             in Some (next, audit uid now next Daemon ''agent_condition'' (Some (column t))
                        (t_last_reason next)))
       else None)"

definition sync_target :: "runtime \<Rightarrow> agent_id \<Rightarrow> (agent_record \<times> task) option" where
  "sync_target s i =
     (if i \<in> set (rt_acceptance_owners s) then None
      else Option.bind (hm_get (rt_agents s) i) (\<lambda>r.
        Option.bind (ar_task_id (rec_run r)) (\<lambda>tid.
        Option.bind (hm_get (rt_tasks s) tid) (\<lambda>t.
          if any_project (\<lambda>p. p_id p = t_project_id t \<and> is_remote p) s then None
          else if t_assigned_agent_id t \<noteq> Some i \<or> t_archived t \<or> column t \<noteq> InProgress then None
          else Some (r, t)))))"

definition agent_live :: "runtime \<Rightarrow> agent_id \<Rightarrow> agent_record \<Rightarrow> bool" where
  "agent_live s i r =
     (hm_contains (rt_children s) i \<or> ar_can_stop (rec_run r) \<or> hm_contains (rt_orphans s) i)"

definition sync_agent_task :: "world \<Rightarrow> agent_id \<Rightarrow> runtime \<Rightarrow> runtime" where
  "sync_agent_task w i s = (case sync_target s i of None \<Rightarrow> s
    | Some (r, t) \<Rightarrow>
        (case sync_change (fresh_uuid w s) (w_now w) (agent_live s i r) r t of None \<Rightarrow> s
         | Some (next, au) \<Rightarrow>
             (case with_store (save_task_changes [(next, au)] None None) (drawn s) of
                (Inl _, s') \<Rightarrow> s'
              | (Inr _, s') \<Rightarrow>
                  (let s2 = publish_tasks w [(next, au)] s' in
                   if column next = InReview \<or> t_condition next = TcFailed
                      \<or> t_condition next = TcBlocked
                   then task_attention w next s2 else s2))))"

section \<open>Writers\<close>

definition release_refused :: "runtime \<Rightarrow> agent_id \<Rightarrow> bool" where
  "release_refused s i =
     (i \<in> set (rt_acceptance_owners s)
      \<or> any_task (\<lambda>t. t_assigned_agent_id t = Some i \<and> condition_live (t_condition t)
            \<and> any_project (\<lambda>p. p_id p = t_project_id t \<and> is_remote p) s) s)"

text \<open>A process group that still lives keeps the lease: it is killed, and waits as an orphan.\<close>

definition reserved_group :: "runtime \<Rightarrow> agent_id \<Rightarrow> int option" where
  "reserved_group s i =
     Option.bind (hm_get (db_writers (st_db (rt_store s))) i) wr_pid"

definition release_writer :: "world \<Rightarrow> agent_id \<Rightarrow> runtime \<Rightarrow> runtime" where
  "release_writer w i s =
     (if release_refused s i then s
      else case opt_filter (w_group_exists w) (reserved_group s i) of
          Some pid \<Rightarrow>
            s\<lparr>rt_signals := (if i \<in> set (rt_validator_owners s) then rt_signals s
                            else rt_signals s @ [pid]),
              rt_orphans := hm_insert i pid (rt_orphans s)\<rparr>
        | None \<Rightarrow>
            (case with_store (release_writer_row i) s of
               (Inl _, s') \<Rightarrow> s'
             | (Inr _, s') \<Rightarrow>
                 s'\<lparr>rt_validator_owners := hs_remove i (rt_validator_owners s'),
                   rt_writer_leases := hm_remove i (rt_writer_leases s'),
                   rt_orphans := hm_remove i (rt_orphans s')\<rparr>))"

definition exited_orphans :: "world \<Rightarrow> runtime \<Rightarrow> agent_id list" where
  "exited_orphans w s =
     List.map fst (List.filter (\<lambda>(_, pid). \<not> w_group_exists w pid) (rt_orphans s))"

definition reap_orphan_writers :: "world \<Rightarrow> runtime \<Rightarrow> runtime" where
  "reap_orphan_writers w s =
     fold (\<lambda>i s. sync_agent_task w i (release_writer w i s)) (exited_orphans w s) s"

text \<open>\<open>broadcast\<close>: an agent's change first releases its writer and brings its task up to date.\<close>

definition before_agent_event :: "world \<Rightarrow> agent_run \<Rightarrow> runtime \<Rightarrow> runtime" where
  "before_agent_event w run s =
     (let s = (if \<not> ar_can_stop run \<and> \<not> hm_contains (rt_children s) (ar_id run)
                 \<and> \<not> agent_running (ar_state run)
               then release_writer w (ar_id run) s else s)
      in sync_agent_task w (ar_id run) s)"

definition broadcast :: "world \<Rightarrow> server_event \<Rightarrow> runtime \<Rightarrow> runtime" where
  "broadcast w ev s =
     broadcast_event w ev (case ev of AgentChanged run \<Rightarrow> before_agent_event w run s | _ \<Rightarrow> s)"

definition persist_agent :: "agent_id \<Rightarrow> runtime \<Rightarrow> runtime" where
  "persist_agent i s = (case hm_get (rt_agents s) i of None \<Rightarrow> s
    | Some r \<Rightarrow> snd (with_store (upsert_agent (rec_run r) (rec_failure r) (rt_codex_home s)) s))"

section \<open>Start\<close>

text \<open>
  The part of \<open>RuntimeState::new\<close> that rebuilds the state from the store: agents and tasks are
  reconciled, running plan jobs become interrupted, and a writer reservation survives only
  while its process group lives or its remote host is known.
\<close>

definition interrupted_plan :: "time \<Rightarrow> task \<Rightarrow> task" where
  "interrupted_plan now t = touch now (t\<lparr>t_planning := (t_planning t)\<lparr>pl_job :=
     map_option (\<lambda>j. j\<lparr>pj_status := ''interrupted'', pj_finished_at := Some now,
       pj_error := Some ''Planning was interrupted by a runtime restart. Try again.''\<rparr>)
       (pl_job (t_planning t))\<rparr>\<rparr>)"

definition plan_running :: "task \<Rightarrow> bool" where
  "plan_running t = is_some_and (pl_job (t_planning t)) (\<lambda>j. pj_status j = ''running'')"

definition local_project :: "project list \<Rightarrow> project_id \<Rightarrow> bool" where
  "local_project ps i = list_ex (\<lambda>p. p_id p = i \<and> \<not> is_remote p) ps"

fun interrupt_plans :: "time \<Rightarrow> project list \<Rightarrow> (task \<times> uuid) list \<Rightarrow> store \<Rightarrow>
    (task list, store_error) result \<times> store" where
  "interrupt_plans now ps [] s = (Ok [], s)"
| "interrupt_plans now ps ((t, uid) # ts) s =
     (if local_project ps (t_project_id t) \<and> plan_running t
      then (let t' = interrupted_plan now t in
        case save_task_changes [(t', audit uid now t' Daemon ''plan_interrupted'' None None)]
               None None s of
          (Inl e, s') \<Rightarrow> (Err e, s')
        | (Inr _, s') \<Rightarrow> (case interrupt_plans now ps ts s' of
              (Inl e, s2) \<Rightarrow> (Err e, s2) | (Inr us, s2) \<Rightarrow> (Ok (t' # us), s2)))
      else (case interrupt_plans now ps ts s of
              (Inl e, s2) \<Rightarrow> (Err e, s2) | (Inr us, s2) \<Rightarrow> (Ok (t # us), s2)))"

record writer_maps =
  wm_leases :: "(agent_id, workspace_lease) hmap"
  wm_orphans :: "(agent_id, int) hmap"
  wm_uncertain :: "(agent_id, string) hmap"

definition remote_alias_of :: "world \<Rightarrow> project list \<Rightarrow> string \<Rightarrow> string option" where
  "remote_alias_of w ps target =
     Option.bind (find (\<lambda>p. case p_execution_target p of
           Remote m _ \<Rightarrow> w_show_uuid w m = target | Local \<Rightarrow> False) ps)
       (\<lambda>p. case p_execution_target p of Remote _ host \<Rightarrow> Some host | Local \<Rightarrow> None)"

fun restore_writers :: "world \<Rightarrow> project list \<Rightarrow>
    (agent_id \<times> workspace_lease \<times> int option) list \<Rightarrow> writer_maps \<Rightarrow> store \<Rightarrow>
    (writer_maps, store_error) result \<times> store" where
  "restore_writers w ps [] m s = (Ok m, s)"
| "restore_writers w ps ((i, lease, pid) # rs) m s = (let
      drop = (case release_writer_row i s of
                (Inl e, s') \<Rightarrow> (Err e, s')
              | (Inr _, s') \<Rightarrow> restore_writers w ps rs m s');
      keep = m\<lparr>wm_leases := hm_insert i lease (wm_leases m)\<rparr>
    in if wl_target lease \<noteq> ''local''
       then (case remote_alias_of w ps (wl_target lease) of
               Some host \<Rightarrow> restore_writers w ps rs
                 (keep\<lparr>wm_uncertain := hm_insert i host (wm_uncertain m)\<rparr>) s
             | None \<Rightarrow> drop)
       else (case opt_filter (w_group_exists w) pid of
               Some p \<Rightarrow> restore_writers w ps rs
                 (keep\<lparr>wm_orphans := hm_insert i p (wm_orphans m)\<rparr>) s
             | None \<Rightarrow> drop))"

definition restored_agent :: "(agent_run \<Rightarrow> string option) \<Rightarrow> project list \<Rightarrow> durable_agent \<Rightarrow>
    (agent_id \<times> agent_record) option" where
  "restored_agent title ps a =
     Option.bind (find (\<lambda>p. p_id p = ar_project_id (da_run a)) ps) (\<lambda>p.
       (let run = (da_run a)\<lparr>ar_can_stop := False\<rparr>;
            run = (if is_remote p then run else run\<lparr>ar_codex_title := title run\<rparr>)
        in Some (ar_id run, \<lparr>rec_run = run, rec_project_root = p_root p,
             rec_messages = da_messages a, rec_failure = da_failure a\<rparr>)))"

definition collect_map :: "('k \<times> 'v) list \<Rightarrow> ('k, 'v) hmap" where
  "collect_map xs = fold (\<lambda>(k, v). hm_insert k v) xs []"

text \<open>
  The Codex binary: the saved choice is checked by \<open>resolve\<close> (the search of the file system), and
  a different result is saved.
\<close>

definition codex_binary_key :: setting_key where
  "codex_binary_key = NamedKey ''codex_binary''"

definition select_codex_binary :: "(string option \<Rightarrow> string option) \<Rightarrow> store \<Rightarrow>
    (string option, store_error) result \<times> store" where
  "select_codex_binary resolve s = (let
      selected = (case setting codex_binary_key s of Some (SvText x) \<Rightarrow> Some x | _ \<Rightarrow> None);
      found = resolve selected
    in (case found of
          Some binary \<Rightarrow>
            if selected \<noteq> found
            then (case set_setting codex_binary_key (SvText binary) s of
                    (Inl e, s') \<Rightarrow> (Err e, s') | (Inr _, s') \<Rightarrow> (Ok found, s'))
            else (Ok found, s)
        | None \<Rightarrow> (Ok None, s)))"

text \<open>
  \<open>title\<close> reads the agent's title from the Codex state file, \<open>root_key\<close> is \<open>Project::root_key\<close>,
  \<open>home\<close> the Codex home of the environment; \<open>fresh\<close> and \<open>fresh'\<close> supply audit ids. The
  installation identity and the registries of connections, which start empty, are not part of the
  modelled state.
\<close>

definition new_runtime :: "world \<Rightarrow> (project \<Rightarrow> string) \<Rightarrow>
    (agent_run \<Rightarrow> string option) \<Rightarrow> path option \<Rightarrow> (string option \<Rightarrow> string option) \<Rightarrow> bool \<Rightarrow>
    (uuid \<times> time) option \<Rightarrow>
    (nat \<Rightarrow> uuid) \<Rightarrow> (nat \<Rightarrow> uuid) \<Rightarrow> store \<Rightarrow> (runtime, store_error) result \<times> store" where
  "new_runtime w root_key title home resolve remote maintenance fresh fresh' s0 =
     (case reconcile_active_agents (w_now w) s0 of (Inl e, s1) \<Rightarrow> (Err e, s1) | (Inr _, s1) \<Rightarrow>
     (case reconcile_tasks fresh (w_now w) s1 of (Inl e, s2) \<Rightarrow> (Err e, s2) | (Inr _, s2) \<Rightarrow>
     (let du = load s2 in
      case interrupt_plans (w_now w) (du_projects du)
             (List.zip (du_tasks du) (List.map fresh' [0..<length (du_tasks du)])) s2 of
        (Inl e, s3) \<Rightarrow> (Err e, s3) | (Inr tasks, s3) \<Rightarrow>
     (case restore_writers w (du_projects du) (writer_reservations s3)
             \<lparr>wm_leases = [], wm_orphans = [], wm_uncertain = []\<rparr> s3 of
        (Inl e, s4) \<Rightarrow> (Err e, s4) | (Inr m, s4) \<Rightarrow>
     (case select_codex_binary resolve s4 of
        (Inl e, s5) \<Rightarrow> (Err e, s5) | (Inr binary, s5) \<Rightarrow>
      (Ok \<lparr>rt_store = s5,
           rt_projects = collect_map (List.map (\<lambda>p. (root_key p, p)) (du_projects du)),
           rt_agents = collect_map (List.map_filter (restored_agent title
             (hm_values (collect_map (List.map (\<lambda>p. (root_key p, p)) (du_projects du)))))
             (du_agents du)),
           rt_releases = collect_map (List.map (\<lambda>r. (rel_id r, r)) (du_releases du)),
           rt_tasks = collect_map (List.map (\<lambda>t. (t_id t, t)) tasks),
           rt_controls = [], rt_acceptance_owners = [],
           rt_validator_owners = validator_owners s5,
           rt_writer_leases = wm_leases m, rt_remote_uncertain = wm_uncertain m,
           rt_orphans = wm_orphans m, rt_children = [], rt_replay = [], rt_replay_bytes = 0,
           rt_next_sequence = 1, rt_attention = du_attention du, rt_codex_home = home,
           rt_codex_binary = binary, rt_remote_runtime = remote,
           rt_maintenance = (if remote then maintenance else None),
           rt_draws = 0, rt_signals = []\<rparr>, s5))))))"

end
