(* ===== verification/Runtime_Facts.thy ===== *)
theory Runtime_Facts
  imports Runtime_State
begin

text \<open>
  What the runtime's operations leave alone, and three invariants of the state: the tasks in
  memory are the stored ones (nothing is published before its transaction committed), the replay
  buffer is a gap-free suffix of the event log within its bounds, and a task reaches review
  through its agent only with the agent's own final summary.
\<close>

section \<open>Frames\<close>

lemma with_storeE:
  assumes "with_store f s = (r, s')"
  obtains st where "s' = s\<lparr>rt_store := st\<rparr>" and "f (rt_store s) = (r, st)"
  using assms by (auto simp: with_store_def Let_def split: prod.splits)

lemma drawn_simps [simp]:
  "rt_store (drawn s) = rt_store s" "rt_projects (drawn s) = rt_projects s"
  "rt_agents (drawn s) = rt_agents s" "rt_tasks (drawn s) = rt_tasks s"
  "rt_controls (drawn s) = rt_controls s" "rt_orphans (drawn s) = rt_orphans s"
  "rt_acceptance_owners (drawn s) = rt_acceptance_owners s"
  "rt_validator_owners (drawn s) = rt_validator_owners s"
  "rt_writer_leases (drawn s) = rt_writer_leases s" "rt_children (drawn s) = rt_children s"
  "rt_maintenance (drawn s) = rt_maintenance s" "rt_attention (drawn s) = rt_attention s"
  "rt_replay (drawn s) = rt_replay s" "rt_replay_bytes (drawn s) = rt_replay_bytes s"
  "rt_next_sequence (drawn s) = rt_next_sequence s" "rt_codex_home (drawn s) = rt_codex_home s"
  by (simp_all add: drawn_def)

lemma broadcast_event_simps [simp]:
  "rt_store (broadcast_event w ev s) = rt_store s"
  "rt_projects (broadcast_event w ev s) = rt_projects s"
  "rt_agents (broadcast_event w ev s) = rt_agents s"
  "rt_releases (broadcast_event w ev s) = rt_releases s"
  "rt_tasks (broadcast_event w ev s) = rt_tasks s"
  "rt_controls (broadcast_event w ev s) = rt_controls s"
  "rt_acceptance_owners (broadcast_event w ev s) = rt_acceptance_owners s"
  "rt_validator_owners (broadcast_event w ev s) = rt_validator_owners s"
  "rt_writer_leases (broadcast_event w ev s) = rt_writer_leases s"
  "rt_remote_uncertain (broadcast_event w ev s) = rt_remote_uncertain s"
  "rt_orphans (broadcast_event w ev s) = rt_orphans s"
  "rt_children (broadcast_event w ev s) = rt_children s"
  "rt_attention (broadcast_event w ev s) = rt_attention s"
  "rt_codex_home (broadcast_event w ev s) = rt_codex_home s"
  "rt_codex_binary (broadcast_event w ev s) = rt_codex_binary s"
  "rt_remote_runtime (broadcast_event w ev s) = rt_remote_runtime s"
  "rt_maintenance (broadcast_event w ev s) = rt_maintenance s"
  "rt_draws (broadcast_event w ev s) = rt_draws s"
  "rt_signals (broadcast_event w ev s) = rt_signals s"
  by (simp_all add: broadcast_event_def Let_def split: prod.splits)

lemma publish_tasks_simps [simp]:
  "rt_store (publish_tasks w cs s) = rt_store s"
  "rt_projects (publish_tasks w cs s) = rt_projects s"
  "rt_agents (publish_tasks w cs s) = rt_agents s"
  "rt_releases (publish_tasks w cs s) = rt_releases s"
  "rt_controls (publish_tasks w cs s) = rt_controls s"
  "rt_acceptance_owners (publish_tasks w cs s) = rt_acceptance_owners s"
  "rt_validator_owners (publish_tasks w cs s) = rt_validator_owners s"
  "rt_writer_leases (publish_tasks w cs s) = rt_writer_leases s"
  "rt_orphans (publish_tasks w cs s) = rt_orphans s"
  "rt_children (publish_tasks w cs s) = rt_children s"
  "rt_attention (publish_tasks w cs s) = rt_attention s"
  "rt_codex_home (publish_tasks w cs s) = rt_codex_home s"
  "rt_maintenance (publish_tasks w cs s) = rt_maintenance s"
  by (induction w cs s rule: publish_tasks.induct) simp_all

lemma publish_tasks_tasks:
  "rt_tasks (publish_tasks w cs s) = fold (\<lambda>(t, _). hm_insert (t_id t) t) cs (rt_tasks s)"
  by (induction w cs s rule: publish_tasks.induct) simp_all

lemma hm_get_fold_tasks:
  "hm_get (fold (\<lambda>(t, _). hm_insert (t_id t) t) cs m) i =
     (case map_of (rev (List.map (\<lambda>(t, _). (t_id t, t)) cs)) i of Some t \<Rightarrow> Some t | None \<Rightarrow> hm_get m i)"
proof (induction cs arbitrary: m)
  case (Cons c cs)
  then show ?case by (cases c) (auto simp: hm.get_ins map_add_def split: option.splits)
qed simp

lemma task_attention_frame [simp]:
  "rt_tasks (task_attention w t s) = rt_tasks s"
  "rt_projects (task_attention w t s) = rt_projects s"
  "rt_agents (task_attention w t s) = rt_agents s"
  "rt_controls (task_attention w t s) = rt_controls s"
  "rt_acceptance_owners (task_attention w t s) = rt_acceptance_owners s"
  "rt_writer_leases (task_attention w t s) = rt_writer_leases s"
  "rt_orphans (task_attention w t s) = rt_orphans s"
  "rt_children (task_attention w t s) = rt_children s"
  "rt_maintenance (task_attention w t s) = rt_maintenance s"
  "rt_codex_home (task_attention w t s) = rt_codex_home s"
  by (auto simp: task_attention_def Let_def with_store_def split: sum.splits prod.splits)

lemma release_writer_frame [simp]:
  "rt_tasks (release_writer w i s) = rt_tasks s"
  "rt_projects (release_writer w i s) = rt_projects s"
  "rt_agents (release_writer w i s) = rt_agents s"
  "rt_controls (release_writer w i s) = rt_controls s"
  "rt_acceptance_owners (release_writer w i s) = rt_acceptance_owners s"
  "rt_children (release_writer w i s) = rt_children s"
  "rt_maintenance (release_writer w i s) = rt_maintenance s"
  "rt_codex_home (release_writer w i s) = rt_codex_home s"
  "rt_replay (release_writer w i s) = rt_replay s"
  "rt_replay_bytes (release_writer w i s) = rt_replay_bytes s"
  "rt_next_sequence (release_writer w i s) = rt_next_sequence s"
  by (auto simp: release_writer_def with_store_def Let_def split: option.splits sum.splits prod.splits)

section \<open>Memory and store agree\<close>

definition coherent :: "runtime \<Rightarrow> bool" where
  "coherent s \<longleftrightarrow> (\<forall>i. hm_get (rt_tasks s) i = stored_task i (st_db (rt_store s)))"

lemma coherent_cong:
  "rt_tasks s' = rt_tasks s \<Longrightarrow> db_tasks (st_db (rt_store s')) = db_tasks (st_db (rt_store s)) \<Longrightarrow>
     coherent s' = coherent s"
  by (simp add: coherent_def stored_task_def)

lemma save_then_publish:
  assumes "with_store (save_task_agent_changes cs r l) s = (Inr u, s')" and "coherent s"
  shows "coherent (publish_tasks w cs s')"
proof -
  from assms(1) obtain st where s': "s' = s\<lparr>rt_store := st\<rparr>"
    and "save_task_agent_changes cs r l (rt_store s) = (Inr u, st)" by (rule with_storeE)
  then have "stmt_save cs r l (st_db (rt_store s)) = Inr (st_db st)"
    using in_tx_Ok[of "stmt_save cs r l" "rt_store s" u] by (simp add: save_task_agent_changes_def)
  from stmt_save_Ok(1)[OF this] assms(2) s' show ?thesis
    by (auto simp: coherent_def publish_tasks_tasks hm_get_fold_tasks split: option.splits)
qed

lemma save_failed:
  assumes "with_store (save_task_agent_changes cs r l) s = (Inl e, s')"
  shows "st_db (rt_store s') = st_db (rt_store s)" "rt_tasks s' = rt_tasks s"
proof -
  from assms obtain st where s': "s' = s\<lparr>rt_store := st\<rparr>"
    and "save_task_agent_changes cs r l (rt_store s) = (Inl e, st)" by (rule with_storeE)
  then show "st_db (rt_store s') = st_db (rt_store s)" "rt_tasks s' = rt_tasks s"
    using in_tx_Err[of "stmt_save cs r l" "rt_store s" e] by (simp_all add: save_task_agent_changes_def)
qed

lemma coherent_save_failed:
  "with_store (save_task_agent_changes cs r l) s = (Inl e, s') \<Longrightarrow> coherent s \<Longrightarrow> coherent s'"
  by (simp add: coherent_cong[of s' s] save_failed)

lemma save_task_changes_alt:
  "save_task_changes cs r l = save_task_agent_changes cs r (case l of None \<Rightarrow> [] | Some run \<Rightarrow> [run])"
  by (rule ext) (simp add: save_task_changes_def)

lemma coherent_drawn [simp]: "coherent (drawn s) = coherent s"
  by (simp add: coherent_def)

lemma coherent_event [simp]: "coherent (broadcast_event w ev s) = coherent s"
  by (simp add: coherent_def)

lemma upsert_attention_tasks:
  "upsert_attention att st = (r, st') \<Longrightarrow> db_tasks (st_db st') = db_tasks (st_db st)"
  by (auto simp: upsert_attention_def in_tx_def stmt_upsert_attention_def stmt_insert_attention_def
    Let_def split: if_splits sum.splits option.splits)

lemma coherent_task_attention: "coherent s \<Longrightarrow> coherent (task_attention w t s)"
proof -
  assume c: "coherent s"
  have "db_tasks (st_db (rt_store (task_attention w t s))) = db_tasks (st_db (rt_store s))"
    by (auto simp: task_attention_def Let_def elim!: with_storeE dest!: upsert_attention_tasks
      split: sum.splits prod.splits)
  with c show ?thesis by (simp add: coherent_cong[of "task_attention w t s" s])
qed

lemma release_row_tasks:
  "release_writer_row i st = (r, st') \<Longrightarrow> db_tasks (st_db st') = db_tasks (st_db st)"
  by (auto simp: release_writer_row_def in_tx_def Let_def split: if_splits)

lemma coherent_release_writer: "coherent s \<Longrightarrow> coherent (release_writer w i s)"
proof -
  assume c: "coherent s"
  have "db_tasks (st_db (rt_store (release_writer w i s))) = db_tasks (st_db (rt_store s))"
    by (auto simp: release_writer_def elim!: with_storeE dest!: release_row_tasks
      split: sum.splits prod.splits option.splits)
  with c show ?thesis by (simp add: coherent_cong[of "release_writer w i s" s])
qed

lemma coherent_sync: "coherent s \<Longrightarrow> coherent (sync_agent_task w i s)"
proof (cases "sync_target s i")
  case None then show "coherent s \<Longrightarrow> ?thesis" by (simp add: sync_agent_task_def)
next
  case (Some rt)
  assume c: "coherent s"
  obtain r t where rt: "rt = (r, t)" by fastforce
  show ?thesis
  proof (cases "sync_change (fresh_uuid w s) (w_now w) (agent_live s i r) r t")
    case None with Some rt c show ?thesis by (simp add: sync_agent_task_def)
  next
    case (Some c')
    obtain next' au where c': "c' = (next', au)" by fastforce
    obtain res s' where sv: "with_store (save_task_changes [(next', au)] None None) (drawn s) = (res, s')"
      by fastforce
    show ?thesis
    proof (cases res)
      case (Inl e)
      with sv c have "coherent s'"
        using coherent_save_failed[of "[(next', au)]" None "[]" "drawn s" e s']
        by (simp add: save_task_changes_alt)
      with Inl sv Some c' rt \<open>sync_target s i = Some rt\<close> show ?thesis
        by (simp add: sync_agent_task_def)
    next
      case (Inr u)
      with sv c have "coherent (publish_tasks w [(next', au)] s')"
        using save_then_publish[of "[(next', au)]" None "[]" "drawn s" u s' w]
        by (simp add: save_task_changes_alt)
      with Inr sv Some c' rt \<open>sync_target s i = Some rt\<close> show ?thesis
        by (simp add: sync_agent_task_def Let_def coherent_task_attention)
    qed
  qed
qed

lemma fold_invariant:
  assumes "\<And>x s. P s \<Longrightarrow> P (f x s)"
  shows "P s \<Longrightarrow> P (fold f xs s)"
  by (induction xs arbitrary: s) (simp_all add: assms)

lemma coherent_reap: "coherent s \<Longrightarrow> coherent (reap_orphan_writers w s)"
  unfolding reap_orphan_writers_def
  by (rule fold_invariant[where P = coherent]) (simp_all add: coherent_sync coherent_release_writer)

lemma coherent_broadcast: "coherent s \<Longrightarrow> coherent (broadcast w ev s)"
  by (cases ev) (simp_all add: broadcast_def before_agent_event_def Let_def coherent_sync
    coherent_release_writer)

section \<open>The replay buffer\<close>

definition replay_ok :: "world \<Rightarrow> runtime \<Rightarrow> bool" where
  "replay_ok w s \<longleftrightarrow>
     length (rt_replay s) < rt_next_sequence s
     \<and> List.map fst (rt_replay s) = [rt_next_sequence s - length (rt_replay s)..<rt_next_sequence s]
     \<and> length (rt_replay s) \<le> replay_limit
     \<and> rt_replay_bytes s = sum_list (List.map (\<lambda>(k, e). w_line_len w k e) (rt_replay s))
     \<and> rt_replay_bytes s \<le> replay_byte_limit"

lemma evict_suffix:
  "bytes = sum_list (List.map len xs) \<Longrightarrow> evict len xs bytes = (ys, b) \<Longrightarrow>
     (\<exists>n \<le> length xs. ys = drop n xs) \<and> b = sum_list (List.map len ys)
     \<and> length ys \<le> replay_limit \<and> b \<le> replay_byte_limit"
proof (induction len xs bytes rule: evict.induct)
  case (1 len bytes)
  then show ?case by (auto simp: replay_byte_limit_def)
next
  case (2 len x xs bytes)
  show ?case
  proof (cases "replay_limit < length (x # xs) \<or> replay_byte_limit < bytes")
    case True
    with 2 have "(\<exists>n \<le> length xs. ys = drop n xs) \<and> b = sum_list (List.map len ys)
     \<and> length ys \<le> replay_limit \<and> b \<le> replay_byte_limit" by simp
    then show ?thesis by (metis Suc_le_mono drop_Suc_Cons length_Cons)
  next
    case False
    with 2(2,3) show ?thesis by (auto intro!: exI[of _ 0])
  qed
qed

lemma replay_ok_event:
  assumes "replay_ok w s"
  shows "replay_ok w (broadcast_event w ev s)"
proof -
  let ?len = "\<lambda>(k, e). w_line_len w k e"
  let ?n = "rt_next_sequence s" and ?xs = "rt_replay s @ [(rt_next_sequence s, ev)]"
  obtain ys b where e: "evict ?len ?xs (rt_replay_bytes s + w_line_len w ?n ev) = (ys, b)" by fastforce
  have "rt_replay_bytes s + w_line_len w ?n ev = sum_list (List.map ?len ?xs)"
    using assms by (simp add: replay_ok_def)
  from evict_suffix[OF this e] obtain k where k: "k \<le> length ?xs" "ys = drop k ?xs"
    and b: "b = sum_list (List.map ?len ys)" "length ys \<le> replay_limit" "b \<le> replay_byte_limit" by blast
  let ?m = "length (rt_replay s)"
  have m: "?m < ?n" and fst: "List.map fst (rt_replay s) = [?n - ?m..<?n]"
    using assms by (simp_all add: replay_ok_def)
  have "List.map fst ?xs = [?n - ?m..<Suc ?n]" using fst m by (simp add: less_imp_le)
  then have "List.map fst ys = drop k [?n - ?m..<Suc ?n]" by (simp only: k(2) drop_map[symmetric])
  also have "\<dots> = [?n - ?m + k..<Suc ?n]" by (simp only: drop_upt)
  also have "\<dots> = [Suc ?n - length ys..<Suc ?n]" using k m by auto
  finally have "List.map fst ys = [Suc ?n - length ys..<Suc ?n]" .
  moreover have "length ys < Suc ?n" using k m by auto
  ultimately show ?thesis
    using e b by (simp add: replay_ok_def broadcast_event_def Let_def)
qed

lemma replay_ok_frame [simp]:
  "replay_ok w (s\<lparr>rt_tasks := ts\<rparr>) = replay_ok w s"
  "replay_ok w (s\<lparr>rt_attention := atts\<rparr>) = replay_ok w s"
  "replay_ok w (s\<lparr>rt_store := st\<rparr>) = replay_ok w s"
  "replay_ok w (drawn s) = replay_ok w s"
  "replay_ok w (release_writer v i s) = replay_ok w s"
  by (simp_all add: replay_ok_def)

lemma replay_ok_publish: "replay_ok w s \<Longrightarrow> replay_ok w (publish_tasks w cs s)"
  by (induction w cs s rule: publish_tasks.induct) (simp_all add: replay_ok_event)

lemma replay_ok_with_store:
  "with_store f s = (r, s') \<Longrightarrow> replay_ok w s' = replay_ok w s"
  by (elim with_storeE) simp

lemma replay_ok_task_attention:
  assumes "replay_ok w s"
  shows "replay_ok w (task_attention w t s)"
proof (cases "already_raised t s")
  case False
  obtain r s' where u: "with_store (upsert_attention (attention_for w t s)) (drawn s) = (r, s')"
    by fastforce
  with assms have "replay_ok w s'" by (simp add: replay_ok_with_store[OF u])
  with u False show ?thesis by (cases r) (simp_all add: task_attention_def replay_ok_event)
qed (use assms in \<open>simp add: task_attention_def\<close>)

lemma replay_ok_sync:
  assumes "replay_ok w s"
  shows "replay_ok w (sync_agent_task w i s)"
proof (cases "sync_target s i")
  case (Some rt)
  obtain r t where rt: "rt = (r, t)" by fastforce
  show ?thesis
  proof (cases "sync_change (fresh_uuid w s) (w_now w) (agent_live s i r) r t")
    case None with Some rt assms show ?thesis by (simp add: sync_agent_task_def)
  next
    case (Some c)
    obtain n au where c: "c = (n, au)" by fastforce
    obtain res s' where u: "with_store (save_task_changes [(n, au)] None None) (drawn s) = (res, s')"
      by fastforce
    with assms have "replay_ok w s'" by (simp add: replay_ok_with_store[OF u])
    with u Some \<open>sync_target s i = Some rt\<close> rt c show ?thesis
      by (cases res) (simp_all add: sync_agent_task_def Let_def replay_ok_event
        replay_ok_task_attention)
  qed
qed (use assms in \<open>simp add: sync_agent_task_def\<close>)

lemma replay_ok_broadcast: "replay_ok w s \<Longrightarrow> replay_ok w (broadcast w ev s)"
  by (cases ev) (simp_all add: broadcast_def before_agent_event_def Let_def replay_ok_event
    replay_ok_sync)

section \<open>Synchronising a task with its agent\<close>

lemma sync_target_Some:
  "sync_target s i = Some (r, t) \<Longrightarrow> hm_get (rt_agents s) i = Some r \<and> i \<notin> set (rt_acceptance_owners s)
     \<and> (\<exists>tid. ar_task_id (rec_run r) = Some tid \<and> hm_get (rt_tasks s) tid = Some t)
     \<and> t_assigned_agent_id t = Some i \<and> \<not> t_archived t \<and> column t = InProgress
     \<and> \<not> any_project (\<lambda>p. p_id p = t_project_id t \<and> is_remote p) s"
  by (auto simp: sync_target_def bind_eq_Some_conv split: if_splits)

lemma sync_change_column:
  assumes "sync_change uid now live r t = Some (next', au)" and "column t = InProgress"
  shows "t_id next' = t_id t \<and> (column next' = InProgress \<or>
    (column next' = InReview \<and> \<not> live \<and> ar_state (rec_run r) = AsCompleted
     \<and> (\<exists>m. final_message r = Some m \<and> \<not> blank (cm_text m)
          \<and> t_review_summary next' = Some (take_chars 16000 (cm_text m)))))"
proof -
  let ?sum = "map_option cm_text (final_message r)"
  show ?thesis
  proof (cases "\<not> live \<and> ar_state (rec_run r) = AsCompleted \<and> is_some_and ?sum (\<lambda>m. \<not> blank m)")
    case True
    then obtain m where m: "final_message r = Some m" "\<not> blank (cm_text m)"
      by (cases "final_message r") auto
    with True assms(1) have tr: "transition uid now t (Submit (take_chars 16000 (cm_text m))) Agent
        (t_revision t) False = Inr (next', au)"
      by (auto simp: sync_change_def Let_def split: if_splits sum.splits)
    then have "t_id next' = t_id t" by (rule transition_keeps)
    moreover from tr have "column next' = InReview" "t_review_summary next' = Some (take_chars 16000 (cm_text m))"
      by (auto simp: transition_Ok_iff split: if_splits)
    ultimately show ?thesis using True m by blast
  next
    case False
    with assms show ?thesis
      by (auto simp: sync_change_def Let_def column_def touch_def split: if_splits)
  qed
qed

section \<open>A small runtime\<close>

definition sample_world :: world where
  "sample_world = \<lparr>w_now = 200, w_uuid = (\<lambda>n. 1000 + n), w_group_exists = (\<lambda>_. False),
     w_canonical = Inr, w_macos = False, w_lower = id, w_upgrade_lock = False,
     w_show_uuid = (\<lambda>_. ''u''), w_line_len = (\<lambda>_ _. 100)\<rparr>"

definition sample_runtime :: "task \<Rightarrow> (agent_id, agent_record) hmap \<Rightarrow> runtime" where
  "sample_runtime t agents = \<lparr>rt_store = with_task t sample_store,
     rt_projects = [(''p'', sample_project)], rt_agents = agents, rt_releases = [],
     rt_tasks = [(t_id t, t)], rt_controls = [], rt_acceptance_owners = [],
     rt_validator_owners = [], rt_writer_leases = [], rt_remote_uncertain = [], rt_orphans = [],
     rt_children = [], rt_replay = [], rt_replay_bytes = 0, rt_next_sequence = 1,
     rt_attention = [], rt_codex_home = None, rt_codex_binary = None, rt_remote_runtime = False,
     rt_maintenance = None, rt_draws = 0, rt_signals = []\<rparr>"

lemma sample_world_simps [simp]:
  "w_now sample_world = 200" "w_uuid sample_world n = 1000 + n" "w_canonical sample_world p = Inr p"
  "w_macos sample_world = False" "w_upgrade_lock sample_world = False"
  "w_group_exists sample_world g = False" "w_line_len sample_world k e = 100"
  by (simp_all add: sample_world_def)

lemma sample_runtime_simps [simp]:
  "rt_store (sample_runtime t a) = with_task t sample_store"
  "rt_projects (sample_runtime t a) = [(''p'', sample_project)]"
  "rt_agents (sample_runtime t a) = a" "rt_tasks (sample_runtime t a) = [(t_id t, t)]"
  "rt_controls (sample_runtime t a) = []" "rt_acceptance_owners (sample_runtime t a) = []"
  "rt_writer_leases (sample_runtime t a) = []" "rt_orphans (sample_runtime t a) = []"
  "rt_children (sample_runtime t a) = []" "rt_maintenance (sample_runtime t a) = None"
  "rt_replay (sample_runtime t a) = []" "rt_replay_bytes (sample_runtime t a) = 0"
  "rt_next_sequence (sample_runtime t a) = 1" "rt_codex_home (sample_runtime t a) = None"
  "rt_draws (sample_runtime t a) = 0" "rt_codex_binary (sample_runtime t a) = None"
  "rt_attention (sample_runtime t a) = []"
  by (simp_all add: sample_runtime_def)

lemma coherent_sample [simp]: "coherent (sample_runtime t a)"
  by (simp add: coherent_def hm_get_def)

section \<open>Properties\<close>

text \<open>However many events are broadcast, with all the releases and task changes agent events
  trigger, the replay buffer holds consecutive sequence numbers ending with the latest event, at
  most 2048 of them and at most 8 MiB.\<close>

theorem replay_gap_free:
  assumes "rt_replay s = []" and "rt_replay_bytes s = 0" and "0 < rt_next_sequence s"
  shows "let s' = fold (broadcast w) evs s; k = length (rt_replay s'); n = rt_next_sequence s' in
    List.map fst (rt_replay s') = [n - k..<n] \<and> k \<le> 2048
    \<and> sum_list (List.map (\<lambda>(k, e). w_line_len w k e) (rt_replay s')) \<le> 8 * 1024 * 1024"
proof -
  have "replay_ok w s" using assms by (simp add: replay_ok_def)
  then have "replay_ok w (fold (broadcast w) evs s)"
    by (rule fold_invariant[where P = "replay_ok w", rotated]) (rule replay_ok_broadcast)
  then show ?thesis
    by (simp add: Let_def replay_ok_def replay_limit_def replay_byte_limit_def)
qed

theorem replay_gap_free_witness:
  "List.map fst (rt_replay (fold (broadcast sample_world) [AttentionDismissed 1, AttentionDismissed 2]
      (sample_runtime sample_task []))) = [1, 2]"
proof -
  let ?s = "fold (broadcast sample_world) [AttentionDismissed 1, AttentionDismissed 2]
      (sample_runtime sample_task [])"
  have k: "length (rt_replay ?s) = 2" "rt_next_sequence ?s = 3"
    by (simp_all add: broadcast_def broadcast_event_def replay_limit_def replay_byte_limit_def Let_def)
  have "let s' = ?s; k = length (rt_replay s'); n = rt_next_sequence s' in
    List.map fst (rt_replay s') = [n - k..<n] \<and> k \<le> 2048
    \<and> sum_list (List.map (\<lambda>(k, e). w_line_len sample_world k e) (rt_replay s')) \<le> 8 * 1024 * 1024"
    by (rule replay_gap_free) simp_all
  then have "List.map fst (rt_replay ?s) = [3 - 2..<3]" unfolding Let_def k by blast
  also have "\<dots> = [1, 2]" by (simp add: upt_rec)
  finally show ?thesis .
qed

text \<open>C37: an agent's events move its task on the board only from In Progress to In Review, only
  once the agent has completed and nothing of it still runs, and only with its last non-blank
  message as the review summary; without one, or in any other state, the task stays in its
  column.\<close>

theorem sync_moves_to_review_only:
  assumes "hm_keyed t_id (rt_tasks s)" and "hm_get (rt_tasks s) i = Some t"
    and "hm_get (rt_tasks (sync_agent_task w a s)) i = Some t'"
  shows "column t' = column t \<or>
    (column t = InProgress \<and> column t' = InReview \<and> t_assigned_agent_id t = Some a
     \<and> (\<exists>r m. hm_get (rt_agents s) a = Some r \<and> ar_task_id (rec_run r) = Some i
          \<and> ar_state (rec_run r) = AsCompleted \<and> \<not> agent_live s a r
          \<and> final_message r = Some m \<and> \<not> blank (cm_text m)
          \<and> t_review_summary t' = Some (take_chars 16000 (cm_text m))))"
proof (cases "hm_get (rt_tasks (sync_agent_task w a s)) i = hm_get (rt_tasks s) i")
  case True with assms show ?thesis by simp
next
  case False
  obtain r u where tg: "sync_target s a = Some (r, u)"
    using False by (cases "sync_target s a") (auto simp: sync_agent_task_def)
  obtain n au where ch: "sync_change (fresh_uuid w s) (w_now w) (agent_live s a r) r u = Some (n, au)"
    using False tg by (cases "sync_change (fresh_uuid w s) (w_now w) (agent_live s a r) r u")
      (auto simp: sync_agent_task_def)
  obtain res s' where sv: "with_store (save_task_changes [(n, au)] None None) (drawn s) = (res, s')"
    by fastforce
  then have ts: "rt_tasks s' = rt_tasks s" by (elim with_storeE) simp
  have u: "hm_get (rt_tasks s) (t_id u) = Some u" and link: "ar_task_id (rec_run r) = Some (t_id u)"
    and facts: "hm_get (rt_agents s) a = Some r" "t_assigned_agent_id u = Some a" "column u = InProgress"
    using sync_target_Some[OF tg] keyedD[OF assms(1)] by auto
  note col = sync_change_column[OF ch facts(3)]
  have "hm_get (rt_tasks (sync_agent_task w a s)) i =
      (if res = Inr () \<and> i = t_id u then Some n else hm_get (rt_tasks s) i)"
    using tg ch sv ts col by (cases res) (simp_all add: sync_agent_task_def Let_def hm.get_ins)
  with False have "i = t_id u" and "hm_get (rt_tasks (sync_agent_task w a s)) i = Some n"
    by (auto split: if_splits)
  with assms(2,3) u have "t = u" "t' = n" by simp_all
  with col facts link \<open>i = t_id u\<close> show ?thesis by auto
qed

definition done_agent :: "agent_record" where
  "done_agent = \<lparr>rec_run = \<lparr>ar_coordinator_group = None, ar_id = 4, ar_provider = Codex,
      ar_state = AsCompleted, ar_can_stop = False, ar_launch_mode = Exec,
      ar_execution_profile = default_profile, ar_project_id = 1, ar_task_id = Some 7,
      ar_pane_id = None, ar_native_session_id = None, ar_codex_title = None,
      ar_naming_failed = False, ar_user_title = None, ar_origin_codex_home = None,
      ar_current_prompt = None, ar_last_visible_action = None, ar_state_confidence = 1,
      ar_state_evidence = [], ar_started_at = 0, ar_updated_at = 0, ar_finished_at = None,
      ar_exit_code = Some 0, ar_resume_block_reason = None\<rparr>,
    rec_project_root = ''/p'',
    rec_messages = [\<lparr>cm_agent_id = 4, cm_role = CrAssistant, cm_text = ''ok'', cm_created_at = 0\<rparr>],
    rec_failure = None\<rparr>"

lemma sample_task_ids [simp]: "t_id sample_task = 7" "t_project_id sample_task = 1"
  using new_task_fields[OF sample_new_task] by simp_all

definition running_task :: task where
  "running_task = sample_task\<lparr>t_state := TsRunning, t_condition := TcRunning,
     t_assigned_agent_id := Some 4\<rparr>"

lemma running_task_simps [simp]:
  "t_id running_task = 7" "t_project_id running_task = 1" "column running_task = InProgress"
  "t_condition running_task = TcRunning" "t_assigned_agent_id running_task = Some 4"
  "\<not> t_archived running_task" "t_revision running_task = 1" "active_task running_task"
  by (simp_all add: running_task_def active_task_def)

lemma ok_not_blank: "\<not> blank ''ok''"
  by (simp add: blank_iff is_whitespace_def byte_of_def is_cont_def)

lemma take_ok: "take_chars 16000 ''ok'' = ''ok''"
  by (simp add: take_chars_def is_cont_def byte_of_def)

theorem sync_moves_to_review_only_witness:
  "\<exists>t'. hm_get (rt_tasks (sync_agent_task sample_world 4
        (sample_runtime running_task [(4, done_agent)]))) 7 = Some t'
     \<and> column t' = InReview \<and> column running_task = InProgress"
proof -
  let ?s = "sample_runtime running_task [(4, done_agent)]"
  have get: "hm_get (rt_tasks ?s) 7 = Some running_task" by (simp add: hm_get_def)
  have kd: "hm_keyed t_id (rt_tasks ?s)" by (simp add: hm.keyed_by_def hm_get_def)
  have tg: "sync_target ?s 4 = Some (done_agent, running_task)"
    by (simp add: sync_target_def hm_get_def done_agent_def any_project_def hm_values_def is_remote_def)
  have live: "\<not> agent_live ?s 4 done_agent"
    by (simp add: agent_live_def done_agent_def)
  obtain n au where tr: "transition 1000 200 running_task (Submit ''ok'') Agent 1 False = Inr (n, au)"
    using ok_not_blank transition_complete[of running_task 1 Agent "Submit ''ok''"
      "\<lparr>bp_column = InReview, bp_live = True\<rparr>" 1000 200]
    by (auto simp: board_of_def board_step_simps)
  have ch: "sync_change (fresh_uuid sample_world ?s) (w_now sample_world) False done_agent running_task
      = Some (n, au)"
    using tr ok_not_blank
    by (simp add: sync_change_def Let_def done_agent_def final_message_def fresh_uuid_def take_ok)
  have n: "t_id n = 7" using transition_keeps(1)[OF tr] by simp
  obtain db' where db': "stmt_save [(n, au)] None [] (st_db (rt_store ?s)) = Inr db'"
  proof -
    have "au_task_id au = t_id n" "au_id au = 1000" using tr by (auto simp: transition_Ok_iff)
    then show thesis
      using stmt_save_one[of "st_db (with_task running_task sample_store)" n running_task 1000 au]
        db_ok_with_task[of running_task] n that by auto
  qed
  have "hm_get (rt_tasks (sync_agent_task sample_world 4 ?s)) 7 = Some n"
    using tg live ch db' n
    by (simp add: sync_agent_task_def with_store_def save_task_changes_def
      save_task_agent_changes_def in_tx_healthy Let_def hm.get_ins)
  from this sync_moves_to_review_only[OF kd get this] show ?thesis
    using tr by (auto simp: transition_Ok_iff split: if_splits)
qed

end
