(* ===== verification/Board_Queue.thy ===== *)
theory Board_Queue
  imports Runtime_State
begin

text \<open>
  The durable queue of a project's board, \<open>crates/ditchd/src/task_queue_runtime.rs\<close>: pausing,
  selecting an agent, queueing, requesting changes, reordering, and the claim that hands the
  first waiting task to the launcher. A request handler answers \<open>None\<close> for operations of other
  components; its error becomes the response.
\<close>

type_synonym handler = "world \<Rightarrow> task_request \<Rightarrow> runtime \<Rightarrow> (task_response tres \<times> runtime) option"

definition respond :: "task_response tres \<Rightarrow> task_response" where
  "respond r = (case r of Inl e \<Rightarrow> RError e | Inr resp \<Rightarrow> resp)"

section \<open>Pausing\<close>

text \<open>The text of a JSON decoding error is not modelled.\<close>

definition decode_error :: string where
  "decode_error = ''stored setting is not valid''"

definition board_execution :: "runtime \<Rightarrow> project_id \<Rightarrow> (board_execution_state, string) result" where
  "board_execution s pid = (case setting (BoardExecutionKey pid) (rt_store s) of
      None \<Rightarrow> Ok \<lparr>bx_project_id = pid, bx_paused = False, bx_revision = 0\<rparr>
    | Some (SvBoardExecution x) \<Rightarrow> Ok x
    | Some _ \<Rightarrow> Err decode_error)"

definition available_local :: "project_id option \<Rightarrow> runtime \<Rightarrow> project option" where
  "available_local pid s = Option.bind pid (\<lambda>i.
     project_by (\<lambda>p. p_id p = i \<and> \<not> is_remote p \<and> p_archived_at p = None) s)"

definition set_paused :: "bool \<Rightarrow> board_execution_state \<Rightarrow> board_execution_state tres" where
  "set_paused paused x =
     (if bx_paused x \<noteq> paused
      then (case checked_add_u64 (bx_revision x) 1 of
              None \<Rightarrow> Err (TaskError InvalidInput ''Board execution revision limit reached'')
            | Some r \<Rightarrow> Ok (x\<lparr>bx_paused := paused, bx_revision := r\<rparr>))
      else Ok x)"

definition board_execution_run :: "world \<Rightarrow> task_request \<Rightarrow> bool option \<Rightarrow> nat option \<Rightarrow> runtime \<Rightarrow>
    task_response tres \<times> runtime" where
  "board_execution_run w rq paused expected s =
     (case task_replay rq (rt_store s) of Some resp \<Rightarrow> (Ok resp, s) | None \<Rightarrow>
     (case available_local (rq_project_id rq) s of
        None \<Rightarrow> (Err (TaskError NotFound ''Choose an available project to control its queue.''), s)
      | Some p \<Rightarrow>
     (case board_execution s (p_id p) of
        Inl e \<Rightarrow> (Err (TaskError Storage e), s)
      | Inr x \<Rightarrow>
     (case paused of
        None \<Rightarrow> (Ok (RBoardExecution x), s)
      | Some want \<Rightarrow>
          if expected \<noteq> Some (bx_revision x)
          then (Err (TaskError RevisionConflict
                 ''Board execution changed elsewhere. Refresh its status and try again.''), s)
          else (case set_paused want x of
              Inl e \<Rightarrow> (Err e, s)
            | Inr y \<Rightarrow>
                (case with_store (set_task_setting_receipt (BoardExecutionKey (p_id p))
                        (SvBoardExecution y) rq (RBoardExecution y)) s of
                   (Inl e, s') \<Rightarrow> (Err (storage_error e), s')
                 | (Inr _, s') \<Rightarrow>
                     (Ok (RBoardExecution y), broadcast w (BoardExecutionChanged y) s')))))))"

definition board_execution_request :: handler where
  "board_execution_request w rq s = (case rq_operation rq of
      BoardExecution paused expected \<Rightarrow> Some (board_execution_run w rq paused expected s)
    | _ \<Rightarrow> None)"

section \<open>Agents of the board\<close>

definition board_agent_idle :: "runtime \<Rightarrow> agent_id \<Rightarrow> bool" where
  "board_agent_idle s i =
     (\<not> hm_contains (rt_children s) i
      \<and> \<not> hm_contains (rt_writer_leases s) i
      \<and> i \<notin> set (rt_acceptance_owners s)
      \<and> is_some_and (hm_get (rt_agents s) i)
          (\<lambda>a. \<not> ar_can_stop (rec_run a) \<and> \<not> agent_running (ar_state (rec_run a))))"

definition board_agent_thread :: "runtime \<Rightarrow> task \<Rightarrow> agent_id \<Rightarrow> (string option, string) result" where
  "board_agent_thread s t i = (case hm_get (rt_agents s) i of
      None \<Rightarrow> Err ''The selected agent is unavailable. Move the task to Todo to choose another agent.''
    | Some r \<Rightarrow> (let run = rec_run r in
        if ar_project_id run \<noteq> t_project_id t \<or> ar_coordinator_group run \<noteq> None
        then Err ''Choose a user-managed agent from this project''
        else if is_some_and (ar_task_id run) (\<lambda>other. other \<noteq> t_id t)
        then Err ''The selected agent belongs to another task. Return to Todo to reassign it.''
        else if t_continue_agent_id t \<noteq> None \<and> ar_native_session_id run = None
        then Err ''The selected conversation has no resumable thread. Move the task to Todo to choose another agent.''
        else if ar_resume_block_reason run \<noteq> None
          \<and> \<not> (ar_native_session_id run = None \<and> t_continue_agent_id t = None
               \<and> ar_resume_block_reason run = Some NoCodexThread)
        then Err ''This agent cannot resume. Move the task to Todo to choose another agent.''
        else if ar_origin_codex_home run \<noteq> rt_codex_home s
        then Err ''This agent belongs to a different Codex account. Move the task to Todo to choose another agent.''
        else Ok (ar_native_session_id run)))"

section \<open>Queue requests\<close>

definition queue_request_target :: "task_request \<Rightarrow> runtime \<Rightarrow> (task_id \<times> u64) option" where
  "queue_request_target rq s = (case rq_operation rq of
      Enqueue i rv _ \<Rightarrow> Some (i, rv)
    | ReorderQueue i rv _ \<Rightarrow> Some (i, rv)
    | SelectAgent i rv _ _ _ \<Rightarrow> Some (i, rv)
    | Transition i rv (RequestChanges _) \<Rightarrow>
        if is_some_and (hm_get (rt_tasks s) i) (\<lambda>t. t_execution_queue t \<noteq> None)
        then Some (i, rv) else None
    | _ \<Rightarrow> None)"

definition queue_guard :: "task_request \<Rightarrow> task_id \<Rightarrow> u64 \<Rightarrow> runtime \<Rightarrow> task tres" where
  "queue_guard rq i rv s =
     (case opt_filter (\<lambda>t. Some (t_project_id t) = rq_project_id rq) (hm_get (rt_tasks s) i) of
        None \<Rightarrow> Err (TaskError NotFound ''Task not found'')
      | Some t \<Rightarrow>
     res_bind (check_revision t rv) (\<lambda>_.
       if \<not> any_project (\<lambda>p. p_id p = t_project_id t \<and> \<not> is_remote p \<and> p_archived_at p = None) s
       then Err (TaskError Unsupported ''Use the project's connected runtime to queue work.'')
       else if t_archived t \<or> t_coordinator_group t \<noteq> None \<or> task_live s t
       then Err (TaskError AgentBusy
         ''Only idle user-managed tasks can enter or change this queue.'')
       else Ok t))"

text \<open>What an operation wants saved: task changes, agent changes and the task it answers with.\<close>

type_synonym queue_changes = "(task \<times> task_audit) list \<times> agent_run list \<times> task"

definition next_position :: "runtime \<Rightarrow> task \<Rightarrow> nat tres" where
  "next_position s t = ok_or (TaskError InvalidInput ''Queue position limit reached'')
     (checked_add_u64 (max_or 0 (List.map_filter (\<lambda>u. map_option q_position (t_execution_queue u))
        (List.filter (\<lambda>u. t_project_id u = t_project_id t) (hm_values (rt_tasks s))))) 1)"

subsection \<open>Selecting an agent\<close>

definition detach_other :: "uuid \<Rightarrow> time \<Rightarrow> runtime \<Rightarrow> task \<Rightarrow> agent_run \<Rightarrow> task_id option \<Rightarrow>
    u64 option \<Rightarrow> (task \<times> task_audit) list tres" where
  "detach_other uid now s t run replace_id replace_rev =
     (case opt_filter (\<lambda>other. other \<noteq> t_id t) (ar_task_id run) of
        Some other_id \<Rightarrow>
          (case hm_get (rt_tasks s) other_id of
             None \<Rightarrow> Err (TaskError NotFound ''The agent's current task is unavailable'')
           | Some other \<Rightarrow>
               if column other \<noteq> Todo \<or> t_archived other \<or> t_coordinator_group other \<noteq> None
                  \<or> task_live s other
               then Err (TaskError AgentBusy
                 ''The agent is locked to another task. Return that task to Todo first.'')
               else if replace_id \<noteq> Some (t_id other) \<or> replace_rev \<noteq> Some (t_revision other)
               then Err (TaskError RevisionConflict
                 ''Confirm reassignment from the agent's current Todo task.'')
               else (let next = touch now (other\<lparr>t_assigned_agent_id := None,
                            t_continue_agent_id := None, t_execution_queue := None\<rparr>)
                     in Ok [(next, audit uid now next User ''agent_detached'' None
                              (Some ''Reassigned to another Todo task''))]))
      | None \<Rightarrow>
          if replace_id \<noteq> None \<or> replace_rev \<noteq> None
          then Err (TaskError RevisionConflict ''Agent assignment changed. Reopen the selector.'')
          else Ok [])"

definition select_new_agent :: "uuid \<Rightarrow> time \<Rightarrow> runtime \<Rightarrow> task \<Rightarrow> agent_id \<Rightarrow> task_id option \<Rightarrow>
    u64 option \<Rightarrow> ((task \<times> task_audit) list \<times> agent_run) tres" where
  "select_new_agent uid now s t i replace_id replace_rev =
     (case hm_get (rt_agents s) i of
        None \<Rightarrow> Err (TaskError NotFound ''Agent unavailable'')
      | Some r \<Rightarrow> (let run = rec_run r in
          if \<not> board_agent_idle s i \<or> ar_project_id run \<noteq> t_project_id t
             \<or> ar_coordinator_group run \<noteq> None
          then Err (TaskError AgentBusy ''Choose a stopped user-managed agent in this project.'')
          else res_bind (detach_other uid now s t run replace_id replace_rev) (\<lambda>cs.
            if ar_native_session_id run = None \<or> ar_resume_block_reason run \<noteq> None
               \<or> ar_origin_codex_home run \<noteq> rt_codex_home s
            then Err (TaskError InvalidInput
              ''This agent has no resumable conversation under the current Codex account.'')
            else Ok (cs, run\<lparr>ar_task_id := Some (t_id t)\<rparr>))))"

definition unlink_previous :: "runtime \<Rightarrow> task \<Rightarrow> agent_id option \<Rightarrow> agent_id option \<Rightarrow> agent_run list"
where
  "unlink_previous s t previous i =
     (case opt_filter (\<lambda>old. Some old \<noteq> i) previous of
        None \<Rightarrow> []
      | Some old \<Rightarrow>
          (case opt_filter (\<lambda>r. ar_task_id (rec_run r) = Some (t_id t)) (hm_get (rt_agents s) old) of
             None \<Rightarrow> [] | Some r \<Rightarrow> [(rec_run r)\<lparr>ar_task_id := None\<rparr>]))"

definition select_agent :: "world \<Rightarrow> runtime \<Rightarrow> task \<Rightarrow> agent_id option \<Rightarrow> task_id option \<Rightarrow>
    u64 option \<Rightarrow> queue_changes tres" where
  "select_agent w s t i replace_id replace_rev = (let
      previous = opt_or (t_continue_agent_id t) (t_assigned_agent_id t);
      now = w_now w
    in if column t \<noteq> Todo
       then Err (TaskError IllegalTransition ''Move the task to Todo before changing its agent.'')
       else if is_some_and previous (\<lambda>a. hm_contains (rt_agents s) a \<and> \<not> board_agent_idle s a)
       then Err (TaskError AgentBusy ''Stop the current agent before changing it.'')
       else res_bind (case i of None \<Rightarrow> Ok ([], [])
           | Some a \<Rightarrow> res_bind (select_new_agent (fresh_uuid w s) now s t a replace_id replace_rev)
               (\<lambda>(cs, run). Ok (cs, [run]))) (\<lambda>(cs, linked).
         (let next = touch now (t\<lparr>t_assigned_agent_id := i, t_continue_agent_id := i,
                     t_execution_queue := None\<rparr>);
              au = audit (w_uuid w (rt_draws s + length cs)) now next User ''agent_selected'' None None
          in Ok (cs @ [(next, au)], linked @ unlink_previous s t previous i, next))))"

subsection \<open>Queueing and requesting changes\<close>

definition enqueued :: "runtime \<Rightarrow> task \<Rightarrow> agent_execution_profile \<Rightarrow> nat \<Rightarrow> task" where
  "enqueued s t profile0 pos = (let
      retry = (column t = InProgress);
      fallback = opt_or (t_continue_agent_id t) (t_assigned_agent_id t);
      agent = (if retry then opt_or (Option.bind (t_execution_queue t) q_agent_id) fallback
               else fallback);
      profile = (if retry then unwrap_or profile0 (map_option q_profile (t_execution_queue t))
                 else profile0);
      q = \<lparr>q_agent_id = agent, q_position = pos,
           q_profile = profile\<lparr>ep_transport := AppServer, ep_skills := t_skills t\<rparr>,
           q_feedback = Option.bind (t_execution_queue t) q_feedback\<rparr>
    in (clear_submission t)\<lparr>t_execution_queue := Some q, t_state := TsRunning,
          t_condition := TcQueued, t_assigned_agent_id := None, t_last_reason := None\<rparr>)"

definition enqueue_task :: "world \<Rightarrow> runtime \<Rightarrow> task \<Rightarrow> agent_execution_profile \<Rightarrow> queue_changes tres"
where
  "enqueue_task w s t profile =
     (if \<not> (column t = Todo \<or> column t = InProgress) \<or> waiting_in_queue t
      then Err (TaskError IllegalTransition ''Move a Todo task into In Progress to queue it.'')
      else res_bind (next_position s t) (\<lambda>pos.
        (let next = touch (w_now w) (enqueued s t profile pos);
             au = audit (fresh_uuid w s) (w_now w) next User ''queue'' (Some (column t)) None
         in Ok ([(next, au)], [], next))))"

definition requeued :: "task \<Rightarrow> string \<Rightarrow> nat \<Rightarrow> task \<Rightarrow> task" where
  "requeued t feedback pos next =
     (clear_submission next)\<lparr>t_execution_queue := map_option
        (\<lambda>q. q\<lparr>q_agent_id := opt_or (q_agent_id q)
                 (opt_or (t_continue_agent_id t) (t_assigned_agent_id t)),
               q_position := pos, q_feedback := Some feedback\<rparr>) (t_execution_queue next),
       t_condition := TcQueued, t_assigned_agent_id := None\<rparr>"

definition queue_request_changes :: "world \<Rightarrow> runtime \<Rightarrow> task \<Rightarrow> string \<Rightarrow> queue_changes tres" where
  "queue_request_changes w s t feedback =
     res_bind (transition (fresh_uuid w s) (w_now w) t (RequestChanges feedback) User
         (t_revision t) False) (\<lambda>(next, au).
     res_bind (next_position s t) (\<lambda>pos.
       (let next = requeued t feedback pos next in Ok ([(next, au)], [], next))))"

subsection \<open>Reordering\<close>

definition queue_position :: "task \<Rightarrow> nat" where
  "queue_position t = (case t_execution_queue t of None \<Rightarrow> 0 | Some q \<Rightarrow> q_position q)"

definition set_queue_position :: "nat \<Rightarrow> task \<Rightarrow> task" where
  "set_queue_position pos t =
     t\<lparr>t_execution_queue := map_option (\<lambda>q. q\<lparr>q_position := pos\<rparr>) (t_execution_queue t)\<rparr>"

fun renumber :: "(nat \<Rightarrow> uuid) \<Rightarrow> time \<Rightarrow> task_id \<Rightarrow> nat \<Rightarrow> task list \<Rightarrow> nat \<Rightarrow>
    (task \<times> task_audit) list tres" where
  "renumber fresh now i base [] index = Ok []"
| "renumber fresh now i base (t # ts) index =
     (case checked_add_u64 base (index + 1) of
        None \<Rightarrow> Err (TaskError InvalidInput ''Queue position limit reached'')
      | Some pos \<Rightarrow>
          if queue_position t \<noteq> pos \<or> t_id t = i
          then (let next = touch now (set_queue_position pos t);
                    au = audit (fresh 0) now next User ''queue_reorder'' (Some InProgress) None
                in res_bind (renumber (\<lambda>n. fresh (Suc n)) now i base ts (index + 1))
                     (\<lambda>cs. Ok ((next, au) # cs)))
          else renumber fresh now i base ts (index + 1))"

definition pending_others :: "runtime \<Rightarrow> task \<Rightarrow> task list" where
  "pending_others s t = sort_key queue_position
     (List.filter (\<lambda>u. t_project_id u = t_project_id t \<and> waiting_in_queue u \<and> t_id u \<noteq> t_id t)
        (hm_values (rt_tasks s)))"

definition reorder_base :: "runtime \<Rightarrow> task \<Rightarrow> nat" where
  "reorder_base s t = max_or 0 (List.map_filter (\<lambda>u. map_option q_position (t_execution_queue u))
     (List.filter (\<lambda>u. t_project_id u = t_project_id t \<and> \<not> waiting_in_queue u)
        (hm_values (rt_tasks s))))"

definition reordered :: "runtime \<Rightarrow> task \<Rightarrow> task_id option \<Rightarrow> task list tres" where
  "reordered s t before = (let pending = pending_others s t in
     res_bind (case before of
         None \<Rightarrow> Ok (length pending)
       | Some b \<Rightarrow> ok_or (TaskError RevisionConflict
           ''The destination is no longer waiting in this project's queue.'')
           (position (\<lambda>u. t_id u = b) pending))
       (\<lambda>index. Ok (insert_at index t pending)))"

definition reorder_queue :: "world \<Rightarrow> runtime \<Rightarrow> task \<Rightarrow> task_id option \<Rightarrow> queue_changes tres" where
  "reorder_queue w s t before =
     (if \<not> waiting_in_queue t \<or> before = Some (t_id t)
      then Err (TaskError IllegalTransition ''Only waiting tasks can be reordered.'')
      else res_bind (reordered s t before) (\<lambda>order.
        res_bind (renumber (\<lambda>n. w_uuid w (rt_draws s + n)) (w_now w) (t_id t) (reorder_base s t)
                    order 0) (\<lambda>cs.
          Ok (cs, [], fold (\<lambda>(u, _) t'. if t_id u = t_id t then u else t') cs t))))"

subsection \<open>The handler\<close>

definition queue_operation :: "world \<Rightarrow> runtime \<Rightarrow> task \<Rightarrow> task_operation \<Rightarrow> queue_changes tres" where
  "queue_operation w s t op = (case op of
      SelectAgent _ _ i replace_id replace_rev \<Rightarrow> select_agent w s t i replace_id replace_rev
    | Enqueue _ _ profile \<Rightarrow> enqueue_task w s t profile
    | Transition _ _ (RequestChanges feedback) \<Rightarrow> queue_request_changes w s t feedback
    | ReorderQueue _ _ before \<Rightarrow> reorder_queue w s t before
    | _ \<Rightarrow> Err illegal_transition)"

fun update_agents :: "world \<Rightarrow> agent_run list \<Rightarrow> runtime \<Rightarrow> runtime" where
  "update_agents w [] s = s"
| "update_agents w (run # runs) s =
     (let s = (case hm_get (rt_agents s) (ar_id run) of None \<Rightarrow> s
               | Some r \<Rightarrow> s\<lparr>rt_agents := hm_insert (ar_id run) (r\<lparr>rec_run := run\<rparr>) (rt_agents s)\<rparr>)
      in update_agents w runs (broadcast w (AgentChanged run) s))"

definition commit_queue :: "world \<Rightarrow> task_request \<Rightarrow> queue_changes \<Rightarrow> runtime \<Rightarrow>
    task_response tres \<times> runtime" where
  "commit_queue w rq cs s = (case cs of (changes, runs, t) \<Rightarrow>
     (case with_store (save_task_agent_changes changes (Some (rq, RChanged t)) runs)
             (s\<lparr>rt_draws := rt_draws s + length changes\<rparr>) of
        (Inl e, s') \<Rightarrow> (Err (storage_error e), s')
      | (Inr _, s') \<Rightarrow> (Ok (RChanged t), publish_tasks w changes (update_agents w runs s'))))"

definition queue_run :: "world \<Rightarrow> task_request \<Rightarrow> task_id \<Rightarrow> u64 \<Rightarrow> runtime \<Rightarrow>
    task_response tres \<times> runtime" where
  "queue_run w rq i rv s =
     (case task_replay rq (rt_store s) of Some resp \<Rightarrow> (Ok resp, s) | None \<Rightarrow>
     (case res_bind (queue_guard rq i rv s) (\<lambda>t. queue_operation w s t (rq_operation rq)) of
        Inl e \<Rightarrow> (Err e, s)
      | Inr cs \<Rightarrow> commit_queue w rq cs s))"

definition board_queue_request :: handler where
  "board_queue_request w rq s = (case queue_request_target rq s of
      None \<Rightarrow> None
    | Some (i, rv) \<Rightarrow> Some (queue_run w rq i rv s))"

section \<open>One task at a time per workspace\<close>

definition board_workspace :: "world \<Rightarrow> project \<Rightarrow> string \<times> path" where
  "board_workspace w p = (let
      target = (case p_execution_target p of Local \<Rightarrow> ''local'' | Remote m _ \<Rightarrow> w_show_uuid w m);
      root = (if is_remote p then p_root p
              else (case w_canonical w (p_root p) of Inl _ \<Rightarrow> p_root p | Inr r \<Rightarrow> r));
      root = (if w_macos w \<and> \<not> is_remote p then w_lower w root else root)
    in (target, root))"

definition board_task_owns_agent :: "runtime \<Rightarrow> task \<Rightarrow> agent_id \<Rightarrow> bool" where
  "board_task_owns_agent s t i =
     (t_execution_queue t \<noteq> None
      \<and> (t_assigned_agent_id t = Some i
         \<or> is_some_and (t_execution_queue t) (\<lambda>q. q_agent_id q = Some i)
         \<or> is_some_and (hm_get (rt_agents s) i) (\<lambda>r. ar_task_id (rec_run r) = Some (t_id t))
         \<or> is_some_and (hm_get (rt_controls s) (t_id t)) (\<lambda>c. co_owner c = i)))"

definition board_agent_owned :: "runtime \<Rightarrow> agent_id \<Rightarrow> bool" where
  "board_agent_owned s i = any_task (\<lambda>t. board_task_owns_agent s t i) s"

definition task_occupies :: "runtime \<Rightarrow> agent_id option \<Rightarrow> task \<Rightarrow> bool" where
  "task_occupies s except t = (let
      owns = (\<lambda>i. Some i \<noteq> except \<and> board_task_owns_agent s t i)
    in (column t = InProgress \<and> \<not> t_archived t
        \<and> is_some_and (t_assigned_agent_id t) (\<lambda>i. Some i \<noteq> except)
        \<and> condition_live (t_condition t))
      \<or> is_some_and (hm_get (rt_controls s) (t_id t)) (\<lambda>c. Some (co_owner c) \<noteq> except)
      \<or> list_ex owns (rt_acceptance_owners s)
      \<or> list_ex owns (hm_keys (rt_writer_leases s))
      \<or> list_ex owns (hm_keys (rt_children s))
      \<or> list_ex (\<lambda>r. owns (ar_id (rec_run r))
          \<and> (ar_can_stop (rec_run r) \<or> agent_running (ar_state (rec_run r))))
          (hm_values (rt_agents s)))"

definition board_execution_busy :: "world \<Rightarrow> runtime \<Rightarrow> project \<Rightarrow> agent_id option \<Rightarrow> bool" where
  "board_execution_busy w s p except =
     any_task (\<lambda>t. t_execution_queue t \<noteq> None
       \<and> any_project (\<lambda>q. p_id q = t_project_id t \<and> board_workspace w q = board_workspace w p) s
       \<and> task_occupies s except t) s"

section \<open>Claiming\<close>

definition first_waiting :: "runtime \<Rightarrow> project_id \<Rightarrow> task option" where
  "first_waiting s pid = min_by_key queue_position
     (List.filter (\<lambda>t. t_project_id t = pid \<and> waiting_in_queue t) (hm_values (rt_tasks s)))"

definition selected_agent :: "task \<Rightarrow> agent_id option" where
  "selected_agent t = opt_or (Option.bind (t_execution_queue t) q_agent_id) (t_continue_agent_id t)"

definition waiting_reason :: "world \<Rightarrow> runtime \<Rightarrow> project \<Rightarrow> task \<Rightarrow> string option" where
  "waiting_reason w s p t =
     (if is_some_and (selected_agent t)
           (\<lambda>i. hm_contains (rt_agents s) i \<and> \<not> board_agent_idle s i)
      then Some ''Waiting for the selected agent to become idle''
      else if board_execution_busy w s p None
      then Some ''Waiting for another board task in this project''
      else if plan_running t then Some ''Waiting for implementation plan''
      else if blank (pl_text (t_planning t))
      then Some ''Add an implementation plan to run this task''
      else None)"

text \<open>Saving one task change of the daemon and publishing it.\<close>

definition save_and_publish :: "world \<Rightarrow> (task \<times> task_audit) list \<Rightarrow> runtime \<Rightarrow>
    (unit, string) result \<times> runtime" where
  "save_and_publish w cs s =
     (case with_store (save_task_changes cs None None)
             (s\<lparr>rt_draws := rt_draws s + length cs\<rparr>) of
        (Inl e, s') \<Rightarrow> (Err (store_message e), s')
      | (Inr _, s') \<Rightarrow> (Ok (), publish_tasks w cs s'))"

definition daemon_change :: "world \<Rightarrow> string \<Rightarrow> task \<Rightarrow> runtime \<Rightarrow> (unit, string) result \<times> runtime"
where
  "daemon_change w action t s = save_and_publish w
     [(t, audit (fresh_uuid w s) (w_now w) t Daemon action None (t_last_reason t))] s"

definition dispatched :: "world \<Rightarrow> agent_id \<Rightarrow> task \<Rightarrow> task" where
  "dispatched w owner t = touch (w_now w) (t\<lparr>
     t_execution_queue := map_option (\<lambda>q. q\<lparr>q_agent_id := Some owner\<rparr>) (t_execution_queue t),
     t_assigned_agent_id := Some owner, t_started_at := Some (w_now w),
     t_last_reason := Option.bind (t_execution_queue t) q_feedback\<rparr>)"

definition launch_claimed :: "world \<Rightarrow> agent_id \<Rightarrow> task \<Rightarrow> runtime \<Rightarrow>
    (task option, string) result \<times> runtime" where
  "launch_claimed w owner t s = (let next = dispatched w owner t;
      au = audit (fresh_uuid w s) (w_now w) next Daemon ''queue_dispatch'' None None
    in case save_and_publish w [(next, au)] s of
         (Inl e, s') \<Rightarrow> (Err e, s') | (Inr _, s') \<Rightarrow> (Ok (Some next), s'))"

definition dispatch :: "world \<Rightarrow> task \<Rightarrow> runtime \<Rightarrow> (task option, string) result \<times> runtime" where
  "dispatch w t s = (let
      owner = unwrap_or (fresh_uuid w s) (selected_agent t);
      s1 = (if selected_agent t = None then drawn s else s)
    in if hm_contains (rt_agents s1) owner \<or> t_continue_agent_id t = Some owner
       then (case board_agent_thread s1 t owner of
           Inl reason \<Rightarrow>
             (case daemon_change w ''queue_resume_blocked'' (touch (w_now w)
                     (t\<lparr>t_condition := TcBlocked, t_last_reason := Some reason\<rparr>)) s1 of
                (Inl e, s') \<Rightarrow> (Err e, s') | (Inr _, s') \<Rightarrow> (Ok None, s'))
         | Inr thread \<Rightarrow> launch_claimed w owner
             (if thread \<noteq> None then t\<lparr>t_continue_agent_id := Some owner\<rparr> else t) s1)
       else launch_claimed w owner t s1)"

definition claim_board_task :: "world \<Rightarrow> project \<Rightarrow> runtime \<Rightarrow> (task option, string) result \<times> runtime"
where
  "claim_board_task w p s0 = (let s = reap_orphan_writers w s0 in
     if remote_maintenance_active w s then (Ok None, s)
     else (case board_execution s (p_id p) of
        Inl e \<Rightarrow> (Err e, s)
      | Inr x \<Rightarrow>
          if bx_paused x
             \<or> \<not> any_project (\<lambda>q. p_id q = p_id p \<and> p_archived_at q = None \<and> \<not> is_remote q) s
          then (Ok None, s)
          else (case first_waiting s (p_id p) of
              None \<Rightarrow> (Ok None, s)
            | Some t \<Rightarrow>
                (case waiting_reason w s p t of
                   Some reason \<Rightarrow>
                     if t_last_reason t = Some reason then (Ok None, s)
                     else (case daemon_change w ''queue_waiting''
                             (touch (w_now w) (t\<lparr>t_last_reason := Some reason\<rparr>)) s of
                        (Inl e, s') \<Rightarrow> (Err e, s') | (Inr _, s') \<Rightarrow> (Ok None, s'))
                 | None \<Rightarrow> dispatch w t s))))"

text \<open>
  One round of the dispatcher thread: every local project is offered a claim; an error is logged
  and the round goes on. The launches it starts are listed in order. The lock is held while the projects
  are listed and then for each claim on its own: before claim number \<open>n\<close> other threads run, the launches of
  this very round among them (\<open>others n\<close>), and it finds the world \<open>ws n\<close>.
\<close>

fun queue_round :: "(nat \<Rightarrow> world) \<Rightarrow> (nat \<Rightarrow> runtime \<Rightarrow> runtime) \<Rightarrow> nat \<Rightarrow> project list \<Rightarrow> runtime \<Rightarrow>
    (project \<times> task) list \<times> runtime" where
  "queue_round ws others n [] s = ([], s)"
| "queue_round ws others n (p # ps) s = (case claim_board_task (ws n) p (others n s) of (r, s') \<Rightarrow>
     (let (launched, s2) = queue_round ws others (Suc n) ps s' in
      ((case r of Inr (Some t) \<Rightarrow> (p, t) # launched | _ \<Rightarrow> launched), s2)))"

definition listed_projects :: "runtime \<Rightarrow> project list" where
  "listed_projects s = List.filter (\<lambda>p. \<not> is_remote p \<and> p_archived_at p = None) (hm_values (rt_projects s))"

definition queue_tick :: "(nat \<Rightarrow> world) \<Rightarrow> (nat \<Rightarrow> runtime \<Rightarrow> runtime) \<Rightarrow> runtime \<Rightarrow>
    (project \<times> task) list \<times> runtime" where
  "queue_tick ws others s = queue_round ws others 0 (listed_projects s) s"

end
