(* ===== verification/Writer_Lease.thy ===== *)
theory Writer_Lease
  imports Board_Queue
begin

text \<open>
  Writer reservations: \<open>WriterGuard\<close> of \<open>crates/ditchd/src/task_runtime.rs\<close>, the conversation a task
  continues, and the writer requests forwarded to an SSH host. An agent writes to a workspace only
  while it holds a lease, which is both in memory and in the store; a guard releases its lease when
  it is dropped unless the lease was retained for a running child.
\<close>

section \<open>Guards\<close>

datatype writer_admission = TaskLaunch | DirectPrompt

record writer_guard =
  wg_agent :: agent_id
  wg_retained :: bool
  wg_group :: "int option"

definition workspace_root :: "world \<Rightarrow> project \<Rightarrow> (path, string) result" where
  "workspace_root w p =
     (if is_remote p then Ok (p_root p)
      else res_bind (map_err (\<lambda>e. ''Cannot resolve project workspace: '' @ e)
                       (w_canonical w (p_root p)))
             (\<lambda>dir. Ok (if w_macos w then w_lower w dir else dir)))"

definition lease_target :: "world \<Rightarrow> project \<Rightarrow> string" where
  "lease_target w p = (case p_execution_target p of Local \<Rightarrow> ''local'' | Remote m _ \<Rightarrow> w_show_uuid w m)"

definition wanted_lease :: "world \<Rightarrow> project \<Rightarrow> path \<Rightarrow> agent_execution_profile \<Rightarrow> uuid option \<Rightarrow>
    runtime \<Rightarrow> workspace_lease" where
  "wanted_lease w p dir profile grp s = \<lparr>wl_coordinator_group = grp,
     wl_target = lease_target w p, wl_root = dir,
     wl_unconfined = (rt_remote_runtime s \<or> is_remote p \<or> ep_approval profile = FullAccess)\<rparr>"

definition reserved_for_launch :: "runtime \<Rightarrow> agent_id \<Rightarrow> bool" where
  "reserved_for_launch s i = any_task (\<lambda>t. t_condition t = TcQueued
     \<and> (t_assigned_agent_id t = Some i
        \<or> is_some_and (t_execution_queue t) (\<lambda>q. q_agent_id q = Some i)
        \<or> (t_execution_queue t \<noteq> None \<and> t_continue_agent_id t = Some i))) s"

definition writer_occupied :: "runtime \<Rightarrow> agent_id \<Rightarrow> workspace_lease \<Rightarrow> bool" where
  "writer_occupied s i lease =
     (hm_contains (rt_children s) i
      \<or> is_some_and (hm_get (rt_agents s) i) (\<lambda>a. ar_can_stop (rec_run a))
      \<or> hm_contains (rt_writer_leases s) i
      \<or> list_ex (lease_conflicts lease) (hm_values (rt_writer_leases s)))"

definition linked_task :: "runtime \<Rightarrow> agent_id \<Rightarrow> task_id option" where
  "linked_task s i =
     opt_or (map_option t_id (find (\<lambda>t. t_assigned_agent_id t = Some i \<and> t_condition t = TcQueued)
               (hm_values (rt_tasks s))))
       (Option.bind (hm_get (rt_agents s) i) (\<lambda>r. ar_task_id (rec_run r)))"

text \<open>The linked task must authorise the work, unless the user talks to a conversation directly.\<close>

definition linked_task_allows :: "runtime \<Rightarrow> agent_id \<Rightarrow> project \<Rightarrow> bool \<Rightarrow> uuid option \<Rightarrow>
    (unit, string) result" where
  "linked_task_allows s i p direct grp = (case linked_task s i of
      None \<Rightarrow> Ok ()
    | Some tid \<Rightarrow>
        (case hm_get (rt_tasks s) tid of
           None \<Rightarrow> Err ''The linked task is unavailable.''
         | Some t \<Rightarrow>
             if t_project_id t \<noteq> p_id p then Err ''The linked task belongs to another project.''
             else if (\<not> direct \<or> grp \<noteq> None)
               \<and> (column t \<noteq> InProgress \<or> t_archived t \<or> t_assigned_agent_id t \<noteq> Some i)
             then Err ''Use Request Changes or reopen the linked task before sending more work.''
             else Ok ()))"

definition writer_refusal :: "world \<Rightarrow> agent_id \<Rightarrow> project \<Rightarrow> bool \<Rightarrow> runtime \<Rightarrow> string option" where
  "writer_refusal w i p direct s =
     (if direct \<and> i \<in> set (rt_acceptance_owners s)
      then Some ''Use Cancel loop before changing its worker prompt.''
      else if direct \<and> reserved_for_launch s i
      then Some ''This agent is reserved for a pending task launch.''
      else if board_agent_owned s i \<and> board_execution_busy w s p (Some i)
      then Some ''Another board task is already running in this project.''
      else None)"

definition acquire_with_intent :: "world \<Rightarrow> agent_id \<Rightarrow> project \<Rightarrow> agent_execution_profile \<Rightarrow>
    uuid option \<Rightarrow> writer_admission \<Rightarrow> runtime \<Rightarrow> (writer_guard, string) result \<times> runtime" where
  "acquire_with_intent w i p profile grp intent s0 =
     (case workspace_root w p of
        Inl e \<Rightarrow> (Err e, s0)
      | Inr dir \<Rightarrow>
     if remote_maintenance_active w s0
     then (Err ''Remote runtime is being upgraded; retry when repair finishes.'', s0)
     else (let s = reap_orphan_writers w s0;
               grp = opt_or (agent_coordinator_group s i) grp;
               direct = (intent = DirectPrompt) in
       case writer_refusal w i p direct s of
         Some e \<Rightarrow> (Err e, s)
       | None \<Rightarrow>
           if i \<in> set (rt_acceptance_owners s) \<and> hm_contains (rt_writer_leases s) i
              \<and> \<not> hm_contains (rt_children s) i
           then (Ok \<lparr>wg_agent = i, wg_retained = True, wg_group = None\<rparr>, s)
           else (let lease = wanted_lease w p dir profile grp s in
             if writer_occupied s i lease
             then (Err ''This agent is still active, or Ditchmaster already has a worker in this project. Wait for it to finish or stop it.'', s)
             else (case linked_task_allows s i p direct grp of
                 Inl e \<Rightarrow> (Err e, s)
               | Inr _ \<Rightarrow>
                   (case with_store (reserve_writer i lease) s of
                      (Inl e, s') \<Rightarrow> (Err (store_message e), s')
                    | (Inr _, s') \<Rightarrow>
                        (Ok \<lparr>wg_agent = i, wg_retained = False, wg_group = None\<rparr>,
                         s'\<lparr>rt_writer_leases := hm_insert i lease (rt_writer_leases s')\<rparr>))))))"

definition acquire_for_group :: "world \<Rightarrow> agent_id \<Rightarrow> project \<Rightarrow> agent_execution_profile \<Rightarrow>
    uuid option \<Rightarrow> runtime \<Rightarrow> (writer_guard, string) result \<times> runtime" where
  "acquire_for_group w i p profile grp s = acquire_with_intent w i p profile grp TaskLaunch s"

definition acquire :: "world \<Rightarrow> agent_id \<Rightarrow> project \<Rightarrow> agent_execution_profile \<Rightarrow> runtime \<Rightarrow>
    (writer_guard, string) result \<times> runtime" where
  "acquire w i p profile s = acquire_for_group w i p profile (agent_coordinator_group s i) s"

definition acquire_direct_prompt :: "world \<Rightarrow> agent_id \<Rightarrow> project \<Rightarrow> agent_execution_profile \<Rightarrow>
    runtime \<Rightarrow> (writer_guard, string) result \<times> runtime" where
  "acquire_direct_prompt w i p profile s = acquire_with_intent w i p profile None DirectPrompt s"

definition guard_started :: "int \<Rightarrow> writer_guard \<Rightarrow> runtime \<Rightarrow>
    (unit, store_error) result \<times> writer_guard \<times> runtime" where
  "guard_started pid g s = (let (r, s') = with_store (writer_started (wg_agent g) pid) s
     in (r, g\<lparr>wg_group := Some pid\<rparr>, s'))"

definition retain :: "writer_guard \<Rightarrow> writer_guard" where
  "retain g = g\<lparr>wg_retained := True\<rparr>"

text \<open>The transfer of a lease to another agent, in the store and then in memory.\<close>

definition move_lease :: "agent_id \<Rightarrow> agent_id \<Rightarrow> runtime \<Rightarrow> (unit, store_error) result \<times> runtime" where
  "move_lease old new s = (case with_store (transfer_writer old new) s of
      (Inl e, s') \<Rightarrow> (Err e, s')
    | (Inr _, s') \<Rightarrow> (case hm_get (rt_writer_leases s') old of
          None \<Rightarrow> (Ok (), s')
        | Some lease \<Rightarrow> (Ok (), s'\<lparr>rt_writer_leases :=
             hm_insert new lease (hm_remove old (rt_writer_leases s'))\<rparr>)))"

definition retain_as :: "agent_id \<Rightarrow> writer_guard \<Rightarrow> runtime \<Rightarrow> writer_guard \<times> runtime" where
  "retain_as new g s = (retain g, snd (move_lease (wg_agent g) new s))"

definition drop_guard :: "world \<Rightarrow> writer_guard \<Rightarrow> runtime \<Rightarrow> runtime" where
  "drop_guard w g s =
     (if wg_retained g then s
      else case opt_filter (w_group_exists w) (wg_group g) of
          Some pid \<Rightarrow> s\<lparr>rt_signals := rt_signals s @ [pid],
                        rt_orphans := hm_insert (wg_agent g) pid (rt_orphans s)\<rparr>
        | None \<Rightarrow> release_writer w (wg_agent g) s)"

section \<open>Leases that change hands\<close>

text \<open>A task of an SSH host arrives with another owner: the lease follows it.\<close>

definition update_remote_task :: "world \<Rightarrow> task \<Rightarrow> runtime \<Rightarrow> runtime" where
  "update_remote_task w t s =
     (if is_some_and (hm_get (rt_tasks s) (t_id t))
           (\<lambda>old. t_remote_pending old \<or> t_revision t \<le> t_revision old)
      then s
      else (let old = Option.bind (hm_get (rt_tasks s) (t_id t)) t_assigned_agent_id;
                new = t_assigned_agent_id t;
                s = (case (old, new) of
                       (Some a, Some b) \<Rightarrow>
                         if a \<noteq> b \<and> hm_contains (rt_writer_leases s) a
                         then snd (move_lease a b s) else s
                     | _ \<Rightarrow> s);
                s = s\<lparr>rt_tasks := hm_insert (t_id t) t (rt_tasks s)\<rparr>
            in if condition_live (t_condition t) then s
               else (case opt_or new old of None \<Rightarrow> s | Some i \<Rightarrow> release_writer w i s)))"

text \<open>A granted permission widens the scope of the agent's own lease.\<close>

definition widen_lease :: "agent_id \<Rightarrow> runtime \<Rightarrow> (unit, string) result \<times> runtime" where
  "widen_lease i s = (case hm_get (rt_writer_leases s) i of
      None \<Rightarrow> (Err ''Writer reservation is missing'', s)
    | Some lease \<Rightarrow>
        if wl_unconfined lease then (Ok (), s)
        else (let lease = lease\<lparr>wl_unconfined := True\<rparr> in
          case with_store (update_writer_lease i lease) s of
            (Inl e, s') \<Rightarrow> (Err (store_message e), s')
          | (Inr _, s') \<Rightarrow>
              (Ok (), s'\<lparr>rt_writer_leases := hm_insert i lease (rt_writer_leases s')\<rparr>)))"

section \<open>The conversation a task continues\<close>

definition same_binding :: "skill_binding \<Rightarrow> skill_binding \<Rightarrow> bool" where
  "same_binding a b = (sb_identity a = sb_identity b \<and> sb_path a = sb_path b
     \<and> sb_content_hash a = sb_content_hash b \<and> sb_revision a = sb_revision b)"

definition same_skills :: "skill_binding list \<Rightarrow> skill_binding list \<Rightarrow> bool" where
  "same_skills xs ys = (length xs = length ys \<and> list_all (\<lambda>(a, b). same_binding a b) (List.zip xs ys))"

definition settings_differ :: "agent_run \<Rightarrow> agent_execution_profile \<Rightarrow> bool" where
  "settings_differ run profile = (let original = ar_execution_profile run in
     ep_model original \<noteq> ep_model profile
     \<or> ep_reasoning_effort original \<noteq> ep_reasoning_effort profile
     \<or> ep_approval original \<noteq> ep_approval profile
     \<or> \<not> same_skills (ep_skills original) (ep_skills profile)
     \<or> ar_resume_block_reason run \<noteq> None)"

definition conversation_active :: "runtime \<Rightarrow> task \<Rightarrow> agent_id \<Rightarrow> agent_run \<Rightarrow> bool" where
  "conversation_active s t i run =
     (ar_can_stop run \<or> hm_contains (rt_children s) i \<or> hm_contains (rt_writer_leases s) i
      \<or> any_task (\<lambda>u. t_id u \<noteq> t_id t \<and> t_assigned_agent_id u = Some i
            \<and> condition_live (t_condition u)) s)"

definition continuation_thread :: "runtime \<Rightarrow> task \<Rightarrow> agent_execution_profile \<Rightarrow>
    (string option, string) result" where
  "continuation_thread s t profile = (case t_continue_agent_id t of
      None \<Rightarrow> Ok None
    | Some i \<Rightarrow>
        (case hm_get (rt_agents s) i of
           None \<Rightarrow> Err ''The selected conversation no longer exists; choose a new agent''
         | Some r \<Rightarrow> (let run = rec_run r in
             if t_coordinator_group t = None \<or> ar_coordinator_group run \<noteq> t_coordinator_group t
                \<or> ar_project_id run \<noteq> t_project_id t
             then Err ''Continue requires a Ditchmaster agent from the same group and project''
             else if conversation_active s t i run
             then Err ''The selected conversation is still active''
             else if settings_differ run profile
             then Err ''The selected conversation cannot resume with these execution settings; choose a new agent''
             else if \<not> any_project (\<lambda>p. p_id p = t_project_id t \<and> is_remote p) s
                     \<and> ar_origin_codex_home run \<noteq> rt_codex_home s
             then Err ''The selected conversation belongs to a different Codex account; choose a new agent''
             else map_err (\<lambda>_. ''The selected conversation has no resumable thread; choose a new agent'')
                    (ok_or () (map_option Some (ar_native_session_id run))))))"

section \<open>Writer requests to an SSH host\<close>

text \<open>
  What is forwarded and what the host answers; the transport is code outside this model and gives
  the answer as an argument.
\<close>

datatype remote_call = CallTask task_request | CallPrompt agent_id | CallOther

datatype remote_reply = ReplyStarted agent_run | ReplyTask task_response
  | ReplyError string string \<comment> \<open>code and message\<close> | ReplyAccepted | ReplyOther

definition call_owner :: "world \<Rightarrow> remote_call \<Rightarrow> runtime \<Rightarrow> agent_id \<times> runtime" where
  "call_owner w call s = (case call of CallPrompt i \<Rightarrow> (i, s) | _ \<Rightarrow> (fresh_uuid w s, drawn s))"

definition call_task :: "task_operation \<Rightarrow> task_id option" where
  "call_task op = (case op of
      StartTask i _ _ \<Rightarrow> Some i
    | Revalidate i _ \<Rightarrow> Some i
    | Transition i _ _ \<Rightarrow> Some i
    | _ \<Rightarrow> None)"

definition call_group :: "remote_call \<Rightarrow> runtime \<Rightarrow> (uuid option, remote_reply) result" where
  "call_group call s = (case call of
      CallTask rq \<Rightarrow> Ok (Option.bind (Option.bind (call_task (rq_operation rq))
                            (hm_get (rt_tasks s))) t_coordinator_group)
    | CallPrompt i \<Rightarrow>
        if is_some_and (hm_get (rt_agents s) i) (\<lambda>a. ar_can_stop (rec_run a))
           \<or> hm_contains (rt_writer_leases s) i
        then Err (ReplyError ''workspace_busy'' ''This agent is still active'')
        else Ok (agent_coordinator_group s i)
    | CallOther \<Rightarrow> Ok None)"

definition uncertain :: "agent_id \<Rightarrow> string \<Rightarrow> runtime \<Rightarrow> runtime" where
  "uncertain i alias s = s\<lparr>rt_remote_uncertain := hm_insert i alias (rt_remote_uncertain s)\<rparr>"

text \<open>Which lease survives the answer: the child's, or the owner's while the outcome is unknown.\<close>

definition settle_writer :: "world \<Rightarrow> string \<Rightarrow> writer_guard \<Rightarrow> (remote_reply, string) result \<Rightarrow>
    runtime \<Rightarrow> remote_reply \<times> runtime" where
  "settle_writer w alias g answer s = (case answer of
      Inl e \<Rightarrow> (ReplyError ''remote_unavailable''
         (''Remote writer ownership is being reconciled; refresh before retrying: '' @ e),
         uncertain (wg_agent g) alias s)
    | Inr reply \<Rightarrow> (reply,
        (case reply of
           ReplyStarted run \<Rightarrow>
             if ar_can_stop run then snd (retain_as (ar_id run) g s) else drop_guard w g s
         | ReplyTask (RChanged t) \<Rightarrow>
             if condition_live (t_condition t)
             then (case t_assigned_agent_id t of
                     Some i \<Rightarrow> snd (retain_as i g s) | None \<Rightarrow> drop_guard w g s)
             else drop_guard w g s
         | ReplyError code _ \<Rightarrow>
             if code = ''operation_outcome_unknown'' \<or> code = ''remote_unavailable''
             then uncertain (wg_agent g) alias s else drop_guard w g s
         | ReplyAccepted \<Rightarrow> uncertain (wg_agent g) alias s
         | _ \<Rightarrow> drop_guard w g s)))"

text \<open>
  The lock is released while the host answers: \<open>others\<close> is what other threads do meanwhile. \<open>None\<close>
  is the panic for a project without an SSH host, which the callers exclude.
\<close>

definition remote_writer_request :: "world \<Rightarrow> project \<Rightarrow> remote_call \<Rightarrow>
    (remote_reply, string) result \<Rightarrow> (runtime \<Rightarrow> runtime) \<Rightarrow> runtime \<Rightarrow>
    (remote_reply \<times> runtime) option" where
  "remote_writer_request w p call answer others s0 = (let (owner, s) = call_owner w call s0 in
     case call_group call s of
       Inl reply \<Rightarrow> Some (reply, s)
     | Inr grp \<Rightarrow>
         (case acquire_with_intent w owner p default_profile grp
                 (case call of CallPrompt _ \<Rightarrow> DirectPrompt | _ \<Rightarrow> TaskLaunch) s of
            (Inl e, s') \<Rightarrow> Some (ReplyError ''workspace_busy'' e, s')
          | (Inr g, s') \<Rightarrow>
              (case p_execution_target p of
                 Local \<Rightarrow> None
               | Remote _ alias \<Rightarrow> Some (settle_writer w alias g answer (others s')))))"

end
