(* ===== verification/Writer_Facts.thy ===== *)
theory Writer_Facts
  imports Runtime_Facts Writer_Lease
begin

text \<open>
  Writer leases are exclusive and durable: whatever sequence of acquisitions, starts, transfers,
  widenings, drops, releases and reaps runs, no two agents hold clashing leases, and the leases in
  memory are exactly the reservations in the store. The contract of a table of leases is the locale
  \<open>lease_table\<close>; the daemon's lease map is its interpretation.
\<close>

section \<open>A table of leases\<close>

text \<open>The ways a single lease may change. \<open>clash\<close> says which leases exclude each other.\<close>

inductive lease_change :: "('l \<Rightarrow> 'l \<Rightarrow> bool) \<Rightarrow> ('k \<Rightarrow> 'l option) \<Rightarrow> ('k \<Rightarrow> 'l option) \<Rightarrow> bool"
  for clash where
  grant: "(\<And>j m. T j = Some m \<Longrightarrow> \<not> clash l m) \<Longrightarrow> lease_change clash T (T(k \<mapsto> l))"
| free: "lease_change clash T (T(k := None))"
| move: "T k = Some l \<Longrightarrow> lease_change clash T ((T(k := None))(k' \<mapsto> l))"
| widen: "T k = Some l \<Longrightarrow> clash l' = clash l \<Longrightarrow> lease_change clash T (T(k \<mapsto> l'))"

definition exclusive :: "('l \<Rightarrow> 'l \<Rightarrow> bool) \<Rightarrow> ('k \<Rightarrow> 'l option) \<Rightarrow> bool" where
  "exclusive clash T \<longleftrightarrow>
     (\<forall>i j a b. T i = Some a \<longrightarrow> T j = Some b \<longrightarrow> i \<noteq> j \<longrightarrow> \<not> clash a b)"

lemma exclusiveD: "exclusive clash T \<Longrightarrow> T i = Some a \<Longrightarrow> T j = Some b \<Longrightarrow> i \<noteq> j \<Longrightarrow> \<not> clash a b"
  by (auto simp: exclusive_def)

locale lease_table =
  fixes clash :: "'l \<Rightarrow> 'l \<Rightarrow> bool"
    and table :: "'s \<Rightarrow> 'k \<Rightarrow> 'l option"
    and step :: "'s \<Rightarrow> 's \<Rightarrow> bool"
  assumes clash_sym: "clash a b = clash b a"
    and step_changes: "step s s' \<Longrightarrow> (lease_change clash)\<^sup>*\<^sup>* (table s) (table s')"
begin

lemma change_exclusive: "lease_change clash T T' \<Longrightarrow> exclusive clash T \<Longrightarrow> exclusive clash T'"
proof (induction rule: lease_change.induct)
  case (grant T l k)
  then show ?case by (auto simp: exclusive_def clash_sym[of _ l] split: if_splits)
next
  case (free T k)
  then show ?case by (auto simp: exclusive_def split: if_splits)
next
  case (move T k l k')
  then show ?case by (fastforce simp: exclusive_def clash_sym[of _ l] split: if_splits)
next
  case (widen T k l l')
  then show ?case by (fastforce simp: exclusive_def clash_sym[of _ l'] clash_sym[of _ l] split: if_splits)
qed

lemma changes_exclusive:
  "(lease_change clash)\<^sup>*\<^sup>* T T' \<Longrightarrow> exclusive clash T \<Longrightarrow> exclusive clash T'"
  by (induction rule: rtranclp_induct) (auto dest: change_exclusive)

lemma run_exclusive:
  "step\<^sup>*\<^sup>* s s' \<Longrightarrow> exclusive clash (table s) \<Longrightarrow> exclusive clash (table s')"
  by (induction rule: rtranclp_induct) (auto dest: step_changes changes_exclusive)

lemma run_one_holder:
  assumes "step\<^sup>*\<^sup>* s s'" and "exclusive clash (table s)"
    and "table s' i = Some a" and "table s' j = Some b" and "clash a b"
  shows "i = j"
  using exclusiveD[OF run_exclusive[OF assms(1,2)] assms(3,4)] assms(5) by blast

end

section \<open>The reservation table of the store\<close>

abbreviation writers :: "runtime \<Rightarrow> (agent_id, writer_row) hmap" where
  "writers s \<equiv> db_writers (st_db (rt_store s))"

lemma in_tx_writers:
  assumes "\<And>db'. body (st_db st) = Inr db' \<Longrightarrow> db_writers db' = db_writers (st_db st)"
    and "in_tx body st = (r, st')"
  shows "db_writers (st_db st') = db_writers (st_db st)"
  using assms by (auto simp: in_tx_def Let_def split: if_splits sum.splits)

lemma each_stmt_writers:
  assumes "\<And>x db db'. f x db = Inr db' \<Longrightarrow> db_writers db' = db_writers db"
  shows "each_stmt f xs db = Inr db' \<Longrightarrow> db_writers db' = db_writers db"
proof (induction xs arbitrary: db)
  case (Cons x xs)
  from Cons.prems obtain d where "f x db = Inr d" "each_stmt f xs d = Inr db'"
    by (auto simp: res_bind_Ok_iff)
  with Cons.IH assms show ?case by metis
qed simp

lemma stmt_save_writers: "stmt_save cs rq ls db = Inr db' \<Longrightarrow> db_writers db' = db_writers db"
proof -
  have change: "write_change x d = Inr d' \<Longrightarrow> db_writers d' = db_writers d" for x d d'
    by (auto simp: write_change_def write_task_def write_audit_def res_bind_Ok_iff Let_def
      split: option.splits if_splits)
  have link: "link_agent x d = Inr d' \<Longrightarrow> db_writers d' = db_writers d" for x d d'
    by (auto simp: link_agent_def split: option.splits if_splits)
  assume "stmt_save cs rq ls db = Inr db'"
  then obtain d1 d2 where d: "each_stmt write_change cs db = Inr d1" "each_stmt link_agent ls d1 = Inr d2"
    and r: "(case rq of None \<Rightarrow> Ok d2 | Some (rq, resp) \<Rightarrow> insert_request rq resp d2) = Inr db'"
    by (auto simp: stmt_save_def res_bind_Ok_iff)
  from r have "db_writers db' = db_writers d2"
    by (auto simp: insert_request_def split: option.splits if_splits prod.splits)
  with d each_stmt_writers[of write_change] each_stmt_writers[of link_agent] change link show ?thesis
    by metis
qed

lemma with_store_save_writers:
  "with_store (save_task_changes cs rq l) s = (r, s') \<Longrightarrow> writers s' = writers s"
  by (elim with_storeE) (auto simp: save_task_changes_def save_task_agent_changes_def
    intro: in_tx_writers[where body = "stmt_save cs rq (case l of None \<Rightarrow> [] | Some run \<Rightarrow> [run])"]
      stmt_save_writers)

lemma with_store_attention_writers:
  "with_store (upsert_attention a) s = (r, s') \<Longrightarrow> writers s' = writers s"
  by (elim with_storeE) (auto simp: upsert_attention_def stmt_upsert_attention_def stmt_insert_attention_def
    elim!: in_tx_writers[rotated] split: if_splits option.splits)

lemma with_store_leases: "with_store f s = (r, s') \<Longrightarrow> rt_writer_leases s' = rt_writer_leases s"
  by (elim with_storeE) simp

lemma task_attention_writers [simp]: "writers (task_attention w t s) = writers s"
  by (auto simp: task_attention_def dest!: with_store_attention_writers split: sum.splits prod.splits)

lemma sync_agent_task_writers [simp]: "writers (sync_agent_task w i s) = writers s"
  by (auto simp: sync_agent_task_def Let_def dest!: with_store_save_writers
      split: option.splits prod.splits sum.splits)

lemma sync_agent_task_leases [simp]: "rt_writer_leases (sync_agent_task w i s) = rt_writer_leases s"
  by (auto simp: sync_agent_task_def Let_def dest!: with_store_leases
      split: option.splits prod.splits sum.splits)

section \<open>Memory and store hold the same leases\<close>

definition leases :: "runtime \<Rightarrow> agent_id \<Rightarrow> workspace_lease option" where
  "leases s i = hm_get (rt_writer_leases s) i"

definition leases_stored :: "runtime \<Rightarrow> bool" where
  "leases_stored s \<longleftrightarrow> hm_ok (rt_writer_leases s) \<and> hm_ok (writers s)
     \<and> (\<forall>i. leases s i = map_option wr_lease (hm_get (writers s) i))"

lemma leases_cong:
  "rt_writer_leases s' = rt_writer_leases s \<Longrightarrow> leases s' = leases s"
  "rt_writer_leases s' = rt_writer_leases s \<Longrightarrow> writers s' = writers s \<Longrightarrow>
     leases_stored s' = leases_stored s"
  by (auto simp: leases_def leases_stored_def fun_eq_iff)

text \<open>Each operation changes the leases in the ways of \<open>lease_change\<close> and keeps them stored.\<close>

definition lease_safe :: "runtime \<Rightarrow> runtime \<Rightarrow> bool" where
  "lease_safe s s' \<longleftrightarrow> leases_stored s \<longrightarrow>
     leases_stored s' \<and> (lease_change lease_conflicts)\<^sup>*\<^sup>* (leases s) (leases s')"

lemma lease_safe_refl [simp]: "lease_safe s s"
  by (simp add: lease_safe_def)

lemma lease_safe_trans: "lease_safe s s1 \<Longrightarrow> lease_safe s1 s2 \<Longrightarrow> lease_safe s s2"
  by (auto simp: lease_safe_def)

lemma lease_safe_same:
  "rt_writer_leases s' = rt_writer_leases s \<Longrightarrow> writers s' = writers s \<Longrightarrow> lease_safe s s'"
  using leases_cong[of s' s] by (simp add: lease_safe_def)

lemma lease_safe_one:
  "(leases_stored s \<Longrightarrow> leases_stored s' \<and> lease_change lease_conflicts (leases s) (leases s')) \<Longrightarrow>
     lease_safe s s'"
  by (auto simp: lease_safe_def)

lemma release_writer_leases:
  "(rt_writer_leases (release_writer w i s) = rt_writer_leases s \<and> writers (release_writer w i s) = writers s)
   \<or> (rt_writer_leases (release_writer w i s) = hm_remove i (rt_writer_leases s)
      \<and> writers (release_writer w i s) = hm_remove i (writers s))"
proof (cases "release_refused s i")
  case True then show ?thesis by (simp add: release_writer_def)
next
  case nr: False
  show ?thesis
  proof (cases "opt_filter (w_group_exists w) (reserved_group s i)")
    case (Some pid) with nr show ?thesis by (simp add: release_writer_def)
  next
    case None
    obtain r s1 where sv: "with_store (release_writer_row i) s = (r, s1)" by fastforce
    have l1: "rt_writer_leases s1 = rt_writer_leases s" using sv by (rule with_store_leases)
    have w1: "writers s1 = (case r of Inl _ \<Rightarrow> writers s | Inr _ \<Rightarrow> hm_remove i (writers s))"
      using sv by (auto simp: release_writer_row_def in_tx_def Let_def elim!: with_storeE split: if_splits)
    show ?thesis using nr None sv l1 w1 by (cases r) (simp_all add: release_writer_def)
  qed
qed

lemma release_writer_safe: "lease_safe s (release_writer w i s)"
proof -
  define s2 where "s2 = release_writer w i s"
  from release_writer_leases[of w i s, folded s2_def] have "lease_safe s s2"
  proof
    assume "rt_writer_leases s2 = rt_writer_leases s \<and> writers s2 = writers s"
    then show ?thesis by (simp add: lease_safe_same)
  next
    assume r: "rt_writer_leases s2 = hm_remove i (rt_writer_leases s) \<and> writers s2 = hm_remove i (writers s)"
    show ?thesis
    proof (rule lease_safe_one)
      assume st: "leases_stored s"
      then have "leases s2 = (leases s)(i := None)"
        by (auto simp: leases_stored_def leases_def r hm.get_rem fun_eq_iff)
      then have "lease_change lease_conflicts (leases s) (leases s2)" by (simp add: lease_change.free)
      moreover have "leases_stored s2"
        using st by (auto simp: leases_stored_def leases_def r hm.get_rem hm.invar_rem)
      ultimately show "leases_stored s2 \<and> lease_change lease_conflicts (leases s) (leases s2)" by simp
    qed
  qed
  then show ?thesis by (simp add: s2_def)
qed

lemma move_lease_safe: "lease_safe s (snd (move_lease old new s))"
proof -
  obtain r s1 where sv: "with_store (transfer_writer old new) s = (r, s1)" by fastforce
  have l1: "rt_writer_leases s1 = rt_writer_leases s" using sv by (rule with_store_leases)
  show ?thesis
  proof (cases r)
    case (Inl e)
    with sv have "writers s1 = writers s"
      by (auto simp: transfer_writer_def in_tx_def Let_def elim!: with_storeE split: if_splits sum.splits)
    with Inl sv l1 show ?thesis by (auto simp: move_lease_def intro: lease_safe_same)
  next
    case (Inr u)
    with sv obtain db where db: "stmt_transfer_writer old new (st_db (rt_store s)) = Inr db"
      and w1: "writers s1 = db_writers db"
      by (auto simp: transfer_writer_def in_tx_def Let_def elim!: with_storeE split: if_splits sum.splits)
    show ?thesis
    proof (cases "hm_get (writers s) old")
      case None
      then have "writers s1 = writers s" using db w1 by (simp add: stmt_transfer_writer_def)
      have "lease_safe s (snd (move_lease old new s))"
      proof (cases "hm_get (rt_writer_leases s) old")
        case None
        with Inr sv l1 \<open>writers s1 = writers s\<close> show ?thesis
          by (auto simp: move_lease_def intro: lease_safe_same)
      next
        case (Some l)
        with \<open>hm_get (writers s) old = None\<close> show ?thesis
          by (auto simp: lease_safe_def leases_stored_def leases_def)
      qed
      then show ?thesis .
    next
      case (Some row)
      define s2 where "s2 = snd (move_lease old new s)"
      have free: "new = old \<or> hm_get (writers s) new = None"
        and w1': "writers s1 = hm_insert new row (hm_remove old (writers s))"
        using db w1 Some by (auto simp: stmt_transfer_writer_def hm_contains_def split: if_splits)
      have "lease_safe s s2"
      proof (rule lease_safe_one)
        assume st: "leases_stored s"
        then have ok: "hm_ok (rt_writer_leases s)" "hm_ok (writers s)"
          and eq: "\<And>j. hm_get (rt_writer_leases s) j = map_option wr_lease (hm_get (writers s) j)"
          by (auto simp: leases_stored_def leases_def)
        have lold: "leases s old = Some (wr_lease row)" using eq Some by (simp add: leases_def)
        have s2: "rt_writer_leases s2 = hm_insert new (wr_lease row) (hm_remove old (rt_writer_leases s))"
          "writers s2 = writers s1"
          using Inr sv l1 eq[of old] Some by (auto simp: s2_def move_lease_def)
        have "leases s2 = ((leases s)(old := None))(new \<mapsto> wr_lease row)"
          using ok by (auto simp: leases_def s2 hm.get_ins hm.get_rem fun_eq_iff)
        then have "lease_change lease_conflicts (leases s) (leases s2)"
          using lease_change.move[where T = "leases s" and k = old and k' = new, OF lold] by simp
        moreover have "leases_stored s2"
          using ok eq by (auto simp: leases_stored_def leases_def s2 w1' hm.get_ins hm.get_rem
            hm.invar_ins hm.invar_rem)
        ultimately show "leases_stored s2 \<and> lease_change lease_conflicts (leases s) (leases s2)" by simp
      qed
      then show ?thesis by (simp add: s2_def)
    qed
  qed
qed

lemma widen_lease_safe: "lease_safe s (snd (widen_lease i s))"
proof (cases "hm_get (rt_writer_leases s) i")
  case None then show ?thesis by (simp add: widen_lease_def)
next
  case (Some l)
  show ?thesis
  proof (cases "wl_unconfined l")
    case True with Some show ?thesis by (simp add: widen_lease_def)
  next
    case False
    let ?l = "l\<lparr>wl_unconfined := True\<rparr>"
    obtain r s1 where sv: "with_store (update_writer_lease i ?l) s = (r, s1)" by fastforce
    have l1: "rt_writer_leases s1 = rt_writer_leases s" using sv by (rule with_store_leases)
    show ?thesis
    proof (cases r)
      case (Inl e)
      with sv have "writers s1 = writers s"
        by (auto simp: update_writer_lease_def in_tx_def Let_def elim!: with_storeE split: if_splits sum.splits)
      with Inl sv l1 Some False show ?thesis by (auto simp: widen_lease_def Let_def intro: lease_safe_same)
    next
      case (Inr u)
      with sv obtain row where row: "hm_get (writers s) i = Some row"
        and w1: "writers s1 = hm_insert i (row\<lparr>wr_lease := ?l\<rparr>) (writers s)"
        by (auto simp: update_writer_lease_def in_tx_def Let_def update_writer_def hm_contains_def
          elim!: with_storeE split: if_splits sum.splits option.splits)
      define s2 where "s2 = snd (widen_lease i s)"
      have s2: "rt_writer_leases s2 = hm_insert i ?l (rt_writer_leases s)" "writers s2 = writers s1"
        using Inr sv l1 Some False by (simp_all add: s2_def widen_lease_def Let_def)
      have "lease_safe s s2"
      proof (rule lease_safe_one)
        assume st: "leases_stored s"
        have "leases s2 = (leases s)(i \<mapsto> ?l)" by (auto simp: leases_def s2 hm.get_ins fun_eq_iff)
        moreover have "lease_conflicts ?l = lease_conflicts l" by (simp add: lease_conflicts_def fun_eq_iff)
        moreover have "leases s i = Some l" using Some by (simp add: leases_def)
        ultimately have "lease_change lease_conflicts (leases s) (leases s2)"
          by (simp add: lease_change.widen)
        moreover have "leases_stored s2"
          using st by (auto simp: leases_stored_def leases_def s2 w1 hm.get_ins hm.invar_ins)
        ultimately show "leases_stored s2 \<and> lease_change lease_conflicts (leases s) (leases s2)" by simp
      qed
      then show ?thesis by (simp add: s2_def)
    qed
  qed
qed

lemma reap_safe: "lease_safe s (reap_orphan_writers w s)"
proof -
  have "lease_safe s (fold (\<lambda>i s. sync_agent_task w i (release_writer w i s)) xs s)" for xs
  proof (induction xs arbitrary: s)
    case (Cons x xs)
    have "lease_safe s (sync_agent_task w x (release_writer w x s))"
      by (rule lease_safe_trans[OF release_writer_safe[of s w x]]) (simp add: lease_safe_same)
    from lease_safe_trans[OF this Cons.IH] show ?case by simp
  qed simp
  then show ?thesis by (simp add: reap_orphan_writers_def)
qed

lemma update_row_safe:
  assumes "with_store f s = (r, s')" and "\<And>st r st'. f st = (r, st') \<Longrightarrow>
     db_writers (st_db st') = db_writers (st_db st) \<or>
     (\<exists>g. (\<forall>row. wr_lease (g row) = wr_lease row) \<and> st_db st' = update_writer i g (st_db st))"
  shows "lease_safe s s'"
proof -
  from assms(1) obtain st where s': "s' = s\<lparr>rt_store := st\<rparr>" "f (rt_store s) = (r, st)" by (rule with_storeE)
  from assms(2)[OF s'(2)] show ?thesis
  proof
    assume "db_writers (st_db st) = db_writers (st_db (rt_store s))"
    with s' show ?thesis by (simp add: lease_safe_same)
  next
    assume "\<exists>g. (\<forall>row. wr_lease (g row) = wr_lease row) \<and> st_db st = update_writer i g (st_db (rt_store s))"
    then obtain g where g: "\<And>row. wr_lease (g row) = wr_lease row" "st_db st = update_writer i g (st_db (rt_store s))"
      by blast
    have l: "leases s' = leases s" by (simp add: leases_def s' fun_eq_iff)
    have "leases_stored s'" if "leases_stored s"
      using that g by (auto simp: leases_stored_def l[unfolded leases_def fun_eq_iff] leases_def s' update_writer_def
        hm.get_ins hm.invar_ins split: option.splits)
    with l show ?thesis by (simp add: lease_safe_def)
  qed
qed

lemma guard_started_safe: "lease_safe s (snd (snd (guard_started pid g s)))"
proof -
  obtain r s' where sv: "with_store (writer_started (wg_agent g) pid) s = (r, s')" by fastforce
  have "lease_safe s s'"
    by (rule update_row_safe[OF sv, where i = "wg_agent g"])
      (auto simp: writer_started_def in_tx_def Let_def split: if_splits
        intro!: exI[of _ "\<lambda>r. r\<lparr>wr_pid := Some pid, wr_validator := False\<rparr>"])
  with sv show ?thesis by (simp add: guard_started_def)
qed

lemma drop_guard_safe: "lease_safe s (drop_guard w g s)"
  by (auto simp: drop_guard_def release_writer_safe intro: lease_safe_same split: option.splits)

lemma update_remote_task_safe: "lease_safe s (update_remote_task w t s)"
proof -
  define s1 where "s1 = (case (Option.bind (hm_get (rt_tasks s) (t_id t)) t_assigned_agent_id,
      t_assigned_agent_id t) of
        (Some a, Some b) \<Rightarrow> if a \<noteq> b \<and> hm_contains (rt_writer_leases s) a then snd (move_lease a b s) else s
      | _ \<Rightarrow> s)"
  have 1: "lease_safe s s1" by (auto simp: s1_def move_lease_safe split: option.splits)
  let ?s2 = "s1\<lparr>rt_tasks := hm_insert (t_id t) t (rt_tasks s1)\<rparr>"
  have 2: "lease_safe s ?s2" by (rule lease_safe_trans[OF 1 lease_safe_same]) simp_all
  have "lease_safe s (release_writer w i ?s2)" for i
    by (rule lease_safe_trans[OF 2 release_writer_safe])
  with 2 show ?thesis
    unfolding update_remote_task_def Let_def s1_def[symmetric] by (simp split: option.split)
qed

lemma acquire_safe: "lease_safe s (snd (acquire_with_intent w i p prof grp intent s))"
proof -
  define s1 where "s1 = reap_orphan_writers w s"
  have s1: "lease_safe s s1" by (simp add: s1_def reap_safe)
  define lease where "lease dir = wanted_lease w p dir prof (opt_or (agent_coordinator_group s1 i) grp) s1" for dir
  have reserve: "lease_safe s1 (snd (case with_store (reserve_writer i (lease dir)) s1 of
      (Inl e, s') \<Rightarrow> (Err (store_message e), s')
    | (Inr _, s') \<Rightarrow> (Ok \<lparr>wg_agent = i, wg_retained = False, wg_group = None\<rparr>,
         s'\<lparr>rt_writer_leases := hm_insert i (lease dir) (rt_writer_leases s')\<rparr>)))"
    if free: "\<not> writer_occupied s1 i (lease dir)" for dir
  proof -
    obtain r s2 where sv: "with_store (reserve_writer i (lease dir)) s1 = (r, s2)" by fastforce
    have l2: "rt_writer_leases s2 = rt_writer_leases s1" using sv by (rule with_store_leases)
    show ?thesis
    proof (cases r)
      case (Inl e)
      with sv have "writers s2 = writers s1"
        by (auto simp: reserve_writer_def in_tx_def Let_def elim!: with_storeE split: if_splits sum.splits)
      with Inl sv l2 show ?thesis by (simp add: lease_safe_same)
    next
      case (Inr u)
      with sv have w2: "writers s2 = hm_insert i \<lparr>wr_lease = lease dir, wr_pid = None, wr_validator = False\<rparr> (writers s1)"
        by (auto simp: reserve_writer_def stmt_reserve_writer_def in_tx_def Let_def elim!: with_storeE
          split: if_splits sum.splits)
      let ?s3 = "s2\<lparr>rt_writer_leases := hm_insert i (lease dir) (rt_writer_leases s2)\<rparr>"
      have "lease_safe s1 ?s3"
      proof (rule lease_safe_one)
        assume st: "leases_stored s1"
        have "leases ?s3 = (leases s1)(i \<mapsto> lease dir)"
          by (auto simp: leases_def l2 hm.get_ins fun_eq_iff)
        moreover have "\<not> lease_conflicts (lease dir) m" if "leases s1 j = Some m" for j m
          using free that hm_get_in_values[of "rt_writer_leases s1" j m]
          by (auto simp: writer_occupied_def list_ex_iff leases_def)
        ultimately have "lease_change lease_conflicts (leases s1) (leases ?s3)"
          by (simp add: lease_change.grant)
        moreover have "leases_stored ?s3"
          using st l2 by (auto simp: leases_stored_def leases_def w2 hm.get_ins hm.invar_ins)
        ultimately show "leases_stored ?s3 \<and> lease_change lease_conflicts (leases s1) (leases ?s3)" by simp
      qed
      with Inr sv show ?thesis by simp
    qed
  qed
  note reserve' = lease_safe_trans[OF s1 reserve]
  show ?thesis
  proof (cases "workspace_root w p")
    case (Inl e) then show ?thesis by (simp add: acquire_with_intent_def)
  next
    case (Inr dir)
    show ?thesis
    proof (cases "remote_maintenance_active w s")
      case True with Inr show ?thesis by (simp add: acquire_with_intent_def)
    next
      case False
      with Inr s1 reserve'[of dir] show ?thesis
        by (simp add: acquire_with_intent_def Let_def s1_def[symmetric] lease_def[symmetric]
          split: option.split sum.split)
    qed
  qed
qed

lemma broadcast_safe: "lease_safe s (broadcast w ev s)"
proof -
  have agent: "lease_safe s (before_agent_event w run s)" for run
  proof -
    define s1 where "s1 = (if \<not> ar_can_stop run \<and> \<not> hm_contains (rt_children s) (ar_id run)
                 \<and> \<not> agent_running (ar_state run) then release_writer w (ar_id run) s else s)"
    have "lease_safe s s1" by (simp add: s1_def release_writer_safe)
    moreover have "lease_safe s1 (sync_agent_task w (ar_id run) s1)" by (simp add: lease_safe_same)
    ultimately show ?thesis unfolding before_agent_event_def Let_def s1_def[symmetric]
      by (rule lease_safe_trans)
  qed
  define s1 where "s1 = (case ev of AgentChanged run \<Rightarrow> before_agent_event w run s | _ \<Rightarrow> s)"
  have "lease_safe s s1" unfolding s1_def by (cases ev) (simp_all add: agent)
  moreover have "lease_safe s1 (broadcast_event w ev s1)" by (rule lease_safe_same) simp_all
  ultimately show ?thesis unfolding broadcast_def s1_def[symmetric] by (rule lease_safe_trans)
qed

lemma save_and_publish_safe: "lease_safe s (snd (save_and_publish w cs s))"
proof -
  let ?s = "s\<lparr>rt_draws := rt_draws s + length cs\<rparr>"
  obtain r s' where sv: "with_store (save_task_changes cs None None) ?s = (r, s')" by fastforce
  from with_store_save_writers[OF sv] with_store_leases[OF sv]
  have "writers s' = writers s" "rt_writer_leases s' = rt_writer_leases s" by simp_all
  with sv show ?thesis by (cases r) (simp_all add: save_and_publish_def lease_safe_same)
qed

lemma blocked_safe: "lease_safe x (snd (case daemon_change w act u x of
      (Inl e, s') \<Rightarrow> (Err e, s') | (Inr _, s') \<Rightarrow> (Ok v, s')))"
  using save_and_publish_safe[of x w "[(u, audit (fresh_uuid w x) (w_now w) u Daemon act None (t_last_reason u))]"]
  by (auto simp: daemon_change_def split: prod.splits sum.splits)

lemma dispatch_safe: "lease_safe s (snd (dispatch w t s))"
proof -
  have launch: "lease_safe x (snd (launch_claimed w owner u x))" for owner u x
    using save_and_publish_safe[of x w "[(dispatched w owner u,
      audit (fresh_uuid w x) (w_now w) (dispatched w owner u) Daemon ''queue_dispatch'' None None)]"]
    by (auto simp: launch_claimed_def Let_def split: prod.splits sum.splits)
  have start: "lease_safe s (drawn s)" by (rule lease_safe_same) simp_all
  have "lease_safe (if selected_agent t = None then drawn s else s) (snd (dispatch w t s))"
    unfolding dispatch_def Let_def by (auto simp: launch blocked_safe split: sum.split)
  with start show ?thesis by (cases "selected_agent t = None") (auto intro: lease_safe_trans)
qed

lemma claim_safe: "lease_safe s (snd (claim_board_task w p s))"
proof -
  have "lease_safe (reap_orphan_writers w s) (snd (claim_board_task w p s))"
    unfolding claim_board_task_def Let_def
    by (auto simp: dispatch_safe blocked_safe split: sum.split option.split)
  then show ?thesis by (rule lease_safe_trans[OF reap_safe])
qed

section \<open>Every writer operation, in any order\<close>

inductive writer_step :: "runtime \<Rightarrow> runtime \<Rightarrow> bool" where
  writer_acquire: "writer_step s (snd (acquire_with_intent w i p prof grp intent s))"
| writer_start: "writer_step s (snd (snd (guard_started pid g s)))"
| writer_drop: "writer_step s (drop_guard w g s)"
| writer_retain: "writer_step s (snd (retain_as new g s))"
| writer_move: "writer_step s (snd (move_lease old new s))"
| writer_widen: "writer_step s (snd (widen_lease i s))"
| writer_remote: "writer_step s (update_remote_task w t s)"
| writer_release: "writer_step s (release_writer w i s)"
| writer_reap: "writer_step s (reap_orphan_writers w s)"
| writer_event: "writer_step s (broadcast w ev s)"
| writer_claim: "writer_step s (snd (claim_board_task w p s))"

lemma writer_step_safe: "writer_step s s' \<Longrightarrow> lease_safe s s'"
  by (induction rule: writer_step.induct)
    (simp_all add: acquire_safe guard_started_safe drop_guard_safe retain_as_def move_lease_safe
      widen_lease_safe update_remote_task_safe release_writer_safe reap_safe broadcast_safe claim_safe)

lemma writer_steps_stored: "writer_step\<^sup>*\<^sup>* s s' \<Longrightarrow> leases_stored s \<Longrightarrow> leases_stored s'"
  by (induction rule: rtranclp_induct) (auto dest: writer_step_safe simp: lease_safe_def)

lemma lease_conflicts_sym: "lease_conflicts a b = lease_conflicts b a"
  by (auto simp: lease_conflicts_def)

text \<open>A step of a state whose leases are stored is a step of the table.\<close>

definition stored_step :: "runtime \<Rightarrow> runtime \<Rightarrow> bool" where
  "stored_step s s' \<longleftrightarrow> leases_stored s \<and> writer_step s s'"

interpretation writer_table: lease_table lease_conflicts leases stored_step
  by unfold_locales
    (rule lease_conflicts_sym, auto simp: stored_step_def lease_safe_def dest: writer_step_safe)

lemma stored_steps: "writer_step\<^sup>*\<^sup>* s s' \<Longrightarrow> leases_stored s \<Longrightarrow> stored_step\<^sup>*\<^sup>* s s'"
proof (induction rule: rtranclp_induct)
  case (step y z)
  with writer_steps_stored[of s y] have "stored_step y z" by (simp add: stored_step_def)
  with step show ?case by auto
qed simp

section \<open>Properties\<close>

text \<open>C7: mutual exclusion of coordinator workers: starting from exclusive, stored leases, after any
  sequence of acquisitions, child starts, drops, transfers, widenings, releases, reaps, events and
  claims, at most one agent holds a lease of a coordinator group on a workspace, and the leases in
  memory are exactly the store's reservations.\<close>

theorem writers_exclusive:
  assumes "leases_stored s" and "exclusive lease_conflicts (leases s)" and "writer_step\<^sup>*\<^sup>* s s'"
  shows "(\<forall>i j a b. leases s' i = Some a \<longrightarrow> leases s' j = Some b \<longrightarrow> i \<noteq> j \<longrightarrow>
      wl_coordinator_group a \<noteq> None \<longrightarrow> wl_coordinator_group a = wl_coordinator_group b \<longrightarrow>
      \<not> (wl_target a = wl_target b \<and> wl_root a = wl_root b))
    \<and> (\<forall>i. leases s' i = map_option wr_lease (hm_get (writers s') i))"
proof
  note ex = writer_table.run_exclusive[OF stored_steps[OF assms(3,1)] assms(2)]
  show "\<forall>i j a b. leases s' i = Some a \<longrightarrow> leases s' j = Some b \<longrightarrow> i \<noteq> j \<longrightarrow>
      wl_coordinator_group a \<noteq> None \<longrightarrow> wl_coordinator_group a = wl_coordinator_group b \<longrightarrow>
      \<not> (wl_target a = wl_target b \<and> wl_root a = wl_root b)"
  proof (intro allI impI notI)
    fix i j a b
    assume "leases s' i = Some a" "leases s' j = Some b" "i \<noteq> j"
    from exclusiveD[OF ex this] have "\<not> lease_conflicts a b" .
    moreover assume "wl_coordinator_group a \<noteq> None" "wl_coordinator_group a = wl_coordinator_group b"
      "wl_target a = wl_target b \<and> wl_root a = wl_root b"
    ultimately show False by (simp add: lease_conflicts_def)
  qed
  show "\<forall>i. leases s' i = map_option wr_lease (hm_get (writers s') i)"
    using writer_steps_stored[OF assms(3,1)] by (simp add: leases_stored_def)
qed

lemma sample_leases: "leases_stored (sample_runtime t a)" "exclusive lease_conflicts (leases (sample_runtime t a))"
  by (simp_all add: leases_stored_def leases_def exclusive_def with_task_def sample_store_def
    empty_database_def)

theorem writers_exclusive_witness:
  "\<forall>i. leases (snd (acquire sample_world 4 sample_project default_profile (sample_runtime sample_task []))) i
     = map_option wr_lease (hm_get (writers
        (snd (acquire sample_world 4 sample_project default_profile (sample_runtime sample_task [])))) i)"
proof -
  let ?s = "sample_runtime sample_task []"
  have "writer_step ?s (snd (acquire sample_world 4 sample_project default_profile ?s))"
    unfolding acquire_def acquire_for_group_def by (rule writer_acquire)
  then have "writer_step\<^sup>*\<^sup>* ?s (snd (acquire sample_world 4 sample_project default_profile ?s))" by blast
  from conjunct2[OF writers_exclusive[OF sample_leases this]] show ?thesis .
qed


lemma sample_acquire:
  "\<exists>s'. acquire_with_intent sample_world 4 sample_project default_profile None TaskLaunch
      (sample_runtime sample_task []) = (Inr \<lparr>wg_agent = 4, wg_retained = False, wg_group = None\<rparr>, s')
    \<and> st_faults (rt_store s') = [] \<and> rt_acceptance_owners s' = [] \<and> rt_tasks s' = [(7, sample_task)]"
proof -
  let ?s = "sample_runtime sample_task []"
  have quiet: "reap_orphan_writers sample_world ?s = ?s"
    by (simp add: reap_orphan_writers_def exited_orphans_def)
  have owned: "\<not> board_agent_owned ?s 4"
    using new_task_fields[OF sample_new_task]
    by (simp add: board_agent_owned_def any_task_def hm_values_def board_task_owns_agent_def)
  have none: "linked_task ?s 4 = None"
    using new_task_fields[OF sample_new_task]
    by (simp add: linked_task_def hm_values_def hm_get_def opt_or_def)
  show ?thesis
    using owned none
    by (simp add: acquire_with_intent_def workspace_root_def is_remote_def remote_maintenance_active_def
      quiet Let_def writer_refusal_def writer_occupied_def hm_contains_def hm_get_def hm_values_def
      linked_task_allows_def with_store_def reserve_writer_def stmt_reserve_writer_def in_tx_healthy
      with_task_def sample_store_def empty_database_def)
qed




text \<open>While a process of a writer's group is alive, releasing the writer does not free its lease:
  the group is killed unless it is a validator's, and is remembered as an orphan to be reaped.\<close>

theorem live_group_keeps_lease:
  assumes "hm_get (writers s) i = Some row" and "wr_pid row = Some pid" and "w_group_exists w pid"
    and "\<not> release_refused s i"
  shows "let s' = release_writer w i s in leases s' = leases s \<and> writers s' = writers s
    \<and> hm_get (rt_orphans s') i = Some pid
    \<and> (i \<notin> set (rt_validator_owners s) \<longrightarrow> pid \<in> set (rt_signals s'))"
proof -
  have "opt_filter (w_group_exists w) (reserved_group s i) = Some pid"
    using assms by (simp add: reserved_group_def opt_filter_def)
  with assms(4) show ?thesis
    by (simp add: release_writer_def Let_def leases_def fun_eq_iff hm.get_ins)
qed

theorem live_group_keeps_lease_witness:
  "\<exists>s. leases (release_writer (sample_world\<lparr>w_group_exists := (\<lambda>_. True)\<rparr>) 4 s) = leases s
     \<and> hm_get (rt_orphans (release_writer (sample_world\<lparr>w_group_exists := (\<lambda>_. True)\<rparr>) 4 s)) 4 = Some 99"
proof -
  let ?row = "\<lparr>wr_lease = \<lparr>wl_coordinator_group = None, wl_target = ''local'', wl_root = ''/p'',
    wl_unconfined = False\<rparr>, wr_pid = Some 99, wr_validator = False\<rparr>"
  let ?s = "(sample_runtime sample_task [])\<lparr>rt_store := sample_store\<lparr>st_db := (st_db sample_store)
    \<lparr>db_writers := [(4, ?row)]\<rparr>\<rparr>\<rparr>"
  have r: "\<not> release_refused ?s 4" using new_task_fields[OF sample_new_task]
    by (simp add: release_refused_def any_task_def hm_values_def)
  have g: "hm_get (writers ?s) 4 = Some ?row" by (simp add: hm_get_def)
  have "let s' = release_writer (sample_world\<lparr>w_group_exists := (\<lambda>_. True)\<rparr>) 4 ?s in leases s' = leases ?s
    \<and> writers s' = writers ?s \<and> hm_get (rt_orphans s') 4 = Some 99
    \<and> (4 \<notin> set (rt_validator_owners ?s) \<longrightarrow> 99 \<in> set (rt_signals s'))"
    by (rule live_group_keeps_lease[OF g _ _ r]) simp_all
  then show ?thesis unfolding Let_def by blast
qed

end
