(* ===== verification/Startup.thy ===== *)
theory Startup
  imports Writer_Facts
begin

text \<open>
  Starting the daemon from its database (\<open>RuntimeState::new\<close>): whatever was interrupted, the new
  state shows exactly the stored tasks, no planning job claims to run, and the leases restored are
  the reservations kept in the store, still exclusive.
\<close>

section \<open>What recovery leaves of the reservations\<close>

abbreviation same_writers :: "(agent_id, writer_row) hmap \<Rightarrow> database \<Rightarrow> bool" where
  "same_writers W \<equiv> (\<lambda>db. db_writers db = W)"

lemma keeps_writers_save: "keeps (same_writers W) (stmt_save cs rq ls)"
  by (rule keepsI) (simp add: stmt_save_writers)

lemma reconcile_agents_writers:
  "db_writers (st_db (snd (reconcile_active_agents now s))) = db_writers (st_db s)"
proof -
  let ?W = "db_writers (st_db s)"
  have dismiss: "same_writers ?W (st_db (snd (dismiss_attention now i t)))" if "same_writers ?W (st_db t)" for i t
    unfolding dismiss_attention_def
    by (rule keeps_in_tx[OF keepsI]) (use that in \<open>auto split: option.splits\<close>)
  have upsert: "same_writers ?W (st_db (snd (upsert_agent run f h t)))" if "same_writers ?W (st_db t)" for run f h t
    unfolding upsert_agent_def
    by (rule keeps_in_tx[OF keepsI]) (use that in \<open>auto simp: stmt_upsert_agent_def Let_def split: option.splits if_splits\<close>)
  have append: "same_writers ?W (st_db (snd (append_message m t)))" if "same_writers ?W (st_db t)" for m t
    unfolding append_message_def
    by (rule keeps_in_tx[OF keepsI]) (use that in \<open>auto simp: stmt_append_message_def stmt_insert_message_def
      Let_def res_bind_Ok_iff split: option.splits if_splits\<close>)
  have agent: "same_writers ?W (st_db (snd (reconcile_agent now a t)))" if "same_writers ?W (st_db t)" for a t
  proof -
    obtain r t1 where u: "upsert_agent (stale_run now (da_run a)) (da_failure a) (da_home a) t = (r, t1)"
      by fastforce
    with upsert[OF that, of "stale_run now (da_run a)" "da_failure a" "da_home a"]
    have "same_writers ?W (st_db t1)" by simp
    with that u append show ?thesis by (cases r) (simp_all add: reconcile_agent_def)
  qed
  let ?f = "\<lambda>att. if at_kind att = AkApprovalRequired then dismiss_attention now (at_id att)
                        else (\<lambda>s. (Ok (), s))"
  obtain r s1 where a: "each_tx ?f (du_attention (load s)) s = (r, s1)" by fastforce
  have "same_writers ?W (st_db (snd (each_tx ?f (du_attention (load s)) s)))"
    by (rule keeps_each_tx[where P = "same_writers ?W"]) (simp_all add: dismiss)
  with a have w1: "same_writers ?W (st_db s1)" by simp
  obtain r2 s2 where b: "each_tx (reconcile_agent now) (du_agents (load s)) s1 = (r2, s2)" by fastforce
  have "same_writers ?W (st_db (snd (each_tx (reconcile_agent now) (du_agents (load s)) s1)))"
    by (rule keeps_each_tx[where P = "same_writers ?W"]) (simp_all add: agent w1)
  with a b w1 show ?thesis
    by (cases r; cases r2) (simp_all add: reconcile_active_agents_def Let_def)
qed

lemma save_changes_writers:
  "db_writers (st_db (snd (save_task_changes cs rq l s))) = db_writers (st_db s)"
  unfolding save_task_changes_def save_task_agent_changes_def
  by (rule keeps_in_tx[OF keeps_writers_save]) simp

lemma reconcile_tasks_writers:
  "db_writers (st_db (snd (reconcile_tasks fresh now s))) = db_writers (st_db s)"
proof -
  have "same_writers (db_writers (st_db s)) (st_db (snd (reconcile_task now tu t)))"
    if "same_writers (db_writers (st_db s)) (st_db t)" for tu t
    using that by (cases tu) (simp add: reconcile_task_def Let_def save_changes_writers)
  then show ?thesis
    unfolding reconcile_tasks_def Let_def
    by (intro keeps_each_tx[where P = "same_writers (db_writers (st_db s))"]) auto
qed

section \<open>Interrupted plans\<close>

lemma interrupted_plan_simps [simp]:
  "t_id (interrupted_plan now t) = t_id t" "t_project_id (interrupted_plan now t) = t_project_id t"
  "\<not> plan_running (interrupted_plan now t)"
  by (simp_all add: interrupted_plan_def plan_running_def is_some_and_def split: option.splits)

text \<open>What an interruption run guarantees: the tasks it returns are the stored ones.\<close>

definition all_stored :: "task list \<Rightarrow> store \<Rightarrow> bool" where
  "all_stored ts s \<longleftrightarrow> (\<forall>t \<in> set ts. stored_task (t_id t) (st_db s) = Some t)"

lemma interrupt_plans_Ok:
  assumes "interrupt_plans now ps ts s = (Inr us, s')" and "distinct (List.map (\<lambda>(t, _). t_id t) ts)"
    and "all_stored (List.map fst ts) s"
  shows "List.map t_id us = List.map (\<lambda>(t, _). t_id t) ts \<and> all_stored us s'
    \<and> (\<forall>i. i \<notin> (\<lambda>(t, _). t_id t) ` set ts \<longrightarrow> stored_task i (st_db s') = stored_task i (st_db s))
    \<and> db_writers (st_db s') = db_writers (st_db s)
    \<and> (\<forall>u \<in> set us. local_project ps (t_project_id u) \<longrightarrow> \<not> plan_running u)"
  using assms
proof (induction now ps ts s arbitrary: us s' rule: interrupt_plans.induct)
  case (1 now ps s)
  then show ?case by (simp add: all_stored_def)
next
  case (2 now ps t uid ts s)
  define u where "u = (if local_project ps (t_project_id t) \<and> plan_running t then interrupted_plan now t else t)"
  have u: "t_id u = t_id t" "local_project ps (t_project_id u) \<longrightarrow> \<not> plan_running u"
    by (auto simp: u_def)
  obtain s1 us' where rest: "interrupt_plans now ps ts s1 = (Inr us', s')" and us: "us = u # us'"
    and s1: "\<forall>i. stored_task i (st_db s1) = (if i = t_id t then Some u else stored_task i (st_db s))"
    and w1: "db_writers (st_db s1) = db_writers (st_db s)"
    and IH: "List.map t_id us' = List.map (\<lambda>(t, _). t_id t) ts \<and> all_stored us' s'
      \<and> (\<forall>i. i \<notin> (\<lambda>(t, _). t_id t) ` set ts \<longrightarrow> stored_task i (st_db s') = stored_task i (st_db s1))
      \<and> db_writers (st_db s') = db_writers (st_db s1)
      \<and> (\<forall>u \<in> set us'. local_project ps (t_project_id u) \<longrightarrow> \<not> plan_running u)"
  proof (cases "local_project ps (t_project_id t) \<and> plan_running t")
    case False
    from 2(3) False obtain us' where r: "interrupt_plans now ps ts s = (Inr us', s')" "us = t # us'"
      by (auto split: sum.splits prod.splits)
    have "all_stored (List.map fst ts) s" "distinct (List.map (\<lambda>(t, _). t_id t) ts)"
      "stored_task (t_id t) (st_db s) = Some t"
      using 2(4,5) by (auto simp: all_stored_def)
    moreover have "u = t" using False by (auto simp: u_def)
    ultimately show thesis using 2(2)[OF False r(1)] r that[of s us'] by simp
  next
    case True
    let ?t = "interrupted_plan now t"
    let ?c = "[(?t, audit uid now ?t Daemon ''plan_interrupted'' None None)]"
    obtain r1 s1 where sv: "save_task_changes ?c None None s = (r1, s1)" by fastforce
    with 2(3) True obtain us' where r1: "r1 = Inr ()" and r: "interrupt_plans now ps ts s1 = (Inr us', s')"
      "us = ?t # us'"
      by (auto simp: Let_def split: sum.splits prod.splits)
    have saved: "stmt_save ?c None [] (st_db s) = Inr (st_db s1)"
      using sv r1 in_tx_Ok[of "stmt_save ?c None []" s "()"]
      by (simp add: save_task_changes_def save_task_agent_changes_def)
    have st1: "\<forall>i. stored_task i (st_db s1) = (if i = t_id t then Some ?t else stored_task i (st_db s))"
      using stmt_save_Ok(1)[OF saved] by simp
    have "db_writers (st_db s1) = db_writers (st_db s)" using stmt_save_writers[OF saved] .
    moreover have "all_stored (List.map fst ts) s1"
      unfolding all_stored_def
    proof
      fix v assume v: "v \<in> set (List.map fst ts)"
      with 2(4) have "t_id v \<noteq> t_id t" by force
      with spec[OF st1, of "t_id v"] have "stored_task (t_id v) (st_db s1) = stored_task (t_id v) (st_db s)"
        by simp
      also have "\<dots> = Some v" using v 2(5) by (auto simp: all_stored_def)
      finally show "stored_task (t_id v) (st_db s1) = Some v" .
    qed
    moreover have "distinct (List.map (\<lambda>(t, _). t_id t) ts)" using 2(4) by simp
    ultimately show thesis
      using 2(1)[OF True refl sv[symmetric] r1 r(1)] True r st1 that[of s1 us'] by (simp add: u_def)
  qed
  have notin: "t_id t \<notin> (\<lambda>(t, _). t_id t) ` set ts" using 2(4) by auto
  then have "stored_task (t_id t) (st_db s') = stored_task (t_id t) (st_db s1)" using IH by blast
  then have "stored_task (t_id u) (st_db s') = Some u" using s1 u(1) by simp
  then have "all_stored us s'" using IH by (simp add: us all_stored_def)
  moreover have "\<forall>i. i \<notin> (\<lambda>(t, _). t_id t) ` set ((t, uid) # ts) \<longrightarrow>
      stored_task i (st_db s') = stored_task i (st_db s)" using IH s1 by simp
  ultimately show ?case using IH w1 u us by simp
qed

section \<open>Restored reservations\<close>

lemma release_row_writers:
  "release_writer_row i s = (Inr (), s') \<Longrightarrow>
     db_writers (st_db s') = hm_remove i (db_writers (st_db s)) \<and> db_tasks (st_db s') = db_tasks (st_db s)"
  by (auto simp: release_writer_row_def in_tx_def Let_def split: if_splits)

lemma restore_writers_Ok:
  assumes "restore_writers w ps rs m s = (Inr m', s')" and "distinct (List.map fst rs)"
    and "hm_ok (wm_leases m)" and "hm_ok (db_writers (st_db s))"
    and "\<forall>(i, l, p) \<in> set rs. map_option wr_lease (hm_get (db_writers (st_db s)) i) = Some l
           \<and> hm_get (wm_leases m) i = None"
    and "\<forall>i. i \<notin> fst ` set rs \<longrightarrow>
           hm_get (wm_leases m) i = map_option wr_lease (hm_get (db_writers (st_db s)) i)"
  shows "hm_ok (wm_leases m') \<and> hm_ok (db_writers (st_db s')) \<and> db_tasks (st_db s') = db_tasks (st_db s)
    \<and> (\<forall>i. hm_get (wm_leases m') i = map_option wr_lease (hm_get (db_writers (st_db s')) i))
    \<and> (\<forall>i row. hm_get (db_writers (st_db s')) i = Some row \<longrightarrow>
         hm_get (db_writers (st_db s)) i = Some row)"
  using assms
proof (induction rs arbitrary: m s)
  case Nil
  then show ?case by simp
next
  case (Cons x rs)
  obtain i lease pid where x: "x = (i, lease, pid)" by (cases x)
  let ?W = "db_writers (st_db s)"
  have i: "map_option wr_lease (hm_get ?W i) = Some lease" "hm_get (wm_leases m) i = None"
    "i \<notin> fst ` set rs" "distinct (List.map fst rs)" using Cons.prems(2,5) x by auto
  have "(\<exists>n. restore_writers w ps rs n s = (Inr m', s') \<and> wm_leases n = hm_insert i lease (wm_leases m))
    \<or> (\<exists>s1. release_writer_row i s = (Inr (), s1) \<and> restore_writers w ps rs m s1 = (Inr m', s'))"
  proof (cases "wl_target lease \<noteq> ''local''")
    case True
    with Cons.prems(1) x show ?thesis
      by (cases "remote_alias_of w ps (wl_target lease)") (auto simp: Let_def split: sum.splits prod.splits)
  next
    case False
    with Cons.prems(1) x show ?thesis
      by (cases "opt_filter (w_group_exists w) pid") (auto simp: Let_def split: sum.splits prod.splits)
  qed
  then show ?case
  proof (elim disjE exE conjE)
    fix n assume r: "restore_writers w ps rs n s = (Inr m', s')"
      and n: "wm_leases n = hm_insert i lease (wm_leases m)"
    show ?case
    proof (rule Cons.IH[OF r i(4) _ Cons.prems(4)])
      show "hm_ok (wm_leases n)" using Cons.prems(3) by (simp add: n hm.invar_ins)
      show "\<forall>(j, l, p) \<in> set rs. map_option wr_lease (hm_get ?W j) = Some l \<and> hm_get (wm_leases n) j = None"
        using Cons.prems(5) i(3) by (force simp: n hm.get_ins)
      show "\<forall>j. j \<notin> fst ` set rs \<longrightarrow> hm_get (wm_leases n) j = map_option wr_lease (hm_get ?W j)"
        using Cons.prems(6) i(1) x by (auto simp: n hm.get_ins)
    qed
  next
    fix s1 assume s1: "release_writer_row i s = (Inr (), s1)" and r: "restore_writers w ps rs m s1 = (Inr m', s')"
    note w1 = release_row_writers[OF s1]
    have g: "hm_get (db_writers (st_db s1)) j = (if j = i then None else hm_get ?W j)" for j
      using w1 Cons.prems(4) by (simp add: hm.get_rem)
    have ok: "hm_ok (db_writers (st_db s1))" using w1 Cons.prems(4) by (simp add: hm.invar_rem)
    have a: "\<forall>(j, l, p) \<in> set rs. map_option wr_lease (hm_get (db_writers (st_db s1)) j) = Some l
           \<and> hm_get (wm_leases m) j = None" using Cons.prems(5) i(3) by (force simp: g)
    have b: "\<forall>j. j \<notin> fst ` set rs \<longrightarrow> hm_get (wm_leases m) j
         = map_option wr_lease (hm_get (db_writers (st_db s1)) j)" using Cons.prems(6) i(2) x by (simp add: g)
    from Cons.IH[OF r i(4) Cons.prems(3) ok a b] w1 show ?case
      by (metis hm.get_rem[OF Cons.prems(4)] option.distinct(1))
  qed
qed

section \<open>The new state\<close>

lemma collect_map_fold:
  "collect_map (List.map (\<lambda>t. (t_id t, t)) ts) = fold (\<lambda>t. hm_insert (t_id t) t) ts []"
  by (simp add: collect_map_def fold_map comp_def)

lemma collect_tasks:
  assumes "distinct (List.map t_id ts)"
  shows "hm_get (collect_map (List.map (\<lambda>t. (t_id t, t)) ts)) i
    = map_of (List.map (\<lambda>t. (t_id t, t)) ts) i"
proof -
  have "hm_get (fold (\<lambda>t. hm_insert (t_id t) t) ts m) i
      = (case map_of (List.map (\<lambda>t. (t_id t, t)) ts) i of Some t \<Rightarrow> Some t | None \<Rightarrow> hm_get m i)" for m
    using assms
  proof (induction ts arbitrary: m)
    case (Cons t ts)
    have "map_of (List.map (\<lambda>t. (t_id t, t)) ts) (t_id t) = None"
      using Cons.prems by (auto simp: map_of_eq_None_iff)
    with Cons show ?case by (auto simp: hm.get_ins split: option.splits)
  qed simp
  then show ?thesis by (simp add: collect_map_fold split: option.splits)
qed

lemma collect_ok: "hm_ok (collect_map (List.map (\<lambda>t. (t_id t, t)) ts))
    \<and> hm_keyed t_id (collect_map (List.map (\<lambda>t. (t_id t, t)) ts))"
proof -
  have "hm_ok m \<Longrightarrow> hm_keyed t_id m \<Longrightarrow> hm_ok (fold (\<lambda>t. hm_insert (t_id t) t) ts m)
      \<and> hm_keyed t_id (fold (\<lambda>t. hm_insert (t_id t) t) ts m)" for m
    by (induction ts arbitrary: m) (auto simp: hm.invar_ins hm.keyed_by_ins)
  from this[of "[]"] show ?thesis by (simp add: collect_map_fold hm.keyed_by_def)
qed

lemma update_members: "set (AList.update k v m) \<subseteq> insert (k, v) (set m)"
  by (induction m) auto

lemma collect_values: "set (hm_values (collect_map (List.map (\<lambda>p. (f p, p)) ps))) \<subseteq> set ps"
proof -
  have "set (hm_values (fold (\<lambda>(k, v). hm_insert k v) (List.map (\<lambda>p. (f p, p)) ps) m))
      \<subseteq> set ps \<union> set (hm_values m)" for m
  proof (induction ps arbitrary: m)
    case (Cons p ps)
    have "set (hm_values (hm_insert (f p) p m)) \<subseteq> insert p (set (hm_values m))"
      by (auto simp: hm_values_def hm_insert_def dest: set_mp[OF update_members])
    with Cons.IH[of "hm_insert (f p) p m"] show ?case by auto
  qed simp
  from this[of "[]"] show ?thesis by (simp add: collect_map_def)
qed

lemma select_codex_keeps:
  "select_codex_binary resolve s = (r, s') \<Longrightarrow>
     db_tasks (st_db s') = db_tasks (st_db s) \<and> db_writers (st_db s') = db_writers (st_db s)"
  by (auto simp: select_codex_binary_def set_setting_def stmt_set_setting_def in_tx_def Let_def
    split: option.splits if_splits sum.splits prod.splits)

lemma new_runtime_parts:
  assumes "new_runtime w root_key title home resolve remote maint fresh fresh' s0 = (Inr s, s5)"
  obtains n s1 s2 tasks s3 m s4 binary where
    "reconcile_active_agents (w_now w) s0 = (Inr n, s1)"
    "reconcile_tasks fresh (w_now w) s1 = (Inr (), s2)"
    "interrupt_plans (w_now w) (du_projects (load s2)) (List.zip (load_tasks s2)
       (List.map fresh' [0..<length (load_tasks s2)])) s2 = (Inr tasks, s3)"
    "restore_writers w (du_projects (load s2)) (writer_reservations s3)
       \<lparr>wm_leases = [], wm_orphans = [], wm_uncertain = []\<rparr> s3 = (Inr m, s4)"
    "select_codex_binary resolve s4 = (Inr binary, s5)"
    "rt_store s = s5" "rt_tasks s = collect_map (List.map (\<lambda>t. (t_id t, t)) tasks)"
    "rt_writer_leases s = wm_leases m" "rt_orphans s = wm_orphans m"
    "rt_projects s = collect_map (List.map (\<lambda>p. (root_key p, p)) (du_projects (load s2)))"
    "rt_replay s = []" "rt_replay_bytes s = 0" "rt_next_sequence s = 1" "rt_children s = []"
  using assms by (auto simp: new_runtime_def Let_def load_def split: sum.splits prod.splits)

lemma new_runtime_facts:
  assumes run: "new_runtime w root_key title home resolve remote maint fresh fresh' s0 = (Inr s, s5)"
    and ok: "db_ok (st_db s0)"
  shows "coherent s" and "hm_ok (rt_tasks s)" and "hm_keyed t_id (rt_tasks s)"
    and "leases_stored s"
    and "\<And>i l. leases s i = Some l \<Longrightarrow> map_option wr_lease (hm_get (db_writers (st_db s0)) i) = Some l"
    and "\<And>t. t \<in> set (hm_values (rt_tasks s)) \<Longrightarrow>
      any_project (\<lambda>p. p_id p = t_project_id t \<and> \<not> is_remote p) s \<Longrightarrow> \<not> plan_running t"
proof -
  obtain n s1 s2 tasks s3 m s4 binary where
    r: "reconcile_active_agents (w_now w) s0 = (Inr n, s1)"
    "reconcile_tasks fresh (w_now w) s1 = (Inr (), s2)"
    and ip: "interrupt_plans (w_now w) (du_projects (load s2)) (List.zip (load_tasks s2)
       (List.map fresh' [0..<length (load_tasks s2)])) s2 = (Inr tasks, s3)"
    and rw: "restore_writers w (du_projects (load s2)) (writer_reservations s3)
       \<lparr>wm_leases = [], wm_orphans = [], wm_uncertain = []\<rparr> s3 = (Inr m, s4)"
    and cx: "select_codex_binary resolve s4 = (Inr binary, s5)"
    and st: "rt_store s = s5" "rt_tasks s = collect_map (List.map (\<lambda>t. (t_id t, t)) tasks)"
      "rt_writer_leases s = wm_leases m"
      "rt_projects s = collect_map (List.map (\<lambda>p. (root_key p, p)) (du_projects (load s2)))"
    by (rule new_runtime_parts[OF run])
  have ok2: "db_ok (st_db s2)"
  proof -
    have "store_step\<^sup>*\<^sup>* s0 s2"
      using store_step.reconcile_agents[of s0 "w_now w"] store_step.reconcile_tasks[of s1 fresh "w_now w"] r
      by simp
    then show ?thesis using ok by (rule integrity.run_keeps)
  qed
  let ?zs = "List.zip (load_tasks s2) (List.map fresh' [0..<length (load_tasks s2)])"
  have fsts: "List.map fst ?zs = load_tasks s2" by (simp add: map_fst_zip)
  have ids: "List.map (\<lambda>(t, _). t_id t) ?zs = List.map t_id (load_tasks s2)"
    using arg_cong[OF fsts, of "List.map t_id"] by (simp add: case_prod_unfold comp_def del: map_fst_zip)
  have dist: "distinct (List.map (\<lambda>(t, _). t_id t) ?zs)"
    using load_tasks_ids(2)[OF ok2] ids by simp
  have stored: "all_stored (List.map fst ?zs) s2"
    using load_tasks_stored[OF ok2] by (simp only: fsts all_stored_def) blast
  note I = interrupt_plans_Ok[OF ip dist stored]
  have tids: "List.map t_id tasks = List.map t_id (load_tasks s2)" using I ids by simp
  have dt: "distinct (List.map t_id tasks)" using tids load_tasks_ids(2)[OF ok2] by simp
  have idset: "(\<lambda>(t, _). t_id t) ` set ?zs = t_id ` set (load_tasks s2)"
    using arg_cong[OF ids, of set] by simp
  have W: "db_writers (st_db s3) = db_writers (st_db s0)"
    using I reconcile_agents_writers[of "w_now w" s0] reconcile_tasks_writers[of fresh "w_now w" s1] r by simp
  have okw: "hm_ok (db_writers (st_db s3))" using ok W by (simp add: db_ok_def keys_ok_def)
  have R: "hm_ok (wm_leases m) \<and> hm_ok (db_writers (st_db s4)) \<and> db_tasks (st_db s4) = db_tasks (st_db s3)
    \<and> (\<forall>i. hm_get (wm_leases m) i = map_option wr_lease (hm_get (db_writers (st_db s4)) i))
    \<and> (\<forall>i row. hm_get (db_writers (st_db s4)) i = Some row \<longrightarrow> hm_get (db_writers (st_db s3)) i = Some row)"
  proof (rule restore_writers_Ok[OF rw _ _ okw])
    show "distinct (List.map fst (writer_reservations s3))"
      using okw by (simp add: writer_reservations_def hm_ok_def comp_def case_prod_unfold)
    show "\<forall>(i, l, p) \<in> set (writer_reservations s3).
        map_option wr_lease (hm_get (db_writers (st_db s3)) i) = Some l
        \<and> hm_get (wm_leases \<lparr>wm_leases = [], wm_orphans = [], wm_uncertain = []\<rparr>) i = None"
      using okw by (auto simp: writer_reservations_def hm_ok_def hm_get_def)
    show "\<forall>i. i \<notin> fst ` set (writer_reservations s3) \<longrightarrow>
        hm_get (wm_leases \<lparr>wm_leases = [], wm_orphans = [], wm_uncertain = []\<rparr>) i
          = map_option wr_lease (hm_get (db_writers (st_db s3)) i)"
      by (force simp: writer_reservations_def hm_get_def map_of_eq_None_iff)
  qed simp
  note C = select_codex_keeps[OF cx]
  show "hm_ok (rt_tasks s)" "hm_keyed t_id (rt_tasks s)" using collect_ok[of tasks] st by simp_all
  have same: "stored_task i (st_db s5) = stored_task i (st_db s3)" for i
    using R C by (simp add: stored_task_def)
  show "coherent s"
    unfolding coherent_def
  proof
    fix i
    show "hm_get (rt_tasks s) i = stored_task i (st_db (rt_store s))"
    proof (cases "map_of (List.map (\<lambda>t. (t_id t, t)) tasks) i")
      case (Some t)
      then have "t \<in> set tasks" "t_id t = i" by (auto dest!: map_of_SomeD)
      with I have "stored_task i (st_db s3) = Some t" by (auto simp: all_stored_def)
      with Some same show ?thesis by (simp add: st collect_tasks[OF dt])
    next
      case None
      then have "i \<notin> t_id ` set tasks" by (simp add: map_of_eq_None_iff image_image)
      then have ni: "i \<notin> t_id ` set (load_tasks s2)" using arg_cong[OF tids, of set] by simp
      then have "stored_task i (st_db s3) = stored_task i (st_db s2)" using I idset by simp
      also have "\<dots> = None"
      proof (rule ccontr)
        assume "stored_task i (st_db s2) \<noteq> None"
        then obtain t where t: "stored_task i (st_db s2) = Some t" by blast
        with stored_task_id[OF ok2 t] have "t \<in> set (load_tasks s2)" using load_tasks_stored[OF ok2, of t] by simp
        with ni stored_task_id[OF ok2 t] show False by blast
      qed
      finally show ?thesis using None same by (simp add: st collect_tasks[OF dt])
    qed
  qed
  show "leases_stored s" using R C by (simp add: leases_stored_def leases_def st)
  show "map_option wr_lease (hm_get (db_writers (st_db s0)) i) = Some l" if "leases s i = Some l" for i l
    using that R W by (auto simp: leases_def st)
  show "\<not> plan_running t" if t: "t \<in> set (hm_values (rt_tasks s))"
    and p: "any_project (\<lambda>p. p_id p = t_project_id t \<and> \<not> is_remote p) s" for t
  proof -
    have "hm_get (rt_tasks s) (t_id t) = Some t"
      using hm.keyed_by_vals[of "rt_tasks s" t_id t] collect_ok[of tasks] t by (simp add: st)
    then have "t \<in> set tasks" by (auto simp: st collect_tasks[OF dt] dest!: map_of_SomeD)
    moreover have "local_project (du_projects (load s2)) (t_project_id t)"
      using p collect_values[of root_key "du_projects (load s2)"]
      by (auto simp: any_project_def local_project_def list_ex_iff st)
    ultimately show ?thesis using I by blast
  qed
qed

section \<open>Properties\<close>

text \<open>C19: restart: whenever the daemon starts from an intact database, its task map equals the stored
  tasks, no task of a local project claims a running plan, and every lease it restores is a stored
  reservation; if the reservations were exclusive, the leases are.\<close>

theorem restart_consistent:
  assumes "new_runtime w root_key title home resolve remote maint fresh fresh' s0 = (Inr s, s1)"
    and "db_ok (st_db s0)"
    and "exclusive lease_conflicts (\<lambda>i. map_option wr_lease (hm_get (db_writers (st_db s0)) i))"
  shows "coherent s \<and> hm_ok (rt_tasks s) \<and> hm_keyed t_id (rt_tasks s)
    \<and> leases_stored s \<and> exclusive lease_conflicts (leases s)
    \<and> (\<forall>t \<in> set (hm_values (rt_tasks s)).
         any_project (\<lambda>p. p_id p = t_project_id t \<and> \<not> is_remote p) s \<longrightarrow> \<not> plan_running t)"
proof -
  note f = new_runtime_facts[OF assms(1,2)]
  have "exclusive lease_conflicts (leases s)"
    unfolding exclusive_def
  proof (intro allI impI)
    fix i j a b assume "leases s i = Some a" "leases s j = Some b" "i \<noteq> j"
    with f(5)[of i a] f(5)[of j b] show "\<not> lease_conflicts a b"
      by (intro exclusiveD[OF assms(3)])
  qed
  with f(1-4,6) show ?thesis by blast
qed

theorem restart_consistent_witness:
  "\<exists>s s1. new_runtime sample_world (\<lambda>_. ''p'') (\<lambda>_. None) None id False None (\<lambda>n. n) (\<lambda>n. n) sample_store
     = (Inr s, s1) \<and> coherent s \<and> leases_stored s"
proof -
  obtain s s1 where r: "new_runtime sample_world (\<lambda>_. ''p'') (\<lambda>_. None) None id False None (\<lambda>n. n) (\<lambda>n. n)
      sample_store = (Inr s, s1)"
    by (simp add: new_runtime_def reconcile_active_agents_def reconcile_tasks_def load_def load_tasks_def
      load_agents_def load_attention_def load_releases_def writer_reservations_def select_codex_binary_def
      setting_def sample_store_def empty_database_def Let_def)
  have "exclusive lease_conflicts (\<lambda>i. map_option wr_lease (hm_get (db_writers (st_db sample_store)) i))"
    by (simp add: exclusive_def sample_store_def empty_database_def)
  from restart_consistent[OF r db_ok_sample this] r show ?thesis by blast
qed

end
