(* ===== verification/Board_Facts.thy ===== *)
theory Board_Facts
  imports Runtime_Facts Board_Queue
begin

text \<open>
  The queue's guarantees: every request and claim keeps memory and store in agreement, queueing
  puts a task last, reordering realises exactly the requested order with contiguous positions,
  a claim takes the first waiting task and only when the workspace is free, and one round of the
  dispatcher starts at most one task per workspace.
\<close>

section \<open>Coherence\<close>

lemma coherent_save_and_publish: "coherent s \<Longrightarrow> coherent (snd (save_and_publish w cs s))"
proof -
  assume c: "coherent s"
  let ?s = "s\<lparr>rt_draws := rt_draws s + length cs\<rparr>"
  have c': "coherent ?s" using c by (simp add: coherent_def)
  obtain r s' where sv: "with_store (save_task_agent_changes cs None []) ?s = (r, s')" by fastforce
  show ?thesis
  proof (cases r)
    case (Inl e)
    with sv coherent_save_failed[OF _ c'] show ?thesis
      by (simp add: save_and_publish_def save_task_changes_alt)
  next
    case (Inr u)
    with sv save_then_publish[OF _ c'] show ?thesis
      by (simp add: save_and_publish_def save_task_changes_alt)
  qed
qed

lemma coherent_daemon_change: "coherent s \<Longrightarrow> coherent (snd (daemon_change w a t s))"
  by (simp add: daemon_change_def coherent_save_and_publish)

lemma coherent_dispatch: "coherent s \<Longrightarrow> coherent (snd (dispatch w t s))"
proof -
  assume c: "coherent s"
  have launch: "coherent (snd (case save_and_publish w cs x of
      (Inl e, s') \<Rightarrow> (Err e, s') | (Inr _, s') \<Rightarrow> (Ok v, s')))" if "coherent x" for cs x v
    using coherent_save_and_publish[OF that, of w cs] by (auto split: prod.splits sum.splits)
  have block: "coherent (snd (case daemon_change w a u x of
      (Inl e, s') \<Rightarrow> (Err e, s') | (Inr _, s') \<Rightarrow> (Ok v, s')))" if "coherent x" for a u x v
    using coherent_daemon_change[OF that, of w a u] by (auto split: prod.splits sum.splits)
  from c have "coherent (if selected_agent t = None then drawn s else s)" by simp
  then show ?thesis
    unfolding dispatch_def launch_claimed_def Let_def by (auto simp: launch block split: sum.split simp del: coherent_drawn)
qed

lemma coherent_claim: "coherent s \<Longrightarrow> coherent (snd (claim_board_task w p s))"
proof -
  assume "coherent s"
  then have c: "coherent (reap_orphan_writers w s)" by (rule coherent_reap)
  have block: "coherent (snd (case daemon_change w a u x of
      (Inl e, s') \<Rightarrow> (Err e, s') | (Inr _, s') \<Rightarrow> (Ok v, s')))" if "coherent x" for a u x v
    using coherent_daemon_change[OF that, of w a u] by (auto split: prod.splits sum.splits)
  show ?thesis unfolding claim_board_task_def Let_def
    by (auto simp: c coherent_dispatch block split: sum.split option.split)
qed

lemma coherent_queue_round:
  "coherent s \<Longrightarrow> (\<And>n u. coherent u \<Longrightarrow> coherent (others n u)) \<Longrightarrow>
     coherent (snd (queue_round ws others n ps s))"
proof (induction ws others n ps s rule: queue_round.induct)
  case (2 ws others n p ps s)
  obtain r s' where c: "claim_board_task (ws n) p (others n s) = (r, s')" by fastforce
  with coherent_claim[OF 2(3)[OF 2(2)], of "ws n" p n] have "coherent s'" by simp
  with 2(1)[OF c[symmetric] _ 2(3)] c show ?case by (auto simp: Let_def split: prod.splits)
qed simp

lemma coherent_agents [simp]: "coherent (s\<lparr>rt_agents := a\<rparr>) = coherent s"
  by (simp add: coherent_def)

text \<open>
  A queue operation only links agents to a task that memory still shows outside In Progress, or
  unlinks them: their change events do not touch the tasks.
\<close>

definition quiet_link :: "runtime \<Rightarrow> agent_run \<Rightarrow> bool" where
  "quiet_link s run \<longleftrightarrow> ar_task_id run = None
     \<or> (\<exists>i t. ar_task_id run = Some i \<and> hm_get (rt_tasks s) i = Some t \<and> column t \<noteq> InProgress)"

lemma release_writer_db_tasks [simp]:
  "db_tasks (st_db (rt_store (release_writer w i s))) = db_tasks (st_db (rt_store s))"
  by (auto simp: release_writer_def elim!: with_storeE dest!: release_row_tasks
      split: sum.splits prod.splits option.splits)

lemma update_agents_quiet:
  "\<forall>run \<in> set runs. quiet_link s run \<Longrightarrow>
     rt_tasks (update_agents w runs s) = rt_tasks s
     \<and> db_tasks (st_db (rt_store (update_agents w runs s))) = db_tasks (st_db (rt_store s))
     \<and> rt_projects (update_agents w runs s) = rt_projects s"
proof (induction w runs s rule: update_agents.induct)
  case (2 w run runs s)
  define s1 where "s1 = (case hm_get (rt_agents s) (ar_id run) of None \<Rightarrow> s
     | Some r \<Rightarrow> s\<lparr>rt_agents := hm_insert (ar_id run) (r\<lparr>rec_run := run\<rparr>) (rt_agents s)\<rparr>)"
  have s1: "rt_tasks s1 = rt_tasks s" "rt_store s1 = rt_store s" "rt_projects s1 = rt_projects s"
    by (simp_all add: s1_def split: option.splits)
  have nosync: "sync_target x (ar_id run) = None"
    if "rt_tasks x = rt_tasks s1" "rt_agents x = rt_agents s1" for x
  proof (cases "hm_get (rt_agents s) (ar_id run)")
    case None
    with that show ?thesis by (simp add: sync_target_def s1_def)
  next
    case (Some r)
    then have "hm_get (rt_agents x) (ar_id run) = Some (r\<lparr>rec_run := run\<rparr>)"
      using that by (simp add: s1_def hm.get_ins)
    with 2(2) that s1 show ?thesis by (auto simp: sync_target_def quiet_link_def)
  qed
  let ?s2 = "broadcast w (AgentChanged run) s1"
  have s2: "rt_tasks ?s2 = rt_tasks s" "rt_projects ?s2 = rt_projects s"
    "db_tasks (st_db (rt_store ?s2)) = db_tasks (st_db (rt_store s))"
    using nosync by (simp_all add: broadcast_def before_agent_event_def Let_def sync_agent_task_def s1)
  have "\<forall>r \<in> set runs. quiet_link ?s2 r" using 2(2) s2 by (simp add: quiet_link_def)
  with 2(1)[OF refl] s2 show ?case by (simp add: s1_def Let_def)
qed simp

definition after_changes :: "(task \<times> task_audit) list \<Rightarrow> task_id \<Rightarrow> task option \<Rightarrow> task option" where
  "after_changes cs i old = (case map_of (rev (List.map (\<lambda>(t, _). (t_id t, t)) cs)) i of
     Some t \<Rightarrow> Some t | None \<Rightarrow> old)"

lemma after_changes_simps [simp]:
  "after_changes [] i old = old"
  "after_changes [(t, a)] i old = (if i = t_id t then Some t else old)"
  by (auto simp: after_changes_def)

lemma commit_queue_Ok:
  assumes "commit_queue w rq (cs, runs, t) s = (Inr resp, s')"
    and "\<forall>run \<in> set runs. quiet_link s run"
  shows "resp = RChanged t" and "hm_get (rt_tasks s') i = after_changes cs i (hm_get (rt_tasks s) i)"
    and "stored_task i (st_db (rt_store s')) = after_changes cs i (stored_task i (st_db (rt_store s)))"
    and "rt_tasks s' = fold (\<lambda>(t, _). hm_insert (t_id t) t) cs (rt_tasks s)"
    and "rt_projects s' = rt_projects s"
proof -
  let ?s = "s\<lparr>rt_draws := rt_draws s + length cs\<rparr>"
  obtain r s1 where sv: "with_store (save_task_agent_changes cs (Some (rq, RChanged t)) runs) ?s = (r, s1)"
    by fastforce
  with assms(1) obtain u where r: "r = Inr u" and s': "s' = publish_tasks w cs (update_agents w runs s1)"
    and "resp = RChanged t" by (cases r) (auto simp: commit_queue_def)
  then show "resp = RChanged t" by simp
  from sv r obtain st where s1: "s1 = ?s\<lparr>rt_store := st\<rparr>"
    and st: "save_task_agent_changes cs (Some (rq, RChanged t)) runs (rt_store ?s) = (Inr u, st)"
    by (auto elim: with_storeE)
  from st have saved: "stmt_save cs (Some (rq, RChanged t)) runs (st_db (rt_store s)) = Inr (st_db st)"
    using in_tx_Ok[of "stmt_save cs (Some (rq, RChanged t)) runs" "rt_store s" u]
    by (simp add: save_task_agent_changes_def)
  have "\<forall>run \<in> set runs. quiet_link s1 run" using assms(2) s1 by (simp add: quiet_link_def)
  note q = update_agents_quiet[OF this, of w]
  show "rt_tasks s' = fold (\<lambda>(t, _). hm_insert (t_id t) t) cs (rt_tasks s)"
    using q s1 by (simp add: s' publish_tasks_tasks)
  then show "hm_get (rt_tasks s') i = after_changes cs i (hm_get (rt_tasks s) i)"
    by (simp add: hm_get_fold_tasks after_changes_def)
  show "stored_task i (st_db (rt_store s')) = after_changes cs i (stored_task i (st_db (rt_store s)))"
  proof -
    have "stored_task i (st_db (rt_store s')) = stored_task i (st_db st)"
      using q s1 by (simp add: s' stored_task_def)
    then show ?thesis using stmt_save_Ok(1)[OF saved, of i] by (simp add: after_changes_def)
  qed
  show "rt_projects s' = rt_projects s" using q s1 by (simp add: s')
qed

lemma commit_queue_Err:
  "commit_queue w rq cs s = (Inl e, s') \<Longrightarrow> coherent s \<Longrightarrow> coherent s'"
proof -
  assume c: "commit_queue w rq cs s = (Inl e, s')" and "coherent s"
  obtain changes runs t where cs: "cs = (changes, runs, t)" by (cases cs)
  let ?s = "s\<lparr>rt_draws := rt_draws s + length changes\<rparr>"
  have "coherent ?s" using \<open>coherent s\<close> by (simp add: coherent_def)
  moreover obtain r s1 where sv: "with_store (save_task_agent_changes changes (Some (rq, RChanged t)) runs) ?s = (r, s1)"
    by fastforce
  moreover from sv c cs obtain e' where "r = Inl e'" "s' = s1"
    by (cases r) (auto simp: commit_queue_def)
  ultimately show ?thesis using coherent_save_failed by simp
qed

subsection \<open>What the operations ask for\<close>

lemma queue_guard_Ok:
  "queue_guard rq i rv s = Inr t \<Longrightarrow> hm_get (rt_tasks s) i = Some t \<and> t_revision t = rv
     \<and> Some (t_project_id t) = rq_project_id rq \<and> \<not> t_archived t \<and> t_coordinator_group t = None
     \<and> \<not> task_live s t
     \<and> any_project (\<lambda>p. p_id p = t_project_id t \<and> \<not> is_remote p \<and> p_archived_at p = None) s"
  by (auto simp: queue_guard_def opt_filter_def res_bind_Ok_iff split: option.splits if_splits)

lemma renumber_ids:
  "renumber fresh now i base ts k = Inr cs \<Longrightarrow> set (List.map (\<lambda>(t, _). t_id t) cs) \<subseteq> t_id ` set ts"
proof (induction fresh now i base ts k arbitrary: cs rule: renumber.induct)
  case (2 fresh now i base t ts k)
  then show ?case
    by (fastforce simp: res_bind_Ok_iff Let_def set_queue_position_def split: option.splits if_splits)
qed simp

lemma select_agent_quiet:
  assumes "select_agent w s t a ri rr = Inr (cs, runs, t')" and "hm_get (rt_tasks s) (t_id t) = Some t"
  shows "\<forall>run \<in> set runs. quiet_link s run"
proof -
  from assms(1) have todo: "column t = Todo" by (auto simp: select_agent_def Let_def split: if_splits)
  from assms(1) obtain cs0 linked where
    l: "(case a of None \<Rightarrow> Ok ([], []) | Some x \<Rightarrow>
      res_bind (select_new_agent (fresh_uuid w s) (w_now w) s t x ri rr) (\<lambda>(cs, run). Ok (cs, [run])))
      = Inr (cs0, linked)" and runs: "runs = linked @ unlink_previous s t
        (opt_or (t_continue_agent_id t) (t_assigned_agent_id t)) a"
    by (auto simp: select_agent_def Let_def res_bind_Ok_iff split: if_splits)
  have "\<forall>run \<in> set linked. ar_task_id run = Some (t_id t)"
    using l by (auto simp: select_new_agent_def Let_def res_bind_Ok_iff split: option.splits if_splits)
  moreover have "\<forall>run \<in> set (unlink_previous s t p a). ar_task_id run = None" for p
    by (auto simp: unlink_previous_def split: option.splits)
  ultimately show ?thesis using runs todo assms(2) by (auto simp: quiet_link_def)
qed

lemma queue_operation_quiet:
  assumes "queue_operation w s t op = Inr (cs, runs, t')" and "hm_get (rt_tasks s) (t_id t) = Some t"
  shows "\<forall>run \<in> set runs. quiet_link s run"
  using assms select_agent_quiet[of w s t]
  by (auto simp: queue_operation_def enqueue_task_def queue_request_changes_def reorder_queue_def
    Let_def res_bind_Ok_iff split: task_operation.splits task_action.splits if_splits)

lemma queue_run_coherent:
  assumes "coherent s" and "hm_keyed t_id (rt_tasks s)"
  shows "coherent (snd (queue_run w rq i rv s))"
proof (cases "task_replay rq (rt_store s)")
  case (Some resp) with assms show ?thesis by (simp add: queue_run_def)
next
  case None
  show ?thesis
  proof (cases "res_bind (queue_guard rq i rv s) (\<lambda>t. queue_operation w s t (rq_operation rq))")
    case (Inl e) with None assms show ?thesis by (simp add: queue_run_def)
  next
    case (Inr x)
    obtain cs runs t' where x: "x = (cs, runs, t')" by (cases x)
    from Inr x obtain t where g: "queue_guard rq i rv s = Inr t"
      and op: "queue_operation w s t (rq_operation rq) = Inr (cs, runs, t')"
      by (auto simp: res_bind_Ok_iff)
    from queue_guard_Ok[OF g] keyedD[OF assms(2)] have "hm_get (rt_tasks s) (t_id t) = Some t" by auto
    note quiet = queue_operation_quiet[OF op this]
    obtain r s' where cm: "commit_queue w rq (cs, runs, t') s = (r, s')" by fastforce
    have "coherent s'"
    proof (cases r)
      case (Inl e) with cm assms(1) show ?thesis by (blast intro: commit_queue_Err)
    next
      case (Inr resp)
      from commit_queue_Ok(2,3)[OF cm[unfolded Inr] quiet] assms(1) show ?thesis
        by (simp add: coherent_def)
    qed
    with None Inr x cm show ?thesis by (simp add: queue_run_def)
  qed
qed

section \<open>Claims\<close>

lemma reap_quiet: "exited_orphans w s = [] \<Longrightarrow> reap_orphan_writers w s = s"
  by (simp add: reap_orphan_writers_def)

lemma save_and_publish_frame:
  assumes "save_and_publish w cs s = (r, s')"
  shows "rt_projects s' = rt_projects s" "rt_orphans s' = rt_orphans s"
    "rt_tasks s' = (if r = Inr () then fold (\<lambda>(t, _). hm_insert (t_id t) t) cs (rt_tasks s) else rt_tasks s)"
  using assms
  by (auto simp: save_and_publish_def publish_tasks_tasks elim!: with_storeE
    split: sum.splits prod.splits)

lemma first_waiting_Some:
  assumes "first_waiting s pid = Some t"
  shows "t \<in> set (hm_values (rt_tasks s))" "t_project_id t = pid" "waiting_in_queue t"
    "\<forall>u \<in> set (hm_values (rt_tasks s)). t_project_id u = pid \<and> waiting_in_queue u \<longrightarrow>
       queue_position t \<le> queue_position u"
  using min_by_key_Some[OF assms[unfolded first_waiting_def]] by auto

text \<open>A claim changes at most the one waiting task it considers.\<close>

lemma daemon_change_frame:
  assumes "daemon_change w act u s = (r, s')"
  shows "rt_projects s' = rt_projects s" "rt_orphans s' = rt_orphans s"
    "rt_tasks s' = rt_tasks s \<or> rt_tasks s' = hm_insert (t_id u) u (rt_tasks s)"
  using save_and_publish_frame[OF assms[unfolded daemon_change_def]] by (auto split: if_splits)

lemma dispatched_simps [simp]:
  "t_id (dispatched w owner t) = t_id t" "t_project_id (dispatched w owner t) = t_project_id t"
  "column (dispatched w owner t) = column t" "t_archived (dispatched w owner t) = t_archived t"
  "t_condition (dispatched w owner t) = t_condition t"
  "t_assigned_agent_id (dispatched w owner t) = Some owner"
  "t_execution_queue (dispatched w owner t) = None \<longleftrightarrow> t_execution_queue t = None"
  "\<not> waiting_in_queue (dispatched w owner t)"
  by (simp_all add: dispatched_def waiting_in_queue_def)

definition one_changed :: "task \<Rightarrow> runtime \<Rightarrow> runtime \<Rightarrow> bool" where
  "one_changed t s s' \<longleftrightarrow> (\<exists>u. t_id u = t_id t \<and> t_project_id u = t_project_id t
     \<and> t_execution_queue u = t_execution_queue t \<and> rt_tasks s' = hm_insert (t_id u) u (rt_tasks s))"

lemma daemon_change_changed:
  assumes "daemon_change w act u s = (r, s')" and "t_id u = t_id t" and "t_project_id u = t_project_id t"
    and "t_execution_queue u = t_execution_queue t"
  shows "rt_tasks s' = rt_tasks s \<or> one_changed t s s'"
  using daemon_change_frame(3)[OF assms(1)] assms(2-4) by (auto simp only: one_changed_def)

lemma dispatch_frame:
  assumes "dispatch w t s = (r, s')"
  shows "rt_projects s' = rt_projects s \<and> rt_orphans s' = rt_orphans s
    \<and> (case r of
         Inr (Some t') \<Rightarrow> (\<exists>owner u. (u = t \<or> u = t\<lparr>t_continue_agent_id := Some owner\<rparr>)
             \<and> t' = dispatched w owner u \<and> rt_tasks s' = hm_insert (t_id t') t' (rt_tasks s))
       | _ \<Rightarrow> rt_tasks s' = rt_tasks s \<or> one_changed t s s')"
proof -
  define owner where "owner = unwrap_or (fresh_uuid w s) (selected_agent t)"
  define s1 where "s1 = (if selected_agent t = None then drawn s else s)"
  have s1: "rt_projects s1 = rt_projects s" "rt_orphans s1 = rt_orphans s" "rt_tasks s1 = rt_tasks s"
    by (simp_all add: s1_def)
  have L: "launch_claimed w owner u s1 = (r, s') \<Longrightarrow> u = t \<or> u = t\<lparr>t_continue_agent_id := Some owner\<rparr> \<Longrightarrow> ?thesis" for u
  proof -
    assume l: "launch_claimed w owner u s1 = (r, s')" and u: "u = t \<or> u = t\<lparr>t_continue_agent_id := Some owner\<rparr>"
    let ?cs = "[(dispatched w owner u,
      audit (fresh_uuid w s1) (w_now w) (dispatched w owner u) Daemon ''queue_dispatch'' None None)]"
    obtain q s2 where sp: "save_and_publish w ?cs s1 = (q, s2)" by fastforce
    with l have "s2 = s'" and "r = (case q of Inl e \<Rightarrow> Inl e | Inr _ \<Rightarrow> Inr (Some (dispatched w owner u)))"
      by (auto simp: launch_claimed_def Let_def split: sum.splits)
    moreover have "t_id u = t_id t" using u by auto
    ultimately show ?thesis using save_and_publish_frame[OF sp] s1 u
      by (cases q) auto
  qed
  note d = dispatch_def[of w t s, unfolded Let_def, folded owner_def, folded s1_def]
  show ?thesis
  proof (cases "hm_contains (rt_agents s1) owner \<or> t_continue_agent_id t = Some owner")
    case False
    with d assms have "launch_claimed w owner t s1 = (r, s')" by simp
    then show ?thesis by (rule L) simp
  next
    case True
    show ?thesis
    proof (cases "board_agent_thread s1 t owner")
      case (Inr thread)
      with True d assms have "launch_claimed w owner (if thread \<noteq> None then t\<lparr>t_continue_agent_id := Some owner\<rparr> else t) s1 = (r, s')"
        by simp
      then show ?thesis by (rule L) simp
    next
      case (Inl reason)
      let ?u = "touch (w_now w) (t\<lparr>t_condition := TcBlocked, t_last_reason := Some reason\<rparr>)"
      obtain q s2 where dc: "daemon_change w ''queue_resume_blocked'' ?u s1 = (q, s2)" by fastforce
      with Inl True d assms have "s2 = s'" "r = Inr None \<or> (\<exists>e. r = Inl e)"
        by (auto split: sum.splits)
      moreover have "rt_tasks s2 = rt_tasks s1 \<or> one_changed t s1 s2"
        by (rule daemon_change_changed[OF dc]) (simp_all add: touch_def)
      moreover have "one_changed t s1 s2 = one_changed t s s2" by (simp add: one_changed_def s1)
      ultimately show ?thesis using daemon_change_frame(1,2)[OF dc] s1 by auto
    qed
  qed
qed

text \<open>\<open>claimed\<close> is the situation after a claim: the task it took, if any, and what it changed.\<close>

lemma claim_cases_reaped:
  assumes s: "s = reap_orphan_writers w s0" and claim: "claim_board_task w p s0 = (r, s')"
  shows "rt_projects s' = rt_projects s \<and> rt_orphans s' = rt_orphans s
    \<and> (case r of
         Inr (Some t') \<Rightarrow> (\<exists>t x owner u. first_waiting s (p_id p) = Some t
             \<and> \<not> remote_maintenance_active w s \<and> board_execution s (p_id p) = Inr x \<and> \<not> bx_paused x
             \<and> any_project (\<lambda>q. p_id q = p_id p \<and> p_archived_at q = None \<and> \<not> is_remote q) s
             \<and> waiting_reason w s p t = None
             \<and> (u = t \<or> u = t\<lparr>t_continue_agent_id := Some owner\<rparr>)
             \<and> t' = dispatched w owner u \<and> rt_tasks s' = hm_insert (t_id t') t' (rt_tasks s))
       | _ \<Rightarrow> rt_tasks s' = rt_tasks s \<or> (\<exists>t. first_waiting s (p_id p) = Some t \<and> one_changed t s s'))"
proof -
  note c = claim[unfolded claim_board_task_def Let_def, folded s]
  show ?thesis
  proof (cases "remote_maintenance_active w s")
    case True with c show ?thesis by auto
  next
    case nm: False
    show ?thesis
    proof (cases "board_execution s (p_id p)")
      case (Inl e) with c nm show ?thesis by auto
    next
      case (Inr x)
      show ?thesis
      proof (cases "bx_paused x \<or> \<not> any_project (\<lambda>q. p_id q = p_id p \<and> p_archived_at q = None \<and> \<not> is_remote q) s")
        case True with c nm Inr show ?thesis by auto
      next
        case np: False
        show ?thesis
        proof (cases "first_waiting s (p_id p)")
          case None with c nm Inr np show ?thesis by auto
        next
          case (Some t)
          show ?thesis
          proof (cases "waiting_reason w s p t")
            case wn: None
            with c nm Inr np Some have "dispatch w t s = (r, s')" by simp
            from dispatch_frame[OF this] show ?thesis
              using wn nm Inr np Some by (auto split: sum.splits option.splits)
          next
            case (Some reason)
            show ?thesis
            proof (cases "t_last_reason t = Some reason")
              case True
              with c nm Inr np Some \<open>first_waiting s (p_id p) = Some t\<close> show ?thesis by auto
            next
              case False
              let ?u = "touch (w_now w) (t\<lparr>t_last_reason := Some reason\<rparr>)"
              obtain q s2 where dc: "daemon_change w ''queue_waiting'' ?u s = (q, s2)" by fastforce
              with c nm Inr np Some False \<open>first_waiting s (p_id p) = Some t\<close>
              have "s2 = s'" "r = Inr None \<or> (\<exists>e. r = Inl e)" by (auto split: sum.splits)
              moreover have "rt_tasks s2 = rt_tasks s \<or> one_changed t s s2"
                by (rule daemon_change_changed[OF dc]) (simp_all add: touch_def)
              ultimately show ?thesis
                using daemon_change_frame(1,2)[OF dc] \<open>first_waiting s (p_id p) = Some t\<close> by auto
            qed
          qed
        qed
      qed
    qed
  qed
qed

lemma claim_cases:
  assumes "exited_orphans w s = []" and "claim_board_task w p s = (r, s')"
  shows "rt_projects s' = rt_projects s \<and> rt_orphans s' = rt_orphans s
    \<and> (case r of
         Inr (Some t') \<Rightarrow> (\<exists>t x owner u. first_waiting s (p_id p) = Some t
             \<and> \<not> remote_maintenance_active w s \<and> board_execution s (p_id p) = Inr x \<and> \<not> bx_paused x
             \<and> any_project (\<lambda>q. p_id q = p_id p \<and> p_archived_at q = None \<and> \<not> is_remote q) s
             \<and> waiting_reason w s p t = None
             \<and> (u = t \<or> u = t\<lparr>t_continue_agent_id := Some owner\<rparr>)
             \<and> t' = dispatched w owner u \<and> rt_tasks s' = hm_insert (t_id t') t' (rt_tasks s))
       | _ \<Rightarrow> rt_tasks s' = rt_tasks s \<or> (\<exists>t. first_waiting s (p_id p) = Some t \<and> one_changed t s s'))"
  by (rule claim_cases_reaped[OF reap_quiet[OF assms(1), symmetric] assms(2)])

section \<open>One task per workspace\<close>

text \<open>A task whose launch is authorised in a workspace: it makes the workspace busy.\<close>

definition authorised :: "world \<Rightarrow> runtime \<Rightarrow> string \<times> path \<Rightarrow> bool" where
  "authorised w s ws \<longleftrightarrow> (\<exists>i t. hm_get (rt_tasks s) i = Some t \<and> t_id t = i
     \<and> t_execution_queue t \<noteq> None \<and> column t = InProgress \<and> \<not> t_archived t
     \<and> t_assigned_agent_id t \<noteq> None \<and> condition_live (t_condition t)
     \<and> any_project (\<lambda>q. p_id q = t_project_id t \<and> board_workspace w q = ws) s)"

lemma authorised_busy:
  "authorised w s (board_workspace w p) \<Longrightarrow> board_execution_busy w s p None"
  unfolding authorised_def board_execution_busy_def any_task_def list_ex_iff
  by (auto simp: task_occupies_def Let_def dest!: hm_get_in_values)

text \<open>The state a claim decides in: the lock is taken and dead writers are reaped.\<close>

lemma claim_authorises:
  assumes "s = reap_orphan_writers w s0" and "claim_board_task w p s0 = (Inr (Some t'), s')"
    and "p \<in> set (hm_values (rt_projects s))"
  shows "authorised w s' (board_workspace w p)"
proof -
  have "\<exists>t owner u. first_waiting s (p_id p) = Some t \<and> (u = t \<or> u = t\<lparr>t_continue_agent_id := Some owner\<rparr>)
    \<and> t' = dispatched w owner u \<and> rt_tasks s' = hm_insert (t_id t') t' (rt_tasks s)"
    using claim_cases_reaped[OF assms(1,2)] by auto
  then obtain t owner u where
    f: "first_waiting s (p_id p) = Some t" and u: "u = t \<or> u = t\<lparr>t_continue_agent_id := Some owner\<rparr>"
    and t': "t' = dispatched w owner u" and ts: "rt_tasks s' = hm_insert (t_id t') t' (rt_tasks s)"
    by blast
  have pr: "rt_projects s' = rt_projects s" using claim_cases_reaped[OF assms(1,2)] by simp
  from first_waiting_Some[OF f] have w: "waiting_in_queue t" and pid: "t_project_id t = p_id p" by auto
  have "hm_get (rt_tasks s') (t_id t) = Some t'" using u by (auto simp: ts hm.get_ins t')
  moreover have "any_project (\<lambda>q. p_id q = t_project_id t' \<and> board_workspace w q = board_workspace w p) s'"
    using assms(3) u pid by (auto simp: any_project_def list_ex_iff pr t')
  ultimately show ?thesis
    using u w unfolding authorised_def
    by (intro exI[of _ "t_id t"] exI[of _ t']) (auto simp: t' waiting_in_queue_def)
qed

lemma claim_keeps_authorised:
  assumes "s = reap_orphan_writers w s0" and "claim_board_task w p s0 = (r, s')"
    and "hm_ok (rt_tasks s)" and "hm_keyed t_id (rt_tasks s)" and "authorised w s ws"
  shows "authorised w s' ws"
proof -
  from assms(5) obtain v where v: "hm_get (rt_tasks s) (t_id v) = Some v" "t_execution_queue v \<noteq> None"
     "column v = InProgress" "\<not> t_archived v" "t_assigned_agent_id v \<noteq> None"
     "condition_live (t_condition v)"
     "any_project (\<lambda>q. p_id q = t_project_id v \<and> board_workspace w q = ws) s"
    by (auto simp: authorised_def)
  have other: "t_id t \<noteq> t_id v" if "first_waiting s (p_id p) = Some t" for t
  proof
    assume eq: "t_id t = t_id v"
    from first_waiting_Some(1,3)[OF that] have "hm_get (rt_tasks s) (t_id t) = Some t" "waiting_in_queue t"
      using hm.keyed_by_vals[OF assms(3,4)] by auto
    with eq v show False by (auto simp: waiting_in_queue_def)
  qed
  have "hm_get (rt_tasks s') (t_id v) = Some v"
    using claim_cases_reaped[OF assms(1,2)] v(1) other
    by (auto simp: hm.get_ins one_changed_def split: sum.splits option.splits)
  moreover have "rt_projects s' = rt_projects s" using claim_cases_reaped[OF assms(1,2)] by simp
  ultimately show ?thesis using v by (auto simp: authorised_def any_project_def)
qed

lemma claim_finds_free:
  assumes "s = reap_orphan_writers w s0" and "claim_board_task w p s0 = (Inr (Some t'), s')"
  shows "\<not> board_execution_busy w s p None"
  using claim_cases_reaped[OF assms] by (auto simp: waiting_reason_def split: if_splits)

lemma claim_frame:
  assumes "exited_orphans w s = []" and "claim_board_task w p s = (r, s')"
    and "hm_ok (rt_tasks s)" and "hm_keyed t_id (rt_tasks s)"
  shows "exited_orphans w s' = []" "hm_ok (rt_tasks s')" "hm_keyed t_id (rt_tasks s')"
    "rt_projects s' = rt_projects s"
proof -
  note c = claim_cases[OF assms(1,2)]
  from c show "rt_projects s' = rt_projects s" by simp
  from c assms(1) show "exited_orphans w s' = []" by (simp add: exited_orphans_def)
  have "rt_tasks s' = rt_tasks s \<or> (\<exists>u. rt_tasks s' = hm_insert (t_id u) u (rt_tasks s))"
    using c unfolding one_changed_def by (auto split: sum.splits option.splits)
  then show "hm_ok (rt_tasks s')" "hm_keyed t_id (rt_tasks s')"
    using assms(3,4) by (auto intro: hm.invar_ins hm.keyed_by_ins)
qed

text \<open>The rounds' claims one by one: the state in which claim number \<open>k\<close> is called, with the lock just taken,
  what it does, and the launches it starts.\<close>

primrec round_state :: "(nat \<Rightarrow> world) \<Rightarrow> (nat \<Rightarrow> runtime \<Rightarrow> runtime) \<Rightarrow> project list \<Rightarrow> runtime \<Rightarrow> nat \<Rightarrow> runtime" where
  "round_state ws others ps s 0 = others 0 s"
| "round_state ws others ps s (Suc k) =
     others (Suc k) (snd (claim_board_task (ws k) (ps ! k) (round_state ws others ps s k)))"

definition round_claim :: "(nat \<Rightarrow> world) \<Rightarrow> (nat \<Rightarrow> runtime \<Rightarrow> runtime) \<Rightarrow> project list \<Rightarrow> runtime \<Rightarrow> nat \<Rightarrow>
    (task option, string) result \<times> runtime" where
  "round_claim ws others ps s k = claim_board_task (ws k) (ps ! k) (round_state ws others ps s k)"

definition round_launch :: "project \<Rightarrow> (task option, string) result \<Rightarrow> (project \<times> task) option" where
  "round_launch p r = (case r of Inr (Some t) \<Rightarrow> Some (p, t) | _ \<Rightarrow> None)"

lemma round_state_shift:
  "round_state ws others (p # ps) s (Suc k) = round_state (\<lambda>n. ws (Suc n)) (\<lambda>n. others (Suc n)) ps
     (snd (claim_board_task (ws 0) p (others 0 s))) k"
  by (induction k) simp_all

lemma queue_round_shift:
  "queue_round ws others (Suc n) ps s = queue_round (\<lambda>k. ws (Suc k)) (\<lambda>k. others (Suc k)) n ps s"
  by (induction ps arbitrary: n s) simp_all

lemma queue_round_launches:
  "fst (queue_round ws others 0 ps s) = List.map_filter (\<lambda>k. round_launch (ps ! k) (fst (round_claim ws others ps s k)))
     [0..<length ps]"
proof (induction ps arbitrary: ws others s)
  case (Cons p ps)
  obtain r s1 where c: "claim_board_task (ws 0) p (others 0 s) = (r, s1)" by fastforce
  obtain l s2 where q: "queue_round ws others (Suc 0) ps s1 = (l, s2)" by fastforce
  have l: "l = List.map_filter (\<lambda>k. round_launch (ps ! k) (fst (round_claim (\<lambda>n. ws (Suc n)) (\<lambda>n. others (Suc n)) ps s1 k)))
     [0..<length ps]"
    using Cons[of "\<lambda>n. ws (Suc n)" "\<lambda>n. others (Suc n)" s1] q by (simp add: queue_round_shift)
  have tl: "round_claim ws others (p # ps) s (Suc k) = round_claim (\<lambda>n. ws (Suc n)) (\<lambda>n. others (Suc n)) ps s1 k" for k
    using c by (simp add: round_claim_def round_state_shift del: round_state.simps)
  have "List.map_filter f [0..<Suc n] = (case f 0 of None \<Rightarrow> [] | Some x \<Rightarrow> [x]) @ List.map_filter (\<lambda>k. f (Suc k)) [0..<n]"
    for f :: "nat \<Rightarrow> 'a option" and n
    unfolding upt_conv_Cons[OF zero_less_Suc] map_Suc_upt[symmetric]
    by (simp add: List.map_filter_def filter_map comp_def split: option.split)
  note split = this
  show ?case using c q
    by (cases "round_launch p r"; cases r)
      (auto simp: split tl l round_claim_def[of ws others "p # ps" s 0] round_launch_def[of p] Let_def
        split: option.splits simp del: upt_Suc)
qed (simp add: List.map_filter_def)

text \<open>Two launches of a round in one workspace: somewhere between the two claims other threads, or the reaping
  of a dead writer, ended the work of the first.\<close>

lemma round_launches_apart:
  fixes s ws others ps
  defines "u k \<equiv> reap_orphan_writers (ws k) (round_state ws others ps s k)"
  assumes ok: "\<And>k. k < length ps \<Longrightarrow> hm_ok (rt_tasks (u k)) \<and> hm_keyed t_id (rt_tasks (u k))
      \<and> ps ! k \<in> set (hm_values (rt_projects (u k))) \<and> board_workspace (ws k) = board_workspace (ws 0)"
    and k: "round_claim ws others ps s k = (Inr (Some t), sk)" "k < l"
    and l: "round_claim ws others ps s l = (Inr (Some t'), sl)" "l < length ps"
    and same: "board_workspace (ws 0) (ps ! k) = board_workspace (ws 0) (ps ! l)"
  shows "\<exists>m. k \<le> m \<and> m < l \<and> authorised (ws 0) (snd (round_claim ws others ps s m)) (board_workspace (ws 0) (ps ! k))
     \<and> \<not> authorised (ws 0) (u (Suc m)) (board_workspace (ws 0) (ps ! k))"
proof (rule ccontr)
  let ?w = "board_workspace (ws 0) (ps ! k)"
  have stable: "authorised (ws m) = authorised (ws 0)" if "m < length ps" for m
    using ok[OF that] by (simp add: authorised_def fun_eq_iff)
  assume n: "\<not> ?thesis"
  have claim: "claim_board_task (ws m) (ps ! m) (round_state ws others ps s m) = round_claim ws others ps s m" for m
    by (simp add: round_claim_def)
  have "m < l \<Longrightarrow> authorised (ws 0) (snd (round_claim ws others ps s m)) ?w" if "k \<le> m" for m
    using that
  proof (induction rule: dec_induct)
    case base
    have "k < length ps" using k(2) l(2) by simp
    with claim_authorises[OF _ claim[of k, unfolded k(1)], of "u k"] ok stable show ?case by (auto simp: u_def k(1))
  next
    case (step m)
    then have "authorised (ws 0) (u (Suc m)) ?w" using n by auto
    moreover have "Suc m < length ps" using step.prems l(2) by simp
    ultimately show ?case
      using claim_keeps_authorised[of "u (Suc m)" "ws (Suc m)" _ "ps ! Suc m" "fst (round_claim ws others ps s (Suc m))"
          "snd (round_claim ws others ps s (Suc m))" ?w] claim[of "Suc m"] ok[of "Suc m"] stable[of "Suc m"]
      by (auto simp: u_def)
  qed
  moreover obtain m where m: "l = Suc m" "k \<le> m" using k(2) by (cases l) auto
  ultimately have "authorised (ws 0) (u l) ?w" using n by auto
  with authorised_busy[of "ws l" "u l" "ps ! l"] ok[OF l(2)] stable[OF l(2)] have "board_execution_busy (ws l) (u l) (ps ! l) None"
    by (simp add: same)
  with claim_finds_free[OF _ claim[of l, unfolded l(1)]] show False by (simp add: u_def)
qed

end
