(* ===== verification/Task_Planning.thy ===== *)
theory Task_Planning
  imports Board_Facts
begin

text \<open>
  Plan jobs of tasks, \<open>crates/ditchd/src/task_planning_runtime.rs\<close>: the requests that edit a
  description, start a plan or cancel one, the plan a task gets when it leaves the backlog, and the
  end of a job. A job runs in a thread of its own, so its end is an operation of its own, with the
  planner's answer as an argument. The job is persisted on its task; no client owns it.
\<close>

section \<open>Replies\<close>

text \<open>Saving changes with the receipt of their request, then publishing them.\<close>

definition save_reply :: "world \<Rightarrow> task_request \<Rightarrow> (task \<times> task_audit) list \<Rightarrow> task \<Rightarrow> runtime \<Rightarrow>
    task_response tres \<times> runtime" where
  "save_reply w rq cs t s =
     (case with_store (save_task_changes cs (Some (rq, RChanged t)) None)
             (s\<lparr>rt_draws := rt_draws s + length cs\<rparr>) of
        (Inl e, s') \<Rightarrow> (Err (storage_error e), s')
      | (Inr _, s') \<Rightarrow> (Ok (RChanged t), publish_tasks w cs s'))"

section \<open>Jobs\<close>

record task_plan_launch =
  tl_issue_kind :: task_issue_kind
  tl_github_source :: "github_task_source option"
  tl_binary :: string
  tl_home :: "path option"
  tl_model :: "string option"
  tl_root :: path
  tl_job :: task_plan_job

definition new_task_plan_job :: "time \<Rightarrow> task \<Rightarrow> uuid \<Rightarrow> task_plan_job" where
  "new_task_plan_job now t i = \<lparr>pj_id = i, pj_status = ''running'', pj_title = t_title t,
     pj_description = t_description t, pj_previous_plan = pl_text (t_planning t),
     pj_started_at = now, pj_finished_at = None, pj_result = None, pj_error = None\<rparr>"

definition set_job :: "task_plan_job \<Rightarrow> task \<Rightarrow> task" where
  "set_job j t = t\<lparr>t_planning := (t_planning t)\<lparr>pl_job := Some j\<rparr>\<rparr>"

definition running_plans :: "runtime \<Rightarrow> nat" where
  "running_plans s = length (List.filter plan_running (hm_values (rt_tasks s)))"

definition prepare_task_plan :: "world \<Rightarrow> runtime \<Rightarrow> project \<Rightarrow> task \<Rightarrow> uuid \<Rightarrow> string option \<Rightarrow>
    task_plan_launch tres" where
  "prepare_task_plan w s p t i model =
     (if plan_running t then Err (TaskError AgentBusy ''A plan is already being generated.'')
      else if 4 \<le> running_plans s
      then Err (TaskError AgentBusy
             ''Four plans are already running. Try again when one finishes.'')
      else if is_remote p
      then Err (TaskError Unsupported ''Connect to this project's runtime to generate a plan.'')
      else res_bind (ok_or (TaskError InvalidInput ''Set up Codex before generating a plan.'')
             (rt_codex_binary s)) (\<lambda>binary.
        if is_some_and model (\<lambda>m. 200 < length m) then Err (TaskError InvalidInput ''Invalid model'')
        else Ok \<lparr>tl_issue_kind = t_issue_kind t, tl_github_source = t_github_source t,
               tl_binary = binary, tl_home = rt_codex_home s, tl_model = model, tl_root = p_root p,
               tl_job = new_task_plan_job (w_now w) t i\<rparr>))"

text \<open>
  A task that leaves the backlog gets a plan if it has none, neither written nor generated. A
  failure is recorded on the task and does not undo the move.
\<close>

definition has_plan :: "task \<Rightarrow> bool" where
  "has_plan t = (\<not> blank (pl_text (t_planning t))
     \<or> is_some_and (pl_job (t_planning t)) (\<lambda>j. pj_status j = ''running''
         \<or> is_some_and (pj_result j) (\<lambda>text. \<not> blank text)))"

definition failed_job :: "time \<Rightarrow> string \<Rightarrow> task_plan_job \<Rightarrow> task_plan_job" where
  "failed_job now msg j =
     j\<lparr>pj_status := ''failed'', pj_finished_at := Some now, pj_error := Some msg\<rparr>"

definition prepare_automatic_task_plan :: "world \<Rightarrow> project \<Rightarrow> task \<Rightarrow> runtime \<Rightarrow>
    task \<times> task_plan_launch option \<times> runtime" where
  "prepare_automatic_task_plan w p t s =
     (if has_plan t then (t, None, s)
      else (let i = fresh_uuid w s in
        case prepare_task_plan w s p t i None of
          Inr launch \<Rightarrow> (set_job (tl_job launch) t, Some launch, drawn s)
        | Inl e \<Rightarrow> (set_job (failed_job (w_now w) (te_message e) (new_task_plan_job (w_now w) t i)) t,
            None, drawn s)))"

section \<open>Requests\<close>

definition planning_target :: "task_operation \<Rightarrow> task_id option" where
  "planning_target op = (case op of
      GeneratePlan i _ _ \<Rightarrow> Some i
    | CancelPlan i _ \<Rightarrow> Some i
    | UpdateDescription i _ _ _ _ \<Rightarrow> Some i
    | _ \<Rightarrow> None)"

definition planning_frozen :: "runtime \<Rightarrow> task \<Rightarrow> bool" where
  "planning_frozen s t = (t_archived t \<or> column t = Done \<or> column t = InReview \<or> task_live s t)"

definition planning_guard :: "task_request \<Rightarrow> task_id \<Rightarrow> runtime \<Rightarrow> (task \<times> project) tres" where
  "planning_guard rq i s =
     (case opt_filter (\<lambda>t. Some (t_project_id t) = rq_project_id rq) (hm_get (rt_tasks s) i) of
        None \<Rightarrow> Err (TaskError NotFound ''Task not found'')
      | Some t \<Rightarrow>
     (case project_by (\<lambda>p. p_id p = t_project_id t \<and> p_archived_at p = None) s of
        None \<Rightarrow> Err (TaskError NotFound ''Project unavailable'')
      | Some p \<Rightarrow>
          if (case rq_operation rq of CancelPlan _ _ \<Rightarrow> False | _ \<Rightarrow> True) \<and> planning_frozen s t
          then Err (TaskError IllegalTransition
            ''Stop or reopen this task before changing its description or plan.'')
          else Ok (t, p)))"

definition edit_description :: "string \<Rightarrow> string \<Rightarrow> string \<Rightarrow> string \<Rightarrow> task \<Rightarrow> task tres" where
  "edit_description old_description old_plan description plan t =
     (if 65536 < length description \<or> 65536 < length plan
      then Err (TaskError InvalidInput ''Description and plan must each be at most 64 KiB.'')
      else if t_description t \<noteq> old_description \<or> pl_text (t_planning t) \<noteq> old_plan
      then Err (TaskError RevisionConflict ''Description changed elsewhere. Reopen the task to review the latest version; your draft is still here.'')
      else Ok (t\<lparr>t_description := description,
                t_planning := (t_planning t)\<lparr>pl_text := plan\<rparr>\<rparr>))"

definition cancel_plan :: "time \<Rightarrow> uuid \<Rightarrow> task \<Rightarrow> task tres" where
  "cancel_plan now i t =
     (case opt_filter (\<lambda>j. pj_id j = i) (pl_job (t_planning t)) of
        None \<Rightarrow> Err (TaskError NotFound ''Planning job no longer exists'')
      | Some j \<Rightarrow> Ok (if pj_status j = ''running''
          then set_job (j\<lparr>pj_status := ''canceled'', pj_finished_at := Some now\<rparr>) t else t))"

definition planning_operation :: "world \<Rightarrow> task_request \<Rightarrow> runtime \<Rightarrow> task \<times> project \<Rightarrow>
    (task \<times> string \<times> task_plan_launch option) tres" where
  "planning_operation w rq s tp = (case tp of (t, p) \<Rightarrow> (case rq_operation rq of
      UpdateDescription _ old_description old_plan description plan \<Rightarrow>
        res_bind (edit_description old_description old_plan description plan t)
          (\<lambda>t. Ok (t, ''description_updated'', None))
    | GeneratePlan _ rv model \<Rightarrow>
        res_bind (check_revision t rv) (\<lambda>_.
        res_bind (prepare_task_plan w s p t (rq_request_id rq) model) (\<lambda>launch.
          Ok (set_job (tl_job launch) t, ''plan_started'', Some launch)))
    | CancelPlan _ i \<Rightarrow>
        res_bind (cancel_plan (w_now w) i t) (\<lambda>t. Ok (t, ''plan_canceled'', None))
    | _ \<Rightarrow> Err illegal_transition))"

text \<open>The launch is handed to a new thread once the lock is released.\<close>

definition planning_run :: "world \<Rightarrow> task_request \<Rightarrow> task_id \<Rightarrow> runtime \<Rightarrow>
    (task_response tres \<times> task_plan_launch option) \<times> runtime" where
  "planning_run w rq i s =
     (case task_replay rq (rt_store s) of Some resp \<Rightarrow> ((Ok resp, None), s) | None \<Rightarrow>
     (case res_bind (planning_guard rq i s) (planning_operation w rq s) of
        Inl e \<Rightarrow> ((Err e, None), s)
      | Inr (t, action, launch) \<Rightarrow>
          (let t = touch (w_now w) t in
           case save_reply w rq
                  [(t, audit (fresh_uuid w s) (w_now w) t User action None None)] t s of
             (Inl e, s') \<Rightarrow> ((Err e, None), s')
           | (Inr resp, s') \<Rightarrow> ((Ok resp, launch), s'))))"

definition task_planning_request :: "world \<Rightarrow> task_request \<Rightarrow> runtime \<Rightarrow>
    ((task_response tres \<times> task_plan_launch option) \<times> runtime) option" where
  "task_planning_request w rq s =
     map_option (\<lambda>i. planning_run w rq i s) (planning_target (rq_operation rq))"

section \<open>The end of a job\<close>

definition job_running :: "uuid \<Rightarrow> task \<Rightarrow> bool" where
  "job_running i t =
     is_some_and (pl_job (t_planning t)) (\<lambda>j. pj_id j = i \<and> pj_status j = ''running'')"

text \<open>What the planner polls while it works.\<close>

definition plan_active :: "project_id \<Rightarrow> task_id \<Rightarrow> uuid \<Rightarrow> runtime \<Rightarrow> bool" where
  "plan_active pid tid i s = (any_project (\<lambda>p. p_id p = pid \<and> p_archived_at p = None) s
     \<and> is_some_and (hm_get (rt_tasks s) tid) (\<lambda>t. \<not> t_archived t \<and> job_running i t))"

definition plan_failure :: string where
  "plan_failure = ''Could not generate a plan. Check your Codex sign-in and model, then retry.''"

text \<open>A user's edit is never overwritten, even one made while the plan was generated.\<close>

definition ended_plan :: "time \<Rightarrow> bool \<Rightarrow> (string, string) result \<Rightarrow> task_plan_job \<Rightarrow> task \<Rightarrow> task"
where
  "ended_plan now editable r j t = (let j = j\<lparr>pj_finished_at := Some now\<rparr> in case r of
      Inr plan \<Rightarrow>
        set_job (j\<lparr>pj_status := ''completed'', pj_result := Some plan\<rparr>)
          (if editable \<and> pl_text (t_planning t) = pj_previous_plan j
           then t\<lparr>t_planning := (t_planning t)\<lparr>pl_text := plan\<rparr>\<rparr> else t)
    | Inl _ \<Rightarrow> set_job (j\<lparr>pj_status := ''failed'', pj_error := Some plan_failure\<rparr>) t)"

definition unsaved_message :: "string option \<Rightarrow> string" where
  "unsaved_message r = (if r \<noteq> None
     then ''Could not save the plan. Your result is available below; use it and save again.''
     else ''Could not save planning status. Please try again.'')"

text \<open>When the outcome cannot be saved, it is shown as failed in memory only, the text put back.\<close>

definition unsaved_plan :: "string \<Rightarrow> task \<Rightarrow> task" where
  "unsaved_plan old t = t\<lparr>t_planning := (t_planning t)\<lparr>pl_text := old, pl_job :=
     map_option (\<lambda>j. j\<lparr>pj_status := ''failed'', pj_error := Some (unsaved_message (pj_result j))\<rparr>)
       (pl_job (t_planning t))\<rparr>\<rparr>"

definition finish_task_plan :: "world \<Rightarrow> task_id \<Rightarrow> uuid \<Rightarrow> (string, string) result \<Rightarrow> runtime \<Rightarrow>
    runtime" where
  "finish_task_plan w tid i r s = (case hm_get (rt_tasks s) tid of None \<Rightarrow> s
    | Some old \<Rightarrow>
        (case opt_filter (\<lambda>j. pj_id j = i \<and> pj_status j = ''running'') (pl_job (t_planning old)) of
           None \<Rightarrow> s
         | Some j \<Rightarrow>
             (let t = touch (w_now w) (ended_plan (w_now w) (\<not> planning_frozen s old) r j old);
                  change = (t, audit (fresh_uuid w s) (w_now w) t Daemon ''plan_finished'' None None)
              in case with_store (save_task_changes [change] None None) (drawn s) of
                   (Inl _, s') \<Rightarrow> (let t = unsaved_plan (pl_text (t_planning old)) t in
                     broadcast w (TaskChanged t)
                       (s'\<lparr>rt_tasks := hm_insert (t_id t) t (rt_tasks s')\<rparr>))
                 | (Inr _, s') \<Rightarrow> publish_tasks w [change] s')))"

text \<open>\<open>spawned\<close>: whether the thread could be started; its end comes later.\<close>

definition launch_task_plan :: "world \<Rightarrow> bool \<Rightarrow> task_id \<Rightarrow> task_plan_launch \<Rightarrow> runtime \<Rightarrow> runtime" where
  "launch_task_plan w spawned tid launch s =
     (if spawned then s
      else finish_task_plan w tid (pj_id (tl_job launch)) (Err ''Could not start planning'') s)"

end
