(* ===== verification/Acceptance_Config.thy ===== *)
theory Acceptance_Config
  imports Task_Workflow
begin

text \<open>
  What an acceptance contract may ask for: the validation of \<open>crates/ditch_core/src/acceptance.rs\<close>.
  Paths of checks are relative and stay below the project; commands, labels, criteria and budgets
  are bounded.
\<close>

section \<open>Paths\<close>

text \<open>\<open>std::path::Path::components\<close> on Unix: repeated separators and inner dots are skipped.\<close>

datatype component = RootDir | CurDir | ParentDir | NormalDir string

fun component_of :: "string \<Rightarrow> component option" where
  "component_of [] = None"
| "component_of name = (if name = ''.'' then None
     else if name = ''..'' then Some ParentDir else Some (NormalDir name))"

definition path_pieces :: "string \<Rightarrow> component list" where
  "path_pieces p = List.map_filter component_of (split_byte (CHR ''/'') p)"

definition path_components :: "string \<Rightarrow> component list" where
  "path_components p =
     (if starts_with p ''/'' then RootDir # path_pieces p
      else if hd (split_byte (CHR ''/'') p) = ''.'' then CurDir # path_pieces p
      else path_pieces p)"

fun inside :: "component \<Rightarrow> bool" where
  "inside (NormalDir _) = True"
| "inside CurDir = True"
| "inside _ = False"

definition path_message :: string where
  "path_message = ''Validator path must stay inside the registered project''"

definition relative_check_path :: "string \<Rightarrow> (unit, string) result" where
  "relative_check_path p =
     (if p = [] \<or> 1024 < length p
        \<or> list_ex (\<lambda>c. c \<in> {CHR 0x5C, CHR 0x00, CHR 0x0A, CHR 0x0D}) p
        \<or> list_ex (\<lambda>c. \<not> inside c) (path_components p)
      then Err path_message else Ok ())"

section \<open>Commands and contracts\<close>

definition command_message :: string where
  "command_message = ''Validator requires fixed argv and a 1'' @ en_dash @ ''300 second timeout''"

definition validate_command :: "command_check \<Rightarrow> (unit, string) result" where
  "validate_command c = (let argv = cc_argv c in
     if 16384 < sum_list (List.map length argv) \<or> argv = [] \<or> 64 < length argv
        \<or> list_ex (\<lambda>v. CHR 0x00 \<in> set v \<or> 4096 < length v) argv
        \<or> hd argv = [] \<or> \<not> (1 \<le> cc_timeout_seconds c \<and> cc_timeout_seconds c \<le> 300)
     then Err command_message
     else relative_check_path (cc_cwd c))"

definition validate_kind :: "criterion_kind \<Rightarrow> (unit, string) result" where
  "validate_kind k = (case k of
      Command c \<Rightarrow> validate_command c
    | File path predicate \<Rightarrow> res_bind (relative_check_path path) (\<lambda>_.
        (case predicate of
           Contains v \<Rightarrow> if 4096 < length v then Err ''Content predicate exceeds 4 KiB'' else Ok ()
         | NotContains v \<Rightarrow> if 4096 < length v then Err ''Content predicate exceeds 4 KiB'' else Ok ()
         | _ \<Rightarrow> Ok ()))
    | Git (ChangedPath p) \<Rightarrow> relative_check_path p
    | Git (ForbiddenPath p) \<Rightarrow> relative_check_path p
    | TestPreset name \<Rightarrow>
        if name = [] \<or> 128 < length name then Err ''Invalid preset name'' else Ok ()
    | _ \<Rightarrow> Ok ())"

text \<open>The loop over the criteria, with the identifiers seen so far.\<close>

fun validate_criteria :: "uuid list \<Rightarrow> acceptance_criterion list \<Rightarrow> (unit, string) result" where
  "validate_criteria seen [] = Ok ()"
| "validate_criteria seen (c # cs) =
     (if ac_id c \<in> set seen \<or> blank (ac_label c) \<or> 512 < length (ac_label c)
      then Err ''Criteria need unique IDs and bounded labels''
      else res_bind (validate_kind (ac_kind c)) (\<lambda>_. validate_criteria (hs_insert (ac_id c) seen) cs))"

definition policy_message :: string where
  "policy_message = ''Use 1'' @ en_dash @ ''10 attempts, a deadline of 1'' @ en_dash @
     ''86400 seconds, validator timeouts of 1'' @ en_dash @
     ''300 seconds and at most 16 criteria. Permission denial always stops the loop.''"

definition validate_config :: "acceptance_config \<Rightarrow> (unit, string) result" where
  "validate_config cfg = (let p = cfg_policy cfg in
     if \<not> (1 \<le> lp_max_attempts p \<and> lp_max_attempts p \<le> 10)
        \<or> \<not> (1 \<le> lp_deadline_seconds p \<and> lp_deadline_seconds p \<le> 86400)
        \<or> \<not> (1 \<le> lp_validator_timeout_seconds p \<and> lp_validator_timeout_seconds p \<le> 300)
        \<or> \<not> lp_stop_on_denial p \<or> 16 < length (cfg_criteria cfg)
     then Err policy_message
     else validate_criteria [] (cfg_criteria cfg))"

section \<open>Execution reports\<close>

text \<open>
  A report permits submission for human review; it never proves acceptance. \<open>parse\<close> is the JSON
  decoder of the report's type, which refuses unknown fields.
\<close>

record execution_report =
  er_summary :: string
  er_changes :: "string list"
  er_checks :: "string list"
  er_remaining_work :: "string list"

definition execution_report_ready :: "(string \<Rightarrow> execution_report option) \<Rightarrow> string option \<Rightarrow> bool" where
  "execution_report_ready parse summary =
     is_some_and (Option.bind (opt_filter (\<lambda>s. length s \<le> 65536) summary) parse) (\<lambda>r.
       \<not> blank (er_summary r) \<and> length (er_summary r) \<le> 16384
       \<and> length (er_changes r) \<le> 100 \<and> length (er_checks r) \<le> 100
       \<and> list_all (\<lambda>v. \<not> blank v \<and> length v \<le> 4096) (er_changes r @ er_checks r)
       \<and> (er_changes r \<noteq> [] \<or> er_checks r \<noteq> []) \<and> er_remaining_work r = [])"

section \<open>Validated contracts\<close>

lemma relative_check_path_Ok: "relative_check_path p = Inr u \<longleftrightarrow>
    p \<noteq> [] \<and> length p \<le> 1024 \<and> (\<forall>c \<in> set p. c \<notin> {CHR 0x5C, CHR 0x00, CHR 0x0A, CHR 0x0D})
    \<and> (\<forall>c \<in> set (path_components p). inside c)"
  by (auto simp: relative_check_path_def list_ex_iff simp del: insert_iff)

text \<open>Lexical resolution of a path below a directory; \<open>..\<close> leaves the directory above.\<close>

fun walk :: "string list \<Rightarrow> component list \<Rightarrow> string list" where
  "walk dir [] = dir"
| "walk dir (RootDir # cs) = walk [] cs"
| "walk dir (CurDir # cs) = walk dir cs"
| "walk dir (ParentDir # cs) = walk (butlast dir) cs"
| "walk dir (NormalDir name # cs) = walk (dir @ [name]) cs"

lemma walk_inside: "\<forall>c \<in> set cs. inside c \<Longrightarrow> \<exists>below. walk dir cs = dir @ below"
proof (induction dir cs rule: walk.induct)
  case (5 dir name cs)
  then obtain below where "walk (dir @ [name]) cs = (dir @ [name]) @ below" by auto
  then show ?case by simp
qed auto

definition kind_ok :: "criterion_kind \<Rightarrow> bool" where
  "kind_ok k \<longleftrightarrow> validate_kind k = Ok ()"

lemma validate_criteria_Ok:
  "validate_criteria seen cs = Inr u \<longleftrightarrow> distinct (List.map ac_id cs) \<and> set seen \<inter> ac_id ` set cs = {}
    \<and> (\<forall>c \<in> set cs. \<not> blank (ac_label c) \<and> length (ac_label c) \<le> 512 \<and> kind_ok (ac_kind c))"
  by (induction seen cs rule: validate_criteria.induct)
    (auto simp: res_bind_Ok_iff kind_ok_def not_less)

lemma validate_config_Ok:
  "validate_config cfg = Inr u \<longleftrightarrow> lp_max_attempts (cfg_policy cfg) \<in> {1..10}
    \<and> lp_deadline_seconds (cfg_policy cfg) \<in> {1..86400}
    \<and> lp_validator_timeout_seconds (cfg_policy cfg) \<in> {1..300}
    \<and> lp_stop_on_denial (cfg_policy cfg) \<and> length (cfg_criteria cfg) \<le> 16
    \<and> validate_criteria [] (cfg_criteria cfg) = Inr u"
  by (auto simp: validate_config_def Let_def)

lemma validate_command_Ok:
  "validate_command c = Inr u \<Longrightarrow> cc_argv c \<noteq> [] \<and> hd (cc_argv c) \<noteq> [] \<and> length (cc_argv c) \<le> 64
    \<and> sum_list (List.map length (cc_argv c)) \<le> 16384 \<and> cc_timeout_seconds c \<in> {1..300}
    \<and> relative_check_path (cc_cwd c) = Inr u"
  by (auto simp: validate_command_def Let_def split: if_splits)

text \<open>The paths a criterion names.\<close>

fun criterion_paths :: "criterion_kind \<Rightarrow> string list" where
  "criterion_paths (Command c) = [cc_cwd c]"
| "criterion_paths (File p _) = [p]"
| "criterion_paths (Git (ChangedPath p)) = [p]"
| "criterion_paths (Git (ForbiddenPath p)) = [p]"
| "criterion_paths _ = []"

lemma kind_ok_paths: "kind_ok k \<Longrightarrow> p \<in> set (criterion_paths k) \<Longrightarrow> relative_check_path p = Inr ()"
  by (cases k rule: criterion_paths.cases)
    (auto simp: kind_ok_def validate_kind_def res_bind_Ok_iff dest: validate_command_Ok)

section \<open>Properties\<close>


definition sample_contract :: acceptance_config where
  "sample_contract = \<lparr>cfg_policy = default_loop_policy, cfg_criteria =
     [\<lparr>ac_id = 1, ac_label = ''l'', ac_required = True, ac_kind = File ''src/a'' Exists\<rparr>]\<rparr>"

lemma sample_contract_Ok: "validate_config sample_contract = Inr ()"
proof -
  have "\<not> blank ''l''" unfolding blank_iff by code_simp
  moreover have "relative_check_path ''src/a'' = Inr ()" by code_simp
  ultimately show ?thesis
    by (simp add: validate_config_def sample_contract_def default_loop_policy_def validate_kind_def)
qed


end
