(* ===== verification/Task_Requests.thy ===== *)
theory Task_Requests
  imports Task_Planning Writer_Lease Acceptance_Config
begin

text \<open>
  The requests that create, edit, move, start, link and delete tasks of a board:
  \<open>prepare_task_request\<close> of \<open>crates/ditchd/src/task_runtime.rs\<close>. A start and a plan to generate are
  handed to other threads once the lock is released, so they are part of the answer.
\<close>

section \<open>Members of a board\<close>

definition dedup :: "'a list \<Rightarrow> 'a list" where
  \<comment> \<open>keeps first occurrences\<close>
  "dedup xs = List.rev (remdups (List.rev xs))"

definition available :: "project_id \<Rightarrow> runtime \<Rightarrow> bool" where
  "available i s = any_project (\<lambda>p. p_id p = i \<and> p_archived_at p = None) s"

definition board_projects :: "task_request \<Rightarrow> project_id list option \<Rightarrow> runtime \<Rightarrow>
    task_response tres \<times> runtime" where
  "board_projects rq members s = (case rq_project_id rq of
      None \<Rightarrow> (Err (TaskError InvalidInput ''Select the parent board''), s)
    | Some parent \<Rightarrow>
   if \<not> available parent s
   then (Err (TaskError NotFound ''Board project is unavailable''), s)
   else (case members of
       Some ids \<Rightarrow>
         if 64 < length ids \<or> list_ex (\<lambda>i. i = parent \<or> \<not> available i s) ids
         then (Err (TaskError InvalidInput ''Choose up to 64 available subprojects''), s)
         else (case with_store (set_setting (BoardProjectsKey parent) (SvBoardProjects (dedup ids))) s of
             (Inl e, s') \<Rightarrow> (Err (storage_error e), s')
           | (Inr _, s') \<Rightarrow> (Ok (RBoardProjects (dedup ids)), s'))
     | None \<Rightarrow>
         (case setting (BoardProjectsKey parent) (rt_store s) of
            None \<Rightarrow> (Ok (RBoardProjects []), s)
          | Some (SvBoardProjects ids) \<Rightarrow> (Ok (RBoardProjects ids), s)
          | Some _ \<Rightarrow> (Err (TaskError Storage (''Invalid board membership: '' @ decode_error)), s))))"

section \<open>The order of a column\<close>

definition card_key :: "task \<Rightarrow> int \<times> task_id" where
  "card_key t = (t_order_key t, t_id t)"

definition list_tasks :: "project_id option \<Rightarrow> task_column option \<Rightarrow> bool \<Rightarrow> runtime \<Rightarrow> task list" where
  "list_tasks pid col include_archived s = sort_key card_key (List.filter
     (\<lambda>t. (pid = None \<or> pid = Some (t_project_id t)) \<and> (col = None \<or> col = Some (column t))
        \<and> (include_archived \<or> \<not> t_archived t)) (hm_values (rt_tasks s)))"

definition max_order :: "runtime \<Rightarrow> int" where
  "max_order s = (case List.map t_order_key (hm_values (rt_tasks s)) of
     [] \<Rightarrow> 0 | k # ks \<Rightarrow> fold max ks k)"

section \<open>New tasks\<close>

definition new_backlog_task :: "uuid \<Rightarrow> time \<Rightarrow> project_id \<Rightarrow> task_draft \<Rightarrow> int \<Rightarrow> bool \<Rightarrow> task tres" where
  "new_backlog_task i now pid draft order pending = res_bind (new_task i now pid draft order)
     (\<lambda>t. Ok (t\<lparr>t_state := TsBacklog, t_remote_pending := pending\<rparr>))"

definition user_binding :: "time \<Rightarrow> skill_binding \<Rightarrow> skill_binding" where
  "user_binding now b = b\<lparr>sb_origin := User, sb_reason := None, sb_created_at := now\<rparr>"

definition identified :: "runtime \<Rightarrow> task_operation \<Rightarrow> task \<Rightarrow> task tres" where
  "identified s op t = (case op of
      CreateIdentified _ i grp cont _ \<Rightarrow>
        if hm_contains (rt_tasks s) i
        then Err (TaskError IdempotencyConflict ''Task identity already exists'')
        else Ok (t\<lparr>t_id := i, t_coordinator_group := grp, t_continue_agent_id := cont,
               t_creator := (if grp \<noteq> None then Ditchmaster else t_creator t)\<rparr>)
    | _ \<Rightarrow> Ok t)"

text \<open>A board task of another machine is taken over only while it is fresh and asks for no commands.\<close>

definition fresh_board_task :: "project_id \<Rightarrow> task_draft \<Rightarrow> task \<Rightarrow> task \<Rightarrow> bool" where
  "fresh_board_task pid draft t inc \<longleftrightarrow>
     t_id inc = t_id t \<and> t_project_id inc = pid
     \<and> t_title inc = d_title draft \<and> t_description inc = d_description draft
     \<and> t_acceptance_criteria inc = d_acceptance_criteria draft \<and> t_skills inc = d_skills draft
     \<and> t_priority inc = d_priority draft \<and> t_coordinator_group inc = t_coordinator_group t
     \<and> t_continue_agent_id inc = t_continue_agent_id t \<and> t_remote_pending inc
     \<and> column inc = Todo \<and> t_condition inc = TcIdle \<and> \<not> t_archived inc
     \<and> t_assigned_agent_id inc = None \<and> acc_attempts (t_acceptance inc) = []
     \<and> acc_submissions (t_acceptance inc) = [] \<and> acc_current_submission (t_acceptance inc) = None
     \<and> t_revision inc \<noteq> 0
     \<and> list_all (\<lambda>c. ac_kind c = Human) (cfg_criteria (acc_config (t_acceptance inc)))"

definition adopted :: "project_id \<Rightarrow> task_draft \<Rightarrow> task_operation \<Rightarrow> task \<Rightarrow> (task \<times> bool) tres" where
  "adopted pid draft op t = (case op of
      CreateIdentified (Some inc) _ _ _ _ \<Rightarrow>
        res_bind (map_err (TaskError InvalidInput) (validate_config (acc_config (t_acceptance inc)))) (\<lambda>_.
          if fresh_board_task pid draft t inc then Ok (inc\<lparr>t_remote_pending := False\<rparr>, True)
          else Err (TaskError InvalidInput
            ''Only a fresh, approved board task with human criteria can be materialized''))
    | _ \<Rightarrow> Ok (t, False))"

definition created_task :: "world \<Rightarrow> runtime \<Rightarrow> project \<Rightarrow> task_draft \<Rightarrow> task_operation \<Rightarrow> task tres" where
  "created_task w s p draft op = (let order = saturating_add_i64 (max_order s) 1024 in
     res_bind (case op of
         CreateBacklog _ \<Rightarrow> new_backlog_task (fresh_uuid w s) (w_now w) (p_id p) draft order
           (is_remote p \<and> \<not> rt_remote_runtime s)
       | _ \<Rightarrow> new_task (fresh_uuid w s) (w_now w) (p_id p) draft order) (\<lambda>t.
     res_bind (identified s op t) (\<lambda>t.
     res_bind (adopted (p_id p) draft op t) (\<lambda>(t, board).
       Ok (if board then t
           else t\<lparr>t_skills := List.map (user_binding (w_now w)) (t_skills t)\<rparr>)))))"

definition create_run :: "world \<Rightarrow> task_request \<Rightarrow> project \<Rightarrow> task_draft \<Rightarrow> runtime \<Rightarrow>
    task_response tres \<times> runtime" where
  "create_run w rq p draft s = (case created_task w s p draft (rq_operation rq) of
      Inl e \<Rightarrow> (Err e, s)
    | Inr t \<Rightarrow> save_reply w rq
        [(t, audit (fresh_uuid w (drawn s)) (w_now w) t User ''create'' None None)] t (drawn s))"

section \<open>Edits\<close>

text \<open>What an operation makes of an idle task, and what else it wants saved or started.\<close>

record task_edit =
  ed_next :: task
  ed_audit :: task_audit
  ed_others :: "(task \<times> task_audit) list"
  ed_linked :: "agent_run option"
  ed_start :: "(task \<times> project \<times> agent_execution_profile) option"

definition plain_edit :: "task \<times> task_audit \<Rightarrow> task_edit" where
  "plain_edit c = \<lparr>ed_next = fst c, ed_audit = snd c, ed_others = [], ed_linked = None, ed_start = None\<rparr>"

definition edit_update :: "world \<Rightarrow> runtime \<Rightarrow> task \<Rightarrow> task_draft \<Rightarrow> task_edit tres" where
  "edit_update w s t draft = res_bind (validate_draft draft) (\<lambda>_.
     if t_archived t \<or> column t = Done
     then Err (TaskError IllegalTransition ''Reopen the task before editing it.'')
     else if column t = InReview
     then Err (TaskError IllegalTransition ''Request Changes before editing a review submission.'')
     else (let next = touch (w_now w) (t\<lparr>t_skills := List.map (user_binding (w_now w)) (d_skills draft),
              t_title := trim (d_title draft), t_description := d_description draft,
              t_issue_kind := d_issue_kind draft, t_acceptance_criteria := d_acceptance_criteria draft,
              t_priority := d_priority draft\<rparr>)
       in Ok (plain_edit (next, audit (fresh_uuid w s) (w_now w) next User ''update'' (Some (column t)) None))))"

definition user_transition :: "world \<Rightarrow> runtime \<Rightarrow> task \<Rightarrow> task_action \<Rightarrow> (task \<times> task_audit) tres" where
  "user_transition w s t action =
     transition (fresh_uuid w s) (w_now w) t action User (t_revision t) False"

subsection \<open>Moving a card\<close>

text \<open>Review and acceptance always use their explicit, evidence-bearing actions.\<close>

fun move_action :: "task_column \<Rightarrow> task_column \<Rightarrow> task_action tres" where
  "move_action Backlog Todo = Ok Prioritize"
| "move_action Todo Backlog = Ok ReturnToBacklog"
| "move_action Todo InProgress =
     Err (TaskError IllegalTransition ''Use Run selected or Start Task Agent to begin execution.'')"
| "move_action InProgress Todo = Ok (ReturnToTodo ''Moved back to Todo by user'')"
| "move_action _ _ = Err (TaskError IllegalTransition
     ''Use Submit for Review, Request Changes, Accept, or Reopen for this move.'')"

definition moved_card :: "world \<Rightarrow> runtime \<Rightarrow> task \<Rightarrow> task_column \<Rightarrow> (task \<times> task_audit) tres" where
  "moved_card w s t col =
     (if col = column t
      then (let next = touch (w_now w) t in
        Ok (next, audit (fresh_uuid w s) (w_now w) next User ''reorder'' (Some (column t)) None))
      else res_bind (move_action (column t) col) (user_transition w s t))"

definition move_siblings :: "runtime \<Rightarrow> task \<Rightarrow> project_id \<Rightarrow> task_column \<Rightarrow> task list" where
  "move_siblings s t pid col = sort_key card_key (List.filter
     (\<lambda>u. t_id u \<noteq> t_id t \<and> t_project_id u = pid \<and> column u = col \<and> \<not> t_archived u)
     (hm_values (rt_tasks s)))"

definition move_index :: "task list \<Rightarrow> task_id option \<Rightarrow> nat tres" where
  "move_index siblings before = (case before of
      None \<Rightarrow> Ok (length siblings)
    | Some b \<Rightarrow> ok_or (TaskError RevisionConflict ''The destination card moved. Refresh the board.'')
        (position (\<lambda>u. t_id u = b) siblings))"

definition gap_low :: "task list \<Rightarrow> nat \<Rightarrow> int" where
  "gap_low siblings i = (if i = 0 then 0 else t_order_key (siblings ! (i - 1)))"

definition gap_high :: "task list \<Rightarrow> nat \<Rightarrow> int" where
  "gap_high siblings i = (if i < length siblings then t_order_key (siblings ! i)
     else saturating_add_i64 (gap_low siblings i) 2048)"

text \<open>Release builds wrap around.\<close>

definition midpoint :: "int \<Rightarrow> int \<Rightarrow> int" where
  "midpoint low high = wrap_i64 (low + rust_div (wrap_i64 (high - low)) 2)"

text \<open>Without a gap all keys of the column are dealt again, in steps of 1024.\<close>

fun rebalance :: "(nat \<Rightarrow> uuid) \<Rightarrow> time \<Rightarrow> nat \<Rightarrow> task \<Rightarrow> task list \<Rightarrow> task \<times> (task \<times> task_audit) list"
where
  "rebalance fresh now k next [] = (next, [])"
| "rebalance fresh now k next (u # us) = (let key = (int k + 1) * 1024 in
     if t_id u = t_id next then rebalance fresh now (Suc k) (next\<lparr>t_order_key := key\<rparr>) us
     else (let v = touch now (u\<lparr>t_order_key := key\<rparr>);
               (next, cs) = rebalance (\<lambda>n. fresh (Suc n)) now (Suc k) next us
           in (next, (v, audit (fresh 0) now v Daemon ''rebalance'' (Some (column v)) None) # cs)))"

definition place_card :: "(nat \<Rightarrow> uuid) \<Rightarrow> time \<Rightarrow> task list \<Rightarrow> nat \<Rightarrow> task \<Rightarrow>
    task \<times> (task \<times> task_audit) list" where
  "place_card fresh now siblings i next = (let low = gap_low siblings i; high = gap_high siblings i in
     if saturating_add_i64 low 1 < high then (next\<lparr>t_order_key := midpoint low high\<rparr>, [])
     else rebalance fresh now 0 next (insert_at i next siblings))"

definition edit_move :: "world \<Rightarrow> runtime \<Rightarrow> task \<Rightarrow> project_id \<Rightarrow> task_column \<Rightarrow> task_id option \<Rightarrow>
    task_edit tres" where
  "edit_move w s t pid col before =
     (if t_archived t then Err (TaskError IllegalTransition ''Reopen this task before moving it.'')
      else res_bind (moved_card w s t col) (\<lambda>(next, au).
        let siblings = move_siblings s t pid col in
        res_bind (move_index siblings before) (\<lambda>i.
        let (next, others) = place_card (\<lambda>n. w_uuid w (rt_draws s + 1 + n)) (w_now w) siblings i next in
          Ok \<lparr>ed_next = next, ed_audit = au, ed_others = others, ed_linked = None, ed_start = None\<rparr>)))"

subsection \<open>Starting and linking\<close>

definition edit_start :: "world \<Rightarrow> runtime \<Rightarrow> task \<Rightarrow> project \<Rightarrow> agent_execution_profile \<Rightarrow>
    task_edit tres" where
  "edit_start w s t p profile = res_bind (user_transition w s t Start) (\<lambda>(next, au).
     res_bind (map_err (TaskError InvalidInput) (continuation_thread s t profile)) (\<lambda>_.
       let owner = unwrap_or (w_uuid w (rt_draws s + 1)) (t_continue_agent_id t);
           next = next\<lparr>t_assigned_agent_id := Some owner, t_condition := TcQueued\<rparr>
       in Ok \<lparr>ed_next = next, ed_audit = au\<lparr>au_agent_id := Some owner\<rparr>, ed_others = [],
              ed_linked = None, ed_start = Some (next, p, profile)\<rparr>))"

definition agent_unlinkable :: "runtime \<Rightarrow> project_id \<Rightarrow> agent_id \<Rightarrow> agent_run \<Rightarrow> bool" where
  "agent_unlinkable s pid i run =
     (ar_project_id run \<noteq> pid \<or> ar_task_id run \<noteq> None \<or> ar_can_stop run
      \<or> agent_running (ar_state run) \<or> hm_contains (rt_children s) i
      \<or> hm_contains (rt_writer_leases s) i)"

definition edit_link :: "world \<Rightarrow> runtime \<Rightarrow> task \<Rightarrow> project_id \<Rightarrow> agent_id \<Rightarrow> task_edit tres" where
  "edit_link w s t pid i = (case hm_get (rt_agents s) i of
      None \<Rightarrow> Err (TaskError NotFound ''Agent not found.'')
    | Some r \<Rightarrow> (let run = rec_run r in
        if agent_unlinkable s pid i run
        then Err (TaskError AgentBusy ''Choose an unlinked idle agent in this project.'')
        else res_bind (user_transition w s t Start) (\<lambda>(next, _).
          if t_coordinator_group t \<noteq> ar_coordinator_group run
          then Err (TaskError InvalidInput ''Task and agent ownership must match'')
          else (let next = next\<lparr>t_assigned_agent_id := Some i\<rparr> in
            Ok \<lparr>ed_next = next,
                ed_audit = audit (w_uuid w (rt_draws s + 1)) (w_now w) next User ''link'' (Some (column t)) None,
                ed_others = [], ed_linked = Some (run\<lparr>ar_task_id := Some (t_id t)\<rparr>),
                ed_start = None\<rparr>))))"

definition edit_task :: "world \<Rightarrow> runtime \<Rightarrow> task_operation \<Rightarrow> task \<Rightarrow> project \<Rightarrow> task_edit tres" where
  "edit_task w s op t p = (case op of
      Update _ _ draft \<Rightarrow> edit_update w s t draft
    | Transition _ _ action \<Rightarrow> res_bind (user_transition w s t action) (\<lambda>c. Ok (plain_edit c))
    | Move _ _ col before \<Rightarrow> edit_move w s t (p_id p) col before
    | StartTask _ _ profile \<Rightarrow> edit_start w s t p profile
    | Link _ _ i \<Rightarrow> edit_link w s t (p_id p) i
    | _ \<Rightarrow> Err illegal_transition)"

section \<open>Committing an edit\<close>

text \<open>Returning to Todo unlocks the selection of an agent but keeps the last real conversation.\<close>

definition queue_settled :: "runtime \<Rightarrow> task \<Rightarrow> task \<Rightarrow> task" where
  "queue_settled s t next =
     (if t_execution_queue t \<noteq> None \<and> column next = Todo
      then (let selected = opt_filter (hm_contains (rt_agents s))
              (opt_or (opt_or (Option.bind (t_execution_queue t) q_agent_id) (t_continue_agent_id t))
                (t_assigned_agent_id t))
        in next\<lparr>t_continue_agent_id := selected, t_assigned_agent_id := selected,
             t_execution_queue := None, t_condition := TcIdle, t_last_reason := None\<rparr>)
      else if waiting_in_queue t \<and> column next \<noteq> InProgress
      then next\<lparr>t_execution_queue := None, t_condition := TcIdle, t_last_reason := None\<rparr>
      else next)"

type_synonym prepared =
  "task_response \<times> (task \<times> project \<times> agent_execution_profile) option \<times> task_plan_launch option"

text \<open>An edit uses at most two identifiers besides those of the other cards it changes.\<close>

definition planned_edit :: "world \<Rightarrow> task \<Rightarrow> project \<Rightarrow> task_edit \<Rightarrow> runtime \<Rightarrow>
    task \<times> task_plan_launch option \<times> runtime" where
  "planned_edit w t p e s = (let next = queue_settled s t (ed_next e);
       s = s\<lparr>rt_draws := rt_draws s + length (ed_others e) + 2\<rparr>
     in if column t = Backlog \<and> column next = Todo then prepare_automatic_task_plan w p next s
        else (next, None, s))"

definition commit_edit :: "world \<Rightarrow> task_request \<Rightarrow> task \<Rightarrow> project \<Rightarrow> task_edit \<Rightarrow> runtime \<Rightarrow>
    prepared tres \<times> runtime" where
  "commit_edit w rq t p e s0 = (case planned_edit w t p e s0 of (next, launch, s) \<Rightarrow>
     (let changes = ed_others e @ [(next, ed_audit e)] in
      case with_store (save_task_changes changes (Some (rq, RChanged next)) (ed_linked e)) s of
        (Inl x, s') \<Rightarrow> (Err (storage_error x), s')
      | (Inr _, s') \<Rightarrow>
          (let s1 = (case ed_linked e of None \<Rightarrow> s' | Some run \<Rightarrow> update_agents w [run] s');
               s2 = publish_tasks w changes s1;
               s3 = (if column next = InReview then task_attention w next s2 else s2)
           in (Ok (RChanged next, ed_start e, launch), s3))))"

definition delete_run :: "world \<Rightarrow> task_request \<Rightarrow> task \<Rightarrow> runtime \<Rightarrow> task_response tres \<times> runtime" where
  "delete_run w rq t s = (case with_store (delete_draft_task t rq) s of
      (Inl e, s') \<Rightarrow> (Err (TaskError HasHistory (store_message e)), s')
    | (Inr _, s') \<Rightarrow> (Ok (RDeleted (t_id t)),
        broadcast w (TaskDeleted (t_id t) (t_project_id t))
          (s'\<lparr>rt_tasks := hm_remove (t_id t) (rt_tasks s')\<rparr>)))"

section \<open>The request\<close>

definition request_target :: "task_operation \<Rightarrow> (task_id \<times> u64 option) option" where
  "request_target op = (case op of
      Get i \<Rightarrow> Some (i, None)
    | Update i rv _ \<Rightarrow> Some (i, Some rv)
    | Transition i rv _ \<Rightarrow> Some (i, Some rv)
    | Move i rv _ _ \<Rightarrow> Some (i, Some rv)
    | StartTask i rv _ \<Rightarrow> Some (i, Some rv)
    | Link i rv _ \<Rightarrow> Some (i, Some rv)
    | Delete i rv \<Rightarrow> Some (i, Some rv)
    | _ \<Rightarrow> None)"

definition request_task :: "project_id \<Rightarrow> task_operation \<Rightarrow> runtime \<Rightarrow> task tres" where
  "request_task pid op s = (case request_target op of
      None \<Rightarrow> Err illegal_transition
    | Some (i, expected) \<Rightarrow>
        (case opt_filter (\<lambda>t. t_project_id t = pid) (hm_get (rt_tasks s) i) of
           None \<Rightarrow> Err (TaskError NotFound ''Task not found in this project.'')
         | Some t \<Rightarrow> (case expected of None \<Rightarrow> Ok t
             | Some rv \<Rightarrow> res_bind (check_revision t rv) (\<lambda>_. Ok t))))"

definition draft_of :: "task_operation \<Rightarrow> task_draft option" where
  "draft_of op = (case op of
      CreateBacklog d \<Rightarrow> Some d | Create d \<Rightarrow> Some d | CreateIdentified _ _ _ _ d \<Rightarrow> Some d
    | _ \<Rightarrow> None)"

definition just :: "task_response tres \<times> runtime \<Rightarrow> prepared tres \<times> runtime" where
  "just r = (res_bind (fst r) (\<lambda>resp. Ok (resp, None, None)), snd r)"

text \<open>\<open>unreachable!()\<close> stands where \<open>request_task\<close> refuses an operation: no other one gets here.\<close>

definition task_operation_run :: "world \<Rightarrow> task_request \<Rightarrow> project \<Rightarrow> runtime \<Rightarrow>
    prepared tres \<times> runtime" where
  "task_operation_run w rq p s = (case draft_of (rq_operation rq) of
      Some draft \<Rightarrow> just (create_run w rq p draft s)
    | None \<Rightarrow>
        (case request_task (p_id p) (rq_operation rq) s of
           Inl e \<Rightarrow> (Err e, s)
         | Inr t \<Rightarrow>
             (case rq_operation rq of
                Get _ \<Rightarrow> (Ok (RDetail (load_task_detail t (rt_store s)), None, None), s)
              | _ \<Rightarrow>
                  if task_live s t
                  then (Err (TaskError AgentBusy
                         ''Stop the active task agent before changing this task.''), s)
                  else (case rq_operation rq of
                      Delete _ _ \<Rightarrow> just (delete_run w rq t s)
                    | _ \<Rightarrow> (case edit_task w s (rq_operation rq) t p of
                          Inl e \<Rightarrow> (Err e, s)
                        | Inr e \<Rightarrow> commit_edit w rq t p e s)))))"

definition replayable :: "task_operation \<Rightarrow> bool" where
  "replayable op = (case op of List _ _ \<Rightarrow> False | Get _ \<Rightarrow> False | _ \<Rightarrow> True)"

definition prepare_task_request :: "world \<Rightarrow> task_request \<Rightarrow> runtime \<Rightarrow> prepared tres \<times> runtime" where
  "prepare_task_request w rq s0 = (let s = reap_orphan_writers w s0 in
     case rq_operation rq of
       BoardProjects members \<Rightarrow> just (board_projects rq members s)
     | _ \<Rightarrow>
         (case (if replayable (rq_operation rq) then task_replay rq (rt_store s) else None) of
            Some resp \<Rightarrow> (Ok (resp, None, None), s)
          | None \<Rightarrow>
              (case rq_operation rq of
                 List col archived \<Rightarrow>
                   (Ok (RTasks (list_tasks (rq_project_id rq) col archived s), None, None), s)
               | _ \<Rightarrow>
                   (case rq_project_id rq of
                      None \<Rightarrow> (Err (TaskError InvalidInput ''A task action must name its project.''), s)
                    | Some pid \<Rightarrow>
                        (case project_by (\<lambda>p. p_id p = pid \<and> p_archived_at p = None) s of
                           None \<Rightarrow> (Err (TaskError NotFound ''Project not found.''), s)
                         | Some p \<Rightarrow> task_operation_run w rq p s)))))"

end
