(* ===== verification/Board_Order.thy ===== *)
theory Board_Order
  imports Board_Facts
begin

text \<open>
  The board's queue as an abstract sequence of task ids. Enqueueing appends, a claim removes the
  head, reordering moves one id in front of another; the concrete queue only stores a position in
  each task of the task map. The contract of a first-in first-out queue is the locale \<open>fifo\<close>,
  interpreted on the board's handlers.
\<close>

section \<open>The sequence a project's queue stands for\<close>

definition waiting_tasks :: "project_id \<Rightarrow> runtime \<Rightarrow> task list" where
  "waiting_tasks pid s = List.filter (\<lambda>t. t_project_id t = pid \<and> waiting_in_queue t)
     (hm_values (rt_tasks s))"

definition queue_tasks :: "project_id \<Rightarrow> runtime \<Rightarrow> task list" where
  "queue_tasks pid s = sort_key queue_position (waiting_tasks pid s)"

definition work_queue :: "project_id \<Rightarrow> runtime \<Rightarrow> task_id list" where
  "work_queue pid s = List.map t_id (queue_tasks pid s)"

definition queue_ok :: "project_id \<Rightarrow> runtime \<Rightarrow> bool" where
  "queue_ok pid s \<longleftrightarrow> hm_ok (rt_tasks s) \<and> hm_keyed t_id (rt_tasks s)
     \<and> distinct (List.map queue_position (waiting_tasks pid s))"

lemma queue_okD:
  assumes "queue_ok pid s"
  shows "hm_ok (rt_tasks s)" "hm_keyed t_id (rt_tasks s)"
    "sorted_wrt (<) (List.map queue_position (queue_tasks pid s))"
    "u \<in> set (queue_tasks pid s) \<longleftrightarrow>
       hm_get (rt_tasks s) (t_id u) = Some u \<and> t_project_id u = pid \<and> waiting_in_queue u"
proof -
  show ok: "hm_ok (rt_tasks s)" "hm_keyed t_id (rt_tasks s)" using assms by (auto simp: queue_ok_def)
  have "distinct (List.map queue_position (queue_tasks pid s))"
    using assms by (simp add: queue_ok_def queue_tasks_def distinct_map)
  then show "sorted_wrt (<) (List.map queue_position (queue_tasks pid s))"
    by (simp add: strict_sorted_iff queue_tasks_def)
  show "u \<in> set (queue_tasks pid s) \<longleftrightarrow>
       hm_get (rt_tasks s) (t_id u) = Some u \<and> t_project_id u = pid \<and> waiting_in_queue u"
    using hm.keyed_by_vals[OF ok, of u] hm_get_in_values[of "rt_tasks s" "t_id u" u]
    by (auto simp: queue_tasks_def waiting_tasks_def)
qed

lemma distinct_values:
  assumes "hm_ok m" and "hm_keyed t_id m"
  shows "distinct (hm_values m)"
proof -
  have "\<forall>(k, v) \<in> set m. t_id v = k"
    using assms by (auto simp: hm_ok_def hm_get_def hm.keyed_by_def)
  then have "List.map t_id (hm_values m) = List.map fst m" by (auto simp: hm_values_def)
  with assms(1) have "distinct (List.map t_id (hm_values m))" by (simp add: hm_ok_def)
  then show ?thesis by (simp add: distinct_map)
qed

lemma queue_tasks_eqI:
  assumes ok: "hm_ok (rt_tasks s)" "hm_keyed t_id (rt_tasks s)"
    and sorted: "sorted_wrt (<) (List.map queue_position us)"
    and mem: "\<And>u. u \<in> set us \<longleftrightarrow>
       hm_get (rt_tasks s) (t_id u) = Some u \<and> t_project_id u = pid \<and> waiting_in_queue u"
  shows "queue_ok pid s" and "work_queue pid s = List.map t_id us"
proof -
  have set: "set (waiting_tasks pid s) = set us"
    using hm.keyed_by_vals[OF ok] hm_get_in_values[of "rt_tasks s"] mem
    by (auto simp: waiting_tasks_def)
  have inj: "inj_on queue_position (set us)"
    using sorted by (simp add: strict_sorted_iff distinct_map)
  have "distinct (waiting_tasks pid s)" using distinct_values[OF ok] by (simp add: waiting_tasks_def)
  with set inj show k: "queue_ok pid s" using ok by (simp add: queue_ok_def distinct_map)
  have "List.map queue_position (queue_tasks pid s) = List.map queue_position us"
    by (rule strict_sorted_equal[OF queue_okD(3)[OF k] sorted, symmetric])
      (simp add: queue_tasks_def set)
  then have "queue_tasks pid s = us"
    by (rule map_inj_on) (use inj set in \<open>simp add: queue_tasks_def\<close>)
  then show "work_queue pid s = List.map t_id us" by (simp add: work_queue_def)
qed

section \<open>Entering, leaving and moving\<close>

lemma enters_back:
  assumes ok: "queue_ok pid s" and ins: "rt_tasks s' = hm_insert (t_id t') t' (rt_tasks s)"
    and old: "hm_get (rt_tasks s) (t_id t') = Some t" "\<not> waiting_in_queue t"
    and new: "t_project_id t' = pid" "waiting_in_queue t'"
    and pos: "\<And>u. u \<in> set (queue_tasks pid s) \<Longrightarrow> queue_position u < queue_position t'"
  shows "queue_ok pid s'" and "work_queue pid s' = work_queue pid s @ [t_id t']"
proof -
  note s = queue_okD[OF ok]
  have k: "hm_ok (rt_tasks s')" "hm_keyed t_id (rt_tasks s')"
    using s(1,2) by (simp_all add: ins hm.invar_ins hm.keyed_by_ins)
  have sorted: "sorted_wrt (<) (List.map queue_position (queue_tasks pid s @ [t']))"
    using s(3) pos by (auto simp: sorted_wrt_append)
  have mem: "u \<in> set (queue_tasks pid s @ [t']) \<longleftrightarrow>
       hm_get (rt_tasks s') (t_id u) = Some u \<and> t_project_id u = pid \<and> waiting_in_queue u" for u
    using s(4)[of u] old new by (auto simp: ins hm.get_ins)
  note q = queue_tasks_eqI[OF k sorted mem]
  from q show "queue_ok pid s'" "work_queue pid s' = work_queue pid s @ [t_id t']"
    by (simp_all add: work_queue_def)
qed

lemma first_waiting_head:
  assumes ok: "queue_ok pid s" and f: "first_waiting s pid = Some t"
  obtains us where "queue_tasks pid s = t # us"
proof -
  note s = queue_okD[OF ok]
  note w = first_waiting_Some[OF f]
  have "hm_get (rt_tasks s) (t_id t) = Some t" using hm.keyed_by_vals[OF s(1,2)] w(1) by simp
  with s(4) w have t: "t \<in> set (queue_tasks pid s)" by blast
  then obtain v us where q: "queue_tasks pid s = v # us" by (cases "queue_tasks pid s") auto
  have v: "v \<in> set (hm_values (rt_tasks s))" "t_project_id v = pid" "waiting_in_queue v"
    using s(4)[of v] q hm_get_in_values by force+
  have "v = t"
  proof (rule ccontr)
    assume "v \<noteq> t"
    with t q s(3) have "queue_position v < queue_position t" by auto
    with w(4) v show False by auto
  qed
  with q that show thesis by blast
qed

lemma leaves_front:
  assumes ok: "queue_ok pid s" and f: "first_waiting s pid = Some t"
    and ins: "rt_tasks s' = hm_insert (t_id t') t' (rt_tasks s)"
    and t': "t_id t' = t_id t" "\<not> waiting_in_queue t'"
  shows "queue_ok pid s'" and "work_queue pid s = t_id t # work_queue pid s'"
proof -
  note s = queue_okD[OF ok]
  obtain us where q: "queue_tasks pid s = t # us" using first_waiting_head[OF ok f] .
  have k: "hm_ok (rt_tasks s')" "hm_keyed t_id (rt_tasks s')"
    using s(1,2) by (simp_all add: ins hm.invar_ins hm.keyed_by_ins)
  have sorted: "sorted_wrt (<) (List.map queue_position us)" using s(3) q by simp
  have notin: "t \<notin> set us" using s(3) q by auto
  have old: "hm_get (rt_tasks s) (t_id t) = Some t" using s(4)[of t] q by simp
  have mem: "u \<in> set us \<longleftrightarrow>
       hm_get (rt_tasks s') (t_id u) = Some u \<and> t_project_id u = pid \<and> waiting_in_queue u" for u
  proof (cases "t_id u = t_id t")
    case True
    have "u \<notin> set us"
    proof
      assume u: "u \<in> set us"
      with s(4)[of u] q True old have "u = t" by simp
      with u notin show False by simp
    qed
    moreover have "hm_get (rt_tasks s') (t_id u) = Some u \<longrightarrow> u = t'"
      using True t' by (simp add: ins hm.get_ins)
    ultimately show ?thesis using t'(2) by blast
  next
    case False
    then have "u \<in> set us \<longleftrightarrow> u \<in> set (queue_tasks pid s)" using q by auto
    with s(4)[of u] False t'(1) show ?thesis by (simp add: ins hm.get_ins)
  qed
  note e = queue_tasks_eqI[OF k sorted mem]
  from e q show "queue_ok pid s'" "work_queue pid s = t_id t # work_queue pid s'"
    by (simp_all add: work_queue_def)
qed

text \<open>What a successful queue request did: its guard held, its operation produced the changes, and
  they are published.\<close>

lemma queue_run_Ok:
  assumes "queue_run w rq i rv s = (Inr (RChanged t'), s')" and "task_replay rq (rt_store s) = None"
    and "hm_keyed t_id (rt_tasks s)"
  obtains t cs runs where "hm_get (rt_tasks s) i = Some t" "t_id t = i"
    "Some (t_project_id t) = rq_project_id rq"
    "queue_operation w s t (rq_operation rq) = Inr (cs, runs, t')"
    "rt_tasks s' = fold (\<lambda>(u, _). hm_insert (t_id u) u) cs (rt_tasks s)"
    "\<And>j. hm_get (rt_tasks s') j = after_changes cs j (hm_get (rt_tasks s) j)"
proof -
  obtain x where x: "res_bind (queue_guard rq i rv s) (\<lambda>t. queue_operation w s t (rq_operation rq)) = Inr x"
    and c: "commit_queue w rq x s = (Inr (RChanged t'), s')"
    using assms(1,2) by (auto simp: queue_run_def split: sum.splits)
  obtain cs runs u where xx: "x = (cs, runs, u)" by (cases x)
  from x obtain t where g: "queue_guard rq i rv s = Inr t"
    and op: "queue_operation w s t (rq_operation rq) = Inr (cs, runs, u)"
    by (auto simp: res_bind_Ok_iff xx)
  from queue_guard_Ok[OF g] keyedD[OF assms(3)]
  have t: "hm_get (rt_tasks s) i = Some t" "t_id t = i" "Some (t_project_id t) = rq_project_id rq" by auto
  with queue_operation_quiet[OF op] have quiet: "\<forall>run \<in> set runs. quiet_link s run" by simp
  note cm = commit_queue_Ok[OF c[unfolded xx] quiet]
  from cm(1) have "u = t'" by simp
  with t op cm(2,4) that show thesis by blast
qed

lemma next_position_bound:
  assumes "next_position s t = Inr pos" and "u \<in> set (hm_values (rt_tasks s))"
    and "t_project_id u = t_project_id t" and "waiting_in_queue u"
  shows "queue_position u < pos"
proof -
  let ?xs = "List.map_filter (\<lambda>u. map_option q_position (t_execution_queue u))
    (List.filter (\<lambda>u. t_project_id u = t_project_id t) (hm_values (rt_tasks s)))"
  from assms(4) obtain q where q: "t_execution_queue u = Some q" by (auto simp: waiting_in_queue_def)
  with assms(2,3) have "queue_position u \<in> set ?xs"
    by (force simp: List.map_filter_def queue_position_def)
  then have "queue_position u \<le> max_or 0 ?xs" by (rule max_or_upper)
  with assms(1) show ?thesis
    by (auto simp: next_position_def checked_add_u64_def ok_or_def split: if_splits)
qed

lemma queue_tasks_waiting:
  assumes "u \<in> set (queue_tasks pid s)"
  shows "u \<in> set (hm_values (rt_tasks s))" "t_project_id u = pid" "waiting_in_queue u"
  using assms by (auto simp: queue_tasks_def waiting_tasks_def)

lemma enqueued_waits:
  "column t = Todo \<or> column t = InProgress \<Longrightarrow> \<not> t_archived t \<Longrightarrow>
     waiting_in_queue (touch n (enqueued s t prof pos)) \<and> queue_position (touch n (enqueued s t prof pos)) = pos"
  by (auto simp: enqueued_def Let_def waiting_in_queue_def queue_position_def column_def touch_def
    clear_submission_def)

lemma enqueue_task_Ok:
  assumes "enqueue_task w s t prof = Inr (cs, runs, t')"
  obtains pos au where "next_position s t = Inr pos" "t' = touch (w_now w) (enqueued s t prof pos)"
    "cs = [(t', au)]" "column t = Todo \<or> column t = InProgress" "\<not> waiting_in_queue t"
  using assms by (auto simp: enqueue_task_def res_bind_Ok_iff Let_def split: if_splits)

lemma request_changes_Ok:
  assumes "queue_request_changes w s t fb = Inr (cs, runs, t')"
  obtains pos n au where "next_position s t = Inr pos" "t' = requeued t fb pos n"
    "cs = [(t', au)]" "column t = InReview" "\<not> t_archived t" "column n = InProgress"
    "t_id n = t_id t" "t_project_id n = t_project_id t" "t_execution_queue n = t_execution_queue t"
    "t_archived n = t_archived t"
proof -
  from assms obtain n au pos where
    tr: "transition (fresh_uuid w s) (w_now w) t (RequestChanges fb) User (t_revision t) False = Inr (n, au)"
    and x: "next_position s t = Inr pos" "t' = requeued t fb pos n" "cs = [(t', au)]"
    by (auto simp: queue_request_changes_def res_bind_Ok_iff Let_def)
  moreover from tr have "column t = InReview" "\<not> t_archived t" "column n = InProgress"
    "t_archived n = t_archived t"
    by (auto simp: transition_Ok_iff column_def active_task_def split: if_splits)
  ultimately show thesis using that transition_keeps[OF tr] by blast
qed

lemma requeued_waits:
  assumes "column n = InProgress" "\<not> t_archived n" "t_execution_queue n \<noteq> None"
  shows "waiting_in_queue (requeued t fb pos n)" "queue_position (requeued t fb pos n) = pos"
    "t_id (requeued t fb pos n) = t_id n" "t_project_id (requeued t fb pos n) = t_project_id n"
  using assms by (auto simp: requeued_def waiting_in_queue_def queue_position_def column_def
    clear_submission_def)

lemma queue_guard_run:
  assumes "queue_run w rq i rv s = (Inr (RChanged t'), s')" and "task_replay rq (rt_store s) = None"
    and "hm_get (rt_tasks s) i = Some t"
  shows "\<not> t_archived t"
proof -
  obtain x where "res_bind (queue_guard rq i rv s) (\<lambda>t. queue_operation w s t (rq_operation rq)) = Inr x"
    using assms(1,2) by (auto simp: queue_run_def split: sum.splits)
  then obtain u where "queue_guard rq i rv s = Inr u" by (auto simp: res_bind_Ok_iff)
  from queue_guard_Ok[OF this] assms(3) show ?thesis by simp
qed

lemma enqueue_enters:
  assumes ok: "queue_ok pid s" and run: "queue_run w rq i rv s = (Inr (RChanged t'), s')"
    and fresh: "task_replay rq (rt_store s) = None" and pid: "rq_project_id rq = Some pid"
    and kind: "(\<exists>prof. rq_operation rq = Enqueue i rv prof) \<or>
       (\<exists>fb. rq_operation rq = Transition i rv (RequestChanges fb)
          \<and> is_some_and (hm_get (rt_tasks s) i) (\<lambda>t. t_execution_queue t \<noteq> None))"
  shows "queue_ok pid s' \<and> work_queue pid s' = work_queue pid s @ [i]"
proof -
  obtain t cs runs where t: "hm_get (rt_tasks s) i = Some t" "t_id t = i"
      "Some (t_project_id t) = rq_project_id rq"
    and op: "queue_operation w s t (rq_operation rq) = Inr (cs, runs, t')"
    and tasks: "rt_tasks s' = fold (\<lambda>(u, _). hm_insert (t_id u) u) cs (rt_tasks s)"
    by (rule queue_run_Ok[OF run fresh queue_okD(2)[OF ok]]) (rule that, assumption+)
  have arch: "\<not> t_archived t" using queue_guard_run[OF run fresh t(1)] .
  have "\<exists>pos au. next_position s t = Inr pos \<and> cs = [(t', au)] \<and> \<not> waiting_in_queue t \<and> t_id t' = i
     \<and> t_project_id t' = t_project_id t \<and> waiting_in_queue t' \<and> queue_position t' = pos"
  proof (cases "\<exists>prof. rq_operation rq = Enqueue i rv prof")
    case True
    then obtain prof where "enqueue_task w s t prof = Inr (cs, runs, t')"
      using op by (auto simp: queue_operation_def)
    then obtain pos au where e: "next_position s t = Inr pos" "t' = touch (w_now w) (enqueued s t prof pos)"
      "cs = [(t', au)]" "column t = Todo \<or> column t = InProgress" "\<not> waiting_in_queue t"
      by (rule enqueue_task_Ok)
    moreover have "t_id t' = i" "t_project_id t' = t_project_id t"
      using e(2) t(2) by (simp_all add: enqueued_def clear_submission_def Let_def)
    ultimately show ?thesis using enqueued_waits[OF e(4) arch] by blast
  next
    case False
    with kind obtain fb where fb: "rq_operation rq = Transition i rv (RequestChanges fb)"
      and q: "t_execution_queue t \<noteq> None" using t(1) by auto
    with op have "queue_request_changes w s t fb = Inr (cs, runs, t')" by (simp add: queue_operation_def)
    then obtain pos n au where e: "next_position s t = Inr pos" "t' = requeued t fb pos n"
      "cs = [(t', au)]" "column t = InReview" "\<not> t_archived t" "column n = InProgress"
      "t_id n = t_id t" "t_project_id n = t_project_id t" "t_execution_queue n = t_execution_queue t"
      "t_archived n = t_archived t" by (rule request_changes_Ok)
    have "\<not> waiting_in_queue t" using e(4) by (simp add: waiting_in_queue_def)
    moreover have "waiting_in_queue t'" "queue_position t' = pos" "t_id t' = i"
      "t_project_id t' = t_project_id t"
      using requeued_waits[OF e(6) _ _, of t fb pos] e q t(2) by simp_all
    ultimately show ?thesis using e by blast
  qed
  then obtain pos au where x: "next_position s t = Inr pos" "cs = [(t', au)]" "\<not> waiting_in_queue t"
    "t_id t' = i" "t_project_id t' = t_project_id t" "waiting_in_queue t'" "queue_position t' = pos" by blast
  have p: "t_project_id t = pid" using t(3) pid by simp
  have "queue_position u < queue_position t'" if "u \<in> set (queue_tasks pid s)" for u
    using next_position_bound[OF x(1)] queue_tasks_waiting[OF that] p x(7) by simp
  then show ?thesis
    using enters_back[OF ok, of s' t' t] tasks x t p by auto
qed

lemma claim_leaves:
  assumes ok: "queue_ok (p_id p) s" and "exited_orphans w s = []"
    and c: "claim_board_task w p s = (Inr (Some t'), s')"
  shows "queue_ok (p_id p) s' \<and> work_queue (p_id p) s = t_id t' # work_queue (p_id p) s'"
proof -
  have "\<exists>t owner u. first_waiting s (p_id p) = Some t \<and> (u = t \<or> u = t\<lparr>t_continue_agent_id := Some owner\<rparr>)
    \<and> t' = dispatched w owner u \<and> rt_tasks s' = hm_insert (t_id t') t' (rt_tasks s)"
    using claim_cases[OF assms(2,3)] by auto
  then obtain t owner u where f: "first_waiting s (p_id p) = Some t"
    and u: "u = t \<or> u = t\<lparr>t_continue_agent_id := Some owner\<rparr>" and t': "t' = dispatched w owner u"
    and ins: "rt_tasks s' = hm_insert (t_id t') t' (rt_tasks s)" by blast
  have "t_id t' = t_id t" "\<not> waiting_in_queue t'" using u t' by auto
  with leaves_front[OF ok f ins] show ?thesis by simp
qed

lemma work_queue_distinct:
  assumes "queue_ok pid s"
  shows "distinct (work_queue pid s)"
proof -
  have "distinct (queue_tasks pid s)"
    using queue_okD(3)[OF assms] by (simp add: strict_sorted_iff distinct_map)
  moreover have "inj_on t_id (set (queue_tasks pid s))"
  proof (rule inj_onI)
    fix u v assume u: "u \<in> set (queue_tasks pid s)" and v: "v \<in> set (queue_tasks pid s)" and e: "t_id u = t_id v"
    have gu: "hm_get (rt_tasks s) (t_id u) = Some u" and gv: "hm_get (rt_tasks s) (t_id v) = Some v"
      using u v queue_okD(4)[OF assms] by blast+
    from gu[unfolded e] gv have "Some u = Some v" by (rule trans[OF sym])
    then show "u = v" by simp
  qed
  ultimately show ?thesis by (simp add: work_queue_def distinct_map)
qed

text \<open>A head that only has another reason to wait keeps its place.\<close>

lemma head_stays:
  assumes ok: "queue_ok pid s" and f: "first_waiting s pid = Some t"
    and ins: "rt_tasks s' = hm_insert (t_id u) u (rt_tasks s)"
    and u: "t_id u = t_id t" "t_project_id u = t_project_id t" "t_execution_queue u = t_execution_queue t"
      "waiting_in_queue u"
  shows "queue_ok pid s'" and "work_queue pid s' = work_queue pid s"
proof -
  note s = queue_okD[OF ok]
  obtain us where q: "queue_tasks pid s = t # us" using first_waiting_head[OF ok f] .
  have k: "hm_ok (rt_tasks s')" "hm_keyed t_id (rt_tasks s')"
    using s(1,2) by (simp_all add: ins hm.invar_ins hm.keyed_by_ins)
  have sorted: "sorted_wrt (<) (List.map queue_position (u # us))"
    using s(3) q u(3) by (simp add: queue_position_def)
  have notin: "t_id t \<notin> t_id ` set us" using work_queue_distinct[OF ok] by (simp add: work_queue_def q)
  have pid: "t_project_id t = pid" using first_waiting_Some(2)[OF f] .
  have mem: "v \<in> set (u # us) \<longleftrightarrow>
       hm_get (rt_tasks s') (t_id v) = Some v \<and> t_project_id v = pid \<and> waiting_in_queue v" for v
  proof (cases "t_id v = t_id t")
    case True
    with notin have "v \<notin> set us" by (metis image_eqI)
    with True u pid show ?thesis by (auto simp: ins hm.get_ins)
  next
    case False
    then have "v \<in> set (u # us) \<longleftrightarrow> v \<in> set (queue_tasks pid s)" using q u(1) by auto
    with s(4)[of v] False u(1) show ?thesis by (simp add: ins hm.get_ins)
  qed
  note e = queue_tasks_eqI[OF k sorted mem]
  from e q u(1) show "queue_ok pid s'" "work_queue pid s' = work_queue pid s"
    by (simp_all add: work_queue_def)
qed

text \<open>What a claim can do to its project's queue: launch its head; leave it as it is, with another reason to wait
  or none; or block its head, which then waits no longer.\<close>

lemma claim_outcome:
  assumes ok: "queue_ok (p_id p) s" and "exited_orphans w s = []" and c: "claim_board_task w p s = (r, s')"
  obtains (launch) t' where "r = Inr (Some t')" "queue_ok (p_id p) s'"
      "work_queue (p_id p) s = t_id t' # work_queue (p_id p) s'"
  | (wait) "\<forall>t'. r \<noteq> Inr (Some t')" "queue_ok (p_id p) s'" "work_queue (p_id p) s' = work_queue (p_id p) s"
  | (block) i where "\<forall>t'. r \<noteq> Inr (Some t')" "queue_ok (p_id p) s'"
      "work_queue (p_id p) s = i # work_queue (p_id p) s'"
proof (cases "\<exists>t'. r = Inr (Some t')")
  case True
  then obtain t' where "r = Inr (Some t')" by blast
  with claim_leaves[OF ok assms(2), of t' s'] c show thesis by (auto intro: launch)
next
  case False
  with claim_cases[OF assms(2) c] consider "rt_tasks s' = rt_tasks s"
    | t where "first_waiting s (p_id p) = Some t" "one_changed t s s'"
    by (auto split: sum.splits option.splits)
  then show thesis
  proof cases
    case 1
    then have "queue_ok (p_id p) s'" "work_queue (p_id p) s' = work_queue (p_id p) s"
      using ok by (simp_all add: queue_ok_def work_queue_def queue_tasks_def waiting_tasks_def)
    with False show thesis by (intro wait) auto
  next
    case 2
    then obtain u where u: "t_id u = t_id t" "t_project_id u = t_project_id t"
      "t_execution_queue u = t_execution_queue t" "rt_tasks s' = hm_insert (t_id u) u (rt_tasks s)"
      by (auto simp: one_changed_def)
    show thesis
    proof (cases "waiting_in_queue u")
      case True
      with head_stays[OF ok 2(1) u(4,1-3)] False show thesis by (intro wait) auto
    next
      case nw: False
      from leaves_front[OF ok 2(1) u(4,1) nw] False show thesis by (intro block[of "t_id t"]) auto
    qed
  qed
qed

section \<open>First in, first out\<close>

text \<open>
  The contract between the queue's handlers and its dispatcher: what enters goes last; what leaves
  was first, served or not (the flag); everything else leaves the queue alone. Any run of the three then
  empties the queue in the order of arrival.
\<close>

inductive fifo_run :: "('k \<Rightarrow> 's \<Rightarrow> 's \<Rightarrow> bool) \<Rightarrow> (('k \<times> bool) list \<Rightarrow> 's \<Rightarrow> 's \<Rightarrow> bool) \<Rightarrow> ('s \<Rightarrow> 's \<Rightarrow> bool) \<Rightarrow>
    's \<Rightarrow> 'k list \<Rightarrow> ('k \<times> bool) list \<Rightarrow> 's \<Rightarrow> bool" for enter serve rest where
  fifo_stop: "fifo_run enter serve rest s [] [] s"
| fifo_enter: "enter k s s1 \<Longrightarrow> fifo_run enter serve rest s1 ins outs s2 \<Longrightarrow>
    fifo_run enter serve rest s (k # ins) outs s2"
| fifo_serve: "serve ks s s1 \<Longrightarrow> fifo_run enter serve rest s1 ins outs s2 \<Longrightarrow>
    fifo_run enter serve rest s ins (ks @ outs) s2"
| fifo_rest: "rest s s1 \<Longrightarrow> fifo_run enter serve rest s1 ins outs s2 \<Longrightarrow>
    fifo_run enter serve rest s ins outs s2"

locale fifo =
  fixes contents :: "'s \<Rightarrow> 'k list"
    and wf :: "'s \<Rightarrow> bool"
    and enter :: "'k \<Rightarrow> 's \<Rightarrow> 's \<Rightarrow> bool"
    and serve :: "('k \<times> bool) list \<Rightarrow> 's \<Rightarrow> 's \<Rightarrow> bool"
    and rest :: "'s \<Rightarrow> 's \<Rightarrow> bool"
  assumes enter: "wf s \<Longrightarrow> enter k s s' \<Longrightarrow> wf s' \<and> contents s' = contents s @ [k]"
    and serve: "wf s \<Longrightarrow> serve ks s s' \<Longrightarrow> wf s' \<and> contents s = List.map fst ks @ contents s'"
    and rest: "wf s \<Longrightarrow> rest s s' \<Longrightarrow> wf s' \<and> contents s' = contents s"
begin

lemma run_order:
  "fifo_run enter serve rest s ins outs s' \<Longrightarrow> wf s \<Longrightarrow>
     wf s' \<and> contents s @ ins = List.map fst outs @ contents s'"
proof (induction rule: fifo_run.induct)
  case (fifo_enter k s s1 ins outs s2)
  with enter[of s k s1] show ?case by auto
next
  case (fifo_serve ks s s1 ins outs s2)
  with serve[of s ks s1] show ?case by auto
next
  case (fifo_rest s s1 ins outs s2)
  with rest[of s s1] show ?case by auto
qed simp

lemma served_in_order:
  assumes "fifo_run enter serve rest s ins outs s'" and "wf s"
  shows "List.map fst outs = take (length outs) (contents s @ ins)"
  using run_order[OF assms] by simp

end

definition board_enters :: "project_id \<Rightarrow> task_id \<Rightarrow> runtime \<Rightarrow> runtime \<Rightarrow> bool" where
  "board_enters pid i s s' \<longleftrightarrow> (\<exists>w rq t' rv. board_queue_request w rq s = Some (Inr (RChanged t'), s')
     \<and> task_replay rq (rt_store s) = None \<and> rq_project_id rq = Some pid
     \<and> ((\<exists>prof. rq_operation rq = Enqueue i rv prof) \<or>
        (\<exists>fb. rq_operation rq = Transition i rv (RequestChanges fb))))"

text \<open>Any claim of the project's dispatcher, with what left the queue in it: the task it launched, and every
  other task that waited before and waits no longer.\<close>

definition board_serves :: "project_id \<Rightarrow> (task_id \<times> bool) list \<Rightarrow> runtime \<Rightarrow> runtime \<Rightarrow> bool" where
  "board_serves pid left s s' \<longleftrightarrow> (\<exists>w p r. p_id p = pid \<and> exited_orphans w s = []
     \<and> claim_board_task w p s = (r, s')
     \<and> left = (let launched = (case r of Inr (Some t') \<Rightarrow> [t_id t'] | _ \<Rightarrow> [])
         in List.map (\<lambda>i. (i, True)) launched
            @ List.map (\<lambda>i. (i, False)) (List.filter (\<lambda>i. i \<notin> set launched \<and> i \<notin> set (work_queue pid s'))
                (work_queue pid s))))"

text \<open>Whatever leaves the project's waiting tasks and their order alone: work that runs and ends, refused requests,
  other projects' tasks.\<close>

definition board_rests :: "project_id \<Rightarrow> runtime \<Rightarrow> runtime \<Rightarrow> bool" where
  "board_rests pid s s' \<longleftrightarrow> queue_ok pid s' \<and> work_queue pid s' = work_queue pid s"

interpretation board_fifo: fifo "work_queue pid" "queue_ok pid" "board_enters pid" "board_serves pid" "board_rests pid"
  for pid
proof
  fix s k s'
  assume ok: "queue_ok pid s"
  { assume "board_enters pid k s s'"
    then obtain w rq t' rv where run: "board_queue_request w rq s = Some (Inr (RChanged t'), s')"
      and fresh: "task_replay rq (rt_store s) = None" "rq_project_id rq = Some pid"
      and kind: "(\<exists>prof. rq_operation rq = Enqueue k rv prof) \<or>
        (\<exists>fb. rq_operation rq = Transition k rv (RequestChanges fb))"
      by (auto simp: board_enters_def)
    from kind run have target: "queue_request_target rq s = Some (k, rv)"
      by (auto simp: board_queue_request_def queue_request_target_def split: option.splits if_splits)
    with run have q: "queue_run w rq k rv s = (Inr (RChanged t'), s')"
      by (simp add: board_queue_request_def)
    from kind target have "(\<exists>prof. rq_operation rq = Enqueue k rv prof) \<or>
       (\<exists>fb. rq_operation rq = Transition k rv (RequestChanges fb)
          \<and> is_some_and (hm_get (rt_tasks s) k) (\<lambda>t. t_execution_queue t \<noteq> None))"
      by (auto simp: queue_request_target_def split: if_splits)
    from enqueue_enters[OF ok q fresh this]
    show "queue_ok pid s' \<and> work_queue pid s' = work_queue pid s @ [k]" . }
next
  fix s ks s'
  assume ok: "queue_ok pid s" and "board_serves pid ks s s'"
  then obtain w p r where c: "p_id p = pid" "exited_orphans w s = []" "claim_board_task w p s = (r, s')"
    and ks: "ks = (let launched = (case r of Inr (Some t') \<Rightarrow> [t_id t'] | _ \<Rightarrow> [])
         in List.map (\<lambda>i. (i, True)) launched
            @ List.map (\<lambda>i. (i, False)) (List.filter (\<lambda>i. i \<notin> set launched \<and> i \<notin> set (work_queue pid s'))
                (work_queue pid s)))"
    by (auto simp: board_serves_def)
  have none: "List.filter (\<lambda>i. P i \<and> i \<notin> set xs) xs = []" for P and xs :: "task_id list" by (simp add: filter_empty_conv)
  have dist: "distinct (work_queue pid s)" by (rule work_queue_distinct[OF ok])
  from ok[folded c(1)] c(2,3) show "queue_ok pid s' \<and> work_queue pid s = List.map fst ks @ work_queue pid s'"
  proof (cases rule: claim_outcome)
    case (launch t') with c(1) none show ?thesis by (simp add: ks comp_def)
  next
    case wait
    then have "(case r of Inr (Some t') \<Rightarrow> [t_id t'] | _ \<Rightarrow> []) = []" by (auto split: sum.split option.split)
    with wait c(1) show ?thesis by (simp add: ks comp_def)
  next
    case (block i)
    then have "(case r of Inr (Some t') \<Rightarrow> [t_id t'] | _ \<Rightarrow> []) = []" by (auto split: sum.split option.split)
    with block c(1) dist show ?thesis by (auto simp: ks comp_def filter_empty_conv)
  qed
next
  fix s s' assume "queue_ok pid s" "board_rests pid s s'"
  then show "queue_ok pid s' \<and> work_queue pid s' = work_queue pid s" by (simp add: board_rests_def)
qed

section \<open>Reordering\<close>

lemma map_insert_at: "List.map f (insert_at n x xs) = insert_at n (f x) (List.map f xs)"
  by (simp add: insert_at_def take_map drop_map)

lemma distinct_insert_at: "distinct (insert_at n x xs) \<longleftrightarrow> x \<notin> set xs \<and> distinct xs"
proof -
  have "distinct (ys @ x # zs) \<longleftrightarrow> x \<notin> set (ys @ zs) \<and> distinct (ys @ zs)" for ys zs
    by auto
  from this[of "take n xs" "drop n xs"] show ?thesis
    unfolding insert_at_def append_take_drop_id .
qed

lemma fold_insert_ok:
  "hm_ok m \<Longrightarrow> hm_keyed t_id m \<Longrightarrow> hm_ok (fold (\<lambda>(u, _). hm_insert (t_id u) u) cs m)
     \<and> hm_keyed t_id (fold (\<lambda>(u, _). hm_insert (t_id u) u) cs m)"
  by (induction cs arbitrary: m) (auto simp: hm.invar_ins hm.keyed_by_ins)

definition place :: "'k \<Rightarrow> 'k option \<Rightarrow> 'k list \<Rightarrow> 'k list" where
  "place i before xs = (let ys = List.filter (\<lambda>x. x \<noteq> i) xs in
     case before of None \<Rightarrow> ys @ [i]
     | Some b \<Rightarrow> takeWhile (\<lambda>x. x \<noteq> b) ys @ i # dropWhile (\<lambda>x. x \<noteq> b) ys)"

lemma position_split:
  "position (\<lambda>u. f u = b) xs = Some n \<Longrightarrow>
     List.map f (insert_at n t xs) =
       takeWhile (\<lambda>x. x \<noteq> b) (List.map f xs) @ f t # dropWhile (\<lambda>x. x \<noteq> b) (List.map f xs)"
proof (induction xs arbitrary: n)
  case (Cons x xs)
  show ?case
  proof (cases "f x = b")
    case True with Cons.prems show ?thesis by (simp add: insert_at_def)
  next
    case False
    with Cons.prems obtain m where "position (\<lambda>u. f u = b) xs = Some m" "n = Suc m" by auto
    with Cons.IH[of m] False show ?thesis by (simp add: insert_at_def)
  qed
qed simp

lemma pending_others_queue:
  "pending_others s t = List.filter (\<lambda>u. t_id u \<noteq> t_id t) (queue_tasks (t_project_id t) s)"
  unfolding pending_others_def queue_tasks_def waiting_tasks_def filter_sort filter_filter
  by (rule arg_cong[where f = "sort_key queue_position"], rule filter_cong) auto

lemma filter_map_ids:
  "List.map t_id (List.filter (\<lambda>u. t_id u \<noteq> i) us) = List.filter (\<lambda>x. x \<noteq> i) (List.map t_id us)"
  by (induction us) auto

lemma reordered_place:
  "reordered s t before = Inr order \<Longrightarrow>
     List.map t_id order = place (t_id t) before (work_queue (t_project_id t) s)"
  using position_split[of t_id _ "pending_others s t" _ t]
  by (auto simp: reordered_def Let_def res_bind_Ok_iff ok_or_def place_def work_queue_def insert_at_def
    filter_map_ids[symmetric] pending_others_queue split: option.splits)

text \<open>Renumbering gives each task of the order its position, saving only those that change.\<close>

lemma queue_position_set [simp]:
  "t_execution_queue t \<noteq> None \<Longrightarrow> queue_position (touch now (set_queue_position pos t)) = pos"
  by (auto simp: queue_position_def set_queue_position_def touch_def)

lemma set_queue_position_same [simp]:
  "t_id (set_queue_position pos t) = t_id t" "t_project_id (set_queue_position pos t) = t_project_id t"
  "waiting_in_queue (set_queue_position pos t) = waiting_in_queue t"
  by (simp_all add: set_queue_position_def waiting_in_queue_def column_def touch_def)

lemma after_changes_Cons:
  "t_id u \<notin> set (List.map (\<lambda>(t, _). t_id t) cs) \<Longrightarrow>
     after_changes ((u, a) # cs) i old = (if i = t_id u then Some u else after_changes cs i old)"
proof -
  assume "t_id u \<notin> set (List.map (\<lambda>(t, _). t_id t) cs)"
  then have "map_of (rev (List.map (\<lambda>(t, _). (t_id t, t)) cs)) (t_id u) = None"
    by (auto simp: map_of_eq_None_iff)
  then show ?thesis by (auto simp: after_changes_def map_add_def split: option.splits)
qed

lemma after_changes_other:
  "i \<notin> set (List.map (\<lambda>(t, _). t_id t) cs) \<Longrightarrow> after_changes cs i old = old"
proof -
  assume "i \<notin> set (List.map (\<lambda>(t, _). t_id t) cs)"
  then have "map_of (rev (List.map (\<lambda>(t, _). (t_id t, t)) cs)) i = None"
    by (auto simp: map_of_eq_None_iff)
  then show ?thesis by (simp add: after_changes_def)
qed

lemma renumber_spec:
  assumes "renumber fresh now i base ts k = Inr cs" and "distinct (List.map t_id ts)"
    and "\<forall>t \<in> set ts. waiting_in_queue t"
  shows "\<exists>us. List.map t_id us = List.map t_id ts
    \<and> List.map queue_position us = [base + k + 1..<base + k + 1 + length ts]
    \<and> list_all2 (\<lambda>t u. t_project_id u = t_project_id t \<and> waiting_in_queue u
          \<and> after_changes cs (t_id t) (Some t) = Some u) ts us"
  using assms
proof (induction fresh now i base ts k arbitrary: cs rule: renumber.induct)
  case (2 fresh now i base t ts k)
  from 2(3) have pos: "checked_add_u64 base (k + 1) = Some (base + k + 1)"
    by (auto simp: checked_add_u64_def split: option.splits if_splits)
  have q: "t_execution_queue t \<noteq> None" using 2(5) by (auto simp: waiting_in_queue_def)
  show ?case
  proof (cases "queue_position t \<noteq> base + k + 1 \<or> t_id t = i")
    case True
    define u where "u = touch now (set_queue_position (base + k + 1) t)"
    have u: "t_id u = t_id t" "t_project_id u = t_project_id t" "waiting_in_queue u"
      "queue_position u = base + k + 1" using q 2(5) by (simp_all add: u_def)
    from True 2(3) pos obtain cs' a where cs: "cs = (u, a) # cs'"
      and r: "renumber (\<lambda>n. fresh (Suc n)) now i base ts (k + 1) = Inr cs'"
      by (auto simp: res_bind_Ok_iff Let_def u_def)
    obtain us where us: "List.map t_id us = List.map t_id ts"
      "List.map queue_position us = [base + (k + 1) + 1..<base + (k + 1) + 1 + length ts]"
      "list_all2 (\<lambda>t u. t_project_id u = t_project_id t \<and> waiting_in_queue u
          \<and> after_changes cs' (t_id t) (Some t) = Some u) ts us"
      using 2(1)[OF pos True refl refl r] 2(4,5) by auto
    have nin: "t_id u \<notin> set (List.map (\<lambda>(t, _). t_id t) cs')"
      using renumber_ids[OF r] 2(4) u(1) by auto
    have "list_all2 (\<lambda>t u. t_project_id u = t_project_id t \<and> waiting_in_queue u
          \<and> after_changes cs (t_id t) (Some t) = Some u) ts us"
      by (rule list.rel_mono_strong[OF us(3)])
        (use 2(4) u(1) in \<open>auto simp: cs after_changes_Cons[OF nin] rev_image_eqI\<close>)
    moreover have "after_changes cs (t_id t) (Some t) = Some u"
      by (simp add: cs after_changes_Cons[OF nin] u(1))
    ultimately show ?thesis using us(1,2) u
      by (intro exI[of _ "u # us"]) (simp add: upt_conv_Cons del: upt_Suc)
  next
    case False
    with 2(3) pos have r: "renumber fresh now i base ts (k + 1) = Inr cs" by auto
    obtain us where us: "List.map t_id us = List.map t_id ts"
      "List.map queue_position us = [base + (k + 1) + 1..<base + (k + 1) + 1 + length ts]"
      "list_all2 (\<lambda>t u. t_project_id u = t_project_id t \<and> waiting_in_queue u
          \<and> after_changes cs (t_id t) (Some t) = Some u) ts us"
      using 2(2)[OF pos False r] 2(4,5) by auto
    have "t_id t \<notin> set (List.map (\<lambda>(t, _). t_id t) cs)" using renumber_ids[OF r] 2(4) by auto
    then have "after_changes cs (t_id t) (Some t) = Some t" by (rule after_changes_other)
    then show ?thesis using us False 2(5)
      by (intro exI[of _ "t # us"]) (simp add: upt_conv_Cons del: upt_Suc)
  qed
qed simp

lemma reorder_queue_Ok:
  assumes "reorder_queue w s t before = Inr (cs, runs, t')"
  obtains order where "reordered s t before = Inr order" "waiting_in_queue t"
    "renumber (\<lambda>n. w_uuid w (rt_draws s + n)) (w_now w) (t_id t) (reorder_base s t) order 0 = Inr cs"
  using assms by (auto simp: reorder_queue_def res_bind_Ok_iff split: if_splits)

lemma same_entry: "hm_get m (f u) = Some u \<Longrightarrow> hm_get m (f v) = Some v \<Longrightarrow> f u = f v \<Longrightarrow> u = v"
  by (metis option.inject)

lemma reordered_members:
  assumes "queue_ok (t_project_id t) s" "hm_get (rt_tasks s) (t_id t) = Some t" "waiting_in_queue t"
    and "reordered s t before = Inr order"
  shows "set order = set (queue_tasks (t_project_id t) s)" "distinct (List.map t_id order)"
proof -
  let ?q = "queue_tasks (t_project_id t) s"
  note s = queue_okD[OF assms(1)]
  have t: "t \<in> set ?q" using s(4) assms(2,3) by blast
  have same: "u = t" if "u \<in> set ?q" "t_id u = t_id t" for u
    using s(4) that assms(2) by (blast intro: same_entry)
  obtain n where n: "order = insert_at n t (pending_others s t)"
    using assms(4) by (auto simp: reordered_def Let_def res_bind_Ok_iff)
  then show "set order = set ?q" using t same by (auto simp: pending_others_queue)
  have inj: "inj_on t_id (set ?q)"
  proof (rule inj_onI)
    fix u v assume "u \<in> set ?q" "v \<in> set ?q" "t_id u = t_id v"
    with s(4) show "u = v" by (blast intro: same_entry)
  qed
  have "distinct ?q" using s(3) by (simp add: strict_sorted_iff distinct_map)
  with inj have "distinct (List.map t_id ?q)" by (simp add: distinct_map)
  then have "distinct (List.map t_id (pending_others s t))"
    unfolding pending_others_queue filter_map_ids by (rule distinct_filter)
  moreover have "t_id t \<notin> t_id ` set (pending_others s t)" by (auto simp: pending_others_queue)
  ultimately show "distinct (List.map t_id order)"
    unfolding n map_insert_at distinct_insert_at set_map by simp
qed

lemma reorder_moves_run:
  assumes ok: "queue_ok pid s" and run: "queue_run w rq i rv s = (Inr (RChanged t'), s')"
    and fresh: "task_replay rq (rt_store s) = None" and pid: "rq_project_id rq = Some pid"
    and kind: "rq_operation rq = ReorderQueue i rv before"
  shows "queue_ok pid s' \<and> work_queue pid s' = place i before (work_queue pid s)"
proof -
  obtain t cs runs where t: "hm_get (rt_tasks s) i = Some t" "t_id t = i"
      "Some (t_project_id t) = rq_project_id rq"
    and op: "queue_operation w s t (rq_operation rq) = Inr (cs, runs, t')"
    and tasks: "rt_tasks s' = fold (\<lambda>(u, _). hm_insert (t_id u) u) cs (rt_tasks s)"
    and get: "\<And>j. hm_get (rt_tasks s') j = after_changes cs j (hm_get (rt_tasks s) j)"
    by (rule queue_run_Ok[OF run fresh queue_okD(2)[OF ok]]) (rule that, assumption+)
  have p: "t_project_id t = pid" using t(3) pid by simp
  from op kind have "reorder_queue w s t before = Inr (cs, runs, t')" by (simp add: queue_operation_def)
  then obtain order where o: "reordered s t before = Inr order" "waiting_in_queue t"
    "renumber (\<lambda>n. w_uuid w (rt_draws s + n)) (w_now w) (t_id t) (reorder_base s t) order 0 = Inr cs"
    by (rule reorder_queue_Ok)
  have ok': "queue_ok (t_project_id t) s" and gt: "hm_get (rt_tasks s) (t_id t) = Some t"
    using ok p t by simp_all
  note m = reordered_members[OF ok' gt o(2,1)]
  note s = queue_okD[OF ok]
  have w: "\<forall>u \<in> set order. waiting_in_queue u" using m(1) queue_tasks_waiting by blast
  obtain us where us: "List.map t_id us = List.map t_id order"
    "List.map queue_position us = [reorder_base s t + 1..<reorder_base s t + 1 + length order]"
    "list_all2 (\<lambda>t u. t_project_id u = t_project_id t \<and> waiting_in_queue u
          \<and> after_changes cs (t_id t) (Some t) = Some u) order us"
    using renumber_spec[OF o(3) m(2) w] by auto
  have sorted: "sorted_wrt (<) (List.map queue_position us)"
    unfolding us(2) by (rule sorted_wrt_upt)
  have k: "hm_ok (rt_tasks s')" "hm_keyed t_id (rt_tasks s')"
    using fold_insert_ok[OF s(1,2), of cs] by (simp_all add: tasks)
  have ids: "t_id (us ! n) = t_id (order ! n)" if "n < length order" for n
    using us(1) that by (metis length_map nth_map)
  have len: "length us = length order" using us(1) by (metis length_map)
  have each: "hm_get (rt_tasks s') (t_id (us ! n)) = Some (us ! n) \<and> t_project_id (us ! n) = pid
      \<and> waiting_in_queue (us ! n)" if "n < length order" for n
  proof -
    have "order ! n \<in> set (queue_tasks pid s)" by (rule nth_mem[OF that, unfolded m(1) p])
    then have g: "hm_get (rt_tasks s) (t_id (order ! n)) = Some (order ! n)"
      and pr: "t_project_id (order ! n) = pid" using s(4) by blast+
    note l = list_all2_nthD[OF us(3) that]
    have "hm_get (rt_tasks s') (t_id (us ! n)) = Some (us ! n)"
      unfolding get ids[OF that] g by (rule conjunct2[OF conjunct2[OF l]])
    with trans[OF conjunct1[OF l] pr] conjunct1[OF conjunct2[OF l]] show ?thesis by blast
  qed
  have outside: "t_id u \<in> t_id ` set order"
    if g: "hm_get (rt_tasks s') (t_id u) = Some u" "t_project_id u = pid" "waiting_in_queue u" for u
  proof (rule ccontr)
    assume n: "t_id u \<notin> t_id ` set order"
    then have "t_id u \<notin> set (List.map (\<lambda>(t, _). t_id t) cs)" using renumber_ids[OF o(3)] by blast
    then have "hm_get (rt_tasks s) (t_id u) = Some u" using get[of "t_id u"] g(1)
      by (simp add: after_changes_other)
    with s(4)[of u] g have "u \<in> set order" using m(1) p by simp
    with n show False by blast
  qed
  have mem: "u \<in> set us \<longleftrightarrow>
       hm_get (rt_tasks s') (t_id u) = Some u \<and> t_project_id u = pid \<and> waiting_in_queue u" for u
  proof
    assume "u \<in> set us"
    then show "hm_get (rt_tasks s') (t_id u) = Some u \<and> t_project_id u = pid \<and> waiting_in_queue u"
      using each len by (auto simp: in_set_conv_nth)
  next
    assume g: "hm_get (rt_tasks s') (t_id u) = Some u \<and> t_project_id u = pid \<and> waiting_in_queue u"
    then obtain n where n: "n < length order" "t_id u = t_id (order ! n)"
      using outside[of u] by (auto simp: in_set_conv_nth)
    have "u = us ! n"
      by (rule same_entry[where f = t_id, OF _ _ n(2)[folded ids[OF n(1)]]]) (use each[OF n(1)] g in blast)+
    with n(1) len show "u \<in> set us" by simp
  qed
  note e = queue_tasks_eqI[OF k sorted mem]
  from e(2) us(1) reordered_place[OF o(1)] t(2) p
  have "work_queue pid s' = place i before (work_queue pid s)" by simp
  with e(1) show ?thesis by simp
qed

end
