(* ===== verification/Board_Properties.thy ===== *)
theory Board_Properties
  imports Board_Order
begin

text \<open>
  The queue's guarantees as properties of its handlers and its dispatcher, each with a run of a
  small runtime in which it applies.
\<close>

section \<open>On a healthy disk\<close>

text \<open>The drawn ids are new and the disk accepts writes.\<close>

definition healthy :: "world \<Rightarrow> runtime \<Rightarrow> bool" where
  "healthy w s \<longleftrightarrow> db_ok (st_db (rt_store s)) \<and> st_faults (rt_store s) = []
     \<and> (\<forall>n. w_uuid w n \<notin> au_id ` set (db_audits (st_db (rt_store s))))"

lemma healthy_drawn [simp]: "healthy w (drawn s) = healthy w s"
  by (simp add: healthy_def drawn_def)

lemma save_and_publish_healthy:
  assumes "healthy w s" and "stored_task (t_id t) (st_db (rt_store s)) = Some u"
    and "au_task_id a = t_id t" and "au_id a = w_uuid w n"
  shows "\<exists>s'. save_and_publish w [(t, a)] s = (Inr (), s')"
proof -
  obtain db where "stmt_save [(t, a)] None [] (st_db (rt_store s)) = Inr db"
    using stmt_save_one[of "st_db (rt_store s)" t u "w_uuid w n" a] assms by (auto simp: healthy_def)
  then show ?thesis using assms(1)
    by (simp add: save_and_publish_def with_store_def save_task_changes_alt save_task_agent_changes_def
      in_tx_healthy healthy_def Let_def)
qed

lemma launch_claimed_healthy:
  assumes "healthy w s" and "coherent s" and "hm_get (rt_tasks s) (t_id t) = Some u"
  shows "\<exists>s'. launch_claimed w owner t s = (Inr (Some (dispatched w owner t)), s')"
proof -
  have "stored_task (t_id (dispatched w owner t)) (st_db (rt_store s)) = Some u"
    using assms(2,3) by (simp add: coherent_def)
  from save_and_publish_healthy[OF assms(1) this, of "audit (fresh_uuid w s) (w_now w)
    (dispatched w owner t) Daemon ''queue_dispatch'' None None" "rt_draws s"]
  show ?thesis by (auto simp: launch_claimed_def Let_def fresh_uuid_def audit_def)
qed

text \<open>The first waiting task can start: its agent, if it has one already, can be resumed.\<close>

definition resumable :: "runtime \<Rightarrow> task \<Rightarrow> bool" where
  "resumable s t \<longleftrightarrow> (case selected_agent t of None \<Rightarrow> True
     | Some i \<Rightarrow> \<not> hm_contains (rt_agents s) i \<and> t_continue_agent_id t \<noteq> Some i
         \<or> (\<exists>thread. board_agent_thread s t i = Inr thread))"

lemma dispatch_healthy:
  assumes "healthy w s" and "coherent s" and "hm_get (rt_tasks s) (t_id t) = Some t"
    and "resumable s t" and "\<not> hm_contains (rt_agents s) (fresh_uuid w s)"
  shows "\<exists>u s'. dispatch w t s = (Inr (Some (dispatched w (unwrap_or (fresh_uuid w s) (selected_agent t)) u)), s')
    \<and> t_id u = t_id t \<and> column u = column t"
proof -
  define owner where "owner = unwrap_or (fresh_uuid w s) (selected_agent t)"
  define s1 where "s1 = (if selected_agent t = None then drawn s else s)"
  have s1: "healthy w s1" "coherent s1" "rt_tasks s1 = rt_tasks s" "rt_agents s1 = rt_agents s"
    using assms(1,2) by (simp_all add: s1_def)
  have launch: "\<exists>s'. launch_claimed w owner u s1 = (Inr (Some (dispatched w owner u)), s')"
    if "t_id u = t_id t" for u
    using launch_claimed_healthy[OF s1(1,2)] assms(3) s1(3) that by simp
  note d = dispatch_def[of w t s, unfolded Let_def, folded owner_def, folded s1_def]
  show ?thesis
  proof (cases "hm_contains (rt_agents s1) owner \<or> t_continue_agent_id t = Some owner")
    case False
    with launch[of t] d show ?thesis by (auto simp: owner_def)
  next
    case True
    have "\<exists>thread. board_agent_thread s1 t owner = Inr thread"
    proof (cases "selected_agent t")
      case None
      then have "t_continue_agent_id t = None" by (simp add: selected_agent_def opt_or_def split: option.splits)
      with None True s1(4) assms(5) show ?thesis by (simp add: owner_def)
    next
      case (Some i)
      with True assms(4) s1(4) show ?thesis by (auto simp: resumable_def owner_def s1_def)
    qed
    then obtain thread where "board_agent_thread s1 t owner = Inr thread" by blast
    with True d launch[of "if thread \<noteq> None then t\<lparr>t_continue_agent_id := Some owner\<rparr> else t"]
    show ?thesis by (fastforce split: if_splits simp: column_def owner_def)
  qed
qed

lemma claim_healthy:
  assumes "healthy w s" and "coherent s" and "hm_ok (rt_tasks s)" and "hm_keyed t_id (rt_tasks s)"
    and "exited_orphans w s = []" and "\<not> remote_maintenance_active w s"
    and "board_execution s (p_id p) = Inr x" and "\<not> bx_paused x"
    and "any_project (\<lambda>q. p_id q = p_id p \<and> p_archived_at q = None \<and> \<not> is_remote q) s"
    and "first_waiting s (p_id p) = Some t" and "waiting_reason w s p t = None"
    and "resumable s t" and "\<not> hm_contains (rt_agents s) (fresh_uuid w s)"
  shows "\<exists>t' s'. claim_board_task w p s = (Inr (Some t'), s') \<and> t_id t' = t_id t \<and> column t' = column t
    \<and> t_assigned_agent_id t' = Some (unwrap_or (fresh_uuid w s) (selected_agent t))"
proof -
  have "hm_get (rt_tasks s) (t_id t) = Some t"
    using first_waiting_Some(1)[OF assms(10)] hm.keyed_by_vals[OF assms(3,4)] by simp
  from dispatch_healthy[OF assms(1,2) this assms(12,13)] obtain u s' where
    "dispatch w t s = (Inr (Some (dispatched w (unwrap_or (fresh_uuid w s) (selected_agent t)) u)), s')"
    "t_id u = t_id t" "column u = column t" by blast
  then show ?thesis using assms(6-11)
    by (simp add: claim_board_task_def reap_quiet[OF assms(5)] Let_def dispatched_def column_def)
qed

lemma commit_queue_healthy:
  assumes "healthy w s" and "stored_task (t_id t) (st_db (rt_store s)) = Some u"
    and "au_task_id a = t_id t" and "au_id a = w_uuid w n"
    and "\<not> hm_contains (db_requests (st_db (rt_store s))) (rq_request_id rq)"
  shows "\<exists>s'. commit_queue w rq ([(t, a)], [], t) s = (Inr (RChanged t), s')"
proof -
  obtain db where sv: "stmt_save [(t, a)] None [] (st_db (rt_store s)) = Inr db"
    using stmt_save_one[of "st_db (rt_store s)" t u "w_uuid w n" a] assms by (auto simp: healthy_def)
  then have e: "each_stmt write_change [(t, a)] (st_db (rt_store s)) = Inr db"
    by (auto simp: stmt_save_def res_bind_Ok_iff)
  then have "db_requests db = db_requests (st_db (rt_store s))"
    by (auto simp: write_change_def write_task_def write_audit_def res_bind_Ok_iff Let_def
      split: option.splits if_splits)
  with e assms(5) have "\<exists>db'. stmt_save [(t, a)] (Some (rq, RChanged t)) [] (st_db (rt_store s)) = Inr db'"
    by (auto simp: stmt_save_def insert_request_def)
  then show ?thesis using assms(1)
    by (auto simp: commit_queue_def with_store_def save_task_agent_changes_def in_tx_healthy healthy_def Let_def)
qed

section \<open>A board with one task\<close>

definition waiting_task :: task where
  "waiting_task = sample_task\<lparr>t_state := TsRunning, t_condition := TcQueued,
     t_execution_queue := Some \<lparr>q_agent_id = None, q_position = 3, q_profile = default_profile,
       q_feedback = None\<rparr>,
     t_planning := \<lparr>pl_text = ''ok'', pl_job = None\<rparr>\<rparr>"

lemma sample_task_facts [simp]:
  "\<not> t_archived sample_task" "t_assigned_agent_id sample_task = None"
  "t_continue_agent_id sample_task = None" "t_coordinator_group sample_task = None"
  "t_execution_queue sample_task = None" "t_revision sample_task = 1" "column sample_task = Todo"
  using new_task_fields[OF sample_new_task] sample_new_task
  by (auto simp: new_task_def sample_draft_def res_bind_Ok_iff Let_def column_def split: if_splits)

lemma waiting_task_simps [simp]:
  "t_id waiting_task = 7" "t_project_id waiting_task = 1" "waiting_in_queue waiting_task"
  "queue_position waiting_task = 3" "selected_agent waiting_task = None" "\<not> plan_running waiting_task"
  "pl_text (t_planning waiting_task) = ''ok''" "t_continue_agent_id waiting_task = None"
  "t_revision waiting_task = 1" "t_coordinator_group waiting_task = None" "\<not> t_archived waiting_task"
  "t_condition waiting_task = TcQueued"
  by (simp_all add: waiting_task_def waiting_in_queue_def queue_position_def selected_agent_def
    column_def plan_running_def opt_or_def)

abbreviation "board_sample \<equiv> sample_runtime waiting_task []"

lemma coherent_board: "coherent board_sample" by simp

lemma board_sample_facts:
  "healthy sample_world board_sample" "hm_ok (rt_tasks board_sample)"
  "hm_keyed t_id (rt_tasks board_sample)" "exited_orphans sample_world board_sample = []"
  "\<not> remote_maintenance_active sample_world board_sample"
  "board_execution board_sample (p_id sample_project)
     = Inr \<lparr>bx_project_id = 1, bx_paused = False, bx_revision = 0\<rparr>"
  "any_project (\<lambda>q. p_id q = p_id sample_project \<and> p_archived_at q = None \<and> \<not> is_remote q) board_sample"
  "first_waiting board_sample (p_id sample_project) = Some waiting_task"
  "resumable board_sample waiting_task"
  "\<not> hm_contains (rt_agents board_sample) (fresh_uuid sample_world board_sample)"
proof -
  show "healthy sample_world board_sample"
    using db_ok_with_task[of waiting_task] by (simp add: healthy_def)
qed (simp_all add: exited_orphans_def hm_ok_def hm.keyed_by_def hm_get_def remote_maintenance_active_def
  board_execution_def setting_def with_task_def sample_store_def empty_database_def any_project_def
  hm_values_def is_remote_def first_waiting_def resumable_def hm_contains_def)

lemma board_sample_queue: "queue_ok 1 board_sample" "work_queue 1 board_sample = [7]"
  by (simp_all add: queue_ok_def waiting_tasks_def work_queue_def queue_tasks_def hm_ok_def
    hm.keyed_by_def hm_get_def hm_values_def)

lemma board_sample_ready: "waiting_reason sample_world board_sample sample_project waiting_task = None"
  using ok_not_blank
  by (simp add: waiting_reason_def board_execution_busy_def any_task_def hm_values_def task_occupies_def
    Let_def hm_get_def hm_keys_def) (simp add: waiting_task_def)

lemma board_sample_unpaused: "\<not> bx_paused \<lparr>bx_project_id = 1, bx_paused = False, bx_revision = 0\<rparr>"
  by simp

lemma board_sample_claim:
  "\<exists>t' s'. claim_board_task sample_world sample_project board_sample = (Inr (Some t'), s')
     \<and> t_id t' = t_id waiting_task"
  using claim_healthy[OF board_sample_facts(1) coherent_board board_sample_facts(2-6)
    board_sample_unpaused board_sample_facts(7,8) board_sample_ready board_sample_facts(9,10)] by blast

section \<open>A board with two tasks\<close>

definition other_project :: project where
  "other_project = sample_project\<lparr>p_id := 2, p_root := ''/q''\<rparr>"

definition second_task :: "project_id \<Rightarrow> task" where
  "second_task pid = waiting_task\<lparr>t_id := 8, t_project_id := pid,
     t_execution_queue := map_option (\<lambda>q. q\<lparr>q_position := 4\<rparr>) (t_execution_queue waiting_task)\<rparr>"

text \<open>The first task once it has been launched and its work has ended without a result.\<close>

definition ended_task :: task where
  "ended_task = waiting_task\<lparr>t_condition := TcBlocked, t_assigned_agent_id := Some 5\<rparr>"

definition pair_board :: "task \<Rightarrow> task \<Rightarrow> runtime" where
  "pair_board t u = (let row = (\<lambda>t. (t_id t, \<lparr>tk_project = t_project_id t, tk_revision = as_i64 (t_revision t),
       tk_order = t_order_key t, tk_task = t\<rparr>))
     in (sample_runtime t [])\<lparr>rt_store := sample_store\<lparr>st_db := (st_db sample_store)\<lparr>
         db_projects := [(1, sample_project), (2, other_project)], db_tasks := [row t, row u]\<rparr>\<rparr>,
       rt_tasks := [(t_id t, t), (t_id u, u)], rt_projects := [(''p'', sample_project), (''q'', other_project)]\<rparr>)"

lemma second_task_simps [simp]:
  "t_id (second_task pid) = 8" "t_project_id (second_task pid) = pid" "waiting_in_queue (second_task pid)"
  "queue_position (second_task pid) = 4" "selected_agent (second_task pid) = None"
  "\<not> plan_running (second_task pid)" "pl_text (t_planning (second_task pid)) = ''ok''"
  "t_continue_agent_id (second_task pid) = None" "t_assigned_agent_id (second_task pid) = None"
  by (simp_all add: second_task_def waiting_task_def waiting_in_queue_def queue_position_def selected_agent_def
    column_def plan_running_def opt_or_def)

lemma ended_task_simps [simp]:
  "t_id ended_task = 7" "t_project_id ended_task = 1" "\<not> waiting_in_queue ended_task"
  "t_condition ended_task = TcBlocked"
  by (simp_all add: ended_task_def waiting_in_queue_def)

lemma pair_board_simps [simp]:
  "rt_tasks (pair_board t u) = [(t_id t, t), (t_id u, u)]"
  "rt_projects (pair_board t u) = [(''p'', sample_project), (''q'', other_project)]"
  "rt_agents (pair_board t u) = []" "rt_orphans (pair_board t u) = []" "rt_controls (pair_board t u) = []"
  "rt_acceptance_owners (pair_board t u) = []" "rt_writer_leases (pair_board t u) = []"
  "rt_children (pair_board t u) = []" "rt_maintenance (pair_board t u) = None" "rt_draws (pair_board t u) = 0"
  "st_faults (rt_store (pair_board t u)) = []"
  "db_audits (st_db (rt_store (pair_board t u))) = []" "db_settings (st_db (rt_store (pair_board t u))) = []"
  by (simp_all add: pair_board_def Let_def sample_runtime_def sample_store_def empty_database_def)

lemma other_project_simps [simp]:
  "p_id other_project = 2" "p_execution_target other_project = Local" "p_archived_at other_project = None"
  "p_root other_project = ''/q''"
  by (simp_all add: other_project_def)

lemma pair_board_facts:
  assumes "t_id t = 7" and "t_project_id t = 1" and "pid = 1 \<or> pid = 2"
  shows "healthy w (pair_board t (second_task pid))" "coherent (pair_board t (second_task pid))"
    "hm_ok (rt_tasks (pair_board t (second_task pid)))" "hm_keyed t_id (rt_tasks (pair_board t (second_task pid)))"
    "exited_orphans w (pair_board t (second_task pid)) = []"
    "w_upgrade_lock w = False \<Longrightarrow> \<not> remote_maintenance_active w (pair_board t (second_task pid))"
    "board_execution (pair_board t (second_task pid)) 1 = Inr \<lparr>bx_project_id = 1, bx_paused = False, bx_revision = 0\<rparr>"
    "any_project (\<lambda>q. p_id q = p_id sample_project \<and> p_archived_at q = None \<and> \<not> is_remote q)
       (pair_board t (second_task pid))"
    "resumable (pair_board t (second_task pid)) waiting_task"
    "resumable (pair_board t (second_task pid)) (second_task 1)"
    "\<not> hm_contains (rt_agents (pair_board t (second_task pid))) i"
proof -
  have "db_ok (st_db (rt_store (pair_board t (second_task pid))))"
    using assms by (auto simp: pair_board_def Let_def sample_store_def empty_database_def integrity_defs fk_def
      fk_list_def hm_ok_def unique_by_def hm.keyed_by_def hm_get_def hm_contains_def)
  then show "healthy w (pair_board t (second_task pid))" by (simp add: healthy_def)
  show "coherent (pair_board t (second_task pid))"
    using assms(1) by (simp add: coherent_def stored_task_def pair_board_def Let_def sample_store_def hm_get_def)
qed (use assms in \<open>simp_all add: exited_orphans_def hm_ok_def hm.keyed_by_def hm_get_def remote_maintenance_active_def
  board_execution_def setting_def any_project_def hm_values_def is_remote_def resumable_def hm_contains_def\<close>)

lemma pair_board_first:
  "pid = 1 \<or> pid = 2 \<Longrightarrow> first_waiting (pair_board waiting_task (second_task pid)) 1 = Some waiting_task"
  "first_waiting (pair_board ended_task (second_task 1)) 1 = Some (second_task 1)"
  by (auto simp: first_waiting_def hm_values_def)

lemma waiting_task_unassigned [simp]: "t_assigned_agent_id waiting_task = None"
  by (simp add: waiting_task_def)

lemma pair_board_ready:
  "pid = 1 \<or> pid = 2 \<Longrightarrow> waiting_reason w (pair_board waiting_task (second_task pid)) p waiting_task = None"
  "waiting_reason w (pair_board ended_task (second_task 1)) p (second_task 1) = None"
  using ok_not_blank
  by (simp_all add: waiting_reason_def board_execution_busy_def any_task_def hm_values_def task_occupies_def
    Let_def hm_get_def hm_keys_def)

lemma pair_board_queue:
  "queue_ok 1 (pair_board waiting_task (second_task 1))" "work_queue 1 (pair_board waiting_task (second_task 1)) = [7, 8]"
  "queue_ok 1 (pair_board ended_task (second_task 1))" "work_queue 1 (pair_board ended_task (second_task 1)) = [8]"
  by (simp_all add: queue_ok_def waiting_tasks_def work_queue_def queue_tasks_def hm_ok_def
    hm.keyed_by_def hm_get_def hm_values_def)

lemma pair_board_claim:
  assumes "w_upgrade_lock w = False"
  shows "pid = 1 \<or> pid = 2 \<Longrightarrow> \<exists>t' s'. claim_board_task w sample_project (pair_board waiting_task (second_task pid))
      = (Inr (Some t'), s') \<and> t_id t' = 7"
    and "\<exists>t' s'. claim_board_task w sample_project (pair_board ended_task (second_task 1))
      = (Inr (Some t'), s') \<and> t_id t' = 8"
proof -
  assume p: "pid = 1 \<or> pid = 2"
  note f = pair_board_facts[OF _ _ p]
  show "\<exists>t' s'. claim_board_task w sample_project (pair_board waiting_task (second_task pid)) = (Inr (Some t'), s') \<and> t_id t' = 7"
    using claim_healthy[of w "pair_board waiting_task (second_task pid)" sample_project _ waiting_task]
      f pair_board_first(1)[OF p] pair_board_ready(1)[OF p] assms board_sample_unpaused by auto
next
  note f = pair_board_facts[of ended_task 1]
  show "\<exists>t' s'. claim_board_task w sample_project (pair_board ended_task (second_task 1)) = (Inr (Some t'), s') \<and> t_id t' = 8"
    using claim_healthy[of w "pair_board ended_task (second_task 1)" sample_project _ "second_task 1"]
      f pair_board_first(2) pair_board_ready(2) assms board_sample_unpaused by auto
qed

section \<open>Claims and rounds\<close>

text \<open>C34: a claim, made when no dead writer waits to be reaped, that launches a task launches the first waiting one of the project's queue, only
  while the queue is not paused, no remote maintenance runs, the project is local and available,
  no board task occupies the workspace and the plan is written and not being generated; the task
  then has an owner and waits no longer.\<close>

theorem claim_takes_first:
  assumes "exited_orphans w s = []" and "claim_board_task w p s = (Inr (Some t'), s')"
  shows "\<exists>t x. first_waiting s (p_id p) = Some t \<and> t \<in> set (hm_values (rt_tasks s))
    \<and> t_id t' = t_id t \<and> t_project_id t = p_id p \<and> waiting_in_queue t
    \<and> (\<forall>u \<in> set (hm_values (rt_tasks s)). t_project_id u = p_id p \<and> waiting_in_queue u \<longrightarrow>
         queue_position t \<le> queue_position u)
    \<and> board_execution s (p_id p) = Inr x \<and> \<not> bx_paused x \<and> \<not> remote_maintenance_active w s
    \<and> any_project (\<lambda>q. p_id q = p_id p \<and> p_archived_at q = None \<and> \<not> is_remote q) s
    \<and> \<not> board_execution_busy w s p None \<and> \<not> plan_running t \<and> \<not> blank (pl_text (t_planning t))
    \<and> (\<forall>i. selected_agent t = Some i \<longrightarrow> hm_contains (rt_agents s) i \<longrightarrow> board_agent_idle s i)
    \<and> \<not> waiting_in_queue t' \<and> t_assigned_agent_id t' \<noteq> None
    \<and> hm_get (rt_tasks s') (t_id t) = Some t'"
proof -
  have "\<exists>t x owner u. first_waiting s (p_id p) = Some t
             \<and> \<not> remote_maintenance_active w s \<and> board_execution s (p_id p) = Inr x \<and> \<not> bx_paused x
             \<and> any_project (\<lambda>q. p_id q = p_id p \<and> p_archived_at q = None \<and> \<not> is_remote q) s
             \<and> waiting_reason w s p t = None
             \<and> (u = t \<or> u = t\<lparr>t_continue_agent_id := Some owner\<rparr>)
             \<and> t' = dispatched w owner u \<and> rt_tasks s' = hm_insert (t_id t') t' (rt_tasks s)"
    using claim_cases[OF assms] by simp
  then obtain t x owner u where f: "first_waiting s (p_id p) = Some t" and
    q: "\<not> remote_maintenance_active w s" "board_execution s (p_id p) = Inr x" "\<not> bx_paused x"
      "any_project (\<lambda>q. p_id q = p_id p \<and> p_archived_at q = None \<and> \<not> is_remote q) s"
    and reason: "waiting_reason w s p t = None"
    and u: "u = t \<or> u = t\<lparr>t_continue_agent_id := Some owner\<rparr>" "t' = dispatched w owner u"
    and ins: "rt_tasks s' = hm_insert (t_id t') t' (rt_tasks s)" by blast
  have t': "t_id t' = t_id t" "\<not> waiting_in_queue t'" "t_assigned_agent_id t' \<noteq> None"
    using u by auto
  from reason have r: "\<not> board_execution_busy w s p None" "\<not> plan_running t"
    "\<not> blank (pl_text (t_planning t))"
    "\<forall>i. selected_agent t = Some i \<longrightarrow> hm_contains (rt_agents s) i \<longrightarrow> board_agent_idle s i"
    by (auto simp: waiting_reason_def split: if_splits)
  have "hm_get (rt_tasks s') (t_id t) = Some t'" by (simp add: ins hm.get_ins t'(1))
  with f q r t' first_waiting_Some[OF f] show ?thesis by blast
qed

theorem claim_takes_first_witness:
  "\<exists>t' s'. claim_board_task sample_world sample_project board_sample = (Inr (Some t'), s')
     \<and> \<not> waiting_in_queue t' \<and> hm_get (rt_tasks s') 7 = Some t'"
proof -
  obtain t' s' where c: "claim_board_task sample_world sample_project board_sample = (Inr (Some t'), s')"
    using board_sample_claim by blast
  with claim_takes_first[OF board_sample_facts(4) c] board_sample_facts(8) show ?thesis by auto
qed



text \<open>Two projects whose roots are one directory, each with a waiting task: the round launches one of them.\<close>

definition linked_world :: world where
  "linked_world = sample_world\<lparr>w_canonical := (\<lambda>_. Inr ''/p'')\<rparr>"


text \<open>When a task is ready, said without the dispatcher's own decisions: whose agents are whose, a workspace in which
  no board task is under way, and an agent that can take up the task.\<close>

definition belongs :: "runtime \<Rightarrow> task \<Rightarrow> agent_id \<Rightarrow> bool" where
  "belongs s u i \<longleftrightarrow> t_assigned_agent_id u = Some i \<or> (\<exists>q. t_execution_queue u = Some q \<and> q_agent_id q = Some i)
     \<or> (\<exists>r. hm_get (rt_agents s) i = Some r \<and> ar_task_id (rec_run r) = Some (t_id u))
     \<or> (\<exists>c. hm_get (rt_controls s) (t_id u) = Some c \<and> co_owner c = i)"

definition at_rest :: "runtime \<Rightarrow> agent_id \<Rightarrow> bool" where
  "at_rest s i \<longleftrightarrow> i \<notin> set (rt_acceptance_owners s) \<and> i \<notin> set (hm_keys (rt_writer_leases s))
     \<and> i \<notin> set (hm_keys (rt_children s))
     \<and> (\<forall>r \<in> set (hm_values (rt_agents s)). ar_id (rec_run r) = i \<longrightarrow>
          \<not> ar_can_stop (rec_run r) \<and> \<not> agent_running (ar_state (rec_run r)))"

definition workspace_free :: "world \<Rightarrow> runtime \<Rightarrow> project \<Rightarrow> bool" where
  "workspace_free w s p \<longleftrightarrow> (\<forall>u \<in> set (hm_values (rt_tasks s)). \<forall>q \<in> set (hm_values (rt_projects s)).
     t_execution_queue u \<noteq> None \<and> p_id q = t_project_id u \<and> board_workspace w q = board_workspace w p \<longrightarrow>
       \<not> (column u = InProgress \<and> \<not> t_archived u \<and> t_assigned_agent_id u \<noteq> None \<and> condition_live (t_condition u))
       \<and> hm_get (rt_controls s) (t_id u) = None \<and> (\<forall>i. belongs s u i \<longrightarrow> at_rest s i))"

text \<open>The agent a waiting task continues with, if it has one.\<close>

definition agent_able :: "runtime \<Rightarrow> task \<Rightarrow> agent_id \<Rightarrow> bool" where
  "agent_able s t i \<longleftrightarrow> (\<exists>r. hm_get (rt_agents s) i = Some r \<and> ar_id (rec_run r) = i
     \<and> ar_project_id (rec_run r) = t_project_id t \<and> ar_coordinator_group (rec_run r) = None
     \<and> ar_task_id (rec_run r) \<in> {None, Some (t_id t)} \<and> ar_native_session_id (rec_run r) \<noteq> None
     \<and> ar_resume_block_reason (rec_run r) = None \<and> ar_origin_codex_home (rec_run r) = rt_codex_home s) \<and> at_rest s i"

lemma hm_contains_keys: "hm_contains m k \<longleftrightarrow> k \<in> set (hm_keys m)"
  by (auto simp: hm_contains_def hm_get_def hm_keys_def map_of_eq_None_iff not_None_eq[symmetric] simp del: not_None_eq)

lemma free_not_busy: "workspace_free w s p \<Longrightarrow> \<not> board_execution_busy w s p None"
  unfolding board_execution_busy_def any_task_def list_ex_iff
proof (intro notI, elim bexE conjE)
  fix u assume free: "workspace_free w s p" and u: "u \<in> set (hm_values (rt_tasks s))" "t_execution_queue u \<noteq> None"
    and q: "any_project (\<lambda>q. p_id q = t_project_id u \<and> board_workspace w q = board_workspace w p) s"
    and occ: "task_occupies s None u"
  have idle: "\<not> (column u = InProgress \<and> \<not> t_archived u \<and> t_assigned_agent_id u \<noteq> None \<and> condition_live (t_condition u))"
    "hm_get (rt_controls s) (t_id u) = None" "\<And>i. belongs s u i \<Longrightarrow> at_rest s i"
    using free u q by (auto simp: workspace_free_def any_project_def list_ex_iff)
  have "board_task_owns_agent s u i \<Longrightarrow> at_rest s i" for i
    using idle(3)[of i] by (auto simp: board_task_owns_agent_def belongs_def is_some_and_iff)
  with occ idle(1,2) show False
    by (auto simp: task_occupies_def Let_def list_ex_iff at_rest_def is_some_and_iff)
qed

lemma able_idle: "agent_able s t i \<Longrightarrow> board_agent_idle s i \<and> (\<exists>thread. board_agent_thread s t i = Inr thread)"
  by (auto simp: agent_able_def at_rest_def board_agent_idle_def board_agent_thread_def hm_contains_keys Let_def
    is_some_and_iff dest: hm_get_in_values)

lemma first_waiting_least:
  assumes "hm_ok (rt_tasks s)" "hm_keyed t_id (rt_tasks s)" "hm_get (rt_tasks s) (t_id t) = Some t"
    and "t_project_id t = pid" "waiting_in_queue t"
    and least: "\<And>u. u \<in> set (hm_values (rt_tasks s)) \<Longrightarrow> t_project_id u = pid \<Longrightarrow> waiting_in_queue u \<Longrightarrow> u \<noteq> t
      \<Longrightarrow> queue_position t < queue_position u"
  shows "first_waiting s pid = Some t"
proof -
  have t: "t \<in> set (hm_values (rt_tasks s))" using hm_get_in_values assms(3) by force
  then have "first_waiting s pid \<noteq> None" using assms(4,5) by (auto simp: first_waiting_def filter_empty_conv)
  then obtain u where u: "first_waiting s pid = Some u" by blast
  note f = first_waiting_Some[OF u]
  have "u = t"
  proof (rule ccontr)
    assume "u \<noteq> t"
    then have "queue_position t < queue_position u" using least f(1-3) by blast
    moreover have "queue_position u \<le> queue_position t" using f(4) t assms(4,5) by blast
    ultimately show False by simp
  qed
  with u show ?thesis by simp
qed

text \<open>C35: progress: a claim launches the task whose turn it is when it is ready: it waits in the project's queue before all
  others, its plan is written and not being generated, no board task is under way in the workspace, and it
  either takes a new agent or continues with one that is at rest and resumable; the queue is not
  paused, no maintenance is running, the project is local and available; the disk accepts writes, the new ids are
  unused and no dead writer is waiting to be reaped. The task then has its agent, in memory and in the store.\<close>

theorem claim_progress:
  assumes "healthy w s" and "coherent s" and "hm_ok (rt_tasks s)" and "hm_keyed t_id (rt_tasks s)"
    and "exited_orphans w s = []" and "rt_maintenance s = None"
    and "setting (BoardExecutionKey (p_id p)) (rt_store s) = None
      \<or> (\<exists>x. setting (BoardExecutionKey (p_id p)) (rt_store s) = Some (SvBoardExecution x) \<and> \<not> bx_paused x)"
    and "q \<in> set (hm_values (rt_projects s))" "p_id q = p_id p" "p_archived_at q = None" "p_execution_target q = Local"
    and t: "hm_get (rt_tasks s) (t_id t) = Some t" "t_project_id t = p_id p"
    and wait: "t_execution_queue t = Some x" "column t = InProgress" "t_condition t = TcQueued"
      "t_assigned_agent_id t = None" "\<not> t_archived t"
    and least: "\<And>u. u \<in> set (hm_values (rt_tasks s)) \<Longrightarrow> t_project_id u = p_id p \<Longrightarrow> waiting_in_queue u \<Longrightarrow> u \<noteq> t
      \<Longrightarrow> q_position x < queue_position u"
    and plan: "\<not> blank (pl_text (t_planning t))" "\<And>j. pl_job (t_planning t) = Some j \<Longrightarrow> pj_status j \<noteq> ''running''"
    and free: "workspace_free w s p"
    and agent: "(q_agent_id x = None \<and> t_continue_agent_id t = None \<and> owner = fresh_uuid w s)
      \<or> (q_agent_id x = Some owner \<or> q_agent_id x = None \<and> t_continue_agent_id t = Some owner) \<and> agent_able s t owner"
    and fresh: "\<not> hm_contains (rt_agents s) (fresh_uuid w s)"
  shows "\<exists>t' s'. claim_board_task w p s = (Inr (Some t'), s') \<and> t_id t' = t_id t \<and> t_assigned_agent_id t' = Some owner
    \<and> column t' = InProgress \<and> hm_get (rt_tasks s') (t_id t) = Some t'
    \<and> stored_task (t_id t) (st_db (rt_store s')) = Some t'"
proof -
  have sel: "selected_agent t = (if q_agent_id x = None then t_continue_agent_id t else q_agent_id x)"
    by (simp add: selected_agent_def wait(1) opt_or_def split: option.split)
  have w: "waiting_in_queue t" using wait by (simp add: waiting_in_queue_def)
  have "queue_position t = q_position x" by (simp add: queue_position_def wait(1))
  with first_waiting_least[OF assms(3,4) t w] least have f: "first_waiting s (p_id p) = Some t" by simp
  have able: "selected_agent t = Some i \<Longrightarrow> agent_able s t i" for i
    using agent by (auto simp: sel split: if_splits)
  have "waiting_reason w s p t = None"
    using able able_idle free_not_busy[OF free] plan
    by (auto simp: waiting_reason_def plan_running_def is_some_and_iff)
  moreover have "resumable s t" using able able_idle by (auto simp: resumable_def split: option.split)
  moreover have "\<not> remote_maintenance_active w s" using assms(6) by (simp add: remote_maintenance_active_def)
  moreover obtain y where "board_execution s (p_id p) = Inr y" "\<not> bx_paused y"
    using assms(7) by (auto simp: board_execution_def)
  moreover have "any_project (\<lambda>q. p_id q = p_id p \<and> p_archived_at q = None \<and> \<not> is_remote q) s"
    using assms(8-11) by (auto simp: any_project_def list_ex_iff is_remote_def)
  ultimately obtain t' s' where c: "claim_board_task w p s = (Inr (Some t'), s')" "t_id t' = t_id t"
      "column t' = column t" "t_assigned_agent_id t' = Some (unwrap_or (fresh_uuid w s) (selected_agent t))"
    using claim_healthy[OF assms(1-5), of p y t] f fresh by blast
  have "unwrap_or (fresh_uuid w s) (selected_agent t) = owner" using agent by (auto simp: sel)
  moreover have g: "hm_get (rt_tasks s') (t_id t) = Some t'"
    using claim_cases[OF assms(5) c(1)] c(2) by (auto simp: hm.get_ins)
  moreover have "coherent s'" using coherent_claim[OF assms(2), of w p] c(1) by simp
  ultimately show ?thesis using c wait(2) by (auto simp: coherent_def)
qed

theorem claim_progress_witness:
  "\<exists>t' s'. claim_board_task sample_world sample_project (pair_board waiting_task (second_task 1)) = (Inr (Some t'), s')
     \<and> t_assigned_agent_id t' = Some 1000"
proof -
  let ?s = "pair_board waiting_task (second_task 1)"
  note f = pair_board_facts[of waiting_task 1]
  obtain x where x: "t_execution_queue waiting_task = Some x" "q_agent_id x = None" "q_position x = 3"
    by (simp add: waiting_task_def)
  have least: "q_position x < queue_position u"
    if "u \<in> set (hm_values (rt_tasks ?s))" "u \<noteq> waiting_task" for u
    using that by (auto simp: hm_values_def x(3))
  have w: "column waiting_task = InProgress" "t_assigned_agent_id waiting_task = None"
    "pl_job (t_planning waiting_task) = None"
    by (simp_all add: waiting_task_def column_def)
  have rest: "at_rest (pair_board t u) i" for t u i by (simp add: at_rest_def hm_keys_def hm_values_def)
  have free: "workspace_free sample_world ?s sample_project"
    by (auto simp: workspace_free_def rest hm_values_def hm_get_def)
  have "\<exists>t' s'. claim_board_task sample_world sample_project ?s = (Inr (Some t'), s') \<and> t_id t' = t_id waiting_task
    \<and> t_assigned_agent_id t' = Some 1000 \<and> column t' = InProgress \<and> hm_get (rt_tasks s') (t_id waiting_task) = Some t'
    \<and> stored_task (t_id waiting_task) (st_db (rt_store s')) = Some t'"
  proof (rule claim_progress[where q = sample_project and x = x])
    show "q_agent_id x = None \<and> t_continue_agent_id waiting_task = None \<and> 1000 = fresh_uuid sample_world ?s
      \<or> (q_agent_id x = Some 1000 \<or> q_agent_id x = None \<and> t_continue_agent_id waiting_task = Some 1000)
        \<and> agent_able ?s waiting_task 1000"
      using x(2) by (simp add: fresh_uuid_def)
  qed (use f w x least free ok_not_blank in \<open>simp_all add: hm_get_def hm_values_def setting_def\<close>)
  then show ?thesis by blast
qed

section \<open>Order\<close>

text \<open>C28: first in, first out: over any run of queueing requests and claims of a project, whatever the claims
  do (launch, leave a task waiting, or block one that cannot be resumed), in any interleaving with
  changes that leave the project's waiting tasks alone (work that runs and ends among them), the
  tasks leave the queue, launched or blocked, exactly in the order in which they stood in it or entered it.
  The claims are those that find no dead writer to reap; moving or withdrawing a waiting task is not part
  of such a run.\<close>

theorem queue_fifo:
  assumes "queue_ok pid s" and "fifo_run (board_enters pid) (board_serves pid) (board_rests pid) s ins outs s'"
  shows "List.map fst outs = take (length outs) (work_queue pid s @ ins)
    \<and> work_queue pid s' = drop (length outs) (work_queue pid s @ ins)"
  using board_fifo.run_order[OF assms(2,1)] board_fifo.served_in_order[OF assms(2,1)]
  by (metis append_eq_conv_conj length_map)

text \<open>Two waiting tasks of a project: the first is launched, its work ends, and the second is.\<close>

theorem queue_fifo_witness:
  "\<exists>s'. fifo_run (board_enters 1) (board_serves 1) (board_rests 1) (pair_board waiting_task (second_task 1))
     [] [(7, True), (8, True)] s' \<and> work_queue 1 s' = []"
proof -
  let ?s = "pair_board waiting_task (second_task 1)" and ?m = "pair_board ended_task (second_task 1)"
  have lock: "w_upgrade_lock sample_world = False" by simp
  obtain t s1 where c: "claim_board_task sample_world sample_project ?s = (Inr (Some t), s1)" "t_id t = 7"
    using pair_board_claim(1)[OF lock, of 1] by auto
  obtain u s2 where d: "claim_board_task sample_world sample_project ?m = (Inr (Some u), s2)" "t_id u = 8"
    using pair_board_claim(2)[OF lock] by auto
  have e: "exited_orphans sample_world ?s = []" "exited_orphans sample_world ?m = []"
    using pair_board_facts(5) by simp_all
  have q: "queue_ok (p_id sample_project) ?s" "queue_ok (p_id sample_project) ?m" using pair_board_queue by simp_all
  have w: "queue_ok 1 s1" "work_queue 1 s1 = [8]" "work_queue 1 s2 = []"
    using claim_leaves[OF q(1) e(1) c(1)] claim_leaves[OF q(2) e(2) d(1)] pair_board_queue c(2) d(2) by simp_all
  have l1: "board_serves 1 [(7, True)] ?s s1"
    unfolding board_serves_def using e(1) c w(2) pair_board_queue(2)
    by (intro exI[of _ sample_world] exI[of _ sample_project] exI[of _ "Inr (Some t)"]) simp
  have l2: "board_serves 1 [(8, True)] ?m s2"
    unfolding board_serves_def using e(2) d w(3) pair_board_queue(4)
    by (intro exI[of _ sample_world] exI[of _ sample_project] exI[of _ "Inr (Some u)"]) simp
  have r: "board_rests 1 s1 ?m" using w(2) pair_board_queue(3,4) by (simp add: board_rests_def)
  have run: "fifo_run (board_enters 1) (board_serves 1) (board_rests 1) ?s [] ([(7, True)] @ [(8, True)] @ []) s2"
    by (rule fifo_serve, rule l1, rule fifo_rest, rule r, rule fifo_serve, rule l2, rule fifo_stop)
  have "work_queue 1 s2 = drop (length ([(7, True)] @ [(8, True)] @ ([] :: (task_id \<times> bool) list))) ([7, 8] @ [])"
    using queue_fifo[OF pair_board_queue(1) run] unfolding pair_board_queue(2) by (rule conjunct2)
  with run show ?thesis by (intro exI[of _ s2]) simp
qed

text \<open>Reordering a waiting task moves exactly it: before the named task, or to the end; every
  other task keeps its place in the queue.\<close>

theorem reorder_moves:
  assumes "queue_ok pid s" and "queue_run w rq i rv s = (Inr (RChanged t'), s')"
    and "task_replay rq (rt_store s) = None" and "rq_project_id rq = Some pid"
    and "rq_operation rq = ReorderQueue i rv before"
  shows "queue_ok pid s' \<and> work_queue pid s' = place i before (work_queue pid s)"
  by (rule reorder_moves_run[OF assms])

definition reorder_request :: task_request where
  "reorder_request = \<lparr>rq_project_id = Some 1, rq_request_id = 50, rq_operation = ReorderQueue 7 1 None\<rparr>"

lemma reorder_sample:
  "\<exists>t' s'. queue_run sample_world reorder_request 7 1 board_sample = (Inr (RChanged t'), s')"
proof -
  have get: "hm_get (rt_tasks board_sample) 7 = Some waiting_task" by (simp add: hm_get_def)
  have live: "\<not> task_live board_sample waiting_task"
    by (simp add: task_live_def hm_get_def hm_contains_def)
  have g: "queue_guard reorder_request 7 1 board_sample = Inr waiting_task"
    using live by (simp add: queue_guard_def hm_get_def reorder_request_def opt_filter_def check_revision_def
      any_project_def hm_values_def is_remote_def)
  define t' where "t' = touch 200 (set_queue_position 1 waiting_task)"
  define a where "a = audit 1000 200 t' User ''queue_reorder'' (Some InProgress) None"
  have base: "reorder_base board_sample waiting_task = 0"
    by (simp add: reorder_base_def hm_values_def max_or_def List.map_filter_def)
  have pend: "pending_others board_sample waiting_task = []"
    by (simp add: pending_others_def hm_values_def)
  have "queue_operation sample_world board_sample waiting_task (rq_operation reorder_request)
     = Inr ([(t', a)], [], t')"
    by (simp add: queue_operation_def reorder_request_def reorder_queue_def reordered_def pend base
      insert_at_def checked_add_u64_def Let_def t'_def a_def)
  moreover have "\<exists>s'. commit_queue sample_world reorder_request ([(t', a)], [], t') board_sample
      = (Inr (RChanged t'), s')"
    by (rule commit_queue_healthy[OF board_sample_facts(1), where n = 0])
      (simp_all add: t'_def a_def audit_def hm_contains_def hm_get_def)
  ultimately show ?thesis using g
    by (auto simp: queue_run_def task_replay_def hm_get_def)
qed

theorem reorder_moves_witness:
  "\<exists>s'. work_queue 1 s' = place 7 None (work_queue 1 board_sample) \<and> work_queue 1 board_sample = [7]"
proof -
  obtain t' s' where "queue_run sample_world reorder_request 7 1 board_sample = (Inr (RChanged t'), s')"
    using reorder_sample by blast
  from reorder_moves[OF board_sample_queue(1) this, of None] board_sample_queue(2) show ?thesis
    by (auto simp: reorder_request_def task_replay_def hm_get_def)
qed

section \<open>Agreement and selection\<close>

text \<open>C38: whatever a queue request or a round of the dispatcher does, refused and failed ones
  included, the daemon's task map stays equal to the stored tasks; of what other threads do between the
  claims of the round the same is assumed.\<close>

theorem queue_keeps_coherence:
  assumes "coherent s" and "hm_keyed t_id (rt_tasks s)" and "\<And>n u. coherent u \<Longrightarrow> coherent (others n u)"
  shows "coherent (snd (queue_tick ws others s))
    \<and> (\<forall>r s'. board_queue_request w rq s = Some (r, s') \<longrightarrow> coherent s')"
proof -
  have "coherent s'" if "board_queue_request w rq s = Some (r, s')" for r s'
  proof -
    from that obtain i rv where "queue_run w rq i rv s = (r, s')"
      by (auto simp: board_queue_request_def split: option.splits)
    with queue_run_coherent[OF assms(1,2), of w rq i rv] show ?thesis by simp
  qed
  moreover have "coherent (snd (queue_tick ws others s))"
    unfolding queue_tick_def by (rule coherent_queue_round[OF assms(1)]) (rule assms(3))
  ultimately show ?thesis by blast
qed

theorem queue_keeps_coherence_witness:
  "coherent (snd (queue_tick (\<lambda>_. sample_world) (\<lambda>_. drawn) board_sample))"
  using queue_keeps_coherence[OF coherent_board board_sample_facts(3), of "\<lambda>_. drawn" "\<lambda>_. sample_world"
    sample_world reorder_request] by simp

text \<open>An agent is bound to a Todo task only when it is idle, user-managed, of the same project and
  resumable under the current account; if it belonged to another task, that task is an idle Todo
  task whose id and revision the caller confirmed, and it is detached in the same change.\<close>

theorem select_agent_safe:
  assumes "select_agent w s t (Some a) replace_id replace_rev = Inr (cs, runs, t')"
  shows "column t = Todo \<and> t_assigned_agent_id t' = Some a \<and> t_continue_agent_id t' = Some a
    \<and> t_execution_queue t' = None \<and> board_agent_idle s a
    \<and> (\<exists>r. hm_get (rt_agents s) a = Some r \<and> ar_project_id (rec_run r) = t_project_id t
         \<and> ar_coordinator_group (rec_run r) = None \<and> ar_native_session_id (rec_run r) \<noteq> None
         \<and> ar_resume_block_reason (rec_run r) = None
         \<and> ar_origin_codex_home (rec_run r) = rt_codex_home s
         \<and> (rec_run r)\<lparr>ar_task_id := Some (t_id t)\<rparr> \<in> set runs
         \<and> (\<forall>j. ar_task_id (rec_run r) = Some j \<longrightarrow> j \<noteq> t_id t \<longrightarrow>
              (\<exists>u u' au. hm_get (rt_tasks s) j = Some u \<and> column u = Todo \<and> \<not> task_live s u
                 \<and> replace_id = Some (t_id u) \<and> replace_rev = Some (t_revision u)
                 \<and> (u', au) \<in> set cs \<and> t_id u' = t_id u \<and> t_assigned_agent_id u' = None
                 \<and> t_continue_agent_id u' = None)))"
proof -
  from assms obtain cs0 run where
    n: "select_new_agent (fresh_uuid w s) (w_now w) s t a replace_id replace_rev = Inr (cs0, run)"
    and todo: "column t = Todo" and run: "run \<in> set runs"
    and cs: "\<exists>x. cs = cs0 @ [x]"
    and t': "t_assigned_agent_id t' = Some a" "t_continue_agent_id t' = Some a" "t_execution_queue t' = None"
    by (auto simp: select_agent_def Let_def res_bind_Ok_iff touch_def split: if_splits)
  from cs run have sub: "set cs0 \<subseteq> set cs" "run \<in> set runs" by auto
  from n obtain r where r: "hm_get (rt_agents s) a = Some r" and idle: "board_agent_idle s a"
    and f: "ar_project_id (rec_run r) = t_project_id t" "ar_coordinator_group (rec_run r) = None"
      "ar_native_session_id (rec_run r) \<noteq> None" "ar_resume_block_reason (rec_run r) = None"
      "ar_origin_codex_home (rec_run r) = rt_codex_home s"
      "run = (rec_run r)\<lparr>ar_task_id := Some (t_id t)\<rparr>"
    and d: "detach_other (fresh_uuid w s) (w_now w) s t (rec_run r) replace_id replace_rev = Inr cs0"
    by (auto simp: select_new_agent_def Let_def res_bind_Ok_iff split: option.splits if_splits)
  have "\<exists>u u' au. hm_get (rt_tasks s) j = Some u \<and> column u = Todo \<and> \<not> task_live s u
      \<and> replace_id = Some (t_id u) \<and> replace_rev = Some (t_revision u)
      \<and> (u', au) \<in> set cs \<and> t_id u' = t_id u \<and> t_assigned_agent_id u' = None
      \<and> t_continue_agent_id u' = None" if "ar_task_id (rec_run r) = Some j" "j \<noteq> t_id t" for j
    using d that sub(1)
    by (fastforce simp: detach_other_def opt_filter_def Let_def touch_def split: option.splits if_splits)
  with todo t' r idle f sub(2) show ?thesis by blast
qed

definition spare_agent :: agent_record where
  "spare_agent = done_agent\<lparr>rec_run := (rec_run done_agent)\<lparr>ar_native_session_id := Some ''th'',
     ar_task_id := None\<rparr>\<rparr>"

theorem select_agent_safe_witness:
  "\<exists>cs runs t'. select_agent sample_world (sample_runtime sample_task [(4, spare_agent)]) sample_task
     (Some 4) None None = Inr (cs, runs, t') \<and> t_assigned_agent_id t' = Some 4"
proof -
  let ?s = "sample_runtime sample_task [(4, spare_agent)]"
  have get: "hm_get (rt_agents ?s) 4 = Some spare_agent" by (simp add: hm_get_def)
  have idle: "board_agent_idle ?s 4"
    by (simp add: board_agent_idle_def hm_contains_def hm_get_def spare_agent_def done_agent_def)
  have a: "ar_task_id (rec_run spare_agent) = None" "ar_project_id (rec_run spare_agent) = 1"
    "ar_coordinator_group (rec_run spare_agent) = None" "ar_resume_block_reason (rec_run spare_agent) = None"
    "ar_native_session_id (rec_run spare_agent) = Some ''th''"
    "ar_origin_codex_home (rec_run spare_agent) = None"
    by (simp_all add: spare_agent_def done_agent_def)
  have new: "select_new_agent (fresh_uuid sample_world ?s) (w_now sample_world) ?s sample_task 4 None None
      = Inr ([], (rec_run spare_agent)\<lparr>ar_task_id := Some 7\<rparr>)"
    using idle a by (simp add: select_new_agent_def detach_other_def hm_get_def Let_def opt_filter_def)
  obtain cs runs t' where
    sel: "select_agent sample_world ?s sample_task (Some 4) None None = Inr (cs, runs, t')"
    using new by (auto simp: select_agent_def Let_def opt_or_def)
  from select_agent_safe[OF sel] sel show ?thesis by blast
qed

end
