(* ===== verification/Planning_Facts.thy ===== *)
theory Planning_Facts
  imports Task_Planning Board_Properties
begin

text \<open>
  What plan jobs guarantee: at most four of them run, the end of a job is recorded exactly once and
  never overwrites what the user wrote meanwhile, and nothing but a failed save of that end lets
  memory and store differ.
\<close>

section \<open>Replies\<close>

lemma save_reply_commit: "save_reply w rq cs t s = commit_queue w rq (cs, [], t) s"
  by (simp add: save_reply_def commit_queue_def save_task_changes_alt split: prod.split sum.split)

lemma save_reply_coherent: "coherent s \<Longrightarrow> coherent (snd (save_reply w rq cs t s))"
proof -
  assume c: "coherent s"
  obtain r s' where e: "commit_queue w rq (cs, [], t) s = (r, s')" by fastforce
  show ?thesis
  proof (cases r)
    case (Inl x) with e c commit_queue_Err[of w rq "(cs, [], t)" s x s'] show ?thesis
      by (simp add: save_reply_commit)
  next
    case (Inr resp)
    from commit_queue_Ok(2,3)[OF e[unfolded Inr]] c e show ?thesis
      by (simp add: save_reply_commit coherent_def)
  qed
qed

lemma save_reply_tasks:
  assumes "save_reply w rq cs t s = (r, s')"
  shows "rt_tasks s' = (if r = Inr (RChanged t) then fold (\<lambda>(t, _). hm_insert (t_id t) t) cs (rt_tasks s)
    else rt_tasks s)"
    and "\<forall>resp. r = Inr resp \<longrightarrow> resp = RChanged t" and "rt_projects s' = rt_projects s"
  using assms by (auto simp: save_reply_def publish_tasks_tasks elim!: with_storeE
    split: sum.splits prod.splits)

section \<open>Counting running jobs\<close>

lemma count_insert:
  "length (List.filter P (hm_values (hm_insert k v m)))
     \<le> length (List.filter P (hm_values m)) + (if P v then 1 else 0)"
  by (induction m) (auto simp: hm_values_def hm_insert_def)

lemma count_insert_kept:
  assumes "P v \<Longrightarrow> \<exists>old. hm_get m k = Some old \<and> P old"
  shows "length (List.filter P (hm_values (hm_insert k v m))) \<le> length (List.filter P (hm_values m))"
  using assms by (induction m) (auto simp: hm_values_def hm_insert_def hm_get_def split: if_splits)

section \<open>Jobs\<close>

lemma set_job_simps [simp]:
  "t_id (set_job j t) = t_id t" "t_project_id (set_job j t) = t_project_id t"
  "pl_job (t_planning (set_job j t)) = Some j" "pl_text (t_planning (set_job j t)) = pl_text (t_planning t)"
  "t_description (set_job j t) = t_description t" "t_state (set_job j t) = t_state t"
  "t_condition (set_job j t) = t_condition t" "t_execution_queue (set_job j t) = t_execution_queue t"
  "t_assigned_agent_id (set_job j t) = t_assigned_agent_id t" "t_archived (set_job j t) = t_archived t"
  "t_order_key (set_job j t) = t_order_key t" "t_revision (set_job j t) = t_revision t"
  by (simp_all add: set_job_def)

lemma plan_running_set_job [simp]: "plan_running (set_job j t) = (pj_status j = ''running'')"
  by (simp add: plan_running_def)

lemma plan_running_touch [simp]: "plan_running (touch now t) = plan_running t"
  by (simp add: plan_running_def touch_def)

lemma ended_plan_simps [simp]:
  "t_id (ended_plan now e r j t) = t_id t"
  "t_description (ended_plan now e r j t) = t_description t"
  by (auto simp: ended_plan_def Let_def split: sum.splits)

lemma ended_plan_job:
  "\<exists>j'. pl_job (t_planning (ended_plan now e r j t)) = Some j' \<and> pj_id j' = pj_id j
     \<and> pj_status j' = (case r of Inr _ \<Rightarrow> ''completed'' | Inl _ \<Rightarrow> ''failed'')
     \<and> pj_result j' = (case r of Inr plan \<Rightarrow> Some plan | Inl _ \<Rightarrow> pj_result j)"
  by (auto simp: ended_plan_def Let_def split: sum.splits)

lemma ended_plan_text:
  "pl_text (t_planning (ended_plan now e r j t)) = (case r of
     Inr plan \<Rightarrow> if e \<and> pl_text (t_planning t) = pj_previous_plan j then plan else pl_text (t_planning t)
   | Inl _ \<Rightarrow> pl_text (t_planning t))"
  by (auto simp: ended_plan_def Let_def split: sum.splits)

lemma unsaved_plan_simps [simp]:
  "t_id (unsaved_plan old t) = t_id t" "t_description (unsaved_plan old t) = t_description t"
  "pl_text (t_planning (unsaved_plan old t)) = old"
  by (simp_all add: unsaved_plan_def)

text \<open>The two ways a running job ends.\<close>

definition plan_end :: "world \<Rightarrow> (string, string) result \<Rightarrow> task_plan_job \<Rightarrow> runtime \<Rightarrow> task \<Rightarrow> task" where
  "plan_end w r j s old = touch (w_now w) (ended_plan (w_now w) (\<not> planning_frozen s old) r j old)"

lemma plan_end_id [simp]: "t_id (plan_end w r j s old) = t_id old"
  by (simp add: plan_end_def)

lemma finish_idle:
  assumes "\<And>t. hm_get (rt_tasks s) tid = Some t \<Longrightarrow> \<not> job_running i t"
  shows "finish_task_plan w tid i r s = s"
  using assms by (auto simp: finish_task_plan_def job_running_def opt_filter_def is_some_and_iff
    split: option.splits if_splits)

lemma finish_saved_or_not:
  assumes "hm_get (rt_tasks s) tid = Some old" and "pl_job (t_planning old) = Some j"
    and "pj_id j = i" and "pj_status j = ''running''" and "t_id old = tid"
    and s': "s' = finish_task_plan w tid i r s"
  obtains (saved) "rt_tasks s' = hm_insert tid (plan_end w r j s old) (rt_tasks s)"
      "coherent s \<Longrightarrow> coherent s'"
  | (unsaved) "rt_tasks s' = hm_insert tid (unsaved_plan (pl_text (t_planning old)) (plan_end w r j s old))
        (rt_tasks s)"
      "st_db (rt_store s') = st_db (rt_store s)"
proof -
  let ?t = "plan_end w r j s old"
  let ?change = "(?t, audit (fresh_uuid w s) (w_now w) ?t Daemon ''plan_finished'' None None)"
  obtain x s1 where sv: "with_store (save_task_agent_changes [?change] None []) (drawn s) = (x, s1)"
    by fastforce
  from sv have t1: "rt_tasks s1 = rt_tasks s" by (auto elim: with_storeE)
  have f: "s' = (case x of Inl _ \<Rightarrow> (let t = unsaved_plan (pl_text (t_planning old)) ?t in
          broadcast w (TaskChanged t) (s1\<lparr>rt_tasks := hm_insert (t_id t) t (rt_tasks s1)\<rparr>))
      | Inr _ \<Rightarrow> publish_tasks w [?change] s1)"
    using assms(1-4) sv
    by (simp add: s' finish_task_plan_def plan_end_def save_task_changes_alt Let_def split: sum.split)
  show thesis
  proof (cases x)
    case (Inl e)
    from save_failed[OF sv[unfolded Inl]] have "st_db (rt_store s1) = st_db (rt_store s)" by simp
    with f Inl t1 assms(5) show thesis by (intro unsaved) (simp_all add: broadcast_def Let_def)
  next
    case (Inr u)
    from save_then_publish[OF sv[unfolded Inr]] have "coherent s \<Longrightarrow> coherent s'"
      using f Inr by simp
    moreover from f Inr t1 assms(5) have "rt_tasks s' = hm_insert tid ?t (rt_tasks s)"
      by simp
    ultimately show thesis by (rule saved[rotated])
  qed
qed

lemma finish_ended:
  assumes "hm_get (rt_tasks s) tid = Some old" and "t_id old = tid" and "job_running i old"
  shows "\<exists>t. rt_tasks (finish_task_plan w tid i r s) = hm_insert tid t (rt_tasks s)
    \<and> t_id t = tid \<and> \<not> plan_running t"
proof -
  from assms(3) obtain j where j: "pl_job (t_planning old) = Some j" "pj_id j = i" "pj_status j = ''running''"
    by (auto simp: job_running_def is_some_and_iff)
  have ended: "\<not> plan_running (plan_end w r j s old)"
    using ended_plan_job[of "w_now w" "\<not> planning_frozen s old" r j old]
    by (auto simp: plan_end_def plan_running_def split: sum.splits)
  have "\<not> plan_running (unsaved_plan x (plan_end w r j s old))" for x
    by (auto simp: unsaved_plan_def plan_running_def is_some_and_iff)
  with ended finish_saved_or_not[OF assms(1) j assms(2) refl] assms(2) show ?thesis
    by (metis plan_end_id unsaved_plan_simps(1))
qed

lemma not_running_job: "\<not> plan_running t \<Longrightarrow> \<not> job_running i t"
  by (auto simp: plan_running_def job_running_def is_some_and_iff)

text \<open>An accepted request keeps the task's identity, and only starts a job when a slot is free.\<close>

lemma planning_guard_Ok:
  "planning_guard rq i s = Inr (t, p) \<Longrightarrow> hm_get (rt_tasks s) i = Some t
     \<and> Some (t_project_id t) = rq_project_id rq \<and> p_id p = t_project_id t
     \<and> ((\<forall>i j. rq_operation rq \<noteq> CancelPlan i j) \<longrightarrow> \<not> planning_frozen s t)"
  by (auto simp: planning_guard_def opt_filter_def project_by_def find_Some_iff
    split: option.splits if_splits task_operation.splits)

lemma edit_description_Ok:
  "edit_description od op d p t = Inr t' \<longleftrightarrow> length d \<le> 65536 \<and> length p \<le> 65536
     \<and> t_description t = od \<and> pl_text (t_planning t) = op
     \<and> t' = t\<lparr>t_description := d, t_planning := (t_planning t)\<lparr>pl_text := p\<rparr>\<rparr>"
  by (auto simp: edit_description_def)

lemma cancel_plan_Ok:
  "cancel_plan now i t = Inr t' \<longleftrightarrow> (\<exists>j. pl_job (t_planning t) = Some j \<and> pj_id j = i
     \<and> t' = (if pj_status j = ''running''
         then set_job (j\<lparr>pj_status := ''canceled'', pj_finished_at := Some now\<rparr>) t else t))"
  by (auto simp: cancel_plan_def opt_filter_def split: option.splits)

lemma prepare_task_plan_Ok:
  "prepare_task_plan w s p t i model = Inr l \<Longrightarrow> \<not> plan_running t \<and> running_plans s < 4
     \<and> \<not> is_remote p \<and> tl_job l = new_task_plan_job (w_now w) t i \<and> rt_codex_binary s = Some (tl_binary l)"
  by (auto simp: prepare_task_plan_def res_bind_Ok_iff split: if_splits)

lemma plan_running_text [simp]:
  "plan_running (t\<lparr>t_description := d, t_planning := (t_planning t)\<lparr>pl_text := x\<rparr>\<rparr>) = plan_running t"
  by (simp add: plan_running_def)

lemma planning_operation_Ok:
  assumes "planning_operation w rq s (t, p) = Inr (t', a, l)"
  shows "t_id t' = t_id t" "plan_running t' \<Longrightarrow> plan_running t \<or> running_plans s < 4"
  using assms
  by (auto simp: planning_operation_def res_bind_Ok_iff edit_description_Ok cancel_plan_Ok
    dest!: prepare_task_plan_Ok split: task_operation.splits if_splits)

lemma planning_run_cases:
  assumes "hm_keyed t_id (rt_tasks s)"
  obtains (kept) "rt_tasks (snd (planning_run w rq i s)) = rt_tasks s"
  | (changed) t p t' a l where "planning_guard rq i s = Inr (t, p)"
      "planning_operation w rq s (t, p) = Inr (t', a, l)" "t_id t = i" "t_id t' = i"
      "planning_run w rq i s = ((Ok (RChanged (touch (w_now w) t')), l), snd (planning_run w rq i s))"
      "rt_tasks (snd (planning_run w rq i s)) = hm_insert i (touch (w_now w) t') (rt_tasks s)"
proof (cases "task_replay rq (rt_store s)")
  case (Some resp) then show thesis by (intro kept) (simp add: planning_run_def)
next
  case None
  note run = planning_run_def[of w rq i s, unfolded None option.case]
  show thesis
  proof (cases "res_bind (planning_guard rq i s) (planning_operation w rq s)")
    case (Inl e) with run show thesis by (intro kept) simp
  next
    case (Inr x)
    obtain t' a l where x: "x = (t', a, l)" by (cases x)
    from Inr x obtain t p where g: "planning_guard rq i s = Inr (t, p)"
      and op: "planning_operation w rq s (t, p) = Inr (t', a, l)" by (auto simp: res_bind_Ok_iff)
    from planning_guard_Ok[OF g] assms have t: "t_id t = i" by (auto simp: hm.keyed_by_def)
    define u where "u = touch (w_now w) t'"
    have u: "t_id u = i" using t planning_operation_Ok(1)[OF op] by (simp add: u_def)
    obtain r s' where sv: "save_reply w rq
        [(u, audit (fresh_uuid w s) (w_now w) u User a None None)] u s = (r, s')" by fastforce
    note r = save_reply_tasks(2)[OF sv]
    have tasks: "rt_tasks s' = (if r = Inr (RChanged u) then hm_insert i u (rt_tasks s) else rt_tasks s)"
      using save_reply_tasks(1)[OF sv] u by simp
    have ran: "planning_run w rq i s = (case r of Inl e \<Rightarrow> ((Err e, None), s')
        | Inr resp \<Rightarrow> ((Ok resp, l), s'))"
      using run sv by (simp add: Inr x u_def Let_def)
    show thesis
    proof (cases r)
      case (Inl e)
      with ran have "planning_run w rq i s = ((Err e, None), s')" by simp
      with tasks Inl show thesis by (intro kept) simp
    next
      case (Inr resp)
      with r have resp: "resp = RChanged u" by blast
      with ran Inr have "planning_run w rq i s = ((Ok (RChanged u), l), s')" by simp
      with tasks resp Inr show thesis
        using t planning_operation_Ok(1)[OF op] by (intro changed[OF g op]) (simp_all add: u_def)
    qed
  qed
qed

lemma planning_run_running:
  assumes "hm_keyed t_id (rt_tasks s)"
  shows "running_plans (snd (planning_run w rq i s)) \<le> max 4 (running_plans s)"
  using assms
proof (cases rule: planning_run_cases[where w = w and rq = rq and i = i])
  case (changed t p t' a l)
  note count = count_insert[of plan_running i "touch (w_now w) t'" "rt_tasks s"]
  note op = planning_operation_Ok(2)[OF changed(2)]
  show ?thesis
  proof (cases "plan_running t' \<and> \<not> plan_running t")
    case True with count op changed(6) show ?thesis by (simp add: running_plans_def)
  next
    case False
    then have "length (List.filter plan_running (hm_values (hm_insert i (touch (w_now w) t') (rt_tasks s))))
      \<le> length (List.filter plan_running (hm_values (rt_tasks s)))"
      using planning_guard_Ok[OF changed(1)] by (intro count_insert_kept) auto
    with changed(6) show ?thesis by (simp add: running_plans_def)
  qed
qed (simp add: running_plans_def)

lemma finish_running:
  assumes "hm_keyed t_id (rt_tasks s)"
  shows "running_plans (finish_task_plan w tid i r s) \<le> running_plans s"
proof (cases "\<exists>old. hm_get (rt_tasks s) tid = Some old \<and> job_running i old")
  case True
  then obtain old where old: "hm_get (rt_tasks s) tid = Some old" "job_running i old" by blast
  with assms have "t_id old = tid" by (auto simp: hm.keyed_by_def)
  from finish_ended[OF old(1) this old(2)] obtain t where
    "rt_tasks (finish_task_plan w tid i r s) = hm_insert tid t (rt_tasks s)" "\<not> plan_running t" by blast
  then show ?thesis using count_insert_kept[of plan_running t "rt_tasks s" tid]
    by (simp add: running_plans_def)
qed (subst finish_idle; auto)

lemma planning_run_coherent:
  assumes "coherent s"
  shows "coherent (snd (planning_run w rq i s))"
proof -
  have "coherent (snd (case save_reply w rq cs t s of
      (Inl e, s') \<Rightarrow> ((Err e, None), s') | (Inr resp, s') \<Rightarrow> ((Ok resp, l), s')))" for cs t l
    using save_reply_coherent[OF assms, of w rq cs t] by (auto split: prod.splits sum.splits)
  then show ?thesis unfolding planning_run_def Let_def
    by (auto simp: assms split: option.split sum.split)
qed

lemma touch_job [simp]: "job_running i (touch now t) = job_running i t"
  by (simp add: job_running_def)

lemma cancelled_idle:
  assumes "pl_job (t_planning t) = Some j \<and> pj_id j = i \<and> t' = (if pj_status j = ''running''
    then set_job (j\<lparr>pj_status := ''canceled'', pj_finished_at := Some now\<rparr>) t else t)"
  shows "\<not> job_running i t'"
  using assms by (simp add: job_running_def)

section \<open>Properties\<close>

abbreviation plan_text :: "task \<Rightarrow> string" where
  "plan_text t \<equiv> pl_text (t_planning t)"


text \<open>C20: the end of a plan job never overwrites what the user wrote meanwhile: the text changes only
  if it is still the one the job started from and the task may be edited, and then to the generated
  plan; description and all other tasks stay, and the generated plan is kept as the job's result,
  also when the save fails.\<close>

theorem plan_never_overwrites:
  assumes "hm_get (rt_tasks s) tid = Some old" and "t_id old = tid"
    and "pl_job (t_planning old) = Some j" and "pj_status j = ''running''"
  shows "\<exists>t j'. hm_get (rt_tasks (finish_task_plan w tid (pj_id j) r s)) tid = Some t
    \<and> t_description t = t_description old
    \<and> (plan_text t = plan_text old
       \<or> plan_text old = pj_previous_plan j \<and> \<not> planning_frozen s old \<and> r = Inr (plan_text t))
    \<and> pl_job (t_planning t) = Some j' \<and> pj_id j' = pj_id j \<and> pj_status j' \<noteq> ''running''
    \<and> (\<forall>plan. r = Inr plan \<longrightarrow> pj_result j' = Some plan)
    \<and> (\<forall>k. k \<noteq> tid \<longrightarrow> hm_get (rt_tasks (finish_task_plan w tid (pj_id j) r s)) k = hm_get (rt_tasks s) k)"
proof -
  let ?s' = "finish_task_plan w tid (pj_id j) r s"
  let ?t = "plan_end w r j s old"
  obtain j' where j': "pl_job (t_planning ?t) = Some j'" "pj_id j' = pj_id j" "pj_status j' \<noteq> ''running''"
    "\<forall>plan. r = Inr plan \<longrightarrow> pj_result j' = Some plan"
    using ended_plan_job[of "w_now w" "\<not> planning_frozen s old" r j old]
    by (auto simp: plan_end_def split: sum.splits)
  have kept_text: "plan_text ?t = plan_text old
      \<or> plan_text old = pj_previous_plan j \<and> \<not> planning_frozen s old \<and> r = Inr (plan_text ?t)"
    by (simp add: plan_end_def ended_plan_text split: sum.split)
  have described: "t_description ?t = t_description old" by (simp add: plan_end_def)
  show ?thesis
  proof (rule finish_saved_or_not[OF assms(1,3) refl assms(4,2), of ?s' w r, OF refl])
    assume "rt_tasks ?s' = hm_insert tid ?t (rt_tasks s)"
    then show ?thesis using j' kept_text described by (auto simp: hm.get_ins)
  next
    let ?u = "unsaved_plan (plan_text old) ?t"
    assume "rt_tasks ?s' = hm_insert tid ?u (rt_tasks s)"
    moreover have "pl_job (t_planning ?u) = Some (j'\<lparr>pj_status := ''failed'',
        pj_error := Some (unsaved_message (pj_result j'))\<rparr>)" using j' by (simp add: unsaved_plan_def)
    ultimately show ?thesis using j' described by (auto simp: hm.get_ins)
  qed
qed

definition plan_job :: task_plan_job where
  "plan_job = \<lparr>pj_id = 40, pj_status = ''running'', pj_title = ''t'', pj_description = ''d'',
     pj_previous_plan = pl_text (t_planning sample_task), pj_started_at = 150, pj_finished_at = None,
     pj_result = None, pj_error = None\<rparr>"

abbreviation "planning_sample \<equiv> sample_runtime (set_job plan_job sample_task) []"

lemma planning_sample_get:
  "hm_get (rt_tasks planning_sample) 7 = Some (set_job plan_job sample_task)"
  by (simp add: hm_get_def)

theorem plan_never_overwrites_witness:
  "\<exists>t j'. hm_get (rt_tasks (finish_task_plan sample_world 7 (pj_id plan_job) (Inr ''p'') planning_sample)) 7
      = Some t \<and> pl_job (t_planning t) = Some j' \<and> pj_result j' = Some ''p''"
proof -
  have "pj_status plan_job = ''running''" by (simp add: plan_job_def)
  from plan_never_overwrites[OF planning_sample_get _ _ this, of sample_world "Inr ''p''"]
  show ?thesis by auto
qed

text \<open>A plan job ends once: a second end of the same job changes nothing, and once a cancellation
  was accepted the planner's answer is ignored.\<close>

theorem plan_ends_once:
  assumes "hm_keyed t_id (rt_tasks s)"
  shows "finish_task_plan w' tid i r' (finish_task_plan w tid i r s) = finish_task_plan w tid i r s
    \<and> (\<forall>rq resp l s1. rq_operation rq = CancelPlan tid i \<longrightarrow> task_replay rq (rt_store s) = None \<longrightarrow>
         planning_run w rq tid s = ((Inr resp, l), s1) \<longrightarrow> finish_task_plan w' tid i r' s1 = s1)"
proof (intro conjI allI impI)
  show "finish_task_plan w' tid i r' (finish_task_plan w tid i r s) = finish_task_plan w tid i r s"
  proof (cases "\<exists>old. hm_get (rt_tasks s) tid = Some old \<and> job_running i old")
    case True
    then obtain old where old: "hm_get (rt_tasks s) tid = Some old" "job_running i old" by blast
    with assms have "t_id old = tid" by (auto simp: hm.keyed_by_def)
    from finish_ended[OF old(1) this old(2), of w r] obtain t where
      "rt_tasks (finish_task_plan w tid i r s) = hm_insert tid t (rt_tasks s)" "\<not> plan_running t" by blast
    then show ?thesis by (intro finish_idle) (auto simp: hm.get_ins not_running_job)
  next
    case False
    then have "finish_task_plan w tid i r s = s" by (intro finish_idle) auto
    moreover from False have "finish_task_plan w' tid i r' s = s" by (intro finish_idle) auto
    ultimately show ?thesis by simp
  qed
next
  fix rq resp l s1
  assume op: "rq_operation rq = CancelPlan tid i" and fresh: "task_replay rq (rt_store s) = None"
    and run: "planning_run w rq tid s = ((Inr resp, l), s1)"
  obtain t p where g: "planning_guard rq tid s = Inr (t, p)"
    and c: "\<exists>t' u a l'. planning_operation w rq s (t, p) = Inr (t', a, l') \<and> u = touch (w_now w) t'
      \<and> save_reply w rq [(u, audit (fresh_uuid w s) (w_now w) u User a None None)] u s = (Inr resp, s1)"
    using run fresh by (auto simp: planning_run_def Let_def res_bind_Ok_iff split: sum.splits prod.splits)
  then obtain t' a l' where o: "planning_operation w rq s (t, p) = Inr (t', a, l')"
    and sv: "save_reply w rq [(touch (w_now w) t', audit (fresh_uuid w s) (w_now w) (touch (w_now w) t')
      User a None None)] (touch (w_now w) t') s = (Inr resp, s1)" by blast
  from o op have "cancel_plan (w_now w) i t = Inr t'" by (auto simp: planning_operation_def res_bind_Ok_iff)
  then have idle: "\<not> job_running i (touch (w_now w) t')"
    unfolding cancel_plan_Ok by (rule exE) (metis cancelled_idle touch_job)
  from planning_guard_Ok[OF g] planning_operation_Ok(1)[OF o] assms have "t_id t' = tid"
    by (auto simp: hm.keyed_by_def)
  moreover have "resp = RChanged (touch (w_now w) t')" using save_reply_tasks(2)[OF sv] by blast
  ultimately have "rt_tasks s1 = hm_insert tid (touch (w_now w) t') (rt_tasks s)"
    using save_reply_tasks(1)[OF sv] by simp
  with idle show "finish_task_plan w' tid i r' s1 = s1" by (intro finish_idle) (auto simp: hm.get_ins)
qed

theorem plan_ends_once_witness:
  "finish_task_plan sample_world 7 40 (Inr ''q'') (finish_task_plan sample_world 7 40 (Inr ''p'') planning_sample)
     = finish_task_plan sample_world 7 40 (Inr ''p'') planning_sample"
proof -
  have "hm_keyed t_id (rt_tasks planning_sample)" by (simp add: hm.keyed_by_def hm_get_def)
  from plan_ends_once[OF this, of sample_world 7 40 "Inr ''q''" sample_world "Inr ''p''"]
  show ?thesis by blast
qed

end
