(* ===== verification/Board_Columns.thy ===== *)
theory Board_Columns
  imports Task_Requests Planning_Facts
begin

text \<open>
  Moving a card: the column as the list of its cards in order, and the proof that a move puts
  exactly one card in its place, both where a gap between two keys is found and where the whole
  column is dealt new keys.
\<close>

section \<open>A column\<close>

definition on_board :: "project_id \<Rightarrow> task_column \<Rightarrow> task \<Rightarrow> bool" where
  "on_board pid col t \<longleftrightarrow> t_project_id t = pid \<and> column t = col \<and> \<not> t_archived t"

definition board_column :: "project_id \<Rightarrow> task_column \<Rightarrow> runtime \<Rightarrow> task_id list" where
  "board_column pid col s = List.map t_id (list_tasks (Some pid) (Some col) False s)"

lemma list_tasks_column:
  "list_tasks (Some pid) (Some col) False s = sort_key card_key (List.filter (on_board pid col) (hm_values (rt_tasks s)))"
  unfolding list_tasks_def on_board_def
  by (rule arg_cong[where f = "sort_key card_key"], rule filter_cong) auto

lemma move_siblings_column:
  "move_siblings s t pid col = List.filter (\<lambda>u. t_id u \<noteq> t_id t) (list_tasks (Some pid) (Some col) False s)"
  unfolding list_tasks_column move_siblings_def filter_sort filter_filter on_board_def
  by (rule arg_cong[where f = "sort_key card_key"], rule filter_cong) auto

lemma card_key_inj: "hm_ok (rt_tasks s) \<Longrightarrow> hm_keyed t_id (rt_tasks s) \<Longrightarrow>
    inj_on card_key (set (hm_values (rt_tasks s)))"
proof (rule inj_onI)
  fix u v
  assume ok: "hm_ok (rt_tasks s)" "hm_keyed t_id (rt_tasks s)" and "card_key u = card_key v"
    and m: "u \<in> set (hm_values (rt_tasks s))" "v \<in> set (hm_values (rt_tasks s))"
  then have "t_id u = t_id v" by (simp add: card_key_def)
  with m show "u = v" unfolding hm.keyed_by_vals[OF ok] by (rule same_entry)
qed

lemma column_strict:
  assumes "hm_ok (rt_tasks s)" and "hm_keyed t_id (rt_tasks s)"
  shows "sorted_wrt (<) (List.map card_key (list_tasks (Some pid) (Some col) False s))"
proof -
  have "inj_on card_key (set (List.filter (on_board pid col) (hm_values (rt_tasks s))))"
    by (rule inj_on_subset[OF card_key_inj[OF assms]]) auto
  with distinct_values[OF assms] show ?thesis
    by (simp add: strict_sorted_iff list_tasks_column distinct_map)
qed

lemma column_members:
  assumes "hm_ok (rt_tasks s)" and "hm_keyed t_id (rt_tasks s)"
  shows "u \<in> set (list_tasks (Some pid) (Some col) False s) \<longleftrightarrow>
    hm_get (rt_tasks s) (t_id u) = Some u \<and> on_board pid col u"
  using hm.keyed_by_vals[OF assms] by (auto simp: list_tasks_column)

lemma column_eqI:
  assumes ok: "hm_ok (rt_tasks s)" "hm_keyed t_id (rt_tasks s)"
    and sorted: "sorted_wrt (<) (List.map card_key us)"
    and mem: "\<And>u. u \<in> set us \<longleftrightarrow> hm_get (rt_tasks s) (t_id u) = Some u \<and> on_board pid col u"
  shows "list_tasks (Some pid) (Some col) False s = us"
proof -
  let ?xs = "list_tasks (Some pid) (Some col) False s"
  have set: "set ?xs = set us" using column_members[OF ok] mem by blast
  have inj: "inj_on card_key (set us)" using sorted by (simp add: strict_sorted_iff distinct_map)
  have "List.map card_key ?xs = List.map card_key us"
    by (rule strict_sorted_equal[OF column_strict[OF ok] sorted, symmetric]) (simp add: set)
  then show ?thesis by (rule map_inj_on) (simp add: inj set)
qed

section \<open>Placing a card among its siblings\<close>

text \<open>The cards after the placement, against the cards in the requested order.\<close>

definition placed_as :: "task \<Rightarrow> (task \<times> task_audit) list \<Rightarrow> task \<Rightarrow> task \<Rightarrow> bool" where
  "placed_as next cs u v \<longleftrightarrow> t_id v = t_id u \<and> (if t_id u = t_id next then v = next
     else (\<forall>pid col. on_board pid col v = on_board pid col u) \<and> after_changes cs (t_id u) (Some u) = Some v)"

lemma on_board_order [simp]: "on_board pid col (t\<lparr>t_order_key := k\<rparr>) = on_board pid col t"
  by (simp add: on_board_def)

lemma on_board_touch [simp]: "on_board pid col (touch now t) = on_board pid col t"
  by (simp add: on_board_def)

lemma rebalance_Cons:
  assumes "rebalance fresh now k next (u # us) = (next', cs)"
  obtains (moved) "t_id u = t_id next"
      "rebalance fresh now (Suc k) (next\<lparr>t_order_key := (int k + 1) * 1024\<rparr>) us = (next', cs)"
  | (dealt) v a cs' where "t_id u \<noteq> t_id next" "v = touch now (u\<lparr>t_order_key := (int k + 1) * 1024\<rparr>)"
      "rebalance (\<lambda>n. fresh (Suc n)) now (Suc k) next us = (next', cs')" "cs = (v, a) # cs'"
  using assms by (cases "t_id u = t_id next") (auto simp: Let_def split: prod.splits)

lemma rebalance_next: "rebalance fresh now k next us = (next', cs) \<Longrightarrow>
    (\<exists>key. next' = next\<lparr>t_order_key := key\<rparr>) \<and> (t_id next \<notin> t_id ` set us \<longrightarrow> next' = next)"
proof (induction us arbitrary: fresh k "next" next' cs)
  case Nil
  then show ?case by (auto intro!: exI[of _ "t_order_key next"])
next
  case (Cons u us)
  from Cons.prems show ?case
  proof (cases rule: rebalance_Cons)
    case moved
    from Cons.IH[OF moved(2)] moved(1) show ?thesis by auto
  next
    case (dealt v a cs')
    from Cons.IH[OF dealt(3)] show ?thesis by auto
  qed
qed

lemma rebalance_spec:
  assumes "rebalance fresh now k next us = (next', cs)" and "distinct (List.map t_id us)"
  shows "\<exists>vs. List.map t_order_key vs = List.map (\<lambda>j. (int j + 1) * 1024) [k..<k + length us]
    \<and> list_all2 (placed_as next' cs) us vs
    \<and> set (List.map (\<lambda>(t, _). t_id t) cs) \<subseteq> set (List.map t_id us) - {t_id next}"
  using assms
proof (induction us arbitrary: fresh k "next" next' cs)
  case (Cons u us)
  have keys: "List.map (\<lambda>j. (int j + 1) * 1024) [k..<k + length (u # us)]
    = (int k + 1) * 1024 # List.map (\<lambda>j. (int j + 1) * 1024) [Suc k..<Suc k + length us]"
    by (simp add: upt_conv_Cons del: upt_Suc)
  have d: "distinct (List.map t_id us)" using Cons.prems(2) by simp
  from Cons.prems(1) show ?case
  proof (cases rule: rebalance_Cons)
    case moved
    let ?n = "next\<lparr>t_order_key := (int k + 1) * 1024\<rparr>"
    from Cons.IH[OF moved(2) d] obtain vs where
      vs: "List.map t_order_key vs = List.map (\<lambda>j. (int j + 1) * 1024) [Suc k..<Suc k + length us]"
      "list_all2 (placed_as next' cs) us vs"
      "set (List.map (\<lambda>(t, _). t_id t) cs) \<subseteq> set (List.map t_id us) - {t_id ?n}" by blast
    have "t_id ?n \<notin> t_id ` set us" using moved(1) Cons.prems(2) by auto
    with rebalance_next[OF moved(2)] have n: "next' = ?n" by blast
    then have "placed_as next' cs u next'" using moved(1) by (simp add: placed_as_def)
    moreover have "t_order_key next' = (int k + 1) * 1024" by (simp add: n)
    ultimately show ?thesis unfolding keys using vs by (intro exI[of _ "next' # vs"]) auto
  next
    case (dealt v a cs')
    from Cons.IH[OF dealt(3) d] obtain vs where
      vs: "List.map t_order_key vs = List.map (\<lambda>j. (int j + 1) * 1024) [Suc k..<Suc k + length us]"
      "list_all2 (placed_as next' cs') us vs"
      "set (List.map (\<lambda>(t, _). t_id t) cs') \<subseteq> set (List.map t_id us) - {t_id next}" by blast
    have v: "t_id v = t_id u" "t_order_key v = (int k + 1) * 1024" by (simp_all add: dealt(2))
    have nin: "t_id v \<notin> set (List.map (\<lambda>(t, _). t_id t) cs')" using vs(3) Cons.prems(2) v by auto
    have n': "t_id next' = t_id next" using rebalance_next[OF dealt(3)] by auto
    have "\<forall>pid col. on_board pid col v = on_board pid col u" by (simp add: dealt(2))
    moreover have "after_changes cs (t_id u) (Some u) = Some v"
      by (simp add: dealt(4) after_changes_Cons[OF nin] v)
    ultimately have "placed_as next' cs u v" using dealt(1) n' v by (simp add: placed_as_def)
    moreover have "list_all2 (placed_as next' cs) us vs"
    proof (rule list.rel_mono_strong[OF vs(2)])
      fix x y assume x: "x \<in> set us" and p: "placed_as next' cs' x y"
      from imageI[OF x, of t_id] Cons.prems(2) v have "t_id x \<noteq> t_id v" by auto
      with p show "placed_as next' cs x y" by (simp add: placed_as_def dealt(4) after_changes_Cons[OF nin])
    qed
    moreover have "set (List.map (\<lambda>(t, _). t_id t) cs) \<subseteq> set (List.map t_id (u # us)) - {t_id next}"
      using vs(3) dealt(1,4) v by auto
    ultimately show ?thesis unfolding keys using vs(1) v by (intro exI[of _ "v # vs"]) simp
  qed
qed simp

lemma midpoint_between:
  assumes "0 \<le> low" and "high \<le> i64_max" and "saturating_add_i64 low 1 < high"
  shows "low < midpoint low high \<and> midpoint low high < high"
proof -
  have gap: "low + 1 < high" using assms(2,3) by (auto simp: saturating_add_i64_def min_def split: if_splits)
  have d: "wrap_i64 (high - low) = high - low"
    using assms gap by (intro wrap_i64_id) (simp_all add: i64_min_def)
  have "rust_div (high - low) 2 = (high - low) div 2" using gap by (intro rust_div_two_nonneg) simp
  moreover have "wrap_i64 (low + (high - low) div 2) = low + (high - low) div 2"
  proof (rule wrap_i64_id)
    have "0 \<le> (high - low) div 2" "(high - low) div 2 \<le> high - low" using gap by linarith+
    then show "i64_min \<le> low + (high - low) div 2" "low + (high - low) div 2 \<le> i64_max"
      using assms(1,2) by (simp_all add: i64_min_def)
  qed
  ultimately have "midpoint low high = low + (high - low) div 2" by (simp add: midpoint_def d)
  with gap show ?thesis by linarith
qed

lemma key_order: "card_key u < card_key v \<Longrightarrow> t_order_key u \<le> t_order_key v"
  by (auto simp: card_key_def)

lemma before_gap:
  assumes "sorted_wrt (<) (List.map card_key S)" and "i \<le> length S" and "u \<in> set (take i S)"
  shows "t_order_key u \<le> gap_low S i"
proof -
  obtain j where j: "j < i" "u = S ! j" using assms(2,3) by (auto simp: in_set_conv_nth)
  show ?thesis
  proof (cases "j = i - 1")
    case True with j show ?thesis by (simp add: gap_low_def)
  next
    case False
    with j assms(1,2) have "card_key (S ! j) < card_key (S ! (i - 1))" by (auto simp: sorted_wrt_iff_nth_less)
    with j show ?thesis by (auto simp: gap_low_def dest: key_order)
  qed
qed

lemma after_gap:
  assumes "sorted_wrt (<) (List.map card_key S)" and "u \<in> set (drop i S)"
  shows "gap_high S i \<le> t_order_key u"
proof -
  obtain k where k: "k < length (drop i S)" "u = drop i S ! k" using assms(2) by (auto simp: in_set_conv_nth)
  then have j: "i \<le> i + k" "i + k < length S" "u = S ! (i + k)" by auto
  show ?thesis
  proof (cases "k = 0")
    case True with j show ?thesis by (simp add: gap_high_def)
  next
    case False
    with j assms(1) have "card_key (S ! i) < card_key (S ! (i + k))" by (auto simp: sorted_wrt_iff_nth_less)
    with j show ?thesis by (auto simp: gap_high_def dest: key_order)
  qed
qed

lemma gap_bounds:
  assumes "\<forall>u \<in> set S. 0 \<le> t_order_key u \<and> t_order_key u \<le> i64_max" and "i \<le> length S"
  shows "0 \<le> gap_low S i" "gap_high S i \<le> i64_max"
proof -
  show "0 \<le> gap_low S i" using assms by (simp add: gap_low_def)
  show "gap_high S i \<le> i64_max" using assms by (auto simp: gap_high_def saturating_add_i64_def i64_min_def i64_max_def)
qed

lemma placed_as_self: "t_id u \<noteq> t_id next \<Longrightarrow> placed_as next [] u u"
  by (simp add: placed_as_def)

lemma place_card_spec:
  assumes "place_card fresh now S i n = (n', cs)" and sorted: "sorted_wrt (<) (List.map card_key S)"
    and ids: "distinct (List.map t_id S)" "t_id n \<notin> t_id ` set S" and i: "i \<le> length S"
    and keys: "\<forall>u \<in> set S. 0 \<le> t_order_key u \<and> t_order_key u \<le> i64_max"
  shows "\<exists>vs key. sorted_wrt (<) (List.map card_key vs) \<and> list_all2 (placed_as n' cs) (insert_at i n S) vs
    \<and> set (List.map (\<lambda>(t, _). t_id t) cs) \<subseteq> t_id ` set S \<and> n' = n\<lparr>t_order_key := key\<rparr>"
proof (cases "saturating_add_i64 (gap_low S i) 1 < gap_high S i")
  case True
  let ?m = "midpoint (gap_low S i) (gap_high S i)"
  from True assms(1) have n: "n' = n\<lparr>t_order_key := ?m\<rparr>" "cs = []" by (auto simp: place_card_def Let_def)
  have m: "gap_low S i < t_order_key n'" "t_order_key n' < gap_high S i"
    using midpoint_between[OF gap_bounds[OF keys i] True] by (simp_all add: n)
  have "sorted_wrt (<) (List.map card_key (take i S @ n' # drop i S))"
  proof -
    have "card_key u < card_key n'" if "u \<in> set (take i S)" for u
      using before_gap[OF sorted i that] m(1) by (simp add: card_key_def)
    moreover have "card_key n' < card_key u" if "u \<in> set (drop i S)" for u
      using after_gap[OF sorted that] m(2) by (simp add: card_key_def)
    moreover have "sorted_wrt (<) (List.map card_key (take i S) @ List.map card_key (drop i S))"
      using sorted by (simp add: map_append[symmetric] del: map_append)
    ultimately show ?thesis by (auto simp: sorted_wrt_append)
  qed
  moreover have "list_all2 (placed_as n' cs) (insert_at i n S) (insert_at i n' S)"
  proof -
    have self: "list_all2 (placed_as n' cs) xs xs" if "set xs \<subseteq> set S" for xs
    proof (rule list.rel_refl_strong)
      fix z assume "z \<in> set xs"
      then have "t_id z \<in> t_id ` set S" using that by blast
      with ids(2) n show "placed_as n' cs z z" by (auto simp: n(2) intro!: placed_as_self)
    qed
    show ?thesis unfolding insert_at_def
      by (intro list_all2_appendI list.rel_intros self) (auto simp: n placed_as_def dest: in_set_takeD in_set_dropD)
  qed
  ultimately show ?thesis using n
    by (intro exI[of _ "insert_at i n' S"] exI[of _ ?m]) (simp add: insert_at_def)
next
  case False
  with assms(1) have r: "rebalance fresh now 0 n (insert_at i n S) = (n', cs)"
    by (simp add: place_card_def Let_def)
  have d: "distinct (List.map t_id (insert_at i n S))"
    unfolding map_insert_at distinct_insert_at using ids by simp
  obtain vs where vs: "List.map t_order_key vs = List.map (\<lambda>j. (int j + 1) * 1024) [0..<0 + length (insert_at i n S)]"
    "list_all2 (placed_as n' cs) (insert_at i n S) vs"
    "set (List.map (\<lambda>(t, _). t_id t) cs) \<subseteq> set (List.map t_id (insert_at i n S)) - {t_id n}"
    using rebalance_spec[OF r d] by blast
  obtain key where key: "n' = n\<lparr>t_order_key := key\<rparr>" using rebalance_next[OF r] by blast
  have "sorted_wrt (\<lambda>u v. t_order_key u < t_order_key v) vs"
  proof -
    have "sorted_wrt (<) (List.map t_order_key vs)"
      unfolding vs(1) by (simp add: sorted_wrt_map sorted_wrt_iff_nth_less)
    then show ?thesis by (simp add: sorted_wrt_map)
  qed
  then have "sorted_wrt (<) (List.map card_key vs)"
    unfolding sorted_wrt_map by (rule sorted_wrt_mono_rel[rotated]) (simp add: card_key_def)
  with vs key show ?thesis by (intro exI[of _ vs] exI[of _ key]) (auto simp: map_insert_at)
qed

section \<open>Committing a move\<close>

lemma set_job_on_board [simp]: "on_board pid col (set_job j t) = on_board pid col t"
  by (simp add: on_board_def column_def)

lemma queue_settled_card [simp]:
  "t_id (queue_settled s t next) = t_id next" "t_order_key (queue_settled s t next) = t_order_key next"
  "on_board pid col (queue_settled s t next) = on_board pid col next"
  "column (queue_settled s t next) = column next" "t_project_id (queue_settled s t next) = t_project_id next"
  by (simp_all add: queue_settled_def on_board_def Let_def)

lemma automatic_plan_card:
  assumes "prepare_automatic_task_plan w p t s = (next, launch, s')"
  shows "t_id next = t_id t" "t_order_key next = t_order_key t" "on_board pid col next = on_board pid col t"
    "t_project_id next = t_project_id t"
    "rt_tasks s' = rt_tasks s" "rt_store s' = rt_store s" "rt_projects s' = rt_projects s"
    "plan_running next \<Longrightarrow> \<not> plan_running t \<Longrightarrow> running_plans s < 4" "column next = column t"
  using assms
  by (auto simp: prepare_automatic_task_plan_def Let_def failed_job_def column_def
    dest: prepare_task_plan_Ok split: if_splits sum.splits)

lemma planned_edit_card:
  assumes "planned_edit w t p e s = (next, launch, s')"
  shows "t_id next = t_id (ed_next e)" "t_order_key next = t_order_key (ed_next e)"
    "on_board pid col next = on_board pid col (ed_next e)" "column next = column (ed_next e)"
    "t_project_id next = t_project_id (ed_next e)"
    "rt_tasks s' = rt_tasks s" "rt_store s' = rt_store s" "rt_projects s' = rt_projects s"
  using assms automatic_plan_card[of w p "queue_settled s t (ed_next e)"]
  by (auto simp: planned_edit_def Let_def split: if_splits)

lemma commit_edit_Ok:
  assumes "commit_edit w rq t p e s = (Inr (resp, start, launch), s')" and "ed_linked e = None"
  obtains "next" s1 s2 where "planned_edit w t p e s = (next, launch, s1)" "resp = RChanged next"
    "start = ed_start e"
    "with_store (save_task_agent_changes (ed_others e @ [(next, ed_audit e)]) (Some (rq, RChanged next)) []) s1
       = (Inr (), s2)"
    "s' = (if column next = InReview
       then task_attention w next (publish_tasks w (ed_others e @ [(next, ed_audit e)]) s2)
       else publish_tasks w (ed_others e @ [(next, ed_audit e)]) s2)"
    "rt_tasks s' = fold (\<lambda>(u, _). hm_insert (t_id u) u) (ed_others e @ [(next, ed_audit e)]) (rt_tasks s)"
proof -
  obtain "next" l s1 where pl: "planned_edit w t p e s = (next, l, s1)" by (cases "planned_edit w t p e s")
  let ?cs = "ed_others e @ [(next, ed_audit e)]"
  obtain r s2 where sv: "with_store (save_task_agent_changes ?cs (Some (rq, RChanged next)) []) s1 = (r, s2)"
    by fastforce
  from assms pl sv obtain u where r: "r = Inr u" and "resp = RChanged next" "start = ed_start e" "l = launch"
    and s': "s' = (if column next = InReview then task_attention w next (publish_tasks w ?cs s2)
       else publish_tasks w ?cs s2)"
    by (cases r) (auto simp: commit_edit_def save_task_changes_alt Let_def)
  moreover have "rt_tasks s2 = rt_tasks s"
    using planned_edit_card(6)[OF pl] sv by (auto elim: with_storeE)
  ultimately show thesis using that[OF pl[unfolded \<open>l = launch\<close>]] sv
    by (simp add: publish_tasks_tasks)
qed

lemma moved_card_Ok:
  assumes "moved_card w s t col = Inr (next, au)" and "\<not> t_archived t"
  shows "t_id next = t_id t" "t_project_id next = t_project_id t" "column next = col" "\<not> t_archived next"
proof -
  have *: "t_id next = t_id t \<and> t_project_id next = t_project_id t \<and> column next = col \<and> \<not> t_archived next"
  proof (cases "col = column t")
    case True with assms show ?thesis by (auto simp: moved_card_def Let_def)
  next
    case False
    with assms obtain a where "move_action (column t) col = Inr a" "user_transition w s t a = Inr (next, au)"
      by (auto simp: moved_card_def res_bind_Ok_iff)
    with assms(2) show ?thesis
      by (cases "column t"; cases col)
        (auto simp: user_transition_def transition_Ok_iff active_task_def split: if_splits)
  qed
  then show "t_id next = t_id t" "t_project_id next = t_project_id t" "column next = col" "\<not> t_archived next"
    by auto
qed

lemma edit_move_Ok:
  assumes "edit_move w s t pid col before = Inr e"
  obtains "next" au i n' cs where "moved_card w s t col = Inr (next, au)" "\<not> t_archived t"
    "move_index (move_siblings s t pid col) before = Inr i"
    "place_card (\<lambda>n. w_uuid w (rt_draws s + 1 + n)) (w_now w) (move_siblings s t pid col) i next = (n', cs)"
    "e = \<lparr>ed_next = n', ed_audit = au, ed_others = cs, ed_linked = None, ed_start = None\<rparr>"
proof -
  let ?S = "move_siblings s t pid col"
  from assms have live: "\<not> t_archived t" by (auto simp: edit_move_def split: if_splits)
  with assms obtain c where c: "moved_card w s t col = Inr c"
    by (auto simp: edit_move_def res_bind_Ok_iff)
  obtain "next" au where n: "c = (next, au)" by (cases c)
  from assms live c n obtain i where i: "move_index ?S before = Inr i"
    by (auto simp: edit_move_def res_bind_Ok_iff Let_def)
  obtain n' cs where pc: "place_card (\<lambda>n. w_uuid w (rt_draws s + 1 + n)) (w_now w) ?S i next = (n', cs)"
    by (cases "place_card (\<lambda>n. w_uuid w (rt_draws s + 1 + n)) (w_now w) ?S i next")
  with assms live c n i have "e = \<lparr>ed_next = n', ed_audit = au, ed_others = cs, ed_linked = None, ed_start = None\<rparr>"
    by (simp add: edit_move_def Let_def)
  with that c n live i pc show thesis by blast
qed

lemma move_index_Ok: "move_index S before = Inr i \<Longrightarrow> i \<le> length S"
  by (auto simp: move_index_def dest: position_Some split: option.splits)

lemma move_index_place:
  assumes "move_index (move_siblings s t pid col) before = Inr i"
  shows "List.map t_id (insert_at i t (move_siblings s t pid col)) = place (t_id t) before (board_column pid col s)"
proof -
  have ids: "List.map t_id (move_siblings s t pid col) = List.filter (\<lambda>x. x \<noteq> t_id t) (board_column pid col s)"
    by (simp add: move_siblings_column board_column_def filter_map_ids)
  show ?thesis
  proof (cases before)
    case None with assms ids show ?thesis by (simp add: move_index_def place_def insert_at_def Let_def)
  next
    case (Some b)
    with assms have "position (\<lambda>u. t_id u = b) (move_siblings s t pid col) = Some i" by (simp add: move_index_def)
    from position_split[OF this, of t] Some ids show ?thesis by (simp add: place_def Let_def)
  qed
qed

lemma list_all2_left: "list_all2 P xs ys \<Longrightarrow> x \<in> set xs \<Longrightarrow> \<exists>y \<in> set ys. P x y"
  by (induction rule: list_all2_induct) auto

lemma list_all2_right: "list_all2 P xs ys \<Longrightarrow> y \<in> set ys \<Longrightarrow> \<exists>x \<in> set xs. P x y"
  by (induction rule: list_all2_induct) auto

lemma placed_ids: "list_all2 (placed_as n cs) us vs \<Longrightarrow> List.map t_id vs = List.map t_id us"
  by (induction rule: list_all2_induct) (auto simp: placed_as_def)

lemma siblings_iff:
  assumes "hm_ok (rt_tasks s)" "hm_keyed t_id (rt_tasks s)"
  shows "u \<in> set (move_siblings s t pid col) \<longleftrightarrow>
    t_id u \<noteq> t_id t \<and> hm_get (rt_tasks s) (t_id u) = Some u \<and> on_board pid col u"
  using column_members[OF assms] by (auto simp: move_siblings_column)

lemma siblings_strict:
  assumes "hm_ok (rt_tasks s)" "hm_keyed t_id (rt_tasks s)"
  shows "sorted_wrt (<) (List.map card_key (move_siblings s t pid col))"
  using column_strict[OF assms, of pid col]
  unfolding move_siblings_column sorted_wrt_map by (rule sorted_wrt_filter)

lemma siblings_distinct:
  assumes "hm_ok (rt_tasks s)" "hm_keyed t_id (rt_tasks s)"
  shows "distinct (List.map t_id (move_siblings s t pid col))"
proof -
  have "inj_on t_id (set (move_siblings s t pid col))"
  proof (rule inj_onI)
    fix u v assume "u \<in> set (move_siblings s t pid col)" "v \<in> set (move_siblings s t pid col)" "t_id u = t_id v"
    then show "u = v" unfolding siblings_iff[OF assms] by (blast intro: same_entry)
  qed
  with siblings_strict[OF assms] show ?thesis by (simp add: strict_sorted_iff distinct_map)
qed

lemma edit_move_parts:
  assumes ok: "hm_ok (rt_tasks s)" "hm_keyed t_id (rt_tasks s)"
    and pid: "t_project_id t = pid" and ed: "edit_move w s t pid col before = Inr e"
    and run: "commit_edit w rq t p e s = (Inr (resp, start, launch), s')"
    and keys: "\<forall>u \<in> set (move_siblings s t pid col). 0 \<le> t_order_key u \<and> t_order_key u \<le> i64_max"
  obtains moved "next" n cs i vs where "move_index (move_siblings s t pid col) before = Inr i"
    "sorted_wrt (<) (List.map card_key vs)"
    "list_all2 (placed_as n cs) (insert_at i moved (move_siblings s t pid col)) vs"
    "set (List.map (\<lambda>(t, _). t_id t) cs) \<subseteq> t_id ` set (move_siblings s t pid col)"
    "t_id moved = t_id t" "t_id n = t_id t" "t_id next = t_id t" "card_key next = card_key n"
    "on_board pid col next" "hm_ok (rt_tasks s')" "hm_keyed t_id (rt_tasks s')"
    "\<And>j. hm_get (rt_tasks s') j =
       (if j = t_id t then Some next else after_changes cs j (hm_get (rt_tasks s) j))"
proof -
  let ?S = "move_siblings s t pid col"
  obtain moved au i n cs where mv: "moved_card w s t col = Inr (moved, au)" "\<not> t_archived t"
    and i: "move_index ?S before = Inr i"
    and pc: "place_card (\<lambda>n. w_uuid w (rt_draws s + 1 + n)) (w_now w) ?S i moved = (n, cs)"
    and e: "e = \<lparr>ed_next = n, ed_audit = au, ed_others = cs, ed_linked = None, ed_start = None\<rparr>"
    by (rule edit_move_Ok[OF ed])
  note mc = moved_card_Ok[OF mv]
  note strict = siblings_strict[OF ok] and dist = siblings_distinct[OF ok]
  have nin: "t_id moved \<notin> t_id ` set ?S" unfolding mc(1) by (auto simp: move_siblings_def)
  obtain vs key where vs: "sorted_wrt (<) (List.map card_key vs)" "list_all2 (placed_as n cs) (insert_at i moved ?S) vs"
    and cs: "set (List.map (\<lambda>(t, _). t_id t) cs) \<subseteq> t_id ` set ?S" and n: "n = moved\<lparr>t_order_key := key\<rparr>"
    using place_card_spec[OF pc strict dist nin move_index_Ok[OF i] keys] by blast
  obtain "next" s1 s2 where pl: "planned_edit w t p e s = (next, launch, s1)"
    and tasks: "rt_tasks s' = fold (\<lambda>(u, _). hm_insert (t_id u) u) (ed_others e @ [(next, ed_audit e)]) (rt_tasks s)"
    by (rule commit_edit_Ok[OF run]) (simp add: e, rule that, assumption+)
  have nx: "t_id next = t_id t" "card_key next = card_key n" "on_board pid col next"
    using planned_edit_card(1,2)[OF pl] planned_edit_card(3)[OF pl, of pid col] mc pid
    by (simp_all add: e n card_key_def) (simp add: on_board_def)
  have idn: "t_id n = t_id t" using mc(1) n by simp
  have get: "hm_get (rt_tasks s') j = (if j = t_id t then Some next
      else after_changes cs j (hm_get (rt_tasks s) j))" for j
    unfolding tasks e
    by (simp add: hm.get_ins nx(1) hm_get_fold_tasks after_changes_def)
  have ok': "hm_ok (rt_tasks s')" "hm_keyed t_id (rt_tasks s')"
    using fold_insert_ok[OF ok(1,2)] unfolding tasks by blast+
  show thesis by (rule that[OF i vs cs mc(1) idn nx ok' get])
qed

lemma edit_move_places:
  assumes ok: "hm_ok (rt_tasks s)" "hm_keyed t_id (rt_tasks s)"
    and pid: "t_project_id t = pid" and ed: "edit_move w s t pid col before = Inr e"
    and run: "commit_edit w rq t p e s = (Inr (resp, start, launch), s')"
    and keys: "\<forall>u \<in> set (move_siblings s t pid col). 0 \<le> t_order_key u \<and> t_order_key u \<le> i64_max"
  shows "board_column pid col s' = place (t_id t) before (board_column pid col s)"
proof -
  let ?S = "move_siblings s t pid col"
  obtain moved "next" n cs i vs where i: "move_index ?S before = Inr i"
    and vs: "sorted_wrt (<) (List.map card_key vs)" "list_all2 (placed_as n cs) (insert_at i moved ?S) vs"
    and cs: "set (List.map (\<lambda>(t, _). t_id t) cs) \<subseteq> t_id ` set ?S"
    and mc: "t_id moved = t_id t" and idn: "t_id n = t_id t"
    and nx: "t_id next = t_id t" "card_key next = card_key n" "on_board pid col next"
    and ok': "hm_ok (rt_tasks s')" "hm_keyed t_id (rt_tasks s')"
    and get: "\<And>j. hm_get (rt_tasks s') j =
       (if j = t_id t then Some next else after_changes cs j (hm_get (rt_tasks s) j))"
    by (rule edit_move_parts[OF assms]) (rule that, assumption+)
  note S = siblings_iff[OF ok, of _ t pid col]
  define us where "us = List.map (\<lambda>v. if t_id v = t_id t then next else v) vs"
  have idv: "List.map t_id vs = List.map t_id (insert_at i t ?S)"
    using placed_ids[OF vs(2)] mc by (simp add: map_insert_at)
  have pair: "\<exists>u \<in> insert moved (set ?S). placed_as n cs u v" if "v \<in> set vs" for v
    using list_all2_right[OF vs(2) that] unfolding set_insert_at .
  have pair': "\<exists>v \<in> set vs. placed_as n cs u v" if "u \<in> insert moved (set ?S)" for u
    using list_all2_left[OF vs(2)] that unfolding set_insert_at .
  have self: "v = n" if "v \<in> set vs" "t_id v = t_id t" for v
    using pair[OF that(1)] that(2) idn by (auto simp: placed_as_def split: if_splits)
  have keys_us: "List.map card_key us = List.map card_key vs"
    using self nx(2) by (auto simp: us_def)
  have ids_us: "List.map t_id us = List.map t_id vs" using nx(1) by (auto simp: us_def)
  have other: "v \<in> set us \<longleftrightarrow> v \<in> set vs" if "t_id v \<noteq> t_id t" for v
    using that nx(1) by (auto simp: us_def image_iff split: if_splits)
  have mem: "v \<in> set us \<longleftrightarrow> hm_get (rt_tasks s') (t_id v) = Some v \<and> on_board pid col v" for v
  proof (cases "t_id v = t_id t")
    case True
    have "next \<in> set us" using pair'[of moved] idn mc by (force simp: us_def placed_as_def)
    moreover from True have "v \<in> set us \<Longrightarrow> v = next" by (auto simp: us_def split: if_splits)
    ultimately show ?thesis using True get nx(3) by auto
  next
    case False
    show ?thesis unfolding other[OF False]
    proof
      assume "v \<in> set vs"
      from pair[OF this] False idn mc obtain u where u: "u \<in> set ?S" "placed_as n cs u v"
        by (auto simp: placed_as_def)
      with False idn have p: "t_id v = t_id u" "t_id u \<noteq> t_id t" "after_changes cs (t_id u) (Some u) = Some v"
        "on_board pid col v = on_board pid col u" by (auto simp: placed_as_def split: if_splits)
      from u(1) have "hm_get (rt_tasks s) (t_id u) = Some u" "on_board pid col u" unfolding S by blast+
      with p show "hm_get (rt_tasks s') (t_id v) = Some v \<and> on_board pid col v"
        unfolding p(1) get by presburger
    next
      assume g: "hm_get (rt_tasks s') (t_id v) = Some v \<and> on_board pid col v"
      with False get have a: "after_changes cs (t_id v) (hm_get (rt_tasks s) (t_id v)) = Some v" by simp
      show "v \<in> set vs"
      proof (cases "t_id v \<in> t_id ` set ?S")
        case True
        then obtain u where u: "u \<in> set ?S" "t_id u = t_id v" by auto
        then obtain v' where v': "v' \<in> set vs" "placed_as n cs u v'" using pair' by blast
        from u(1) have "hm_get (rt_tasks s) (t_id u) = Some u" unfolding S by blast
        then have "after_changes cs (t_id u) (Some u) = Some v" using a u(2) by metis
        moreover have "after_changes cs (t_id u) (Some u) = Some v'"
          using v'(2) u(2) False idn by (auto simp: placed_as_def split: if_splits)
        ultimately have "v' = v" by simp
        with v'(1) show ?thesis by simp
      next
        case out: False
        with cs have fresh: "t_id v \<notin> set (List.map (\<lambda>(t, _). t_id t) cs)" by blast
        have "hm_get (rt_tasks s) (t_id v) = Some v" using a unfolding after_changes_other[OF fresh] .
        with g False have "v \<in> set ?S" unfolding S by blast
        with out show ?thesis by blast
      qed
    qed
  qed
  have "list_tasks (Some pid) (Some col) False s' = us"
    by (rule column_eqI[OF ok' _ mem]) (simp add: keys_us vs(1))
  then have "board_column pid col s' = List.map t_id (insert_at i t ?S)"
    using ids_us idv by (simp add: board_column_def)
  then show ?thesis using move_index_place[OF i] by simp
qed

text \<open>Every other column loses at most the moved card.\<close>

lemma edit_move_leaves:
  assumes ok: "hm_ok (rt_tasks s)" "hm_keyed t_id (rt_tasks s)"
    and pid: "t_project_id t = pid" and ed: "edit_move w s t pid col before = Inr e"
    and run: "commit_edit w rq t p e s = (Inr (resp, start, launch), s')"
    and keys: "\<forall>u \<in> set (move_siblings s t pid col). 0 \<le> t_order_key u \<and> t_order_key u \<le> i64_max"
    and other: "pid' \<noteq> pid \<or> col' \<noteq> col"
  shows "board_column pid' col' s' = List.filter (\<lambda>i. i \<noteq> t_id t) (board_column pid' col' s)"
proof -
  let ?S = "move_siblings s t pid col"
  obtain "next" cs where
    cs: "set (List.map (\<lambda>(t, _). t_id t) cs) \<subseteq> t_id ` set ?S"
    and nx: "on_board pid col next" and ok': "hm_ok (rt_tasks s')" "hm_keyed t_id (rt_tasks s')"
    and get: "\<And>j. hm_get (rt_tasks s') j =
       (if j = t_id t then Some next else after_changes cs j (hm_get (rt_tasks s) j))"
    and vs: "\<exists>moved n i vs. t_id moved = t_id t \<and> t_id n = t_id t
       \<and> list_all2 (placed_as n cs) (insert_at i moved ?S) vs"
    by (rule edit_move_parts[OF assms(1-6)]) (rule that, assumption+, blast)
  obtain moved n i vs where v: "t_id moved = t_id t" "t_id n = t_id t"
    "list_all2 (placed_as n cs) (insert_at i moved ?S) vs" using vs by blast
  have S: "on_board pid col u" "hm_get (rt_tasks s) (t_id u) = Some u" "t_id u \<noteq> t_id t" if "u \<in> set ?S" for u
    using that unfolding siblings_iff[OF ok] by blast+
  have apart: "\<not> on_board pid' col' u" if "on_board pid col u" for u
    using that other by (auto simp: on_board_def)
  let ?us = "List.filter (\<lambda>u. t_id u \<noteq> t_id t) (list_tasks (Some pid') (Some col') False s)"
  have strict: "sorted_wrt (<) (List.map card_key ?us)"
    using column_strict[OF ok, of pid' col'] unfolding sorted_wrt_map by (rule sorted_wrt_filter)
  have mem: "u \<in> set ?us \<longleftrightarrow> hm_get (rt_tasks s') (t_id u) = Some u \<and> on_board pid' col' u" for u
  proof (cases "t_id u = t_id t")
    case True
    with get[of "t_id t"] apart[OF nx] show ?thesis by auto
  next
    case False
    have "u \<in> set ?us \<longleftrightarrow> hm_get (rt_tasks s) (t_id u) = Some u \<and> on_board pid' col' u"
      using False column_members[OF ok, of u pid' col'] by simp
    also have "\<dots> \<longleftrightarrow> hm_get (rt_tasks s') (t_id u) = Some u \<and> on_board pid' col' u"
    proof (cases "t_id u \<in> t_id ` set ?S")
      case True
      then obtain x where x: "x \<in> set ?S" "t_id x = t_id u" by auto
      then obtain y where "placed_as n cs x y" using list_all2_left[OF v(3), of x] by auto
      with S(3)[OF x(1)] v(2) have y: "after_changes cs (t_id x) (Some x) = Some y" "on_board pid col y = on_board pid col x"
        by (auto simp: placed_as_def split: if_splits)
      have "hm_get (rt_tasks s') (t_id u) = Some y" using get[of "t_id u"] False y(1) S(2)[OF x(1)] x(2) by simp
      with y(2) S(1,2)[OF x(1)] x(2) apart show ?thesis by (metis option.inject)
    next
      case out: False
      with cs have fresh: "t_id u \<notin> set (List.map (\<lambda>(t, _). t_id t) cs)" by blast
      show ?thesis unfolding get after_changes_other[OF fresh] using False by simp
    qed
    finally show ?thesis .
  qed
  have "list_tasks (Some pid') (Some col') False s' = ?us" by (rule column_eqI[OF ok' strict mem])
  then show ?thesis by (simp add: board_column_def filter_map_ids)
qed

end
