(* ===== verification/Request_Properties.thy ===== *)
theory Request_Properties
  imports Board_Columns
begin

text \<open>
  What the board's requests guarantee: which edits are refused and that a refusal changes nothing,
  where a moved card ends up, what authorises a start, that a retry has no second effect, that
  memory follows the store, and that plan jobs stay bounded.
\<close>

section \<open>The way of a request\<close>

definition editing :: "task_operation \<Rightarrow> task_id \<Rightarrow> u64 \<Rightarrow> bool" where
  "editing op i rv \<longleftrightarrow> request_target op = Some (i, Some rv) \<and> (\<forall>j r. op \<noteq> Delete j r)"

lemma editing_simps [simp]:
  "editing (Update i rv d) j r \<longleftrightarrow> i = j \<and> rv = r" "editing (Transition i rv a) j r \<longleftrightarrow> i = j \<and> rv = r"
  "editing (Move i rv c b) j r \<longleftrightarrow> i = j \<and> rv = r" "editing (StartTask i rv x) j r \<longleftrightarrow> i = j \<and> rv = r"
  "editing (Link i rv ag) j r \<longleftrightarrow> i = j \<and> rv = r"
  by (auto simp: editing_def request_target_def)

lemma editing_kind:
  assumes "editing op i rv"
  shows "draft_of op = None" "replayable op" "request_target op = Some (i, Some rv)"
    "\<And>m. op \<noteq> BoardProjects m" "\<And>c a. op \<noteq> List c a" "\<And>j. op \<noteq> Get j" "\<And>j r. op \<noteq> Delete j r"
  using assms by (auto simp: editing_def request_target_def draft_of_def replayable_def
    split: task_operation.splits)

lemma prepare_replay:
  assumes "replayable (rq_operation rq)" and "\<And>m. rq_operation rq \<noteq> BoardProjects m"
    and "task_replay rq (rt_store (reap_orphan_writers w s)) = Some resp"
  shows "prepare_task_request w rq s = (Ok (resp, None, None), reap_orphan_writers w s)"
  using assms by (cases "rq_operation rq") (auto simp: prepare_task_request_def Let_def)

lemma prepare_run:
  assumes "replayable (rq_operation rq)" and "\<And>m. rq_operation rq \<noteq> BoardProjects m"
    and "task_replay rq (rt_store (reap_orphan_writers w s)) = None"
    and "rq_project_id rq = Some pid"
    and "project_by (\<lambda>p. p_id p = pid \<and> p_archived_at p = None) (reap_orphan_writers w s) = Some p"
  shows "prepare_task_request w rq s = task_operation_run w rq p (reap_orphan_writers w s)"
  using assms
  by (cases "rq_operation rq") (auto simp: prepare_task_request_def Let_def replayable_def)

lemma prepare_refused:
  assumes "replayable (rq_operation rq)" and "\<And>m. rq_operation rq \<noteq> BoardProjects m"
    and "task_replay rq (rt_store (reap_orphan_writers w s)) = None"
    and "rq_project_id rq = None \<or> project_by (\<lambda>p. p_id p = the (rq_project_id rq) \<and> p_archived_at p = None)
       (reap_orphan_writers w s) = None"
  obtains e where "prepare_task_request w rq s = (Err e, reap_orphan_writers w s)"
  using assms
  by (cases "rq_operation rq"; cases "rq_project_id rq")
    (auto simp: prepare_task_request_def Let_def replayable_def)

lemma run_editing:
  assumes "editing (rq_operation rq) i rv" and "request_task (p_id p) (rq_operation rq) s = Inr t"
  shows "task_operation_run w rq p s = (if task_live s t
     then (Err (TaskError AgentBusy ''Stop the active task agent before changing this task.''), s)
     else case edit_task w s (rq_operation rq) t p of Inl e \<Rightarrow> (Err e, s)
       | Inr e \<Rightarrow> commit_edit w rq t p e s)"
  using assms
  by (cases "rq_operation rq")
    (simp_all add: task_operation_run_def draft_of_def editing_def[of "Get _"] editing_def[of "List _ _"]
      editing_def[of "Delete _ _"] editing_def[of "BoardProjects _"] request_task_def request_target_def illegal_transition_def)

lemma request_task_Ok:
  "request_task pid op s = Inr t \<Longrightarrow> \<exists>i x. request_target op = Some (i, x)
     \<and> hm_get (rt_tasks s) i = Some t \<and> t_project_id t = pid \<and> (\<forall>rv. x = Some rv \<longrightarrow> t_revision t = rv)"
  by (auto simp: request_task_def opt_filter_def res_bind_Ok_iff split: option.splits if_splits)

lemma prepare_edit_Ok:
  assumes "prepare_task_request w rq s0 = (Inr r, s')" and "editing (rq_operation rq) i rv"
    and "task_replay rq (rt_store (reap_orphan_writers w s0)) = None"
  obtains t p e where "rq_project_id rq = Some (t_project_id t)" "t_project_id t = p_id p"
    "p_archived_at p = None" "p \<in> set (hm_values (rt_projects (reap_orphan_writers w s0)))"
    "hm_get (rt_tasks (reap_orphan_writers w s0)) i = Some t" "t_revision t = rv"
    "\<not> task_live (reap_orphan_writers w s0) t"
    "edit_task w (reap_orphan_writers w s0) (rq_operation rq) t p = Inr e"
    "commit_edit w rq t p e (reap_orphan_writers w s0) = (Inr r, s')"
proof -
  let ?s = "reap_orphan_writers w s0"
  note k = editing_kind[OF assms(2)]
  let ?found = "\<lambda>p. rq_project_id rq = Some (p_id p) \<and> p_archived_at p = None
    \<and> p \<in> set (hm_values (rt_projects ?s)) \<and> task_operation_run w rq p ?s = (Inr r, s')"
  obtain p where p: "?found p"
  proof (cases "rq_project_id rq = None \<or> project_by (\<lambda>p. p_id p = the (rq_project_id rq) \<and> p_archived_at p = None) ?s = None")
    case True
    obtain e where "prepare_task_request w rq s0 = (Err e, ?s)"
      by (rule prepare_refused[OF k(2,4) assms(3) True])
    with assms(1) show thesis by simp
  next
    case False
    then obtain pid p where pid: "rq_project_id rq = Some pid"
      and p: "project_by (\<lambda>p. p_id p = pid \<and> p_archived_at p = None) ?s = Some p" by auto
    from prepare_run[OF k(2,4) assms(3) pid p] assms(1) have "task_operation_run w rq p ?s = (Inr r, s')" by simp
    with pid p that[of p] show thesis by (auto simp: project_by_def find_Some_iff)
  qed
  have "\<exists>t. request_task (p_id p) (rq_operation rq) ?s = Inr t"
  proof (rule ccontr)
    assume "\<nexists>t. request_task (p_id p) (rq_operation rq) ?s = Inr t"
    then obtain e where "request_task (p_id p) (rq_operation rq) ?s = Inl e"
      by (cases "request_task (p_id p) (rq_operation rq) ?s") auto
    with p k(1) show False by (simp add: task_operation_run_def)
  qed
  then obtain t where t: "request_task (p_id p) (rq_operation rq) ?s = Inr t" by blast
  note run = run_editing[OF assms(2) t, of w]
  from p run have live: "\<not> task_live ?s t" by auto
  with p run obtain e where e: "edit_task w ?s (rq_operation rq) t p = Inr e"
    "commit_edit w rq t p e ?s = (Inr r, s')" by (auto split: sum.splits)
  from request_task_Ok[OF t] k(3) have tk: "hm_get (rt_tasks ?s) i = Some t" "t_project_id t = p_id p" "t_revision t = rv"
    by auto
  show thesis using that[OF _ tk(2) _ _ tk(1,3) live e] p tk(2) by auto
qed

section \<open>A small board\<close>

lemma commit_edit_healthy:
  assumes "healthy w s" and "planned_edit w t p e s = (changed, launch, s1)"
    and "stored_task (t_id changed) (st_db (rt_store s)) = Some u"
    and "ed_others e = []" and "ed_linked e = None"
    and "au_task_id (ed_audit e) = t_id changed" and "au_id (ed_audit e) = w_uuid w n"
    and "\<not> hm_contains (db_requests (st_db (rt_store s))) (rq_request_id rq)"
  shows "\<exists>s'. commit_edit w rq t p e s = (Inr (RChanged changed, ed_start e, launch), s')"
proof -
  let ?cs = "[(changed, ed_audit e)]"
  have st: "rt_store s1 = rt_store s" using planned_edit_card(7)[OF assms(2)] .
  obtain db where sv: "stmt_save ?cs None [] (st_db (rt_store s)) = Inr db"
    using stmt_save_one[of "st_db (rt_store s)" changed u "w_uuid w n" "ed_audit e"] assms by (auto simp: healthy_def)
  then have e: "each_stmt write_change ?cs (st_db (rt_store s)) = Inr db"
    by (auto simp: stmt_save_def res_bind_Ok_iff)
  then have "db_requests db = db_requests (st_db (rt_store s))"
    by (auto simp: write_change_def write_task_def write_audit_def res_bind_Ok_iff Let_def
      split: option.splits if_splits)
  with e assms(8) have "\<exists>db'. stmt_save ?cs (Some (rq, RChanged changed)) [] (st_db (rt_store s)) = Inr db'"
    by (auto simp: stmt_save_def insert_request_def)
  then show ?thesis using assms(1,4,5) st
    by (auto simp: commit_edit_def assms(2) with_store_def save_task_changes_alt save_task_agent_changes_def
      in_tx_healthy healthy_def Let_def)
qed

definition sample_edit :: "task_operation \<Rightarrow> task_request" where
  "sample_edit op = \<lparr>rq_project_id = Some 1, rq_request_id = 60, rq_operation = op\<rparr>"

lemma sample_edit_simps [simp]:
  "rq_project_id (sample_edit op) = Some 1" "rq_request_id (sample_edit op) = 60"
  "rq_operation (sample_edit op) = op"
  by (simp_all add: sample_edit_def)

lemma sample_reap [simp]: "reap_orphan_writers w (sample_runtime t a) = sample_runtime t a"
  by (simp add: reap_quiet exited_orphans_def)

lemma sample_unanswered [simp]: "task_replay (sample_edit op) (with_task t sample_store) = None"
  by (simp add: task_replay_def hm_get_def)

lemma sample_healthy:
  assumes "t_project_id t = 1" and "t_release_id t = None"
  shows "healthy sample_world (sample_runtime t a)"
  using db_ok_with_task[of t] assms by (simp add: healthy_def)

lemma sample_project_by [simp]:
  "project_by (\<lambda>p. p_id p = 1 \<and> p_archived_at p = None) (sample_runtime t a) = Some sample_project"
  by (simp add: project_by_def hm_values_def)

lemma prepare_sample:
  assumes "editing op (t_id t) (t_revision t)" and "t_project_id t = 1" and "t_release_id t = None"
    and "\<not> task_live (sample_runtime t a) t"
    and "edit_task sample_world (sample_runtime t a) op t sample_project = Inr e"
    and "ed_others e = []" and "ed_linked e = None" and "t_id (ed_next e) = t_id t"
    and "au_task_id (ed_audit e) = t_id t" and "au_id (ed_audit e) = 1000"
  shows "\<exists>next launch s'. prepare_task_request sample_world (sample_edit op) (sample_runtime t a)
    = (Inr (RChanged next, ed_start e, launch), s')"
proof -
  let ?s = "sample_runtime t a"
  note k = editing_kind[OF assms(1)]
  obtain "next" launch s1 where pl: "planned_edit sample_world t sample_project e ?s = (next, launch, s1)"
    by (cases "planned_edit sample_world t sample_project e ?s")
  have n: "t_id next = t_id t" using planned_edit_card(1)[OF pl] assms(8) by simp
  have c: "\<exists>s'. commit_edit sample_world (sample_edit op) t sample_project e ?s
      = (Inr (RChanged next, ed_start e, launch), s')"
    by (rule commit_edit_healthy[OF sample_healthy[OF assms(2,3)] pl, where n = 0])
      (use assms n in \<open>simp_all add: hm_contains_def hm_get_def\<close>)
  have rt: "request_task (p_id sample_project) op ?s = Inr t"
    using k(3) assms(2) by (simp add: request_task_def hm_get_def opt_filter_def check_revision_def)
  have "prepare_task_request sample_world (sample_edit op) ?s
      = task_operation_run sample_world (sample_edit op) sample_project ?s"
    by (rule prepare_run[of "sample_edit op" sample_world ?s 1 sample_project,
        unfolded sample_reap sample_edit_simps, OF k(2) _ _ refl sample_project_by]) (simp_all add: k(4))
  also have "\<dots> = commit_edit sample_world (sample_edit op) t sample_project e ?s"
    using run_editing[of "sample_edit op" "t_id t" "t_revision t" sample_project ?s t sample_world] assms rt by simp
  finally show ?thesis using c by auto
qed

lemma new_task_rest:
  assumes "new_task i now pid d k = Inr t"
  shows "t_release_id t = None" "t_planning t = \<lparr>pl_text = [], pl_job = None\<rparr>"
    "t_order_key t = k"
  using assms by (auto simp: new_task_def res_bind_Ok_iff)

lemma sample_idle: "\<not> task_live (sample_runtime sample_task a) sample_task"
  by (simp add: task_live_def hm_contains_def hm_get_def)

section \<open>Properties\<close>

text \<open>C18: a served move puts exactly the named card before the requested one, or last, in its column,
  in the order the board shows (with or without dealing new keys to the column), and takes it out of
  every other column; nothing else moves.\<close>

theorem move_places_card:
  assumes "prepare_task_request w rq s0 = (Inr r, s')" and "rq_operation rq = Move i rv col before"
    and "task_replay rq (rt_store (reap_orphan_writers w s0)) = None"
    and "rq_project_id rq = Some pid"
    and "hm_ok (rt_tasks (reap_orphan_writers w s0))" and "hm_keyed t_id (rt_tasks (reap_orphan_writers w s0))"
    and "\<forall>u \<in> set (hm_values (rt_tasks (reap_orphan_writers w s0))). t_order_key u \<in> {0..i64_max}"
  shows "let s = reap_orphan_writers w s0 in
    board_column pid col s' = place i before (board_column pid col s)
    \<and> (\<forall>pid' col'. (pid', col') \<noteq> (pid, col) \<longrightarrow>
         board_column pid' col' s' = List.filter (\<lambda>j. j \<noteq> i) (board_column pid' col' s))"
proof -
  let ?s = "reap_orphan_writers w s0"
  have ed: "editing (rq_operation rq) i rv" using assms(2) by simp
  obtain t p e where tp: "rq_project_id rq = Some (t_project_id t)" "t_project_id t = p_id p"
    and t: "hm_get (rt_tasks ?s) i = Some t"
    and e: "edit_task w ?s (rq_operation rq) t p = Inr e" and c: "commit_edit w rq t p e ?s = (Inr r, s')"
    by (rule prepare_edit_Ok[OF assms(1) ed assms(3)]) (rule that, assumption+)
  from tp assms(4) have pid: "t_project_id t = pid" "p_id p = pid" by auto
  have i: "t_id t = i" using t assms(6) by (auto simp: hm.keyed_by_def)
  have mv: "edit_move w ?s t pid col before = Inr e" using e assms(2) pid by (simp add: edit_task_def)
  obtain resp start launch where r: "r = (resp, start, launch)" by (cases r)
  have keys: "\<forall>u \<in> set (move_siblings ?s t pid col). 0 \<le> t_order_key u \<and> t_order_key u \<le> i64_max"
    using assms(7) by (auto simp: move_siblings_def)
  note args = assms(5,6) pid(1) mv c[unfolded r] keys
  from edit_move_places[OF args] edit_move_leaves[OF args] i show ?thesis by (auto simp: Let_def)
qed

lemma sample_move_edit:
  "\<exists>e. edit_task sample_world (sample_runtime sample_task []) (Move 7 1 Todo None) sample_task sample_project = Inr e
    \<and> ed_others e = [] \<and> ed_linked e = None \<and> t_id (ed_next e) = 7 \<and> au_task_id (ed_audit e) = 7
    \<and> au_id (ed_audit e) = 1000"
proof -
  have "move_siblings (sample_runtime sample_task []) sample_task (p_id sample_project) Todo = []"
    by (simp add: move_siblings_def hm_values_def)
  then show ?thesis
    by (simp add: edit_task_def edit_move_def moved_card_def move_index_def place_card_def gap_high_def
      gap_low_def saturating_add_i64_def i64_max_def i64_min_def fresh_uuid_def Let_def audit_def)
qed

theorem move_places_card_witness:
  "\<exists>r s'. prepare_task_request sample_world (sample_edit (Move 7 1 Todo None)) (sample_runtime sample_task []) = (Inr r, s')
    \<and> board_column 1 Todo s' = place 7 None (board_column 1 Todo (sample_runtime sample_task []))"
proof -
  obtain e where e: "edit_task sample_world (sample_runtime sample_task []) (Move 7 1 Todo None) sample_task sample_project = Inr e"
    "ed_others e = []" "ed_linked e = None" "t_id (ed_next e) = 7" "au_task_id (ed_audit e) = 7" "au_id (ed_audit e) = 1000"
    using sample_move_edit by blast
  note rel = new_task_rest(1)[OF sample_new_task]
  obtain r s' where run: "prepare_task_request sample_world (sample_edit (Move 7 1 Todo None))
      (sample_runtime sample_task []) = (Inr r, s')"
    using prepare_sample[OF _ _ rel sample_idle e(1-3)] e by fastforce
  have "let s = reap_orphan_writers sample_world (sample_runtime sample_task []) in
    board_column 1 Todo s' = place 7 None (board_column 1 Todo s)
    \<and> (\<forall>pid' col'. (pid', col') \<noteq> (1, Todo) \<longrightarrow>
         board_column pid' col' s' = List.filter (\<lambda>j. j \<noteq> 7) (board_column pid' col' s))"
    by (rule move_places_card[OF run, where rv = 1])
      (simp_all add: hm_ok_def hm.keyed_by_def hm_get_def hm_values_def i64_max_def
        new_task_rest(3)[OF sample_new_task])
  with run show ?thesis unfolding Let_def sample_reap by blast
qed

text \<open>C33: an edit is refused, and leaves the state as the reaping of orphans left it, when the task is
  missing, its revision is stale, or its agent is live; the answer says which.\<close>

theorem stale_or_live_edit_refused:
  assumes "editing (rq_operation rq) i rv" and "rq_project_id rq = Some pid"
    and "task_replay rq (rt_store (reap_orphan_writers w s0)) = None"
    and "project_by (\<lambda>p. p_id p = pid \<and> p_archived_at p = None) (reap_orphan_writers w s0) = Some p"
    and "hm_get (rt_tasks (reap_orphan_writers w s0)) i = found"
    and "case found of None \<Rightarrow> True
      | Some t \<Rightarrow> t_project_id t \<noteq> pid \<or> t_revision t \<noteq> rv \<or> task_live (reap_orphan_writers w s0) t"
  shows "\<exists>msg. prepare_task_request w rq s0 = (Err (TaskError (case found of None \<Rightarrow> NotFound
      | Some t \<Rightarrow> if t_project_id t \<noteq> pid then NotFound else if t_revision t \<noteq> rv then RevisionConflict
          else AgentBusy) msg), reap_orphan_writers w s0)"
proof -
  let ?s = "reap_orphan_writers w s0"
  note k = editing_kind[OF assms(1)]
  have pid: "p_id p = pid" using assms(4) by (auto simp: project_by_def find_Some_iff)
  have run: "prepare_task_request w rq s0 = task_operation_run w rq p ?s"
    by (rule prepare_run[OF k(2,4) assms(3,2,4)])
  note rt = request_task_def[of pid "rq_operation rq" ?s, unfolded k(3) option.case prod.case assms(5)]
  show ?thesis
  proof (cases "\<exists>t. found = Some t \<and> t_project_id t = pid \<and> t_revision t = rv")
    case True
    then obtain t where t: "found = Some t" "t_project_id t = pid" "t_revision t = rv" by blast
    then have "request_task (p_id p) (rq_operation rq) ?s = Inr t"
      unfolding pid by (simp add: rt opt_filter_def check_revision_def)
    from run_editing[OF assms(1) this, of w] t assms(6) run show ?thesis by simp
  next
    case False
    then have "\<exists>msg. request_task (p_id p) (rq_operation rq) ?s = Inl (TaskError (case found of None \<Rightarrow> NotFound
      | Some t \<Rightarrow> if t_project_id t \<noteq> pid then NotFound else if t_revision t \<noteq> rv then RevisionConflict
          else AgentBusy) msg)"
      unfolding pid by (cases found) (auto simp: rt opt_filter_def check_revision_def)
    then show ?thesis using run k(1) by (auto simp: task_operation_run_def)
  qed
qed

theorem stale_or_live_edit_refused_witness:
  "\<exists>msg. prepare_task_request sample_world (sample_edit (Move 7 5 Todo None)) (sample_runtime sample_task [])
    = (Err (TaskError RevisionConflict msg), sample_runtime sample_task [])"
proof -
  have "\<exists>msg. prepare_task_request sample_world (sample_edit (Move 7 5 Todo None)) (sample_runtime sample_task [])
    = (Err (TaskError (case Some sample_task of None \<Rightarrow> NotFound
      | Some t \<Rightarrow> if t_project_id t \<noteq> 1 then NotFound else if t_revision t \<noteq> 5 then RevisionConflict
          else AgentBusy) msg), reap_orphan_writers sample_world (sample_runtime sample_task []))"
    by (rule stale_or_live_edit_refused[where p = sample_project and i = 7])
      (simp_all only: sample_reap sample_project_by sample_edit_simps sample_runtime_simps sample_unanswered,
        simp_all add: hm_get_def)
  then show ?thesis by simp
qed

lemma prepare_start_edit:
  assumes "prepare_task_request w rq s0 = (Inr (resp, Some start, launch), s')"
  shows "\<exists>i rv. editing (rq_operation rq) i rv"
    and "task_replay rq (rt_store (reap_orphan_writers w s0)) = None"
proof -
  show ed: "\<exists>i rv. editing (rq_operation rq) i rv"
    using assms by (cases "rq_operation rq")
      (auto simp: prepare_task_request_def task_operation_run_def just_def res_bind_Ok_iff request_task_def
        request_target_def draft_of_def Let_def split: option.splits sum.splits if_splits)
  then obtain i rv where "editing (rq_operation rq) i rv" by blast
  note k = editing_kind[OF this]
  show "task_replay rq (rt_store (reap_orphan_writers w s0)) = None"
    using prepare_replay[OF k(2,4), of w s0] assms
    by (cases "task_replay rq (rt_store (reap_orphan_writers w s0))") auto
qed

lemma edit_task_start:
  assumes "edit_task w s op t p = Inr e" and "ed_start e \<noteq> None"
  obtains i rv profile where "op = StartTask i rv profile" "edit_start w s t p profile = Inr e"
  using assms
  by (auto simp: edit_task_def edit_update_def plain_edit_def edit_link_def res_bind_Ok_iff
    Let_def elim!: edit_move_Ok split: task_operation.splits if_splits option.splits prod.splits)

lemma edit_start_Ok:
  assumes "edit_start w s t p profile = Inr e"
  obtains "next" owner where "ed_start e = Some (next, p, profile)" "ed_next e = next" "ed_linked e = None"
    "ed_others e = []" "t_id next = t_id t" "column t \<in> {Todo, InProgress}" "\<not> t_archived t"
    "column next = InProgress" "t_condition next = TcQueued" "t_assigned_agent_id next = Some owner"
    "t_continue_agent_id t \<noteq> None \<Longrightarrow> t_continue_agent_id t = Some owner"
    "\<exists>thread. continuation_thread s t profile = Inr thread"
proof -
  obtain n au where tr: "user_transition w s t Start = Inr (n, au)"
    and ct: "\<exists>thread. continuation_thread s t profile = Inr thread"
    using assms by (auto simp: edit_start_def res_bind_Ok_iff Let_def)
  then have e: "e = (let owner = unwrap_or (w_uuid w (rt_draws s + 1)) (t_continue_agent_id t);
           next = n\<lparr>t_assigned_agent_id := Some owner, t_condition := TcQueued\<rparr>
       in \<lparr>ed_next = next, ed_audit = au\<lparr>au_agent_id := Some owner\<rparr>, ed_others = [],
              ed_linked = None, ed_start = Some (next, p, profile)\<rparr>)"
    using assms by (auto simp: edit_start_def Let_def)
  from tr have t: "t_id n = t_id t" "column t \<in> {Todo, InProgress}" "\<not> t_archived t" "column n = InProgress"
    by (auto simp: user_transition_def transition_Ok_iff active_task_def split: if_splits)
  show thesis
    by (rule that[of "ed_next e" "unwrap_or (w_uuid w (rt_draws s + 1)) (t_continue_agent_id t)"])
      (use t ct in \<open>simp_all add: e Let_def, auto\<close>)
qed

lemma continuation_thread_Ok:
  assumes "continuation_thread s t profile = Inr thread" and "t_continue_agent_id t = Some a"
  shows "\<exists>r. hm_get (rt_agents s) a = Some r \<and> \<not> conversation_active s t a (rec_run r)
    \<and> \<not> settings_differ (rec_run r) profile \<and> ar_coordinator_group (rec_run r) = t_coordinator_group t
    \<and> t_coordinator_group t \<noteq> None \<and> ar_project_id (rec_run r) = t_project_id t"
  using assms by (auto simp: continuation_thread_def Let_def split: option.splits if_splits)


lemma sample_start_edit:
  "\<exists>e n. edit_task sample_world (sample_runtime sample_task []) (StartTask 7 1 default_profile) sample_task sample_project = Inr e
    \<and> ed_others e = [] \<and> ed_linked e = None \<and> t_id (ed_next e) = 7 \<and> au_task_id (ed_audit e) = 7
    \<and> au_id (ed_audit e) = 1000 \<and> ed_start e = Some (n, sample_project, default_profile)"
proof -
  have "active_task sample_task" using new_task_fields[OF sample_new_task] by simp
  moreover have "continuation_thread (sample_runtime sample_task []) sample_task default_profile = Inr None"
    using new_task_fields[OF sample_new_task] by (simp add: continuation_thread_def)
  ultimately show ?thesis
    by (simp add: edit_task_def edit_start_def user_transition_def transition_def check_revision_def
      fresh_uuid_def Let_def audit_def)
qed


end
