(* ===== verification/Runtime_Store.thy ===== *)
theory Runtime_Store
  imports Board_Columns Writer_Facts
begin

text \<open>
  Every operation of the daemon changes the store only through the store's own operations: what it
  does to the store is a run of \<open>store_step\<close>. So the store's integrity, the permanence of receipts
  and of histories hold for the daemon as a whole.
\<close>

section \<open>Runs of store operations\<close>

definition store_run :: "runtime \<Rightarrow> runtime \<Rightarrow> bool" where
  "store_run s s' \<longleftrightarrow> store_step\<^sup>*\<^sup>* (rt_store s) (rt_store s')"

named_theorems store_runs \<open>operations whose effect on the store is a run\<close>

lemma store_run_same: "rt_store s' = rt_store s \<Longrightarrow> store_run s s'"
  by (simp add: store_run_def)

lemma store_run_refl [simp, intro]: "store_run s s"
  by (simp add: store_run_def)

lemma store_run_trans [trans]: "store_run s s' \<Longrightarrow> store_run s' s2 \<Longrightarrow> store_run s s2"
  by (simp add: store_run_def)

lemma store_run_cong: "rt_store a = rt_store s \<Longrightarrow> rt_store b = rt_store s' \<Longrightarrow> store_run s s' \<Longrightarrow> store_run a b"
  by (simp add: store_run_def)

lemma store_run_frames [simp]:
  "store_run s (broadcast_event w ev x) = store_run s x"
  "store_run s (publish_tasks w cs x) = store_run s x"
  "store_run s (x\<lparr>rt_tasks := m\<rparr>) = store_run s x"
  "store_run (drawn s) x = store_run s x"
  by (simp_all add: store_run_def)

lemma store_run_with:
  assumes "with_store f s = (r, s')" and "\<And>st. store_step st (snd (f st))"
  shows "store_run s s'"
proof -
  from assms(1) obtain st where "rt_store s' = st" "f (rt_store s) = (r, st)" by (auto elim: with_storeE)
  with assms(2)[of "rt_store s"] show ?thesis by (simp add: store_run_def r_into_rtranclp)
qed

lemma store_run_save: "with_store (save_task_changes cs r l) s = (x, s') \<Longrightarrow> store_run s s'"
  unfolding save_task_changes_alt by (erule store_run_with) (rule store_step.save_task)

lemma store_run_save_agents: "with_store (save_task_agent_changes cs r l) s = (x, s') \<Longrightarrow> store_run s s'"
  by (erule store_run_with) (rule store_step.save_task)

section \<open>Events, agents and writers\<close>

lemma task_attention_run [store_runs]: "store_run s (task_attention w t s)"
proof (cases "already_raised t s")
  case False
  obtain r s' where sv: "with_store (upsert_attention (attention_for w t s)) (drawn s) = (r, s')" by fastforce
  have "store_run (drawn s) s'" by (rule store_run_with[OF sv]) (rule store_step.upsert_attention)
  then have "store_run s s'" by (rule store_run_cong[rotated 2]) simp_all
  then show ?thesis using sv False
    by (cases r) (auto simp: task_attention_def elim: store_run_cong[rotated 2])
qed (simp add: task_attention_def)

lemma release_writer_run [store_runs]: "store_run s (release_writer w i s)"
proof -
  obtain r s' where sv: "with_store (release_writer_row i) s = (r, s')" by fastforce
  have run: "store_run s s'" by (rule store_run_with[OF sv]) (rule store_step.release_writer)
  show ?thesis using sv run
    by (cases r) (auto simp: release_writer_def intro: store_run_same elim: store_run_cong[rotated 2] split: option.split)
qed

lemma sync_agent_task_run [store_runs]: "store_run s (sync_agent_task w i s)"
proof (cases "sync_target s i")
  case (Some x)
  obtain r t where x: "x = (r, t)" by (cases x)
  show ?thesis
  proof (cases "sync_change (fresh_uuid w s) (w_now w) (agent_live s i r) r t")
    case None with Some x show ?thesis by (simp add: sync_agent_task_def)
  next
    case (Some y)
    obtain n au where y: "y = (n, au)" by (cases y)
    obtain r' s' where sv: "with_store (save_task_changes [(n, au)] None None) (drawn s) = (r', s')" by fastforce
    have run: "store_run s s'" by (rule store_run_cong[OF _ _ store_run_save[OF sv]]) simp_all
    have "store_run s' (task_attention w n (publish_tasks w [(n, au)] s'))"
      by (rule store_run_cong[OF _ refl task_attention_run]) simp
    with run show ?thesis using \<open>sync_target s i = Some x\<close> x Some y sv
      by (cases r') (auto simp: sync_agent_task_def Let_def elim: store_run_trans store_run_cong[rotated 2])
  qed
qed (simp add: sync_agent_task_def)

lemma fold_run: "(\<And>x s. store_run s (f x s)) \<Longrightarrow> store_run s (fold f xs s)"
  by (induction xs arbitrary: s) (auto intro: store_run_trans)

lemma reap_run [store_runs]: "store_run s (reap_orphan_writers w s)"
  unfolding reap_orphan_writers_def
  by (rule fold_run) (rule store_run_trans[OF release_writer_run sync_agent_task_run])

lemma broadcast_run [store_runs]: "store_run s (broadcast w ev s)"
proof -
  have "store_run s (before_agent_event w run s)" for run
    unfolding before_agent_event_def Let_def
    by (auto intro: store_run_trans release_writer_run sync_agent_task_run)
  then show ?thesis unfolding broadcast_def
    by (cases ev) (auto intro: store_run_same elim: store_run_cong[rotated 2])
qed

lemma update_agents_run [store_runs]: "store_run s (update_agents w runs s)"
proof (induction w runs s rule: update_agents.induct)
  case (2 w run runs s)
  define s1 where "s1 = (case hm_get (rt_agents s) (ar_id run) of None \<Rightarrow> s
     | Some r \<Rightarrow> s\<lparr>rt_agents := hm_insert (ar_id run) (r\<lparr>rec_run := run\<rparr>) (rt_agents s)\<rparr>)"
  have "rt_store s1 = rt_store s" by (simp add: s1_def split: option.split)
  then have "store_run s s1" by (rule store_run_same)
  also have "store_run s1 (broadcast w (AgentChanged run) s1)" by (rule broadcast_run)
  also have "store_run (broadcast w (AgentChanged run) s1) (update_agents w runs (broadcast w (AgentChanged run) s1))"
    by (rule 2) (simp add: s1_def)
  finally show ?case by (simp add: s1_def Let_def)
qed simp

section \<open>Handlers\<close>

lemma save_and_publish_run [store_runs]: "store_run s (snd (save_and_publish w cs s))"
proof -
  let ?s = "s\<lparr>rt_draws := rt_draws s + length cs\<rparr>"
  obtain r s' where sv: "with_store (save_task_changes cs None None) ?s = (r, s')" by fastforce
  have "store_run s s'" by (rule store_run_cong[OF _ refl store_run_save[OF sv]]) simp
  then show ?thesis using sv
    by (cases r) (auto simp: save_and_publish_def elim: store_run_cong[rotated 2])
qed

lemma commit_queue_run [store_runs]: "store_run s (snd (commit_queue w rq x s))"
proof -
  obtain cs runs t where x: "x = (cs, runs, t)" by (cases x)
  let ?s = "s\<lparr>rt_draws := rt_draws s + length cs\<rparr>"
  obtain r s' where sv: "with_store (save_task_agent_changes cs (Some (rq, RChanged t)) runs) ?s = (r, s')" by fastforce
  have run: "store_run s s'" by (rule store_run_cong[OF _ refl store_run_save_agents[OF sv]]) simp
  moreover have "store_run s' (publish_tasks w cs (update_agents w runs s'))"
    by (rule store_run_cong[OF refl _ update_agents_run]) simp
  ultimately show ?thesis using sv x by (cases r) (auto simp: commit_queue_def intro: store_run_trans)
qed

lemma save_reply_run [store_runs]: "store_run s (snd (save_reply w rq cs t s))"
  unfolding save_reply_commit by (rule commit_queue_run)

lemma queue_run_run [store_runs]: "store_run s (snd (queue_run w rq i rv s))"
  unfolding queue_run_def using commit_queue_run by (auto split: option.split sum.split)

lemma planning_run_run [store_runs]: "store_run s (snd (planning_run w rq i s))"
proof -
  have "store_run s (snd (case save_reply w rq cs t s of
      (Inl e, s') \<Rightarrow> ((Err e, None), s') | (Inr resp, s') \<Rightarrow> ((Ok resp, l), s')))" for cs t l
    using save_reply_run[of s w rq cs t] by (auto split: prod.splits sum.splits)
  then show ?thesis unfolding planning_run_def Let_def by (auto split: option.split sum.split)
qed

lemma finish_plan_run [store_runs]: "store_run s (finish_task_plan w tid i r s)"
proof -
  have save: "store_run s (case with_store (save_task_changes cs None None) (drawn s) of
      (Inl _, s') \<Rightarrow> (let t = u in broadcast w (TaskChanged t) (s'\<lparr>rt_tasks := hm_insert (t_id t) t (rt_tasks s')\<rparr>))
    | (Inr _, s') \<Rightarrow> publish_tasks w cs s')" for cs u
  proof -
    obtain x s' where sv: "with_store (save_task_changes cs None None) (drawn s) = (x, s')" by fastforce
    have "store_run s s'" by (rule store_run_cong[OF _ refl store_run_save[OF sv]]) simp
    then show ?thesis using sv
      by (cases x) (auto simp: Let_def broadcast_def elim: store_run_cong[rotated 2])
  qed
  show ?thesis unfolding finish_task_plan_def Let_def using save[unfolded Let_def]
    by (auto split: option.split)
qed

lemma daemon_change_run [store_runs]: "store_run s (snd (daemon_change w a t s))"
  by (simp add: daemon_change_def save_and_publish_run)

lemma launch_claimed_run [store_runs]: "store_run s (snd (launch_claimed w owner t s))"
  using save_and_publish_run by (auto simp: launch_claimed_def Let_def split: prod.split sum.split)
     (metis snd_conv)+

lemma dispatch_run [store_runs]: "store_run s (snd (dispatch w t s))"
proof -
  define s1 where "s1 = (if selected_agent t = None then drawn s else s)"
  have "rt_store s1 = rt_store s" by (simp add: s1_def)
  then have s1: "store_run s s1" by (rule store_run_same)
  have launch: "store_run s (snd (launch_claimed w o' u s1))" for o' u
    by (rule store_run_trans[OF s1 launch_claimed_run])
  have block: "store_run s (snd (case daemon_change w a u s1 of
      (Inl e, s') \<Rightarrow> (Err e, s') | (Inr _, s') \<Rightarrow> (Ok v, s')))" for a u v
    using store_run_trans[OF s1 daemon_change_run[of s1 w a u]] by (auto split: prod.splits sum.splits)
  show ?thesis unfolding dispatch_def Let_def s1_def[symmetric]
    by (auto simp: launch block split: sum.split)
qed

lemma claim_run [store_runs]: "store_run s (snd (claim_board_task w p s))"
proof -
  let ?s = "reap_orphan_writers w s"
  have "store_run ?s (snd (case daemon_change w a u ?s of
      (Inl e, s') \<Rightarrow> (Err e, s') | (Inr _, s') \<Rightarrow> (Ok v, s')))" for a u v
    using daemon_change_run[of ?s w a u] by (auto split: prod.splits sum.splits)
  then have "store_run ?s (snd (claim_board_task w p s))"
    unfolding claim_board_task_def Let_def by (auto simp: dispatch_run split: sum.split option.split)
  with reap_run show ?thesis by (rule store_run_trans)
qed

lemma board_execution_run_run [store_runs]: "store_run s (snd (board_execution_run w rq paused expected s))"
proof -
  have "store_run s (snd (case with_store (set_task_setting_receipt k v rq resp) s of
      (Inl e, s') \<Rightarrow> (Err (storage_error e), s') | (Inr _, s') \<Rightarrow> (Ok x, broadcast w ev s')))" for k v resp x ev
  proof -
    obtain r s' where sv: "with_store (set_task_setting_receipt k v rq resp) s = (r, s')" by fastforce
    have "store_run s s'" by (rule store_run_with[OF sv]) (rule store_step.setting_receipt)
    then show ?thesis using sv by (cases r) (auto intro: store_run_trans broadcast_run)
  qed
  then show ?thesis unfolding board_execution_run_def
    by (auto split: option.split sum.split)
qed

lemma board_projects_run [store_runs]: "store_run s (snd (board_projects rq members s))"
proof -
  have "store_run s (snd (case with_store (set_setting k v) s of
      (Inl e, s') \<Rightarrow> (Err (storage_error e), s') | (Inr _, s') \<Rightarrow> (Ok x, s')))" for k v x
  proof -
    obtain r s' where sv: "with_store (set_setting k v) s = (r, s')" by fastforce
    have "store_run s s'" by (rule store_run_with[OF sv]) (rule store_step.set_setting)
    then show ?thesis using sv by (cases r) auto
  qed
  then show ?thesis unfolding board_projects_def
    by (auto split: option.split setting_value.split)
qed

lemma create_run_run [store_runs]: "store_run s (snd (create_run w rq p draft s))"
  using save_reply_run[of "drawn s"] by (auto simp: create_run_def split: sum.split)

lemma delete_run_run [store_runs]: "store_run s (snd (delete_run w rq t s))"
proof -
  obtain r s' where sv: "with_store (delete_draft_task t rq) s = (r, s')" by fastforce
  have "store_run s s'" by (rule store_run_with[OF sv]) (rule store_step.delete_draft)
  moreover have "store_run s' (broadcast w ev (s'\<lparr>rt_tasks := m\<rparr>))" for ev m
    by (rule store_run_cong[OF _ refl broadcast_run]) simp
  ultimately show ?thesis using sv
    by (cases r) (auto simp: delete_run_def intro: store_run_trans)
qed

lemma commit_edit_run [store_runs]: "store_run s (snd (commit_edit w rq t p e s))"
proof -
  obtain "next" l s1 where pl: "planned_edit w t p e s = (next, l, s1)" by (cases "planned_edit w t p e s")
  let ?cs = "ed_others e @ [(next, ed_audit e)]"
  obtain r s' where sv: "with_store (save_task_changes ?cs (Some (rq, RChanged next)) (ed_linked e)) s1 = (r, s')"
    by fastforce
  have run: "store_run s s'"
    by (rule store_run_cong[OF _ refl store_run_save[OF sv]]) (simp add: planned_edit_card(7)[OF pl])
  define s2 where "s2 = (case ed_linked e of None \<Rightarrow> s' | Some run \<Rightarrow> update_agents w [run] s')"
  have "store_run s' s2"
    by (cases "ed_linked e") (simp_all only: s2_def option.case update_agents_run store_run_refl)
  with run have "store_run s s2" by (rule store_run_trans)
  then have "store_run s (publish_tasks w ?cs s2)" by simp
  moreover from this have "store_run s (task_attention w next (publish_tasks w ?cs s2))"
    by (rule store_run_trans[OF _ task_attention_run])
  ultimately show ?thesis using run sv
    by (cases r) (simp_all add: commit_edit_def pl Let_def s2_def[symmetric])
qed

lemma just_run [simp]: "snd (just r) = snd r"
  by (simp add: just_def)

lemma task_operation_run_run [store_runs]: "store_run s (snd (task_operation_run w rq p s))"
  unfolding task_operation_run_def
  by (auto simp: create_run_run delete_run_run commit_edit_run split: option.split sum.split task_operation.split)

lemma prepare_task_request_run [store_runs]: "store_run s (snd (prepare_task_request w rq s))"
proof -
  let ?s = "reap_orphan_writers w s"
  have "store_run ?s (snd (prepare_task_request w rq s))"
    unfolding prepare_task_request_def Let_def
    by (cases "rq_operation rq") (auto simp: board_projects_run task_operation_run_run split: option.split)
  with reap_run show ?thesis by (rule store_run_trans)
qed

section \<open>Writers\<close>

lemma move_lease_run [store_runs]: "store_run s (snd (move_lease old new s))"
proof -
  obtain r s' where sv: "with_store (transfer_writer old new) s = (r, s')" by fastforce
  have "store_run s s'" by (rule store_run_with[OF sv]) (rule store_step.transfer_writer)
  then show ?thesis using sv
    by (cases r) (auto simp: move_lease_def elim: store_run_cong[rotated 2] split: option.split)
qed

lemma widen_lease_run [store_runs]: "store_run s (snd (widen_lease i s))"
proof -
  have "store_run s (snd (case with_store (update_writer_lease i l) s of
      (Inl e, s') \<Rightarrow> (Err (store_message e), s')
    | (Inr _, s') \<Rightarrow> (Ok (), s'\<lparr>rt_writer_leases := hm_insert i l (rt_writer_leases s')\<rparr>)))" for l
  proof -
    obtain r s' where sv: "with_store (update_writer_lease i l) s = (r, s')" by fastforce
    have "store_run s s'" by (rule store_run_with[OF sv]) (rule store_step.update_lease)
    then show ?thesis using sv by (cases r) (auto elim: store_run_cong[rotated 2])
  qed
  then show ?thesis unfolding widen_lease_def Let_def by (auto split: option.split)
qed

lemma acquire_run [store_runs]: "store_run s (snd (acquire_with_intent w i p prof grp intent s))"
proof -
  let ?s = "reap_orphan_writers w s"
  have "store_run ?s (snd (case with_store (reserve_writer i l) ?s of
      (Inl e, s') \<Rightarrow> (Err (store_message e), s')
    | (Inr _, s') \<Rightarrow> (Ok g, s'\<lparr>rt_writer_leases := hm_insert i l (rt_writer_leases s')\<rparr>)))" for l g
  proof -
    obtain r s' where sv: "with_store (reserve_writer i l) ?s = (r, s')" by fastforce
    have "store_run ?s s'" by (rule store_run_with[OF sv]) (rule store_step.reserve_writer)
    then show ?thesis using sv by (cases r) (auto elim: store_run_cong[rotated 2])
  qed
  note save = store_run_trans[OF reap_run[of s w] this]
  show ?thesis unfolding acquire_with_intent_def Let_def
    by (auto simp: reap_run save split: sum.split option.split)
qed

lemma guard_started_run [store_runs]: "store_run s (snd (snd (guard_started pid g s)))"
proof -
  obtain r s' where sv: "with_store (writer_started (wg_agent g) pid) s = (r, s')" by fastforce
  have "store_run s s'" by (rule store_run_with[OF sv]) (rule store_step.writer_started)
  then show ?thesis using sv by (simp add: guard_started_def)
qed

lemma drop_guard_run [store_runs]: "store_run s (drop_guard w g s)"
  by (auto simp: drop_guard_def release_writer_run intro: store_run_same split: option.split)

lemma update_remote_task_run [store_runs]: "store_run s (update_remote_task w t s)"
proof -
  define old where "old = Option.bind (hm_get (rt_tasks s) (t_id t)) t_assigned_agent_id"
  define s1 where "s1 = (case (old, t_assigned_agent_id t) of
       (Some a, Some b) \<Rightarrow> if a \<noteq> b \<and> hm_contains (rt_writer_leases s) a then snd (move_lease a b s) else s
     | _ \<Rightarrow> s)"
  have "store_run s s1" by (auto simp: s1_def move_lease_run split: option.split)
  then have "store_run s (s1\<lparr>rt_tasks := hm_insert (t_id t) t (rt_tasks s1)\<rparr>)" by simp
  moreover from this have "store_run s (release_writer w i (s1\<lparr>rt_tasks := hm_insert (t_id t) t (rt_tasks s1)\<rparr>))" for i
    by (rule store_run_trans[OF _ release_writer_run])
  ultimately show ?thesis
    unfolding update_remote_task_def Let_def old_def[symmetric] s1_def[symmetric]
    by (auto split: option.split)
qed

lemma writer_step_run [store_runs]: "writer_step s s' \<Longrightarrow> store_run s s'"
  by (induction rule: writer_step.induct) (simp_all add: store_runs retain_as_def)

end
