(* ===== verification/Plan_Slots.thy ===== *)
theory Plan_Slots
  imports Runtime_Store
begin

text \<open>
  How the operations of the daemon change its task map: they keep it a map keyed by the tasks' ids,
  and a task gets a running plan job only while fewer than four run. Agents, events, queueing and
  editing leave the plan of a task alone.
\<close>

section \<open>Safe changes\<close>

definition tasks_ok :: "runtime \<Rightarrow> bool" where
  "tasks_ok s \<longleftrightarrow> hm_ok (rt_tasks s) \<and> hm_keyed t_id (rt_tasks s)"

definition plan_safe :: "runtime \<Rightarrow> runtime \<Rightarrow> bool" where
  "plan_safe s s' \<longleftrightarrow>
     (tasks_ok s \<longrightarrow> tasks_ok s' \<and> running_plans s' \<le> max 4 (running_plans s))"

named_theorems plan_safes \<open>operations that keep the bound on running plans\<close>

lemma plan_safe_same: "rt_tasks s' = rt_tasks s \<Longrightarrow> plan_safe s s'"
  by (simp add: plan_safe_def tasks_ok_def running_plans_def)

lemma plan_safe_refl [simp, intro]: "plan_safe s s"
  by (simp add: plan_safe_same)

lemma plan_safe_trans [trans]: "plan_safe s s' \<Longrightarrow> plan_safe s' s2 \<Longrightarrow> plan_safe s s2"
  by (auto simp: plan_safe_def)

lemma plan_safe_cong:
  "rt_tasks a = rt_tasks s \<Longrightarrow> rt_tasks b = rt_tasks s' \<Longrightarrow> plan_safe s s' \<Longrightarrow> plan_safe a b"
  by (simp add: plan_safe_def tasks_ok_def running_plans_def)

lemma plan_safe_frames [simp]:
  "plan_safe s (broadcast_event w ev x) = plan_safe s x" "plan_safe (drawn s) x = plan_safe s x"
  "plan_safe s (task_attention w t x) = plan_safe s x" "plan_safe s (release_writer w i x) = plan_safe s x"
  by (simp_all add: plan_safe_def tasks_ok_def running_plans_def)

text \<open>A change keeps the plan of the task it replaces, or adds none.\<close>

definition keeps_plan :: "runtime \<Rightarrow> task \<Rightarrow> bool" where
  "keeps_plan s t \<longleftrightarrow> (plan_running t \<longrightarrow>
     (\<exists>old. hm_get (rt_tasks s) (t_id t) = Some old \<and> plan_running old))"

lemma keeps_planI:
  "hm_get (rt_tasks s) (t_id t) = Some old \<Longrightarrow> t_planning t = t_planning old \<Longrightarrow> keeps_plan s t"
  by (auto simp: keeps_plan_def plan_running_def)

lemma insert_running:
  assumes "keeps_plan s t" and "rt_tasks s' = hm_insert (t_id t) t (rt_tasks s)"
  shows "running_plans s' \<le> running_plans s"
  using assms count_insert_kept[of plan_running t "rt_tasks s" "t_id t"]
  by (simp add: running_plans_def keeps_plan_def)

lemma insert_safe:
  assumes "rt_tasks s' = hm_insert (t_id t) t (rt_tasks s)" and "keeps_plan s t \<or> running_plans s < 4"
  shows "plan_safe s s'"
proof -
  have "running_plans s' \<le> max 4 (running_plans s)"
    using assms insert_running[of s t s'] count_insert[of plan_running "t_id t" t "rt_tasks s"]
    by (cases "keeps_plan s t"; cases "plan_running t") (auto simp: running_plans_def)
  then show ?thesis using assms(1)
    by (simp add: plan_safe_def tasks_ok_def hm.invar_ins hm.keyed_by_ins)
qed

text \<open>Several changes of distinct tasks.\<close>

lemma publish_safe:
  assumes "distinct (List.map (\<lambda>(t, _). t_id t) cs)" and "\<forall>(t, _) \<in> set cs. keeps_plan s t"
  shows "plan_safe s (publish_tasks w cs s)"
  using assms
proof (induction w cs s rule: publish_tasks.induct)
  case (2 w t a cs s)
  let ?s = "broadcast_event w (TaskChanged t) (s\<lparr>rt_tasks := hm_insert (t_id t) t (rt_tasks s)\<rparr>)"
  have "plan_safe s ?s" by (rule insert_safe) (use 2 in auto)
  also have "\<forall>(u, _) \<in> set cs. keeps_plan ?s u"
  proof clarify
    fix u b assume u: "(u, b) \<in> set cs"
    with 2(2) have "t_id u \<noteq> t_id t" by (force simp: image_iff)
    with u 2(3) show "keeps_plan ?s u" by (auto simp: keeps_plan_def hm.get_ins)
  qed
  then have "plan_safe ?s (publish_tasks w cs ?s)" using 2 by simp
  finally show ?case by simp
qed simp

lemma transition_planning:
  "transition uid now t action actor e live = Inr (t', a) \<Longrightarrow> t_planning t' = t_planning t"
  by (auto simp: transition_Ok_iff) (cases action; auto split: if_splits)

section \<open>Agents and events\<close>

lemma sync_change_planning: "sync_change uid now live r t = Some (t', a) \<Longrightarrow> t_planning t' = t_planning t \<and> t_id t' = t_id t"
  by (auto simp: sync_change_def Let_def touch_def audit_def dest: transition_planning transition_keeps(1)
    split: if_splits sum.splits)

lemma sync_tasks:
  assumes "tasks_ok s"
  obtains "rt_tasks (sync_agent_task w i s) = rt_tasks s"
  | t n where "hm_get (rt_tasks s) (t_id n) = Some t" "t_planning n = t_planning t"
      "rt_tasks (sync_agent_task w i s) = hm_insert (t_id n) n (rt_tasks s)"
proof (cases "sync_target s i")
  case None
  with that(1) show thesis by (simp add: sync_agent_task_def)
next
  case (Some x)
  obtain r t where tg: "sync_target s i = Some (r, t)" using Some by (cases x) simp
  then obtain tid where get: "hm_get (rt_tasks s) tid = Some t"
    by (auto simp: sync_target_def bind_eq_Some_conv split: if_splits)
  show thesis
  proof (cases "sync_change (fresh_uuid w s) (w_now w) (agent_live s i r) r t")
    case None with tg that(1) show ?thesis by (simp add: sync_agent_task_def)
  next
    case (Some y)
    obtain n au where y: "y = (n, au)" by (cases y)
    from sync_change_planning Some y have n: "t_planning n = t_planning t" "t_id n = t_id t" by blast+
    from get assms have "t_id t = tid" by (auto simp: tasks_ok_def hm.keyed_by_def)
    with get n have t: "hm_get (rt_tasks s) (t_id n) = Some t" by simp
    obtain x s' where sv: "with_store (save_task_changes [(n, au)] None None) (drawn s) = (x, s')" by fastforce
    then have s': "rt_tasks s' = rt_tasks s" by (auto elim: with_storeE)
    show ?thesis
    proof (cases x)
      case Inl
      with tg Some y sv s' that(1) show ?thesis by (simp add: sync_agent_task_def Let_def)
    next
      case Inr
      with tg Some y sv s' that(2)[OF t n(1)] show ?thesis
        by (simp add: sync_agent_task_def Let_def publish_tasks_tasks split: if_splits)
    qed
  qed
qed

lemma sync_safe [plan_safes]: "plan_safe s (sync_agent_task w i s)"
proof (cases "tasks_ok s")
  case True
  then show ?thesis
  proof (rule sync_tasks[where w = w and i = i])
    fix t n assume t: "hm_get (rt_tasks s) (t_id n) = Some t" "t_planning n = t_planning t"
      and "rt_tasks (sync_agent_task w i s) = hm_insert (t_id n) n (rt_tasks s)"
    with keeps_planI[OF t] show ?thesis by (intro insert_safe) blast+
  qed (rule plan_safe_same)
qed (simp add: plan_safe_def)

text \<open>Agents and events leave every plan as it is.\<close>

definition plans_kept :: "runtime \<Rightarrow> runtime \<Rightarrow> bool" where
  "plans_kept s s' \<longleftrightarrow> (tasks_ok s \<longrightarrow> tasks_ok s' \<and>
     (\<forall>i. map_option t_planning (hm_get (rt_tasks s') i) = map_option t_planning (hm_get (rt_tasks s) i)))"

lemma plans_kept_same: "rt_tasks s' = rt_tasks s \<Longrightarrow> plans_kept s s'"
  by (simp add: plans_kept_def tasks_ok_def)

lemma plans_kept_trans [trans]: "plans_kept s s' \<Longrightarrow> plans_kept s' s2 \<Longrightarrow> plans_kept s s2"
  by (auto simp: plans_kept_def)

lemma sync_kept: "plans_kept s (sync_agent_task w i s)"
proof (cases "tasks_ok s")
  case True
  then show ?thesis
  proof (rule sync_tasks[where w = w and i = i])
    fix t n assume t: "hm_get (rt_tasks s) (t_id n) = Some t" "t_planning n = t_planning t"
      and "rt_tasks (sync_agent_task w i s) = hm_insert (t_id n) n (rt_tasks s)"
    then show ?thesis by (auto simp: plans_kept_def tasks_ok_def hm.get_ins hm.invar_ins hm.keyed_by_ins)
  qed (rule plans_kept_same)
qed (simp add: plans_kept_def)

lemma agent_event_kept: "plans_kept s (broadcast w (AgentChanged run) s)"
proof -
  have "plans_kept s (before_agent_event w run s)"
    unfolding before_agent_event_def Let_def
    by (rule plans_kept_trans[OF _ sync_kept]) (rule plans_kept_same, simp)
  then have "plans_kept s (broadcast_event w ev (before_agent_event w run s))" for ev
    by (rule plans_kept_trans) (rule plans_kept_same, simp)
  then show ?thesis by (simp add: broadcast_def)
qed

lemma reap_safe' [plan_safes]: "plan_safe s (reap_orphan_writers w s)"
proof -
  have "plan_safe s (fold (\<lambda>i s. sync_agent_task w i (release_writer w i s)) is s)" for "is"
  proof (induction "is" arbitrary: s)
    case (Cons i "is")
    have "plan_safe s (sync_agent_task w i (release_writer w i s))"
      by (rule plan_safe_trans[OF _ sync_safe]) simp
    with Cons show ?case by (auto intro: plan_safe_trans)
  qed simp
  then show ?thesis by (simp add: reap_orphan_writers_def)
qed

lemma broadcast_plan_safe [plan_safes]: "plan_safe s (broadcast w ev s)"
proof -
  have "plan_safe s (before_agent_event w run s)" for run
    unfolding before_agent_event_def Let_def by (rule plan_safe_trans[OF _ sync_safe]) simp
  then show ?thesis by (cases ev) (simp_all add: broadcast_def)
qed

lemma update_agents_safe [plan_safes]: "plan_safe s (update_agents w runs s)"
proof (induction w runs s rule: update_agents.induct)
  case (2 w run runs s)
  define s1 where "s1 = (case hm_get (rt_agents s) (ar_id run) of None \<Rightarrow> s
     | Some r \<Rightarrow> s\<lparr>rt_agents := hm_insert (ar_id run) (r\<lparr>rec_run := run\<rparr>) (rt_agents s)\<rparr>)"
  have "rt_tasks s1 = rt_tasks s" by (simp add: s1_def split: option.split)
  then have "plan_safe s s1" by (rule plan_safe_same)
  also have "plan_safe s1 (broadcast w (AgentChanged run) s1)" by (rule broadcast_plan_safe)
  also have "plan_safe (broadcast w (AgentChanged run) s1) (update_agents w runs (broadcast w (AgentChanged run) s1))"
    by (rule 2) (simp add: s1_def)
  finally show ?case by (simp add: s1_def Let_def)
qed simp

section \<open>The queue\<close>

lemma save_and_publish_plan:
  assumes "distinct (List.map (\<lambda>(t, _). t_id t) cs)" and "\<forall>(t, _) \<in> set cs. keeps_plan s t"
  shows "plan_safe s (snd (save_and_publish w cs s))"
proof -
  let ?s = "s\<lparr>rt_draws := rt_draws s + length cs\<rparr>"
  obtain r s' where sv: "with_store (save_task_changes cs None None) ?s = (r, s')" by fastforce
  then have s': "rt_tasks s' = rt_tasks s" by (auto elim: with_storeE)
  have "plan_safe s' (publish_tasks w cs s')"
    using assms s' by (intro publish_safe) (auto simp: keeps_plan_def)
  then have "plan_safe s (publish_tasks w cs s')" by (rule plan_safe_cong[rotated 2]) (simp_all add: s')
  with sv s' show ?thesis by (cases r) (auto simp: save_and_publish_def intro: plan_safe_same)
qed

lemma one_change_plan:
  assumes "tasks_ok s \<Longrightarrow> keeps_plan s t"
  shows "plan_safe s (snd (save_and_publish w [(t, a)] s))"
proof (cases "tasks_ok s")
  case True with assms show ?thesis by (intro save_and_publish_plan) auto
qed (simp add: plan_safe_def)

lemma stored_keeps:
  assumes "tasks_ok s" and "t \<in> set (hm_values (rt_tasks s))" and "t_id u = t_id t" and "t_planning u = t_planning t"
  shows "keeps_plan s u"
proof -
  have "hm_get (rt_tasks s) (t_id t) = Some t" using assms(1,2) hm.keyed_by_vals[of "rt_tasks s" t_id t] by (simp add: tasks_ok_def)
  with assms(3,4) show ?thesis by (intro keeps_planI[of _ _ t]) simp_all
qed

lemma dispatch_plan:
  assumes t: "t \<in> set (hm_values (rt_tasks s))"
  shows "plan_safe s (snd (dispatch w t s))"
proof -
  define s1 where "s1 = (if selected_agent t = None then drawn s else s)"
  have s1: "rt_tasks s1 = rt_tasks s" by (simp add: s1_def)
  have step: "plan_safe s x" if "plan_safe s1 x" for x
    by (rule plan_safe_cong[OF _ refl that]) (simp add: s1)
  have kp: "keeps_plan s1 u" if "tasks_ok s1" "t_id u = t_id t" "t_planning u = t_planning t" for u
    using stored_keeps[of s1 t u] that t s1 by simp
  have launch: "plan_safe s (snd (launch_claimed w o' u s1))" if "t_id u = t_id t" "t_planning u = t_planning t" for o' u
  proof -
    have "plan_safe s1 (snd (save_and_publish w [(dispatched w o' u, a)] s1))" for a
      by (rule one_change_plan) (rule kp, simp_all add: dispatched_def that)
    from step[OF this] show ?thesis
      by (auto simp: launch_claimed_def Let_def split: prod.split sum.split) (metis snd_conv)+
  qed
  have block: "plan_safe s (snd (case daemon_change w a u s1 of
      (Inl e, s') \<Rightarrow> (Err e, s') | (Inr _, s') \<Rightarrow> (Ok v, s')))" if "t_id u = t_id t" "t_planning u = t_planning t" for a u v
  proof -
    have "plan_safe s1 (snd (daemon_change w a u s1))"
      unfolding daemon_change_def by (rule one_change_plan) (rule kp, simp_all add: that)
    from step[OF this] show ?thesis by (auto split: prod.splits sum.splits)
  qed
  show ?thesis unfolding dispatch_def Let_def s1_def[symmetric]
    by (auto simp: launch block split: sum.split)
qed

lemma claim_plan [plan_safes]: "plan_safe s (snd (claim_board_task w p s))"
proof -
  let ?s = "reap_orphan_writers w s"
  have member: "t \<in> set (hm_values (rt_tasks ?s))" if "first_waiting ?s pid = Some t" for t pid
    by (rule first_waiting_Some(1)[OF that])
  have block: "plan_safe ?s (snd (case daemon_change w a (touch now (t\<lparr>t_last_reason := x\<rparr>)) ?s of
      (Inl e, s') \<Rightarrow> (Err e, s') | (Inr _, s') \<Rightarrow> (Ok v, s')))" if "first_waiting ?s pid = Some t" for a now t x v pid
  proof -
    have "plan_safe ?s (snd (daemon_change w a (touch now (t\<lparr>t_last_reason := x\<rparr>)) ?s))"
      unfolding daemon_change_def
      by (rule one_change_plan) (rule stored_keeps[OF _ member[OF that]], simp_all)
    then show ?thesis by (auto split: prod.splits sum.splits)
  qed
  have "plan_safe ?s (snd (claim_board_task w p s))"
    unfolding claim_board_task_def Let_def
    by (auto simp: block dispatch_plan[OF member] split: sum.split option.split)
  with reap_safe' show ?thesis by (rule plan_safe_trans)
qed

text \<open>What a queue request saves: new versions of stored tasks, each once, with their plans.\<close>

definition same_plans :: "runtime \<Rightarrow> (task \<times> task_audit) list \<Rightarrow> bool" where
  "same_plans s cs \<longleftrightarrow> distinct (List.map (\<lambda>(t, _). t_id t) cs) \<and> (\<forall>(t, _) \<in> set cs. keeps_plan s t)"

lemma same_plans_one: "same_plans s [(t, a)] \<longleftrightarrow> keeps_plan s t"
  by (simp add: same_plans_def)

lemma renumber_plans:
  assumes "renumber fresh now i base ts k = Inr cs" and "distinct (List.map t_id ts)"
    and "\<forall>t \<in> set ts. hm_get (rt_tasks s) (t_id t) = Some t"
  shows "same_plans s cs"
  using assms
proof (induction fresh now i base ts k arbitrary: cs rule: renumber.induct)
  case (2 fresh now i base t ts k)
  from 2(3) obtain pos where pos: "checked_add_u64 base (k + 1) = Some pos"
    by (auto split: option.splits)
  show ?case
  proof (cases "queue_position t \<noteq> pos \<or> t_id t = i")
    case True
    let ?u = "touch now (set_queue_position pos t)"
    from True 2(3) pos obtain cs' a where cs: "cs = (?u, a) # cs'"
      and r: "renumber (\<lambda>n. fresh (Suc n)) now i base ts (k + 1) = Inr cs'"
      by (auto simp: res_bind_Ok_iff Let_def)
    have ih: "same_plans s cs'" using 2(1)[OF pos True refl refl r] 2(4,5) by simp
    have "keeps_plan s ?u" using 2(5) by (intro keeps_planI[of _ _ t]) (simp_all add: set_queue_position_def)
    moreover have "t_id ?u \<notin> set (List.map (\<lambda>(t, _). t_id t) cs')" using renumber_ids[OF r] 2(4) by auto
    ultimately show ?thesis using ih by (simp add: same_plans_def cs)
  next
    case False
    with 2(3) pos have r: "renumber fresh now i base ts (k + 1) = Inr cs" by auto
    from 2(2)[OF pos False r] 2(4,5) show ?thesis by simp
  qed
qed (simp add: same_plans_def)

lemma detach_other_plans:
  assumes "detach_other uid now s t run ri rr = Inr cs" and "tasks_ok s"
  shows "same_plans s cs \<and> t_id t \<notin> set (List.map (\<lambda>(t, _). t_id t) cs)"
proof (cases "opt_filter (\<lambda>other. other \<noteq> t_id t) (ar_task_id run)")
  case None with assms(1) show ?thesis by (auto simp: detach_other_def same_plans_def split: if_splits)
next
  case (Some i)
  with assms(1) obtain u where u: "hm_get (rt_tasks s) i = Some u"
    and cs: "\<exists>v a. cs = [(v, a)] \<and> t_id v = t_id u \<and> t_planning v = t_planning u"
    by (auto simp: detach_other_def Let_def split: option.splits if_splits)
  have "t_id u = i" using u assms(2) by (auto simp: tasks_ok_def hm.keyed_by_def)
  moreover from Some have "i \<noteq> t_id t" by (auto simp: opt_filter_Some_iff)
  moreover from u \<open>t_id u = i\<close> have "keeps_plan s v" if "t_id v = t_id u" "t_planning v = t_planning u" for v
    using that by (intro keeps_planI[of _ _ u]) simp_all
  ultimately show ?thesis using cs by (auto simp: same_plans_one)
qed

lemma select_agent_plans:
  assumes "select_agent w s t a ri rr = Inr (cs, runs, t')" and ok: "tasks_ok s" and "hm_get (rt_tasks s) (t_id t) = Some t"
  shows "same_plans s cs"
proof -
  obtain cs0 n b where cs: "cs = cs0 @ [(n, b)]" "t_id n = t_id t" "t_planning n = t_planning t"
    and cs0: "cs0 = [] \<or> (\<exists>uid now run. detach_other uid now s t run ri rr = Inr cs0)"
    using assms(1) by (auto simp: select_agent_def select_new_agent_def Let_def res_bind_Ok_iff
      split: if_splits option.splits) blast
  have "keeps_plan s n" using cs assms(3) by (intro keeps_planI[of _ _ t]) simp_all
  moreover have "same_plans s cs0 \<and> t_id t \<notin> set (List.map (\<lambda>(t, _). t_id t) cs0)"
    using cs0
  proof
    assume "\<exists>uid now run. detach_other uid now s t run ri rr = Inr cs0"
    then obtain uid now run where "detach_other uid now s t run ri rr = Inr cs0" by blast
    then show ?thesis by (rule detach_other_plans[OF _ ok])
  qed (simp add: same_plans_def)
  ultimately show ?thesis using cs by (auto simp: same_plans_def)
qed

lemma reorder_plans:
  assumes "reorder_queue w s t before = Inr (cs, runs, t')" and ok: "tasks_ok s"
    and t: "hm_get (rt_tasks s) (t_id t) = Some t"
  shows "same_plans s cs"
proof -
  obtain order where o: "reordered s t before = Inr order"
    and r: "renumber (\<lambda>n. w_uuid w (rt_draws s + n)) (w_now w) (t_id t) (reorder_base s t) order 0 = Inr cs"
    by (rule reorder_queue_Ok[OF assms(1)])
  obtain n where n: "order = insert_at n t (pending_others s t)"
    using o by (auto simp: reordered_def Let_def res_bind_Ok_iff)
  have each: "hm_get (rt_tasks s) (t_id u) = Some u \<and> t_id u \<noteq> t_id t" if "u \<in> set (pending_others s t)" for u
    using that ok hm.keyed_by_vals[of "rt_tasks s" t_id u] by (auto simp: pending_others_def tasks_ok_def)
  have inj: "inj_on t_id (set (pending_others s t))"
  proof (rule inj_onI)
    fix u v assume "u \<in> set (pending_others s t)" "v \<in> set (pending_others s t)" "t_id u = t_id v"
    with each show "u = v" by (metis option.inject)
  qed
  have "distinct (pending_others s t)"
    using distinct_values[of "rt_tasks s"] ok by (simp add: pending_others_def tasks_ok_def)
  with inj have "distinct (List.map t_id (pending_others s t))" by (simp add: distinct_map)
  moreover have "t_id t \<notin> t_id ` set (pending_others s t)" using each by force
  ultimately have "distinct (List.map t_id order)"
    unfolding n map_insert_at distinct_insert_at set_map by simp
  moreover have "\<forall>u \<in> set order. hm_get (rt_tasks s) (t_id u) = Some u" using each t n by auto
  ultimately show ?thesis by (rule renumber_plans[OF r])
qed

lemma queue_operation_plans:
  assumes "queue_operation w s t op = Inr (cs, runs, t')" and "tasks_ok s" and "hm_get (rt_tasks s) (t_id t) = Some t"
  shows "same_plans s cs"
proof -
  have one: "same_plans s [(n, a)]" if "t_id n = t_id t" "t_planning n = t_planning t" for n a
    unfolding same_plans_one using that assms(3) by (intro keeps_planI[of _ _ t]) simp_all
  have "same_plans s cs" if "enqueue_task w s t profile = Inr (cs, runs, t')" for profile
    using that by (auto simp: enqueue_task_def enqueued_def clear_submission_def Let_def res_bind_Ok_iff
      intro!: one split: if_splits)
  moreover have "same_plans s cs" if "queue_request_changes w s t feedback = Inr (cs, runs, t')" for feedback
    using that by (auto simp: queue_request_changes_def requeued_def clear_submission_def Let_def res_bind_Ok_iff
      intro!: one dest: transition_planning transition_keeps(1))
  ultimately show ?thesis using assms select_agent_plans[OF _ assms(2,3)] reorder_plans[OF _ assms(2,3)]
    by (auto simp: queue_operation_def split: task_operation.splits task_action.splits)
qed

lemma queue_run_plan [plan_safes]: "plan_safe s (snd (queue_run w rq i rv s))"
proof (cases "tasks_ok s")
  case ok: True
  show ?thesis
  proof (cases "task_replay rq (rt_store s) = None
      \<and> (\<exists>cs. res_bind (queue_guard rq i rv s) (\<lambda>t. queue_operation w s t (rq_operation rq)) = Inr cs)")
    case True
    then obtain t cs runs t' where g: "queue_guard rq i rv s = Inr t"
      and op: "queue_operation w s t (rq_operation rq) = Inr (cs, runs, t')"
      by (auto simp: res_bind_Ok_iff)
    have "hm_get (rt_tasks s) (t_id t) = Some t"
      using queue_guard_Ok[OF g] ok by (auto simp: tasks_ok_def hm.keyed_by_def)
    note plans = queue_operation_plans[OF op ok this] and quiet = queue_operation_quiet[OF op this]
    have run: "queue_run w rq i rv s = commit_queue w rq (cs, runs, t') s"
      using True g op by (simp add: queue_run_def)
    obtain r s' where cm: "commit_queue w rq (cs, runs, t') s = (r, s')" by fastforce
    show ?thesis
    proof (cases r)
      case (Inl e)
      with cm have "rt_tasks s' = rt_tasks s" by (auto simp: commit_queue_def elim!: with_storeE split: sum.splits prod.splits)
      with run cm show ?thesis by (simp add: plan_safe_same)
    next
      case (Inr resp)
      from commit_queue_Ok(4)[OF cm[unfolded Inr] quiet]
      have "rt_tasks s' = rt_tasks (publish_tasks w cs s)" by (simp add: publish_tasks_tasks)
      moreover have "plan_safe s (publish_tasks w cs s)"
        using plans unfolding same_plans_def by (intro publish_safe) auto
      ultimately show ?thesis using run cm by (auto intro: plan_safe_cong[OF refl])
    qed
  next
    case False
    then have "snd (queue_run w rq i rv s) = s"
      by (cases "res_bind (queue_guard rq i rv s) (\<lambda>t. queue_operation w s t (rq_operation rq))")
        (auto simp: queue_run_def split: option.splits)
    then show ?thesis by simp
  qed
qed (simp add: plan_safe_def)

section \<open>Plans\<close>

lemma planning_run_plan [plan_safes]: "plan_safe s (snd (planning_run w rq i s))"
proof (cases "tasks_ok s")
  case ok: True
  then have kd: "hm_keyed t_id (rt_tasks s)" by (simp add: tasks_ok_def)
  have "tasks_ok (snd (planning_run w rq i s))"
    using kd
  proof (cases rule: planning_run_cases[where w = w and rq = rq and i = i])
    case kept with ok show ?thesis by (simp add: tasks_ok_def)
  next
    case (changed t p t' a l)
    then show ?thesis using ok by (simp add: tasks_ok_def hm.invar_ins hm.keyed_by_ins)
  qed
  with planning_run_running[OF kd] show ?thesis by (simp add: plan_safe_def)
qed (simp add: plan_safe_def)

lemma finish_plan_safe [plan_safes]: "plan_safe s (finish_task_plan w tid i r s)"
proof (cases "tasks_ok s \<and> (\<exists>old. hm_get (rt_tasks s) tid = Some old \<and> job_running i old)")
  case True
  then obtain old where ok: "tasks_ok s" and old: "hm_get (rt_tasks s) tid = Some old" "job_running i old" by blast
  then have "t_id old = tid" by (auto simp: tasks_ok_def hm.keyed_by_def)
  from finish_ended[OF old(1) this old(2), of w r] obtain t where
    t: "rt_tasks (finish_task_plan w tid i r s) = hm_insert (t_id t) t (rt_tasks s)" "\<not> plan_running t" by auto
  then show ?thesis by (intro insert_safe[OF t(1)]) (simp add: keeps_plan_def)
next
  case False
  show ?thesis
  proof (cases "tasks_ok s")
    case True
    with False have "finish_task_plan w tid i r s = s" by (intro finish_idle) blast
    then show ?thesis by simp
  qed (simp add: plan_safe_def)
qed

section \<open>Board requests\<close>

lemma board_execution_plan [plan_safes]: "plan_safe s (snd (board_execution_run w rq paused expected s))"
proof -
  have "plan_safe s (snd (case with_store f s of
      (Inl e, s') \<Rightarrow> (Err (storage_error e), s') | (Inr _, s') \<Rightarrow> (Ok x, broadcast w ev s')))"
    for f :: "store \<Rightarrow> (unit, store_error) result \<times> store" and x :: task_response and ev
  proof -
    obtain r s' where sv: "with_store f s = (r, s')" by fastforce
    then have "rt_tasks s' = rt_tasks s" by (auto elim: with_storeE)
    then have "plan_safe s s'" by (rule plan_safe_same)
    then show ?thesis using sv by (cases r) (auto intro: plan_safe_trans broadcast_plan_safe)
  qed
  then show ?thesis unfolding board_execution_run_def by (auto split: option.split sum.split)
qed

lemma board_projects_plan [plan_safes]: "plan_safe s (snd (board_projects rq members s))"
proof -
  have "rt_tasks (snd (board_projects rq members s)) = rt_tasks s"
    by (auto simp: board_projects_def elim!: with_storeE split: option.split setting_value.split sum.splits prod.splits)
  then show ?thesis by (rule plan_safe_same)
qed

lemma rebalance_plans:
  assumes "rebalance fresh now k next us = (n, cs)" and "distinct (List.map t_id us)"
    and "\<forall>u \<in> set us. t_id u \<noteq> t_id next \<longrightarrow> hm_get (rt_tasks s) (t_id u) = Some u"
  shows "same_plans s cs" "set (List.map (\<lambda>(u, _). t_id u) cs) \<subseteq> t_id ` set us - {t_id next}"
proof -
  have "same_plans s cs \<and> set (List.map (\<lambda>(u, _). t_id u) cs) \<subseteq> t_id ` set us - {t_id next}"
    using assms
  proof (induction us arbitrary: fresh k "next" n cs)
    case (Cons u us)
    from Cons.prems(1) show ?case
    proof (cases rule: rebalance_Cons)
      case moved
      from Cons.IH[OF moved(2)] Cons.prems(2,3) show ?thesis by auto
    next
      case (dealt v a cs')
      from Cons.IH[OF dealt(3)] Cons.prems(2,3)
      have ih: "same_plans s cs'" "set (List.map (\<lambda>(u, _). t_id u) cs') \<subseteq> t_id ` set us - {t_id next}" by auto
      have v: "t_id v = t_id u" "t_planning v = t_planning u" by (simp_all add: dealt(2))
      with Cons.prems(3) dealt(1) have "keeps_plan s v" by (intro keeps_planI[of _ _ u]) simp_all
      moreover have "t_id v \<notin> set (List.map (\<lambda>(u, _). t_id u) cs')" using ih(2) Cons.prems(2) v(1) by auto
      ultimately have "same_plans s cs" using ih(1) by (simp add: same_plans_def dealt(4))
      moreover have "set (List.map (\<lambda>(u, _). t_id u) cs) \<subseteq> t_id ` set (u # us) - {t_id next}"
        using ih(2) v(1) dealt(1,4) by auto
      ultimately show ?thesis ..
    qed
  qed (simp add: same_plans_def)
  then show "same_plans s cs" "set (List.map (\<lambda>(u, _). t_id u) cs) \<subseteq> t_id ` set us - {t_id next}" by blast+
qed

lemma place_card_plans:
  assumes pc: "place_card fresh now (move_siblings s t pid col) i next = (n, cs)" and ok: "tasks_ok s"
    and m: "t_id next = t_id t"
  shows "t_id n = t_id next \<and> t_planning n = t_planning next \<and> same_plans s cs
    \<and> t_id t \<notin> set (List.map (\<lambda>(u, _). t_id u) cs)"
proof (cases "saturating_add_i64 (gap_low (move_siblings s t pid col) i) 1 < gap_high (move_siblings s t pid col) i")
  case True
  with pc show ?thesis by (auto simp: place_card_def same_plans_def Let_def)
next
  case False
  let ?S = "move_siblings s t pid col"
  from False pc have r: "rebalance fresh now 0 next (insert_at i next ?S) = (n, cs)"
    by (simp add: place_card_def Let_def)
  have ok': "hm_ok (rt_tasks s)" "hm_keyed t_id (rt_tasks s)" using ok by (simp_all add: tasks_ok_def)
  have d: "distinct (List.map t_id (insert_at i next ?S))"
    unfolding map_insert_at distinct_insert_at using siblings_distinct[OF ok'] m by (auto simp: move_siblings_def)
  have g: "\<forall>u \<in> set (insert_at i next ?S). t_id u \<noteq> t_id next \<longrightarrow> hm_get (rt_tasks s) (t_id u) = Some u"
    using siblings_iff[OF ok', of _ t pid col] m by (auto simp: set_insert_at)
  obtain key where "n = next\<lparr>t_order_key := key\<rparr>" using rebalance_next[OF r] by blast
  with rebalance_plans[OF r d g] m show ?thesis by auto
qed

lemma edited_plan:
  assumes "edit_task w s op t p = Inr e" and ok: "tasks_ok s" and t: "hm_get (rt_tasks s) (t_id t) = Some t"
  shows "t_id (ed_next e) = t_id t" "t_planning (ed_next e) = t_planning t" "same_plans s (ed_others e)"
    "t_id t \<notin> set (List.map (\<lambda>(u, _). t_id u) (ed_others e))"
proof -
  let ?good = "\<lambda>e. t_id (ed_next e) = t_id t \<and> t_planning (ed_next e) = t_planning t \<and> same_plans s (ed_others e)
    \<and> t_id t \<notin> set (List.map (\<lambda>(u, _). t_id u) (ed_others e))"
  have tr: "t_id n = t_id t \<and> t_planning n = t_planning t" if "user_transition w s t a = Inr (n, au)" for a n au
    using that transition_keeps(1) transition_planning unfolding user_transition_def by blast
  have none: "same_plans s []" by (simp add: same_plans_def)
  have move: "?good e" if em: "edit_move w s t (p_id p) col before = Inr e" for col before
  proof -
    obtain "next" au i n cs where mv: "moved_card w s t col = Inr (next, au)"
      and pc: "place_card (\<lambda>n. w_uuid w (rt_draws s + 1 + n)) (w_now w) (move_siblings s t (p_id p) col) i next = (n, cs)"
      and e: "e = \<lparr>ed_next = n, ed_audit = au, ed_others = cs, ed_linked = None, ed_start = None\<rparr>"
      using edit_move_Ok[OF em] by metis
    have m: "t_id next = t_id t \<and> t_planning next = t_planning t"
      using mv tr by (auto simp: moved_card_def res_bind_Ok_iff Let_def split: if_splits)
    show ?thesis using place_card_plans[OF pc ok] m by (simp add: e)
  qed
  have "?good e"
  proof (cases "\<exists>i rv col before. op = Move i rv col before")
    case True
    then obtain i rv col before where "op = Move i rv col before" by blast
    with assms(1) have "edit_move w s t (p_id p) col before = Inr e" by (simp add: edit_task_def)
    then show ?thesis by (rule move)
  next
    case False
    with assms(1) none show ?thesis
      by (auto simp: edit_task_def edit_update_def plain_edit_def edit_link_def edit_start_def res_bind_Ok_iff Let_def
        dest: tr split: task_operation.splits if_splits option.splits)
  qed
  then show "t_id (ed_next e) = t_id t" "t_planning (ed_next e) = t_planning t" "same_plans s (ed_others e)"
    "t_id t \<notin> set (List.map (\<lambda>(u, _). t_id u) (ed_others e))" by blast+
qed

lemma planned_edit_running:
  assumes "planned_edit w t p e s = (next, l, s')" and "t_planning (ed_next e) = t_planning t"
  shows "plan_running next \<Longrightarrow> plan_running t \<or> running_plans s < 4 \<and> column t = Backlog"
proof -
  assume r: "plan_running next"
  let ?q = "queue_settled s t (ed_next e)"
  have q: "plan_running ?q = plan_running t"
    using assms(2) by (simp add: queue_settled_def plan_running_def Let_def)
  show ?thesis
  proof (cases "column t = Backlog \<and> column ?q = Todo")
    case True
    with assms(1) have "prepare_automatic_task_plan w p ?q (s\<lparr>rt_draws := rt_draws s + length (ed_others e) + 2\<rparr>) = (next, l, s')"
      by (simp add: planned_edit_def Let_def)
    from automatic_plan_card(8)[OF this r] q True show ?thesis
      by (auto simp: running_plans_def)
  next
    case False
    with assms(1) have "next = ?q" by (auto simp: planned_edit_def Let_def)
    with q r show ?thesis by simp
  qed
qed

text \<open>Publishing changes that keep their plans starts none, and leaves the other tasks alone.\<close>

lemma publish_running:
  assumes "same_plans s cs"
  shows "running_plans (publish_tasks w cs s) \<le> running_plans s"
  using assms
proof (induction w cs s rule: publish_tasks.induct)
  case (2 w t a cs s)
  let ?s = "broadcast_event w (TaskChanged t) (s\<lparr>rt_tasks := hm_insert (t_id t) t (rt_tasks s)\<rparr>)"
  have k: "keeps_plan s t" and d: "t_id t \<notin> set (List.map (\<lambda>(t, _). t_id t) cs)" and r: "same_plans s cs"
    using 2(2) by (auto simp: same_plans_def)
  have "same_plans ?s cs"
    unfolding same_plans_def
  proof (intro conjI ballI)
    fix c assume c: "c \<in> set cs"
    obtain u b where u: "c = (u, b)" by (cases c)
    with c d have "t_id u \<noteq> t_id t" by (force simp: image_iff)
    with c u r show "case c of (t, _) \<Rightarrow> keeps_plan ?s t" by (auto simp: same_plans_def keeps_plan_def hm.get_ins)
  qed (use r in \<open>simp add: same_plans_def\<close>)
  from 2(1)[OF this] have "running_plans (publish_tasks w cs ?s) \<le> running_plans ?s" .
  also have "\<dots> \<le> running_plans s" by (rule insert_running[OF k]) simp
  finally show ?case by simp
qed simp

lemma publish_others:
  assumes "i \<notin> set (List.map (\<lambda>(u, _). t_id u) cs)"
  shows "hm_get (rt_tasks (publish_tasks w cs s)) i = hm_get (rt_tasks s) i"
  using assms by (induction w cs s rule: publish_tasks.induct) (auto simp: hm.get_ins)

lemma publish_append: "publish_tasks w (cs @ ds) s = publish_tasks w ds (publish_tasks w cs s)"
  by (induction w cs s rule: publish_tasks.induct) simp_all

lemma publish_edit_safe:
  assumes cs: "same_plans s cs" "t_id n \<notin> set (List.map (\<lambda>(u, _). t_id u) cs)"
    and n: "plan_running n \<Longrightarrow> keeps_plan s n \<or> running_plans s < 4"
  shows "plan_safe s (publish_tasks w (cs @ [(n, a)]) s)"
proof -
  let ?s = "publish_tasks w cs s"
  have "plan_safe s ?s" using cs(1) by (intro publish_safe) (auto simp: same_plans_def)
  also have "plan_safe ?s (publish_tasks w [(n, a)] ?s)"
  proof (rule insert_safe[where t = n])
    have "keeps_plan ?s n" if "keeps_plan s n" using that publish_others[OF cs(2)] by (simp add: keeps_plan_def)
    moreover have "keeps_plan ?s n" if "\<not> plan_running n" using that by (simp add: keeps_plan_def)
    ultimately show "keeps_plan ?s n \<or> running_plans ?s < 4"
      using n publish_running[OF cs(1), of w] by fastforce
  qed simp
  finally show ?thesis by (simp add: publish_append)
qed

lemma edit_linked:
  assumes "edit_task w s op t p = Inr e" and "ed_linked e \<noteq> None"
  shows "column t \<noteq> Backlog" "ed_others e = []"
proof -
  have st: "column t \<noteq> Backlog" if "user_transition w s t Start = Inr x" for x
    using that by (cases x) (auto simp: user_transition_def transition_Ok_iff column_def split: if_splits)
  have mv: "ed_linked e = None" if "edit_move w s t (p_id p) col before = Inr e" for col before
    using edit_move_Ok[OF that] by (metis task_edit.simps(4))
  show "column t \<noteq> Backlog" "ed_others e = []"
    using assms by (auto simp: edit_task_def edit_update_def plain_edit_def edit_link_def edit_start_def
      res_bind_Ok_iff Let_def dest: st mv split: task_operation.splits if_splits option.splits)
qed

lemma commit_edit_plan:
  assumes "edit_task w s (rq_operation rq) t p = Inr e" and get: "hm_get (rt_tasks s) (t_id t) = Some t"
  shows "plan_safe s (snd (commit_edit w rq t p e s))"
proof (cases "tasks_ok s")
  case ok: True
  note ed = edited_plan[OF assms(1) ok get]
  obtain "next" l s1 where pl: "planned_edit w t p e s = (next, l, s1)" by (cases "planned_edit w t p e s")
  let ?cs = "ed_others e @ [(next, ed_audit e)]"
  obtain r s' where sv: "with_store (save_task_changes ?cs (Some (rq, RChanged next)) (ed_linked e)) s1 = (r, s')"
    by fastforce
  have s': "rt_tasks s' = rt_tasks s" using sv planned_edit_card(6)[OF pl] by (auto elim: with_storeE)
  have id: "t_id next = t_id t" using planned_edit_card(1)[OF pl] ed(1) by simp
  note run = planned_edit_running[OF pl ed(2)]
  have kp: "keeps_plan s next" if "plan_running t" using that get id by (simp add: keeps_plan_def)
  define s2 where "s2 = (case ed_linked e of None \<Rightarrow> s' | Some run \<Rightarrow> update_agents w [run] s')"
  have safe: "plan_safe s (publish_tasks w ?cs s2)"
  proof (cases "ed_linked e")
    case None
    then have "rt_tasks s2 = rt_tasks s" by (simp add: s2_def s')
    then have eq: "rt_tasks (publish_tasks w ?cs s2) = rt_tasks (publish_tasks w ?cs s)"
      by (simp add: publish_tasks_tasks)
    have "plan_safe s (publish_tasks w ?cs s)"
      by (rule publish_edit_safe) (use ed(3,4) id run kp in auto)
    then show ?thesis by (rule plan_safe_cong[OF refl eq])
  next
    case (Some lk)
    have link: "column t \<noteq> Backlog" "ed_others e = []" using edit_linked[OF assms(1)] Some by auto
    let ?s = "case hm_get (rt_agents s') (ar_id lk) of None \<Rightarrow> s'
       | Some r \<Rightarrow> s'\<lparr>rt_agents := hm_insert (ar_id lk) (r\<lparr>rec_run := lk\<rparr>) (rt_agents s')\<rparr>"
    have s2: "s2 = broadcast w (AgentChanged lk) ?s" by (simp add: s2_def Some Let_def)
    have eq: "rt_tasks ?s = rt_tasks s" by (simp add: s' split: option.split)
    have kept: "plans_kept s s2" unfolding s2 by (rule plans_kept_trans[OF plans_kept_same[OF eq] agent_event_kept])
    have "plan_safe s s2" unfolding s2 by (rule plan_safe_trans[OF plan_safe_same[OF eq] broadcast_plan_safe])
    also have "plan_safe s2 (publish_tasks w ?cs s2)"
      unfolding link(2) append_Nil
    proof (rule insert_safe[where t = "next"])
      have "keeps_plan s2 next" if r: "plan_running next"
      proof -
        have "plan_running t" using run[OF r] link(1) by blast
        moreover obtain u where "hm_get (rt_tasks s2) (t_id t) = Some u" "t_planning u = t_planning t"
          using kept ok get by (auto simp: plans_kept_def dest!: spec[of _ "t_id t"])
        ultimately show ?thesis by (auto simp: keeps_plan_def plan_running_def id)
      qed
      then show "keeps_plan s2 next \<or> running_plans s2 < 4" by (auto simp: keeps_plan_def)
    qed simp
    finally show ?thesis .
  qed
  show ?thesis
  proof (cases r)
    case Inl
    then show ?thesis using sv s' by (simp add: commit_edit_def pl Let_def plan_safe_same)
  next
    case Inr
    then show ?thesis using sv safe by (simp add: commit_edit_def pl Let_def s2_def)
  qed
qed (simp add: plan_safe_def)

lemma save_reply_plan:
  assumes "\<not> plan_running t"
  shows "plan_safe s (snd (save_reply w rq [(t, a)] t s))"
proof -
  obtain r s' where sv: "save_reply w rq [(t, a)] t s = (r, s')" by fastforce
  show ?thesis
  proof (cases r)
    case Inl
    with sv have "rt_tasks s' = rt_tasks s"
      by (auto simp: save_reply_def elim!: with_storeE split: prod.splits sum.splits)
    then show ?thesis by (simp add: sv plan_safe_same)
  next
    case Inr
    with sv have "rt_tasks s' = hm_insert (t_id t) t (rt_tasks s)"
      by (auto simp: save_reply_def elim!: with_storeE split: prod.splits sum.splits)
    with assms show ?thesis by (simp add: sv insert_safe keeps_plan_def)
  qed
qed

text \<open>A task can arrive with a running job only when it is taken over from another machine.\<close>

definition brings_plan :: "task_operation \<Rightarrow> bool" where
  "brings_plan op = (case op of CreateIdentified (Some inc) _ _ _ _ \<Rightarrow> plan_running inc | _ \<Rightarrow> False)"

lemma new_task_plan: "new_task i now pid d k = Inr t \<Longrightarrow> \<not> plan_running t"
  by (auto simp: new_task_def plan_running_def res_bind_Ok_iff)

lemma created_plan:
  assumes "created_task w s p draft op = Inr t" and "\<not> brings_plan op"
  shows "\<not> plan_running t"
proof -
  have pr: "plan_running (x\<lparr>t_skills := a\<rparr>) = plan_running x" "plan_running (x\<lparr>t_state := c\<rparr>) = plan_running x"
    "plan_running (x\<lparr>t_remote_pending := b\<rparr>) = plan_running x" for x a b c
    by (simp_all add: plan_running_def)
  have new: "\<not> plan_running x" if "new_task i now pid d k = Inr x" for i now pid d k x
    by (rule new_task_plan[OF that])
  have first: "\<not> plan_running x" if "(case op of CreateBacklog _ \<Rightarrow> new_backlog_task i now pid d k b
       | _ \<Rightarrow> new_task i now pid d k) = Inr x" for i now pid d k b x
    using that by (cases op) (auto simp: new_backlog_task_def res_bind_Ok_iff pr dest: new)
  have idf: "plan_running x = plan_running y" if "identified s op y = Inr x" for x y
    using that by (auto simp: identified_def plan_running_def split: task_operation.splits if_splits)
  have adp: "\<not> plan_running x" if "adopted pid draft op y = Inr (x, b)" "\<not> plan_running y" for pid x y b
    using that assms(2) by (auto simp: adopted_def brings_plan_def pr res_bind_Ok_iff
      split: task_operation.splits option.splits if_splits)
  obtain a b c k where a: "\<not> plan_running a" "identified s op a = Inr b" "adopted (p_id p) draft op b = Inr (c, k)"
    and t: "t = (if k then c else c\<lparr>t_skills := List.map (user_binding (w_now w)) (t_skills c)\<rparr>)"
    using assms(1) by (auto simp: created_task_def Let_def res_bind_Ok_iff dest!: first)
  from adp[OF a(3)] idf[OF a(2)] a(1) show ?thesis by (simp add: t pr)
qed

lemma create_run_plan:
  assumes "\<not> brings_plan (rq_operation rq)"
  shows "plan_safe s (snd (create_run w rq p draft s))"
proof (cases "created_task w s p draft (rq_operation rq)")
  case (Inr t)
  have "plan_safe (drawn s) (snd (save_reply w rq [(t, a)] t (drawn s)))" for a
    by (rule save_reply_plan[OF created_plan[OF Inr assms]])
  with Inr show ?thesis by (simp add: create_run_def)
qed (simp add: create_run_def)

lemma delete_run_plan [plan_safes]: "plan_safe s (snd (delete_run w rq t s))"
proof -
  obtain r s' where sv: "with_store (delete_draft_task t rq) s = (r, s')" by fastforce
  then have s': "rt_tasks s' = rt_tasks s" by (auto elim: with_storeE)
  let ?s = "s'\<lparr>rt_tasks := hm_remove (t_id t) (rt_tasks s')\<rparr>"
  have "length (List.filter plan_running (hm_values (hm_remove (t_id t) (rt_tasks s))))
      \<le> length (List.filter plan_running (hm_values (rt_tasks s)))"
    unfolding hm_values_def hm_remove_def AList.delete_eq
    using length_filter_le[of "\<lambda>(k, _). t_id t \<noteq> k" "List.filter (plan_running \<circ> snd) (rt_tasks s)"]
    by (simp add: filter_map conj_commute)
  then have "plan_safe s ?s"
    by (auto simp: plan_safe_def running_plans_def tasks_ok_def s' hm.invar_rem hm.keyed_by_def hm.get_rem)
  moreover have "plan_safe ?s (broadcast w ev ?s)" for ev by (rule broadcast_plan_safe)
  ultimately have "plan_safe s (broadcast w ev ?s)" for ev by (rule plan_safe_trans)
  then show ?thesis using sv s' by (cases r) (simp_all add: delete_run_def plan_safe_same)
qed

lemma task_operation_plan:
  assumes "\<not> brings_plan (rq_operation rq)"
  shows "plan_safe s (snd (task_operation_run w rq p s))"
proof (cases "tasks_ok s")
  case True
  have "plan_safe s (snd (commit_edit w rq t p e s))"
    if "request_task (p_id p) (rq_operation rq) s = Inr t" "edit_task w s (rq_operation rq) t p = Inr e" for t e
  proof (rule commit_edit_plan[OF that(2)])
    from that(1) obtain i where "hm_get (rt_tasks s) i = Some t"
      by (auto simp: request_task_def opt_filter_Some_iff res_bind_Ok_iff split: option.splits)
    with True show "hm_get (rt_tasks s) (t_id t) = Some t" by (auto simp: tasks_ok_def hm.keyed_by_def)
  qed
  then show ?thesis unfolding task_operation_run_def
    by (auto simp: create_run_plan[OF assms] delete_run_plan split: option.split sum.split task_operation.split)
qed (simp add: plan_safe_def)

lemma prepare_task_request_plan:
  assumes "\<not> brings_plan (rq_operation rq)"
  shows "plan_safe s (snd (prepare_task_request w rq s))"
proof -
  let ?s = "reap_orphan_writers w s"
  have "plan_safe ?s (snd (prepare_task_request w rq s))"
    unfolding prepare_task_request_def Let_def
    by (cases "rq_operation rq")
      (auto simp: board_projects_plan task_operation_plan[OF assms] split: option.split)
  with reap_safe' show ?thesis by (rule plan_safe_trans)
qed

end
