(* ===== verification/Board_Handoff.thy ===== *)
theory Board_Handoff
  imports Task_Requests "HOL-Library.Char_ord"
begin

text \<open>
  Handing a board task over to the SSH host of its project,
  \<open>crates/ditchd/src/remote_task_handoff.rs\<close>: what the host's runtime takes over
  (\<open>materialize_board_task\<close>) and the transfer the local runtime drives
  (\<open>prepare_remote_board_task\<close>), which journals the request it sends, reads the result back and
  only then adopts the host's version. The connection to the host is code outside this model: a
  record of functions that answer and change the host, and that may let other threads change the
  local state while the answer is awaited.
\<close>

section \<open>Capabilities\<close>

definition board_handoff_capability :: string where
  "board_handoff_capability = ''board_handoff_v2''"

definition primary_capability :: "task_operation \<Rightarrow> string" where
  "primary_capability op = (case op of
      ListReleases \<Rightarrow> ''task_releases_v1''
    | AcceptRelease _ _ \<Rightarrow> ''task_releases_v1''
    | AssignRelease _ _ \<Rightarrow> ''task_releases_v1''
    | MaterializeBoardTask _ _ \<Rightarrow> board_handoff_capability
    | RepositoryDiscovery \<Rightarrow> ''github_task_metadata_v1''
    | AttachGitHub _ _ _ \<Rightarrow> ''github_task_metadata_v1''
    | BoardExecution _ _ \<Rightarrow> ''board_execution_v1''
    | Enqueue _ _ _ \<Rightarrow> ''board_agent_resume_v1''
    | SelectAgent _ _ _ _ _ \<Rightarrow> ''board_agent_resume_v1''
    | ReorderQueue _ _ _ \<Rightarrow> ''board_queue_v1''
    | GeneratePlan _ _ _ \<Rightarrow> ''task_planning_v1''
    | CancelPlan _ _ \<Rightarrow> ''task_planning_v1''
    | UpdateDescription _ _ _ _ _ \<Rightarrow> ''task_planning_v1''
    | CreateIdentified (Some _) _ _ _ _ \<Rightarrow> ''board_workflow_v1''
    | CreateIdentified None _ _ _ _ \<Rightarrow> ''identified_tasks_v1''
    | List _ _ \<Rightarrow> ''tasks_v1''
    | Get _ \<Rightarrow> ''tasks_v1''
    | Create _ \<Rightarrow> ''tasks_v1''
    | Update _ _ _ \<Rightarrow> ''tasks_v1''
    | Move _ _ _ _ \<Rightarrow> ''tasks_v1''
    | Link _ _ _ \<Rightarrow> ''tasks_v1''
    | Delete _ _ \<Rightarrow> ''tasks_v1''
    | _ \<Rightarrow> ''acceptance_v1'')"

definition prioritizes :: "task_operation \<Rightarrow> bool" where
  "prioritizes op = (case op of
      Move _ _ Todo _ \<Rightarrow> True | Transition _ _ Prioritize \<Rightarrow> True | _ \<Rightarrow> False)"

definition remote_board_capabilities :: "task_operation \<Rightarrow> bool \<Rightarrow> bool \<Rightarrow> string list" where
  "remote_board_capabilities op pending managed = remdups_adj (sort ([primary_capability op]
     @ (if pending then [board_handoff_capability] else [])
     @ (if managed then [''coordinator_concurrency_v1''] else [])
     @ (if prioritizes op then [''task_planning_v1''] else [])))"

section \<open>Forwarded actions\<close>

text \<open>The exact action forwarded for a request is kept, because a handoff changes its revision.\<close>

definition restore_remote_board_action :: "task_request \<Rightarrow> runtime \<Rightarrow>
    (task_request option, string) result" where
  "restore_remote_board_action rq s =
     (case setting (HandoffActionKey (rq_request_id rq)) (rt_store s) of
        None \<Rightarrow> Ok None
      | Some (SvHandoffAction original forwarded) \<Rightarrow>
          if original \<noteq> rq
          then Err ''This request ID was already used for a different board action.''
          else Ok (Some forwarded)
      | Some _ \<Rightarrow> Err (''Invalid forwarded action receipt: '' @ decode_error))"

definition remote_board_admission :: "task_operation \<Rightarrow> (task_id \<times> u64) option" where
  "remote_board_admission op = (case op of
      StartTask i rv _ \<Rightarrow> Some (i, rv)
    | Enqueue i rv _ \<Rightarrow> Some (i, rv)
    | SelectAgent i rv _ _ _ \<Rightarrow> Some (i, rv)
    | GeneratePlan i rv _ \<Rightarrow> Some (i, rv)
    | Move i rv Todo _ \<Rightarrow> Some (i, rv)
    | Transition i rv Prioritize \<Rightarrow> Some (i, rv)
    | _ \<Rightarrow> None)"

definition set_remote_board_revision :: "u64 \<Rightarrow> task_operation \<Rightarrow> task_operation" where
  "set_remote_board_revision rv op = (case op of
      StartTask i _ profile \<Rightarrow> StartTask i rv profile
    | Enqueue i _ profile \<Rightarrow> Enqueue i rv profile
    | SelectAgent i _ a from from_rv \<Rightarrow> SelectAgent i rv a from from_rv
    | GeneratePlan i _ model \<Rightarrow> GeneratePlan i rv model
    | Move i _ col before \<Rightarrow> Move i rv col before
    | Transition i _ action \<Rightarrow> Transition i rv action
    | _ \<Rightarrow> op)"

section \<open>What a transfer carries\<close>

text \<open>
  The approved scope of a task: everything but bookkeeping. The identity of a source and its project
  paths are part of it.
\<close>

definition handoff_scope :: "task \<Rightarrow> task" where
  "handoff_scope t = t\<lparr>t_remote_pending := False, t_revision := 0, t_order_key := 0,
     t_created_at := 0, t_updated_at := None,
     t_planning := (t_planning t)\<lparr>pl_job := None\<rparr>,
     t_github_source := map_option (\<lambda>g. g\<lparr>gs_last_synced_at := [], gs_state := [], gs_url := [],
       gs_repository := []\<rparr>) (t_github_source t)\<rparr>"

definition transferable_board_task :: "task \<Rightarrow> bool" where
  "transferable_board_task t \<longleftrightarrow> (column t = Backlog \<or> column t = Todo)
     \<and> t_condition t = TcIdle \<and> \<not> t_archived t
     \<and> t_assigned_agent_id t = None \<and> t_execution_queue t = None
     \<and> acc_attempts (t_acceptance t) = [] \<and> acc_submissions (t_acceptance t) = []
     \<and> acc_current_submission (t_acceptance t) = None \<and> \<not> plan_running t"

section \<open>The host's side\<close>

definition task_draft_of :: "task \<Rightarrow> task_draft" where
  "task_draft_of t = \<lparr>d_issue_kind = t_issue_kind t, d_skills = t_skills t, d_title = t_title t,
     d_description = t_description t, d_acceptance_criteria = t_acceptance_criteria t,
     d_priority = t_priority t\<rparr>"

definition transfer_refused :: "task_request \<Rightarrow> task \<Rightarrow> runtime \<Rightarrow> bool" where
  "transfer_refused rq t s =
     (\<not> any_project (\<lambda>p. Some (p_id p) = rq_project_id rq \<and> p_id p = t_project_id t
          \<and> \<not> is_remote p \<and> p_archived_at p = None) s
      \<or> \<not> t_remote_pending t \<or> t_revision t = 0 \<or> 65536 < length (pl_text (t_planning t))
      \<or> \<not> transferable_board_task t
      \<or> list_ex (\<lambda>c. ac_kind c \<noteq> Human) (cfg_criteria (acc_config (t_acceptance t))))"

definition copy_changed :: "task \<Rightarrow> task option \<Rightarrow> runtime \<Rightarrow> bool" where
  "copy_changed t expected s = (let existing = hm_get (rt_tasks s) (t_id t) in
     existing \<noteq> expected
     \<or> is_some_and existing (\<lambda>u. t_project_id u \<noteq> t_project_id t
          \<or> \<not> transferable_board_task u \<or> task_live s u))"

definition materialized_task :: "task \<Rightarrow> task option \<Rightarrow> task tres" where
  "materialized_task t existing = (let t = t\<lparr>t_remote_pending := False\<rparr> in
     case existing of
       None \<Rightarrow> Ok t
     | Some u \<Rightarrow>
         if t_revision u = - 1
         then Err (TaskError InvalidInput ''Task revision limit reached'')
         else Ok (t\<lparr>t_revision := max (t_revision t) (t_revision u + 1)\<rparr>))"

definition materialize_check :: "task_request \<Rightarrow> task \<Rightarrow> task option \<Rightarrow> runtime \<Rightarrow> task tres" where
  "materialize_check rq t expected s =
     res_bind (validate_draft (task_draft_of t)) (\<lambda>_.
     if transfer_refused rq t s
     then Err (TaskError InvalidInput
       ''Only an idle Backlog or Todo task can be transferred to its SSH project.'')
     else res_bind (map_err (TaskError InvalidInput) (validate_config (acc_config (t_acceptance t)))) (\<lambda>_.
     if copy_changed t expected s
     then Err (TaskError RevisionConflict ''The SSH task changed or is already active. Refresh the board before retrying; no work was started.'')
     else materialized_task t (hm_get (rt_tasks s) (t_id t))))"

text \<open>Task and immutable receipt commit together. Neither starts an agent.\<close>

definition materialize_run :: "world \<Rightarrow> task_request \<Rightarrow> task \<Rightarrow> task option \<Rightarrow> runtime \<Rightarrow>
    task_response tres \<times> runtime" where
  "materialize_run w rq t expected s =
     (case task_replay rq (rt_store s) of Some resp \<Rightarrow> (Ok resp, s) | None \<Rightarrow>
     (case materialize_check rq t expected s of
        Inl e \<Rightarrow> (Err e, s)
      | Inr remote \<Rightarrow>
          (let change = (remote, audit (fresh_uuid w s) (w_now w) remote Daemon ''remote_materialized'' None None) in
           case with_store (save_task_changes [change] (Some (rq, RMaterialized remote)) None) (drawn s) of
             (Inl e, s') \<Rightarrow> (Err (storage_error e), s')
           | (Inr _, s') \<Rightarrow> (Ok (RMaterialized remote), publish_tasks w [change] s'))))"

definition materialize_board_task :: handler where
  "materialize_board_task w rq s = (case rq_operation rq of
      MaterializeBoardTask t expected \<Rightarrow> Some (materialize_run w rq t expected s)
    | _ \<Rightarrow> None)"

section \<open>The local side\<close>

subsection \<open>Talking to the host\<close>

text \<open>
  \<open>h_status\<close> answers with the capabilities of the host and \<open>h_send\<close> with its reply to a task request,
  \<open>None\<close> standing for a reply of another kind. Both may change the host, and the local state, since
  no lock is held while the answer is awaited.
\<close>

type_synonym 'h sys = "'h \<times> runtime"

record 'h host =
  h_status :: "'h sys \<Rightarrow> (string list option, string) result \<times> 'h sys"
  h_send :: "task_request \<Rightarrow> 'h sys \<Rightarrow> (task_response option, string) result \<times> 'h sys"

text \<open>The \<open>?\<close> operator.\<close>

definition and_then :: "('a, string) result \<times> 'h sys \<Rightarrow>
    ('a \<Rightarrow> 'h sys \<Rightarrow> ('b, string) result \<times> 'h sys) \<Rightarrow> ('b, string) result \<times> 'h sys" where
  "and_then m f = (case m of (Inl e, x) \<Rightarrow> (Err e, x) | (Inr a, x) \<Rightarrow> f a x)"

definition remote_task_reply :: "task_response option \<Rightarrow> (task_response, string) result" where
  "remote_task_reply resp = (case resp of
      Some (RError e) \<Rightarrow> Err (te_message e)
    | Some r \<Rightarrow> Ok r
    | None \<Rightarrow> Err ''The SSH runtime returned an unexpected task response. Reconnect and retry.'')"

definition send_to_host :: "'h host \<Rightarrow> task_request \<Rightarrow> 'h sys \<Rightarrow>
    (task_response option, string) result \<times> 'h sys" where
  "send_to_host host rq x = (case h_send host rq x of
      (Inl _, x') \<Rightarrow> (Err ''Waiting for SSH. Reconnect and retry; the pending task and transfer are preserved.'', x')
    | (Inr resp, x') \<Rightarrow> (Ok resp, x'))"

definition read_request :: "world \<Rightarrow> project \<Rightarrow> task_id \<Rightarrow> runtime \<Rightarrow> task_request" where
  "read_request w p i s =
     \<lparr>rq_project_id = Some (p_id p), rq_request_id = fresh_uuid w s, rq_operation = Get i\<rparr>"

definition read_remote_board_task :: "'h host \<Rightarrow> world \<Rightarrow> project \<Rightarrow> task_id \<Rightarrow> 'h sys \<Rightarrow>
    (task option, string) result \<times> 'h sys" where
  "read_remote_board_task host w p i x =
     and_then (send_to_host host (read_request w p i (snd x)) (fst x, drawn (snd x))) (\<lambda>resp x.
       (case resp of
          Some (RDetail d) \<Rightarrow> Ok (Some (td_task d))
        | _ \<Rightarrow>
            if (case resp of Some (RError e) \<Rightarrow> te_code e = NotFound | _ \<Rightarrow> False) then Ok None
            else res_bind (remote_task_reply resp)
                   (\<lambda>_. Err ''Could not inspect the SSH task before transfer.''), x))"

subsection \<open>The journal\<close>

definition new_board_handoff :: "project \<Rightarrow> task \<Rightarrow> task option \<Rightarrow> uuid \<Rightarrow> task_request" where
  "new_board_handoff p t existing i = \<lparr>rq_project_id = Some (p_id p), rq_request_id = i,
     rq_operation = MaterializeBoardTask t existing\<rparr>"

definition handoff_journal :: "task_id \<Rightarrow> runtime \<Rightarrow> (task_request option, string) result" where
  "handoff_journal tid s = (case setting (HandoffKey tid) (rt_store s) of
      None \<Rightarrow> Ok None
    | Some (SvHandoff j) \<Rightarrow> Ok j
    | Some _ \<Rightarrow> Err (''Invalid task transfer receipt: '' @ decode_error))"

definition save_journal :: "task_id \<Rightarrow> task_request \<Rightarrow> 'h sys \<Rightarrow> (task_request, string) result \<times> 'h sys" where
  "save_journal tid j x =
     (case with_store (set_setting (HandoffKey tid) (SvHandoff (Some j))) (snd x) of
        (Inl e, s') \<Rightarrow> (Err (store_message e), fst x, s')
      | (Inr _, s') \<Rightarrow> (Ok j, fst x, s'))"

text \<open>
  A first transfer inspects the host, recovers a copy only if it has the same scope, and uses the
  journal of a concurrent caller if there is one by now.
\<close>

definition begin_handoff :: "'h host \<Rightarrow> world \<Rightarrow> project \<Rightarrow> task_id \<Rightarrow> task \<Rightarrow> 'h sys \<Rightarrow>
    (task_request, string) result \<times> 'h sys" where
  "begin_handoff host w p tid t x =
     and_then (read_remote_board_task host w p tid x) (\<lambda>existing x.
       if is_some_and existing
            (\<lambda>u. \<not> transferable_board_task u \<or> handoff_scope u \<noteq> handoff_scope t)
       then (Err ''A different or active copy of this task exists on SSH. Review both copies before transferring; neither was overwritten.'', x)
       else (let j = new_board_handoff p t existing (fresh_uuid w (snd x));
                 x = (fst x, drawn (snd x))
             in case handoff_journal tid (snd x) of
                  Inl e \<Rightarrow> (Err e, x)
                | Inr (Some saved) \<Rightarrow> (Ok saved, x)
                | Inr None \<Rightarrow> save_journal tid j x))"

subsection \<open>The transfer\<close>

text \<open>A leftover journal is harmless once the task is no longer pending, so its removal may fail.\<close>

definition adopt_current :: "world \<Rightarrow> task_id \<Rightarrow> task \<Rightarrow> task \<Rightarrow> 'h sys \<Rightarrow>
    (u64, string) result \<times> 'h sys" where
  "adopt_current w tid t current x = (let s = snd x in
     if hm_get (rt_tasks s) (t_id t) \<noteq> Some t
     then (Err ''Task changed during SSH transfer. Your edits are preserved; retry to synchronize them.'', x)
     else (let change = (current, audit (fresh_uuid w s) (w_now w) current Daemon ''remote_materialized'' None None) in
       case with_store (save_task_changes [change] None None) (drawn s) of
         (Inl e, s') \<Rightarrow> (Err (store_message e), fst x, s')
       | (Inr _, s') \<Rightarrow> (Ok (t_revision current), fst x,
           snd (with_store (set_setting (HandoffKey tid) (SvHandoff None))
             (publish_tasks w [change] s')))))"

text \<open>One round sends the journalled request, reads the result back, and either adopts it or, when the
  task was edited since, journals a transfer of the newer version.\<close>

definition acknowledged :: "task \<Rightarrow> task_response option \<Rightarrow> (task, string) result" where
  "acknowledged frozen resp = res_bind (remote_task_reply resp) (\<lambda>r. case r of
      RMaterialized receipt \<Rightarrow>
        if handoff_scope receipt \<noteq> handoff_scope frozen \<or> t_remote_pending receipt
        then Err ''SSH task transfer changed approved content. No execution was authorized.''
        else Ok receipt
    | _ \<Rightarrow> Err ''SSH runtime did not acknowledge the versioned task transfer.'')"

definition confirmed :: "task \<Rightarrow> task option \<Rightarrow> (task, string) result" where
  "confirmed receipt current =
     res_bind (ok_or ''Transferred SSH task was removed. Refresh the board before retrying.'' current) (\<lambda>c.
       if \<not> transferable_board_task c \<or> handoff_scope c \<noteq> handoff_scope receipt
       then Err ''The transferred SSH task changed or is already active. Refresh before retrying; no additional agent was started.''
       else Ok c)"

definition handoff_round :: "'h host \<Rightarrow> world \<Rightarrow> project \<Rightarrow> task_id \<Rightarrow> task \<Rightarrow> task_request \<Rightarrow> 'h sys \<Rightarrow>
    (task_request + u64, string) result \<times> 'h sys" where
  "handoff_round host w p tid t j x = (case rq_operation j of
      MaterializeBoardTask frozen _ \<Rightarrow>
        if t_id frozen \<noteq> tid \<or> t_project_id frozen \<noteq> p_id p \<or> rq_project_id j \<noteq> Some (p_id p)
        then (Err ''SSH task transfer identity mismatch'', x)
        else and_then (send_to_host host j x) (\<lambda>resp x.
             and_then (acknowledged frozen resp, x) (\<lambda>receipt x.
             and_then (read_remote_board_task host w p tid x) (\<lambda>current x.
             and_then (confirmed receipt current, x) (\<lambda>current x.
               if frozen \<noteq> t
               then and_then (save_journal tid (new_board_handoff p t (Some current) (fresh_uuid w (snd x)))
                       (fst x, drawn (snd x))) (\<lambda>j x. (Ok (Inl j), x))
               else and_then (adopt_current w tid t current x) (\<lambda>rv x. (Ok (Inr rv), x))))))
    | _ \<Rightarrow> (Err ''Invalid SSH task transfer operation'', x))"

text \<open>A previous transfer is finished first, then the edits made meanwhile are applied: two rounds.\<close>

fun handoff_rounds :: "nat \<Rightarrow> 'h host \<Rightarrow> world \<Rightarrow> project \<Rightarrow> task_id \<Rightarrow> task \<Rightarrow> task_request \<Rightarrow> 'h sys \<Rightarrow>
    (u64, string) result \<times> 'h sys" where
  "handoff_rounds 0 host w p tid t j x =
     (Err ''Task changed during SSH transfer. Refresh and retry.'', x)"
| "handoff_rounds (Suc n) host w p tid t j x =
     and_then (handoff_round host w p tid t j x) (\<lambda>r x. case r of
         Inl j \<Rightarrow> handoff_rounds n host w p tid t j x
       | Inr rv \<Rightarrow> (Ok rv, x))"

definition handoff_supported :: "task \<Rightarrow> string list \<Rightarrow> bool" where
  "handoff_supported t caps = (board_handoff_capability \<in> set caps
     \<and> (t_coordinator_group t = None \<or> ''coordinator_concurrency_v1'' \<in> set caps))"

definition check_host :: "'h host \<Rightarrow> task \<Rightarrow> 'h sys \<Rightarrow> (unit, string) result \<times> 'h sys" where
  "check_host host t x = (case h_status host x of
      (Inl _, x') \<Rightarrow> (Err ''Waiting for SSH. Reconnect and retry; the task is preserved.'', x')
    | (Inr caps, x') \<Rightarrow>
        (if is_some_and caps (handoff_supported t) then Ok ()
         else Err ''Update the SSH runtime: this task requires board_handoff_v2 before it can be transferred.'', x'))"

definition transfer_board_task :: "'h host \<Rightarrow> world \<Rightarrow> project \<Rightarrow> task_id \<Rightarrow> task \<Rightarrow> 'h sys \<Rightarrow>
    (u64, string) result \<times> 'h sys" where
  "transfer_board_task host w p tid t x =
     and_then (check_host host t x) (\<lambda>_ x.
     and_then (handoff_journal tid (snd x), x) (\<lambda>journal x.
     and_then (case journal of Some j \<Rightarrow> (Ok j, x) | None \<Rightarrow> begin_handoff host w p tid t x) (\<lambda>j x.
       handoff_rounds 2 host w p tid t j x)))"

text \<open>A remote project always names its SSH host.\<close>

definition prepare_remote_board_task :: "'h host \<Rightarrow> world \<Rightarrow> project \<Rightarrow> task_id \<Rightarrow> u64 \<Rightarrow> 'h sys \<Rightarrow>
    (u64, string) result \<times> 'h sys" where
  "prepare_remote_board_task host w p tid expected x =
     (if \<not> is_remote p then (Ok expected, x)
      else (case hm_get (rt_tasks (snd x)) tid of
          None \<Rightarrow> (Err ''Task disappeared'', x)
        | Some t \<Rightarrow>
            if \<not> t_remote_pending t then (Ok expected, x)
            else if t_revision t \<noteq> expected \<or> \<not> transferable_board_task t
            then (Err ''Task changed before SSH transfer. Refresh the board and retry.'', x)
            else transfer_board_task host w p tid t x))"

end
