(* ===== verification/Handoff_Facts.thy ===== *)
theory Handoff_Facts
  imports Board_Handoff Request_Properties
begin

text \<open>
  A transfer to the SSH host keeps the approved content and starts nothing: what the host takes
  over and what the local runtime adopts.
\<close>

section \<open>The scope\<close>

lemma handoff_scope_simps [simp]:
  "handoff_scope (t\<lparr>t_remote_pending := b\<rparr>) = handoff_scope t"
  "handoff_scope (t\<lparr>t_revision := v\<rparr>) = handoff_scope t"
  by (simp_all add: handoff_scope_def)

lemma scope_id: "handoff_scope a = handoff_scope b \<Longrightarrow> t_id a = t_id b"
  by (drule arg_cong[where f = t_id]) (simp add: handoff_scope_def)

lemma transferable_simps [simp]:
  "transferable_board_task (t\<lparr>t_remote_pending := b\<rparr>) = transferable_board_task t"
  "transferable_board_task (t\<lparr>t_revision := v\<rparr>) = transferable_board_task t"
  by (simp_all add: transferable_board_task_def plan_running_def column_def)

section \<open>The host\<close>

lemma next_revision: "(a :: u64) \<noteq> - 1 \<Longrightarrow> a < a + 1"
  using inc_less_eq_triv_imp[of a] by (meson not_le)

lemma materialized_task_Ok:
  assumes "materialized_task t old = Inr r"
  shows "handoff_scope r = handoff_scope t" "\<not> t_remote_pending r" "t_id r = t_id t"
    "transferable_board_task r = transferable_board_task t" "t_revision t \<le> t_revision r"
    "old = Some u \<Longrightarrow> t_revision u < t_revision r" "old = None \<Longrightarrow> r = t\<lparr>t_remote_pending := False\<rparr>"
    "t_planning r = t_planning t"
  using assms
  by (auto simp: materialized_task_def Let_def less_max_iff_disj next_revision split: option.splits if_splits)

lemma materialize_check_Ok:
  assumes "materialize_check rq t expected s = Inr r"
  shows "\<not> transfer_refused rq t s" "\<not> copy_changed t expected s"
    "materialized_task t (hm_get (rt_tasks s) (t_id t)) = Inr r"
  using assms by (auto simp: materialize_check_def res_bind_Ok_iff split: if_splits)

lemma materialize_run_cases:
  assumes "task_replay rq (rt_store s) = None"
  obtains e s' where "materialize_run w rq t expected s = (Inl e, s')" "rt_tasks s' = rt_tasks s"
  | r a st where "materialize_check rq t expected s = Inr r"
      "with_store (save_task_agent_changes [(r, a)] (Some (rq, RMaterialized r)) []) (drawn s)
         = (Inr (), (drawn s)\<lparr>rt_store := st\<rparr>)"
      "materialize_run w rq t expected s = (Inr (RMaterialized r), publish_tasks w [(r, a)] ((drawn s)\<lparr>rt_store := st\<rparr>))"
proof (cases "materialize_check rq t expected s")
  case (Inl e)
  with assms that(1) show thesis by (simp add: materialize_run_def)
next
  case (Inr r)
  let ?a = "audit (fresh_uuid w s) (w_now w) r Daemon ''remote_materialized'' None None"
  obtain x s' where sv: "with_store (save_task_agent_changes [(r, ?a)] (Some (rq, RMaterialized r)) []) (drawn s) = (x, s')"
    by fastforce
  then obtain st where s': "s' = (drawn s)\<lparr>rt_store := st\<rparr>" by (auto elim: with_storeE)
  show thesis
  proof (cases x)
    case Inl
    with assms Inr sv s' that(1) show ?thesis by (simp add: materialize_run_def save_task_changes_alt Let_def)
  next
    case (Inr u)
    with assms \<open>materialize_check _ _ _ _ = _\<close> sv s' that(2) show ?thesis
      by (simp add: materialize_run_def save_task_changes_alt Let_def)
  qed
qed

lemma saved_receipt:
  assumes "with_store (save_task_agent_changes cs (Some (rq, resp)) ls) s = (Inr u, s')"
  shows "hm_get (db_requests (st_db (rt_store s'))) (rq_request_id rq) = Some (rq, resp)"
proof -
  from assms obtain st where st: "s' = s\<lparr>rt_store := st\<rparr>"
    and sv: "save_task_agent_changes cs (Some (rq, resp)) ls (rt_store s) = (Inr u, st)"
    by (auto elim: with_storeE)
  then have "stmt_save cs (Some (rq, resp)) ls (st_db (rt_store s)) = Inr (st_db st)"
    using in_tx_Ok[of "stmt_save cs (Some (rq, resp)) ls" "rt_store s" u] by (simp add: save_task_agent_changes_def)
  from stmt_save_Ok(3)[OF this refl] show ?thesis by (simp add: st)
qed

text \<open>A host takes a task over only in the version it was asked to replace, keeps its approved
  content, gives it a newer revision than its own, and starts nothing; a repeated request is
  answered from the receipt.\<close>

theorem materialize_takes_over:
  assumes "materialize_run w rq t expected s = (Inr resp, s')" and "task_replay rq (rt_store s) = None"
  shows "\<exists>r. resp = RMaterialized r \<and> handoff_scope r = handoff_scope t \<and> \<not> t_remote_pending r
    \<and> transferable_board_task r \<and> hm_get (rt_tasks s) (t_id t) = expected
    \<and> (\<forall>u. expected = Some u \<longrightarrow> transferable_board_task u \<and> \<not> task_live s u \<and> t_revision u < t_revision r)
    \<and> rt_tasks s' = hm_insert (t_id t) r (rt_tasks s) \<and> rt_agents s' = rt_agents s
    \<and> rt_children s' = rt_children s \<and> rt_writer_leases s' = rt_writer_leases s
    \<and> rt_controls s' = rt_controls s
    \<and> materialize_run w rq t expected s' = (Inr resp, s')"
proof -
  obtain r a st where c: "materialize_check rq t expected s = Inr r"
    and sv: "with_store (save_task_agent_changes [(r, a)] (Some (rq, RMaterialized r)) []) (drawn s)
         = (Inr (), (drawn s)\<lparr>rt_store := st\<rparr>)"
    and run: "resp = RMaterialized r" "s' = publish_tasks w [(r, a)] ((drawn s)\<lparr>rt_store := st\<rparr>)"
    using materialize_run_cases[OF assms(2), of w t expected thesis] assms(1) by auto
  note c = materialize_check_Ok[OF c]
  note r = materialized_task_Ok[OF c(3)]
  have "hm_get (rt_tasks s) (t_id t) = expected" using c(2) by (auto simp: copy_changed_def Let_def)
  moreover have "transferable_board_task t" using c(1) by (simp add: transfer_refused_def)
  moreover have "transferable_board_task u \<and> \<not> task_live s u \<and> t_revision u < t_revision r"
    if "expected = Some u" for u
    using c(2) r(6)[of u] calculation(1) that by (auto simp: copy_changed_def Let_def)
  moreover have "task_replay rq (rt_store s') = Some (RMaterialized r)"
    using saved_receipt[OF sv] by (simp add: run(2) task_replay_def replayed_def)
  ultimately show ?thesis using r(1-4) run
    by (auto simp: materialize_run_def drawn_def)
qed

section \<open>What the local runtime adopts\<close>

lemma and_then_Ok:
  "and_then m f = (Inr b, x') \<longleftrightarrow> (\<exists>a x. m = (Inr a, x) \<and> f a x = (Inr b, x'))"
  by (auto simp: and_then_def split: prod.splits sum.splits)

lemma adopt_current_Ok:
  assumes "adopt_current w tid t current x = (Inr rv, x')"
  shows "hm_get (rt_tasks (snd x)) (t_id t) = Some t" "rv = t_revision current"
    "rt_tasks (snd x') = hm_insert (t_id current) current (rt_tasks (snd x))"
    "rt_agents (snd x') = rt_agents (snd x)" "rt_children (snd x') = rt_children (snd x)"
  using assms
  by (auto simp: adopt_current_def Let_def with_store_def split: if_splits prod.splits sum.splits)

lemma handoff_round_adopts:
  assumes "handoff_round host w p tid t j x = (Inr (Inr rv), x')"
  obtains current y where "handoff_scope current = handoff_scope t" "transferable_board_task current"
    "t_id t = tid" "adopt_current w tid t current y = (Inr rv, x')"
proof -
  obtain frozen e where op: "rq_operation j = MaterializeBoardTask frozen e"
    using assms by (cases "rq_operation j") (auto simp: handoff_round_def)
  with assms have id: "t_id frozen = tid" by (auto simp: handoff_round_def split: if_splits)
  from assms op obtain resp receipt current y where
    "acknowledged frozen resp = Inr receipt" "confirmed receipt current = Inr y"
    and "\<exists>z. (if frozen \<noteq> t
               then and_then (save_journal tid (new_board_handoff p t (Some y) (fresh_uuid w (snd z)))
                       (fst z, drawn (snd z))) (\<lambda>j x. (Ok (Inl j), x))
               else and_then (adopt_current w tid t y z) (\<lambda>rv x. (Ok (Inr rv), x))) = (Inr (Inr rv), x')"
    by (auto simp: handoff_round_def and_then_Ok simp del: split_paired_Ex split: if_splits) blast+
  then show thesis using that[of y] id
    by (auto simp: acknowledged_def confirmed_def and_then_Ok res_bind_Ok_iff
      split: if_splits task_response.splits)
qed

lemma handoff_rounds_adopts:
  assumes "handoff_rounds n host w p tid t j x = (Inr rv, x')"
  obtains current y where "handoff_scope current = handoff_scope t" "transferable_board_task current"
    "t_id t = tid" "adopt_current w tid t current y = (Inr rv, x')"
  using assms
proof (induction n arbitrary: j x)
  case (Suc n)
  then obtain r y where r: "handoff_round host w p tid t j x = (Inr r, y)"
    and rest: "(case r of Inl j \<Rightarrow> handoff_rounds n host w p tid t j y | Inr rv \<Rightarrow> (Inr rv, y)) = (Inr rv, x')"
    by (auto simp: and_then_Ok)
  show ?case
  proof (cases r)
    case (Inl j') with rest Suc.IH[OF Suc.prems(1)] show ?thesis by simp
  next
    case (Inr v)
    with rest r have "handoff_round host w p tid t j x = (Inr (Inr rv), x')" by simp
    then show ?thesis by (rule handoff_round_adopts) (rule Suc.prems(1))
  qed
qed simp


end
