(* ===== verification/Handoff_Recovery.thy ===== *)
theory Handoff_Recovery
  imports Handoff_Facts
begin

text \<open>
  Replies of the SSH host may be lost: a transfer is then completed by retrying it, and the host
  ends with one version of the task. Shown for a host that runs the runtime of this library.
\<close>

section \<open>A host that runs this runtime\<close>

text \<open>
  The host serves transfers and reads; \<open>losses\<close> tells which of its replies get lost on the way. It
  has its own clock and identifiers.
\<close>

definition host_serve :: "world \<Rightarrow> task_request \<Rightarrow> runtime \<Rightarrow> task_response \<times> runtime" where
  "host_serve w rq s = (case materialize_board_task w rq s of
      Some (r, s') \<Rightarrow> (respond r, s')
    | None \<Rightarrow> (case prepare_task_request w rq s of
        (r, s') \<Rightarrow> (respond (res_bind r (\<lambda>(resp, _). Ok resp)), s')))"

definition runtime_host :: "world \<Rightarrow> string list \<Rightarrow> (runtime \<times> bool list) host" where
  "runtime_host w caps =
     \<lparr>h_status = (\<lambda>x. (Ok (Some caps), x)),
      h_send = (\<lambda>rq ((h, losses), s). case host_serve w rq h of (resp, h') \<Rightarrow>
        (if losses \<noteq> [] \<and> hd losses then Err ''acknowledgement lost'' else Ok (Some resp), (h', tl losses), s))\<rparr>"

lemma send_runtime_host:
  "send_to_host (runtime_host w caps) rq ((h, ls), s) = (case host_serve w rq h of (resp, h') \<Rightarrow>
     (if ls \<noteq> [] \<and> hd ls
      then Inl ''Waiting for SSH. Reconnect and retry; the pending task and transfer are preserved.''
      else Inr (Some resp), (h', tl ls), s))"
  by (simp add: send_to_host_def runtime_host_def split: prod.split)

text \<open>What the host of a project is: its checkout is local there, and no orphan is left to reap.\<close>

definition hosting :: "project \<Rightarrow> runtime \<Rightarrow> bool" where
  "hosting p h \<longleftrightarrow> rt_orphans h = []
     \<and> any_project (\<lambda>q. p_id q = p_id p \<and> p_archived_at q = None \<and> \<not> is_remote q) h"

lemma hosting_reap: "hosting p h \<Longrightarrow> reap_orphan_writers w h = h"
  by (simp add: hosting_def reap_orphan_writers_def exited_orphans_def)

lemma hosting_project:
  assumes "hosting p h"
  obtains q where "project_by (\<lambda>q. p_id q = p_id p \<and> p_archived_at q = None) h = Some q" "p_id q = p_id p"
proof -
  have "project_by (\<lambda>q. p_id q = p_id p \<and> p_archived_at q = None) h \<noteq> None"
    using assms by (auto simp: hosting_def any_project_def project_by_def find_None_iff list_ex_iff)
  then show thesis using that by (auto simp: project_by_def find_Some_iff)
qed

lemma host_get:
  assumes "hosting p h" and "rq_project_id rq = Some (p_id p)" and "rq_operation rq = Get i"
  shows "host_serve w rq h = (case opt_filter (\<lambda>t. t_project_id t = p_id p) (hm_get (rt_tasks h) i) of
      None \<Rightarrow> (RError (TaskError NotFound ''Task not found in this project.''), h)
    | Some t \<Rightarrow> (RDetail (load_task_detail t (rt_store h)), h))"
proof -
  obtain q where "project_by (\<lambda>q. p_id q = p_id p \<and> p_archived_at q = None) h = Some q" "p_id q = p_id p"
    by (rule hosting_project[OF assms(1)])
  then show ?thesis using assms(2,3) hosting_reap[OF assms(1)]
    by (auto simp: host_serve_def materialize_board_task_def prepare_task_request_def Let_def replayable_def
      task_operation_run_def draft_of_def request_task_def request_target_def respond_def
      split: option.splits)
qed

lemma read_runtime_host:
  assumes "hosting p h"
  shows "read_remote_board_task (runtime_host wh caps) w p i ((h, []), s) =
    (Inr (opt_filter (\<lambda>t. t_project_id t = p_id p) (hm_get (rt_tasks h) i)), (h, []), drawn s)"
  using host_get[OF assms, of "read_request w p i s" i]
  by (auto simp: read_remote_board_task_def read_request_def send_runtime_host and_then_def
    load_task_detail_def split: option.split)

section \<open>The state of a transfer\<close>

text \<open>What makes a task transferable to a host that has no copy of it yet.\<close>

definition transfer_ready :: "world \<Rightarrow> project \<Rightarrow> task \<Rightarrow> runtime \<Rightarrow> bool" where
  "transfer_ready wh p t h \<longleftrightarrow> hosting p h \<and> healthy wh h \<and> coherent h
     \<and> hm_contains (db_projects (st_db (rt_store h))) (p_id p)
     \<and> hm_get (rt_tasks h) (t_id t) = None
     \<and> t_project_id t = p_id p \<and> t_remote_pending t \<and> t_revision t \<noteq> 0 \<and> transferable_board_task t
     \<and> length (pl_text (t_planning t)) \<le> 65536 \<and> validate_draft (task_draft_of t) = Inr ()
     \<and> validate_config (acc_config (t_acceptance t)) = Inr ()
     \<and> list_all (\<lambda>c. ac_kind c = Human) (cfg_criteria (acc_config (t_acceptance t)))"

abbreviation taken_over :: "task \<Rightarrow> task" where
  "taken_over t \<equiv> t\<lparr>t_remote_pending := False\<rparr>"

text \<open>Either nothing has reached the host, or it has taken the journalled version over.\<close>

definition host_at :: "world \<Rightarrow> project \<Rightarrow> task \<Rightarrow> runtime \<Rightarrow> uuid \<Rightarrow> runtime \<Rightarrow> bool" where
  "host_at wh p t h0 i h \<longleftrightarrow> h = h0 \<or> (hosting p h
     \<and> rt_tasks h = hm_insert (t_id t) (taken_over t) (rt_tasks h0)
     \<and> hm_get (db_requests (st_db (rt_store h))) i
         = Some (new_board_handoff p t None i, RMaterialized (taken_over t)))"

definition local_at :: "world \<Rightarrow> task \<Rightarrow> runtime \<Rightarrow> runtime \<Rightarrow> bool" where
  "local_at w t s0 s \<longleftrightarrow> rt_tasks s = rt_tasks s0 \<and> hm_get (rt_tasks s0) (t_id t) = Some t
     \<and> healthy w s \<and> coherent s"

definition journalled :: "project \<Rightarrow> task \<Rightarrow> uuid option \<Rightarrow> runtime \<Rightarrow> bool" where
  "journalled p t i s \<longleftrightarrow>
     handoff_journal (t_id t) s = Inr (map_option (new_board_handoff p t None) i)"

definition transfer_at :: "world \<Rightarrow> world \<Rightarrow> project \<Rightarrow> task \<Rightarrow> runtime \<Rightarrow> runtime \<Rightarrow>
    (runtime \<times> bool list) sys \<Rightarrow> bool" where
  "transfer_at wh w p t h0 s0 x \<longleftrightarrow> local_at w t s0 (snd x)
     \<and> (journalled p t None (snd x) \<and> fst (fst x) = h0
        \<or> (\<exists>n. journalled p t (Some (w_uuid w n)) (snd x) \<and> host_at wh p t h0 (w_uuid w n) (fst (fst x))))"

definition transferred :: "task \<Rightarrow> runtime \<Rightarrow> runtime \<Rightarrow> (runtime \<times> bool list) sys \<Rightarrow> bool" where
  "transferred t h0 s0 x \<longleftrightarrow> rt_tasks (fst (fst x)) = hm_insert (t_id t) (taken_over t) (rt_tasks h0)
     \<and> rt_tasks (snd x) = hm_insert (t_id t) (taken_over t) (rt_tasks s0)"

definition losses :: "(runtime \<times> bool list) sys \<Rightarrow> nat" where
  "losses x = length (List.filter id (snd (fst x)))"

section \<open>The host serves the journalled request\<close>

lemma ready_check:
  assumes "transfer_ready wh p t h"
  shows "materialize_check (new_board_handoff p t None i) t None h = Inr (taken_over t)"
proof -
  have "any_project (\<lambda>q. Some (p_id q) = rq_project_id (new_board_handoff p t None i)
      \<and> p_id q = t_project_id t \<and> \<not> is_remote q \<and> p_archived_at q = None) h"
    using assms by (auto simp: transfer_ready_def hosting_def any_project_def new_board_handoff_def list_ex_iff)
  then have "\<not> transfer_refused (new_board_handoff p t None i) t h"
    using assms by (auto simp: transfer_ready_def transfer_refused_def list_ex_iff list_all_iff)
  moreover have "\<not> copy_changed t None h" using assms by (simp add: transfer_ready_def copy_changed_def)
  ultimately show ?thesis using assms
    by (simp add: materialize_check_def transfer_ready_def materialized_task_def map_err_def)
qed

lemma stmt_save_new:
  assumes "stored_task (t_id t) db = None" and "hm_contains (db_projects db) (t_project_id t)"
    and "au_id a \<notin> au_id ` set (db_audits db)" and "au_task_id a = t_id t"
    and "hm_get (db_requests db) (rq_request_id rq) = None"
  shows "\<exists>db'. stmt_save [(t, a)] (Some (rq, resp)) [] db = Inr db'"
proof -
  have "hm_get (db_tasks db) (t_id t) = None" using assms(1) by (simp add: stored_task_def)
  moreover have "\<forall>b \<in> set (db_audits db). au_id b \<noteq> au_id a" using assms(3) by (metis imageI)
  ultimately show ?thesis using assms(2,4,5)
    by (simp add: stmt_save_def write_change_def write_task_def write_audit_def Let_def
      hm_contains_insert insert_request_def hm_contains_def)
qed

lemma host_takes_over:
  assumes "transfer_ready wh p t h0" and "hm_get (db_requests (st_db (rt_store h0))) i = None"
    and "host_at wh p t h0 i h"
  shows "\<exists>h'. host_serve wh (new_board_handoff p t None i) h = (RMaterialized (taken_over t), h')
    \<and> host_at wh p t h0 i h' \<and> hosting p h'
    \<and> rt_tasks h' = hm_insert (t_id t) (taken_over t) (rt_tasks h0)"
proof (cases "h = h0")
  case True
  let ?rq = "new_board_handoff p t None i"
  let ?r = "taken_over t"
  let ?a = "audit (fresh_uuid wh h) (w_now wh) ?r Daemon ''remote_materialized'' None None"
  let ?db = "st_db (rt_store h)"
  have hl: "healthy wh h" "coherent h" "hosting p h" "hm_get (rt_tasks h) (t_id t) = None"
    using assms(1) True by (simp_all add: transfer_ready_def)
  then have st: "stored_task (t_id t) ?db = None" by (simp add: coherent_def)
  have id: "rq_request_id ?rq = i" by (simp add: new_board_handoff_def)
  obtain db where "stmt_save [(?r, ?a)] (Some (?rq, RMaterialized ?r)) [] ?db = Inr db"
    using stmt_save_new[of ?r ?db ?a ?rq "RMaterialized ?r"] st hl assms True
    by (auto simp: healthy_def fresh_uuid_def audit_def transfer_ready_def id)
  then have sv: "with_store (save_task_agent_changes [(?r, ?a)] (Some (?rq, RMaterialized ?r)) []) (drawn h)
      = (Inr (), (drawn h)\<lparr>rt_store := (rt_store h)\<lparr>st_db := db\<rparr>\<rparr>)"
    using hl(1) by (simp add: with_store_def save_task_agent_changes_def in_tx_healthy healthy_def)
  let ?h = "publish_tasks wh [(?r, ?a)] ((drawn h)\<lparr>rt_store := (rt_store h)\<lparr>st_db := db\<rparr>\<rparr>)"
  have rp: "task_replay ?rq (rt_store h) = None" using assms(2) True by (simp add: task_replay_def id)
  have "materialize_run wh ?rq t None h = (Inr (RMaterialized ?r), ?h)"
    using rp ready_check[OF assms(1), of i] sv True
    by (simp add: materialize_run_def save_task_changes_alt Let_def del: publish_tasks.simps)
  moreover have "rq_operation ?rq = MaterializeBoardTask t None" by (simp add: new_board_handoff_def)
  ultimately have "host_serve wh ?rq h = (RMaterialized ?r, ?h)"
    by (simp add: host_serve_def materialize_board_task_def respond_def del: publish_tasks.simps)
  moreover have "hosting p ?h" using hl(3)
    by (simp add: hosting_def any_project_def drawn_def del: publish_tasks.simps)
  moreover have "rt_tasks ?h = hm_insert (t_id t) ?r (rt_tasks h0)" using True by simp
  moreover have "hm_get (db_requests (st_db (rt_store ?h))) i = Some (?rq, RMaterialized ?r)"
    using saved_receipt[OF sv] by (simp add: id)
  ultimately show ?thesis by (auto simp: host_at_def)
next
  case False
  with assms(3) have h: "hosting p h" "rt_tasks h = hm_insert (t_id t) (taken_over t) (rt_tasks h0)"
    "hm_get (db_requests (st_db (rt_store h))) i = Some (new_board_handoff p t None i, RMaterialized (taken_over t))"
    by (simp_all add: host_at_def)
  then have "task_replay (new_board_handoff p t None i) (rt_store h) = Some (RMaterialized (taken_over t))"
    by (simp add: task_replay_def new_board_handoff_def replayed_def)
  then have "host_serve wh (new_board_handoff p t None i) h = (RMaterialized (taken_over t), h)"
    by (simp add: host_serve_def materialize_board_task_def materialize_run_def respond_def new_board_handoff_def)
  with h assms(3) show ?thesis by blast
qed

section \<open>One attempt\<close>

lemma losses_tl:
  "length (List.filter id (tl ls)) \<le> length (List.filter id ls)"
  "ls \<noteq> [] \<Longrightarrow> hd ls \<Longrightarrow> length (List.filter id (tl ls)) < length (List.filter id ls)"
  by (cases ls; auto)+

abbreviation waiting_for_ssh :: string where
  "waiting_for_ssh \<equiv> ''Waiting for SSH. Reconnect and retry; the pending task and transfer are preserved.''"

lemma read_lossy:
  assumes "hosting p h"
  shows "read_remote_board_task (runtime_host wh caps) w p i ((h, ls), s) =
    (if ls \<noteq> [] \<and> hd ls then Inl waiting_for_ssh
     else Inr (opt_filter (\<lambda>t. t_project_id t = p_id p) (hm_get (rt_tasks h) i)), (h, tl ls), drawn s)"
  using host_get[OF assms, of "read_request w p i s" i]
  by (auto simp: read_remote_board_task_def read_request_def send_runtime_host and_then_def
    load_task_detail_def split: option.split)

lemma local_at_drawn [simp]: "local_at w t s0 (drawn s) = local_at w t s0 s"
  by (simp add: local_at_def)

lemma handoff_journal_drawn [simp]: "handoff_journal i (drawn s) = handoff_journal i s"
  by (simp add: handoff_journal_def)

lemma save_journal_healthy:
  assumes "local_at w t s0 s"
  shows "\<exists>s'. save_journal tid j (x, s) = (Inr j, x, s') \<and> local_at w t s0 s'
    \<and> handoff_journal tid s' = Inr (Some j)"
proof -
  let ?st = "rt_store s"
  let ?db = "(st_db ?st)\<lparr>db_settings := hm_insert (HandoffKey tid) (SvHandoff (Some j)) (db_settings (st_db ?st))\<rparr>"
  have f: "st_faults ?st = []" using assms by (simp add: local_at_def healthy_def)
  then have sv: "with_store (set_setting (HandoffKey tid) (SvHandoff (Some j))) s
      = (Inr (), s\<lparr>rt_store := ?st\<lparr>st_db := ?db\<rparr>\<rparr>)"
    by (simp add: with_store_def set_setting_def in_tx_healthy stmt_set_setting_def)
  have "stmt_set_setting (HandoffKey tid) (SvHandoff (Some j)) (st_db ?st) = Inr ?db"
    by (simp add: stmt_set_setting_def)
  then have "db_ok ?db" using assms keepsD[OF integrity.k_setting] by (auto simp: local_at_def healthy_def)
  then have "local_at w t s0 (s\<lparr>rt_store := ?st\<lparr>st_db := ?db\<rparr>\<rparr>)"
    using assms f by (auto simp: local_at_def healthy_def coherent_def stored_task_def)
  then show ?thesis using sv
    by (simp add: save_journal_def handoff_journal_def setting_def)
qed

lemma adopt_healthy:
  assumes "local_at w t s0 s"
  shows "\<exists>s'. adopt_current w tid t (taken_over t) (x, s) = (Inr (t_revision t), x, s')
    \<and> rt_tasks s' = hm_insert (t_id t) (taken_over t) (rt_tasks s0)"
proof -
  let ?a = "audit (fresh_uuid w s) (w_now w) (taken_over t) Daemon ''remote_materialized'' None None"
  have l: "hm_get (rt_tasks s) (t_id t) = Some t" "healthy w s" "coherent s" "rt_tasks s = rt_tasks s0"
    using assms by (simp_all add: local_at_def)
  then have st: "stored_task (t_id (taken_over t)) (st_db (rt_store s)) = Some t" by (simp add: coherent_def)
  obtain db where "stmt_save [(taken_over t, ?a)] None [] (st_db (rt_store s)) = Inr db"
    using stmt_save_one[of "st_db (rt_store s)" "taken_over t" t "fresh_uuid w s" ?a] st l(2)
    by (auto simp: healthy_def fresh_uuid_def audit_def)
  then have sv: "with_store (save_task_changes [(taken_over t, ?a)] None None) (drawn s)
      = (Inr (), (drawn s)\<lparr>rt_store := (rt_store s)\<lparr>st_db := db\<rparr>\<rparr>)"
    using l(2) by (simp add: with_store_def save_task_changes_alt save_task_agent_changes_def in_tx_healthy healthy_def)
  have keep: "rt_tasks (snd (with_store f y)) = rt_tasks y" for f :: "store \<Rightarrow> (unit, store_error) result \<times> store" and y
    by (simp add: with_store_def Let_def split: prod.split)
  show ?thesis using l sv by (simp add: adopt_current_def Let_def keep)
qed

lemma round_attempt:
  assumes ready: "transfer_ready wh p t h0" and fresh: "hm_get (db_requests (st_db (rt_store h0))) i = None"
    and at: "host_at wh p t h0 i h" "local_at w t s0 s"
  shows "(\<exists>x'. handoff_round (runtime_host wh caps) w p (t_id t) t (new_board_handoff p t None i) ((h, ls), s)
        = (Inr (Inr (t_revision t)), x') \<and> transferred t h0 s0 x')
    \<or> (\<exists>e h' ls' s'. handoff_round (runtime_host wh caps) w p (t_id t) t (new_board_handoff p t None i) ((h, ls), s)
        = (Inl e, (h', ls'), s') \<and> host_at wh p t h0 i h' \<and> local_at w t s0 s'
        \<and> handoff_journal (t_id t) s' = handoff_journal (t_id t) s
        \<and> length (List.filter id ls') < length (List.filter id ls))"
proof -
  let ?host = "runtime_host wh caps"
  let ?J = "new_board_handoff p t None i"
  let ?r = "taken_over t"
  have t: "t_project_id t = p_id p" "transferable_board_task t" using ready by (simp_all add: transfer_ready_def)
  obtain h' where h': "host_serve wh ?J h = (RMaterialized ?r, h')" "host_at wh p t h0 i h'" "hosting p h'"
    "rt_tasks h' = hm_insert (t_id t) ?r (rt_tasks h0)"
    using host_takes_over[OF ready fresh at(1)] by blast
  have ack: "acknowledged t (Some (RMaterialized ?r)) = Inr ?r" by (simp add: acknowledged_def remote_task_reply_def)
  have conf: "confirmed ?r (Some ?r) = Inr ?r" using t(2) by (simp add: confirmed_def)
  have J: "rq_operation ?J = MaterializeBoardTask t None" "rq_project_id ?J = Some (p_id p)"
    by (simp_all add: new_board_handoff_def)
  note round = handoff_round_def[of ?host w p "t_id t" t ?J, unfolded J task_operation.case]
  have send: "send_to_host ?host ?J ((h, ls), s) = (if ls \<noteq> [] \<and> hd ls then Inl waiting_for_ssh
      else Inr (Some (RMaterialized ?r)), (h', tl ls), s)"
    by (simp add: send_runtime_host h'(1))
  have read: "read_remote_board_task ?host w p (t_id t) ((h', tl ls), s) =
    (if tl ls \<noteq> [] \<and> hd (tl ls) then Inl waiting_for_ssh else Inr (Some ?r), (h', tl (tl ls)), drawn s)"
    using read_lossy[OF h'(3)] t(1) by (simp add: h'(4))
  obtain s' where ad: "adopt_current w (t_id t) t ?r ((h', tl (tl ls)), drawn s) = (Inr (t_revision t), (h', tl (tl ls)), s')"
    "rt_tasks s' = hm_insert (t_id t) ?r (rt_tasks s0)"
    using adopt_healthy[of w t s0 "drawn s" "t_id t" "(h', tl (tl ls))"] at(2) by auto
  consider "ls \<noteq> [] \<and> hd ls" | "\<not> (ls \<noteq> [] \<and> hd ls)" "tl ls \<noteq> [] \<and> hd (tl ls)"
    | "\<not> (ls \<noteq> [] \<and> hd ls)" "\<not> (tl ls \<noteq> [] \<and> hd (tl ls))" by blast
  then show ?thesis
  proof cases
    case 1
    then have "handoff_round ?host w p (t_id t) t ?J ((h, ls), s) = (Inl waiting_for_ssh, (h', tl ls), s)"
      using t(1) by (simp add: round send[unfolded if_P[OF 1]] and_then_def)
    moreover have "length (List.filter id (tl ls)) < length (List.filter id ls)" using 1 losses_tl(2) by blast
    ultimately show ?thesis using h'(2) at(2) by blast
  next
    case 2
    then have "handoff_round ?host w p (t_id t) t ?J ((h, ls), s) = (Inl waiting_for_ssh, (h', tl (tl ls)), drawn s)"
      using t(1) by (simp add: round send[unfolded if_not_P[OF 2(1)]] read[unfolded if_P[OF 2(2)]] ack and_then_def)
    moreover have "length (List.filter id (tl (tl ls))) < length (List.filter id ls)"
      using losses_tl(2)[of "tl ls"] losses_tl(1)[of ls] 2(2) by linarith
    moreover have "local_at w t s0 (drawn s)" "handoff_journal (t_id t) (drawn s) = handoff_journal (t_id t) s"
      using at(2) by simp_all
    ultimately show ?thesis using h'(2) by blast
  next
    case 3
    then have "handoff_round ?host w p (t_id t) t ?J ((h, ls), s) = (Inr (Inr (t_revision t)), (h', tl (tl ls)), s')"
      using t(1) by (simp add: round send[unfolded if_not_P[OF 3(1)]] read[unfolded if_not_P[OF 3(2)]] ack conf ad and_then_def)
    then show ?thesis using h'(4) ad(2) by (auto simp: transferred_def)
  qed
qed

text \<open>An attempt completes the transfer, or fails with a reply lost and can be repeated.\<close>

definition unanswered :: "world \<Rightarrow> runtime \<Rightarrow> bool" where
  "unanswered w h \<longleftrightarrow> (\<forall>n. hm_get (db_requests (st_db (rt_store h))) (w_uuid w n) = None)"

abbreviation attempt_ends :: "world \<Rightarrow> world \<Rightarrow> project \<Rightarrow> task \<Rightarrow> runtime \<Rightarrow> runtime \<Rightarrow> nat \<Rightarrow>
    (u64, string) result \<times> (runtime \<times> bool list) sys \<Rightarrow> bool" where
  "attempt_ends wh w p t h0 s0 k res \<equiv>
     (case res of (Inr rv, x') \<Rightarrow> rv = t_revision t \<and> transferred t h0 s0 x'
      | (Inl _, x') \<Rightarrow> transfer_at wh w p t h0 s0 x' \<and> losses x' < k)"

lemma rounds_attempt:
  assumes "transfer_ready wh p t h0" and "unanswered w h0"
    and "host_at wh p t h0 (w_uuid w n) h" and "local_at w t s0 s" and "journalled p t (Some (w_uuid w n)) s"
    and "length (List.filter id ls) \<le> k"
  shows "attempt_ends wh w p t h0 s0 k
    (handoff_rounds 2 (runtime_host wh caps) w p (t_id t) t (new_board_handoff p t None (w_uuid w n)) ((h, ls), s))"
proof -
  let ?round = "handoff_round (runtime_host wh caps) w p (t_id t) t (new_board_handoff p t None (w_uuid w n)) ((h, ls), s)"
  from assms(2) have "hm_get (db_requests (st_db (rt_store h0))) (w_uuid w n) = None" by (simp add: unanswered_def)
  from round_attempt[OF assms(1) this assms(3,4), of caps ls]
  consider (served) x' where "?round = (Inr (Inr (t_revision t)), x')" "transferred t h0 s0 x'"
    | (lost) e h' ls' s' where "?round = (Inl e, (h', ls'), s')" "host_at wh p t h0 (w_uuid w n) h'" "local_at w t s0 s'"
        "handoff_journal (t_id t) s' = handoff_journal (t_id t) s"
        "length (List.filter id ls') < length (List.filter id ls)" by blast
  then show ?thesis
  proof cases
    case served
    then show ?thesis by (simp add: numeral_2_eq_2 and_then_def)
  next
    case lost
    then have "journalled p t (Some (w_uuid w n)) s'" using assms(5) by (simp add: journalled_def)
    with lost have "transfer_at wh w p t h0 s0 ((h', ls'), s')" by (auto simp: transfer_at_def)
    moreover have "losses ((h', ls'), s') < k" using lost(5) assms(6) by (simp add: losses_def)
    ultimately show ?thesis using lost(1) by (simp add: numeral_2_eq_2 and_then_def)
  qed
qed

lemma begin_attempt:
  assumes ready: "transfer_ready wh p t h0" and at: "local_at w t s0 s" "journalled p t None s"
  shows "begin_handoff (runtime_host wh caps) w p (t_id t) t ((h0, ls), s)
      = (Inl waiting_for_ssh, (h0, tl ls), drawn s) \<and> ls \<noteq> [] \<and> hd ls
    \<or> (\<exists>n s'. begin_handoff (runtime_host wh caps) w p (t_id t) t ((h0, ls), s)
        = (Inr (new_board_handoff p t None (w_uuid w n)), (h0, tl ls), s')
      \<and> local_at w t s0 s' \<and> journalled p t (Some (w_uuid w n)) s')"
proof (cases "ls \<noteq> [] \<and> hd ls")
  case True
  have h: "hosting p h0" using ready by (simp add: transfer_ready_def)
  from True show ?thesis by (simp add: begin_handoff_def read_lossy[OF h] and_then_def)
next
  case False
  have h: "hosting p h0" "hm_get (rt_tasks h0) (t_id t) = None" using ready by (simp_all add: transfer_ready_def)
  let ?s = "drawn (drawn s)"
  let ?j = "new_board_handoff p t None (fresh_uuid w (drawn s))"
  obtain s' where s': "save_journal (t_id t) ?j ((h0, tl ls), ?s) = (Inr ?j, (h0, tl ls), s')"
    "local_at w t s0 s'" "handoff_journal (t_id t) s' = Inr (Some ?j)"
    using save_journal_healthy[of w t s0 ?s "t_id t" ?j "(h0, tl ls)"] at(1) by auto
  have "handoff_journal (t_id t) ?s = Inr None" using at(2) by (simp add: journalled_def)
  with s'(1) have "begin_handoff (runtime_host wh caps) w p (t_id t) t ((h0, ls), s) = (Inr ?j, (h0, tl ls), s')"
    using h(2) by (simp add: begin_handoff_def read_lossy[OF h(1)] if_not_P[OF False] and_then_def Let_def opt_filter_def)
  with s'(2,3) show ?thesis by (auto simp: journalled_def fresh_uuid_def)
qed

lemma transfer_attempt:
  assumes ready: "transfer_ready wh p t h0" and "unanswered w h0" and "is_remote p"
    and caps: "handoff_supported t caps" and at: "transfer_at wh w p t h0 s0 x"
  shows "attempt_ends wh w p t h0 s0 (losses x)
    (prepare_remote_board_task (runtime_host wh caps) w p (t_id t) (t_revision t) x)"
proof -
  let ?host = "runtime_host wh caps"
  obtain h ls s where x: "x = ((h, ls), s)" by (metis prod.collapse)
  have l: "local_at w t s0 s" using at by (simp add: transfer_at_def x)
  have k: "losses x = length (List.filter id ls)" by (simp add: losses_def x)
  have check: "check_host ?host t y = (Inr (), y)" for y
    using caps by (simp add: check_host_def runtime_host_def)
  have "prepare_remote_board_task ?host w p (t_id t) (t_revision t) x = transfer_board_task ?host w p (t_id t) t x"
    using l ready assms(3) by (auto simp: prepare_remote_board_task_def local_at_def transfer_ready_def x)
  also have "\<dots> = and_then (handoff_journal (t_id t) s, x) (\<lambda>journal x.
     and_then (case journal of Some j \<Rightarrow> (Ok j, x) | None \<Rightarrow> begin_handoff ?host w p (t_id t) t x) (\<lambda>j x.
       handoff_rounds 2 ?host w p (t_id t) t j x))"
    using caps by (simp add: transfer_board_task_def check and_then_def x)
  finally have run: "prepare_remote_board_task ?host w p (t_id t) (t_revision t) x = \<dots>" .
  consider (first) "journalled p t None s" "h = h0"
    | (again) n where "journalled p t (Some (w_uuid w n)) s" "host_at wh p t h0 (w_uuid w n) h"
    using at by (auto simp: transfer_at_def x)
  then show ?thesis
  proof cases
    case again
    from rounds_attempt[OF ready assms(2) again(2) l again(1) order_refl, of ls caps]
    show ?thesis using again(1) unfolding run k by (simp add: journalled_def and_then_def x)
  next
    case first
    from first(1) have j: "handoff_journal (t_id t) s = Inr None" by (simp add: journalled_def)
    from begin_attempt[OF ready l first(1), of caps ls] show ?thesis
    proof (elim disjE exE conjE)
      assume b: "begin_handoff ?host w p (t_id t) t ((h0, ls), s) = (Inl waiting_for_ssh, (h0, tl ls), drawn s)"
        and lost: "ls \<noteq> []" "hd ls"
      have "transfer_at wh w p t h0 s0 ((h0, tl ls), drawn s)"
        using l first(1) by (simp add: transfer_at_def journalled_def)
      moreover have "losses ((h0, tl ls), drawn s) < losses x"
        using losses_tl(2)[OF lost] by (simp add: losses_def x)
      ultimately show ?thesis using b first(2) unfolding run unfolding k by (simp add: j and_then_def x losses_def)
    next
      fix n s' assume b: "begin_handoff ?host w p (t_id t) t ((h0, ls), s)
          = (Inr (new_board_handoff p t None (w_uuid w n)), (h0, tl ls), s')"
        and l': "local_at w t s0 s'" and j': "journalled p t (Some (w_uuid w n)) s'"
      have "host_at wh p t h0 (w_uuid w n) h0" by (simp add: host_at_def)
      from rounds_attempt[OF ready assms(2) this l' j' losses_tl(1), of ls caps]
      show ?thesis using b first(2) unfolding run k by (simp add: j and_then_def x)
    qed
  qed
qed

section \<open>Retrying\<close>

fun retry_transfer :: "nat \<Rightarrow> 'h host \<Rightarrow> world \<Rightarrow> project \<Rightarrow> task_id \<Rightarrow> u64 \<Rightarrow> 'h sys \<Rightarrow>
    (u64, string) result \<times> 'h sys" where
  "retry_transfer 0 host w p tid rv x = prepare_remote_board_task host w p tid rv x"
| "retry_transfer (Suc n) host w p tid rv x =
     (case prepare_remote_board_task host w p tid rv x of
        (Inr r, x') \<Rightarrow> (Inr r, x')
      | (Inl _, x') \<Rightarrow> retry_transfer n host w p tid rv x')"

lemma retry_completes:
  assumes "transfer_ready wh p t h0" and "unanswered w h0" and "is_remote p" and "handoff_supported t caps"
    and "transfer_at wh w p t h0 s0 x" and "losses x \<le> n"
  shows "\<exists>x'. retry_transfer n (runtime_host wh caps) w p (t_id t) (t_revision t) x = (Inr (t_revision t), x')
    \<and> transferred t h0 s0 x'"
  using assms(5,6)
proof (induction n arbitrary: x)
  case 0
  from transfer_attempt[OF assms(1-4) 0(1)] 0(2) show ?case by (auto split: prod.splits sum.splits)
next
  case (Suc n)
  obtain r x1 where r: "prepare_remote_board_task (runtime_host wh caps) w p (t_id t) (t_revision t) x = (r, x1)"
    by (metis prod.exhaust)
  from transfer_attempt[OF assms(1-4) Suc.prems(1)] r Suc.prems(2) Suc.IH[of x1] show ?case
    by (auto simp del: split_paired_Ex split: sum.splits)
qed


section \<open>A small transfer\<close>

definition pending_task :: task where
  "pending_task = sample_task\<lparr>t_id := 8, t_remote_pending := True\<rparr>"

definition remote_project :: project where
  "remote_project = sample_project\<lparr>p_execution_target := Remote 5 ''board''\<rparr>"

lemma pending_draft: "validate_draft (task_draft_of pending_task) = Inr ()"
  by (simp add: pending_task_def task_draft_of_def sample_task_def new_task_def sample_draft_def
    validate_draft_def blank_def trim_def is_whitespace_def byte_of_def is_cont_def)

lemma pending_facts [simp]:
  "t_id pending_task = 8" "t_project_id pending_task = 1" "t_remote_pending pending_task"
  "t_revision pending_task = 1" "t_release_id pending_task = None" "transferable_board_task pending_task"
  "pl_text (t_planning pending_task) = []" "t_coordinator_group pending_task = None"
  "t_acceptance pending_task = default_task_acceptance"
  using new_task_fields[OF sample_new_task]
  by (auto simp: pending_task_def transferable_board_task_def column_def plan_running_def
    default_task_acceptance_def sample_task_def new_task_def sample_draft_def
    validate_draft_def blank_def trim_def is_whitespace_def byte_of_def is_cont_def)

lemma new_task_unreleased: "new_task i now pid d k = Inr t \<Longrightarrow> t_release_id t = None"
  by (auto simp: new_task_def res_bind_Ok_iff)

lemmas sample_unreleased = new_task_unreleased[OF sample_new_task]

lemma pending_ready: "transfer_ready sample_world remote_project pending_task (sample_runtime sample_task [])"
proof -
  have "hosting remote_project (sample_runtime sample_task [])"
    by (simp add: hosting_def any_project_def remote_project_def sample_project_def is_remote_def hm_values_def)
  moreover have "healthy sample_world (sample_runtime sample_task [])" by (rule sample_healthy) (simp_all add: sample_unreleased)
  moreover have "hm_contains (db_projects (st_db (rt_store (sample_runtime sample_task [])))) (p_id remote_project)"
    by (simp add: remote_project_def hm_contains_def hm_get_def sample_store_def)
  ultimately show ?thesis
    using pending_draft by (simp add: transfer_ready_def hm_get_def default_task_acceptance_def
      default_acceptance_config_def validate_config_def default_loop_policy_def Let_def remote_project_def)
qed

lemma pending_unanswered: "unanswered sample_world (sample_runtime sample_task [])"
  by (simp add: unanswered_def hm_get_def)


theorem materialize_takes_over_witness:
  "\<exists>r s'. materialize_run sample_world (new_board_handoff remote_project pending_task None 60) pending_task None
      (sample_runtime sample_task []) = (Inr (RMaterialized r), s')
    \<and> materialize_run sample_world (new_board_handoff remote_project pending_task None 60) pending_task None s'
      = (Inr (RMaterialized r), s')"
proof -
  let ?s = "sample_runtime sample_task []"
  let ?rq = "new_board_handoff remote_project pending_task None 60"
  have fresh: "task_replay ?rq (rt_store ?s) = None" by (simp add: task_replay_def hm_get_def)
  have "hm_get (db_requests (st_db (rt_store ?s))) 60 = None" by (simp add: hm_get_def)
  from host_takes_over[OF pending_ready this] obtain h where
    "host_serve sample_world ?rq ?s = (RMaterialized (taken_over pending_task), h)"
    by (auto simp: host_at_def)
  then obtain resp where run: "materialize_run sample_world ?rq pending_task None ?s = (Inr resp, h)"
    by (cases "materialize_run sample_world ?rq pending_task None ?s")
      (auto simp: host_serve_def materialize_board_task_def new_board_handoff_def respond_def split: sum.splits)
  from materialize_takes_over[OF run fresh] run show ?thesis by blast
qed


end
