(* ===== verification/Acceptance_Evidence.thy ===== *)
theory Acceptance_Evidence
  imports Acceptance_Config
begin

text \<open>
  Evidence of an acceptance check: \<open>crates/ditchd/src/acceptance_evidence.rs\<close> and the checks of
  \<open>run_acceptance_validator\<close> and \<open>acceptance_workspace\<close> in \<open>acceptance_runtime.rs\<close>. Sensitive
  lines are removed from what is kept, paths stay inside the project, and a workspace is identified
  by a fingerprint of its snapshot and of the files the checks name. What the file system, Git and
  SHA-256 answer is the \<open>site\<close> a check looks at.
\<close>

section \<open>Decoding\<close>

text \<open>
  \<open>String::from_utf8_lossy\<close>: a maximal prefix of a character that cannot be completed becomes
  U+FFFD. \<open>utf8_head\<close> gives the bytes the first character, or such a prefix, consists of.
\<close>

definition utf8_width :: "nat \<Rightarrow> nat" where
  "utf8_width a = (if a < 128 then 1 else if 194 \<le> a \<and> a < 224 then 2
     else if 224 \<le> a \<and> a < 240 then 3 else if 240 \<le> a \<and> a < 245 then 4 else 0)"

definition second_ok :: "nat \<Rightarrow> nat \<Rightarrow> bool" where
  "second_ok a b = (if a = 224 then 160 \<le> b \<and> b < 192
     else if a = 237 then 128 \<le> b \<and> b < 160
     else if a = 240 then 144 \<le> b \<and> b < 192
     else if a = 244 then 128 \<le> b \<and> b < 144 else 128 \<le> b \<and> b < 192)"

fun utf8_head :: "string \<Rightarrow> bool \<times> nat" where
  "utf8_head [] = (True, 0)"
| "utf8_head (c # cs) = (let a = byte_of c; w = utf8_width a;
       n = (case cs of [] \<Rightarrow> 0
            | d # ds \<Rightarrow> if 2 \<le> w \<and> second_ok a (byte_of d)
                        then 1 + length (takeWhile is_cont (take (w - 2) ds)) else 0)
     in (w = n + 1, n + 1))"

definition replacement :: string where
  "replacement = [CHR 0xEF, CHR 0xBF, CHR 0xBD]"

function utf8_lossy :: "string \<Rightarrow> string" where
  "utf8_lossy [] = []"
| "utf8_lossy (c # cs) = (case utf8_head (c # cs) of (ok, n) \<Rightarrow>
     (if ok then take n (c # cs) else replacement) @ utf8_lossy (drop n (c # cs)))"
  by pat_completeness auto
termination
  by (relation "measure length") (auto simp: Let_def split: prod.splits if_splits list.splits)

function valid_utf8 :: "string \<Rightarrow> bool" where
  "valid_utf8 [] = True"
| "valid_utf8 (c # cs) = (case utf8_head (c # cs) of (ok, n) \<Rightarrow> ok \<and> valid_utf8 (drop n (c # cs)))"
  by pat_completeness auto
termination
  by (relation "measure length") (auto simp: Let_def split: prod.splits if_splits list.splits)

section \<open>Redaction\<close>

definition newline :: char where "newline = CHR 0x0A"

definition strip_cr :: "string \<Rightarrow> string" where
  "strip_cr line = (if line \<noteq> [] \<and> List.last line = CHR 0x0D then butlast line else line)"

definition str_lines :: "string \<Rightarrow> string list" where
  \<comment> \<open>\<open>str::lines\<close>: a final line without newline is a line, and keeps its carriage return\<close>
  "str_lines s = (let ps = split_byte newline s in
     List.map strip_cr (butlast ps) @ (if List.last ps = [] then [] else [List.last ps]))"

definition sensitive_markers :: "string list" where
  "sensitive_markers = [''sk-'', ''ghp_'', ''github_pat_'', ''authorization:'', ''bearer'',
     ''privatekey'', ''password='', ''password:'', ''api_key'', ''api-key'', ''access_token'',
     ''secret='', ''secret:'', ''token='']"

definition squeezed :: "string \<Rightarrow> string" where
  "squeezed line = List.filter (\<lambda>c. c \<notin> {CHR 0x22, CHR 0x27, CHR '' '', CHR 0x09})
     (List.map to_ascii_lower line)"

definition sensitive :: "string \<Rightarrow> bool" where
  "sensitive line = list_ex (contains (squeezed line)) sensitive_markers"

definition redacted_line :: "string \<Rightarrow> string" where
  "redacted_line line = (if sensitive line then ''[sensitive line redacted]'' else line)"

text \<open>\<open>str::replace\<close> of a nonempty pattern: matches do not overlap.\<close>

function replace_all :: "string \<Rightarrow> string \<Rightarrow> string \<Rightarrow> string" where
  "replace_all p r [] = []"
| "replace_all p r (c # s) =
     (if p \<noteq> [] \<and> starts_with (c # s) p then r @ replace_all p r (drop (length p - 1) s)
      else c # replace_all p r s)"
  by pat_completeness auto
termination by (relation "measure (\<lambda>(p, r, s). length s)") auto

definition control_char :: "string \<Rightarrow> bool" where
  \<comment> \<open>\<open>char::is_control\<close> of one UTF-8 encoded character\<close>
  "control_char c = (case List.map byte_of c of
      [a] \<Rightarrow> a < 32 \<or> a = 127
    | [a, b] \<Rightarrow> a = 194 \<and> 128 \<le> b \<and> b < 160
    | _ \<Rightarrow> False)"

definition kept_char :: "string \<Rightarrow> bool" where
  "kept_char c \<longleftrightarrow> \<not> control_char c \<or> c = [newline] \<or> c = [CHR 0x09]"

text \<open>
  The daemon's environment variables, and the encoders and decoders of libraries: \<open>he_upper\<close> is
  \<open>str::to_uppercase\<close>, \<open>he_json_len\<close> the length of the JSON text of a task's acceptance data,
  \<open>he_show_kind\<close> the debug text of a criterion, \<open>he_criteria_json\<close> and \<open>he_source_json\<close> the JSON texts
  of a prompt, \<open>he_report\<close> the decoder of an execution report.
\<close>

record host_env =
  he_vars :: "(string \<times> string) list"
  he_upper :: "string \<Rightarrow> string"
  he_json_len :: "task_acceptance \<Rightarrow> nat"
  he_show_kind :: "criterion_kind \<Rightarrow> string"
  he_criteria_json :: "acceptance_criterion list \<Rightarrow> string"
  he_source_json :: "task_issue_kind \<Rightarrow> github_task_source option \<Rightarrow> string"
  he_report :: "string \<Rightarrow> execution_report option"

definition secret_values :: "host_env \<Rightarrow> string list" where
  "secret_values h = List.map snd (List.filter (\<lambda>(name, v). 8 \<le> length v
     \<and> list_ex (contains (he_upper h name)) [''TOKEN'', ''SECRET'', ''PASSWORD'', ''API_KEY''])
     (he_vars h))"

definition redact :: "host_env \<Rightarrow> string \<Rightarrow> string" where
  "redact h value = (let
      text = join [newline] (List.map redacted_line (str_lines value));
      text = fold (\<lambda>v. replace_all v ''[redacted]'') (secret_values h) text
    in concat (List.filter kept_char (utf8_chars text)))"

section \<open>Files of a project\<close>

record site =
  si_canonical :: "path \<Rightarrow> (path, string) result"
  si_exists :: "path \<Rightarrow> bool"
  si_is_file :: "path \<Rightarrow> bool"
  si_symlink :: "path \<Rightarrow> bool"
  si_scoped :: "string \<Rightarrow> (string, string) result" \<comment> \<open>\<open>read_scoped_file\<close>, up to 1 MiB\<close>
  si_bounded :: "path \<Rightarrow> (string, string) result" \<comment> \<open>\<open>skill_files::read_bounded\<close>, up to 1 MiB\<close>
  si_capture :: "(workspace_evidence, string) result"
  si_diff :: "(string, string) result" \<comment> \<open>the bytes of \<open>git diff HEAD\<close>\<close>
  si_digest :: "string \<Rightarrow> string" \<comment> \<open>SHA-256 in hexadecimal\<close>

definition path_names :: "path \<Rightarrow> string list" where
  "path_names p = List.map_filter (\<lambda>c. case c of NormalDir n \<Rightarrow> Some n | _ \<Rightarrow> None) (path_pieces p)"

definition path_of :: "string list \<Rightarrow> path" where
  "path_of names = CHR ''/'' # join ''/'' names"

definition join_path :: "path \<Rightarrow> string \<Rightarrow> path" where
  "join_path dir p = (if dir \<noteq> [] \<and> List.last dir = CHR ''/'' then dir @ p else dir @ ''/'' @ p)"

text \<open>The path itself, then its ancestors up to the root of the file system.\<close>

definition candidates :: "path \<Rightarrow> string \<Rightarrow> path list" where
  "candidates dir p = (let names = path_names dir @ path_names p in
     join_path dir p # List.map (\<lambda>n. path_of (take n names)) (List.rev [0..<length names]))"

definition escapes_message :: string where
  "escapes_message = ''Validator path escapes the canonical project''"

definition contained :: "site \<Rightarrow> path \<Rightarrow> string \<Rightarrow> (path, string) result" where
  "contained si dir p = res_bind (relative_check_path p) (\<lambda>_.
     res_bind (si_canonical si dir) (\<lambda>dir.
     res_bind (ok_or ''Missing parent'' (find (si_exists si) (candidates dir p))) (\<lambda>existing.
     res_bind (si_canonical si existing) (\<lambda>resolved.
       if take (length (path_pieces dir)) (path_pieces resolved) \<noteq> path_pieces dir
       then Err escapes_message
       else if list_ex (\<lambda>n. si_symlink si (path_of (path_names dir @ take n (path_names p))))
                 [1..<Suc (length (path_names p))]
       then Err ''Validator paths cannot traverse symlinks''
       else Ok (join_path dir p)))))"

definition file_check :: "site \<Rightarrow> path \<Rightarrow> string \<Rightarrow> file_predicate \<Rightarrow> (bool, string) result" where
  "file_check si dir p predicate = res_bind (contained si dir p) (\<lambda>resolved.
     let content = res_bind (si_scoped si p) (\<lambda>bytes.
           if valid_utf8 bytes then Ok bytes else Err ''File predicate requires UTF-8'') in
     case predicate of
       Exists \<Rightarrow> Ok (si_is_file si resolved)
     | Absent \<Rightarrow> Ok (\<not> si_exists si resolved)
     | Contains v \<Rightarrow> res_bind content (\<lambda>s. Ok (contains s v))
     | NotContains v \<Rightarrow> res_bind content (\<lambda>s. Ok (\<not> contains s v)))"

section \<open>The workspace\<close>

text \<open>What the checked files add to the digest of the snapshot.\<close>

fun criteria_bytes :: "site \<Rightarrow> path \<Rightarrow> acceptance_criterion list \<Rightarrow> (string, string) result" where
  "criteria_bytes si dir [] = Ok []"
| "criteria_bytes si dir (c # cs) = (case ac_kind c of
      File p _ \<Rightarrow> res_bind (contained si dir p) (\<lambda>file.
        res_bind (if si_exists si file then si_bounded si file else Ok ''absent'') (\<lambda>bytes.
        res_bind (criteria_bytes si dir cs) (\<lambda>more. Ok (p @ bytes @ more))))
    | _ \<Rightarrow> criteria_bytes si dir cs)"

definition acceptance_workspace :: "site \<Rightarrow> path \<Rightarrow> acceptance_config \<Rightarrow>
    (workspace_evidence, string) result" where
  "acceptance_workspace si dir cfg = res_bind (si_capture si) (\<lambda>e.
     res_bind (criteria_bytes si dir (cfg_criteria cfg)) (\<lambda>bytes.
       Ok (e\<lparr>we_fingerprint := si_digest si (we_fingerprint e @ bytes)\<rparr>)))"

text \<open>\<open>p.get(3..).unwrap_or(p)\<close>: a status line without its two letters and blank.\<close>

definition status_path :: "string \<Rightarrow> string" where
  "status_path p = (if length p < 3 \<or> (3 < length p \<and> is_cont (p ! 3)) then p else drop 3 p)"

definition git_check :: "git_predicate \<Rightarrow> workspace_evidence \<Rightarrow> (bool, string) result" where
  "git_check predicate e =
     (if we_head e = None then Err ''Git validator requires a committed Git workspace''
      else Ok (case predicate of
          Clean \<Rightarrow> we_dirty_paths e = []
        | Dirty \<Rightarrow> we_dirty_paths e \<noteq> []
        | MaxDiffBytes n \<Rightarrow> we_diff_bytes e \<le> n
        | ChangedPath path \<Rightarrow> list_ex (\<lambda>p. status_path p = path) (we_dirty_paths e)
        | ForbiddenPath path \<Rightarrow> \<not> list_ex (\<lambda>p. status_path p = path
              \<or> starts_with (status_path p) (path @ ''/'')) (we_dirty_paths e)))"

end
