(* ===== verification/Acceptance_Runtime.thy ===== *)
theory Acceptance_Runtime
  imports Acceptance_Evidence Task_Requests
begin

text \<open>
  The bounded acceptance engine, \<open>crates/ditchd/src/acceptance_runtime.rs\<close>: how attempts are recorded,
  how a loop is blocked, the requests on acceptance and review, the start and end of a loop, and
  releases. The loop itself is in \<open>Acceptance_Cycle\<close>.

  Where the source gives the lock back in the middle of a request, \<open>others\<close> is what other threads do
  meanwhile; workspaces are read through a \<open>site\<close>.
\<close>

section \<open>Attempts\<close>

definition history_limit_message :: string where
  "history_limit_message = ''Acceptance evidence history exceeds 768 KiB. Create a follow-up task or narrow the workspace evidence.''"

definition acceptance_save :: "world \<Rightarrow> host_env \<Rightarrow> task \<Rightarrow> string \<Rightarrow> runtime \<Rightarrow>
    (task, string) result \<times> runtime" where
  "acceptance_save w h t0 action s =
     (if 768 * 1024 < he_json_len h (t_acceptance t0) then (Err history_limit_message, s)
      else (let t = touch (w_now w) t0;
                au = audit (fresh_uuid w s) (w_now w) t Daemon action (Some (column t)) (t_last_reason t)
        in case save_and_publish w [(t, au)] s of
             (Inl e, s') \<Rightarrow> (Err e, s') | (Inr _, s') \<Rightarrow> (Ok t, s')))"

definition merged_attempt :: "task_attempt \<Rightarrow> task_attempt \<Rightarrow> task_attempt" where
  "merged_attempt old a = a\<lparr>
     ta_provider_usage := opt_or (ta_provider_usage a) (ta_provider_usage old),
     ta_approvals := fold (\<lambda>x xs. if x \<in> set xs then xs else xs @ [x]) (ta_approvals old) (ta_approvals a)\<rparr>"

text \<open>An attempt that has ended is never changed again.\<close>

fun put_attempt :: "task_attempt \<Rightarrow> task_attempt list \<Rightarrow> (task_attempt list, string) result" where
  "put_attempt a [] = Ok [a]"
| "put_attempt a (old # xs) =
     (if ta_id old = ta_id a
      then (if result_active (ta_result old) then Ok (merged_attempt old a # xs)
            else Err ''Attempt is already terminal'')
      else res_bind (put_attempt a xs) (\<lambda>ys. Ok (old # ys)))"

definition attempt_condition :: "task_attempt list \<Rightarrow> task_condition \<Rightarrow> task_condition" where
  "attempt_condition as c = (if as = [] then c else
     (case ta_result (List.last as) of ArQueued \<Rightarrow> TcQueued | ArWorking \<Rightarrow> TcRunning
        | ArValidating \<Rightarrow> TcRunning | _ \<Rightarrow> c))"

definition attempt_update :: "world \<Rightarrow> host_env \<Rightarrow> task_id \<Rightarrow> task_attempt \<Rightarrow> runtime \<Rightarrow>
    (unit, string) result \<times> runtime" where
  "attempt_update w h tid a s = (case hm_get (rt_tasks s) tid of
      None \<Rightarrow> (Err ''Task disappeared'', s)
    | Some t \<Rightarrow>
        (case put_attempt a (acc_attempts (t_acceptance t)) of
           Inl e \<Rightarrow> (Err e, s)
         | Inr as \<Rightarrow> (let t = t\<lparr>t_acceptance := (t_acceptance t)\<lparr>acc_attempts := as\<rparr>,
                             t_condition := attempt_condition as (t_condition t)\<rparr>
             in case acceptance_save w h t ''attempt_evidence'' s of
                  (Inl e, s') \<Rightarrow> (Err e, s') | (Inr _, s') \<Rightarrow> (Ok (), s'))))"

section \<open>Blocking\<close>

definition final_summary :: "host_env \<Rightarrow> agent_record \<Rightarrow> string option" where
  "final_summary h r = map_option (\<lambda>m. take_chars 16000 (redact h (cm_text m))) (final_message r)"

definition observed_attempt :: "host_env \<Rightarrow> agent_record \<Rightarrow> task_attempt \<Rightarrow> task_attempt" where
  "observed_attempt h r a = a\<lparr>ta_thread_id := ar_native_session_id (rec_run r),
     ta_execution_profile := ar_execution_profile (rec_run r),
     ta_summary := (case ta_summary a of None \<Rightarrow> final_summary h r | Some x \<Rightarrow> Some x)\<rparr>"

definition closed_attempt :: "world \<Rightarrow> host_env \<Rightarrow> agent_record option \<Rightarrow> string \<Rightarrow> string \<Rightarrow>
    task_attempt \<Rightarrow> task_attempt" where
  "closed_attempt w h record code message a =
     (if \<not> result_active (ta_result a) then a
      else (case record of None \<Rightarrow> a | Some r \<Rightarrow> observed_attempt h r a)\<lparr>
             ta_result := (if code = ''cancelled'' then ArCancelled else ArBlocked),
             ta_ended_at := Some (w_now w),
             ta_failure := Some \<lparr>af_code = code, af_message = message\<rparr>\<rparr>)"

definition blocked_task :: "world \<Rightarrow> host_env \<Rightarrow> string \<Rightarrow> string \<Rightarrow> runtime \<Rightarrow> task \<Rightarrow> task" where
  "blocked_task w h code message s t = (let
      record = Option.bind (t_assigned_agent_id t) (hm_get (rt_agents s))
    in t\<lparr>t_condition := TcBlocked, t_state := TsRunning, t_last_reason := Some (code @ '': '' @ message),
         t_assigned_agent_id := (if t_execution_queue t \<noteq> None \<and> record = None then None
                                 else t_assigned_agent_id t),
         t_acceptance := (t_acceptance t)\<lparr>acc_current_submission := None,
           acc_attempts := List.map (closed_attempt w h record code message)
             (acc_attempts (t_acceptance t))\<rparr>\<rparr>)"

definition acceptance_block :: "world \<Rightarrow> host_env \<Rightarrow> task_id \<Rightarrow> string \<Rightarrow> string \<Rightarrow> runtime \<Rightarrow> runtime" where
  "acceptance_block w h tid code message s = (case hm_get (rt_tasks s) tid of
      None \<Rightarrow> s
    | Some t \<Rightarrow> (case acceptance_save w h (blocked_task w h code message s t) code s of
          (Inl _, s') \<Rightarrow> s' | (Inr t', s') \<Rightarrow> task_attention w t' s'))"

section \<open>Presets\<close>

text \<open>A \<open>BTreeMap\<close> is its entries in the order of their names' bytes.\<close>

fun byte_less :: "string \<Rightarrow> string \<Rightarrow> bool" where
  "byte_less _ [] = False"
| "byte_less [] (_ # _) = True"
| "byte_less (x # xs) (y # ys) = (byte_of x < byte_of y \<or> (x = y \<and> byte_less xs ys))"

fun bt_insert :: "string \<Rightarrow> 'v \<Rightarrow> (string \<times> 'v) list \<Rightarrow> (string \<times> 'v) list" where
  "bt_insert k v [] = [(k, v)]"
| "bt_insert k v ((k', v') # m) =
     (if k = k' then (k, v) # m else if byte_less k k' then (k, v) # (k', v') # m
      else (k', v') # bt_insert k v m)"

definition acceptance_presets :: "project_id \<Rightarrow> runtime \<Rightarrow> ((string \<times> command_check) list, string) result"
where
  "acceptance_presets pid s = (case setting (PresetsKey pid) (rt_store s) of
      None \<Rightarrow> Ok []
    | Some (SvPresets ps) \<Rightarrow> Ok ps
    | Some _ \<Rightarrow> Err decode_error)"

definition approve_preset :: "task_request \<Rightarrow> site \<Rightarrow> project \<Rightarrow> string \<Rightarrow> command_check \<Rightarrow> runtime \<Rightarrow>
    (task_response, string) result \<times> runtime" where
  "approve_preset rq si p name c s =
     (case validate_command c of Inl e \<Rightarrow> (Err e, s) | Inr _ \<Rightarrow>
      if name = [] \<or> 128 < length name then (Err ''Invalid preset name'', s)
      else (case contained si (p_root p) (cc_cwd c) of Inl e \<Rightarrow> (Err e, s) | Inr _ \<Rightarrow>
      (case acceptance_presets (p_id p) s of Inl e \<Rightarrow> (Err e, s) | Inr ps \<Rightarrow>
      if 32 \<le> length ps \<and> map_of ps name = None then (Err ''Preset limit reached'', s)
      else (let ps = bt_insert name c ps in
        case with_store (set_task_setting_receipt (PresetsKey (p_id p)) (SvPresets ps) rq (RTestPresets ps)) s of
          (Inl e, s') \<Rightarrow> (Err (store_message e), s')
        | (Inr _, s') \<Rightarrow> (Ok (RTestPresets ps), s')))))"

section \<open>Starting and ending a loop\<close>

record loop_thread =
  lt_task :: task
  lt_project :: project
  lt_owner :: agent_id
  lt_profile :: agent_execution_profile
  lt_validation_only :: bool

definition loop_profile :: "task \<Rightarrow> agent_execution_profile \<Rightarrow> agent_execution_profile" where
  "loop_profile t profile = profile\<lparr>ep_transport := AppServer, ep_skills := t_skills t\<rparr>"

text \<open>\<open>others\<close> acts between the reservation of the workspace and the registration of the loop.\<close>

definition begin_acceptance :: "world \<Rightarrow> host_env \<Rightarrow> (runtime \<Rightarrow> runtime) \<Rightarrow> task \<Rightarrow> project \<Rightarrow>
    agent_execution_profile \<Rightarrow> bool \<Rightarrow> runtime \<Rightarrow> (task_response \<times> loop_thread option) \<times> runtime" where
  "begin_acceptance w h others t p profile0 validation_only s0 = (let
      profile = loop_profile t profile0;
      owner = unwrap_or (fresh_uuid w s0) (t_assigned_agent_id t);
      s = (if t_assigned_agent_id t = None then drawn s0 else s0)
    in case acquire w owner p profile s of
         (Inl e, s') \<Rightarrow> ((RError (TaskError WorkspaceBusy e), None),
                        acceptance_block w h (t_id t) ''workspace_busy'' e (others s'))
       | (Inr g, s') \<Rightarrow> (let s' = others s' in
           if hm_contains (rt_controls s') (t_id t)
           then ((RError (TaskError AgentBusy ''Loop already active''), None), drop_guard w g s')
           else ((RChanged t, Some \<lparr>lt_task = t, lt_project = p, lt_owner = owner, lt_profile = profile,
                    lt_validation_only = validation_only\<rparr>),
             s'\<lparr>rt_acceptance_owners := hs_insert owner (rt_acceptance_owners s'),
               rt_controls := hm_insert (t_id t) \<lparr>co_owner = owner, co_cancelled = False\<rparr>
                 (rt_controls s')\<rparr>)))"

text \<open>What the loop's thread does once the cycle has returned.\<close>

definition end_acceptance :: "world \<Rightarrow> task_id \<Rightarrow> runtime \<Rightarrow> runtime" where
  "end_acceptance w tid s = (case hm_get (rt_controls s) tid of
      None \<Rightarrow> s
    | Some c \<Rightarrow> release_writer w (co_owner c)
        (s\<lparr>rt_controls := hm_remove tid (rt_controls s),
          rt_acceptance_owners := hs_remove (co_owner c) (rt_acceptance_owners s)\<rparr>))"

section \<open>Requests on acceptance and review\<close>

definition acceptance_special :: "task_operation \<Rightarrow> bool" where
  "acceptance_special op = (case op of
      ConfigureAcceptance _ _ _ _ \<Rightarrow> True
    | ApproveTestPreset _ _ \<Rightarrow> True
    | TestPresets \<Rightarrow> True
    | ReviewDiff _ _ \<Rightarrow> True
    | Revalidate _ _ \<Rightarrow> True
    | CancelLoop _ _ \<Rightarrow> True
    | Transition _ _ Accept \<Rightarrow> True
    | Transition _ _ (Submit _) \<Rightarrow> True
    | Transition _ _ (RequestChanges _) \<Rightarrow> True
    | _ \<Rightarrow> False)"

definition acceptance_target :: "task_operation \<Rightarrow> (task_id \<times> u64 option) option" where
  "acceptance_target op = (case op of
      ConfigureAcceptance i rv _ _ \<Rightarrow> Some (i, Some rv)
    | Revalidate i rv \<Rightarrow> Some (i, Some rv)
    | CancelLoop i rv \<Rightarrow> Some (i, Some rv)
    | Transition i rv _ \<Rightarrow> Some (i, Some rv)
    | ReviewDiff i _ \<Rightarrow> Some (i, None)
    | _ \<Rightarrow> None)"

definition project_by_id :: "project_id \<Rightarrow> runtime \<Rightarrow> project option" where
  "project_by_id pid s = project_by (\<lambda>p. p_id p = pid) s"

subsection \<open>Cancelling\<close>

text \<open>
  The request is durable before the loop is told; then the loop's agent is stopped, \<open>stop\<close>, with the
  lock given back. \<open>None\<close> is the panic on a task that has disappeared.
\<close>

definition cancelled_task :: "world \<Rightarrow> task \<Rightarrow> task" where
  "cancelled_task w t = (touch (w_now w) t)\<lparr>t_last_reason := Some ''Cancellation requested by user''\<rparr>"

definition cancel_loop_run :: "world \<Rightarrow> task_request \<Rightarrow> (agent_id \<Rightarrow> runtime \<Rightarrow> runtime) \<Rightarrow> task \<Rightarrow> runtime \<Rightarrow> ((task_response, string) result \<times> runtime) option"
where
  "cancel_loop_run w rq stop t s = (case hm_get (rt_tasks s) (t_id t) of
       None \<Rightarrow> None
     | Some u \<Rightarrow> Some (case check_revision u (t_revision t) of
           Inl e \<Rightarrow> (Err (te_message e), s)
         | Inr _ \<Rightarrow> (case hm_get (rt_controls s) (t_id t) of
               None \<Rightarrow> (Err ''No active acceptance loop'', s)
             | Some c \<Rightarrow> (let next = cancelled_task w t;
                   au = audit (fresh_uuid w s) (w_now w) next User ''cancel_loop'' (Some (column next))
                     (t_last_reason next)
                 in case with_store (save_task_changes [(next, au)] (Some (rq, RChanged next)) None) (drawn s) of
                      (Inl e, s') \<Rightarrow> (Err (store_message e), s')
                    | (Inr _, s') \<Rightarrow> (Ok (RChanged next),
                        stop (co_owner c) ((publish_tasks w [(next, au)] s')\<lparr>
                          rt_controls := hm_insert (t_id t) (c\<lparr>co_cancelled := True\<rparr>) (rt_controls s')\<rparr>))))))"

subsection \<open>The difference under review\<close>

definition lossy_diff :: "host_env \<Rightarrow> site \<Rightarrow> (string, string) result" where
  "lossy_diff h si = res_bind (si_diff si) (\<lambda>bytes. Ok (redact h (utf8_lossy bytes)))"

definition review_diff :: "host_env \<Rightarrow> site \<Rightarrow> project \<Rightarrow> task \<Rightarrow> uuid \<Rightarrow> (task_response, string) result"
where
  "review_diff h si p t sid = res_bind
     (ok_or ''Submission not found'' (find (\<lambda>x. rs_id x = sid) (acc_submissions (t_acceptance t)))) (\<lambda>sub.
     res_bind (acceptance_workspace si (p_root p) (acc_config (t_acceptance t))) (\<lambda>current.
       if we_fingerprint current \<noteq> we_fingerprint (rs_workspace sub)
       then Err ''Workspace changed; this diff no longer describes the submission. Revalidate first.''
       else if we_head current \<noteq> None then res_bind (lossy_diff h si) (\<lambda>d. Ok (RDiff d))
       else Ok (RDiff ''No Git diff is available. Inspect the captured file list.'')))"

subsection \<open>Configuration\<close>

definition confirmation_message :: string where
  "confirmation_message = ''Explicit confirmation is required for this exact command, cwd, timeout, and expected exit code''"

fun criteria_confirmed :: "site \<Rightarrow> path \<Rightarrow> (string \<times> command_check) list \<Rightarrow> acceptance_criterion list \<Rightarrow>
    command_check list \<Rightarrow> acceptance_criterion list \<Rightarrow> (unit, string) result" where
  "criteria_confirmed si dir presets old confirmed [] = Ok ()"
| "criteria_confirmed si dir presets old confirmed (c # cs) = res_bind (case ac_kind c of
      Command cmd \<Rightarrow>
        if \<not> list_ex (\<lambda>c0. ac_kind c0 = Command cmd) old \<and> cmd \<notin> set confirmed
        then Err confirmation_message
        else res_bind (contained si dir (cc_cwd cmd)) (\<lambda>_. Ok ())
    | TestPreset name \<Rightarrow>
        if map_of presets name = None then Err (''Project has not approved test preset '' @ name) else Ok ()
    | _ \<Rightarrow> Ok ()) (\<lambda>_. criteria_confirmed si dir presets old confirmed cs)"

definition configured_task :: "site \<Rightarrow> project \<Rightarrow> acceptance_config \<Rightarrow> command_check list \<Rightarrow> task \<Rightarrow>
    runtime \<Rightarrow> (task, string) result" where
  "configured_task si p cfg confirmed t s =
     (if t_archived t \<or> column t = Done \<or> column t = InReview
      then Err ''Reopen or request changes before editing acceptance checks''
      else res_bind (validate_config cfg) (\<lambda>_.
        res_bind (acceptance_presets (p_id p) s) (\<lambda>presets.
        res_bind (criteria_confirmed si (p_root p) presets
                   (cfg_criteria (acc_config (t_acceptance t))) confirmed (cfg_criteria cfg)) (\<lambda>_.
          Ok (t\<lparr>t_acceptance := (t_acceptance t)\<lparr>acc_config := cfg\<rparr>\<rparr>)))))"

subsection \<open>Review decisions\<close>

definition current_submission :: "task \<Rightarrow> review_submission option" where
  "current_submission t = Option.bind (acc_current_submission (t_acceptance t))
     (\<lambda>i. find (\<lambda>x. rs_id x = i) (acc_submissions (t_acceptance t)))"

definition stale_review_message :: string where
  "stale_review_message = ''Workspace changed after submission. Acceptance is blocked; revalidate the evidence.''"

text \<open>The caller owns the workspace guard and has checked ownership, revision and liveness.\<close>

definition prepare_release_acceptance :: "world \<Rightarrow> site \<Rightarrow> task \<Rightarrow> project \<Rightarrow> runtime \<Rightarrow> task tres" where
  "prepare_release_acceptance w si t p s = res_bind
     (ok_or (TaskError InvalidInput
         ''This review has no immutable workspace evidence. Revalidate before accepting.'')
       (current_submission t)) (\<lambda>sub.
     res_bind (map_err (TaskError InvalidInput)
       (acceptance_workspace si (p_root p) (acc_config (t_acceptance t)))) (\<lambda>current.
       if we_fingerprint current \<noteq> we_fingerprint (rs_workspace sub)
       then Err (TaskError InvalidInput stale_review_message)
       else res_bind (user_transition w s t Accept) (\<lambda>(next, _). Ok next)))"

definition last_profile :: "task \<Rightarrow> agent_execution_profile" where
  "last_profile t = (case acc_attempts (t_acceptance t) of [] \<Rightarrow> default_profile
     | as \<Rightarrow> ta_execution_profile (List.last as))"

record review_plan =
  rp_next :: task
  rp_launch :: "agent_execution_profile option"
  rp_guard :: "writer_guard option"
  rp_action :: string

definition plain_plan :: "string \<Rightarrow> task \<Rightarrow> review_plan" where
  "plain_plan action t = \<lparr>rp_next = t, rp_launch = None, rp_guard = None, rp_action = action\<rparr>"

text \<open>The evidence is captured while the guard is held, and after others may have run (\<open>others\<close>).\<close>

definition accept_plan :: "world \<Rightarrow> (runtime \<Rightarrow> site) \<Rightarrow> (runtime \<Rightarrow> runtime) \<Rightarrow> project \<Rightarrow> task \<Rightarrow> runtime \<Rightarrow>
    (review_plan, string) result \<times> runtime" where
  "accept_plan w look others p t s = (case acquire w (fresh_uuid w s) p default_profile (drawn s) of
      (Inl e, s') \<Rightarrow> (Err e, s')
    | (Inr g, s') \<Rightarrow> (let s' = others s' in case prepare_release_acceptance w (look s') t p s' of
          Inl e \<Rightarrow> (Err (te_message e), drop_guard w g s')
        | Inr next \<Rightarrow> (Ok ((plain_plan ''accept'' next)\<lparr>rp_guard := Some g\<rparr>), drawn s')))"

definition changes_plan :: "world \<Rightarrow> string \<Rightarrow> task \<Rightarrow> runtime \<Rightarrow> (review_plan, string) result \<times> runtime" where
  "changes_plan w feedback t s = (case user_transition w s t (RequestChanges feedback) of
      Inl e \<Rightarrow> (Err (te_message e), s)
    | Inr (next, _) \<Rightarrow> (let s = drawn s in
        (Ok \<lparr>rp_next = next\<lparr>t_acceptance := (t_acceptance next)\<lparr>acc_current_submission := None\<rparr>,
               t_assigned_agent_id := Some (fresh_uuid w s), t_condition := TcQueued\<rparr>,
             rp_launch = Some (last_profile t), rp_guard = None, rp_action = ''request_changes''\<rparr>,
         drawn s)))"

definition revalidate_plan :: "world \<Rightarrow> string option \<Rightarrow> task \<Rightarrow> runtime \<Rightarrow>
    (review_plan, string) result \<times> runtime" where
  "revalidate_plan w summary t s =
     (if t_archived t \<or> (column t \<noteq> InProgress \<and> column t \<noteq> InReview)
      then (Err ''Revalidation requires an active or review task'', s)
      else if is_some_and summary (\<lambda>v. blank v \<or> 65536 < length v)
      then (Err ''Provide a review summary'', drawn s)
      else (Ok \<lparr>rp_next = t\<lparr>t_assigned_agent_id := Some (fresh_uuid w s), t_condition := TcQueued,
                 t_review_summary := opt_or summary (t_review_summary t)\<rparr>,
               rp_launch = Some (last_profile t), rp_guard = None, rp_action = ''revalidate''\<rparr>, drawn s))"

definition review_plan_of :: "world \<Rightarrow> (runtime \<Rightarrow> site) \<Rightarrow> (runtime \<Rightarrow> runtime) \<Rightarrow> project \<Rightarrow> task_operation \<Rightarrow> task \<Rightarrow> runtime \<Rightarrow>
    (review_plan, string) result \<times> runtime" where
  "review_plan_of w look others p op t s = (case op of
      ConfigureAcceptance _ _ cfg confirmed \<Rightarrow>
        (res_bind (configured_task (look s) p cfg confirmed t s) (\<lambda>t. Ok (plain_plan ''configure_acceptance'' t)), s)
    | Transition _ _ Accept \<Rightarrow> accept_plan w look others p t s
    | Transition _ _ (RequestChanges feedback) \<Rightarrow> changes_plan w feedback t s
    | Transition _ _ (Submit summary) \<Rightarrow> revalidate_plan w (Some summary) t s
    | _ \<Rightarrow> revalidate_plan w None t s)"

subsection \<open>The commit\<close>

text \<open>The task is written only if it is still at the revision the decision was made for.\<close>

definition commit_review :: "world \<Rightarrow> task_request \<Rightarrow> (runtime \<Rightarrow> runtime) \<Rightarrow> task \<Rightarrow> review_plan \<Rightarrow>
    runtime \<Rightarrow> (task, string) result \<times> runtime" where
  "commit_review w rq others t plan s0 = (let
      next = (if t_revision (rp_next plan) = t_revision t then touch (w_now w) (rp_next plan)
              else rp_next plan);
      au = audit (fresh_uuid w s0) (w_now w) next User (rp_action plan) (Some (column t))
             (t_last_reason next);
      s = others (drawn s0)
    in case hm_get (rt_tasks s) (t_id t) of
         None \<Rightarrow> (Err ''Task disappeared'', s)
       | Some u \<Rightarrow> (case check_revision u (t_revision t) of
           Inl e \<Rightarrow> (Err (te_message e), s)
         | Inr _ \<Rightarrow>
             (case with_store (save_task_changes [(next, au)] (Some (rq, RChanged next)) None) s of
                (Inl e, s') \<Rightarrow> (Err (store_message e), s')
              | (Inr _, s') \<Rightarrow> (Ok next, publish_tasks w [(next, au)] s'))))"

definition drop_review_guard :: "world \<Rightarrow> review_plan \<Rightarrow> runtime \<Rightarrow> runtime" where
  "drop_review_guard w plan s = (case rp_guard plan of None \<Rightarrow> s | Some g \<Rightarrow> drop_guard w g s)"

text \<open>
  What other threads do where the lock is free: after the project was looked up, after the receipt
  was, after the task was read, after its liveness was checked, after the reservation of the
  workspace, before the commit, before the guard is dropped, between the commit and the reservation for
  the loop, and inside \<open>begin_acceptance\<close>. What is seen of the files depends on the state at that
  moment (\<open>look\<close>).
\<close>

record interference =
  if_replay :: "runtime \<Rightarrow> runtime"
  if_task :: "runtime \<Rightarrow> runtime"
  if_live :: "runtime \<Rightarrow> runtime"
  if_plan :: "runtime \<Rightarrow> runtime"
  if_capture :: "runtime \<Rightarrow> runtime"
  if_commit :: "runtime \<Rightarrow> runtime"
  if_drop :: "runtime \<Rightarrow> runtime"
  if_launch :: "runtime \<Rightarrow> runtime"
  if_begin :: "runtime \<Rightarrow> runtime"
  if_stop :: "agent_id \<Rightarrow> runtime \<Rightarrow> runtime"

definition review_run :: "world \<Rightarrow> host_env \<Rightarrow> (runtime \<Rightarrow> site) \<Rightarrow> interference \<Rightarrow> task_request \<Rightarrow> project \<Rightarrow>
    task \<Rightarrow> runtime \<Rightarrow> ((task_response, string) result \<times> loop_thread option) \<times> runtime" where
  "review_run w h look x rq p t s0 =
     (case review_plan_of w look (if_capture x) p (rq_operation rq) t (if_plan x s0) of
       (Inl e, s) \<Rightarrow> ((Err e, None), s)
     | (Inr plan, s) \<Rightarrow> (case commit_review w rq (if_commit x) t plan s of
          (Inl e, s') \<Rightarrow> ((Err e, None), drop_review_guard w plan (if_drop x s'))
        | (Inr next, s') \<Rightarrow>
            (case rp_launch plan of
               None \<Rightarrow> ((Ok (RChanged next), None), drop_review_guard w plan (if_drop x s'))
             | Some profile \<Rightarrow>
                 (case begin_acceptance w h (if_begin x) next p profile (rp_action plan = ''revalidate'')
                         (if_launch x s') of
                    ((_, thread), s2) \<Rightarrow> ((Ok (RChanged next), thread), s2)))))"

definition acceptance_task :: "project \<Rightarrow> task_operation \<Rightarrow> runtime \<Rightarrow> (task, string) result" where
  "acceptance_task p op s = (case acceptance_target op of
      None \<Rightarrow> Err ''Task not found''
    | Some (i, expected) \<Rightarrow> res_bind
        (ok_or ''Task not found'' (opt_filter (\<lambda>t. t_project_id t = p_id p) (hm_get (rt_tasks s) i)))
        (\<lambda>t. case expected of None \<Rightarrow> Ok t
           | Some rv \<Rightarrow> res_bind (map_err te_message (check_revision t rv)) (\<lambda>_. Ok t)))"

definition acceptance_task_run :: "world \<Rightarrow> host_env \<Rightarrow> (runtime \<Rightarrow> site) \<Rightarrow> interference \<Rightarrow> task_request \<Rightarrow>
    project \<Rightarrow> task \<Rightarrow> runtime \<Rightarrow> (((task_response, string) result \<times> loop_thread option) \<times> runtime) option" where
  "acceptance_task_run w h look x rq p t s = (case rq_operation rq of
      CancelLoop _ _ \<Rightarrow> map_option (\<lambda>(r, s'). ((r, None), s')) (cancel_loop_run w rq (if_stop x) t s)
    | _ \<Rightarrow>
        if task_live s t
        then Some ((Err ''Stop the task loop before changing its acceptance or review state'', None), s)
        else (case rq_operation rq of
            ReviewDiff _ sid \<Rightarrow> Some ((review_diff h (look s) p t sid, None), s)
          | _ \<Rightarrow> Some (review_run w h look x rq p t s)))"

text \<open>
  \<open>None\<close> for the operations of other components; inside, \<open>None\<close> is the panic of a cancellation. The
  operations without a task are answered first, so \<open>acceptance_task\<close> meets only those with one.
\<close>

definition acceptance_request :: "world \<Rightarrow> host_env \<Rightarrow> (runtime \<Rightarrow> site) \<Rightarrow> interference \<Rightarrow> task_request \<Rightarrow> runtime \<Rightarrow>
    (((task_response, string) result \<times> loop_thread option) \<times> runtime) option option" where
  "acceptance_request w h look x rq s0 =
     (if \<not> acceptance_special (rq_operation rq) then None
      else Some (case Option.bind (rq_project_id rq) (\<lambda>i. project_by_id i s0) of
          None \<Rightarrow> Some ((Err ''Select a project'', None), s0)
        | Some p \<Rightarrow> (let s = if_replay x s0 in case task_replay rq (rt_store s) of
            Some resp \<Rightarrow> Some ((Ok resp, None), s)
          | None \<Rightarrow> (let s = if_task x s in case rq_operation rq of
              TestPresets \<Rightarrow> Some ((res_bind (acceptance_presets (p_id p) s) (\<lambda>m. Ok (RTestPresets m)), None), s)
            | ApproveTestPreset name c \<Rightarrow>
                (case approve_preset rq (look s) p name c s of (r, s') \<Rightarrow> Some ((r, None), s'))
            | op \<Rightarrow> (case acceptance_task p op s of
                Inl e \<Rightarrow> Some ((Err e, None), s)
              | Inr t \<Rightarrow> acceptance_task_run w h look x rq p t (if_live x s))))))"

definition acceptance_response :: "(task_response, string) result \<Rightarrow> task_response" where
  "acceptance_response r = (case r of Inl e \<Rightarrow> RError (TaskError InvalidInput e) | Inr resp \<Rightarrow> resp)"

section \<open>Releases\<close>

definition batch_size_message :: string where
  "batch_size_message = ''Choose 1'' @ en_dash @ ''100 tasks per project''"

text \<open>The tasks of a batch, with the identifiers seen so far.\<close>

fun release_originals :: "project \<Rightarrow> bool \<Rightarrow> runtime \<Rightarrow> task_id list \<Rightarrow> task_revision list \<Rightarrow> task list tres"
where
  "release_originals p accepting s ids [] = Ok []"
| "release_originals p accepting s ids (r # rs) =
     (if tr_task_id r \<in> set ids
      then Err (TaskError InvalidInput ''A task can only appear once in a release batch'')
      else res_bind (ok_or (TaskError InvalidInput ''Task is unavailable or belongs to another project'')
            (opt_filter (\<lambda>t. t_project_id t = p_id p) (hm_get (rt_tasks s) (tr_task_id r)))) (\<lambda>t.
       res_bind (check_revision t (tr_expected_revision r)) (\<lambda>_.
       if task_live s t
       then Err (TaskError AgentBusy ''Stop the task loop before changing its release'')
       else if t_archived t \<or> column t \<noteq> (if accepting then InReview else Done)
       then Err (TaskError IllegalTransition
         ''Acceptance requires In Review tasks; regrouping requires Done tasks'')
       else res_bind (release_originals p accepting s (hs_insert (tr_task_id r) ids) rs)
              (\<lambda>ts. Ok (t # ts)))))"

fun release_prepared :: "world \<Rightarrow> (task_id \<Rightarrow> site) \<Rightarrow> project \<Rightarrow> bool \<Rightarrow> runtime \<Rightarrow> task list \<Rightarrow> task list tres"
where
  "release_prepared w sites p accepting s [] = Ok []"
| "release_prepared w sites p accepting s (t # ts) = res_bind
     (if accepting then prepare_release_acceptance w (sites (t_id t)) t p s else Ok (touch (w_now w) t))
     (\<lambda>next. res_bind (release_prepared w sites p accepting s ts) (\<lambda>ns. Ok (next # ns)))"

fun release_unchanged :: "runtime \<Rightarrow> task list \<Rightarrow> unit tres" where
  "release_unchanged s [] = Ok ()"
| "release_unchanged s (t # ts) = res_bind
     (ok_or (TaskError InvalidInput ''Task disappeared'') (hm_get (rt_tasks s) (t_id t))) (\<lambda>u.
     res_bind (check_revision u (t_revision t)) (\<lambda>_.
     if task_live s u then Err (TaskError AgentBusy ''Task became active; refresh and retry'')
     else release_unchanged s ts))"

definition destination_release :: "world \<Rightarrow> project \<Rightarrow> release_destination \<Rightarrow> runtime \<Rightarrow>
    (project_release option \<times> uuid option) tres" where
  "destination_release w p dest s = (case dest of
      Other \<Rightarrow> Ok (None, None)
    | New name \<Rightarrow> res_bind (new_release (fresh_uuid w s) (w_now w) (p_id p) name) (\<lambda>r.
        if list_ex (\<lambda>x. rel_project_id x = p_id p \<and> rel_name x = rel_name r) (hm_values (rt_releases s))
        then Err (TaskError InvalidInput ''That release already exists. Select it from the list.'')
        else Ok (Some r, Some (rel_id r)))
    | Existing i \<Rightarrow>
        if is_some_and (hm_get (rt_releases s) i) (\<lambda>r. rel_project_id r = p_id p) then Ok (None, Some i)
        else Err (TaskError InvalidInput ''Release is unavailable or belongs to another project''))"

definition show_release :: "world \<Rightarrow> uuid option \<Rightarrow> string" where
  "show_release w r = (case r of None \<Rightarrow> ''None'' | Some i \<Rightarrow> ''Some('' @ w_show_uuid w i @ '')'')"

definition released_change :: "world \<Rightarrow> uuid \<Rightarrow> bool \<Rightarrow> uuid option \<Rightarrow> task \<times> task \<Rightarrow> task \<times> task_audit" where
  "released_change w uid accepting rid = (\<lambda>(next, old). (let next = next\<lparr>t_release_id := rid\<rparr> in
     (next, audit uid (w_now w) next User (if accepting then ''accept_release'' else ''assign_release'')
        (Some (column old))
        (Some (''Release: '' @ show_release w (t_release_id old) @ '' -> '' @ show_release w rid)))))"

definition released_changes :: "world \<Rightarrow> nat \<Rightarrow> bool \<Rightarrow> uuid option \<Rightarrow> task list \<Rightarrow> task list \<Rightarrow>
    (task \<times> task_audit) list" where
  "released_changes w k accepting rid nexts olds =
     List.map (\<lambda>(i, c). released_change w (w_uuid w (k + i)) accepting rid c)
       (List.zip [0..<length olds] (List.zip nexts olds))"

text \<open>The last section of the request, under one lock.\<close>

definition release_commit :: "world \<Rightarrow> task_request \<Rightarrow> project \<Rightarrow> bool \<Rightarrow> release_destination \<Rightarrow>
    task list \<Rightarrow> task list \<Rightarrow> runtime \<Rightarrow> task_response tres \<times> runtime" where
  "release_commit w rq p accepting dest originals prepared s =
     (case task_replay rq (rt_store s) of Some resp \<Rightarrow> (Ok resp, s) | None \<Rightarrow>
     (case release_unchanged s originals of Inl e \<Rightarrow> (Err e, s) | Inr _ \<Rightarrow>
     (case destination_release w p dest s of Inl e \<Rightarrow> (Err e, s) | Inr (created, rid) \<Rightarrow>
     (let changes = released_changes w (Suc (rt_draws s)) accepting rid prepared originals;
          resp = RReleaseBatch (List.map fst changes) (case created of None \<Rightarrow> [] | Some r \<Rightarrow> [r]);
          s1 = s\<lparr>rt_draws := Suc (rt_draws s) + length changes\<rparr>
      in case with_store (save_release_batch created changes rq resp) s1 of
           (Inl e, s') \<Rightarrow> (Err (storage_error e), s')
         | (Inr _, s') \<Rightarrow> (let s2 = (case created of None \<Rightarrow> s'
               | Some r \<Rightarrow> broadcast w (ReleaseCreated r)
                   (s'\<lparr>rt_releases := hm_insert (rel_id r) r (rt_releases s')\<rparr>))
             in (Ok resp, publish_tasks w changes s2))))))"

text \<open>
  What other threads do where the lock is free: after the project was looked up, before the workspace is
  reserved, before the evidence is captured, and before the commit.
\<close>

record release_others =
  ro_read :: "runtime \<Rightarrow> runtime"
  ro_acquire :: "runtime \<Rightarrow> runtime"
  ro_capture :: "runtime \<Rightarrow> runtime"
  ro_commit :: "runtime \<Rightarrow> runtime"

definition release_batch :: "world \<Rightarrow> (runtime \<Rightarrow> task_id \<Rightarrow> site) \<Rightarrow> release_others \<Rightarrow>
    task_request \<Rightarrow> project \<Rightarrow> bool \<Rightarrow> task_revision list \<Rightarrow> release_destination \<Rightarrow> runtime \<Rightarrow>
    task_response tres \<times> runtime" where
  "release_batch w sites x rq p accepting tasks dest s =
     (case task_replay rq (rt_store s) of Some resp \<Rightarrow> (Ok resp, s) | None \<Rightarrow>
      if tasks = [] \<or> 100 < length tasks then (Err (TaskError InvalidInput batch_size_message), s)
      else (case release_originals p accepting s [] tasks of Inl e \<Rightarrow> (Err e, s) | Inr originals \<Rightarrow>
       if accepting
       then (let s1 = ro_acquire x s in
         case acquire w (fresh_uuid w s1) p default_profile (drawn s1) of
           (Inl e, s') \<Rightarrow> (Err (TaskError WorkspaceBusy e), s')
         | (Inr g, s') \<Rightarrow> (let s' = ro_capture x s' in
             case release_prepared w (sites s') p True s' originals of
               Inl e \<Rightarrow> (Err e, drop_guard w g s')
             | Inr prepared \<Rightarrow>
                 (case release_commit w rq p True dest originals prepared
                         (ro_commit x (s'\<lparr>rt_draws := rt_draws s' + length originals\<rparr>)) of
                    (r, s2) \<Rightarrow> (r, drop_guard w g s2))))
       else (case release_prepared w (sites s) p False s originals of
               Inl e \<Rightarrow> (Err e, s)
             | Inr prepared \<Rightarrow> release_commit w rq p False dest originals prepared (ro_commit x s))))"

definition release_request :: "world \<Rightarrow> (runtime \<Rightarrow> task_id \<Rightarrow> site) \<Rightarrow> release_others \<Rightarrow>
    task_request \<Rightarrow> runtime \<Rightarrow> (task_response tres \<times> runtime) option" where
  "release_request w sites x rq s0 = (let
      project = ok_or (TaskError InvalidInput ''Select a project'')
        (Option.bind (rq_project_id rq) (\<lambda>i. project_by_id i s0));
      s = ro_read x s0;
      run = (\<lambda>accepting tasks dest. case project of Inl e \<Rightarrow> (Err e, s0)
        | Inr p \<Rightarrow> release_batch w sites x rq p accepting tasks dest s)
    in case rq_operation rq of
         ListReleases \<Rightarrow> Some (case project of Inl e \<Rightarrow> (Err e, s0)
           | Inr p \<Rightarrow> (Ok (RReleases (List.filter (\<lambda>r. rel_project_id r = p_id p) (hm_values (rt_releases s)))), s))
       | AcceptRelease tasks dest \<Rightarrow> Some (run True tasks dest)
       | AssignRelease tasks dest \<Rightarrow> Some (run False tasks dest)
       | _ \<Rightarrow> None)"

end
