(* ===== verification/Review_Facts.thy ===== *)
theory Review_Facts
  imports Acceptance_Runtime Request_Properties
begin

text \<open>
  What the operations of \<open>Acceptance_Runtime\<close> do to the tasks: attempts that have ended stay as they
  are, a task is accepted only on current evidence, and what a revalidation does to a task under
  review.
\<close>

section \<open>Saves\<close>

lemma acceptance_save_cases:
  assumes "acceptance_save w h t action s = (r, s')"
  obtains e where "r = Inl e" and "rt_tasks s' = rt_tasks s" and "rt_agents s' = rt_agents s"
      and "rt_controls s' = rt_controls s" and "rt_orphans s' = rt_orphans s"
      and "rt_acceptance_owners s' = rt_acceptance_owners s" and "rt_writer_leases s' = rt_writer_leases s"
      and "rt_children s' = rt_children s"
  | "r = Inr (touch (w_now w) t)" and "rt_tasks s' = hm_insert (t_id t) (touch (w_now w) t) (rt_tasks s)"
      and "rt_agents s' = rt_agents s"
      and "rt_controls s' = rt_controls s" and "rt_orphans s' = rt_orphans s"
      and "rt_acceptance_owners s' = rt_acceptance_owners s" and "rt_writer_leases s' = rt_writer_leases s"
      and "rt_children s' = rt_children s"
  using assms
  by (auto simp: acceptance_save_def save_and_publish_def publish_tasks_tasks Let_def elim!: with_storeE
      split: if_splits sum.splits prod.splits)

lemma acceptance_save_attempts:
  assumes "acceptance_save w h t action s = (r, s')"
  shows "rt_tasks s' = rt_tasks s \<or> rt_tasks s' = hm_insert (t_id t) (touch (w_now w) t) (rt_tasks s)"
  using assms by (elim acceptance_save_cases) auto

section \<open>Ended attempts\<close>

text \<open>A later list of attempts keeps those that have ended, in their places.\<close>

definition keeps_ended :: "task_attempt list \<Rightarrow> task_attempt list \<Rightarrow> bool" where
  "keeps_ended as bs \<longleftrightarrow> length as \<le> length bs
     \<and> (\<forall>i < length as. ta_id (bs ! i) = ta_id (as ! i)
          \<and> (\<not> result_active (ta_result (as ! i)) \<longrightarrow> bs ! i = as ! i))"

lemma keeps_ended_refl [simp]: "keeps_ended as as"
  by (simp add: keeps_ended_def)

lemma keeps_ended_trans: "keeps_ended as bs \<Longrightarrow> keeps_ended bs cs \<Longrightarrow> keeps_ended as cs"
  unfolding keeps_ended_def by (metis le_trans less_le_trans)

lemma keeps_ended_Cons: "keeps_ended (a # as) (b # bs) \<longleftrightarrow>
    ta_id b = ta_id a \<and> (\<not> result_active (ta_result a) \<longrightarrow> b = a) \<and> keeps_ended as bs"
  by (auto simp: keeps_ended_def less_Suc_eq_0_disj)

lemma keeps_ended_map: "(\<And>a. ta_id (f a) = ta_id a) \<Longrightarrow> (\<And>a. \<not> result_active (ta_result a) \<Longrightarrow> f a = a) \<Longrightarrow>
    keeps_ended as (List.map f as)"
  by (simp add: keeps_ended_def)

lemma merged_attempt_id [simp]: "ta_id (merged_attempt old a) = ta_id a"
  "ta_result (merged_attempt old a) = ta_result a" "ta_validators (merged_attempt old a) = ta_validators a"
  by (simp_all add: merged_attempt_def)

lemma put_attempt_keeps: "put_attempt a as = Inr bs \<Longrightarrow> keeps_ended as bs \<and> length bs \<le> Suc (length as)"
proof (induction as arbitrary: bs)
  case Nil then show ?case by (auto simp: keeps_ended_def)
next
  case (Cons old as)
  show ?case
  proof (cases "ta_id old = ta_id a")
    case True with Cons.prems show ?thesis by (auto simp: keeps_ended_Cons split: if_splits)
  next
    case False
    with Cons.prems obtain cs where "put_attempt a as = Inr cs" "bs = old # cs" by (auto simp: res_bind_Ok_iff)
    with Cons.IH show ?thesis by (simp add: keeps_ended_Cons)
  qed
qed

lemma closed_attempt_simps [simp]: "ta_id (closed_attempt w h r code msg a) = ta_id a"
  "\<not> result_active (ta_result (closed_attempt w h r code msg a))"
  by (auto simp: closed_attempt_def observed_attempt_def split: option.split)

lemma closed_attempts_keep: "keeps_ended as (List.map (closed_attempt w h r code msg) as)"
  by (rule keeps_ended_map) (simp, simp add: closed_attempt_def)

definition attempts_of :: "task_id \<Rightarrow> runtime \<Rightarrow> task_attempt list" where
  "attempts_of tid s = (case hm_get (rt_tasks s) tid of None \<Rightarrow> [] | Some t \<Rightarrow> acc_attempts (t_acceptance t))"

lemma attempts_of_cong: "rt_tasks s' = rt_tasks s \<Longrightarrow> attempts_of tid s' = attempts_of tid s"
  by (simp add: attempts_of_def)

lemma attempts_of_insert:
  "rt_tasks s' = hm_insert i t m \<Longrightarrow> attempts_of tid s' =
     (if tid = i then acc_attempts (t_acceptance t) else attempts_of tid (s'\<lparr>rt_tasks := m\<rparr>))"
  by (simp add: attempts_of_def hm.get_ins)

lemma attempt_update_keeps:
  assumes "attempt_update w h tid a s = (r, s')" and "hm_ok (rt_tasks s)" and "hm_keyed t_id (rt_tasks s)"
  shows "keeps_ended (attempts_of j s) (attempts_of j s')"
proof (cases "hm_get (rt_tasks s) tid")
  case None with assms(1) show ?thesis by (simp add: attempt_update_def)
next
  case (Some t)
  show ?thesis
  proof (cases "put_attempt a (acc_attempts (t_acceptance t))")
    case (Inl e) with Some assms(1) show ?thesis by (simp add: attempt_update_def)
  next
    case (Inr bs)
    let ?t = "t\<lparr>t_acceptance := (t_acceptance t)\<lparr>acc_attempts := bs\<rparr>,
      t_condition := attempt_condition bs (t_condition t)\<rparr>"
    obtain q s2 where sv: "acceptance_save w h ?t ''attempt_evidence'' s = (q, s2)" by fastforce
    with Some Inr assms(1) have "s2 = s'" by (auto simp: attempt_update_def Let_def split: sum.splits)
    moreover have "t_id t = tid" using hm.keyed_by_def Some assms(2,3) by metis
    ultimately show ?thesis using acceptance_save_attempts[OF sv] put_attempt_keeps[OF Inr] Some
      by (auto simp: attempts_of_def hm.get_ins)
  qed
qed

lemma acceptance_block_keeps:
  assumes "hm_ok (rt_tasks s)" and "hm_keyed t_id (rt_tasks s)"
  shows "keeps_ended (attempts_of j s) (attempts_of j (acceptance_block w h tid code msg s))"
proof (cases "hm_get (rt_tasks s) tid")
  case None then show ?thesis by (simp add: acceptance_block_def)
next
  case (Some t)
  let ?t = "blocked_task w h code msg s t"
  obtain q s2 where sv: "acceptance_save w h ?t code s = (q, s2)" by fastforce
  have "rt_tasks (acceptance_block w h tid code msg s) = rt_tasks s2"
    by (simp add: acceptance_block_def Some sv split: sum.splits)
  moreover have "t_id t = tid" using hm.keyed_by_def Some assms by metis
  ultimately show ?thesis using acceptance_save_attempts[OF sv] Some
    by (auto simp: attempts_of_def hm.get_ins blocked_task_def Let_def closed_attempts_keep)
qed

section \<open>Revalidating a task under review\<close>

text \<open>What other threads leave alone between the sections of a request.\<close>

definition leaves_board :: "(runtime \<Rightarrow> runtime) \<Rightarrow> bool" where
  "leaves_board f \<longleftrightarrow> (\<forall>s. rt_tasks (f s) = rt_tasks s \<and> rt_orphans (f s) = rt_orphans s
     \<and> rt_acceptance_owners (f s) = rt_acceptance_owners s \<and> rt_draws (f s) = rt_draws s)"

definition board_left_alone :: "interference \<Rightarrow> bool" where
  "board_left_alone x \<longleftrightarrow> leaves_board (if_replay x) \<and> leaves_board (if_task x) \<and> leaves_board (if_live x)
     \<and> leaves_board (if_plan x) \<and> leaves_board (if_commit x) \<and> leaves_board (if_launch x) \<and> leaves_board (if_begin x)"

definition undisturbed :: interference where
  "undisturbed = \<lparr>if_replay = id, if_task = id, if_live = id, if_plan = id, if_capture = id, if_commit = id,
     if_drop = id, if_launch = id, if_begin = id, if_stop = (\<lambda>_. id)\<rparr>"

lemma undisturbed_simps [simp]: "if_replay undisturbed = id" "if_task undisturbed = id" "if_live undisturbed = id"
  "if_plan undisturbed = id" "if_capture undisturbed = id" "if_commit undisturbed = id" "if_drop undisturbed = id"
  "if_launch undisturbed = id" "if_begin undisturbed = id" "board_left_alone undisturbed"
  by (simp_all add: undisturbed_def board_left_alone_def leaves_board_def)

text \<open>
  The reservation of the workspace asks that the task the agent is queued for is in progress, so it
  is refused for a task under review.
\<close>

lemma review_reservation_refused:
  assumes "hm_ok (rt_tasks s)" and "hm_keyed t_id (rt_tasks s)" and "hm_get (rt_tasks s) (t_id t) = Some t"
    and "t_assigned_agent_id t = Some i" and "t_condition t = TcQueued" and "column t = InReview"
    and "\<forall>u \<in> set (hm_values (rt_tasks s)). t_assigned_agent_id u = Some i \<longrightarrow> u = t"
    and "i \<notin> set (rt_acceptance_owners s)" and "exited_orphans w s = []"
  shows "\<exists>e. acquire w i p profile s = (Inl e, s)"
proof -
  have in_vals: "t \<in> set (hm_values (rt_tasks s))" using assms(1-3) by (simp add: hm.keyed_by_vals)
  let ?P = "\<lambda>u. t_assigned_agent_id u = Some i \<and> t_condition u = TcQueued"
  have "find ?P (hm_values (rt_tasks s)) = Some t"
  proof (cases "find ?P (hm_values (rt_tasks s))")
    case None with in_vals assms(4,5) show ?thesis by (auto simp: find_None_iff)
  next
    case (Some u)
    then have "?P u" "u \<in> set (hm_values (rt_tasks s))" by (auto simp: find_Some_iff)
    with assms(7) Some show ?thesis by simp
  qed
  then have "linked_task s i = Some (t_id t)" by (simp add: linked_task_def)
  with assms(3,6) have "\<exists>e. linked_task_allows s i p False grp = Inl e" for grp
    by (simp add: linked_task_allows_def)
  note refused = this
  note acq = acquire_def acquire_for_group_def acquire_with_intent_def reap_quiet[OF assms(9)] Let_def
  show ?thesis
  proof (cases "workspace_root w p")
    case (Inl e) then show ?thesis by (simp add: acq)
  next
    case (Inr dir)
    show ?thesis
    proof (cases "remote_maintenance_active w s")
      case True with Inr show ?thesis by (simp add: acq)
    next
      case False
      let ?grp = "opt_or (agent_coordinator_group s i) (agent_coordinator_group s i)"
      obtain e where e: "linked_task_allows s i p False ?grp = Inl e" using refused by blast
      show ?thesis using Inr False e assms(8)
        by (cases "writer_refusal w i p False s") (simp_all add: acq)
    qed
  qed
qed

lemma commit_review_alone:
  assumes "commit_review w rq f t plan s = (Inr changed, s')" and "leaves_board f"
  shows "rt_tasks s' = hm_insert (t_id changed) changed (rt_tasks s)" "rt_orphans s' = rt_orphans s"
    "rt_acceptance_owners s' = rt_acceptance_owners s"
    "changed = (if t_revision (rp_next plan) = t_revision t then touch (w_now w) (rp_next plan) else rp_next plan)"
  using assms
  by (auto simp: commit_review_def leaves_board_def Let_def publish_tasks_tasks elim!: with_storeE
      split: option.splits sum.splits prod.splits)

lemma blocked_task_simps [simp]:
  "t_id (blocked_task w h code msg s t) = t_id t" "column (blocked_task w h code msg s t) = InProgress"
  "t_condition (blocked_task w h code msg s t) = TcBlocked"
  "acc_current_submission (t_acceptance (blocked_task w h code msg s t)) = None"
  "t_last_reason (blocked_task w h code msg s t) = Some (code @ '': '' @ msg)"
  by (simp_all add: blocked_task_def Let_def column_def)

text \<open>What a block leaves, unless the disk refuses it.\<close>

lemma acceptance_block_blocks:
  assumes "hm_get (rt_tasks s) tid = Some t" and "t_id t = tid"
  shows "let t' = hm_get (rt_tasks (acceptance_block w h tid code msg s)) tid in t' = Some t \<or>
    (\<exists>u. t' = Some u \<and> column u = InProgress \<and> t_condition u = TcBlocked
      \<and> acc_current_submission (t_acceptance u) = None \<and> t_last_reason u = Some (code @ '': '' @ msg)
      \<and> (\<forall>a \<in> set (acc_attempts (t_acceptance u)). \<not> result_active (ta_result a)))"
proof -
  let ?t = "blocked_task w h code msg s t"
  obtain q s2 where sv: "acceptance_save w h ?t code s = (q, s2)" by fastforce
  have "rt_tasks (acceptance_block w h tid code msg s) = rt_tasks s2"
    by (simp add: acceptance_block_def assms sv split: sum.splits)
  moreover have "\<forall>a \<in> set (acc_attempts (t_acceptance ?t)). \<not> result_active (ta_result a)"
    by (auto simp: blocked_task_def Let_def)
  ultimately show ?thesis using acceptance_save_attempts[OF sv] assms
    by (auto simp: hm.get_ins)
qed


subsection \<open>A task under review\<close>

definition reviewed_task :: task where
  "reviewed_task = sample_task\<lparr>t_state := TsInReview, t_review_summary := Some ''ok''\<rparr>"

lemma reviewed_task_simps [simp]:
  "t_id reviewed_task = 7" "t_project_id reviewed_task = 1" "column reviewed_task = InReview"
  "t_revision reviewed_task = 1" "\<not> t_archived reviewed_task" "t_assigned_agent_id reviewed_task = None"
  "t_condition reviewed_task = TcIdle" "t_release_id reviewed_task = None"
  "t_review_summary reviewed_task = Some ''ok''" "active_task reviewed_task"
  using new_task_fields[OF sample_new_task] new_task_rest[OF sample_new_task]
  by (simp_all add: reviewed_task_def active_task_def)

abbreviation "review_sample \<equiv> sample_runtime reviewed_task []"

lemma review_sample_idle: "\<not> task_live review_sample reviewed_task"
  by (simp add: task_live_def hm_contains_def hm_get_def waiting_in_queue_def)

text \<open>A commit on a healthy disk.\<close>

lemma commit_review_healthy:
  assumes "healthy w s" and "coherent s" and "hm_get (rt_tasks s) (t_id t) = Some t"
    and "t_id (rp_next plan) = t_id t"
    and "\<not> hm_contains (db_requests (st_db (rt_store s))) (rq_request_id rq)"
  shows "\<exists>changed s'. commit_review w rq id t plan s = (Inr changed, s')"
proof -
  define c where "c = (if t_revision (rp_next plan) = t_revision t then touch (w_now w) (rp_next plan)
    else rp_next plan)"
  define au where "au = audit (fresh_uuid w s) (w_now w) c User (rp_action plan) (Some (column t)) (t_last_reason c)"
  have c: "t_id c = t_id t" using assms(4) by (simp add: c_def)
  have "stored_task (t_id c) (st_db (rt_store s)) = Some t" using assms(2,3) c by (simp add: coherent_def)
  from commit_queue_healthy[OF assms(1) this, of au "rt_draws s" rq] assms(5)
  have "\<exists>s'. with_store (save_task_changes [(c, au)] (Some (rq, RChanged c)) None) (drawn s) = (Inr (), s')"
    by (auto simp: commit_queue_def au_def fresh_uuid_def drawn_def save_task_changes_alt split: sum.splits prod.splits)
  then show ?thesis using assms(3)
    by (auto simp: commit_review_def Let_def c_def[symmetric] au_def[symmetric] check_revision_def)
qed

lemma review_sample_request:
  "acceptance_request sample_world h look undisturbed (sample_edit op) (sample_runtime t []) = Some
     (acceptance_task_run sample_world h look undisturbed (sample_edit op) sample_project t (sample_runtime t []))"
  if "acceptance_special op" and "acceptance_target op = Some (t_id t, Some (t_revision t))" and "t_project_id t = 1"
  using that
  by (cases op) (auto simp: acceptance_request_def acceptance_task_def project_by_id_def project_by_def
    hm_values_def hm_get_def opt_filter_def check_revision_def acceptance_special_def acceptance_target_def
    split: task_action.splits)


section \<open>Acceptance\<close>

lemma acquire_tasks_project:
  assumes "acquire w i p profile s = (r, s')"
  shows "rt_tasks s' = rt_tasks (reap_orphan_writers w s) \<or> rt_tasks s' = rt_tasks s"
  using assms
  by (auto simp: acquire_def acquire_for_group_def acquire_with_intent_def Let_def elim!: with_storeE
      split: sum.splits option.splits if_splits prod.splits)

lemma prepare_release_acceptance_Ok:
  assumes "prepare_release_acceptance w si t p s = Inr u"
  obtains sub current where "current_submission t = Some sub"
    and "acceptance_workspace si (p_root p) (acc_config (t_acceptance t)) = Inr current"
    and "we_fingerprint current = we_fingerprint (rs_workspace sub)"
    and "column t = InReview" and "column u = Done" and "t_id u = t_id t"
    and "t_revision u = t_revision t + 1" and "t_acceptance u = t_acceptance t"
    and "t_project_id u = t_project_id t" and "is_some_and (t_review_summary t) (\<lambda>x. \<not> blank x)"
  using assms
  by (auto simp: prepare_release_acceptance_def res_bind_Ok_iff user_transition_def transition_Ok_iff
      split: if_splits prod.splits)

lemma drop_guard_tasks [simp]: "rt_tasks (drop_guard w g s) = rt_tasks s"
  by (simp add: drop_guard_def split: option.splits)

lemma commit_review_Ok:
  assumes "commit_review w rq others t plan s = (Inr changed, s')"
  shows "changed = (if t_revision (rp_next plan) = t_revision t then touch (w_now w) (rp_next plan) else rp_next plan)"
    and "hm_get (rt_tasks s') (t_id changed) = Some changed"
    and "\<exists>u. hm_get (rt_tasks (others (drawn s))) (t_id t) = Some u \<and> t_revision u = t_revision t"
  using assms
  by (auto simp: commit_review_def Let_def publish_tasks_tasks hm.get_ins elim!: with_storeE
      split: option.splits sum.splits prod.splits)

lemma commit_review_writes:
  assumes "commit_review w rq others t plan s = (Inr changed, s')"
  shows "rt_tasks s' = hm_insert (t_id changed) changed (rt_tasks (others (drawn s)))"
    and "hm_get (db_requests (st_db (rt_store s'))) (rq_request_id rq) = Some (rq, RChanged changed)"
proof -
  from assms obtain au s1 where sv: "with_store (save_task_changes [(changed, au)] (Some (rq, RChanged changed)) None)
      (others (drawn s)) = (Inr (), s1)" and s': "s' = publish_tasks w [(changed, au)] s1"
    by (auto simp: commit_review_def Let_def split: option.splits sum.splits prod.splits)
  from sv show "rt_tasks s' = hm_insert (t_id changed) changed (rt_tasks (others (drawn s)))"
    by (auto simp: s' publish_tasks_tasks elim!: with_storeE)
  from sv obtain st where st: "in_tx (stmt_save [(changed, au)] (Some (rq, RChanged changed)) []) (rt_store (others (drawn s))) = (Inr (), st)"
    and s1: "rt_store s1 = st"
    by (auto simp: save_task_changes_alt save_task_agent_changes_def elim!: with_storeE)
  have "stmt_save [(changed, au)] (Some (rq, RChanged changed)) [] (st_db (rt_store (others (drawn s)))) = Inr (st_db st)"
    using in_tx_Ok[of "stmt_save [(changed, au)] (Some (rq, RChanged changed)) []" "rt_store (others (drawn s))" "()"] st
    by simp
  then obtain x where "st_db st = x\<lparr>db_requests := hm_insert (rq_request_id rq) (rq, RChanged changed) (db_requests x)\<rparr>"
    by (auto simp: stmt_save_def insert_request_def res_bind_Ok_iff eq_commute[of "st_db st"] split: if_splits)
  then show "hm_get (db_requests (st_db (rt_store s'))) (rq_request_id rq) = Some (rq, RChanged changed)"
    by (simp add: s' s1 hm.get_ins)
qed

lemma acquire_holds:
  assumes "acquire w i p profile s = (Inr g, s')"
  shows "wg_agent g = i \<and> hm_contains (rt_writer_leases s') i"
  using assms
  by (auto simp: acquire_def acquire_for_group_def acquire_with_intent_def Let_def hm_contains_insert
      elim!: with_storeE split: sum.splits option.splits if_splits prod.splits)

text \<open>C5: only current evidence is accepted, whatever other threads do wherever the lock is free: a served
  Accept found the task under review at the revision the user named and in the user's project, took the
  writer reservation of that project, found, while its guard was held, that the workspace has the
  fingerprint of the task's current submission, and wrote the Done task, with the request's receipt, over a
  task that was still at that very revision; the guard is dropped only after that.\<close>

theorem accept_needs_current_evidence:
  assumes "rq_operation rq = Transition i rv Accept" and "task_replay rq (rt_store (if_replay x s)) = None"
    and "acceptance_request w h look x rq s = Some (Some ((Inr resp, thread), s'))"
    and read: "s1 = if_task x (if_replay x s)" and ok: "hm_ok (rt_tasks s1)" "hm_keyed t_id (rt_tasks s1)"
    and free: "s2 = if_plan x (if_live x s1)"
  shows "\<exists>p t g s3 sub current u s4 s5. Option.bind (rq_project_id rq) (\<lambda>j. project_by_id j s) = Some p
    \<and> hm_get (rt_tasks s1) i = Some t \<and> t_project_id t = p_id p \<and> t_revision t = rv \<and> column t = InReview
    \<and> acquire w (fresh_uuid w s2) p default_profile (drawn s2) = (Inr g, s3)
    \<and> hm_contains (rt_writer_leases s3) (wg_agent g)
    \<and> current_submission t = Some sub
    \<and> acceptance_workspace (look (if_capture x s3)) (p_root p) (acc_config (t_acceptance t)) = Inr current
    \<and> we_fingerprint current = we_fingerprint (rs_workspace sub)
    \<and> s4 = if_commit x (drawn (drawn (if_capture x s3)))
    \<and> (\<exists>now. hm_get (rt_tasks s4) i = Some now \<and> t_revision now = rv)
    \<and> rt_tasks s5 = hm_insert i u (rt_tasks s4)
    \<and> hm_get (db_requests (st_db (rt_store s5))) (rq_request_id rq) = Some (rq, resp)
    \<and> resp = RChanged u \<and> thread = None
    \<and> column u = Done \<and> t_revision u = rv + 1 \<and> t_acceptance u = t_acceptance t
    \<and> s' = drop_guard w g (if_drop x s5)"
proof -
  from assms(1-3) obtain p t where p: "Option.bind (rq_project_id rq) (\<lambda>j. project_by_id j s) = Some p"
    and t: "hm_get (rt_tasks s1) i = Some t" "t_project_id t = p_id p" "t_revision t = rv"
    and "acceptance_task_run w h look x rq p t (if_live x s1) = Some ((Inr resp, thread), s')"
    by (auto simp: acceptance_request_def acceptance_special_def acceptance_task_def acceptance_target_def
        opt_filter_def res_bind_Ok_iff read Let_def split: option.splits if_splits sum.splits)
  then have run: "review_run w h look x rq p t (if_live x s1) = ((Inr resp, thread), s')"
    using assms(1) by (auto simp: acceptance_task_run_def split: if_splits)
  then obtain plan sp where pl: "accept_plan w look (if_capture x) p t s2 = (Inr plan, sp)"
    using assms(1) by (auto simp: review_run_def review_plan_of_def free split: sum.splits prod.splits)
  then obtain g s3 u where acq: "acquire w (fresh_uuid w s2) p default_profile (drawn s2) = (Inr g, s3)"
    and pr: "prepare_release_acceptance w (look (if_capture x s3)) t p (if_capture x s3) = Inr u"
    and sp: "sp = drawn (if_capture x s3)" and plan: "plan = (plain_plan ''accept'' u)\<lparr>rp_guard := Some g\<rparr>"
    by (auto simp: accept_plan_def Let_def split: sum.splits prod.splits)
  have np: "rp_launch plan = None" "rp_next plan = u" "rp_guard plan = Some g" by (simp_all add: plan plain_plan_def)
  from run assms(1) pl np obtain changed s5 where cm: "commit_review w rq (if_commit x) t plan sp = (Inr changed, s5)"
    and out: "resp = RChanged changed" "thread = None" "s' = drop_review_guard w plan (if_drop x s5)"
    by (auto simp: review_run_def review_plan_of_def free split: sum.splits prod.splits)
  from pr obtain sub current where e: "current_submission t = Some sub"
    "acceptance_workspace (look (if_capture x s3)) (p_root p) (acc_config (t_acceptance t)) = Inr current"
    "we_fingerprint current = we_fingerprint (rs_workspace sub)"
    "column t = InReview" "column u = Done" "t_id u = t_id t" "t_revision u = t_revision t + 1"
    "t_acceptance u = t_acceptance t"
    by (rule prepare_release_acceptance_Ok)
  have u: "changed = u" using commit_review_Ok(1)[OF cm] np e(7) by simp
  have i: "t_id t = i" using t(1) ok by (metis hm.keyed_by_def)
  note wr = commit_review_writes[OF cm, unfolded u e(6) i sp]
  have now: "\<exists>now. hm_get (rt_tasks (if_commit x (drawn (drawn (if_capture x s3))))) i = Some now \<and> t_revision now = rv"
    using commit_review_Ok(3)[OF cm] t(3) by (simp add: i sp)
  have drop: "s' = drop_guard w g (if_drop x s5)" by (simp add: out(3) drop_review_guard_def np(3))
  have rev: "t_revision u = rv + 1" using e(7) t(3) by simp
  show ?thesis
    by (rule exI[of _ p], rule exI[of _ t], rule exI[of _ g], rule exI[of _ s3], rule exI[of _ sub], rule exI[of _ current],
        rule exI[of _ u], rule exI[of _ "if_commit x (drawn (drawn (if_capture x s3)))"], rule exI[of _ s5])
      (intro conjI p t acq e(1-5,8) refl now wr(1) drop rev out(2), simp add: acquire_holds[OF acq],
       simp add: wr(2) out(1) u, simp add: out(1) u)
qed

subsection \<open>An accepted review\<close>

definition sample_evidence :: workspace_evidence where
  "sample_evidence = \<lparr>we_fingerprint = ''f'', we_head = Some ''c'', we_dirty_paths = [], we_diff_stat = [],
     we_diff_bytes = 0, we_warnings = [], we_captured_at = 150\<rparr>"

definition sample_site :: site where
  "sample_site = \<lparr>si_canonical = Inr, si_exists = (\<lambda>_. True), si_is_file = (\<lambda>_. True), si_symlink = (\<lambda>_. False),
     si_scoped = Inr, si_bounded = Inr, si_capture = Inr sample_evidence, si_diff = Inr [], si_digest = id\<rparr>"

definition submitted_task_sample :: task where
  "submitted_task_sample = reviewed_task\<lparr>t_acceptance := \<lparr>acc_config = default_acceptance_config,
     acc_attempts = [], acc_submissions = [\<lparr>rs_id = 9, rs_attempt_id = None, rs_agent_id = None,
       rs_summary = ''ok'', rs_criteria = [], rs_workspace = sample_evidence, rs_preexisting_dirty_paths = [],
       rs_approvals = [], rs_created_at = 150\<rparr>], acc_current_submission = Some 9\<rparr>\<rparr>"

lemma submitted_task_sample_simps [simp]:
  "t_id submitted_task_sample = 7" "t_project_id submitted_task_sample = 1"
  "column submitted_task_sample = InReview" "t_revision submitted_task_sample = 1"
  "\<not> t_archived submitted_task_sample" "t_assigned_agent_id submitted_task_sample = None"
  "t_condition submitted_task_sample = TcIdle" "t_release_id submitted_task_sample = None"
  "t_execution_queue submitted_task_sample = None" "t_continue_agent_id submitted_task_sample = None"
  "active_task submitted_task_sample" "t_review_summary submitted_task_sample = Some ''ok''"
  using new_task_rest[OF sample_new_task]
  by (simp_all add: submitted_task_sample_def active_task_def reviewed_task_def)

lemma sample_workspace: "acceptance_workspace sample_site dir default_acceptance_config = Inr sample_evidence"
  by (simp add: acceptance_workspace_def sample_site_def default_acceptance_config_def)

lemma acc_config_sample: "acc_config (t_acceptance submitted_task_sample) = default_acceptance_config"
  by (simp add: submitted_task_sample_def)

lemma sample_submission: "\<exists>sub. current_submission submitted_task_sample = Some sub \<and> rs_workspace sub = sample_evidence"
  by (simp add: current_submission_def submitted_task_sample_def)

lemma sample_review_acquire:
  assumes "t_assigned_agent_id t = None" and "t_execution_queue t = None" and "t_continue_agent_id t = None"
    and "t_project_id t = 1" and "t_release_id t = None"
  shows "\<exists>s'. acquire sample_world i sample_project default_profile (drawn (sample_runtime t []))
      = (Inr \<lparr>wg_agent = i, wg_retained = False, wg_group = None\<rparr>, s')
    \<and> rt_tasks s' = [(t_id t, t)] \<and> healthy sample_world s' \<and> coherent s'
    \<and> db_requests (st_db (rt_store s')) = [] \<and> rt_controls s' = []
    \<and> db_tasks (st_db (rt_store s')) = db_tasks (st_db (with_task t sample_store))"
proof -
  let ?s = "drawn (sample_runtime t [])"
  have quiet: "reap_orphan_writers sample_world ?s = ?s" by (simp add: reap_quiet exited_orphans_def)
  have owned: "\<not> board_agent_owned ?s i" using assms(1-3)
    by (simp add: board_agent_owned_def any_task_def hm_values_def board_task_owns_agent_def)
  have none: "linked_task ?s i = None" using assms(1)
    by (simp add: linked_task_def hm_values_def hm_get_def)
  have grp: "agent_coordinator_group ?s i = None" using assms(1)
    by (simp add: agent_coordinator_group_def hm_values_def hm_get_def)
  have rem: "rt_remote_runtime ?s = False" by (simp add: drawn_def sample_runtime_def)
  let ?lease = "\<lparr>wl_coordinator_group = None, wl_target = ''local'', wl_root = ''/p'', wl_unconfined = False\<rparr>"
  let ?db = "st_db (with_task t sample_store)"
  let ?st = "(with_task t sample_store)\<lparr>st_db := ?db\<lparr>db_writers := hm_insert i
    \<lparr>wr_lease = ?lease, wr_pid = None, wr_validator = False\<rparr> (db_writers ?db)\<rparr>\<rparr>"
  have sv: "reserve_writer i ?lease (with_task t sample_store) = (Inr (), ?st)"
    by (simp add: reserve_writer_def stmt_reserve_writer_def in_tx_healthy with_task_def sample_store_def
      empty_database_def hm_contains_def hm_get_def)
  have "acquire sample_world i sample_project default_profile ?s = (Inr \<lparr>wg_agent = i, wg_retained = False,
      wg_group = None\<rparr>, ?s\<lparr>rt_store := ?st, rt_writer_leases := hm_insert i ?lease []\<rparr>)"
    using owned none sv
    by (simp add: acquire_def acquire_for_group_def acquire_with_intent_def workspace_root_def is_remote_def
      remote_maintenance_active_def quiet Let_def writer_refusal_def writer_occupied_def hm_contains_def hm_get_def
      hm_values_def linked_task_allows_def with_store_def grp wanted_lease_def lease_target_def
      default_profile_def rem)
  moreover have "hm_ok (db_writers ?db)"
    by (simp add: with_task_def sample_store_def empty_database_def hm_ok_def)
  then have "db_ok (st_db ?st)"
    using db_ok_put_writers[OF db_ok_with_task, OF assms(4)] by (simp add: hm.invar_ins)
  moreover have "coherent (sample_runtime t [])" by simp
  ultimately show ?thesis
    by (auto simp: healthy_def coherent_def stored_task_def with_task_def sample_store_def empty_database_def)
qed

theorem accept_needs_current_evidence_witness:
  "\<forall>h. \<exists>u s'. acceptance_request sample_world h (\<lambda>_. sample_site) undisturbed (sample_edit (Transition 7 1 Accept))
       (sample_runtime submitted_task_sample []) = Some (Some ((Inr (RChanged u), None), s'))
     \<and> column u = Done \<and> hm_get (rt_tasks s') 7 = Some u"
proof
  fix h
  let ?op = "Transition 7 1 Accept"
  let ?rq = "sample_edit ?op"
  let ?s = "sample_runtime submitted_task_sample []"
  obtain s1 where acq: "acquire sample_world 1000 sample_project default_profile (drawn ?s)
      = (Inr \<lparr>wg_agent = 1000, wg_retained = False, wg_group = None\<rparr>, s1)"
    and s1: "rt_tasks s1 = [(7, submitted_task_sample)]" "healthy sample_world s1" "coherent s1"
      "db_requests (st_db (rt_store s1)) = []"
    using sample_review_acquire[of submitted_task_sample 1000] by auto
  obtain u where pr: "prepare_release_acceptance sample_world sample_site submitted_task_sample sample_project s1 = Inr u"
    using sample_submission
    by (auto simp: prepare_release_acceptance_def sample_workspace acc_config_sample user_transition_def
      transition_def check_revision_def ok_not_blank Let_def)
  then have u: "column u = Done" "t_id u = 7" "t_revision u = 2"
    by (auto elim!: prepare_release_acceptance_Ok)
  define plan where "plan = (plain_plan ''accept'' u)\<lparr>rp_guard := Some \<lparr>wg_agent = 1000, wg_retained = False, wg_group = None\<rparr>\<rparr>"
  have pl: "accept_plan sample_world (\<lambda>_. sample_site) id sample_project submitted_task_sample ?s = (Inr plan, drawn s1)"
    using acq pr by (simp add: accept_plan_def plan_def fresh_uuid_def)
  have np: "rp_next plan = u" "rp_launch plan = None" by (simp_all add: plan_def plain_plan_def)
  obtain changed s2 where cm: "commit_review sample_world ?rq id submitted_task_sample plan (drawn s1) = (Inr changed, s2)"
    using commit_review_healthy[of sample_world "drawn s1" submitted_task_sample plan ?rq] s1 u(2) np(1)
    by (auto simp: hm_get_def hm_contains_def)
  have ch: "changed = u" using commit_review_Ok(1)[OF cm] u(3) np(1) by simp
  let ?s' = "drop_review_guard sample_world plan s2"
  have "review_run sample_world h (\<lambda>_. sample_site) undisturbed ?rq sample_project submitted_task_sample ?s
      = ((Inr (RChanged u), None), ?s')"
    using pl cm ch np(2) by (simp add: review_run_def review_plan_of_def)
  moreover have "\<not> task_live ?s submitted_task_sample"
    by (simp add: task_live_def hm_contains_def hm_get_def)
  ultimately have r: "acceptance_request sample_world h (\<lambda>_. sample_site) undisturbed ?rq ?s = Some (Some ((Inr (RChanged u), None), ?s'))"
    by (subst review_sample_request) (simp_all add: acceptance_special_def acceptance_target_def acceptance_task_run_def)
  have k: "hm_ok (rt_tasks ?s)" "hm_keyed t_id (rt_tasks ?s)" by (simp_all add: hm_ok_def hm.keyed_by_def hm_get_def)
  have "\<exists>m. rt_tasks ?s' = hm_insert 7 u m"
    using accept_needs_current_evidence[OF _ _ r refl _ _ refl, of 7 1] k by auto
  then have "hm_get (rt_tasks ?s') 7 = Some u" by (auto simp: hm.get_ins)
  with r u(1) show "\<exists>u s'. acceptance_request sample_world h (\<lambda>_. sample_site) undisturbed ?rq ?s
      = Some (Some ((Inr (RChanged u), None), s')) \<and> column u = Done \<and> hm_get (rt_tasks s') 7 = Some u" by blast
qed

end
