(* ===== verification/Release_Facts.thy ===== *)
theory Release_Facts
  imports Review_Facts
begin

text \<open>
  A batch of tasks goes into a release as a whole: all of them are written, in memory and in the
  store, with the receipt of the request, or none is.
\<close>

section \<open>The store's batch\<close>

lemma write_released_change: "write_released c db = Inr db' \<Longrightarrow> write_change c db = Inr db'"
  by (auto simp: write_released_def Let_def split: option.splits if_splits)

lemma each_released_change: "each_stmt write_released cs db = Inr db' \<Longrightarrow> each_stmt write_change cs db = Inr db'"
  by (induction cs arbitrary: db) (auto simp: res_bind_Ok_iff dest: write_released_change)

lemma insert_release_tasks: "insert_release r db = Inr db' \<Longrightarrow> stored_task i db' = stored_task i db
    \<and> db_requests db' = db_requests db"
  by (auto simp: insert_release_def stored_task_def split: if_splits)

lemma save_release_batch_Ok:
  assumes "with_store (save_release_batch created cs rq resp) s = (Inr (), s')"
  shows "stored_task i (st_db (rt_store s')) = (case map_of (rev (List.map (\<lambda>(t, _). (t_id t, t)) cs)) i of
       Some t \<Rightarrow> Some t | None \<Rightarrow> stored_task i (st_db (rt_store s)))"
    and "hm_get (db_requests (st_db (rt_store s'))) (rq_request_id rq) = Some (rq, resp)"
    and "rt_tasks s' = rt_tasks s" "rt_releases s' = rt_releases s"
proof -
  from assms obtain st where s': "s' = s\<lparr>rt_store := st\<rparr>"
    and sv: "save_release_batch created cs rq resp (rt_store s) = (Inr (), st)" by (rule with_storeE)
  let ?body = "\<lambda>db. res_bind (case created of None \<Rightarrow> Inr db | Some r \<Rightarrow> insert_release r db) (\<lambda>db.
      res_bind (each_stmt write_released cs db) (insert_request rq resp))"
  have "in_tx ?body (rt_store s) = (Inr (), st)" using sv by (simp only: save_release_batch_def)
  then have "?body (st_db (rt_store s)) = Inr (st_db st)" using in_tx_Ok[of ?body "rt_store s" "()"] by simp
  then obtain db1 db2 where
    db1: "(case created of None \<Rightarrow> Inr (st_db (rt_store s)) | Some r \<Rightarrow> insert_release r (st_db (rt_store s))) = Inr db1"
    and db2: "each_stmt write_released cs db1 = Inr db2" and db3: "insert_request rq resp db2 = Inr (st_db st)"
    by (auto simp: res_bind_Ok_iff)
  have "stored_task i db1 = stored_task i (st_db (rt_store s))"
    using db1 by (auto split: option.splits dest: insert_release_tasks)
  moreover have "st_db st = db2\<lparr>db_requests := hm_insert (rq_request_id rq) (rq, resp) (db_requests db2)\<rparr>"
    using db3 by (auto simp: insert_request_def split: if_splits)
  then have "stored_task i (st_db st) = stored_task i db2"
    "hm_get (db_requests (st_db st)) (rq_request_id rq) = Some (rq, resp)"
    by (simp_all add: stored_task_def hm.get_ins)
  ultimately show "stored_task i (st_db (rt_store s')) = (case map_of (rev (List.map (\<lambda>(t, _). (t_id t, t)) cs)) i of
       Some t \<Rightarrow> Some t | None \<Rightarrow> stored_task i (st_db (rt_store s)))"
    "hm_get (db_requests (st_db (rt_store s'))) (rq_request_id rq) = Some (rq, resp)" "rt_tasks s' = rt_tasks s" "rt_releases s' = rt_releases s"
    using each_write_change_Ok[OF each_released_change[OF db2]] by (auto simp: s' split: option.splits)
qed

lemma save_release_batch_Err:
  assumes "with_store (save_release_batch created cs rq resp) s = (Inl e, s')"
  shows "st_db (rt_store s') = st_db (rt_store s)" "rt_tasks s' = rt_tasks s" "rt_releases s' = rt_releases s"
proof -
  from assms obtain st where s': "s' = s\<lparr>rt_store := st\<rparr>"
    and sv: "save_release_batch created cs rq resp (rt_store s) = (Inl e, st)" by (rule with_storeE)
  let ?body = "\<lambda>db. res_bind (case created of None \<Rightarrow> Inr db | Some r \<Rightarrow> insert_release r db) (\<lambda>db.
      res_bind (each_stmt write_released cs db) (insert_request rq resp))"
  have "in_tx ?body (rt_store s) = (Inl e, st)" using sv by (simp only: save_release_batch_def)
  then show "st_db (rt_store s') = st_db (rt_store s)" "rt_tasks s' = rt_tasks s" "rt_releases s' = rt_releases s"
    using in_tx_Err[of ?body "rt_store s" e] by (simp_all add: s')
qed

section \<open>The steps before the commit\<close>

definition chosen :: "project \<Rightarrow> bool \<Rightarrow> runtime \<Rightarrow> task_revision \<Rightarrow> task \<Rightarrow> bool" where
  "chosen p accepting s r t \<longleftrightarrow> hm_get (rt_tasks s) (tr_task_id r) = Some t \<and> t_project_id t = p_id p
     \<and> t_revision t = tr_expected_revision r \<and> \<not> task_live s t \<and> \<not> t_archived t
     \<and> column t = (if accepting then InReview else Done)"

lemma release_originals_Ok:
  "release_originals p accepting s ids rs = Inr ts \<Longrightarrow> list_all2 (chosen p accepting s) rs ts
     \<and> distinct (List.map tr_task_id rs) \<and> set ids \<inter> tr_task_id ` set rs = {}"
proof (induction rs arbitrary: ids ts)
  case (Cons r rs)
  from Cons.prems obtain t us where n: "tr_task_id r \<notin> set ids" and t: "chosen p accepting s r t"
    and us: "release_originals p accepting s (hs_insert (tr_task_id r) ids) rs = Inr us" and ts: "ts = t # us"
    by (auto simp: res_bind_Ok_iff opt_filter_Some_iff chosen_def split: if_splits)
  from Cons.IH[OF us] n t ts show ?case by (auto simp: set_hs_insert)
qed simp

text \<open>What an accepted task becomes: Done, on evidence that is current.\<close>

definition acceptable :: "site \<Rightarrow> project \<Rightarrow> task \<Rightarrow> bool" where
  "acceptable si p t \<longleftrightarrow> (\<exists>sub current. current_submission t = Some sub
     \<and> acceptance_workspace si (p_root p) (acc_config (t_acceptance t)) = Inr current
     \<and> we_fingerprint current = we_fingerprint (rs_workspace sub))"

definition released_as :: "(task_id \<Rightarrow> site) \<Rightarrow> project \<Rightarrow> bool \<Rightarrow> task \<Rightarrow> task \<Rightarrow> bool" where
  "released_as sites p accepting t u \<longleftrightarrow> t_id u = t_id t \<and> t_revision u = t_revision t + 1
     \<and> t_acceptance u = t_acceptance t
     \<and> (if accepting then column u = Done \<and> acceptable (sites (t_id t)) p t else column u = column t)"

lemma release_prepared_Ok:
  "release_prepared w sites p accepting s ts = Inr us \<Longrightarrow> list_all2 (released_as sites p accepting) ts us"
proof (induction ts arbitrary: us)
  case (Cons t ts)
  from Cons.prems obtain u vs where
    u: "(if accepting then prepare_release_acceptance w (sites (t_id t)) t p s else Inr (touch (w_now w) t)) = Inr u"
    and vs: "release_prepared w sites p accepting s ts = Inr vs" "us = u # vs" by (auto simp: res_bind_Ok_iff)
  have "released_as sites p accepting t u"
  proof (cases accepting)
    case True
    with u have "prepare_release_acceptance w (sites (t_id t)) t p s = Inr u" by simp
    then show ?thesis
      by (rule prepare_release_acceptance_Ok) (auto simp: released_as_def acceptable_def True)
  next
    case False with u show ?thesis by (auto simp: released_as_def)
  qed
  with Cons.IH[OF vs(1)] vs(2) show ?case by simp
qed simp

lemma release_unchanged_Ok: "release_unchanged s ts = Inr () \<Longrightarrow> t \<in> set ts \<Longrightarrow>
    \<exists>u. hm_get (rt_tasks s) (t_id t) = Some u \<and> t_revision u = t_revision t \<and> \<not> task_live s u"
  by (induction ts) (auto simp: res_bind_Ok_iff split: if_splits)

lemma released_changes_tasks:
  "length prepared = length originals \<Longrightarrow> List.map fst (released_changes w k accepting rid prepared originals)
     = List.map (\<lambda>t. t\<lparr>t_release_id := rid\<rparr>) prepared"
  by (rule nth_equalityI) (auto simp: released_changes_def released_change_def Let_def)

section \<open>The commit\<close>

text \<open>All a batch may write: the tasks and the releases, in memory and in the store, the audits and the
  receipts.\<close>

definition batch_part :: "runtime \<Rightarrow> (task_id, task) hmap \<times> (uuid, project_release) hmap \<times> (task_id, task_row) hmap
    \<times> task_audit list \<times> (uuid, project_release) hmap \<times> (uuid, task_request \<times> task_response) hmap" where
  "batch_part s = (let db = st_db (rt_store s) in
     (rt_tasks s, rt_releases s, db_tasks db, db_audits db, db_releases db, db_requests db))"

text \<open>The section under the last lock, for a batch of distinct tasks.\<close>

lemma release_commit_cases:
  assumes "release_commit w rq p accepting dest originals prepared s = (r, s')"
    and "task_replay rq (rt_store s) = None" and "length prepared = length originals"
    and "distinct (List.map t_id prepared)"
  obtains (refused) e where "r = Inl e" and "batch_part s' = batch_part s"
  | (committed) rid created releases where
      "r = Inr (RReleaseBatch (List.map (\<lambda>t. t\<lparr>t_release_id := rid\<rparr>) prepared) releases)"
      and "\<forall>t \<in> set prepared. hm_get (rt_tasks s') (t_id t) = Some (t\<lparr>t_release_id := rid\<rparr>)
        \<and> stored_task (t_id t) (st_db (rt_store s')) = Some (t\<lparr>t_release_id := rid\<rparr>)"
      and "\<forall>i. i \<notin> t_id ` set prepared \<longrightarrow> hm_get (rt_tasks s') i = hm_get (rt_tasks s) i"
      and "\<forall>i. i \<notin> t_id ` set prepared \<longrightarrow> stored_task i (st_db (rt_store s')) = stored_task i (st_db (rt_store s))"
      and "destination_release w p dest s = Inr (created, rid)"
      and "releases = (case created of None \<Rightarrow> [] | Some r \<Rightarrow> [r])"
      and "rt_releases s' = (case created of None \<Rightarrow> rt_releases s | Some r \<Rightarrow> hm_insert (rel_id r) r (rt_releases s))"
      and "hm_get (db_requests (st_db (rt_store s'))) (rq_request_id rq)
        = Some (rq, RReleaseBatch (List.map (\<lambda>t. t\<lparr>t_release_id := rid\<rparr>) prepared) releases)"
      and "release_unchanged s originals = Inr ()"
proof (cases "release_unchanged s originals")
  case (Inl e) with assms show ?thesis by (auto simp: release_commit_def intro: refused)
next
  case (Inr u)
  show ?thesis
  proof (cases "destination_release w p dest s")
    case (Inl e) with Inr assms show ?thesis by (auto simp: release_commit_def intro: refused)
  next
    case ir: (Inr cr)
    obtain created rid where cr: "cr = (created, rid)" by force
    define cs where "cs = released_changes w (Suc (rt_draws s)) accepting rid prepared originals"
    define resp where "resp = RReleaseBatch (List.map fst cs) (case created of None \<Rightarrow> [] | Some r \<Rightarrow> [r])"
    define s1 where "s1 = s\<lparr>rt_draws := Suc (rt_draws s) + length cs\<rparr>"
    have fs: "List.map fst cs = List.map (\<lambda>t. t\<lparr>t_release_id := rid\<rparr>) prepared"
      unfolding cs_def by (rule released_changes_tasks[OF assms(3)])
    obtain q s2 where sv: "with_store (save_release_batch created cs rq resp) s1 = (q, s2)" by fastforce
    define s3 where "s3 = (case created of None \<Rightarrow> s2
      | Some x \<Rightarrow> broadcast w (ReleaseCreated x) (s2\<lparr>rt_releases := hm_insert (rel_id x) x (rt_releases s2)\<rparr>))"
    have "release_commit w rq p accepting dest originals prepared s = (case q of
        Inl e \<Rightarrow> (Inl (storage_error e), s2) | Inr _ \<Rightarrow> (Inr resp, publish_tasks w cs s3))"
      using sv by (simp add: release_commit_def assms(2) Inr ir cr Let_def cs_def resp_def s1_def s3_def
        split: sum.splits)
    with assms(1) have out: "(r, s') = (case q of
        Inl e \<Rightarrow> (Inl (storage_error e), s2) | Inr _ \<Rightarrow> (Inr resp, publish_tasks w cs s3))" by simp
    show ?thesis
    proof (cases q)
      case (Inl e)
      with save_release_batch_Err[OF sv[unfolded Inl]] out show ?thesis
        by (intro refused) (auto simp: s1_def batch_part_def)
    next
      case iq: (Inr v)
      let ?K = "List.map (\<lambda>(t, _). (t_id t, t)) cs"
      have K: "List.map fst ?K = List.map t_id prepared"
        using arg_cong[OF fs, of "List.map t_id"] by (simp add: comp_def case_prod_beta)
      have in_K: "(t_id t, t\<lparr>t_release_id := rid\<rparr>) \<in> set ?K" if t: "t \<in> set prepared" for t
      proof -
        have "t\<lparr>t_release_id := rid\<rparr> \<in> set (List.map (\<lambda>t. t\<lparr>t_release_id := rid\<rparr>) prepared)"
          unfolding set_map by (rule imageI[OF t])
        then have "t\<lparr>t_release_id := rid\<rparr> \<in> set (List.map fst cs)" by (simp only: fs)
        then obtain c where c: "t\<lparr>t_release_id := rid\<rparr> = fst c" "c \<in> set cs"
          unfolding set_map by (rule imageE)
        have eq: "(\<lambda>(t, _). (t_id t, t)) c = (t_id t, t\<lparr>t_release_id := rid\<rparr>)"
          unfolding case_prod_beta c(1)[symmetric] by simp
        have "(\<lambda>(t, _). (t_id t, t)) c \<in> set ?K" using c(2) unfolding set_map by (rule imageI)
        then show ?thesis by (simp only: eq)
      qed
      have dist: "distinct (List.map fst (rev ?K))" unfolding rev_map[symmetric] distinct_rev K by (rule assms(4))
      have of_K: "map_of (rev ?K) (t_id t) = Some (t\<lparr>t_release_id := rid\<rparr>)" if "t \<in> set prepared" for t
        by (rule map_of_is_SomeI[OF dist]) (simp only: set_rev in_K[OF that])
      have not_K: "map_of (rev ?K) i = None" if "i \<notin> t_id ` set prepared" for i
      proof -
        have "fst ` set (rev ?K) = t_id ` set prepared" using arg_cong[OF K, of set] unfolding set_map set_rev .
        with that show ?thesis by (simp add: map_of_eq_None_iff)
      qed
      have v: "v = ()" by simp
      note sv' = save_release_batch_Ok[OF sv[unfolded iq v]]
      have s3: "rt_tasks s3 = rt_tasks s" "rt_store s3 = rt_store s2"
        "rt_releases s3 = (case created of None \<Rightarrow> rt_releases s | Some r \<Rightarrow> hm_insert (rel_id r) r (rt_releases s))"
        using sv'(3,4) by (auto simp: s3_def s1_def broadcast_def split: option.splits)
      have s': "r = Inr resp" "s' = publish_tasks w cs s3" using out iq by simp_all
      have resp: "resp = RReleaseBatch (List.map (\<lambda>t. t\<lparr>t_release_id := rid\<rparr>) prepared)
          (case created of None \<Rightarrow> [] | Some r \<Rightarrow> [r])" by (simp add: resp_def fs)
      show ?thesis
      proof (rule committed)
        show "r = Inr (RReleaseBatch (List.map (\<lambda>t. t\<lparr>t_release_id := rid\<rparr>) prepared)
          (case created of None \<Rightarrow> [] | Some r \<Rightarrow> [r]))" by (simp add: s' resp)
        show "\<forall>t \<in> set prepared. hm_get (rt_tasks s') (t_id t) = Some (t\<lparr>t_release_id := rid\<rparr>)
          \<and> stored_task (t_id t) (st_db (rt_store s')) = Some (t\<lparr>t_release_id := rid\<rparr>)"
          using of_K sv'(1) by (simp add: s'(2) publish_tasks_tasks hm_get_fold_tasks s3)
        show "\<forall>i. i \<notin> t_id ` set prepared \<longrightarrow> hm_get (rt_tasks s') i = hm_get (rt_tasks s) i"
          using not_K by (simp add: s'(2) publish_tasks_tasks hm_get_fold_tasks s3)
        show "\<forall>i. i \<notin> t_id ` set prepared \<longrightarrow> stored_task i (st_db (rt_store s')) = stored_task i (st_db (rt_store s))"
          using not_K sv'(1) by (simp add: s'(2) s3 s1_def)
        show "destination_release w p dest s = Inr (created, rid)" using ir cr by simp
        show "rt_releases s' = (case created of None \<Rightarrow> rt_releases s | Some r \<Rightarrow> hm_insert (rel_id r) r (rt_releases s))"
          by (simp add: s'(2) s3)
        show "hm_get (db_requests (st_db (rt_store s'))) (rq_request_id rq)
          = Some (rq, RReleaseBatch (List.map (\<lambda>t. t\<lparr>t_release_id := rid\<rparr>) prepared)
              (case created of None \<Rightarrow> [] | Some r \<Rightarrow> [r]))"
          using sv'(2) by (simp add: s'(2) s3 resp)
        show "release_unchanged s originals = Inr ()" using Inr by simp
      qed simp
    qed
  qed
qed

section \<open>The property\<close>

text \<open>Dropping the guard writes the reservations only.\<close>

lemma release_row_batch: "release_writer_row i st = (r, st') \<Longrightarrow> \<exists>ws. st_db st' = (st_db st)\<lparr>db_writers := ws\<rparr>"
  by (auto simp: release_writer_row_def in_tx_def Let_def split: if_splits intro: exI[of _ "db_writers (st_db st)"])

lemma drop_guard_batch: "batch_part (drop_guard w g s) = batch_part s"
  by (auto simp: batch_part_def drop_guard_def release_writer_def Let_def elim!: with_storeE dest!: release_row_batch
      split: sum.splits prod.splits option.splits)

lemma list_all2_ids:
  assumes "list_all2 (chosen p accepting s) rs ts" and "hm_keyed t_id (rt_tasks s)"
  shows "List.map t_id ts = List.map tr_task_id rs"
  using assms(1)
proof induction
  case (Cons r rs t ts)
  moreover have "t_id t = tr_task_id r" using Cons(1) assms(2) by (auto simp: chosen_def hm.keyed_by_def)
  ultimately show ?case by simp
qed simp

lemma released_ids: "list_all2 (released_as sites p accepting) ts us \<Longrightarrow> List.map t_id us = List.map t_id ts"
  by (induction rule: list_all2_induct) (auto simp: released_as_def)

text \<open>The moments of a request that accepts a batch: the states it reads from, with the writer reservation,
  with the captured evidence, and under the last lock.\<close>

definition acceptance_moments :: "world \<Rightarrow> release_others \<Rightarrow> project \<Rightarrow> nat \<Rightarrow> runtime \<Rightarrow>
    runtime \<times> runtime \<times> runtime \<times> runtime" where
  "acceptance_moments w x p n s = (let s0 = ro_read x s; s1 = ro_acquire x s0;
       s2 = snd (acquire w (fresh_uuid w s1) p default_profile (drawn s1)); s3 = ro_capture x s2
     in (s0, s2, s3, ro_commit x (s3\<lparr>rt_draws := rt_draws s3 + n\<rparr>)))"

text \<open>C6: a batch is accepted as a whole or not at all, whatever other threads do while the lock is free. A
  refused request has changed no task, release, audit or receipt, in memory or in the store: they are as at
  one of its moments, which only other threads and the reaping of dead writers reach. Otherwise an earlier
  service of the request answers; or every task named, found at the revision the user saw, under review
  and not live, and on evidence that is current while the writer reservation is held, is still at that
  revision and not live under the last lock, where all of them become Done in the one release, in memory
  and in the store, with the receipt, and no other task changes.\<close>

theorem release_all_or_nothing:
  assumes "release_request w sites x rq s = Some (r, s')" and "rq_operation rq = AcceptRelease refs dest"
    and p: "Option.bind (rq_project_id rq) (\<lambda>i. project_by_id i s) = Some p"
    and moments: "acceptance_moments w x p (length refs) s = (s0, s2, s3, s4)"
    and ok: "hm_ok (rt_tasks s0)" "hm_keyed t_id (rt_tasks s0)"
  shows "(\<exists>e. r = Inl e \<and> batch_part s' \<in> batch_part ` {s0, s2, s3, s4})
    \<or> (\<exists>t resp. t \<in> {s0, s4} \<and> task_replay rq (rt_store t) = Some resp \<and> r = Inr resp \<and> batch_part s' = batch_part t)
    \<or> (\<exists>originals accepted created rid resp. r = Inr resp
        \<and> resp = RReleaseBatch accepted (case created of None \<Rightarrow> [] | Some c \<Rightarrow> [c])
        \<and> list_all2 (chosen p True s0) refs originals
        \<and> list_all2 (released_as (sites s3) p True) originals accepted
        \<and> (\<forall>t \<in> set originals. \<exists>u. hm_get (rt_tasks s4) (t_id t) = Some u \<and> t_revision u = t_revision t \<and> \<not> task_live s4 u)
        \<and> destination_release w p dest s4 = Inr (created, rid)
        \<and> (\<forall>t \<in> set accepted. t_release_id t = rid \<and> hm_get (rt_tasks s') (t_id t) = Some t
             \<and> stored_task (t_id t) (st_db (rt_store s')) = Some t)
        \<and> (\<forall>i. i \<notin> tr_task_id ` set refs \<longrightarrow> hm_get (rt_tasks s') i = hm_get (rt_tasks s4) i
             \<and> stored_task i (st_db (rt_store s')) = stored_task i (st_db (rt_store s4)))
        \<and> rt_releases s' = (case created of None \<Rightarrow> rt_releases s4 | Some c \<Rightarrow> hm_insert (rel_id c) c (rt_releases s4))
        \<and> hm_get (db_requests (st_db (rt_store s'))) (rq_request_id rq) = Some (rq, resp))"
proof -
  define s1 where "s1 = ro_acquire x s0"
  have m: "s0 = ro_read x s" "s2 = snd (acquire w (fresh_uuid w s1) p default_profile (drawn s1))"
    "s3 = ro_capture x s2" "s4 = ro_commit x (s3\<lparr>rt_draws := rt_draws s3 + length refs\<rparr>)"
    using moments by (auto simp: acceptance_moments_def Let_def s1_def)
  have run: "release_batch w sites x rq p True refs dest s0 = (r, s')"
    using assms(1,2) p by (simp add: release_request_def Let_def m(1))
  define after where "after originals = (case acquire w (fresh_uuid w s1) p default_profile (drawn s1) of
           (Inl e, s') \<Rightarrow> (Inl (TaskError WorkspaceBusy e), s')
         | (Inr g, s') \<Rightarrow> (let s' = ro_capture x s' in
             case release_prepared w (sites s') p True s' originals of
               Inl e \<Rightarrow> (Inl e, drop_guard w g s')
             | Inr prepared \<Rightarrow>
                 (case release_commit w rq p True dest originals prepared
                         (ro_commit x (s'\<lparr>rt_draws := rt_draws s' + length originals\<rparr>)) of
                    (r, s2) \<Rightarrow> (r, drop_guard w g s2))))" for originals
  have "release_batch w sites x rq p True refs dest s0 = (case task_replay rq (rt_store s0) of Some resp \<Rightarrow> (Inr resp, s0) | None \<Rightarrow>
      if refs = [] \<or> 100 < length refs then (Inl (TaskError InvalidInput batch_size_message), s0)
      else (case release_originals p True s0 [] refs of Inl e \<Rightarrow> (Inl e, s0) | Inr originals \<Rightarrow> after originals))"
    by (simp only: release_batch_def after_def s1_def Let_def if_True)
  from run[unfolded this] consider (replay) resp where "task_replay rq (rt_store s0) = Some resp" "r = Inr resp" "s' = s0"
    | (early) e where "r = Inl e" "s' = s0"
    | (run) originals where "release_originals p True s0 [] refs = Inr originals" and "after originals = (r, s')"
    by (auto split: option.splits sum.splits if_splits)
  then show ?thesis
  proof cases
    case replay
    then show ?thesis by (intro disjI2[OF disjI1] exI[of _ s0] exI[of _ resp]) simp
  next
    case early
    then show ?thesis by (intro disjI1 exI[of _ e]) simp
  next
    case run
    note run = run(1) run(2)[unfolded after_def]
    note ro = release_originals_Ok[OF run(1)]
    have len_ro: "length originals = length refs" using ro list_all2_lengthD by fastforce
    obtain q where acq: "acquire w (fresh_uuid w s1) p default_profile (drawn s1) = (q, s2)"
      unfolding m(2) by (metis prod.collapse)
    show ?thesis
    proof (cases q)
      case (Inl e)
      with run(2) acq have "r = Inl (TaskError WorkspaceBusy e)" "s' = s2" by simp_all
      then show ?thesis by (intro disjI1 exI[of _ "TaskError WorkspaceBusy e"]) simp
    next
      case g: (Inr g)
      show ?thesis
      proof (cases "release_prepared w (sites s3) p True s3 originals")
        case (Inl e)
        with run(2) acq g have "r = Inl e" "s' = drop_guard w g s3" by (simp_all add: m(3)[symmetric] Let_def)
        then show ?thesis by (intro disjI1 exI[of _ e]) (simp add: drop_guard_batch)
      next
        case pr: (Inr prepared)
        obtain r4 s5 where cm: "release_commit w rq p True dest originals prepared s4 = (r4, s5)" by fastforce
        with run(2) acq g pr have out: "r = r4" "s' = drop_guard w g s5"
          by (simp_all add: m(3)[symmetric] m(4) len_ro Let_def)
        have tables: "batch_part s' = batch_part s5" by (simp add: out(2) drop_guard_batch)
        then have mem: "rt_tasks s' = rt_tasks s5" "rt_releases s' = rt_releases s5"
          "db_tasks (st_db (rt_store s')) = db_tasks (st_db (rt_store s5))"
          "db_requests (st_db (rt_store s')) = db_requests (st_db (rt_store s5))"
          by (simp_all add: batch_part_def Let_def)
        note ra = release_prepared_Ok[OF pr]
        have ids: "List.map t_id prepared = List.map tr_task_id refs"
          using released_ids[OF ra] list_all2_ids ro ok(2) by metis
        then have set_ids: "t_id ` set prepared = tr_task_id ` set refs" by (metis set_map)
        have len: "length prepared = length originals" using ra by (simp add: list_all2_lengthD)
        have dist: "distinct (List.map t_id prepared)" using ro ids by simp
        show ?thesis
        proof (cases "task_replay rq (rt_store s4)")
          case (Some resp)
          with cm have "r4 = Inr resp" "s5 = s4" by (auto simp: release_commit_def)
          with Some out(1) tables show ?thesis by (intro disjI2[OF disjI1] exI[of _ s4] exI[of _ resp]) simp
        next
          case None
          from cm None len dist show ?thesis
          proof (cases rule: release_commit_cases)
            case (refused e)
            then show ?thesis using out(1) tables by (intro disjI1 exI[of _ e]) simp
          next
            case (committed rid created releases)
            let ?acc = "List.map (\<lambda>t. t\<lparr>t_release_id := rid\<rparr>) prepared"
            have rel: "list_all2 (released_as (sites s3) p True) originals ?acc"
              using ra by (auto simp: list_all2_conv_all_nth released_as_def)
            have r: "r = Inr (RReleaseBatch ?acc releases)" using out(1) committed(1) by simp
            have sh: "RReleaseBatch ?acc releases = RReleaseBatch ?acc (case created of None \<Rightarrow> [] | Some c \<Rightarrow> [c])"
              by (simp only: committed(6))
            show ?thesis
              by (rule disjI2, rule disjI2, rule exI[of _ originals], rule exI[of _ ?acc], rule exI[of _ created],
                  rule exI[of _ rid], rule exI[of _ "RReleaseBatch ?acc releases"])
                (intro conjI, rule r, rule sh, use ro in blast, rule rel, use release_unchanged_Ok[OF committed(9)] in blast,
                 rule committed(5), use committed(2) in \<open>simp add: mem stored_task_def\<close>,
                 use committed(3,4) set_ids in \<open>simp add: mem stored_task_def\<close>,
                 simp only: mem committed(7), simp only: mem committed(8))
          qed
        qed
      qed
    qed
  qed
qed

section \<open>A batch of one task\<close>

definition sample_batch :: task_request where
  "sample_batch = sample_edit (AcceptRelease [\<lparr>tr_task_id = 7, tr_expected_revision = 1\<rparr>] Other)"

lemma save_release_batch_one:
  assumes "healthy w s" and "coherent s" and "hm_get (rt_tasks s) (t_id t) = Some u"
    and "\<exists>row. hm_get (db_tasks (st_db (rt_store s))) (t_id t) = Some row \<and> tk_project row = t_project_id t
      \<and> as_u64 (tk_revision row) + 1 = t_revision t"
    and "t_release_id t = None" and "au_task_id a = t_id t" and "au_id a = w_uuid w n"
    and "\<not> hm_contains (db_requests (st_db (rt_store s))) (rq_request_id rq)"
  shows "\<exists>s'. with_store (save_release_batch None [(t, a)] rq resp) s = (Inr (), s')"
proof -
  let ?db = "st_db (rt_store s)"
  have "stored_task (t_id t) ?db = Some u" using assms(2,3) by (simp add: coherent_def)
  then obtain db where "stmt_save [(t, a)] None [] ?db = Inr db"
    using stmt_save_one[of ?db t u "w_uuid w n" a] assms by (auto simp: healthy_def)
  then have e: "write_change (t, a) ?db = Inr db" by (auto simp: stmt_save_def res_bind_Ok_iff)
  then have "write_released (t, a) ?db = Inr db"
    using assms(4,5) by (auto simp: write_released_def Let_def opt_filter_def)
  moreover have "db_requests db = db_requests ?db" using write_change_Ok[OF e] by simp
  ultimately show ?thesis using assms(1,8)
    by (simp add: with_store_def save_release_batch_def in_tx_healthy healthy_def insert_request_def)
qed

definition batch_undisturbed :: release_others where
  "batch_undisturbed = \<lparr>ro_read = id, ro_acquire = id, ro_capture = id, ro_commit = id\<rparr>"

theorem release_all_or_nothing_witness:
  "\<exists>u s'. release_request sample_world (\<lambda>_ _. sample_site) batch_undisturbed sample_batch (sample_runtime submitted_task_sample [])
     = Some (Inr (RReleaseBatch [u] []), s')
   \<and> column u = Done \<and> hm_get (rt_tasks s') 7 = Some u"
proof -
  let ?s = "sample_runtime submitted_task_sample []"
  obtain s1 where acq: "acquire sample_world 1000 sample_project default_profile (drawn ?s)
      = (Inr \<lparr>wg_agent = 1000, wg_retained = False, wg_group = None\<rparr>, s1)"
    and s1: "rt_tasks s1 = [(7, submitted_task_sample)]" "healthy sample_world s1" "coherent s1"
      "db_requests (st_db (rt_store s1)) = []" "rt_controls s1 = []"
      "db_tasks (st_db (rt_store s1)) = db_tasks (st_db (with_task submitted_task_sample sample_store))"
    using sample_review_acquire[of submitted_task_sample 1000] by auto
  have live: "\<not> task_live x submitted_task_sample" if "rt_controls x = []" for x
    using that by (simp add: task_live_def hm_contains_def hm_get_def)
  obtain u where pr: "prepare_release_acceptance sample_world sample_site submitted_task_sample sample_project s1 = Inr u"
    and u0: "t_release_id u = None" "t_project_id u = 1"
    using sample_submission
    by (auto simp: prepare_release_acceptance_def sample_workspace acc_config_sample user_transition_def
      transition_def check_revision_def ok_not_blank Let_def)
  then have u: "column u = Done" "t_id u = 7" "t_revision u = 2"
    by (auto elim!: prepare_release_acceptance_Ok)
  have uu: "u\<lparr>t_release_id := None\<rparr> = u" using u0 by simp
  let ?s3 = "s1\<lparr>rt_draws := rt_draws s1 + 1\<rparr>"
  obtain a where a: "released_changes sample_world (Suc (rt_draws ?s3)) True None [u] [submitted_task_sample] = [(u, a)]"
    and au: "au_task_id a = 7" "au_id a = w_uuid sample_world (Suc (rt_draws ?s3))"
    by (auto simp: released_changes_def released_change_def uu u(2))
  let ?resp = "RReleaseBatch [u] []"
  let ?s4 = "?s3\<lparr>rt_draws := Suc (rt_draws ?s3) + 1\<rparr>"
  have hl: "healthy sample_world ?s4" "coherent ?s4" using s1(2,3) by (simp_all add: healthy_def coherent_def)
  obtain s5 where sv: "with_store (save_release_batch None [(u, a)] sample_batch ?resp) ?s4 = (Inr (), s5)"
    using save_release_batch_one[OF hl, of u submitted_task_sample a "Suc (rt_draws ?s3)" sample_batch ?resp]
      s1 u u0 au by (auto simp: hm_get_def with_task_def hm_contains_def as_u64_def as_i64_def)
  have "release_commit sample_world sample_batch sample_project True Other [submitted_task_sample] [u] ?s3
      = (Inr ?resp, publish_tasks sample_world [(u, a)] s5)"
    using a sv s1 live[of ?s3]
    by (simp add: release_commit_def task_replay_def hm_get_def destination_release_def Let_def check_revision_def)
  moreover have "release_originals sample_project True ?s [] [\<lparr>tr_task_id = 7, tr_expected_revision = 1\<rparr>]
      = Inr [submitted_task_sample]"
    using live[of ?s] by (simp add: hm_get_def opt_filter_def check_revision_def)
  moreover have "release_prepared sample_world (\<lambda>_. sample_site) sample_project True s1 [submitted_task_sample] = Inr [u]"
    using pr by simp
  moreover have "fresh_uuid sample_world ?s = 1000" by (simp add: fresh_uuid_def)
  ultimately have r: "release_request sample_world (\<lambda>_ _. sample_site) batch_undisturbed sample_batch ?s = Some (Inr ?resp,
      drop_guard sample_world \<lparr>wg_agent = 1000, wg_retained = False, wg_group = None\<rparr> (publish_tasks sample_world [(u, a)] s5))"
    using acq by (simp add: release_request_def release_batch_def sample_batch_def project_by_id_def
      project_by_def hm_values_def batch_undisturbed_def task_replay_def hm_get_def Let_def)
  have k: "hm_ok (rt_tasks ?s)" "hm_keyed t_id (rt_tasks ?s)" by (simp_all add: hm_ok_def hm.keyed_by_def hm_get_def)
  have m: "acceptance_moments sample_world batch_undisturbed sample_project (length [\<lparr>tr_task_id = 7, tr_expected_revision = 1\<rparr>]) ?s
      = (?s, s1, s1, ?s3)"
    using acq by (simp add: acceptance_moments_def batch_undisturbed_def fresh_uuid_def Let_def)
  have op: "rq_operation sample_batch = AcceptRelease [\<lparr>tr_task_id = 7, tr_expected_revision = 1\<rparr>] Other"
    and pj: "Option.bind (rq_project_id sample_batch) (\<lambda>i. project_by_id i ?s) = Some sample_project"
    by (simp_all add: sample_batch_def project_by_id_def project_by_def hm_values_def)
  have nr: "task_replay sample_batch (rt_store t) = None" if "t \<in> {?s, ?s3}" for t
    using that s1(4) by (auto simp: task_replay_def hm_get_def)
  let ?s' = "drop_guard sample_world \<lparr>wg_agent = 1000, wg_retained = False, wg_group = None\<rparr> (publish_tasks sample_world [(u, a)] s5)"
  have "hm_get (rt_tasks ?s') 7 = Some u"
    using release_all_or_nothing[OF r op pj m k] nr u(2) by auto
  with r u(1) show ?thesis by blast
qed

end
