(* ===== verification/Validator_Run.thy ===== *)
theory Validator_Run
  imports Acceptance_Runtime
begin

text \<open>
  The command validator of \<open>run_acceptance_validator\<close>, \<open>crates/ditchd/src/acceptance_runtime.rs\<close>: the
  loop that reads the App Server's lines until the command has ended, and what is kept of its
  output. Then the threads of the engine: a \<open>schedule\<close> gives, for every moment at which the engine
  looks outside, what other threads have done before it and what it sees.
\<close>

section \<open>Reading a command's answer\<close>

text \<open>A line of the App Server, as far as the loop distinguishes them.\<close>

datatype server_line =
    NoLine \<comment> \<open>nothing within 25 milliseconds\<close>
  | ReadError string
  | Disconnected
  | Noise
  | OutputDelta "string option" bool \<comment> \<open>the decoded bytes, whether the cap was reached\<close>
  | ExecReply "string option" "int option" string string \<comment> \<open>error, exit code, stdout, stderr\<close>

record exec_tick =
  tk_cancelled :: bool
  tk_late :: bool \<comment> \<open>the loop's deadline has passed\<close>
  tk_over :: bool \<comment> \<open>the command's own time is over\<close>
  tk_grace :: bool \<comment> \<open>two seconds have passed since the termination\<close>
  tk_terminate :: "(unit, string) result" \<comment> \<open>sending the termination\<close>
  tk_line :: server_line

record exec_state =
  ex_stopping :: bool
  ex_output :: string
  ex_truncated :: bool

definition exec_start :: exec_state where
  "exec_start = \<lparr>ex_stopping = False, ex_output = [], ex_truncated = False\<rparr>"

definition grace_message :: string where
  "grace_message = ''Validator stopped at timeout/cancellation; connection cleanup retains ownership until confirmed exit''"

definition stopped_message :: string where
  "stopped_message = ''Validator timeout/cancellation; incomplete commands are not automatically replayed''"

definition capped_note :: string where
  "capped_note = newline # ''[Output capped; sensitive lines redacted]''"

definition kept_output :: "host_env \<Rightarrow> bool \<Rightarrow> string \<Rightarrow> string" where
  "kept_output h truncated bytes = (let text = redact h (utf8_lossy bytes) in
     take_chars 4096 text @ (if truncated \<or> 4096 < length text then capped_note else []))"

definition i32_code :: "int option \<Rightarrow> int option" where
  "i32_code = opt_filter (\<lambda>v. - (2 ^ 31) \<le> v \<and> v < 2 ^ 31)"

text \<open>The answer of the command itself.\<close>

definition exec_reply :: "host_env \<Rightarrow> command_check \<Rightarrow> exec_state \<Rightarrow> int option \<Rightarrow> string \<Rightarrow> string \<Rightarrow>
    validator_evidence \<Rightarrow> (bool, string) result \<times> validator_evidence" where
  "exec_reply h c x code out err ev = (let
      bytes = ex_output x @ take 8192 out @ take 8192 err
    in (ok_or ''Validator terminated without a normal exit code''
          (map_option (\<lambda>v. v = cc_expected_exit c) (opt_filter (\<lambda>v. 0 \<le> v) (i32_code code))),
        ev\<lparr>ve_exit_code := i32_code code, ve_output := kept_output h (ex_truncated x) bytes\<rparr>))"

text \<open>
  One turn of the loop: an ending, or the state to go on with. \<open>stop\<close> says that this turn is the one
  that asks the command to terminate.
\<close>

definition exec_asks :: "exec_tick \<Rightarrow> exec_state \<Rightarrow> bool" where
  "exec_asks k x \<longleftrightarrow> \<not> ex_stopping x \<and> (tk_cancelled k \<or> tk_late k \<or> tk_over k)"

definition exec_marked :: "exec_tick \<Rightarrow> exec_state \<Rightarrow> validator_evidence \<Rightarrow> validator_evidence" where
  "exec_marked k x ev = (if exec_asks k x \<and> (tk_cancelled k \<or> tk_late k)
     then ev\<lparr>ve_status := CkCancelled\<rparr> else ev)"

definition exec_delta :: "exec_state \<Rightarrow> string \<Rightarrow> bool \<Rightarrow> exec_state" where
  "exec_delta x bytes cap = (let remaining = 16384 - length (ex_output x) in
     x\<lparr>ex_output := ex_output x @ take remaining bytes,
       ex_truncated := (ex_truncated x \<or> remaining < length bytes \<or> cap)\<rparr>)"

definition exec_line :: "host_env \<Rightarrow> command_check \<Rightarrow> server_line \<Rightarrow> exec_state \<Rightarrow> validator_evidence \<Rightarrow>
    ((bool, string) result \<times> validator_evidence) + exec_state" where
  "exec_line h c line x ev = (case line of
      NoLine \<Rightarrow> Inr x
    | ReadError e \<Rightarrow> Inl (Err e, ev)
    | Disconnected \<Rightarrow> Inl (Err ''Validator connection closed'', ev)
    | Noise \<Rightarrow> Inr x
    | OutputDelta None _ \<Rightarrow> Inl (Err ''Invalid validator output encoding'', ev)
    | OutputDelta (Some bytes) cap \<Rightarrow> Inr (exec_delta x bytes cap)
    | ExecReply (Some e) _ _ _ \<Rightarrow> Inl (Err (''Validator infrastructure: '' @ e), ev)
    | ExecReply None code out err \<Rightarrow> Inl
        (if ex_stopping x then (Err stopped_message, ev) else exec_reply h c x code out err ev))"

text \<open>\<open>None\<close>: after the given turns the command has not ended.\<close>

fun exec_loop :: "host_env \<Rightarrow> command_check \<Rightarrow> exec_tick list \<Rightarrow> exec_state \<Rightarrow> validator_evidence \<Rightarrow>
    ((bool, string) result \<times> validator_evidence) option" where
  "exec_loop h c [] x ev = None"
| "exec_loop h c (k # ks) x0 ev0 = (let ev = exec_marked k x0 ev0;
       x = (if exec_asks k x0 then x0\<lparr>ex_stopping := True\<rparr> else x0)
     in case (if exec_asks k x0 then tk_terminate k else Ok ()) of
          Inl e \<Rightarrow> Some (Err e, ev)
        | Inr _ \<Rightarrow>
            if ex_stopping x \<and> tk_grace k then Some (Err grace_message, ev)
            else (case exec_line h c (tk_line k) x ev of
                Inl r \<Rightarrow> Some r | Inr x \<Rightarrow> exec_loop h c ks x ev))"

section \<open>Evidence\<close>

definition new_evidence :: "time \<Rightarrow> acceptance_criterion \<Rightarrow> validator_evidence" where
  "new_evidence now c = \<lparr>ve_criterion = c, ve_status = CkInfrastructureError, ve_command = None,
     ve_started_at = now, ve_duration_ms = 0, ve_exit_code = None, ve_output = []\<rparr>"

definition validator_command :: "(string \<times> command_check) list \<Rightarrow> acceptance_criterion \<Rightarrow>
    command_check option" where
  "validator_command presets c = (case ac_kind c of
      Command cmd \<Rightarrow> Some cmd
    | TestPreset name \<Rightarrow> map_of presets name
    | _ \<Rightarrow> None)"

text \<open>The criteria without a command.\<close>

definition plain_check :: "site \<Rightarrow> path \<Rightarrow> workspace_evidence \<Rightarrow> acceptance_criterion \<Rightarrow>
    validator_evidence \<Rightarrow> (bool, string) result \<times> validator_evidence" where
  "plain_check si dir e c ev = (case ac_kind c of
      Human \<Rightarrow> (Ok True, ev\<lparr>ve_status := CkHumanReview, ve_output := ''Requires explicit human review''\<rparr>)
    | AgentAssertion \<Rightarrow> (Ok True, ev\<lparr>ve_status := CkAssertion,
        ve_output := ''Supporting assertion only; not an automatic acceptance check''\<rparr>)
    | File p predicate \<Rightarrow> (file_check si dir p predicate, ev)
    | Git predicate \<Rightarrow> (git_check predicate e, ev)
    | _ \<Rightarrow> (Err ''Project-approved test preset is missing'', ev))"

definition judged :: "bool \<Rightarrow> check_status \<Rightarrow> check_status" where
  "judged passed st = (if st = CkHumanReview \<or> st = CkAssertion then st
     else if passed then CkPassed else CkFailed)"

definition finished_evidence :: "host_env \<Rightarrow> nat \<Rightarrow> acceptance_criterion \<Rightarrow>
    (bool, string) result \<times> validator_evidence \<Rightarrow> validator_evidence" where
  "finished_evidence h ms c = (\<lambda>(r, ev). (case r of
      Inr passed \<Rightarrow> ev\<lparr>ve_status := judged passed (ve_status ev),
        ve_output := (if ve_output ev = []
          then he_show_kind h (ac_kind c) @ '': '' @ (if passed then ''passed'' else ''failed'')
          else ve_output ev)\<rparr>
    | Inl e \<Rightarrow> ev\<lparr>ve_output := take_chars 4096 (redact h e)\<rparr>)\<lparr>ve_duration_ms := ms\<rparr>)"

section \<open>Threads\<close>

text \<open>
  A moment is one look at the world outside the engine's thread: \<open>mo_others\<close> is what other threads
  have done to the state since the last one. \<open>mo_launch\<close> and \<open>mo_stop\<close> are the start of a worker's
  session and \<open>stop_agent\<close>, which this development does not model; \<open>mo_wake\<close> says whether the wait for
  the worker ended with a message.
\<close>

record moment =
  mo_world :: world
  mo_others :: "runtime \<Rightarrow> runtime"
  mo_late :: bool
  mo_site :: site
  mo_launch :: "string \<Rightarrow> runtime \<Rightarrow> (unit, string) result \<times> runtime"
  mo_stop :: "agent_id \<Rightarrow> runtime \<Rightarrow> runtime"
  mo_wake :: bool
  mo_client :: "(int, string) result" \<comment> \<open>the process of a new App Server connection\<close>
  mo_send :: "(unit, string) result"
  mo_ticks :: "exec_tick list"
  mo_ms :: nat

type_synonym schedule = "nat \<Rightarrow> moment"

text \<open>
  The ways a cycle ends without a result: the engine's own errors, with their code; a panic of its
  thread; and a wait that had not ended when the turns given to it were used up.
\<close>

datatype stop = Stop string string | Panic | Waiting

type_synonym 'a cyc = "nat \<times> runtime \<Rightarrow> ('a, stop) result \<times> nat \<times> runtime"

definition creturn :: "'a \<Rightarrow> 'a cyc" where
  "creturn a x = (Inr a, x)"

definition cstop :: "stop \<Rightarrow> 'a cyc" where
  "cstop e x = (Inl e, x)"

definition cbind :: "'a cyc \<Rightarrow> ('a \<Rightarrow> 'b cyc) \<Rightarrow> 'b cyc" where
  "cbind m f x = (case m x of (Inl e, y) \<Rightarrow> (Inl e, y) | (Inr a, y) \<Rightarrow> f a y)"

text \<open>A section under the lock, or an observation: the others go first.\<close>

definition locked :: "schedule \<Rightarrow> (moment \<Rightarrow> runtime \<Rightarrow> ('a, stop) result \<times> runtime) \<Rightarrow> 'a cyc" where
  "locked sch f = (\<lambda>(k, s). case f (sch k) (mo_others (sch k) s) of (r, s') \<Rightarrow> (r, Suc k, s'))"

definition observe :: "schedule \<Rightarrow> (moment \<Rightarrow> runtime \<Rightarrow> 'a) \<Rightarrow> 'a cyc" where
  "observe sch f = locked sch (\<lambda>m s. (Inr (f m s), s))"

definition cwhen :: "bool \<Rightarrow> stop \<Rightarrow> unit cyc" where
  "cwhen b e = (if b then cstop e else creturn ())"

definition infra :: "string \<Rightarrow> stop" where
  "infra message = Stop ''validator_infrastructure'' message"

definition of_result :: "('a, string) result \<Rightarrow> ('a, stop) result" where
  "of_result r = map_err infra r"

definition lift_res :: "('a, stop) result \<Rightarrow> 'a cyc" where
  "lift_res r x = (r, x)"

section \<open>Running a validator\<close>

text \<open>The flag of the loop of a task, shared with its control.\<close>

definition loop_cancelled :: "task_id \<Rightarrow> runtime \<Rightarrow> bool" where
  "loop_cancelled tid s = is_some_and (hm_get (rt_controls s) tid) co_cancelled"

text \<open>The process of the validator is recorded with the reservation of the loop's owner.\<close>

definition record_validator :: "task_id \<Rightarrow> int \<Rightarrow> runtime \<Rightarrow> (unit, string) result \<times> runtime" where
  "record_validator tid pid s = (case hm_get (rt_controls s) tid of
      None \<Rightarrow> (Err ''Validator has no active owner'', s)
    | Some c \<Rightarrow> (case with_store (validator_started (co_owner c) pid) s of
          (Inl e, s') \<Rightarrow> (Err (store_message e), s')
        | (Inr _, s') \<Rightarrow> (Ok (), s'\<lparr>rt_validator_owners := hs_insert (co_owner c) (rt_validator_owners s')\<rparr>)))"

type_synonym checked = "(bool, string) result \<times> validator_evidence"

text \<open>An error of a step is the result of the check; the loop goes on to record it.\<close>

definition ctry :: "('a, string) result cyc \<Rightarrow> validator_evidence \<Rightarrow> ('a \<Rightarrow> checked cyc) \<Rightarrow> checked cyc" where
  "ctry m ev f = cbind m (\<lambda>r. case r of Inl e \<Rightarrow> creturn (Err e, ev) | Inr a \<Rightarrow> f a)"

definition not_dispatched :: string where
  "not_dispatched = ''Validation cancelled before command dispatch''"

definition run_command :: "schedule \<Rightarrow> host_env \<Rightarrow> task_id \<Rightarrow> project \<Rightarrow> command_check \<Rightarrow>
    validator_evidence \<Rightarrow> checked cyc" where
  "run_command sch h tid p c ev =
     ctry (observe sch (\<lambda>m s. contained (mo_site m) (p_root p) (cc_cwd c))) ev (\<lambda>_.
     ctry (observe sch (\<lambda>m s. mo_client m)) ev (\<lambda>pid.
     ctry (locked sch (\<lambda>m s. (case record_validator tid pid s of (r, s') \<Rightarrow> (Ok r, s')))) ev (\<lambda>_.
     cbind (observe sch (\<lambda>m s. loop_cancelled tid s \<or> mo_late m)) (\<lambda>stop.
       if stop then creturn (Err not_dispatched, ev\<lparr>ve_status := CkCancelled\<rparr>)
       else ctry (observe sch (\<lambda>m s. mo_send m)) ev (\<lambda>_.
         cbind (observe sch (\<lambda>m s. exec_loop h c (mo_ticks m) exec_start ev)) (\<lambda>r.
           case r of None \<Rightarrow> cstop Waiting | Some x \<Rightarrow> creturn x))))))"

definition run_validator :: "schedule \<Rightarrow> host_env \<Rightarrow> task_id \<Rightarrow> project \<Rightarrow>
    (string \<times> command_check) list \<Rightarrow> workspace_evidence \<Rightarrow> acceptance_criterion \<Rightarrow> validator_evidence cyc" where
  "run_validator sch h tid p presets e c =
     cbind (observe sch (\<lambda>m s. new_evidence (w_now (mo_world m)) c)) (\<lambda>ev.
     cbind (case validator_command presets c of
         Some cmd \<Rightarrow> run_command sch h tid p cmd (ev\<lparr>ve_command := Some cmd\<rparr>)
       | None \<Rightarrow> observe sch (\<lambda>m s. plain_check (mo_site m) (p_root p) e c ev)) (\<lambda>r.
     observe sch (\<lambda>m s. finished_evidence h (mo_ms m) c r)))"

end
