(* ===== verification/Cycle_Relations.thy ===== *)
theory Cycle_Relations
  imports Acceptance_Cycle
begin

text \<open>
  What a loop does to the state, whatever other threads do in between. The locale \<open>thread_relation\<close>
  lifts a preorder to sequences of sections; \<open>cycle_sections\<close> names the sections of the loop of one
  task, so that a relation they have, and the other threads have, is one the whole thread has.
\<close>

section \<open>Relations of sequences\<close>

definition related :: "(nat \<times> runtime \<Rightarrow> nat \<times> runtime \<Rightarrow> bool) \<Rightarrow> 'a cyc \<Rightarrow> bool" where
  "related R m \<longleftrightarrow> (\<forall>x. R x (snd (m x)))"

lemma relatedD: "related R m \<Longrightarrow> m x = (r, y) \<Longrightarrow> R x y"
  unfolding related_def by (metis snd_conv)

locale thread_relation =
  fixes R :: "nat \<times> runtime \<Rightarrow> nat \<times> runtime \<Rightarrow> bool"
  assumes R_refl: "R x x" and R_trans: "R x y \<Longrightarrow> R y z \<Longrightarrow> R x z"
begin

lemma related_return: "related R (creturn a)"
  by (simp add: related_def creturn_def R_refl)

lemma related_stop: "related R (cstop e)"
  by (simp add: related_def cstop_def R_refl)

lemma related_lift: "related R (lift_res r)"
  by (simp add: related_def lift_res_def R_refl)

lemma related_when: "related R (cwhen b e)"
  by (simp add: cwhen_def related_return related_stop)

lemma related_bind: "related R m \<Longrightarrow> (\<And>a. related R (f a)) \<Longrightarrow> related R (cbind m f)"
  unfolding related_def cbind_def
  by (auto split: prod.split sum.split) (metis R_trans snd_conv)+

lemma related_locked: "(\<And>k s. R (k, s) (Suc k, snd (f (sch k) (mo_others (sch k) s)))) \<Longrightarrow> related R (locked sch f)"
  by (auto simp: related_def locked_def split: prod.split) (metis snd_conv)

lemma related_observe: "(\<And>k s. R (k, s) (Suc k, mo_others (sch k) s)) \<Longrightarrow> related R (observe sch f)"
  unfolding observe_def by (rule related_locked) simp

lemma related_try: "related R m \<Longrightarrow> (\<And>a. related R (f a)) \<Longrightarrow> related R (ctry m ev f)"
  unfolding ctry_def by (rule related_bind) (auto intro: related_return split: sum.split)

lemmas related_plain = related_return related_stop related_lift related_when

end

text \<open>Time: every section takes a moment.\<close>

interpretation time: thread_relation "\<lambda>x y. fst x \<le> fst y"
  by unfold_locales auto

definition forward :: "'a cyc \<Rightarrow> bool" where
  "forward m \<longleftrightarrow> related (\<lambda>x y. fst x \<le> fst y) m"

lemma forwardD: "forward m \<Longrightarrow> m x = (r, y) \<Longrightarrow> fst x \<le> fst y"
  unfolding forward_def by (rule relatedD)

lemma forward_locked: "forward (locked sch f)"
  unfolding forward_def by (rule time.related_locked) simp

lemma forward_observe: "forward (observe sch f)"
  unfolding forward_def by (rule time.related_observe) simp

lemmas forward_intros = forward_locked forward_observe time.related_plain[folded forward_def]
  time.related_bind[folded forward_def] time.related_try[folded forward_def]

section \<open>The sections of a loop\<close>

text \<open>What other threads, the start of a worker and its stop do is in the relation too.\<close>

definition surroundings :: "(runtime \<Rightarrow> runtime \<Rightarrow> bool) \<Rightarrow> schedule \<Rightarrow> bool" where
  "surroundings Q sch \<longleftrightarrow> (\<forall>k s p i. Q s (mo_others (sch k) s) \<and> Q s (snd (mo_launch (sch k) p s))
     \<and> Q s (mo_stop (sch k) i s))"

definition keeps_all :: "(runtime \<Rightarrow> runtime \<Rightarrow> bool) \<Rightarrow> schedule \<Rightarrow> 'a cyc \<Rightarrow> bool" where
  "keeps_all Q sch m \<longleftrightarrow> (surroundings Q sch \<longrightarrow> related (\<lambda>x y. Q (snd x) (snd y)) m)"

lemma keeps_allD: "keeps_all Q sch m \<Longrightarrow> surroundings Q sch \<Longrightarrow> m x = (r, y) \<Longrightarrow> Q (snd x) (snd y)"
  unfolding keeps_all_def by (auto dest: relatedD)

locale cycle_sections =
  fixes Q :: "runtime \<Rightarrow> runtime \<Rightarrow> bool" and tid :: task_id
  assumes Q_refl: "Q s s" and Q_trans: "Q s s' \<Longrightarrow> Q s' s'' \<Longrightarrow> Q s s''"
    and Q_draws: "Q s (s\<lparr>rt_draws := n\<rparr>)" and Q_signals: "Q s (s\<lparr>rt_signals := xs\<rparr>)"
    and Q_attempt: "Q s (snd (attempt_update w h tid a s))"
    and Q_owner: "ce_task e = tid \<Longrightarrow> Q s (snd (retry_owner w e i s))"
    and Q_validator: "Q s (snd (record_validator tid pid s))"
    and Q_stopped: "Q s (snd (stopped_writer i s))"
    and Q_submit: "ce_task e = tid \<Longrightarrow> Q s (snd (submit_review w e i a v s))"
    and Q_block: "Q s (acceptance_block w h tid code message s)"
    and Q_end: "Q s (end_acceptance w tid s)"
begin

sublocale thread_relation "\<lambda>x y. Q (snd x) (snd y)"
  by unfold_locales (auto intro: Q_refl Q_trans)

lemma all_locked:
  assumes "\<And>k s. surroundings Q sch \<Longrightarrow> Q s (snd (f (sch k) s))"
  shows "keeps_all Q sch (locked sch f)"
  unfolding keeps_all_def
proof (intro impI related_locked, unfold snd_conv)
  fix k s assume q: "surroundings Q sch"
  then have "Q s (mo_others (sch k) s)" by (simp add: surroundings_def)
  then show "Q s (snd (f (sch k) (mo_others (sch k) s)))" using assms[OF q] by (rule Q_trans)
qed

lemma all_observe: "keeps_all Q sch (observe sch f)"
  unfolding observe_def by (rule all_locked) (simp add: Q_refl)

lemma all_plain: "keeps_all Q sch (creturn a)" "keeps_all Q sch (cstop x)" "keeps_all Q sch (cwhen b x)"
    "keeps_all Q sch (lift_res r)"
  by (simp_all add: keeps_all_def related_plain)

lemma all_bind: "keeps_all Q sch m \<Longrightarrow> (\<And>a. keeps_all Q sch (f a)) \<Longrightarrow> keeps_all Q sch (cbind m f)"
  unfolding keeps_all_def by (blast intro: related_bind)

lemma all_try: "keeps_all Q sch m \<Longrightarrow> (\<And>a. keeps_all Q sch (f a)) \<Longrightarrow> keeps_all Q sch (ctry m ev f)"
  unfolding keeps_all_def by (blast intro: related_try)

lemma all_if: "(b \<Longrightarrow> keeps_all Q sch m) \<Longrightarrow> (\<not> b \<Longrightarrow> keeps_all Q sch m') \<Longrightarrow> keeps_all Q sch (if b then m else m')"
  by simp

lemmas all_intros = all_bind all_try all_plain all_observe all_if

text \<open>A section whose effect on the state is that of a known operation.\<close>

lemma snd_cases: "Q s (snd p) \<Longrightarrow> Q s (snd (case p of (r, s') \<Rightarrow> (f r, s')))"
  by (cases p) simp

lemma all_attempt: "ce_task e = tid \<Longrightarrow> keeps_all Q sch (record_attempt sch e a)"
  unfolding record_attempt_def by (intro all_locked snd_cases) (simp add: Q_attempt)

lemma all_queue: "ce_task e = tid \<Longrightarrow> keeps_all Q sch (queue_attempt sch e n ls)"
  unfolding queue_attempt_def attempt_gate_def capture_workspace_def stop_at_boundary_def draw_attempt_def Let_def
  by (intro all_intros all_attempt) (auto intro!: all_locked simp: Q_refl Q_owner Q_draws drawn_def)

lemma all_launch: "keeps_all Q sch (launch_worker sch a)"
  unfolding launch_worker_def
  by (intro all_bind all_locked snd_cases) (auto simp: surroundings_def split: sum.split intro: all_plain)

lemma all_await: "keeps_all Q sch (await_worker sch e i n)"
  by (induction n) (auto intro!: all_intros all_locked simp: surroundings_def)

lemma all_clear: "keeps_all Q sch (clear_attempt_group sch i)"
  unfolding clear_attempt_group_def
  by (intro all_intros all_locked) (simp_all add: Q_refl Q_signals Q_stopped)

lemma all_work: "ce_task e = tid \<Longrightarrow> keeps_all Q sch (work sch e i a)"
  unfolding work_def Let_def
  by (intro all_intros all_launch all_attempt all_await all_clear all_locked) (simp_all add: Q_refl)

lemma all_validator: "t = tid \<Longrightarrow> keeps_all Q sch (run_validator sch h t p presets v c)"
proof -
  assume t: "t = tid"
  have "keeps_all Q sch (case r of None \<Rightarrow> cstop Waiting | Some x \<Rightarrow> creturn x)" for r :: "checked option"
    by (auto intro: all_plain split: option.split)
  then have "keeps_all Q sch (run_command sch h t p cmd ev)" for cmd ev
    unfolding run_command_def t by (intro all_intros all_locked snd_cases Q_validator)
  then show ?thesis unfolding run_validator_def by (intro all_intros) (auto intro: all_observe split: option.split)
qed

lemma all_validators: "ce_task e = tid \<Longrightarrow> keeps_all Q sch (run_validators sch e v cs a)"
  by (induction cs arbitrary: a) (auto simp: Let_def intro!: all_intros all_attempt all_validator)

lemma all_validate: "ce_task e = tid \<Longrightarrow> keeps_all Q sch (validate_attempt sch e i a)"
  unfolding validate_attempt_def capture_workspace_def draw_criteria_def Let_def
  by (intro all_intros all_attempt all_validators all_clear all_locked) (simp_all add: Q_draws)

lemma all_verdict: "ce_task e = tid \<Longrightarrow> keeps_all Q sch (verdict sch e n ls i a v)"
  unfolding verdict_def end_attempt_def Let_def
  by (intro all_intros all_attempt all_locked) (simp_all add: Q_submit)

lemma all_run: "ce_task e = tid \<Longrightarrow> keeps_all Q sch (run_attempt sch e n ls)"
  unfolding run_attempt_def
  by (intro all_bind all_queue) (auto intro!: all_bind all_work all_validate all_verdict split: prod.split)

lemma all_attempts: "ce_task e = tid \<Longrightarrow> keeps_all Q sch (run_attempts sch e n m ls)"
  by (induction sch e n m ls rule: run_attempts.induct)
     (auto intro!: all_bind all_run all_plain split: option.split)

lemma all_cycle: "t_id (lt_task lt) = tid \<Longrightarrow> keeps_all Q sch (acceptance_cycle sch h fuel lt)"
  unfolding acceptance_cycle_def Let_def
  by (intro all_intros all_attempts all_locked) (simp_all add: Q_refl Q_draws drawn_def)

text \<open>A panic ends the thread where it is; the last two sections follow every other ending.\<close>

lemma thread_keeps:
  assumes "t_id (lt_task lt) = tid" and q: "surroundings Q sch"
    and "acceptance_thread sch h fuel lt (k, s) = (r, k', s')"
  shows "Q s s'"
proof -
  obtain r1 y where c: "acceptance_cycle sch h fuel lt (k, s) = (r1, y)" by (metis prod.exhaust)
  then have s1: "Q s (snd y)" using all_cycle[OF assms(1), of sch h fuel] q
    by (auto simp: keeps_all_def dest: relatedD)
  let ?finish = "locked sch (\<lambda>m s. (Ok (), end_acceptance (mo_world m) tid s))"
  let ?block = "\<lambda>code message. locked sch (\<lambda>m s. (Ok (), acceptance_block (mo_world m) h tid code message s))"
  have sections: "keeps_all Q sch ?finish" "keeps_all Q sch (cbind (?block code message) (\<lambda>_. ?finish))" for code message
    by (intro all_intros all_locked; simp add: Q_end Q_block)+
  have step: "Q (snd y) s'" if "keeps_all Q sch m" "m y = (r, k', s')" for m :: "unit cyc"
    using relatedD[OF that(1)[unfolded keeps_all_def, rule_format, OF q] that(2)] by simp
  have "Q (snd y) s'"
  proof (cases r1)
    case (Inr u)
    with assms(1,3) c have "?finish y = (r, k', s')" by (simp add: acceptance_thread_def)
    then show ?thesis by (rule step[OF sections(1)])
  next
    case (Inl e)
    show ?thesis
    proof (cases e)
      case (Stop code message)
      with assms(1,3) c Inl have "cbind (?block code message) (\<lambda>_. ?finish) y = (r, k', s')"
        by (simp add: acceptance_thread_def)
      then show ?thesis by (rule step[OF sections(2)])
    qed (use assms c Inl in \<open>simp_all add: acceptance_thread_def Q_refl\<close>)
  qed
  with s1 show ?thesis by (rule Q_trans)
qed

end

end
