(* ===== verification/Cycle_Invariants.thy ===== *)
theory Cycle_Invariants
  imports Cycle_Relations Review_Facts Plan_Slots Board_Properties
begin

text \<open>
  What the loop of a task keeps, whatever the other threads do as long as they keep it too. The
  locale \<open>loop_relation\<close> says which effects the loop's sections are made of; its interpretations are the
  relations of the store, of the tasks in memory, of the reservations, of the running plans, of the
  attempts that have ended and of what only users decide.
\<close>

section \<open>Effects of the loop\<close>

text \<open>A version of the loop's task: a new one is Done only if the old one is.\<close>

definition loop_change :: "task \<Rightarrow> task \<Rightarrow> bool" where
  "loop_change old t \<longleftrightarrow> t_id t = t_id old \<and> t_planning t = t_planning old
     \<and> keeps_ended (acc_attempts (t_acceptance old)) (acc_attempts (t_acceptance t))
     \<and> (column t = Done \<longrightarrow> column old = Done)"

locale loop_relation =
  fixes Q :: "runtime \<Rightarrow> runtime \<Rightarrow> bool" and tid :: task_id
  assumes step_refl: "Q s s" and step_trans: "Q s s' \<Longrightarrow> Q s' s'' \<Longrightarrow> Q s s''"
    and step_frame: "rt_tasks s' = rt_tasks s \<Longrightarrow> rt_store s' = rt_store s \<Longrightarrow>
      rt_writer_leases s' = rt_writer_leases s \<Longrightarrow> Q s s'"
    and step_save: "(tasks_ok s \<Longrightarrow> \<exists>old. hm_get (rt_tasks s) tid = Some old \<and> loop_change old t) \<Longrightarrow>
      Q s (snd (acceptance_save w h t action s))"
    and step_attention: "Q s (task_attention w t s)"
    and step_move: "Q s (snd (move_lease old new s))"
    and step_release: "Q s (release_writer w i s)"
    and step_started: "with_store (validator_started i pid) s = (r, s') \<Longrightarrow> Q s s'"
    and step_stopped: "with_store (writer_stopped i) s = (r, s') \<Longrightarrow> Q s s'"
begin

lemma saved:
  assumes "acceptance_save w h t action s = (r, s')"
    and "tasks_ok s \<Longrightarrow> \<exists>old. hm_get (rt_tasks s) tid = Some old \<and> loop_change old t"
  shows "Q s s'"
  using step_save[OF assms(2), of w h action] assms(1) by simp

lemma then_frame:
  assumes "Q s s'" and "rt_tasks s2 = rt_tasks s'" and "rt_store s2 = rt_store s'"
    and "rt_writer_leases s2 = rt_writer_leases s'"
  shows "Q s s2"
  using step_trans[OF assms(1) step_frame[OF assms(2-4)]] .

lemma attempt_step: "Q s (snd (attempt_update w h tid a s))"
proof (cases "hm_get (rt_tasks s) tid")
  case None then show ?thesis by (simp add: attempt_update_def step_refl)
next
  case (Some t)
  show ?thesis
  proof (cases "put_attempt a (acc_attempts (t_acceptance t))")
    case (Inl e) with Some show ?thesis by (simp add: attempt_update_def step_refl)
  next
    case (Inr as)
    let ?t = "t\<lparr>t_acceptance := (t_acceptance t)\<lparr>acc_attempts := as\<rparr>,
      t_condition := attempt_condition as (t_condition t)\<rparr>"
    obtain r s2 where sv: "acceptance_save w h ?t ''attempt_evidence'' s = (r, s2)" by (metis prod.exhaust)
    have "loop_change t ?t" using put_attempt_keeps[OF Inr] by (simp add: loop_change_def column_def)
    with Some have "Q s s2" by (intro saved[OF sv]) blast
    with Some Inr sv show ?thesis by (cases r) (simp_all add: attempt_update_def)
  qed
qed

lemma owner_step:
  assumes "ce_task e = tid"
  shows "Q s (snd (retry_owner w e i s))"
proof -
  let ?new = "fresh_uuid w s"
  obtain r s1 where tr: "with_store (transfer_writer i ?new) (drawn s) = (r, s1)" by (metis prod.exhaust)
  have "Q s (drawn s)" by (rule step_frame) simp_all
  then have mv: "Q s (snd (move_lease i ?new (drawn s)))" by (rule step_trans[OF _ step_move])
  show ?thesis
  proof (cases r)
    case (Inl x) with mv tr show ?thesis by (simp add: retry_owner_def move_lease_def)
  next
    case ok: (Inr u)
    show ?thesis
    proof (cases "hm_get (rt_writer_leases s1) i")
      case None with mv tr ok show ?thesis by (simp add: retry_owner_def move_lease_def)
    next
      case (Some lease)
      define s2 where "s2 = s1\<lparr>rt_writer_leases := hm_insert ?new lease (hm_remove i (rt_writer_leases s1)),
        rt_acceptance_owners := hs_insert ?new (hs_remove i (rt_acceptance_owners s1))\<rparr>"
      have s2: "Q s s2" by (rule then_frame[OF mv]) (simp_all add: s2_def move_lease_def tr ok Some)
      show ?thesis
      proof (cases "hm_get (rt_controls s2) tid")
        case None with s2 tr ok Some assms show ?thesis by (simp add: retry_owner_def s2_def Let_def)
      next
        case c: (Some c)
        define s3 where "s3 = s2\<lparr>rt_controls := hm_insert tid (c\<lparr>co_owner := ?new\<rparr>) (rt_controls s2)\<rparr>"
        have s3: "Q s s3" by (rule then_frame[OF s2]) (simp_all add: s3_def)
        show ?thesis
        proof (cases "hm_get (rt_tasks s3) tid")
          case None
          with s3 c tr ok Some assms show ?thesis by (simp add: retry_owner_def s3_def s2_def Let_def)
        next
          case t: (Some t)
          let ?t = "t\<lparr>t_assigned_agent_id := Some ?new, t_condition := TcQueued\<rparr>"
          obtain q s4 where sv: "acceptance_save w (ce_host e) ?t ''retry_queued'' s3 = (q, s4)" by (metis prod.exhaust)
          have "loop_change t ?t" by (simp add: loop_change_def column_def)
          with t have "Q s3 s4" by (intro saved[OF sv]) blast
          with s3 have "Q s s4" by (rule step_trans)
          moreover have "snd (retry_owner w e i s) = s4"
            using sv t c tr ok Some assms by (cases q) (simp_all add: retry_owner_def s3_def s2_def Let_def)
          ultimately show ?thesis by simp
        qed
      qed
    qed
  qed
qed

lemma validator_step: "Q s (snd (record_validator tid pid s))"
proof (cases "hm_get (rt_controls s) tid")
  case None then show ?thesis by (simp add: record_validator_def step_refl)
next
  case (Some c)
  obtain r s1 where sv: "with_store (validator_started (co_owner c) pid) s = (r, s1)" by (metis prod.exhaust)
  note s1 = step_started[OF sv]
  show ?thesis
  proof (cases r)
    case (Inl e) with sv Some s1 show ?thesis by (simp add: record_validator_def)
  next
    case (Inr u) with sv Some show ?thesis by (auto simp: record_validator_def intro: then_frame[OF s1])
  qed
qed

lemma stopped_step: "Q s (snd (stopped_writer i s))"
proof -
  let ?s = "s\<lparr>rt_validator_owners := hs_remove i (rt_validator_owners s)\<rparr>"
  obtain r s1 where sv: "with_store (writer_stopped i) ?s = (r, s1)" by (metis prod.exhaust)
  have "Q s ?s" by (rule step_frame) simp_all
  then have "Q s s1" using step_stopped[OF sv] by (rule step_trans)
  with sv show ?thesis by (cases r) (simp_all add: stopped_writer_def)
qed

lemma submit_step:
  assumes "ce_task e = tid"
  shows "Q s (snd (submit_review w e i a v s))"
proof (cases "hm_get (rt_tasks s) tid")
  case None with assms show ?thesis by (simp add: submit_review_def step_refl)
next
  case (Some t)
  let ?t = "submitted_task e w i (new_submission e w (fresh_uuid w s) i a v) t"
  obtain r s1 where sv: "acceptance_save w (ce_host e) ?t ''review_submitted'' (drawn s) = (r, s1)" by (metis prod.exhaust)
  have "Q s (drawn s)" by (rule step_frame) simp_all
  moreover have "loop_change t ?t" by (simp add: loop_change_def column_def submitted_task_def)
  with Some have "Q (drawn s) s1" by (intro saved[OF sv]) auto
  ultimately have "Q s s1" by (rule step_trans)
  with sv Some assms show ?thesis
    by (cases r) (auto simp: submit_review_def Let_def intro: step_trans[OF _ step_attention])
qed

lemma block_step: "Q s (acceptance_block w h tid code message s)"
proof (cases "hm_get (rt_tasks s) tid")
  case None then show ?thesis by (simp add: acceptance_block_def step_refl)
next
  case (Some t)
  let ?t = "blocked_task w h code message s t"
  obtain r s1 where sv: "acceptance_save w h ?t code s = (r, s1)" by (metis prod.exhaust)
  have "t_planning ?t = t_planning t" "keeps_ended (acc_attempts (t_acceptance t)) (acc_attempts (t_acceptance ?t))"
    by (simp_all add: blocked_task_def Let_def closed_attempts_keep)
  then have "loop_change t ?t" by (simp add: loop_change_def)
  with Some have "Q s s1" by (intro saved[OF sv]) auto
  with sv Some show ?thesis
    by (cases r) (auto simp: acceptance_block_def intro: step_trans[OF _ step_attention])
qed

lemma end_step: "Q s (end_acceptance w tid s)"
proof -
  have "Q s (release_writer w i s')" if "rt_tasks s' = rt_tasks s" "rt_store s' = rt_store s"
    "rt_writer_leases s' = rt_writer_leases s" for i s'
    using step_frame[OF that] step_release by (rule step_trans)
  then show ?thesis by (simp add: end_acceptance_def step_refl split: option.split)
qed

sublocale cycle_sections Q tid
proof unfold_locales
  show "Q s s''" if "Q s s'" "Q s' s''" for s s' s'' using that by (rule step_trans)
  show "Q s (s\<lparr>rt_draws := n\<rparr>)" for s n by (rule step_frame) simp_all
  show "Q s (s\<lparr>rt_signals := xs\<rparr>)" for s xs by (rule step_frame) simp_all
  show "Q s (snd (retry_owner w e i s))" if "ce_task e = tid" for w e i s using that by (rule owner_step)
  show "Q s (snd (submit_review w e i a v s))" if "ce_task e = tid" for w e i a v s using that by (rule submit_step)
qed (rule step_refl attempt_step validator_step stopped_step block_step end_step)+

end

section \<open>The relations\<close>

lemma acceptance_save_eq: "acceptance_save w h t action s =
   (if 768 * 1024 < he_json_len h (t_acceptance t) then (Err history_limit_message, s)
    else (let u = touch (w_now w) t;
              p = save_and_publish w [(u, audit (fresh_uuid w s) (w_now w) u Daemon action (Some (column u)) (t_last_reason u))] s
          in (map_err id (res_bind (fst p) (\<lambda>_. Ok u)), snd p)))"
  by (auto simp: acceptance_save_def Let_def split: prod.split sum.split)

lemma acceptance_save_by: "(\<And>cs. Q s (snd (save_and_publish w cs s))) \<Longrightarrow> Q s s \<Longrightarrow> Q s (snd (acceptance_save w h t action s))"
  by (simp add: acceptance_save_eq Let_def)

text \<open>The store: every effect is an operation of it.\<close>

interpretation loop_store: loop_relation store_run tid for tid
proof unfold_locales
  show "store_run s (snd (acceptance_save w h t action s))" for s w h t action
    by (rule acceptance_save_by) (simp_all add: save_and_publish_run)
  show "store_run s s'" if "with_store (validator_started i pid) s = (r, s')" for i pid s r s'
    using that by (rule store_run_with) (rule store_step.validator_started)
  show "store_run s s'" if "with_store (writer_stopped i) s = (r, s')" for i s r s'
    using that by (rule store_run_with) (rule store_step.writer_stopped)
qed (auto intro: store_run_trans store_run_same task_attention_run move_lease_run release_writer_run)

text \<open>The tasks in memory are the stored ones.\<close>

definition coherent_step :: "runtime \<Rightarrow> runtime \<Rightarrow> bool" where
  "coherent_step s s' \<longleftrightarrow> (coherent s \<longrightarrow> coherent s')"

definition same_tasks :: "runtime \<Rightarrow> runtime \<Rightarrow> bool" where
  "same_tasks s s' \<longleftrightarrow> db_tasks (st_db (rt_store s')) = db_tasks (st_db (rt_store s)) \<and> rt_tasks s' = rt_tasks s"

lemma same_tasks_with:
  assumes sv: "with_store (in_tx stmt) s = (r, s')"
    and db: "\<And>db db'. stmt db = Inr db' \<Longrightarrow> db_tasks db' = db_tasks db"
  shows "same_tasks s s'"
proof -
  from sv obtain st where st: "s' = s\<lparr>rt_store := st\<rparr>" "in_tx stmt (rt_store s) = (r, st)" by (rule with_storeE)
  have "db_tasks (st_db st) = db_tasks (st_db (rt_store s))"
    using st(2) db[of "st_db (rt_store s)"] by (auto simp: in_tx_def Let_def split: if_splits sum.splits)
  with st(1) show ?thesis by (simp add: same_tasks_def)
qed

lemma update_writer_tasks: "db_tasks (update_writer i f db) = db_tasks db"
  by (simp add: update_writer_def split: option.split)

lemma same_tasks_rows:
  "with_store (validator_started i pid) s = (r, s') \<Longrightarrow> same_tasks s s'"
  "with_store (writer_stopped i) s = (r, s') \<Longrightarrow> same_tasks s s'"
  "with_store (transfer_writer i j) s = (r, s') \<Longrightarrow> same_tasks s s'"
  unfolding validator_started_def writer_stopped_def transfer_writer_def
  by (erule same_tasks_with, auto simp: update_writer_tasks stmt_transfer_writer_def split: option.splits if_splits)+

lemma move_lease_tasks: "same_tasks s (snd (move_lease old new s))"
proof -
  obtain r s' where sv: "with_store (transfer_writer old new) s = (r, s')" by (metis prod.exhaust)
  from same_tasks_rows(3)[OF sv] show ?thesis
    by (simp add: move_lease_def sv same_tasks_def split: sum.split option.split)
qed

lemma coherent_rows: "same_tasks s s' \<Longrightarrow> coherent_step s s'"
  using coherent_cong[of s' s] by (simp add: coherent_step_def same_tasks_def)

interpretation loop_coherent: loop_relation coherent_step tid for tid
proof unfold_locales
  show "coherent_step s (snd (acceptance_save w h t action s))" for s w h t action
    by (rule acceptance_save_by) (simp_all add: coherent_step_def coherent_save_and_publish)
  show "coherent_step s s'" if "with_store (validator_started i pid) s = (r, s')" for i pid s r s'
    using same_tasks_rows(1)[OF that] by (rule coherent_rows)
  show "coherent_step s s'" if "with_store (writer_stopped i) s = (r, s')" for i s r s'
    using same_tasks_rows(2)[OF that] by (rule coherent_rows)
  show "coherent_step s (snd (move_lease old new s))" for old new s
    by (rule coherent_rows) (rule move_lease_tasks)
  show "coherent_step s s'" if "rt_tasks s' = rt_tasks s" "rt_store s' = rt_store s" for s s'
    using that by (intro coherent_rows) (simp add: same_tasks_def)
qed (simp_all add: coherent_step_def coherent_task_attention coherent_release_writer)

text \<open>The reservations stay exclusive and equal to the stored ones.\<close>

interpretation loop_leases: loop_relation lease_safe tid for tid
proof unfold_locales
  show "lease_safe s s''" if "lease_safe s s'" "lease_safe s' s''" for s s' s''
    using that by (rule lease_safe_trans)
  show "lease_safe s (snd (acceptance_save w h t action s))" for s w h t action
    by (rule acceptance_save_by) (simp_all add: save_and_publish_safe)
  show "lease_safe s s'" if "with_store (validator_started i pid) s = (r, s')" for i pid s r s'
    by (rule update_row_safe[OF that, where i = i])
       (auto simp: validator_started_def in_tx_def Let_def split: if_splits
         intro!: exI[of _ "\<lambda>r. r\<lparr>wr_pid := Some pid, wr_validator := True\<rparr>"])
  show "lease_safe s s'" if "with_store (writer_stopped i) s = (r, s')" for i s r s'
    by (rule update_row_safe[OF that, where i = i])
       (auto simp: writer_stopped_def in_tx_def Let_def split: if_splits
         intro!: exI[of _ "\<lambda>r. r\<lparr>wr_pid := None, wr_validator := False\<rparr>"])
  show "lease_safe s s'" if "rt_store s' = rt_store s" "rt_writer_leases s' = rt_writer_leases s" for s s'
    using that by (intro lease_safe_same) simp_all
qed (simp_all add: move_lease_safe release_writer_safe lease_safe_same)

text \<open>The plans: the loop starts none.\<close>

interpretation loop_plans: loop_relation plan_safe tid for tid
proof unfold_locales
  show "plan_safe s s''" if "plan_safe s s'" "plan_safe s' s''" for s s' s''
    using that by (rule plan_safe_trans)
  show "plan_safe s (snd (acceptance_save w h t action s))"
    if "tasks_ok s \<Longrightarrow> \<exists>old. hm_get (rt_tasks s) tid = Some old \<and> loop_change old t" for s w h t action tid
  proof -
    have "plan_safe s (snd (save_and_publish w [(touch (w_now w) t, a)] s))" for a
    proof (rule one_change_plan)
      assume ok: "tasks_ok s"
      with that obtain old where "hm_get (rt_tasks s) tid = Some old" "loop_change old t" by blast
      moreover with ok have "t_id old = tid" by (auto simp: tasks_ok_def hm.keyed_by_def)
      ultimately show "keeps_plan s (touch (w_now w) t)"
        by (intro keeps_planI[of _ _ old]) (simp_all add: loop_change_def touch_def)
    qed
    then show ?thesis by (simp add: acceptance_save_eq Let_def)
  qed
  show "plan_safe s (snd (move_lease old new s))" for old new s
    using move_lease_tasks[of s old new] by (intro plan_safe_same) (simp add: same_tasks_def)
  show "plan_safe s s'" if "with_store (validator_started i pid) s = (r, s')" for i pid s r s'
    using same_tasks_rows(1)[OF that] by (intro plan_safe_same) (simp add: same_tasks_def)
  show "plan_safe s s'" if "with_store (writer_stopped i) s = (r, s')" for i s r s'
    using same_tasks_rows(2)[OF that] by (intro plan_safe_same) (simp add: same_tasks_def)
qed (simp_all add: plan_safe_same)

text \<open>The map of tasks stays a map by identifier.\<close>

definition tasks_kept :: "runtime \<Rightarrow> runtime \<Rightarrow> bool" where
  "tasks_kept s s' \<longleftrightarrow> (tasks_ok s \<longrightarrow> tasks_ok s')"

interpretation loop_tasks: loop_relation tasks_kept tid for tid
proof unfold_locales
  show "tasks_kept s (snd (acceptance_save w h t action s))" for s w h t action
  proof -
    obtain r s' where sv: "acceptance_save w h t action s = (r, s')" by (metis prod.exhaust)
    from acceptance_save_attempts[OF sv] sv show ?thesis
      by (auto simp: tasks_kept_def tasks_ok_def hm.invar_ins hm.keyed_by_ins)
  qed
  show "tasks_kept s (snd (move_lease old new s))" for old new s
    using move_lease_tasks[of s old new] by (simp add: tasks_kept_def tasks_ok_def same_tasks_def)
  show "tasks_kept s s'" if "with_store (validator_started i pid) s = (r, s')" for i pid s r s'
    using same_tasks_rows(1)[OF that] by (simp add: tasks_kept_def tasks_ok_def same_tasks_def)
  show "tasks_kept s s'" if "with_store (writer_stopped i) s = (r, s')" for i s r s'
    using same_tasks_rows(2)[OF that] by (simp add: tasks_kept_def tasks_ok_def same_tasks_def)
qed (simp_all add: tasks_kept_def tasks_ok_def)

text \<open>
  The evidence of the loop's task: attempts that have ended stay as they are, and the task is not
  accepted.
\<close>

definition evidence_kept :: "task_id \<Rightarrow> runtime \<Rightarrow> runtime \<Rightarrow> bool" where
  "evidence_kept tid s s' \<longleftrightarrow> (tasks_ok s \<longrightarrow> tasks_ok s'
     \<and> (\<forall>t. hm_get (rt_tasks s) tid = Some t \<longrightarrow> (\<exists>t'. hm_get (rt_tasks s') tid = Some t'
          \<and> keeps_ended (acc_attempts (t_acceptance t)) (acc_attempts (t_acceptance t'))
          \<and> (column t' = Done \<longrightarrow> column t = Done))))"

lemma evidence_same: "rt_tasks s' = rt_tasks s \<Longrightarrow> evidence_kept tid s s'"
  by (simp add: evidence_kept_def tasks_ok_def)

lemma evidence_trans:
  assumes "evidence_kept tid s s'" and "evidence_kept tid s' s''"
  shows "evidence_kept tid s s''"
  unfolding evidence_kept_def
proof (intro impI conjI allI)
  assume "tasks_ok s"
  with assms show "tasks_ok s''" by (simp add: evidence_kept_def)
next
  fix t assume ok: "tasks_ok s" and t: "hm_get (rt_tasks s) tid = Some t"
  with assms(1) obtain u where ok': "tasks_ok s'" and u: "hm_get (rt_tasks s') tid = Some u"
      "keeps_ended (acc_attempts (t_acceptance t)) (acc_attempts (t_acceptance u))" "column u = Done \<longrightarrow> column t = Done"
    by (auto simp: evidence_kept_def)
  from assms(2) ok' u(1) obtain v where "hm_get (rt_tasks s'') tid = Some v"
      "keeps_ended (acc_attempts (t_acceptance u)) (acc_attempts (t_acceptance v))" "column v = Done \<longrightarrow> column u = Done"
    by (auto simp: evidence_kept_def)
  with u(2,3) keeps_ended_trans show "\<exists>t'. hm_get (rt_tasks s'') tid = Some t'
      \<and> keeps_ended (acc_attempts (t_acceptance t)) (acc_attempts (t_acceptance t'))
      \<and> (column t' = Done \<longrightarrow> column t = Done)" by blast
qed

interpretation loop_evidence: loop_relation "evidence_kept tid" tid for tid
proof unfold_locales
  show "evidence_kept tid s s''" if "evidence_kept tid s s'" "evidence_kept tid s' s''" for s s' s'' tid
    using that by (rule evidence_trans)
  show "evidence_kept tid s (snd (acceptance_save w h t action s))"
    if "tasks_ok s \<Longrightarrow> \<exists>old. hm_get (rt_tasks s) tid = Some old \<and> loop_change old t" for s w h t action tid
  proof (cases "tasks_ok s")
    case True
    with that obtain old where old: "hm_get (rt_tasks s) tid = Some old" "loop_change old t" by blast
    with True have i: "t_id t = tid" by (auto simp: tasks_ok_def hm.keyed_by_def loop_change_def)
    obtain r s' where sv: "acceptance_save w h t action s = (r, s')" by (metis prod.exhaust)
    have "column (touch (w_now w) t) = column t" "t_acceptance (touch (w_now w) t) = t_acceptance t"
      by (simp_all add: touch_def)
    with True old i acceptance_save_attempts[OF sv] sv show ?thesis
      by (auto simp: evidence_kept_def tasks_ok_def loop_change_def hm.get_ins hm.invar_ins hm.keyed_by_ins)
  qed (simp add: evidence_kept_def)
  show "evidence_kept tid s (snd (move_lease old new s))" for old new s tid
    using move_lease_tasks[of s old new] by (intro evidence_same) (simp add: same_tasks_def)
  show "evidence_kept tid s s'" if "with_store (validator_started i pid) s = (r, s')" for i pid s r s' tid
    using same_tasks_rows(1)[OF that] by (intro evidence_same) (simp add: same_tasks_def)
  show "evidence_kept tid s s'" if "with_store (writer_stopped i) s = (r, s')" for i s r s' tid
    using same_tasks_rows(2)[OF that] by (intro evidence_same) (simp add: same_tasks_def)
qed (simp_all add: evidence_same)

section \<open>Acceptance stays with the user\<close>

text \<open>C3: the loop never accepts its own work, and never rewrites history: whatever a worker does and
  however the loop ends, if no other thread accepts the task or alters its ended attempts, the task is
  not Done unless it was, and every attempt that had ended is still there, unaltered, in its place.\<close>

theorem loop_never_accepts:
  assumes "acceptance_thread sch h fuel lt (k, s) = (r, k', s')" and "surroundings (evidence_kept (t_id (lt_task lt))) sch"
    and "tasks_ok s" and "hm_get (rt_tasks s) (t_id (lt_task lt)) = Some t"
  shows "\<exists>t'. hm_get (rt_tasks s') (t_id (lt_task lt)) = Some t'
    \<and> (column t' = Done \<longrightarrow> column t = Done)
    \<and> length (acc_attempts (t_acceptance t)) \<le> length (acc_attempts (t_acceptance t'))
    \<and> (\<forall>i < length (acc_attempts (t_acceptance t)). \<not> result_active (ta_result (acc_attempts (t_acceptance t) ! i)) \<longrightarrow>
         acc_attempts (t_acceptance t') ! i = acc_attempts (t_acceptance t) ! i)"
  using loop_evidence.thread_keeps[OF refl assms(2,1)] assms(3,4)
  by (auto simp: evidence_kept_def keeps_ended_def)

text \<open>A thread nobody disturbs.\<close>

definition quiet_moment :: "world \<Rightarrow> site \<Rightarrow> moment" where
  "quiet_moment w si = \<lparr>mo_world = w, mo_others = id, mo_late = False, mo_site = si,
     mo_launch = (\<lambda>p s. (Ok (), s)), mo_stop = (\<lambda>i s. s), mo_wake = True, mo_client = Ok 1, mo_send = Ok (),
     mo_ticks = [], mo_ms = 0\<rparr>"

lemma quiet_surroundings: "(\<And>s. Q s s) \<Longrightarrow> surroundings Q (\<lambda>k. quiet_moment w si)"
  by (simp add: surroundings_def quiet_moment_def)

abbreviation waiting_loop :: loop_thread where
  "waiting_loop \<equiv> \<lparr>lt_task = waiting_task, lt_project = sample_project, lt_owner = 77,
     lt_profile = default_profile, lt_validation_only = False\<rparr>"

theorem loop_never_accepts_witness:
  "\<forall>h si. \<exists>r k' s' t'. acceptance_thread (\<lambda>k. quiet_moment sample_world si) h 5 waiting_loop (0, board_sample)
       = (r, k', s') \<and> hm_get (rt_tasks s') 7 = Some t' \<and> column t' \<noteq> Done"
proof (intro allI)
  fix h si
  obtain r k' s' where run: "acceptance_thread (\<lambda>k. quiet_moment sample_world si) h 5 waiting_loop
      (0, board_sample) = (r, k', s')" by (metis prod.exhaust)
  have t: "hm_get (rt_tasks board_sample) (t_id (lt_task waiting_loop)) = Some waiting_task"
    by (simp add: hm_get_def)
  have q: "surroundings (evidence_kept (t_id (lt_task waiting_loop))) (\<lambda>k. quiet_moment sample_world si)"
    by (rule quiet_surroundings) (simp add: evidence_same)
  have ok: "tasks_ok board_sample" using board_sample_facts(2,3) by (simp add: tasks_ok_def)
  have "column waiting_task \<noteq> Done" by (simp add: column_def waiting_task_def)
  with loop_never_accepts[OF run q ok t] run show "\<exists>r k' s' t'.
      acceptance_thread (\<lambda>k. quiet_moment sample_world si) h 5 waiting_loop (0, board_sample)
       = (r, k', s') \<and> hm_get (rt_tasks s') 7 = Some t' \<and> column t' \<noteq> Done" by auto
qed

end
