(* ===== verification/Validator_Facts.thy ===== *)
theory Validator_Facts
  imports Validator_Run
begin

text \<open>
  A command check passes or fails only by the exit code of a command that ended by itself; one that
  was cancelled, ran out of time or broke down is never a verdict.
\<close>

section \<open>The reading loop\<close>

lemma exec_line_status:
  "exec_line h c line x ev = Inl (r, ev') \<Longrightarrow> ve_status ev' = ve_status ev"
  by (auto simp: exec_line_def exec_reply_def Let_def split: server_line.splits option.splits if_splits)

text \<open>One turn, taken apart once for all proofs.\<close>

lemma exec_turn:
  assumes "exec_loop h c (k # ks) x ev = Some (r, ev')"
  obtains (error) e where "r = Inl e" "ve_status ev' = ve_status (exec_marked k x ev)"
  | (ended) "\<not> ex_stopping x" "\<not> exec_asks k x" "exec_line h c (tk_line k) x ev = Inl (r, ev')"
  | (goes_on) x1 x2 where "ex_stopping x1 \<longleftrightarrow> ex_stopping x \<or> exec_asks k x"
      "ex_output x1 = ex_output x" "ex_truncated x1 = ex_truncated x"
      "exec_line h c (tk_line k) x1 (exec_marked k x ev) = Inr x2"
      "exec_loop h c ks x2 (exec_marked k x ev) = Some (r, ev')"
proof -
  define x1 where "x1 = (if exec_asks k x then x\<lparr>ex_stopping := True\<rparr> else x)"
  have x1: "ex_stopping x1 \<longleftrightarrow> ex_stopping x \<or> exec_asks k x" "ex_output x1 = ex_output x"
    "ex_truncated x1 = ex_truncated x" by (simp_all add: x1_def)
  note run = assms[unfolded exec_loop.simps Let_def, folded x1_def]
  from run consider (e) e where "r = Inl e" "ev' = exec_marked k x ev"
    | (l) "exec_line h c (tk_line k) x1 (exec_marked k x ev) = Inl (r, ev')"
    | (n) x2 where "exec_line h c (tk_line k) x1 (exec_marked k x ev) = Inr x2"
        "exec_loop h c ks x2 (exec_marked k x ev) = Some (r, ev')"
    by (cases "if exec_asks k x then tk_terminate k else Inr ()";
        cases "exec_line h c (tk_line k) x1 (exec_marked k x ev)";
        cases "ex_stopping x1 \<and> tk_grace k") auto
  then show ?thesis
  proof cases
    case e then show ?thesis using error by simp
  next
    case n with x1 show ?thesis by (rule goes_on)
  next
    case l
    show ?thesis
    proof (cases "ex_stopping x1")
      case True
      with l have "\<exists>e. r = Inl e"
        by (auto simp: exec_line_def split: server_line.splits option.splits)
      then show ?thesis using error exec_line_status[OF l] by blast
    next
      case False
      with x1(1) have "\<not> ex_stopping x" "\<not> exec_asks k x" by auto
      moreover from this have "x1 = x" "exec_marked k x ev = ev" by (simp_all add: x1_def exec_marked_def)
      ultimately show ?thesis using l by (auto intro: ended)
    qed
  qed
qed

lemma exec_line_goes_on:
  assumes "exec_line h c line x ev = Inr y"
  shows "ex_stopping y = ex_stopping x"
    "length (ex_output x) \<le> 16384 \<Longrightarrow> length (ex_output y) \<le> 16384"
  using assms
  by (auto simp: exec_line_def exec_delta_def Let_def split: server_line.splits option.splits)

text \<open>Once a termination has been asked for, the loop ends with an error.\<close>

lemma stopping_never_judges:
  "exec_loop h c ks x ev = Some (r, ev') \<Longrightarrow> ex_stopping x \<Longrightarrow> \<exists>e. r = Inl e"
proof (induction ks arbitrary: x ev)
  case (Cons k ks)
  from Cons.prems(1) show ?case
  proof (cases rule: exec_turn)
    case (goes_on x1 x2)
    with Cons.prems(2) have "ex_stopping x2" using exec_line_goes_on(1)[OF goes_on(4)] by simp
    with Cons.IH goes_on(5) show ?thesis by blast
  qed (use Cons.prems(2) in auto)
qed simp

definition undisturbed_tick :: "exec_tick \<Rightarrow> bool" where
  "undisturbed_tick k \<longleftrightarrow> \<not> tk_cancelled k \<and> \<not> tk_late k \<and> \<not> tk_over k"

lemma exec_loop_judges:
  assumes "exec_loop h c ks x ev = Some (Inr passed, ev')" and "length (ex_output x) \<le> 16384"
  shows "\<exists>n code out err y. n < length ks \<and> (\<forall>i \<le> n. undisturbed_tick (ks ! i))
    \<and> tk_line (ks ! n) = ExecReply None code out err \<and> length (ex_output y) \<le> 16384
    \<and> (Inr passed, ev') = exec_reply h c y code out err ev"
  using assms
proof (induction ks arbitrary: x ev)
  case (Cons k ks)
  from Cons.prems(1) show ?case
  proof (cases rule: exec_turn)
    case ended
    then have "undisturbed_tick k" by (simp add: exec_asks_def undisturbed_tick_def)
    moreover from ended(1,3) obtain code out err where "tk_line k = ExecReply None code out err"
      "(Inr passed, ev') = exec_reply h c x code out err ev"
      by (auto simp: exec_line_def split: server_line.splits option.splits)
    ultimately show ?thesis using Cons.prems(2)
      by (intro exI[of _ 0] exI[of _ code] exI[of _ out] exI[of _ err] exI[of _ x]) simp
  next
    case (goes_on x1 x2)
    have calm: "\<not> ex_stopping x" "\<not> exec_asks k x"
      using stopping_never_judges[OF goes_on(5)] exec_line_goes_on(1)[OF goes_on(4)] goes_on(1) by auto
    then have k: "undisturbed_tick k" "exec_marked k x ev = ev"
      by (auto simp: exec_asks_def undisturbed_tick_def exec_marked_def)
    have "length (ex_output x2) \<le> 16384"
      using exec_line_goes_on(2)[OF goes_on(4)] goes_on(2) Cons.prems(2) by simp
    from Cons.IH[OF goes_on(5) this] k(2) obtain n code out err y where n: "n < length ks"
      "\<forall>i \<le> n. undisturbed_tick (ks ! i)" "tk_line (ks ! n) = ExecReply None code out err"
      "length (ex_output y) \<le> 16384" "(Inr passed, ev') = exec_reply h c y code out err ev" by auto
    have "\<forall>i \<le> Suc n. undisturbed_tick ((k # ks) ! i)"
      using n(2) k(1) by (auto simp: nth_Cons split: nat.splits)
    with n show ?thesis
      by (intro exI[of _ "Suc n"] exI[of _ code] exI[of _ out] exI[of _ err] exI[of _ y]) simp
  qed simp
qed simp

lemma exec_loop_status:
  "exec_loop h c ks x ev = Some (r, ev') \<Longrightarrow> ve_status ev' = ve_status ev \<or> ve_status ev' = CkCancelled"
proof (induction ks arbitrary: x ev)
  case (Cons k ks)
  have m: "ve_status (exec_marked k x ev) = ve_status ev \<or> ve_status (exec_marked k x ev) = CkCancelled"
    by (simp add: exec_marked_def)
  from Cons.prems show ?case
  proof (cases rule: exec_turn)
    case ended
    from exec_line_status[OF ended(3)] show ?thesis by simp
  qed (use m Cons.IH in auto)
qed simp

lemma kept_output_shape: "\<exists>text. kept_output h truncated bytes = take_chars 4096 text
    \<or> kept_output h truncated bytes = take_chars 4096 text @ capped_note"
  by (auto simp: kept_output_def Let_def)

section \<open>The property\<close>


definition quiet_tick :: "server_line \<Rightarrow> exec_tick" where
  "quiet_tick line = \<lparr>tk_cancelled = False, tk_late = False, tk_over = False, tk_grace = False,
     tk_terminate = Inr (), tk_line = line\<rparr>"

definition sample_command :: command_check where
  "sample_command = \<lparr>cc_argv = [''t''], cc_cwd = ''.'', cc_timeout_seconds = 60, cc_expected_exit = 0\<rparr>"

definition sample_criterion :: acceptance_criterion where
  "sample_criterion = \<lparr>ac_id = 1, ac_label = ''tests'', ac_required = True, ac_kind = Command sample_command\<rparr>"


end
