(* ===== verification/Cycle_Facts.thy ===== *)
theory Cycle_Facts
  imports Cycle_Invariants Validator_Facts
begin

text \<open>
  What a loop that returns has done: it has submitted a review, on a workspace that did not change
  while it was validated, with every required check passed.
\<close>

section \<open>Results of sequences\<close>

lemma cbind_Ok: "cbind m f x = (Inr b, z) \<longleftrightarrow> (\<exists>a y. m x = (Inr a, y) \<and> f a y = (Inr b, z))"
  by (auto simp: cbind_def split: sum.splits prod.splits)

lemma creturn_Ok [simp]: "creturn a x = (Inr b, y) \<longleftrightarrow> b = a \<and> y = x"
  by (auto simp: creturn_def)

lemma cstop_Ok [simp]: "cstop e x \<noteq> (Inr b, y)"
  by (simp add: cstop_def)

lemma cwhen_Ok [simp]: "cwhen b e x = (Inr u, y) \<longleftrightarrow> \<not> b \<and> y = x"
  by (auto simp: cwhen_def)

lemma lift_res_Ok [simp]: "lift_res r x = (Inr b, y) \<longleftrightarrow> r = Inr b \<and> y = x"
  by (auto simp: lift_res_def)

lemma of_result_Ok [simp]: "of_result r = Inr a \<longleftrightarrow> r = Inr a"
  by (simp add: of_result_def)

lemma observe_Ok: "observe sch f x = (Inr a, y) \<longleftrightarrow>
    a = f (sch (fst x)) (mo_others (sch (fst x)) (snd x)) \<and> y = (Suc (fst x), mo_others (sch (fst x)) (snd x))"
  by (cases x) (auto simp: observe_def locked_def)

section \<open>Validators\<close>

lemma exec_loop_criterion:
  "exec_loop h c ks x ev = Some (r, ev') \<Longrightarrow> ve_criterion ev' = ve_criterion ev"
proof (induction ks arbitrary: x ev)
  case (Cons k ks)
  define x1 where "x1 = (if exec_asks k x then x\<lparr>ex_stopping := True\<rparr> else x)"
  have m: "ve_criterion (exec_marked k x ev) = ve_criterion ev" by (simp add: exec_marked_def)
  have l: "exec_line h c (tk_line k) x1 (exec_marked k x ev) = Inl (r, ev') \<Longrightarrow> ve_criterion ev' = ve_criterion ev"
    using m by (auto simp: exec_line_def exec_reply_def Let_def split: server_line.splits option.splits if_splits)
  note run = Cons.prems[unfolded exec_loop.simps Let_def, folded x1_def]
  show ?case
    using run m l Cons.IH
    by (cases "if exec_asks k x then tk_terminate k else Inr ()";
        cases "exec_line h c (tk_line k) x1 (exec_marked k x ev)";
        cases "ex_stopping x1 \<and> tk_grace k") auto
qed simp

text \<open>The kinds of criteria a machine decides.\<close>

fun automatic_kind :: "criterion_kind \<Rightarrow> bool" where
  "automatic_kind Human = False"
| "automatic_kind AgentAssertion = False"
| "automatic_kind _ = True"

definition decided :: "validator_evidence \<Rightarrow> bool" where
  "decided v \<longleftrightarrow> ve_status v = CkPassed \<or> ve_status v = CkFailed \<or> ve_status v = CkInfrastructureError
     \<or> ve_status v = CkCancelled"

lemma finished_evidence_simps:
  "ve_criterion (finished_evidence h ms c (r, ev)) = ve_criterion ev"
  "ve_status ev \<noteq> CkHumanReview \<Longrightarrow> ve_status ev \<noteq> CkAssertion \<Longrightarrow> decided (finished_evidence h ms c (r, ev))"
  by (cases "ve_status ev"; auto simp: finished_evidence_def decided_def judged_def split: sum.splits)+

lemma ctry_post:
  assumes "ctry m ev f x = (Inr q, z)" and "\<And>e. P (Inl e, ev)" and "\<And>a y. f a y = (Inr q, z) \<Longrightarrow> P q"
  shows "P q"
proof -
  from assms(1) obtain r y where "m x = (Inr r, y)"
    and "(case r of Inl e \<Rightarrow> creturn (Err e, ev) | Inr a \<Rightarrow> f a) y = (Inr q, z)"
    by (auto simp: ctry_def cbind_Ok)
  with assms(2,3) show ?thesis by (cases r) auto
qed

lemma run_command_Ok:
  assumes run: "run_command sch h tid p c ev x = (Inr q, y)" and st: "ve_status ev = CkInfrastructureError"
  shows "ve_criterion (snd q) = ve_criterion ev
    \<and> (ve_status (snd q) = CkInfrastructureError \<or> ve_status (snd q) = CkCancelled)"
proof -
  let ?P = "\<lambda>q. ve_criterion (snd q) = ve_criterion ev
    \<and> (ve_status (snd q) = CkInfrastructureError \<or> ve_status (snd q) = CkCancelled)"
  have base: "?P (Inl e, ev)" for e using st by simp
  have loop: "?P q" if "exec_loop h c ks exec_start ev = Some q" for ks q
    using that st by (cases q) (auto dest: exec_loop_criterion exec_loop_status)
  have sent: "?P q" if "ctry (observe sch (\<lambda>m s. mo_send m)) ev (\<lambda>_.
        cbind (observe sch (\<lambda>m s. exec_loop h c (mo_ticks m) exec_start ev)) (\<lambda>r.
          case r of None \<Rightarrow> cstop Waiting | Some x \<Rightarrow> creturn x)) x' = (Inr q, y')" for x' q y'
    by (rule ctry_post[where P = ?P, OF that base])
       (auto simp: cbind_Ok observe_Ok split: option.splits dest: loop)
  show ?thesis
    using run unfolding run_command_def
  proof (rule ctry_post[where P = ?P], goal_cases)
    case 1 show ?case by (rule base)
  next
    case (2 _ x1) then show ?case
    proof (rule ctry_post[where P = ?P], goal_cases)
      case 1 show ?case by (rule base)
    next
      case (2 pid x2) then show ?case
      proof (rule ctry_post[where P = ?P], goal_cases)
        case 1 show ?case by (rule base)
      next
        case (2 _ x3) then show ?case by (auto simp: cbind_Ok observe_Ok dest: sent split: if_splits)
      qed
    qed
  qed
qed

lemma new_evidence_simps [simp]: "ve_criterion (new_evidence now c) = c"
  "ve_status (new_evidence now c) = CkInfrastructureError"
  by (simp_all add: new_evidence_def)

lemma plain_check_Ok:
  "ve_criterion (snd (plain_check si dir e c ev)) = ve_criterion ev"
  "automatic_kind (ac_kind c) \<Longrightarrow> ve_status (snd (plain_check si dir e c ev)) = ve_status ev"
  by (simp add: plain_check_def split: criterion_kind.split) (cases "ac_kind c"; simp add: plain_check_def)

lemma finished_criterion: "ve_criterion (finished_evidence h ms c q) = ve_criterion (snd q)"
  by (cases q) (simp add: finished_evidence_simps)

lemma finished_decided: "ve_status (snd q) = CkInfrastructureError \<or> ve_status (snd q) = CkCancelled \<Longrightarrow>
    decided (finished_evidence h ms c q)"
  by (cases q) (auto intro: finished_evidence_simps(2))

text \<open>A finished check is about its criterion, and a machine's check is decided.\<close>

lemma run_validator_Ok:
  assumes "run_validator sch h tid p presets e c x = (Inr v, y)"
  shows "ve_criterion v = c \<and> (automatic_kind (ac_kind c) \<longrightarrow> decided v)"
proof -
  from assms obtain now q ms x1 y1 where v: "v = finished_evidence h ms c q"
    and q: "(case validator_command presets c of
         Some cmd \<Rightarrow> run_command sch h tid p cmd (new_evidence now c\<lparr>ve_command := Some cmd\<rparr>)
       | None \<Rightarrow> observe sch (\<lambda>m s. plain_check (mo_site m) (p_root p) e c (new_evidence now c))) x1 = (Inr q, y1)"
    by (auto simp: run_validator_def cbind_Ok observe_Ok)
  show ?thesis
  proof (cases "validator_command presets c")
    case None
    with q obtain si where q: "q = plain_check si (p_root p) e c (new_evidence now c)" by (auto simp: observe_Ok)
    show ?thesis unfolding v finished_criterion
      by (auto simp: q plain_check_Ok intro!: finished_decided)
  next
    case (Some cmd)
    with q have "run_command sch h tid p cmd (new_evidence now c\<lparr>ve_command := Some cmd\<rparr>) x1 = (Inr q, y1)" by simp
    from run_command_Ok[OF this] have "ve_criterion (snd q) = c"
      "ve_status (snd q) = CkInfrastructureError \<or> ve_status (snd q) = CkCancelled" by simp_all
    then show ?thesis unfolding v finished_criterion by (blast intro: finished_decided)
  qed
qed

section \<open>An attempt\<close>

lemma run_command_forward: "forward (run_command sch h tid p c ev)"
proof -
  have "forward (case r of None \<Rightarrow> cstop Waiting | Some x \<Rightarrow> creturn x)" for r :: "checked option"
    by (cases r) (simp_all add: forward_intros)
  then show ?thesis unfolding run_command_def by (intro forward_intros) (auto intro: forward_intros)
qed

lemma run_validator_forward: "forward (run_validator sch h tid p presets e c)"
  unfolding run_validator_def
  by (intro forward_intros) (auto intro: forward_observe run_command_forward split: option.split)

lemma record_attempt_forward: "forward (record_attempt sch e a)"
  unfolding record_attempt_def by (rule forward_locked)

lemma clear_group_forward: "forward (clear_attempt_group sch i)"
  unfolding clear_attempt_group_def by (intro forward_intros)

lemma capture_forward: "forward (capture_workspace sch e)"
  unfolding capture_workspace_def by (intro forward_intros)

lemma capture_workspace_Ok: "capture_workspace sch e x = (Inr v, y) \<longleftrightarrow>
    acceptance_workspace (mo_site (sch (fst x))) (p_root (ce_project e)) (ce_config e) = Inr v
    \<and> y = (Suc (fst x), mo_others (sch (fst x)) (snd x))"
  by (auto simp: capture_workspace_def cbind_Ok observe_Ok)

lemma end_attempt_forward: "forward (end_attempt sch e r f a)"
  unfolding end_attempt_def by (intro forward_intros record_attempt_forward)

lemma forward_if: "(b \<Longrightarrow> forward m) \<Longrightarrow> (\<not> b \<Longrightarrow> forward m') \<Longrightarrow> forward (if b then m else m')"
  by simp

lemma queue_attempt_forward: "forward (queue_attempt sch e n ls)"
  unfolding queue_attempt_def attempt_gate_def stop_at_boundary_def draw_attempt_def Let_def
  by (intro forward_intros forward_if record_attempt_forward capture_forward)

lemma launch_forward: "forward (launch_worker sch a)"
  unfolding launch_worker_def by (intro forward_intros) (auto intro: forward_intros split: sum.split)

lemma await_forward: "forward (await_worker sch e i n)"
  by (induction n) (auto intro!: forward_intros forward_if)

lemma work_forward: "forward (work sch e i a)"
  unfolding work_def Let_def
  by (intro forward_intros forward_if record_attempt_forward launch_forward await_forward clear_group_forward)

text \<open>The checks of an attempt: each criterion has been run, and none was disturbed.\<close>

definition checked_at :: "schedule \<Rightarrow> cycle_env \<Rightarrow> workspace_evidence \<Rightarrow> nat \<Rightarrow> nat \<Rightarrow> acceptance_criterion \<Rightarrow>
    validator_evidence \<Rightarrow> bool" where
  "checked_at sch e after i j c v \<longleftrightarrow> (\<exists>x y. i < fst x \<and> fst y \<le> j
     \<and> run_validator sch (ce_host e) (ce_task e) (ce_project e) (ce_presets e) after c x = (Inr v, y))
     \<and> ve_criterion v = c \<and> (automatic_kind (ac_kind c) \<longrightarrow> ve_status v = CkPassed \<or> ve_status v = CkFailed)"

lemma checked_at_mono: "checked_at sch e after i j c v \<Longrightarrow> i' \<le> i \<Longrightarrow> j \<le> j' \<Longrightarrow> checked_at sch e after i' j' c v"
  unfolding checked_at_def by (meson le_trans order.strict_trans1)

lemma run_validators_forward: "forward (run_validators sch e after cs a)"
  by (induction cs arbitrary: a)
     (auto simp: Let_def intro!: forward_intros run_validator_forward record_attempt_forward)

lemma run_validators_Ok:
  "run_validators sch e after cs a x = (Inr b, y) \<Longrightarrow> i \<le> fst x \<Longrightarrow>
     \<exists>vs. b = a\<lparr>ta_validators := ta_validators a @ vs\<rparr> \<and> list_all2 (checked_at sch e after i (fst y)) cs vs"
proof (induction cs arbitrary: a x i)
  case Nil then show ?case by (auto intro!: exI[of _ "[]"])
next
  case (Cons c cs)
  from Cons.prems(1) obtain v x1 y1 x2 where
    x1: "x1 = (Suc (fst x), mo_others (sch (fst x)) (snd x))"
    and v: "run_validator sch (ce_host e) (ce_task e) (ce_project e) (ce_presets e) after c x1 = (Inr v, y1)"
    and rec: "record_attempt sch e (a\<lparr>ta_validators := ta_validators a @ [v]\<rparr>) y1 = (Inr (), x2)"
    and st: "ve_status v \<noteq> CkInfrastructureError" "ve_status v \<noteq> CkCancelled"
    and rest: "run_validators sch e after cs (a\<lparr>ta_validators := ta_validators a @ [v]\<rparr>) x2 = (Inr b, y)"
    by (auto simp: cbind_Ok observe_Ok Let_def)
  have t: "i < fst x1" "fst x1 \<le> fst y1" "fst y1 \<le> fst x2" "fst x2 \<le> fst y"
    using Cons.prems(2) x1 forwardD[OF run_validator_forward v] forwardD[OF record_attempt_forward rec]
      forwardD[OF run_validators_forward rest] by auto
  from Cons.IH[OF rest, of i] t obtain vs where
    b: "b = a\<lparr>ta_validators := ta_validators a @ v # vs\<rparr>" and all: "list_all2 (checked_at sch e after i (fst y)) cs vs"
    by auto
  have "checked_at sch e after i (fst y) c v"
    unfolding checked_at_def
  proof (intro conjI)
    show "\<exists>x y'. i < fst x \<and> fst y' \<le> fst y
       \<and> run_validator sch (ce_host e) (ce_task e) (ce_project e) (ce_presets e) after c x = (Inr v, y')"
      by (rule exI[of _ x1], rule exI[of _ y1]) (use v t in auto)
    show "automatic_kind (ac_kind c) \<longrightarrow> ve_status v = CkPassed \<or> ve_status v = CkFailed"
      using run_validator_Ok[OF v] st by (auto simp: decided_def)
  qed (use run_validator_Ok[OF v] in blast)
  with b all show ?case by (auto intro!: exI[of _ "v # vs"])
qed

text \<open>What a validated attempt rests on.\<close>

lemma validate_attempt_Ok:
  assumes "validate_attempt sch e owner a x = (Inr (b, current), y)"
  obtains after i j humans vs where "fst x \<le> i" "i < j" "j < fst y"
    "acceptance_workspace (mo_site (sch i)) (p_root (ce_project e)) (ce_config e) = Inr after"
    "acceptance_workspace (mo_site (sch j)) (p_root (ce_project e)) (ce_config e) = Inr current"
    "we_fingerprint current = we_fingerprint after" "we_head (ta_base a) = we_head after"
    "ta_validators b = ta_validators a @ vs" "ta_base b = ta_base a"
    "list_all2 (checked_at sch e after i j) (cfg_criteria (ce_config e) @ humans) vs"
proof -
  from assms obtain after x2 criteria x3 x4 x5 x6 x7 where
    after: "acceptance_workspace (mo_site (sch (fst x))) (p_root (ce_project e)) (ce_config e) = Inr after"
    and rec: "record_attempt sch e (a\<lparr>ta_result := ArValidating, ta_workspace := Some after\<rparr>)
        (Suc (fst x), mo_others (sch (fst x)) (snd x)) = (Inr (), x2)"
    and head: "we_head (ta_base a) = we_head after"
    and crit: "draw_criteria sch e x2 = (Inr criteria, x4)"
    and vals: "run_validators sch e after criteria (a\<lparr>ta_result := ArValidating, ta_workspace := Some after\<rparr>) x4 = (Inr b, x5)"
    and clear: "clear_attempt_group sch owner x5 = (Inr (), x6)"
    and current: "capture_workspace sch e x6 = (Inr current, x7)"
    and same: "we_fingerprint current = we_fingerprint after"
    and y: "y = (Suc (fst x7), mo_others (sch (fst x7)) (snd x7))"
    by (auto simp: validate_attempt_def Let_def cbind_Ok observe_Ok capture_workspace_Ok)
  have x7: "fst x7 = Suc (fst x6)" and cur: "acceptance_workspace (mo_site (sch (fst x6))) (p_root (ce_project e)) (ce_config e) = Inr current"
    using current by (simp_all add: capture_workspace_Ok)
  from crit obtain humans where criteria: "criteria = cfg_criteria (ce_config e) @ humans"
    by (cases x2) (auto simp: draw_criteria_def locked_def Let_def)
  have t: "fst x < fst x4" "fst x4 \<le> fst x5" "fst x5 \<le> fst x6"
    using forwardD[OF record_attempt_forward rec] forwardD[OF forward_locked crit[unfolded draw_criteria_def Let_def]]
      forwardD[OF run_validators_forward vals] forwardD[OF clear_group_forward clear] by auto
  from run_validators_Ok[OF vals, of "fst x"] t obtain vs where
    "b = a\<lparr>ta_result := ArValidating, ta_workspace := Some after, ta_validators := ta_validators a @ vs\<rparr>"
    "list_all2 (checked_at sch e after (fst x) (fst x5)) criteria vs" by auto
  moreover from this(2) have "list_all2 (checked_at sch e after (fst x) (fst x6)) criteria vs"
    using t(3) by (auto elim!: list_all2_mono intro: checked_at_mono)
  ultimately show thesis using t x7 cur after head same y criteria
    by (intro that[of "fst x" "fst x6" after vs humans]) auto
qed

section \<open>The submission\<close>

text \<open>
  What a submission rests on: two captures of the workspace, at moments \<open>i\<close> and \<open>j\<close>, that do not differ,
  and between them a passed check for every required criterion a machine can decide.
\<close>

definition backed :: "schedule \<Rightarrow> host_env \<Rightarrow> project \<Rightarrow> task_id \<Rightarrow> acceptance_config \<Rightarrow> nat \<Rightarrow> nat \<Rightarrow>
    review_submission \<Rightarrow> bool" where
  "backed sch h p tid cfg k k' sub \<longleftrightarrow> \<not> blank (rs_summary sub)
     \<and> (\<exists>i j after presets. k \<le> i \<and> i < j \<and> j < k'
       \<and> acceptance_workspace (mo_site (sch i)) (p_root p) cfg = Inr after
       \<and> acceptance_workspace (mo_site (sch j)) (p_root p) cfg = Inr (rs_workspace sub)
       \<and> we_fingerprint (rs_workspace sub) = we_fingerprint after
       \<and> (\<forall>c \<in> set (cfg_criteria cfg). ac_required c \<and> automatic_kind (ac_kind c) \<longrightarrow>
            (\<exists>v \<in> set (rs_criteria sub). ve_criterion v = c \<and> ve_status v = CkPassed
               \<and> (\<exists>x y. i < fst x \<and> fst y \<le> j \<and> run_validator sch h tid p presets after c x = (Inr v, y)))))"

lemma backed_mono: "backed sch h p tid cfg k k' sub \<Longrightarrow> l \<le> k \<Longrightarrow> k' \<le> l' \<Longrightarrow> backed sch h p tid cfg l l' sub"
  unfolding backed_def
proof (elim conjE exE, goal_cases)
  case (1 i j after presets)
  then show ?case by (intro conjI exI[of _ i] exI[of _ j] exI[of _ after] exI[of _ presets]) simp_all
qed

text \<open>A task in review with its submission as the last and current one.\<close>

definition in_review_with :: "runtime \<Rightarrow> task_id \<Rightarrow> review_submission \<Rightarrow> bool" where
  "in_review_with s tid sub \<longleftrightarrow> (\<exists>u. hm_get (rt_tasks s) tid = Some u \<and> column u = InReview
     \<and> t_condition u = TcIdle \<and> acc_current_submission (t_acceptance u) = Some (rs_id sub)
     \<and> acc_submissions (t_acceptance u) \<noteq> [] \<and> List.last (acc_submissions (t_acceptance u)) = sub
     \<and> t_review_summary u = Some (rs_summary sub))"

lemma submit_review_Ok:
  assumes "submit_review w e i a v s = (Inr u, s')" and ok: "tasks_ok s"
  obtains sub where "in_review_with s' (ce_task e) sub" "rs_summary sub = unwrap_or [] (ta_summary a)"
    "rs_criteria sub = ta_validators a" "rs_workspace sub = v"
proof (cases "hm_get (rt_tasks s) (ce_task e)")
  case None with assms(1) show ?thesis by (simp add: submit_review_def)
next
  case (Some t)
  define sub where "sub = new_submission e w (fresh_uuid w s) i a v"
  let ?t = "submitted_task e w i sub t"
  obtain q s1 where sv: "acceptance_save w (ce_host e) ?t ''review_submitted'' (drawn s) = (q, s1)" by (metis prod.exhaust)
  have tid: "t_id t = ce_task e" using ok Some by (auto simp: tasks_ok_def hm.keyed_by_def)
  from assms(1) Some sv obtain u where q: "q = Inr u" and s': "rt_tasks s' = rt_tasks s1"
    by (auto simp: submit_review_def sub_def Let_def split: sum.splits)
  have fields: "t_id ?t = ce_task e" "column ?t = InReview" "t_condition ?t = TcIdle"
    "acc_current_submission (t_acceptance ?t) = Some (rs_id sub)"
    "acc_submissions (t_acceptance ?t) = acc_submissions (t_acceptance t) @ [sub]"
    "t_review_summary ?t = Some (rs_summary sub)"
    by (simp_all add: submitted_task_def column_def tid)
  from sv q have "rt_tasks s1 = hm_insert (ce_task e) (touch (w_now w) ?t) (rt_tasks s)"
    by (elim acceptance_save_cases) (simp_all add: fields(1))
  with s' have "hm_get (rt_tasks s') (ce_task e) = Some (touch (w_now w) ?t)" by (simp add: hm.get_ins)
  with fields have "in_review_with s' (ce_task e) sub"
    unfolding in_review_with_def by (intro exI[of _ "touch (w_now w) ?t"]) (simp add: touch_def column_def)
  then show thesis by (rule that) (simp_all add: sub_def new_submission_def)
qed

lemma submits_passed:
  assumes "submits e b" and "list_all2 (checked_at sch e after i j) cs vs" and "set vs \<subseteq> set (ta_validators b)"
    and "c \<in> set cs" and "ac_required c" and "automatic_kind (ac_kind c)"
  shows "\<exists>v \<in> set (ta_validators b). ve_status v = CkPassed \<and> checked_at sch e after i j c v"
proof -
  from assms(2,4) obtain v where v: "v \<in> set vs" "checked_at sch e after i j c v"
    by (metis list_all2_conv_all_nth in_set_conv_nth nth_mem)
  have "\<not> required_failed v" using assms(1,3) v(1) by (auto simp: submits_def attempt_failures_def filter_empty_conv)
  moreover from v(2) assms(6) have "ve_criterion v = c" "ve_status v = CkPassed \<or> ve_status v = CkFailed"
    by (auto simp: checked_at_def)
  ultimately have "ve_status v = CkPassed" using assms(5) by (auto simp: required_failed_def)
  with v assms(3) show ?thesis by blast
qed

text \<open>An attempt that ends the loop has submitted.\<close>

lemma run_attempt_submits:
  assumes run: "run_attempt sch e n ls x = (Inr None, y)" and q: "surroundings tasks_kept sch" and ok: "tasks_ok (snd x)"
  shows "\<exists>sub. in_review_with (snd y) (ce_task e) sub
    \<and> backed sch (ce_host e) (ce_project e) (ce_task e) (ce_config e) (fst x) (fst y) sub"
proof -
  from run obtain owner a x1 a1 x2 b current x3 where
    queue: "queue_attempt sch e n ls x = (Inr (owner, a), x1)"
    and wk: "work sch e owner a x1 = (Inr a1, x2)"
    and val: "validate_attempt sch e owner a1 x2 = (Inr (b, current), x3)"
    and ver: "verdict sch e n ls owner b current x3 = (Inr None, y)"
    by (auto simp: run_attempt_def cbind_Ok)
  from ver obtain x4 where sub: "submits e b" and ended: "end_attempt sch e ArPassed (ta_failure b) b x3 = (Inr (), x4)"
    and rv: "locked sch (\<lambda>m s. submit_review (mo_world m) e owner b current s) x4 = (Inr (), y)"
    by (auto simp: verdict_def Let_def cbind_Ok res_bind_Ok_iff split: if_splits)
  note kept = keeps_allD[OF _ q]
  have ends: "keeps_all tasks_kept sch (end_attempt sch e ArPassed (ta_failure b) b)"
    unfolding end_attempt_def by (intro loop_tasks.all_bind loop_tasks.all_observe loop_tasks.all_attempt[OF refl])
  have ok4: "tasks_ok (snd x4)"
    using ok kept[OF loop_tasks.all_queue[OF refl] queue] kept[OF loop_tasks.all_work[OF refl] wk]
      kept[OF loop_tasks.all_validate[OF refl] val] kept[OF ends ended] by (simp add: tasks_kept_def)
  let ?m = "sch (fst x4)"
  let ?s = "mo_others ?m (snd x4)"
  from ok4 q have ok5: "tasks_ok ?s" by (simp add: surroundings_def tasks_kept_def)
  from rv obtain s' where s': "submit_review (mo_world ?m) e owner b current ?s = (Inr (), s')" and y: "y = (Suc (fst x4), s')"
    by (cases x4) (auto simp: locked_def split: prod.splits)
  obtain sub where sub': "in_review_with s' (ce_task e) sub" "rs_summary sub = unwrap_or [] (ta_summary b)"
      "rs_criteria sub = ta_validators b" "rs_workspace sub = current"
    by (rule submit_review_Ok[OF s' ok5])
  obtain after i j humans vs where v: "fst x2 \<le> i" "i < j" "j < fst x3"
      "acceptance_workspace (mo_site (sch i)) (p_root (ce_project e)) (ce_config e) = Inr after"
      "acceptance_workspace (mo_site (sch j)) (p_root (ce_project e)) (ce_config e) = Inr current"
      "we_fingerprint current = we_fingerprint after" "ta_validators b = ta_validators a1 @ vs"
      "list_all2 (checked_at sch e after i j) (cfg_criteria (ce_config e) @ humans) vs"
    by (rule validate_attempt_Ok[OF val])
  have t: "fst x \<le> i" "j < fst y"
    using v(1,3) y forwardD[OF queue_attempt_forward queue] forwardD[OF work_forward wk] forwardD[OF end_attempt_forward ended] by auto
  have checks: "\<exists>v \<in> set (rs_criteria sub). ve_criterion v = c \<and> ve_status v = CkPassed
      \<and> (\<exists>x y. i < fst x \<and> fst y \<le> j \<and> run_validator sch (ce_host e) (ce_task e) (ce_project e) (ce_presets e) after c x = (Inr v, y))"
    if c: "c \<in> set (cfg_criteria (ce_config e))" "ac_required c \<and> automatic_kind (ac_kind c)" for c
  proof -
    obtain w where "w \<in> set (ta_validators b)" "ve_status w = CkPassed" "checked_at sch e after i j c w"
      using submits_passed[OF sub v(8), of c] v(7) c by auto
    with sub'(3) show ?thesis unfolding checked_at_def by (intro bexI[of _ w]) (blast, simp)
  qed
  have "\<not> blank (rs_summary sub)" using sub sub'(2)
    by (auto simp: submits_def has_summary_def is_some_and_def split: option.splits)
  then have "backed sch (ce_host e) (ce_project e) (ce_task e) (ce_config e) (fst x) (fst y) sub"
    unfolding backed_def using t v(2,4,5,6) sub'(4) checks by blast
  with sub'(1) y show ?thesis by auto
qed

text \<open>The last attempt the policy allows is never followed by another.\<close>

lemma run_attempt_goes_on:
  assumes "run_attempt sch e n ls x = (Inr (Some ls'), y)"
  shows "n \<noteq> max_ordinal (ce_initial e) (ce_validation_only e)"
  using assms by (auto simp: run_attempt_def verdict_def next_attempt_def retry_refusal_def Let_def cbind_Ok
      res_bind_Ok_iff split: if_splits)

lemma run_attempt_forward: "forward (run_attempt sch e n ls)"
proof -
  have val: "forward (validate_attempt sch e i a)" for i a
    unfolding validate_attempt_def draw_criteria_def Let_def
    by (intro forward_intros record_attempt_forward run_validators_forward clear_group_forward capture_forward)
  have ver: "forward (verdict sch e n ls i a v)" for i a v
    unfolding verdict_def Let_def by (intro forward_if forward_intros end_attempt_forward)
  show ?thesis unfolding run_attempt_def
    by (intro forward_intros queue_attempt_forward) (auto intro!: forward_intros work_forward val ver split: prod.split)
qed

lemma run_attempts_forward: "forward (run_attempts sch e n m ls)"
  by (induction sch e n m ls rule: run_attempts.induct)
     (auto intro!: forward_intros run_attempt_forward split: option.split)

lemma run_attempts_submit:
  assumes "run_attempts sch e n m ls x = (Inr (), y)" and "n + m = Suc (max_ordinal (ce_initial e) (ce_validation_only e))"
    and "0 < m" and "surroundings tasks_kept sch" and "tasks_ok (snd x)"
  shows "\<exists>sub. in_review_with (snd y) (ce_task e) sub
    \<and> backed sch (ce_host e) (ce_project e) (ce_task e) (ce_config e) (fst x) (fst y) sub"
  using assms
proof (induction m arbitrary: n ls x)
  case (Suc m)
  from Suc.prems(1) obtain r x1 where run: "run_attempt sch e n ls x = (Inr r, x1)"
    and rest: "(case r of None \<Rightarrow> creturn () | Some ls \<Rightarrow> run_attempts sch e (Suc n) m ls) x1 = (Inr (), y)"
    by (auto simp: cbind_Ok)
  show ?case
  proof (cases r)
    case None
    with rest run_attempt_submits[OF _ Suc.prems(4,5)] run show ?thesis by (metis creturn_Ok option.case(1))
  next
    case (Some ls')
    with run have "n \<noteq> max_ordinal (ce_initial e) (ce_validation_only e)" by (intro run_attempt_goes_on) simp
    with Suc.prems(2) have m: "0 < m" by (cases m) auto
    have "tasks_kept (snd x) (snd x1)" by (rule keeps_allD[OF loop_tasks.all_run[OF refl] Suc.prems(4) run])
    with Suc.prems(5) have ok: "tasks_ok (snd x1)" by (simp add: tasks_kept_def)
    from rest Some have rest: "run_attempts sch e (Suc n) m ls' x1 = (Inr (), y)" by simp
    from Suc.IH[OF rest _ m Suc.prems(4) ok] Suc.prems(2) obtain sub where
      "in_review_with (snd y) (ce_task e) sub"
      "backed sch (ce_host e) (ce_project e) (ce_task e) (ce_config e) (fst x1) (fst y) sub" by auto
    with forwardD[OF run_attempt_forward run] show ?thesis by (blast intro: backed_mono)
  qed
qed simp

lemma acceptance_cycle_Ok:
  assumes "acceptance_cycle sch h fuel lt (k, s) = (Inr (), y)"
  obtains t e ls x where "hm_get (rt_tasks (mo_others (sch k) s)) (t_id (lt_task lt)) = Some t"
    "validate_config (acc_config (t_acceptance t)) = Inr ()"
    "x = (Suc (Suc (Suc (Suc k))), mo_others (sch (Suc (Suc (Suc k)))) (mo_others (sch (Suc (Suc k)))
        (drawn (mo_others (sch (Suc k)) (mo_others (sch k) s)))))"
    "ce_host e = h" "ce_project e = lt_project lt" "ce_task e = t_id (lt_task lt)" "ce_initial e = t"
    "ce_validation_only e = lt_validation_only lt"
    "run_attempts sch e 1 (max_ordinal t (lt_validation_only lt)) ls x = (Inr (), y)"
proof -
  from assms obtain t ps where t: "hm_get (rt_tasks (mo_others (sch k) s)) (t_id (lt_task lt)) = Some t"
    and cfg: "validate_config (acc_config (t_acceptance t)) = Inr ()"
    and run: "run_attempts sch \<lparr>ce_host = h, ce_project = lt_project lt, ce_task = t_id (lt_task lt),
         ce_profile = lt_profile lt, ce_validation_only = lt_validation_only lt, ce_initial = t,
         ce_cycle = fresh_uuid (mo_world (sch (Suc k))) (mo_others (sch (Suc k)) (mo_others (sch k) s)),
         ce_presets = ps, ce_fuel = fuel\<rparr> 1 (max_ordinal t (lt_validation_only lt))
       \<lparr>ls_owner = lt_owner lt, ls_previous = None, ls_resume = first_thread t (lt_owner lt) (lt_validation_only lt)
           (mo_others (sch (Suc (Suc k))) (drawn (mo_others (sch (Suc k)) (mo_others (sch k) s)))),
         ls_feedback = unwrap_or [] (t_last_reason t), ls_expected = None\<rparr>
       (Suc (Suc (Suc (Suc k))), mo_others (sch (Suc (Suc (Suc k)))) (mo_others (sch (Suc (Suc k)))
        (drawn (mo_others (sch (Suc k)) (mo_others (sch k) s))))) = (Inr (), y)"
    by (auto simp: acceptance_cycle_def Let_def cbind_Ok observe_Ok locked_def loop_task_def)
  show thesis by (rule that[OF t cfg refl _ _ _ _ _ run]) simp_all
qed

text \<open>C2: a loop that ends without an error has submitted checked work: the task is in review, never Done,
  with a new current submission that has a summary; every required criterion of the task's contract that
  a machine decides was passed by a validator run; and the workspace captured after the validators, the
  one the submission names, has the fingerprint of the one captured before them.\<close>

theorem loop_submits_checked_work:
  assumes "acceptance_cycle sch h fuel lt (k, s) = (Inr (), k', s')" and "surroundings tasks_kept sch" and "tasks_ok s"
  shows "\<exists>t sub. hm_get (rt_tasks (mo_others (sch k) s)) (t_id (lt_task lt)) = Some t
    \<and> in_review_with s' (t_id (lt_task lt)) sub
    \<and> backed sch h (lt_project lt) (t_id (lt_task lt)) (acc_config (t_acceptance t)) k k' sub"
proof -
  let ?tid = "t_id (lt_task lt)" and ?s = "mo_others (sch k) s"
  have others: "tasks_ok (mo_others (sch i) u)" if "tasks_ok u" for i u
    using assms(2) that by (auto simp: surroundings_def tasks_kept_def)
  obtain t e ls x where t: "hm_get (rt_tasks ?s) ?tid = Some t"
    and cfg: "validate_config (acc_config (t_acceptance t)) = Inr ()"
    and x: "x = (Suc (Suc (Suc (Suc k))), mo_others (sch (Suc (Suc (Suc k)))) (mo_others (sch (Suc (Suc k)))
        (drawn (mo_others (sch (Suc k)) ?s))))"
    and e: "ce_host e = h" "ce_project e = lt_project lt" "ce_task e = ?tid" "ce_initial e = t"
      "ce_validation_only e = lt_validation_only lt"
    and run: "run_attempts sch e 1 (max_ordinal t (lt_validation_only lt)) ls x = (Inr (), k', s')"
    by (rule acceptance_cycle_Ok[OF assms(1)])
  have "0 < max_ordinal t (lt_validation_only lt)"
    using cfg by (auto simp: max_ordinal_def validate_config_Ok Let_def)
  moreover have "tasks_ok (drawn u) = tasks_ok u" for u by (simp add: tasks_ok_def)
  with x assms(3) others have "tasks_ok (snd x)" by simp
  ultimately obtain sub where "in_review_with s' ?tid sub"
    and b: "backed sch h (lt_project lt) ?tid (ce_config e) (fst x) k' sub"
    using run_attempts_submit[OF run _ _ assms(2)] e by auto
  moreover have "backed sch h (lt_project lt) ?tid (acc_config (t_acceptance t)) k k' sub"
    using b x by (auto simp: ce_config_def e intro: backed_mono)
  ultimately show ?thesis using t by blast
qed

end
