(* ===== verification/Cycle_Sample.thy ===== *)
theory Cycle_Sample
  imports Cycle_Facts
begin

text \<open>
  A whole run of a loop, as a witness: a user asks to validate a task with one required file check; the
  file is there, nobody interferes, and the loop submits the task.
\<close>

section \<open>A task to validate\<close>

definition checked_task :: task where
  "checked_task = sample_task\<lparr>t_state := TsRunning, t_review_summary := Some ''ok'',
     t_acceptance := default_task_acceptance\<lparr>acc_config := sample_contract\<rparr>\<rparr>"

lemma checked_task_simps [simp]:
  "t_id checked_task = 7" "t_project_id checked_task = 1" "t_acceptance checked_task = default_task_acceptance\<lparr>acc_config := sample_contract\<rparr>"
  "t_review_summary checked_task = Some ''ok''" "t_execution_queue checked_task = None"
  "t_coordinator_group checked_task = None" "t_github_source checked_task = None" "t_description checked_task = []"
  "t_title checked_task = ''Work''" "t_continue_agent_id checked_task = None" "t_last_reason checked_task = None"
  "pl_text (t_planning checked_task) = []" "t_acceptance_criteria checked_task = [''Reviewed'']"
  by (simp_all add: checked_task_def sample_task_def new_task_def sample_draft_def validate_draft_def blank_def
    trim_def is_whitespace_def byte_of_def is_cont_def)

abbreviation checked_loop :: loop_thread where
  "checked_loop \<equiv> \<lparr>lt_task = checked_task, lt_project = sample_project, lt_owner = 77,
     lt_profile = default_profile, lt_validation_only = True\<rparr>"

definition plain_host :: host_env where
  "plain_host = \<lparr>he_vars = [], he_upper = id, he_json_len = (\<lambda>_. 0), he_show_kind = (\<lambda>_. ''File''),
     he_criteria_json = (\<lambda>_. []), he_source_json = (\<lambda>_ _. []), he_report = (\<lambda>_. None)\<rparr>"

abbreviation still :: moment where
  "still \<equiv> quiet_moment sample_world sample_site"

lemma still_simps [simp]: "mo_others (quiet_moment w si) = id" "mo_world (quiet_moment w si) = w"
  "mo_site (quiet_moment w si) = si" "mo_late (quiet_moment w si) = False" "mo_ms (quiet_moment w si) = 0"
  by (simp_all add: quiet_moment_def)

section \<open>A healthy disk\<close>

definition calm :: "task \<Rightarrow> runtime \<Rightarrow> bool" where
  "calm t s \<longleftrightarrow> db_ok (st_db (rt_store s)) \<and> st_faults (rt_store s) = []
     \<and> (\<forall>a \<in> set (db_audits (st_db (rt_store s))). au_id a < 1000 + rt_draws s)
     \<and> coherent s \<and> hm_get (rt_tasks s) 7 = Some t \<and> t_id t = 7
     \<and> rt_controls s = [] \<and> db_writers (st_db (rt_store s)) = []"

lemma calm_drawn: "calm t s \<Longrightarrow> calm t (drawn s)"
  by (auto simp: calm_def drawn_def coherent_def)

lemma calm_draws: "calm t s \<Longrightarrow> calm t (s\<lparr>rt_draws := rt_draws s + n\<rparr>)"
  by (auto simp: calm_def coherent_def)

lemma calm_save:
  assumes "calm t s" and "t_id u = 7" and "he_json_len h (t_acceptance u) = 0"
  shows "\<exists>s'. acceptance_save sample_world h u action s = (Inr (touch 200 u), s') \<and> calm (touch 200 u) s'"
proof -
  let ?u = "touch 200 u"
  let ?a = "audit (1000 + rt_draws s) 200 ?u Daemon action (Some (column ?u)) (t_last_reason ?u)"
  let ?s = "s\<lparr>rt_draws := Suc (rt_draws s)\<rparr>"
  have "stored_task 7 (st_db (rt_store s)) = Some t" using assms(1) by (auto simp: calm_def coherent_def)
  moreover have "1000 + rt_draws s \<notin> au_id ` set (db_audits (st_db (rt_store s)))" using assms(1) by (auto simp: calm_def)
  ultimately obtain db where save: "stmt_save [(?u, ?a)] None [] (st_db (rt_store s)) = Inr db" and "db_ok db"
      and au: "db_audits db = db_audits (st_db (rt_store s)) @ [?a]"
    using stmt_save_one[of "st_db (rt_store s)" ?u t "1000 + rt_draws s" ?a] assms by (auto simp: calm_def)
  have writers: "db_writers db = []" using stmt_save_writers[OF save] assms(1) by (simp add: calm_def)
  let ?s' = "publish_tasks sample_world [(?u, ?a)] (?s\<lparr>rt_store := (rt_store s)\<lparr>st_db := db\<rparr>\<rparr>)"
  have sv: "save_and_publish sample_world [(?u, ?a)] s = (Inr (), ?s')"
    using assms(1) save by (simp add: save_and_publish_def with_store_def save_task_changes_alt
        save_task_agent_changes_def in_tx_healthy calm_def)
  have "coherent ?s'" using coherent_save_and_publish[of s sample_world "[(?u, ?a)]"] assms(1) sv by (simp add: calm_def)
  moreover have "fresh_uuid sample_world s = 1000 + rt_draws s" by (simp add: fresh_uuid_def)
  ultimately have "acceptance_save sample_world h u action s = (Inr ?u, ?s') \<and> calm ?u ?s'"
    using assms sv \<open>db_ok db\<close> au writers
    by (auto simp: acceptance_save_def Let_def calm_def publish_tasks_tasks hm.get_ins)
  then show ?thesis by blast
qed

lemma calm_attempt:
  assumes "calm t s" and "put_attempt a (acc_attempts (t_acceptance t)) = Inr as"
  shows "\<exists>s' u. attempt_update sample_world plain_host 7 a s = (Inr (), s') \<and> calm u s'
    \<and> acc_attempts (t_acceptance u) = as"
proof -
  let ?u = "t\<lparr>t_acceptance := (t_acceptance t)\<lparr>acc_attempts := as\<rparr>, t_condition := attempt_condition as (t_condition t)\<rparr>"
  have u: "t_id ?u = 7" "he_json_len plain_host (t_acceptance ?u) = 0"
    using assms(1) by (simp_all add: calm_def plain_host_def)
  obtain s' where s': "acceptance_save sample_world plain_host ?u ''attempt_evidence'' s = (Inr (touch 200 ?u), s')"
    "calm (touch 200 ?u) s'" using calm_save[OF assms(1) u] by blast
  moreover have "acc_attempts (t_acceptance (touch 200 ?u)) = as" by (simp add: touch_def)
  ultimately show ?thesis using assms by (auto simp: attempt_update_def calm_def)
qed

lemma record_calm:
  assumes "calm t s" and "put_attempt a (acc_attempts (t_acceptance t)) = Inr as" and "ce_task e = 7" and "ce_host e = plain_host"
  shows "\<exists>s' u. record_attempt (\<lambda>_. still) e a (k, s) = (Inr (), Suc k, s') \<and> calm u s'
    \<and> acc_attempts (t_acceptance u) = as"
  using calm_attempt[OF assms(1,2)] assms(3,4) by (auto simp: record_attempt_def locked_def of_result_def)

section \<open>The run\<close>

lemma sections [simp]:
  "observe (\<lambda>_. still) f (k, s) = (Inr (f still s), Suc k, s)"
  "locked (\<lambda>_. still) g (k, s) = (case g still s of (r, s') \<Rightarrow> (r, Suc k, s'))"
  by (simp_all add: observe_def locked_def)

lemma cbindI: "m x = (Inr a, y) \<Longrightarrow> f a y = (Inr b, z) \<Longrightarrow> cbind m f x = (Inr b, z)"
  by (simp add: cbind_def)

lemma not_cancelled: "calm t s \<Longrightarrow> \<not> loop_cancelled i s"
  by (simp add: calm_def loop_cancelled_def hm_get_def)

text \<open>A task with one attempt that has not ended, which the next version replaces.\<close>

definition working_on :: "uuid \<Rightarrow> runtime \<Rightarrow> bool" where
  "working_on i s \<longleftrightarrow> (\<exists>t b. calm t s \<and> acc_attempts (t_acceptance t) = [b] \<and> ta_id b = i
     \<and> result_active (ta_result b))"

lemma record_working:
  assumes "working_on i s" and "ta_id a = i" and "ce_task e = 7" and "ce_host e = plain_host"
  shows "\<exists>s' t. record_attempt (\<lambda>_. still) e a (k, s) = (Inr (), Suc k, s') \<and> calm t s'
    \<and> (result_active (ta_result a) \<longrightarrow> working_on i s')"
proof -
  from assms(1) obtain t b where t: "calm t s" "acc_attempts (t_acceptance t) = [b]" "ta_id b = i" "result_active (ta_result b)"
    by (auto simp: working_on_def)
  with assms(2) have "put_attempt a (acc_attempts (t_acceptance t)) = Inr [merged_attempt b a]" by simp
  from record_calm[OF t(1) this assms(3,4), of k] assms(2) show ?thesis by (fastforce simp: working_on_def)
qed

lemma working_calm: "working_on i s \<Longrightarrow> \<exists>t. calm t s"
  by (auto simp: working_on_def)

lemma working_not_cancelled: "working_on i s \<Longrightarrow> \<not> loop_cancelled j s"
  using working_calm not_cancelled by blast

abbreviation sample_cycle :: "uuid \<Rightarrow> cycle_env" where
  "sample_cycle c \<equiv> \<lparr>ce_host = plain_host, ce_project = sample_project, ce_task = 7, ce_profile = default_profile,
     ce_validation_only = True, ce_initial = checked_task, ce_cycle = c, ce_presets = [], ce_fuel = 5\<rparr>"

definition file_criterion :: acceptance_criterion where
  "file_criterion = \<lparr>ac_id = 1, ac_label = ''l'', ac_required = True, ac_kind = File ''src/a'' Exists\<rparr>"

lemma sample_config: "ce_config (sample_cycle c) = sample_contract" "cfg_criteria sample_contract = [file_criterion]"
  "cfg_policy sample_contract = default_loop_policy"
  by (simp_all add: ce_config_def sample_contract_def file_criterion_def)

lemma sample_contained: "contained sample_site ''/p'' ''src/a'' = Inr ''/p/src/a''"
  by code_simp

lemma sample_capture: "\<exists>v. acceptance_workspace sample_site ''/p'' sample_contract = Inr v"
  by (simp add: acceptance_workspace_def sample_config file_criterion_def sample_contained)
     (simp add: sample_site_def)

lemma sample_validator:
  "\<exists>v. run_validator (\<lambda>_. still) plain_host 7 sample_project [] w file_criterion (k, s) = (Inr v, Suc (Suc (Suc k)), s)
     \<and> ve_status v = CkPassed \<and> ve_criterion v = file_criterion"
proof -
  have "file_check sample_site ''/p'' ''src/a'' Exists = Inr True"
    by (simp add: file_check_def sample_contained) (simp add: sample_site_def)
  then show ?thesis
    by (simp add: run_validator_def cbind_def validator_command_def plain_check_def file_criterion_def
        finished_evidence_def judged_def new_evidence_def)
qed

lemma sample_human:
  "\<exists>v. run_validator (\<lambda>_. still) plain_host 7 sample_project [] w (human_criterion i l) (k, s)
     = (Inr v, Suc (Suc (Suc k)), s) \<and> ve_status v = CkHumanReview"
  by (simp add: run_validator_def cbind_def validator_command_def plain_check_def human_criterion_def
        finished_evidence_def judged_def new_evidence_def)

lemma capture_sample:
  assumes "acceptance_workspace sample_site ''/p'' sample_contract = Inr v"
  shows "capture_workspace (\<lambda>_. still) (sample_cycle c) (k, s) = (Inr v, Suc k, s)"
  using assms by (simp add: capture_workspace_def cbind_def sample_config lift_res_def of_result_def)

abbreviation sample_loop_state :: loop_state where
  "sample_loop_state \<equiv> \<lparr>ls_owner = 77, ls_previous = None, ls_resume = None, ls_feedback = [], ls_expected = None\<rparr>"

lemma sample_prompt: "length (loop_prompt plain_host checked_task []) \<le> 65536"
  by (simp add: loop_prompt_def plain_host_def nl_def)

lemma queue_sample:
  assumes "calm checked_task s" and v: "acceptance_workspace sample_site ''/p'' sample_contract = Inr v"
  shows "\<exists>k' s' a. queue_attempt (\<lambda>_. still) (sample_cycle c) 1 sample_loop_state (k, s) = (Inr (77, a), k', s')
    \<and> working_on (ta_id a) s' \<and> ta_base a = v \<and> ta_validators a = []"
proof -
  have t: "hm_get (rt_tasks s) 7 = Some checked_task" using assms(1) by (simp add: calm_def)
  have gate: "attempt_gate (\<lambda>_. still) (sample_cycle c) (k, s) = (Inr (), k + 3, s)"
    by (simp add: attempt_gate_def cbind_def loop_task_def t default_task_acceptance_def cwhen_def creturn_def not_cancelled[OF assms(1)])
  have stop: "stop_at_boundary (\<lambda>_. still) (sample_cycle c) msg (j, s) = (Inr (), Suc j, s)" for msg j
    by (simp add: stop_at_boundary_def cbind_def creturn_def not_cancelled[OF assms(1)])
  define a where "a = queued_attempt (sample_cycle c) sample_world (fresh_uuid sample_world s) 1 sample_loop_state
    (loop_prompt plain_host checked_task []) v"
  have draw: "draw_attempt (\<lambda>_. still) (sample_cycle c) (Suc 0) sample_loop_state v (j, s) = (Inr a, Suc j, drawn s)" for j
    using sample_prompt by (simp add: draw_attempt_def cbind_def cwhen_def creturn_def a_def)
  have "put_attempt a (acc_attempts (t_acceptance checked_task)) = Inr [a]"
    by (simp add: default_task_acceptance_def)
  from record_calm[OF calm_drawn[OF assms(1)] this, of "sample_cycle c" "6 + k"] obtain s' u where
    rec: "record_attempt (\<lambda>_. still) (sample_cycle c) a (6 + k, drawn s) = (Inr (), Suc (6 + k), s')"
    and u: "calm u s'" "acc_attempts (t_acceptance u) = [a]" by auto
  have "working_on (ta_id a) s'" using u by (auto simp: working_on_def a_def queued_attempt_def)
  moreover have "queue_attempt (\<lambda>_. still) (sample_cycle c) 1 sample_loop_state (k, s) = (Inr (77, a), Suc (6 + k), s')"
    unfolding queue_attempt_def using rec
    by (simp add: cbind_def gate capture_sample[OF v] stop cwhen_def creturn_def draw)
  moreover have "ta_base a = v" "ta_validators a = []" by (simp_all add: a_def queued_attempt_def)
  ultimately show ?thesis by blast
qed

lemma validators_sample:
  assumes "working_on (ta_id a) s" and "result_active (ta_result a)" and "ta_validators a = []"
  shows "\<exists>k' s' v v'. run_validators (\<lambda>_. still) (sample_cycle c) w [file_criterion, human_criterion i l] a (k, s)
      = (Inr (a\<lparr>ta_validators := [v, v']\<rparr>), k', s') \<and> working_on (ta_id a) s'
    \<and> ve_status v = CkPassed \<and> ve_criterion v = file_criterion \<and> ve_status v' = CkHumanReview"
proof -
  obtain v where v: "run_validator (\<lambda>_. still) plain_host 7 sample_project [] w file_criterion (Suc k, s)
      = (Inr v, Suc (Suc (Suc (Suc k))), s)" "ve_status v = CkPassed" "ve_criterion v = file_criterion"
    using sample_validator by blast
  let ?a = "a\<lparr>ta_validators := [v]\<rparr>"
  obtain s1 where s1: "record_attempt (\<lambda>_. still) (sample_cycle c) ?a (Suc (Suc (Suc (Suc k))), s)
      = (Inr (), Suc (Suc (Suc (Suc (Suc k)))), s1)" "working_on (ta_id a) s1"
    using record_working[OF assms(1), of ?a "sample_cycle c"] assms(2) by auto
  let ?k = "Suc (Suc (Suc (Suc (Suc k))))"
  obtain v' where v': "run_validator (\<lambda>_. still) plain_host 7 sample_project [] w (human_criterion i l) (Suc ?k, s1)
      = (Inr v', Suc (Suc (Suc (Suc ?k))), s1)" "ve_status v' = CkHumanReview"
    using sample_human by blast
  let ?b = "a\<lparr>ta_validators := [v, v']\<rparr>"
  obtain s2 where s2: "record_attempt (\<lambda>_. still) (sample_cycle c) ?b (Suc (Suc (Suc (Suc ?k))), s1)
      = (Inr (), Suc (Suc (Suc (Suc (Suc ?k)))), s2)" "working_on (ta_id a) s2"
    using record_working[OF s1(2), of ?b "sample_cycle c"] assms(2) by auto
  have "run_validators (\<lambda>_. still) (sample_cycle c) w [file_criterion, human_criterion i l] a (k, s)
      = (Inr ?b, Suc (Suc (Suc (Suc (Suc ?k)))), s2)"
    using v v' s1(1) s2(1) assms(3) working_not_cancelled[OF assms(1)] working_not_cancelled[OF s1(2)]
    by (simp add: cbind_def cwhen_def creturn_def Let_def)
  with s2(2) v(2,3) v'(2) show ?thesis by blast
qed

text \<open>After the reservation's process: there is none.\<close>

lemma clear_sample:
  assumes "working_on i s"
  shows "\<exists>s'. clear_attempt_group (\<lambda>_. still) 77 (k, s) = (Inr (), Suc (Suc (Suc k)), s') \<and> working_on i s'"
proof -
  from assms obtain t b where t: "calm t s" "acc_attempts (t_acceptance t) = [b]" "ta_id b = i" "result_active (ta_result b)"
    by (auto simp: working_on_def)
  let ?s = "s\<lparr>rt_validator_owners := hs_remove 77 (rt_validator_owners s)\<rparr>"
  have group: "reserved_group s 77 = None" using t(1) by (simp add: reserved_group_def calm_def hm_get_def)
  have row: "stopped_writer 77 s = (Inr (), ?s)"
    using t(1) by (cases "rt_store s")
      (simp add: stopped_writer_def with_store_def writer_stopped_def in_tx_healthy calm_def update_writer_def hm_get_def)
  have "coherent ?s" using coherent_cong[of ?s s] t(1) by (simp add: calm_def)
  with t(1) have "calm t ?s" by (simp add: calm_def)
  with t have "working_on i ?s" by (auto simp: working_on_def)
  with group row show ?thesis by (simp add: clear_attempt_group_def cbind_def cwhen_def creturn_def)
qed

lemma validate_sample:
  assumes "working_on (ta_id a) s" and v: "acceptance_workspace sample_site ''/p'' sample_contract = Inr w"
    and "ta_base a = w" and "ta_validators a = []"
  shows "\<exists>k' s' b v v'. validate_attempt (\<lambda>_. still) (sample_cycle c) 77 a (k, s) = (Inr (b, w), k', s')
    \<and> working_on (ta_id b) s' \<and> ta_validators b = [v, v'] \<and> ve_status v = CkPassed \<and> ve_criterion v = file_criterion
    \<and> ve_status v' = CkHumanReview \<and> ta_summary b = ta_summary a"
proof -
  let ?a = "a\<lparr>ta_result := ArValidating, ta_workspace := Some w\<rparr>"
  obtain s1 where s1: "record_attempt (\<lambda>_. still) (sample_cycle c) ?a (Suc k, s) = (Inr (), Suc (Suc k), s1)"
      "working_on (ta_id a) s1"
    using record_working[OF assms(1), of ?a "sample_cycle c"] by auto
  let ?l = "w_uuid sample_world (rt_draws s1)"
  let ?s1 = "s1\<lparr>rt_draws := Suc (rt_draws s1)\<rparr>"
  have draw: "draw_criteria (\<lambda>_. still) (sample_cycle c) (Suc (Suc k), s1)
      = (Inr [file_criterion, human_criterion ?l ''Reviewed''], Suc (Suc (Suc k)), ?s1)"
    by (simp add: draw_criteria_def sample_config)
  have "working_on (ta_id ?a) ?s1" using s1(2) calm_draws[of _ s1 1] by (auto simp: working_on_def)
  moreover have "result_active (ta_result ?a)" "ta_validators ?a = []" using assms(4) by simp_all
  ultimately obtain k2 s2 v v' where run: "run_validators (\<lambda>_. still) (sample_cycle c) w
        [file_criterion, human_criterion ?l ''Reviewed''] ?a (Suc (Suc (Suc k)), ?s1)
      = (Inr (?a\<lparr>ta_validators := [v, v']\<rparr>), k2, s2)" and w2: "working_on (ta_id ?a) s2"
      and vs: "ve_status v = CkPassed" "ve_criterion v = file_criterion" "ve_status v' = CkHumanReview"
    using validators_sample by blast
  obtain s3 where s3: "clear_attempt_group (\<lambda>_. still) 77 (k2, s2) = (Inr (), Suc (Suc (Suc k2)), s3)" "working_on (ta_id ?a) s3"
    using clear_sample[OF w2] by blast
  have "validate_attempt (\<lambda>_. still) (sample_cycle c) 77 a (k, s)
      = (Inr (?a\<lparr>ta_validators := [v, v']\<rparr>, w), k2 + 5, s3)"
    unfolding validate_attempt_def Let_def
    using s1(1) draw run s3(1) assms(3) by (simp add: cbind_def capture_sample[OF v] cwhen_def creturn_def)
  with s3(2) vs show ?thesis by (intro exI conjI) (assumption | simp)+
qed

lemma verdict_sample:
  assumes "working_on (ta_id b) s" and "ta_validators b = [v, v']" and "ve_status v = CkPassed"
    and "ve_status v' = CkHumanReview" and "ta_summary b = Some ''ok''"
  shows "\<exists>k' s'. verdict (\<lambda>_. still) (sample_cycle c) 1 ls 77 b w (k, s) = (Inr None, k', s')"
proof -
  have "\<not> blank ''ok''" by (rule ok_not_blank)
  then have sub: "submits (sample_cycle c) b"
    using assms(2-5) by (simp add: submits_def attempt_failures_def required_failed_def coordinated_def has_summary_def)
  let ?b = "ended_attempt sample_world ArPassed (ta_failure b) b"
  have ids: "ta_id ?b = ta_id b" by (simp add: ended_attempt_def)
  obtain s1 t where s1: "record_attempt (\<lambda>_. still) (sample_cycle c) ?b (Suc k, s) = (Inr (), Suc (Suc k), s1)" and t: "calm t s1"
    using record_working[OF assms(1) ids, of "sample_cycle c" "Suc k"] by auto
  let ?t = "submitted_task (sample_cycle c) sample_world 77
    (new_submission (sample_cycle c) sample_world (fresh_uuid sample_world s1) 77 b w) t"
  have "t_id ?t = 7" "he_json_len plain_host (t_acceptance ?t) = 0"
    using t by (simp_all add: submitted_task_def calm_def plain_host_def)
  from calm_save[OF calm_drawn[OF t] this] obtain s2 where
    "acceptance_save sample_world plain_host ?t ''review_submitted'' (drawn s1) = (Inr (touch 200 ?t), s2)" by blast
  with t have "submit_review sample_world (sample_cycle c) 77 b w s1 = (Inr (), task_attention sample_world (touch 200 ?t) s2)"
    by (simp add: submit_review_def calm_def Let_def)
  with s1 sub show ?thesis
    by (simp add: verdict_def cbind_def end_attempt_def creturn_def ce_policy_def sample_config default_loop_policy_def)
qed

abbreviation checked_start :: runtime where
  "checked_start \<equiv> sample_runtime checked_task []"

lemma calm_start: "calm checked_task (drawn checked_start)"
proof -
  have "db_ok (st_db (with_task checked_task sample_store))"
    using db_ok_with_task[of checked_task] by simp
  moreover have "coherent (drawn checked_start)" by simp
  ultimately show ?thesis
    by (simp add: calm_def sample_runtime_def hm_get_def with_task_def sample_store_def empty_database_def)
qed

lemma cycle_sample:
  "\<exists>k' s'. acceptance_cycle (\<lambda>_. still) plain_host 5 checked_loop (0, checked_start) = (Inr (), k', s')"
proof -
  obtain w where w: "acceptance_workspace sample_site ''/p'' sample_contract = Inr w" using sample_capture by blast
  let ?c = "fresh_uuid sample_world checked_start"
  obtain k1 s1 a where q: "queue_attempt (\<lambda>_. still) (sample_cycle ?c) 1 sample_loop_state (Suc (Suc (Suc (Suc 0))), drawn checked_start)
      = (Inr (77, a), k1, s1)" "working_on (ta_id a) s1" "ta_base a = w" "ta_validators a = []"
    using queue_sample[OF calm_start w] by blast
  let ?a = "a\<lparr>ta_summary := Some ''ok''\<rparr>"
  have wk: "work (\<lambda>_. still) (sample_cycle ?c) 77 a (k1, s1) = (Inr ?a, k1, s1)"
    by (simp add: work_def creturn_def revalidated_summary_def)
  obtain k2 s2 b v v' where val: "validate_attempt (\<lambda>_. still) (sample_cycle ?c) 77 ?a (k1, s1) = (Inr (b, w), k2, s2)"
      and b: "working_on (ta_id b) s2" "ta_validators b = [v, v']" "ve_status v = CkPassed"
        "ve_status v' = CkHumanReview" "ta_summary b = Some ''ok''"
    using validate_sample[of ?a s1 w ?c k1] q w by auto
  obtain k3 s3 where ver: "verdict (\<lambda>_. still) (sample_cycle ?c) 1 sample_loop_state 77 b w (k2, s2) = (Inr None, k3, s3)"
    using verdict_sample[OF b] by blast
  have run: "run_attempt (\<lambda>_. still) (sample_cycle ?c) (Suc 0) sample_loop_state (Suc (Suc (Suc (Suc 0))), drawn checked_start) = (Inr None, k3, s3)"
    unfolding run_attempt_def using q(1) wk val ver by (simp add: cbind_def)
  have presets: "acceptance_presets (Suc 0) (drawn checked_start) = Inr []"
    by (simp add: acceptance_presets_def setting_def with_task_def sample_store_def empty_database_def hm_get_def)
  have "acceptance_cycle (\<lambda>_. still) plain_host 5 checked_loop (0, checked_start) = (Inr (), k3, s3)"
    using run by (simp add: acceptance_cycle_def Let_def cbind_def loop_task_def hm_get_def sample_contract_Ok of_result_def lift_res_def
        default_task_acceptance_def cwhen_def creturn_def first_thread_def presets max_ordinal_def)
  then show ?thesis by blast
qed

theorem loop_submits_checked_work_witness:
  "\<exists>k' s' sub. acceptance_cycle (\<lambda>_. still) plain_host 5 checked_loop (0, checked_start) = (Inr (), k', s')
     \<and> in_review_with s' 7 sub \<and> (\<exists>v \<in> set (rs_criteria sub). ve_criterion v = file_criterion \<and> ve_status v = CkPassed)"
proof -
  obtain k' s' where run: "acceptance_cycle (\<lambda>_. still) plain_host 5 checked_loop (0, checked_start) = (Inr (), k', s')"
    using cycle_sample by blast
  have q: "surroundings tasks_kept (\<lambda>_. still)" by (rule quiet_surroundings) (simp add: tasks_kept_def)
  have ok: "tasks_ok checked_start" by (simp add: tasks_ok_def hm_ok_def hm.keyed_by_def hm_get_def)
  from loop_submits_checked_work[OF run q ok] obtain sub where sub: "in_review_with s' 7 sub"
    and b: "backed (\<lambda>_. still) plain_host sample_project 7 sample_contract 0 k' sub"
    by (auto simp: hm_get_def)
  have "file_criterion \<in> set (cfg_criteria sample_contract)" "ac_required file_criterion" "automatic_kind (ac_kind file_criterion)"
    by (simp_all add: sample_config file_criterion_def)
  with b have "\<exists>v \<in> set (rs_criteria sub). ve_criterion v = file_criterion \<and> ve_status v = CkPassed"
    unfolding backed_def by blast
  with run sub show ?thesis by blast
qed

end
