(* ===== verification/Cycle_Termination.thy ===== *)
theory Cycle_Termination
  imports Cycle_Invariants Validator_Facts
begin

text \<open>
  The loop ends. Its waits are bounded by the deadline: from some moment on the deadline has passed,
  and a command that was asked to terminate is given two seconds. A loop whose task and control the
  other threads leave in place neither panics nor waits for ever, and takes itself off the runtime.
\<close>

section \<open>Commands\<close>

text \<open>
  The turns of a command go on until its time or the deadline is over, and two seconds more.
\<close>

definition turns_end :: "exec_tick list \<Rightarrow> bool" where
  "turns_end ks \<longleftrightarrow> (\<exists>i j. i < j \<and> j < length ks \<and> (tk_late (ks ! i) \<or> tk_over (ks ! i)) \<and> tk_grace (ks ! j))"

lemma exec_loop_stopping:
  "ex_stopping x \<Longrightarrow> \<exists>k \<in> set ks. tk_grace k \<Longrightarrow> exec_loop h c ks x ev \<noteq> None"
proof (induction ks arbitrary: x ev)
  case (Cons k ks)
  have asks: "\<not> exec_asks k x" using Cons.prems(1) by (simp add: exec_asks_def)
  show ?case
  proof (cases "tk_grace k")
    case True with asks Cons.prems(1) show ?thesis by (simp add: Let_def)
  next
    case False
    have stay: "ex_stopping x'" if "exec_line h c (tk_line k) x e = Inr x'" for x' e
      using that Cons.prems(1) by (auto simp: exec_line_def exec_delta_def Let_def split: server_line.splits option.splits)
    from False asks Cons show ?thesis by (auto simp: Let_def dest: stay split: sum.split)
  qed
qed simp

lemma exec_loop_ends: "turns_end ks \<Longrightarrow> exec_loop h c ks x ev \<noteq> None"
proof (induction ks arbitrary: x ev)
  case Nil then show ?case by (simp add: turns_end_def)
next
  case (Cons k ks)
  from Cons.prems obtain i j where ij: "i < j" "j < length (k # ks)" "tk_grace ((k # ks) ! j)"
      "tk_late ((k # ks) ! i) \<or> tk_over ((k # ks) ! i)" by (auto simp: turns_end_def)
  then obtain j' where j: "j = Suc j'" by (cases j) auto
  with ij have later: "\<exists>b \<in> set ks. tk_grace b" by auto
  define x1 where "x1 = (if exec_asks k x then x\<lparr>ex_stopping := True\<rparr> else x)"
  define ev1 where "ev1 = exec_marked k x ev"
  have rest: "exec_loop h c ks x2 ev1 \<noteq> None" if l: "exec_line h c (tk_line k) x1 ev1 = Inr x2" for x2
  proof (cases i)
    case 0
    with ij(4) have "ex_stopping x1" by (auto simp: x1_def exec_asks_def)
    with l have "ex_stopping x2"
      by (auto simp: exec_line_def exec_delta_def Let_def split: server_line.splits option.splits)
    then show ?thesis using later by (rule exec_loop_stopping)
  next
    case (Suc i')
    with ij j have "turns_end ks" by (auto simp: turns_end_def)
    then show ?thesis by (rule Cons.IH)
  qed
  then show ?case unfolding exec_loop.simps Let_def x1_def[symmetric] ev1_def[symmetric]
    by (auto split: sum.split)
qed

section \<open>Sections that come to an end\<close>

text \<open>The loop's task and its control are there.\<close>

definition present :: "task_id \<Rightarrow> runtime \<Rightarrow> bool" where
  "present tid s \<longleftrightarrow> hm_get (rt_tasks s) tid \<noteq> None \<and> hm_get (rt_controls s) tid \<noteq> None"

definition completes :: "task_id \<Rightarrow> 'a cyc \<Rightarrow> bool" where
  "completes tid m \<longleftrightarrow> (\<forall>x. present tid (snd x) \<longrightarrow> fst (m x) \<noteq> Inl Panic \<and> fst (m x) \<noteq> Inl Waiting
     \<and> present tid (snd (snd (m x))))"

lemma completesI: "(\<And>k s r k' s'. present tid s \<Longrightarrow> m (k, s) = (r, k', s') \<Longrightarrow>
    r \<noteq> Inl Panic \<and> r \<noteq> Inl Waiting \<and> present tid s') \<Longrightarrow> completes tid m"
  unfolding completes_def by (metis prod.collapse)

lemma completesD: "completes tid m \<Longrightarrow> m x = (r, y) \<Longrightarrow> present tid (snd x) \<Longrightarrow>
    r \<noteq> Inl Panic \<and> r \<noteq> Inl Waiting \<and> present tid (snd y)"
  unfolding completes_def by (metis fst_conv snd_conv)

lemma completes_plain: "completes tid (creturn a)" "completes tid (cstop (Stop c msg))"
    "completes tid (cwhen b (Stop c msg))" "completes tid (lift_res (of_result q))"
  by (auto simp: completes_def creturn_def cstop_def cwhen_def lift_res_def of_result_def infra_def map_err_def split: sum.split)

lemma completes_bind: "completes tid m \<Longrightarrow> (\<And>a. completes tid (f a)) \<Longrightarrow> completes tid (cbind m f)"
proof (rule completesI)
  fix k s r k' s'
  assume m: "completes tid m" and f: "\<And>a. completes tid (f a)" and p: "present tid s"
    and run: "cbind m f (k, s) = (r, k', s')"
  obtain q y where q: "m (k, s) = (q, y)" by (metis prod.exhaust)
  from completesD[OF m q] p have "q \<noteq> Inl Panic" "q \<noteq> Inl Waiting" "present tid (snd y)" by simp_all
  then show "r \<noteq> Inl Panic \<and> r \<noteq> Inl Waiting \<and> present tid s'"
  proof (cases q)
    case (Inr b)
    with run q have "f b y = (r, k', s')" by (simp add: cbind_def)
    from completesD[OF f this \<open>present tid (snd y)\<close>] show ?thesis by simp
  qed (use run q in \<open>auto simp: cbind_def\<close>)
qed

lemma completes_if: "(b \<Longrightarrow> completes tid m) \<Longrightarrow> (\<not> b \<Longrightarrow> completes tid m') \<Longrightarrow> completes tid (if b then m else m')"
  by simp

lemma completes_try: "completes tid m \<Longrightarrow> (\<And>a. completes tid (f a)) \<Longrightarrow> completes tid (ctry m ev f)"
  unfolding ctry_def by (rule completes_bind) (auto intro: completes_plain split: sum.split)

abbreviation keeps_present :: "task_id \<Rightarrow> schedule \<Rightarrow> bool" where
  "keeps_present tid sch \<equiv> surroundings (\<lambda>s s'. present tid s \<longrightarrow> present tid s') sch"

lemma completes_locked:
  assumes "keeps_present tid sch"
    and "\<And>k s. present tid s \<Longrightarrow> fst (f (sch k) s) \<noteq> Inl Panic \<and> fst (f (sch k) s) \<noteq> Inl Waiting
      \<and> present tid (snd (f (sch k) s))"
  shows "completes tid (locked sch f)"
proof (rule completesI)
  fix k s r k' s' assume p: "present tid s" and run: "locked sch f (k, s) = (r, k', s')"
  from assms(1) p have "present tid (mo_others (sch k) s)" by (simp add: surroundings_def)
  from assms(2)[OF this, of k] run show "r \<noteq> Inl Panic \<and> r \<noteq> Inl Waiting \<and> present tid s'"
    by (auto simp: locked_def split: prod.splits)
qed

lemma completes_observe: "keeps_present tid sch \<Longrightarrow> completes tid (observe sch f)"
  unfolding observe_def by (rule completes_locked) simp_all

section \<open>The sections of the loop\<close>

lemma present_same: "rt_tasks s' = rt_tasks s \<Longrightarrow> rt_controls s' = rt_controls s \<Longrightarrow> present tid s' = present tid s"
  by (simp add: present_def)

lemma present_save:
  assumes "acceptance_save w h t action s = (r, s')" and "present tid s"
  shows "present tid s'"
  using assms by (elim acceptance_save_cases) (auto simp: present_def hm.get_ins)

lemma present_save_rows:
  "with_store f s = (r, s') \<Longrightarrow> present tid s' = present tid s"
  by (elim with_storeE) (simp add: present_def)

lemma with_store_present: "with_store f s = (r, s') \<Longrightarrow> rt_tasks s' = rt_tasks s \<and> rt_controls s' = rt_controls s"
  by (elim with_storeE) simp

lemma attempt_completes:
  assumes "keeps_present tid sch" and "ce_task e = tid"
  shows "completes tid (record_attempt sch e a)"
  unfolding record_attempt_def
proof (rule completes_locked[OF assms(1)])
  fix k s assume p: "present tid s"
  let ?w = "mo_world (sch k)"
  obtain r s' where run: "attempt_update ?w (ce_host e) (ce_task e) a s = (r, s')" by (metis prod.exhaust)
  have "present tid s'"
    using run p by (auto simp: attempt_update_def Let_def split: option.splits sum.splits prod.splits dest: present_save)
  with run show "fst (case attempt_update ?w (ce_host e) (ce_task e) a s of (r, s') \<Rightarrow> (of_result r, s')) \<noteq> Inl Panic
    \<and> fst (case attempt_update ?w (ce_host e) (ce_task e) a s of (r, s') \<Rightarrow> (of_result r, s')) \<noteq> Inl Waiting
    \<and> present tid (snd (case attempt_update ?w (ce_host e) (ce_task e) a s of (r, s') \<Rightarrow> (of_result r, s')))"
    by (cases r) (simp_all add: of_result_def infra_def)
qed

lemma owner_completes:
  assumes "ce_task e = tid" and p: "present tid s"
  shows "fst (retry_owner w e i s) \<noteq> Inl Panic \<and> fst (retry_owner w e i s) \<noteq> Inl Waiting \<and> present tid (snd (retry_owner w e i s))"
proof -
  obtain r s1 where sv: "with_store (transfer_writer i (fresh_uuid w s)) (drawn s) = (r, s1)" by (metis prod.exhaust)
  have "present tid (drawn s)" using p by (simp add: present_def)
  with sv have p1: "present tid s1" by (simp add: present_save_rows)
  show ?thesis
  proof (cases "\<exists>u lease. r = Inr u \<and> hm_get (rt_writer_leases s1) i = Some lease")
    case False
    with sv p1 show ?thesis by (cases r) (auto simp: retry_owner_def infra_def split: option.split)
  next
    case True
    then obtain u lease where r: "r = Inr u" "hm_get (rt_writer_leases s1) i = Some lease" by blast
    from p1 obtain c t where ct: "hm_get (rt_controls s1) tid = Some c" "hm_get (rt_tasks s1) tid = Some t"
      by (auto simp: present_def)
    define s2 where "s2 = s1\<lparr>rt_writer_leases := hm_insert (fresh_uuid w s) lease (hm_remove i (rt_writer_leases s1)),
      rt_acceptance_owners := hs_insert (fresh_uuid w s) (hs_remove i (rt_acceptance_owners s1)),
      rt_controls := hm_insert tid (c\<lparr>co_owner := fresh_uuid w s\<rparr>) (rt_controls s1)\<rparr>"
    let ?t = "t\<lparr>t_assigned_agent_id := Some (fresh_uuid w s), t_condition := TcQueued\<rparr>"
    obtain q s3 where q: "acceptance_save w (ce_host e) ?t ''retry_queued'' s2 = (q, s3)" by (metis prod.exhaust)
    have "present tid s2" using p1 by (auto simp: s2_def present_def hm.get_ins)
    with q have "present tid s3" by (rule present_save)
    with q show ?thesis using sv r ct assms(1)
      by (cases q) (simp_all add: retry_owner_def infra_def s2_def Let_def)
  qed
qed

lemma queue_completes:
  assumes sch: "keeps_present tid sch" and e: "ce_task e = tid"
  shows "completes tid (queue_attempt sch e n ls)"
proof -
  have "completes tid (locked sch (\<lambda>m s. (loop_task (ce_task e) s, s)))"
    by (rule completes_locked[OF sch]) (auto simp: loop_task_def e present_def)
  moreover have "completes tid (locked sch (\<lambda>m s. retry_owner (mo_world m) e (ls_owner ls) s))"
    by (rule completes_locked[OF sch]) (rule owner_completes[OF e])
  moreover have "completes tid (locked sch (\<lambda>m s. (Ok (queued_attempt e (mo_world m) (fresh_uuid (mo_world m) s) n l pr b), drawn s)))"
    for l pr b by (rule completes_locked[OF sch]) (simp add: present_def)
  ultimately show ?thesis
    unfolding queue_attempt_def attempt_gate_def capture_workspace_def stop_at_boundary_def draw_attempt_def Let_def
      history_stop_def changed_between_def prompt_stop_def
    by (intro completes_bind completes_if completes_plain completes_observe[OF sch] attempt_completes[OF sch e])
qed

lemma clear_completes: "keeps_present tid sch \<Longrightarrow> completes tid (clear_attempt_group sch i)"
proof -
  assume sch: "keeps_present tid sch"
  have stop: "fst (stopped_writer i s) \<noteq> Inl Panic \<and> fst (stopped_writer i s) \<noteq> Inl Waiting \<and> present tid (snd (stopped_writer i s))"
    if "present tid s" for s
  proof -
    obtain r s1 where sv: "with_store (writer_stopped i) (s\<lparr>rt_validator_owners := hs_remove i (rt_validator_owners s)\<rparr>) = (r, s1)"
      by (metis prod.exhaust)
    from that have "present tid (s\<lparr>rt_validator_owners := hs_remove i (rt_validator_owners s)\<rparr>)"
      by (simp add: present_def)
    with present_save_rows[OF sv] have "present tid s1" by simp
    with sv show ?thesis by (cases r) (simp_all add: stopped_writer_def infra_def)
  qed
  show ?thesis unfolding clear_attempt_group_def infra_def
    by (intro completes_bind completes_plain completes_observe[OF sch] completes_locked[OF sch] stop)
       (simp_all add: present_def)
qed

text \<open>
  Waiting for the worker: while the deadline has not passed, every turn takes a moment, so the fuel
  outlasts the deadline.
\<close>

lemma after_observe: "cbind (observe sch f) g (k, s) =
    g (f (sch k) (mo_others (sch k) s)) (Suc k, mo_others (sch k) s)"
  by (simp add: cbind_def observe_def locked_def)

lemma after_when: "cbind (cwhen b e) g x = (if b then (Inl e, x) else g () x)"
  by (simp add: cbind_def cwhen_def cstop_def creturn_def)

lemma await_ends:
  assumes late: "\<forall>k \<ge> K. mo_late (sch k)"
  shows "0 < n \<Longrightarrow> K < fst x + n \<Longrightarrow> fst (await_worker sch e i n x) \<noteq> Inl Waiting"
proof (induction n arbitrary: x)
  case (Suc n)
  obtain k s where x: "x = (k, s)" by (cases x)
  show ?case
  proof (cases "mo_late (sch k)")
    case True
    then show ?thesis by (simp add: x after_observe) (simp add: cbind_def locked_def observe_def cstop_def)
  next
    case False
    with late have "k < K" by (meson not_le)
    with Suc.prems(2) x have "0 < n" by simp
    have again: "fst (await_worker sch e i n (j, s')) \<noteq> Inl Waiting" if "k < j" for j s'
      using Suc.IH[of "(j, s')"] \<open>0 < n\<close> that Suc.prems(2) x by simp
    have stopped: "fst (cbind (locked sch (\<lambda>m s. (Inr (), f m s))) (\<lambda>_. cbind (observe sch g)
        (\<lambda>c. cstop (Stop (d c) msg))) y) \<noteq> Inl Waiting" for f g y and d :: "bool \<Rightarrow> string" and msg
      by (cases y) (simp add: cbind_def locked_def observe_def cstop_def)
    show ?thesis
      unfolding x await_worker.simps after_observe
      by (auto simp: again stopped after_observe after_when creturn_def late_worker_def)
  qed
qed simp

lemma await_present:
  assumes sch: "keeps_present tid sch"
  shows "present tid (snd x) \<Longrightarrow> fst (await_worker sch e i n x) \<noteq> Inl Panic
    \<and> present tid (snd (snd (await_worker sch e i n x)))"
proof (induction n arbitrary: x)
  case 0 then show ?case by (simp add: cstop_def)
next
  case (Suc n)
  obtain k s where x: "x = (k, s)" by (cases x)
  have others: "present tid (mo_others (sch j) u)" "present tid (mo_stop (sch j) i u)" if "present tid u" for j u
    using sch that by (simp_all add: surroundings_def)
  have stopped: "fst r \<noteq> Inl Panic \<and> present tid (snd (snd r))"
    if "r = cbind (locked sch (\<lambda>m s. (Inr (), mo_stop m i s))) (\<lambda>_. cbind (observe sch g)
        (\<lambda>c. cstop (Stop (d c) msg))) (j, u)" "present tid u" for r g j u and d :: "bool \<Rightarrow> string" and msg
    using that by (simp add: cbind_def locked_def observe_def cstop_def others)
  from Suc.prems x have p: "present tid s" by simp
  have again: "fst (await_worker sch e i n (j, u)) \<noteq> Inl Panic \<and> present tid (snd (snd (await_worker sch e i n (j, u))))"
    if "present tid u" for j u using Suc.IH[of "(j, u)"] that by simp
  show ?case
    unfolding x await_worker.simps after_observe
    by (auto simp: after_observe after_when creturn_def late_worker_def p others again stopped[OF refl])
qed

lemma await_completes:
  assumes "keeps_present tid sch" and "\<forall>k \<ge> K. mo_late (sch k)" and "K < n"
  shows "completes tid (await_worker sch e i n)"
  using await_ends[OF assms(2), of n] await_present[OF assms(1)] assms(3)
  by (auto simp: completes_def)

lemma work_completes:
  assumes sch: "keeps_present tid sch" and e: "ce_task e = tid" and late: "\<forall>k \<ge> K. mo_late (sch k)"
    and fuel: "K < ce_fuel e"
  shows "completes tid (work sch e i a)"
proof -
  have "completes tid (launch_worker sch b)" for b
  proof -
    have "completes tid (locked sch (\<lambda>m s. case mo_launch m (ta_prompt b) s of (r, s') \<Rightarrow> (Ok r, s')))"
      by (rule completes_locked[OF sch]) (use sch in \<open>simp add: surroundings_def split: prod.split\<close>, metis snd_conv)
    then show ?thesis unfolding launch_worker_def
      by (rule completes_bind) (auto intro: completes_plain split: sum.split)
  qed
  moreover have "completes tid (locked sch (\<lambda>m s. (worker_result e i b s, s)))" for b
    by (rule completes_locked[OF sch])
       (auto simp: worker_result_def loop_task_def infra_def res_bind_def present_def e Let_def split: option.split)
  ultimately show ?thesis unfolding work_def Let_def
    by (intro completes_if completes_bind completes_plain attempt_completes[OF sch e] clear_completes[OF sch]
        await_completes[OF sch late fuel])
qed

lemma validators_complete:
  assumes sch: "keeps_present tid sch" and e: "ce_task e = tid" and turns: "\<forall>k. turns_end (mo_ticks (sch k))"
  shows "completes tid (run_validators sch e w cs a)"
proof -
  have recorded: "completes tid (locked sch (\<lambda>m s. case record_validator tid pid s of (r, s') \<Rightarrow> (Ok r, s')))" for pid :: int
  proof (rule completes_locked[OF sch])
    fix k s assume p: "present tid s"
    have "present tid (snd (record_validator tid pid s))"
      using p by (auto simp: record_validator_def present_def split: option.split prod.split sum.split
        dest!: with_store_present)
    then show "fst (case record_validator tid pid s of (r, s') \<Rightarrow> (Ok r, s')) \<noteq> Inl Panic
      \<and> fst (case record_validator tid pid s of (r, s') \<Rightarrow> (Ok r, s')) \<noteq> Inl Waiting
      \<and> present tid (snd (case record_validator tid pid s of (r, s') \<Rightarrow> (Ok r, s')))"
      by (cases "record_validator tid pid s") simp
  qed
  have ticks: "completes tid (cbind (observe sch (\<lambda>m s. exec_loop h c (mo_ticks m) exec_start ev)) (\<lambda>r.
      case r of None \<Rightarrow> cstop Waiting | Some x \<Rightarrow> creturn x))" for h c ev
  proof (rule completesI)
    fix k s r k' s' assume p: "present tid s" and run: "cbind (observe sch (\<lambda>m s. exec_loop h c (mo_ticks m) exec_start ev)) (\<lambda>r.
      case r of None \<Rightarrow> cstop Waiting | Some x \<Rightarrow> creturn x) (k, s) = (r, k', s')"
    obtain q where "exec_loop h c (mo_ticks (sch k)) exec_start ev = Some q"
      using exec_loop_ends[OF turns[rule_format]] by blast
    with run p sch show "r \<noteq> Inl Panic \<and> r \<noteq> Inl Waiting \<and> present tid s'"
      by (auto simp: after_observe creturn_def surroundings_def)
  qed
  have run: "completes tid (run_command sch h tid p c ev)" for h p c ev
    unfolding run_command_def
    by (intro completes_try completes_bind completes_if completes_plain completes_observe[OF sch] recorded ticks)
  have "completes tid (run_validator sch h tid p presets w c)" for h p presets c
    unfolding run_validator_def
    by (intro completes_bind completes_observe[OF sch]) (auto intro: run completes_observe[OF sch] split: option.split)
  then show ?thesis
    by (induction cs arbitrary: a)
       (auto simp: Let_def e infra_stop_def infra_def cancelled_stop_def
         intro!: completes_bind completes_plain completes_observe[OF sch] attempt_completes[OF sch e])
qed

lemma rest_completes:
  assumes sch: "keeps_present tid sch" and e: "ce_task e = tid" and turns: "\<forall>k. turns_end (mo_ticks (sch k))"
  shows "completes tid (validate_attempt sch e i a)" "completes tid (verdict sch e n ls i a v)"
proof -
  have "completes tid (draw_criteria sch e)"
    unfolding draw_criteria_def Let_def by (rule completes_locked[OF sch]) (simp add: present_def)
  then show "completes tid (validate_attempt sch e i a)"
    unfolding validate_attempt_def capture_workspace_def Let_def head_changed_def stale_evidence_def late_validation_def
    by (intro completes_bind completes_plain completes_observe[OF sch] attempt_completes[OF sch e]
        validators_complete[OF sch e turns] clear_completes[OF sch])
next
  have submit: "fst (submit_review w e i a v s) \<noteq> Inl Panic \<and> fst (submit_review w e i a v s) \<noteq> Inl Waiting
      \<and> present tid (snd (submit_review w e i a v s))" if p: "present tid s" for w s
  proof -
    from p e obtain t where t: "hm_get (rt_tasks s) (ce_task e) = Some t" by (auto simp: present_def)
    obtain r s1 where sv: "acceptance_save w (ce_host e) (submitted_task e w i (new_submission e w (fresh_uuid w s) i a v) t)
        ''review_submitted'' (drawn s) = (r, s1)" by (metis prod.exhaust)
    have "present tid s1" by (rule present_save[OF sv]) (use p in \<open>simp add: present_def\<close>)
    with t sv show ?thesis by (cases r) (simp_all add: submit_review_def infra_def Let_def present_def)
  qed
  have refusal: "retry_refusal e n ls a f = Some x \<Longrightarrow> x \<noteq> Panic \<and> x \<noteq> Waiting" for f x
    by (auto simp: retry_refusal_def Let_def human_stop_def no_change_stop_def approval_stop_def split: if_splits)
  have "completes tid (lift_res (res_bind (next_attempt e n ls i a f v) (\<lambda>l. Ok (Some l))))" for f
    using refusal[of f] by (auto simp: completes_def lift_res_def next_attempt_def thread_stop_def res_bind_def map_err_def
        split: option.split sum.split)
  then show "completes tid (verdict sch e n ls i a v)"
    unfolding verdict_def end_attempt_def Let_def no_change_stop_def
    by (intro completes_if completes_bind completes_plain completes_observe[OF sch] attempt_completes[OF sch e]
        completes_locked[OF sch] submit)
qed

lemma attempts_complete:
  assumes "keeps_present tid sch" and "ce_task e = tid" and "\<forall>k. turns_end (mo_ticks (sch k))"
    and "\<forall>k \<ge> K. mo_late (sch k)" and "K < ce_fuel e"
  shows "completes tid (run_attempts sch e n m ls)"
proof -
  have "completes tid (run_attempt sch e n ls)" for n ls
    unfolding run_attempt_def
    by (intro completes_bind queue_completes[OF assms(1,2)])
       (auto intro!: completes_bind work_completes[OF assms(1,2,4,5)] rest_completes[OF assms(1-3)] split: prod.split)
  then show ?thesis
    by (induction m arbitrary: n ls) (auto intro!: completes_bind completes_plain split: option.split)
qed

lemma cycle_completes:
  assumes "keeps_present (t_id (lt_task lt)) sch" and "\<forall>k. turns_end (mo_ticks (sch k))"
    and "\<forall>k \<ge> K. mo_late (sch k)" and "K < fuel"
  shows "completes (t_id (lt_task lt)) (acceptance_cycle sch h fuel lt)"
proof -
  have "completes (t_id (lt_task lt)) (locked sch (\<lambda>m s. (loop_task (t_id (lt_task lt)) s, s)))"
    by (rule completes_locked[OF assms(1)]) (auto simp: loop_task_def present_def)
  moreover have "completes (t_id (lt_task lt)) (locked sch (\<lambda>m s. (Ok (fresh_uuid (mo_world m) s), drawn s)))"
    by (rule completes_locked[OF assms(1)]) (simp add: present_def)
  ultimately show ?thesis
    unfolding acceptance_cycle_def Let_def full_history_def
    by (intro completes_bind completes_plain completes_observe[OF assms(1)] attempts_complete[OF assms(1) _ assms(2,3)])
       (simp_all add: assms(4))
qed


text \<open>A deadline at the third moment, and commands that are over at once.\<close>

definition timed_moment :: "nat \<Rightarrow> moment" where
  "timed_moment k = (quiet_moment sample_world sample_site)\<lparr>mo_late := 2 \<le> k, mo_ticks :=
     [\<lparr>tk_cancelled = False, tk_late = False, tk_over = True, tk_grace = False, tk_terminate = Ok (), tk_line = NoLine\<rparr>,
      \<lparr>tk_cancelled = False, tk_late = False, tk_over = True, tk_grace = True, tk_terminate = Ok (), tk_line = NoLine\<rparr>]\<rparr>"

abbreviation looping_board :: runtime where
  "looping_board \<equiv> board_sample\<lparr>rt_controls := [(7, \<lparr>co_owner = 77, co_cancelled = False\<rparr>)]\<rparr>"


end
