(* ===== verification/Daemon_State.thy ===== *)
theory Daemon_State
  imports Board_Queue
begin

text \<open>
  The rest of \<open>RuntimeState\<close> (\<open>crates/ditchd/src/runtime_shared.rs\<close>) around the part in
  \<open>Runtime_State\<close>: pending permissions, turns of the Codex app server, terminals, and what is known
  of SSH hosts. With it come the session titles (\<open>crates/ditch_core/src/session_title.rs\<close>),
  notification texts, the snapshot, and how a client that subscribes catches up with the events.

  A running turn is the handle of its child's input; the model keeps the agents that have one.
\<close>

section \<open>Titles and notification texts\<close>

definition ellipsis :: string where
  "ellipsis = [CHR 0xE2, CHR 0x80, CHR 0xA6]"

definition session_title_max_utf16 :: nat where "session_title_max_utf16 = 240"

fun take_units :: "nat \<Rightarrow> string list \<Rightarrow> string list" where
  \<comment> \<open>the longest prefix of characters within a number of UTF-16 code units\<close>
  "take_units n [] = []"
| "take_units n (c # cs) = (if len_utf16 c \<le> n then c # take_units (n - len_utf16 c) cs else [])"

definition normalize_session_title :: "string \<Rightarrow> string option" where
  "normalize_session_title v = (let
      title = trim_end (concat (take_units session_title_max_utf16 (utf8_chars (compact_whitespace v))))
    in if title = [] then None else Some title)"

definition display_name :: "agent_run \<Rightarrow> string" where
  "display_name run = unwrap_or
     (if ar_naming_failed run then ''Unnamed session'' else ''Naming session'' @ ellipsis)
     (opt_or (Option.bind (ar_user_title run) normalize_session_title)
             (Option.bind (ar_codex_title run) normalize_session_title))"

definition notification_summary :: "string \<Rightarrow> string" where
  "notification_summary v = (let compact = compact_whitespace v in
     if length (utf8_chars compact) \<le> 220 then compact else take_chars 219 compact @ ellipsis)"

section \<open>State\<close>

record daemon =
  dm_runtime :: runtime
  dm_instance :: uuid
  dm_permissions :: "(uuid, permission_request) hmap"
  dm_permission_agents :: "(uuid, agent_id) hmap"
  dm_turns :: "agent_id list"
  dm_streams :: "(agent_id, string) hmap"
  dm_launching :: "agent_id list"
  dm_terminals :: "uuid list"
  dm_terminal_by_project :: "(project_id, uuid) hmap"
  dm_agent_hosts :: "(agent_id, string) hmap"
  dm_terminal_hosts :: "(uuid, string) hmap"
  dm_attention_hosts :: "(uuid, string) hmap"
  dm_permission_hosts :: "(uuid, string) hmap"
  dm_epochs :: "(string, uuid) hmap"
  dm_event_cursors :: "(string, uuid \<times> nat) hmap"
  dm_task_generation :: "(string, nat) hmap"
  dm_connection_states :: "(string, string) hmap"

definition on_runtime :: "(runtime \<Rightarrow> runtime) \<Rightarrow> daemon \<Rightarrow> daemon" where
  "on_runtime f d = d\<lparr>dm_runtime := f (dm_runtime d)\<rparr>"

abbreviation tell :: "world \<Rightarrow> server_event \<Rightarrow> daemon \<Rightarrow> daemon" where
  "tell w ev \<equiv> on_runtime (broadcast w ev)"

definition root_key :: "world \<Rightarrow> project \<Rightarrow> string" where
  \<comment> \<open>the key of a project in \<open>projects\<close>\<close>
  "root_key w p = (case p_execution_target p of
      Local \<Rightarrow> p_root p
    | Remote m _ \<Rightarrow> ''remote://'' @ w_show_uuid w m @ p_root p)"

text \<open>The answers of the modelled requests; an error has a code and a message.\<close>

datatype server_response = Accepted | AgentStarted agent_run | ProjectRenamed project
  | ProtocolError string string

definition project_id_known :: "project_id \<Rightarrow> runtime \<Rightarrow> bool" where
  "project_id_known pid s = any_project (\<lambda>p. p_id p = pid) s"

definition daemon_snapshot :: "world \<Rightarrow> daemon \<Rightarrow> snapshot" where
  "daemon_snapshot w d = (let s = dm_runtime d in
     \<lparr>sn_event_epoch = dm_instance d, sn_event_sequence = rt_next_sequence s - 1,
      sn_remote_hosts = List.map (\<lambda>(alias, status). \<lparr>hp_ssh_host_alias = alias, hp_state = status,
         hp_updated_at = w_now w, hp_detail = None\<rparr>) (dm_connection_states d),
      sn_projects = hm_values (rt_projects s),
      sn_releases = List.filter (\<lambda>r. project_id_known (rel_project_id r) s) (hm_values (rt_releases s)),
      sn_tasks = hm_values (rt_tasks s),
      sn_agents = List.map rec_run (hm_values (rt_agents s)),
      sn_attention = rt_attention s, sn_messages = [],
      sn_permissions = hm_values (dm_permissions d)\<rparr>)"

section \<open>Subscribing\<close>

text \<open>
  \<open>subscribe_since\<close>: what a client that names the last event it has seen is sent before the live
  events. A line is the event with its number under the daemon's epoch.
\<close>

definition can_replay :: "(uuid \<times> nat) option \<Rightarrow> daemon \<Rightarrow> bool" where
  "can_replay cursor d = (let s = dm_runtime d; last_seen = rt_next_sequence s - 1 in
     is_some_and cursor (\<lambda>(epoch, n). epoch = dm_instance d \<and> n \<le> last_seen
       \<and> (case rt_replay s of [] \<Rightarrow> n = last_seen | (first, _) # _ \<Rightarrow> first \<le> n + 1)))"

definition subscribe_since :: "world \<Rightarrow> (uuid \<times> nat) option \<Rightarrow> daemon \<Rightarrow>
    (uuid \<times> nat \<times> server_event) list" where
  "subscribe_since w cursor d = (let s = dm_runtime d in
     case cursor of
       Some (_, since) \<Rightarrow>
         if can_replay cursor d
         then List.map (\<lambda>(n, ev). (dm_instance d, n, ev)) (List.filter (\<lambda>(n, _). since < n) (rt_replay s))
         else [(dm_instance d, rt_next_sequence s - 1, SnapshotReplaced (daemon_snapshot w d))]
     | None \<Rightarrow> [(dm_instance d, rt_next_sequence s - 1, SnapshotReplaced (daemon_snapshot w d))])"

section \<open>Permissions\<close>

definition resolve_permission_attention :: "world \<Rightarrow> uuid \<Rightarrow> daemon \<Rightarrow> daemon" where
  "resolve_permission_attention w i d =
     tell w (AttentionDismissed i) (tell w (PermissionResolved i)
       (on_runtime (\<lambda>s. snd (with_store (dismiss_attention (w_now w) i)
          (s\<lparr>rt_attention := List.filter (\<lambda>a. at_id a \<noteq> i) (rt_attention s)\<rparr>))) d))"

definition drop_permission :: "world \<Rightarrow> uuid \<Rightarrow> daemon \<Rightarrow> daemon" where
  "drop_permission w i d = resolve_permission_attention w i
     (d\<lparr>dm_permission_agents := hm_remove i (dm_permission_agents d),
        dm_permissions := hm_remove i (dm_permissions d)\<rparr>)"

definition clear_agent_permissions :: "world \<Rightarrow> agent_id \<Rightarrow> daemon \<Rightarrow> daemon" where
  "clear_agent_permissions w i d = fold (drop_permission w)
     (List.map pq_id (List.filter (\<lambda>q. pq_agent_id q = Some i) (hm_values (dm_permissions d)))) d"

section \<open>Attention\<close>

definition mark_read_run :: "world \<Rightarrow> uuid list option \<Rightarrow> daemon \<Rightarrow> server_response \<times> daemon" where
  "mark_read_run w ids d = (let
      s = dm_runtime d;
      fresh = (\<lambda>a. (case ids of None \<Rightarrow> True | Some is \<Rightarrow> at_id a \<in> set is) \<and> at_read_at a = None);
      now_read = (\<lambda>a. a\<lparr>at_read_at := Some (w_now w)\<rparr>);
      changed = List.map now_read (List.filter fresh (rt_attention s));
      s1 = s\<lparr>rt_attention := List.map (\<lambda>a. if fresh a then now_read a else a) (rt_attention s)\<rparr>
    in if changed = [] then (Accepted, d)
       else case with_store (mark_attention_read changed) s1 of
           (Inl e, s2) \<Rightarrow> (ProtocolError ''attention_read_failed'' (store_message e),
             d\<lparr>dm_runtime := s2\<lparr>rt_attention := List.map
               (\<lambda>a. if at_id a \<in> set (List.map at_id changed) then a\<lparr>at_read_at := None\<rparr> else a)
               (rt_attention s2)\<rparr>\<rparr>)
         | (Inr _, s2) \<Rightarrow>
             (Accepted, tell w (AttentionRead (List.map at_id changed)) (d\<lparr>dm_runtime := s2\<rparr>)))"

end
