(* ===== verification/Agent_Sessions.thy ===== *)
theory Agent_Sessions
  imports Daemon_State Acceptance_Runtime
begin

text \<open>
  The life of an agent session: how the events of a Codex app server turn change the agent
  (\<open>handle_remote_app_server_event\<close> and the thread around it in
  \<open>crates/ditchd/src/remote_app_server_runtime.rs\<close>), how a run ends, and the requests that stop,
  delete and rename (\<open>crates/ditchd/src/runtime_shared.rs\<close>).

  A run is identified by the token of its child: every report of a run names the token and is
  dropped once another run has taken the agent's place. Where the source gives the lock back,
  \<open>others n\<close> is what other threads do at the n-th such point.
\<close>

section \<open>Runs and records\<close>

definition is_current_run :: "runtime \<Rightarrow> agent_id \<Rightarrow> uuid \<Rightarrow> bool" where
  "is_current_run s i run = is_some_and (hm_get (rt_children s) i) (\<lambda>c. ch_run_id c = run)"

definition reports :: "runtime \<Rightarrow> agent_id \<Rightarrow> uuid option \<Rightarrow> bool" where
  \<comment> \<open>not \<open>run_id.is_some_and(|run_id| !is_current_run(..))\<close>\<close>
  "reports s i run = (case run of None \<Rightarrow> True | Some r \<Rightarrow> is_current_run s i r)"

definition put_record :: "agent_id \<Rightarrow> agent_record \<Rightarrow> runtime \<Rightarrow> runtime" where
  "put_record i r s = s\<lparr>rt_agents := hm_insert i r (rt_agents s)\<rparr>"

definition save_record :: "world \<Rightarrow> agent_id \<Rightarrow> agent_record \<Rightarrow> runtime \<Rightarrow> runtime" where
  \<comment> \<open>the record changes, \<open>persist_agent\<close>, and the change is broadcast\<close>
  "save_record w i r s = broadcast w (AgentChanged (rec_run r)) (persist_agent i (put_record i r s))"

definition persist_message :: "agent_chat_message \<Rightarrow> runtime \<Rightarrow> runtime" where
  "persist_message m s = snd (with_store (append_message m) s)"

definition no_thread_reason :: "agent_run \<Rightarrow> agent_resume_block_reason option" where
  "no_thread_reason run = (if ar_native_session_id run = None then Some NoCodexThread else None)"

definition raise_attention :: "world \<Rightarrow> runtime_attention \<Rightarrow> runtime \<Rightarrow> runtime" where
  \<comment> \<open>shown also when the store fails\<close>
  "raise_attention w a s = (let s = snd (with_store (upsert_attention a) s) in
     broadcast w (AttentionRaised a) (s\<lparr>rt_attention := rt_attention s @ [a]\<rparr>))"

definition agent_project_name :: "runtime \<Rightarrow> agent_id \<Rightarrow> string option" where
  "agent_project_name s i = Option.bind (hm_get (rt_agents s) i) (\<lambda>r.
     map_option p_name (project_by (\<lambda>p. p_id p = ar_project_id (rec_run r)) s))"

section \<open>What a run reports\<close>

definition append_chat :: "world \<Rightarrow> agent_id \<Rightarrow> agent_chat_role \<Rightarrow> string \<Rightarrow> uuid option \<Rightarrow>
    runtime \<Rightarrow> runtime" where
  "append_chat w i role body run s =
     (if blank body \<or> \<not> reports s i run then s
      else case hm_get (rt_agents s) i of
          None \<Rightarrow> s
        | Some r \<Rightarrow> (let
              m = \<lparr>cm_agent_id = i, cm_role = role, cm_text = body, cm_created_at = w_now w\<rparr>;
              r = r\<lparr>rec_messages := rec_messages r @ [m],
                    rec_run := (rec_run r)\<lparr>ar_updated_at := w_now w\<rparr>\<rparr>
            in broadcast w (AgentMessageAppended m)
                 (persist_agent i (persist_message m (put_record i r s)))))"

definition cannot_write_title :: string where
  "cannot_write_title = ''Codex cannot write this project''"

definition is_workspace_permission_denial :: "string \<Rightarrow> bool" where
  "is_workspace_permission_denial msg = (let lower = List.map to_ascii_lower msg in
     (contains lower ''read-only sandbox'' \<or> contains lower ''read-only permission profile''
      \<or> contains lower ''writing is blocked'' \<or> contains lower ''workspace write access'')
     \<and> (contains lower ''reject'' \<or> contains lower ''block'' \<or> contains lower ''disabled''))"

definition raise_workspace_permission_attention :: "world \<Rightarrow> agent_id \<Rightarrow> string \<Rightarrow> runtime \<Rightarrow> runtime"
where
  "raise_workspace_permission_attention w i body s =
     (if list_ex (\<lambda>a. at_agent_id a = Some i \<and> at_title a = cannot_write_title) (rt_attention s)
      then s
      else raise_attention w \<lparr>at_id = fresh_uuid w s, at_kind = AkBlocked, at_agent_id = Some i,
          at_project_id = map_option (\<lambda>r. ar_project_id (rec_run r)) (hm_get (rt_agents s) i),
          at_project_name = agent_project_name s i,
          at_agent_name = map_option (\<lambda>r. display_name (rec_run r)) (hm_get (rt_agents s) i),
          at_title = cannot_write_title, at_body = notification_summary body,
          at_created_at = w_now w, at_read_at = None\<rparr> (drawn s))"

text \<open>The failure is noted under one lock, reported under a second, and raised under a third.\<close>

definition mark_failure :: "agent_id \<Rightarrow> string \<Rightarrow> uuid option \<Rightarrow> runtime \<Rightarrow> runtime option" where
  "mark_failure i msg run s =
     (if \<not> reports s i run then None
      else case hm_get (rt_agents s) i of
          None \<Rightarrow> None
        | Some r \<Rightarrow>
            if ar_state (rec_run r) = AsStopping then None
            else Some (put_record i (r\<lparr>rec_failure := Some msg,
                   rec_run := (rec_run r)\<lparr>ar_state := AsFailed\<rparr>\<rparr>) s))"

definition record_terminal_failure :: "world \<Rightarrow> (nat \<Rightarrow> daemon \<Rightarrow> daemon) \<Rightarrow> agent_id \<Rightarrow> string \<Rightarrow>
    uuid option \<Rightarrow> daemon \<Rightarrow> daemon" where
  "record_terminal_failure w others i msg0 run d = (let msg = trim msg0 in
     if msg = [] then d
     else case mark_failure i msg run (dm_runtime d) of
         None \<Rightarrow> d
       | Some s \<Rightarrow> (let d = on_runtime (append_chat w i CrSystem msg run) (others 0 (d\<lparr>dm_runtime := s\<rparr>))
           in if is_workspace_permission_denial msg
              then on_runtime (raise_workspace_permission_attention w i msg) (others 1 d) else d))"

definition update_agent_action :: "world \<Rightarrow> agent_id \<Rightarrow> string \<Rightarrow> uuid option \<Rightarrow> runtime \<Rightarrow> runtime"
where
  "update_agent_action w i action run s =
     (if \<not> reports s i run then s
      else case hm_get (rt_agents s) i of
          None \<Rightarrow> s
        | Some r \<Rightarrow>
            if ar_state (rec_run r) \<in> {AsStopping, AsAwaitingApproval} then s
            else save_record w i (r\<lparr>rec_run := (rec_run r)\<lparr>ar_last_visible_action := Some action,
                   ar_updated_at := w_now w\<rparr>\<rparr>) s)"

definition start_agent_turn :: "world \<Rightarrow> agent_id \<Rightarrow> uuid option \<Rightarrow> runtime \<Rightarrow> runtime" where
  "start_agent_turn w i run s =
     (if \<not> reports s i run then s
      else case hm_get (rt_agents s) i of
          None \<Rightarrow> s
        | Some r \<Rightarrow>
            if ar_state (rec_run r) = AsStopping then s
            else save_record w i (r\<lparr>rec_failure := None,
                   rec_run := (rec_run r)\<lparr>ar_state := AsWorking,
                     ar_last_visible_action := Some ''Codex is working'',
                     ar_updated_at := w_now w\<rparr>\<rparr>) s)"

section \<open>The events of a turn\<close>

datatype turn_event = ThreadReady string | EffectiveModel string | Title string
  | ProviderUsage json | ToolsChanged | AssistantDelta string | TurnStarted | Action string
  | AssistantMessage string | ToolMessage string | ApprovalRequested permission_request
  | TurnCompleted string "string option" | Diagnostic string | TurnFailed string | OutputClosed
  | ApprovalResolved uuid

text \<open>
  The daemon's own changes of the record of an agent: all of \<open>agents.get_mut(..)\<close>, \<open>persist_agent\<close>
  and \<open>broadcast\<close>.
\<close>

definition change_run :: "world \<Rightarrow> agent_id \<Rightarrow> (agent_run \<Rightarrow> agent_run) \<Rightarrow> runtime \<Rightarrow> runtime" where
  "change_run w i f s = (case hm_get (rt_agents s) i of
      None \<Rightarrow> s
    | Some r \<Rightarrow> save_record w i (r\<lparr>rec_run := f (rec_run r)\<rparr>) s)"

definition permission_resolved :: "world \<Rightarrow> agent_id \<Rightarrow> uuid \<Rightarrow> daemon \<Rightarrow> daemon" where
  "permission_resolved w i q d0 = (let d = drop_permission w q d0 in
     if list_ex (\<lambda>p. pq_agent_id p = Some i) (hm_values (dm_permissions d)) then d
     else on_runtime (\<lambda>s. case hm_get (rt_agents s) i of
         None \<Rightarrow> s
       | Some r \<Rightarrow>
           if ar_state (rec_run r) \<noteq> AsAwaitingApproval then s
           else change_run w i (\<lambda>run. run\<lparr>ar_state := AsWorking, ar_updated_at := w_now w,
                  ar_last_visible_action := Some ''Agent request resolved''\<rparr>) s) d)"

definition model_known :: "string \<Rightarrow> agent_run \<Rightarrow> agent_run" where
  "model_known model run =
     run\<lparr>ar_execution_profile := (ar_execution_profile run)\<lparr>ep_model := Some model\<rparr>\<rparr>"

definition provider_usage :: "world \<Rightarrow> host_env \<Rightarrow> agent_id \<Rightarrow> json \<Rightarrow> runtime \<Rightarrow> runtime" where
  "provider_usage w h i usage s =
     (case Option.bind (Option.bind (hm_get (rt_agents s) i) (\<lambda>r. ar_task_id (rec_run r)))
             (hm_get (rt_tasks s)) of
        None \<Rightarrow> s
      | Some t \<Rightarrow> (let as = acc_attempts (t_acceptance t) in
          if as = [] \<or> \<not> result_active (ta_result (List.last as)) then s
          else snd (acceptance_save w h (t\<lparr>t_acceptance := (t_acceptance t)\<lparr>acc_attempts :=
                 butlast as @ [(List.last as)\<lparr>ta_provider_usage := Some usage\<rparr>]\<rparr>\<rparr>)
                 ''provider_usage'' s)))"

definition titled :: "world \<Rightarrow> agent_id \<Rightarrow> string \<Rightarrow> runtime \<Rightarrow> runtime" where
  "titled w i title s = (case hm_get (rt_agents s) i of
      None \<Rightarrow> s
    | Some r \<Rightarrow>
        if ar_codex_title (rec_run r) = Some title then s
        else change_run w i (\<lambda>run. run\<lparr>ar_codex_title := Some title, ar_naming_failed := False\<rparr>) s)"

definition assistant_delta :: "world \<Rightarrow> agent_id \<Rightarrow> string \<Rightarrow> daemon \<Rightarrow> daemon" where
  "assistant_delta w i delta d = (let
      stream = unwrap_or [] (hm_get (dm_streams d) i);
      stream = (if length stream < 65536 then stream @ take_chars (65536 - length stream) delta
                else stream)
    in tell w (AgentStreamingText i stream) (d\<lparr>dm_streams := hm_insert i stream (dm_streams d)\<rparr>))"

definition end_stream :: "world \<Rightarrow> agent_id \<Rightarrow> daemon \<Rightarrow> daemon" where
  "end_stream w i d =
     tell w (AgentStreamingText i []) (d\<lparr>dm_streams := hm_remove i (dm_streams d)\<rparr>)"

definition end_turn :: "world \<Rightarrow> agent_id \<Rightarrow> daemon \<Rightarrow> daemon" where
  "end_turn w i d = (let d = end_stream w i d
     in clear_agent_permissions w i (d\<lparr>dm_turns := hs_remove i (dm_turns d)\<rparr>))"

definition approval_attention :: "agent_id \<Rightarrow> permission_request \<Rightarrow> runtime_attention" where
  "approval_attention i q = \<lparr>at_id = pq_id q, at_kind = AkApprovalRequired, at_agent_id = Some i,
     at_project_id = Some (pq_project_id q), at_project_name = None, at_agent_name = None,
     at_title = ''Agent needs permission'',
     at_body = ''Review the pending request to continue this turn.'',
     at_created_at = pq_created_at q, at_read_at = None\<rparr>"

definition raise_if_stored :: "world \<Rightarrow> runtime_attention \<Rightarrow> runtime \<Rightarrow> runtime" where
  "raise_if_stored w a s = (case with_store (upsert_attention a) s of
      (Inl _, s') \<Rightarrow> s'
    | (Inr _, s') \<Rightarrow> broadcast w (AttentionRaised a) (s'\<lparr>rt_attention := rt_attention s' @ [a]\<rparr>))"

text \<open>The request is registered before the agent is looked up.\<close>

definition approval_requested :: "world \<Rightarrow> agent_id \<Rightarrow> permission_request \<Rightarrow> daemon \<Rightarrow> daemon" where
  "approval_requested w i q d0 = (let
      d = d0\<lparr>dm_permission_agents := hm_insert (pq_id q) i (dm_permission_agents d0),
             dm_permissions := hm_insert (pq_id q) q (dm_permissions d0)\<rparr>
    in if \<not> hm_contains (rt_agents (dm_runtime d)) i then d
       else tell w (PermissionRequested q) (on_runtime (\<lambda>s. raise_if_stored w (approval_attention i q)
         (change_run w i (\<lambda>run. run\<lparr>ar_state := AsAwaitingApproval,
            ar_last_visible_action := Some (pq_summary q), ar_updated_at := w_now w\<rparr>) s)) d))"

definition turn_state :: "string \<Rightarrow> agent_state" where
  "turn_state status = (if status = ''completed'' then AsCompleted
     else if status = ''interrupted'' then AsInterrupted else AsFailed)"

definition completed_run :: "world \<Rightarrow> (agent_run \<Rightarrow> string option) \<Rightarrow> string \<Rightarrow> agent_run \<Rightarrow> agent_run"
where
  "completed_run w title status run = (let st = turn_state status in
     run\<lparr>ar_codex_title := opt_or (Option.bind (ar_native_session_id run) (\<lambda>_. title run)) (ar_codex_title run),
       ar_can_stop := False,
       ar_updated_at := w_now w, ar_finished_at := Some (w_now w), ar_state := st,
       ar_exit_code := Some (if st = AsCompleted then 0 else 1),
       ar_last_visible_action := Some (if st = AsCompleted then ''Turn completed''
         else if st = AsInterrupted then ''Turn interrupted'' else ''Turn failed'')\<rparr>)"

definition thread_ready :: "world \<Rightarrow> (agent_run \<Rightarrow> string option) \<Rightarrow> string \<Rightarrow> agent_run \<Rightarrow> agent_run"
where
  "thread_ready w title thread run = (let run' = run\<lparr>ar_native_session_id := Some thread\<rparr> in
     run'\<lparr>ar_codex_title := opt_or (title run') (ar_codex_title run),
       ar_resume_block_reason := None, ar_updated_at := w_now w\<rparr>)"

text \<open>
  The result says whether the turn is over. \<open>title\<close> reads the session's title from the Codex state
  file. The signal sent to a process group that outlives its turn by half a second is not part of
  the state, nor is the log line of a diagnostic.
\<close>

definition current_then :: "agent_id \<Rightarrow> uuid \<Rightarrow> bool \<Rightarrow> (daemon \<Rightarrow> bool \<times> daemon) \<Rightarrow> daemon \<Rightarrow> bool \<times> daemon"
where
  "current_then i run otherwise f d =
     (if is_current_run (dm_runtime d) i run then f d else (otherwise, d))"

fun handle_turn_event :: "world \<Rightarrow> host_env \<Rightarrow> (agent_run \<Rightarrow> string option) \<Rightarrow>
    (nat \<Rightarrow> daemon \<Rightarrow> daemon) \<Rightarrow> agent_id \<Rightarrow> uuid \<Rightarrow> turn_event \<Rightarrow> daemon \<Rightarrow> bool \<times> daemon" where
  "handle_turn_event w h title others i run OutputClosed d = (True, d)"
| "handle_turn_event w h title others i run (ApprovalResolved q) d =
     current_then i run True (\<lambda>d. (False, permission_resolved w i q d)) d"
| "handle_turn_event w h title others i run (EffectiveModel model) d =
     current_then i run True (\<lambda>d. (False, on_runtime (change_run w i (model_known model)) d)) d"
| "handle_turn_event w h title others i run ToolsChanged d =
     current_then i run True (\<lambda>d. (False, tell w (SkillsChanged (map_option
       (\<lambda>r. ar_project_id (rec_run r)) (hm_get (rt_agents (dm_runtime d)) i))) d)) d"
| "handle_turn_event w h title others i run (ProviderUsage usage) d =
     current_then i run False (\<lambda>d. (False, on_runtime (provider_usage w h i usage) d)) d"
| "handle_turn_event w h title others i run (Title value) d =
     (case normalize_session_title value of
        None \<Rightarrow> (False, d)
      | Some v \<Rightarrow> current_then i run False (\<lambda>d. (False, on_runtime (titled w i v) d)) d)"
| "handle_turn_event w h title others i run (AssistantDelta delta) d =
     current_then i run True (\<lambda>d. (False, assistant_delta w i delta d)) d"
| "handle_turn_event w h title others i run (ThreadReady thread) d =
     current_then i run True (\<lambda>d. (\<not> hm_contains (rt_agents (dm_runtime d)) i,
       on_runtime (change_run w i (thread_ready w title thread)) d)) d"
| "handle_turn_event w h title others i run TurnStarted d =
     (False, on_runtime (start_agent_turn w i (Some run)) d)"
| "handle_turn_event w h title others i run (Action action) d =
     (False, on_runtime (update_agent_action w i action (Some run)) d)"
| "handle_turn_event w h title others i run (AssistantMessage body) d =
     current_then i run True (\<lambda>d. (False, on_runtime (append_chat w i CrAssistant body (Some run))
       (others 0 (end_stream w i d)))) d"
| "handle_turn_event w h title others i run (ToolMessage body) d =
     (False, on_runtime (append_chat w i CrTool body (Some run)) d)"
| "handle_turn_event w h title others i run (ApprovalRequested q) d =
     current_then i run True (\<lambda>d. (\<not> hm_contains (rt_agents (dm_runtime d)) i,
       approval_requested w i q d)) d"
| "handle_turn_event w h title others i run (TurnCompleted status err) d0 = (let
      d = (case err of None \<Rightarrow> d0
           | Some e \<Rightarrow> others 2 (record_terminal_failure w others i e (Some run) d0))
    in current_then i run True (\<lambda>d. (True,
         on_runtime (change_run w i (completed_run w title status)) (end_turn w i d))) d)"
| "handle_turn_event w h title others i run (Diagnostic msg) d = (False, d)"
| "handle_turn_event w h title others i run (TurnFailed msg) d0 = (let
      d = others 2 (record_terminal_failure w others i msg (Some run) d0)
    in current_then i run True (\<lambda>d. (True, end_turn w i d)) d)"

end
