(* ===== verification/Remote_Projection.thy ===== *)
theory Remote_Projection
  imports Agent_Sessions Writer_Lease
begin

text \<open>
  What the daemon knows of SSH hosts (\<open>crates/ditchd/src/runtime_shared.rs\<close>, \<open>ssh_remote.rs\<close>): the
  events a host's daemon streams, the snapshots the poller fetches, the presence of the host, and
  the names of its projects. The host's answers are arguments. \<open>None\<close> is a panic: the map of projects
  is indexed with the key of a project that was found in it under another key.
\<close>

section \<open>Projects of a host\<close>

definition remote_alias :: "project \<Rightarrow> string option" where
  "remote_alias p = (case p_execution_target p of Remote _ host \<Rightarrow> Some host | Local \<Rightarrow> None)"

definition on_host :: "string \<Rightarrow> project_id \<Rightarrow> runtime \<Rightarrow> bool" where
  "on_host alias pid s = any_project (\<lambda>p. p_id p = pid \<and> remote_alias p = Some alias) s"

definition host_projects :: "string \<Rightarrow> runtime \<Rightarrow> project list" where
  "host_projects alias s = List.filter (\<lambda>p. remote_alias p = Some alias) (hm_values (rt_projects s))"

definition renamed_remote_project :: "project \<Rightarrow> string \<Rightarrow> project \<Rightarrow> project option" where
  "renamed_remote_project existing alias incoming =
     (if remote_alias existing \<noteq> Some alias \<or> p_id existing \<noteq> p_id incoming
         \<or> p_root existing \<noteq> p_root incoming \<or> is_remote incoming \<or> blank (p_name incoming)
      then None else Some (existing\<lparr>p_name := p_name incoming\<rparr>))"

definition cache_error :: "store_error \<Rightarrow> server_response" where
  "cache_error e = ProtocolError ''remote_project_cache_failed''
     (''The remote name was saved, but the local cache could not be updated: '' @ store_message e
      @ ''. Reconnect or retry to synchronize it.'')"

definition cache_remote_project_name :: "world \<Rightarrow> string \<Rightarrow> project \<Rightarrow> daemon \<Rightarrow>
    ((project, server_response) result \<times> daemon) option" where
  "cache_remote_project_name w alias incoming d = (let s = dm_runtime d in
     case Option.bind (project_by (\<lambda>p. p_id p = p_id incoming) s)
            (\<lambda>p. renamed_remote_project p alias incoming) of
       None \<Rightarrow> Some (Err (ProtocolError ''remote_project_identity_mismatch''
         ''Remote rename did not match a registered project on this SSH host''), d)
     | Some p \<Rightarrow> (case hm_get (rt_projects s) (root_key w p) of
           None \<Rightarrow> None
         | Some previous \<Rightarrow>
             if p_name previous = p_name p then Some (Ok p, d)
             else (case with_store (upsert_project p) s of
                 (Inl e, s') \<Rightarrow> Some (Err (cache_error e), d\<lparr>dm_runtime := s'\<rparr>)
               | (Inr _, s') \<Rightarrow> Some (Ok p, tell w (ProjectChanged p)
                   (d\<lparr>dm_runtime := s'\<lparr>rt_projects := hm_insert (root_key w p) p (rt_projects s')\<rparr>\<rparr>)))))"

definition cached_name :: "world \<Rightarrow> string \<Rightarrow> project \<Rightarrow> daemon \<Rightarrow> daemon option" where
  \<comment> \<open>an error is only logged\<close>
  "cached_name w alias p d = map_option snd (cache_remote_project_name w alias p d)"

section \<open>Events of a host\<close>

definition next_generation :: "string \<Rightarrow> daemon \<Rightarrow> daemon" where
  "next_generation alias d = d\<lparr>dm_task_generation := hm_insert alias
     (unwrap_or 0 (hm_get (dm_task_generation d) alias) + 1) (dm_task_generation d)\<rparr>"

definition newer_task :: "task \<Rightarrow> runtime \<Rightarrow> bool" where
  "newer_task t s = (case hm_get (rt_tasks s) (t_id t) of None \<Rightarrow> True
     | Some old \<Rightarrow> \<not> t_remote_pending old \<and> t_revision old \<le> t_revision t)"

definition take_agent :: "world \<Rightarrow> string \<Rightarrow> agent_run \<Rightarrow> daemon \<Rightarrow> daemon" where
  "take_agent w alias run d = (let s = dm_runtime d; i = ar_id run in
     case project_by (\<lambda>p. p_id p = ar_project_id run \<and> remote_alias p = Some alias) s of
       None \<Rightarrow> d
     | Some p \<Rightarrow>
         if is_some_and (hm_get (rt_agents s) i) (\<lambda>r. ar_project_id (rec_run r) \<noteq> ar_project_id run)
         then d
         else tell w (AgentChanged run) (on_runtime (put_record i (case hm_get (rt_agents s) i of
               Some r \<Rightarrow> r\<lparr>rec_run := run\<rparr>
             | None \<Rightarrow> \<lparr>rec_run = run, rec_project_root = p_root p, rec_messages = [], rec_failure = None\<rparr>))
             (d\<lparr>dm_agent_hosts := hm_insert i alias (dm_agent_hosts d)\<rparr>)))"

definition take_message :: "world \<Rightarrow> string \<Rightarrow> agent_chat_message \<Rightarrow> daemon \<Rightarrow> daemon" where
  "take_message w alias m d = (let i = cm_agent_id m in
     if hm_get (dm_agent_hosts d) i \<noteq> Some alias then d
     else tell w (AgentMessageAppended m) (on_runtime (\<lambda>s. case hm_get (rt_agents s) i of
         None \<Rightarrow> s
       | Some r \<Rightarrow> if m \<in> set (rec_messages r) then s
           else put_record i (r\<lparr>rec_messages := rec_messages r @ [m]\<rparr>) s) d))"

definition take_permission :: "world \<Rightarrow> string \<Rightarrow> permission_request \<Rightarrow> daemon \<Rightarrow> daemon" where
  "take_permission w alias q d =
     (if \<not> on_host alias (pq_project_id q) (dm_runtime d) then d
      else tell w (PermissionRequested q) (d\<lparr>
        dm_agent_hosts := (case pq_agent_id q of None \<Rightarrow> dm_agent_hosts d
           | Some i \<Rightarrow> hm_insert i alias (dm_agent_hosts d)),
        dm_permission_hosts := hm_insert (pq_id q) alias (dm_permission_hosts d),
        dm_permissions := hm_insert (pq_id q) q (dm_permissions d)\<rparr>))"

fun forward_remote_event :: "world \<Rightarrow> string \<Rightarrow> server_event \<Rightarrow> daemon \<Rightarrow> daemon option" where
  "forward_remote_event w alias (ProjectChanged p) d =
     (if on_host alias (p_id p) (dm_runtime d) then cached_name w alias p d else Some d)"
| "forward_remote_event w alias (BoardExecutionChanged x) d = Some
     (if on_host alias (bx_project_id x) (dm_runtime d) then tell w (BoardExecutionChanged x) d else d)"
| "forward_remote_event w alias (AgentStreamingText i body) d = Some
     (if hm_get (dm_agent_hosts d) i = Some alias then tell w (AgentStreamingText i body) d else d)"
| "forward_remote_event w alias (SkillsChanged pid) d = Some
     (if is_some_and pid (\<lambda>p. on_host alias p (dm_runtime d)) then tell w (SkillsChanged pid) d else d)"
| "forward_remote_event w alias (ReleaseCreated r) d0 = Some (let d = next_generation alias d0 in
     if on_host alias (rel_project_id r) (dm_runtime d)
     then tell w (ReleaseCreated r)
       (on_runtime (\<lambda>s. s\<lparr>rt_releases := hm_insert (rel_id r) r (rt_releases s)\<rparr>) d)
     else d)"
| "forward_remote_event w alias (TaskChanged t) d0 = Some (let d = next_generation alias d0 in
     if on_host alias (t_project_id t) (dm_runtime d) \<and> newer_task t (dm_runtime d)
     then tell w (TaskChanged t) (on_runtime (update_remote_task w t) d) else d)"
| "forward_remote_event w alias (TaskDeleted tid pid) d0 = Some (let d = next_generation alias d0 in
     if on_host alias pid (dm_runtime d)
       \<and> \<not> is_some_and (hm_get (rt_tasks (dm_runtime d)) tid) t_remote_pending
     then tell w (TaskDeleted tid pid) (on_runtime (\<lambda>s. s\<lparr>rt_tasks := hm_remove tid (rt_tasks s)\<rparr>) d)
     else d)"
| "forward_remote_event w alias (AgentChanged run) d = Some (take_agent w alias run d)"
| "forward_remote_event w alias (AgentMessageAppended m) d = Some (take_message w alias m d)"
| "forward_remote_event w alias (PermissionResolved q) d = Some
     (if hm_get (dm_permission_hosts d) q = Some alias
      then tell w (PermissionResolved q) (d\<lparr>dm_permission_hosts := hm_remove q (dm_permission_hosts d),
             dm_permissions := hm_remove q (dm_permissions d)\<rparr>)
      else d)"
| "forward_remote_event w alias (PermissionRequested q) d = Some (take_permission w alias q d)"
| "forward_remote_event w alias (ProjectTerminalOutput term data) d = Some
     (if hm_get (dm_terminal_hosts d) term = Some alias then tell w (ProjectTerminalOutput term data) d else d)"
| "forward_remote_event w alias (ProjectTerminalExited term) d = Some
     (if hm_get (dm_terminal_hosts d) term = Some alias
      then tell w (ProjectTerminalExited term)
             (d\<lparr>dm_terminal_hosts := hm_remove term (dm_terminal_hosts d)\<rparr>)
      else d)"
| "forward_remote_event w alias ev d = Some d"

section \<open>Presence and snapshots\<close>

definition update_remote_presence :: "world \<Rightarrow> string \<Rightarrow> string \<Rightarrow> string option \<Rightarrow> daemon \<Rightarrow> daemon" where
  "update_remote_presence w alias status detail d =
     (if hm_get (dm_connection_states d) alias = Some status then d
      else tell w (RemoteHostStatusChanged \<lparr>hp_ssh_host_alias = alias, hp_state = status,
             hp_updated_at = w_now w, hp_detail = detail\<rparr>)
           (d\<lparr>dm_connection_states := hm_insert alias status (dm_connection_states d)\<rparr>))"

fun fold_opt :: "('a \<Rightarrow> 'b \<Rightarrow> 'b option) \<Rightarrow> 'a list \<Rightarrow> 'b \<Rightarrow> 'b option" where
  "fold_opt f [] b = Some b"
| "fold_opt f (x # xs) b = Option.bind (f x b) (fold_opt f xs)"

definition mirror_tasks :: "world \<Rightarrow> project_id list \<Rightarrow> snapshot \<Rightarrow> runtime \<Rightarrow> runtime" where
  "mirror_tasks w pids sn s0 = (let
      s = s0\<lparr>rt_releases := fold (\<lambda>r. hm_insert (rel_id r) r)
              (List.filter (\<lambda>r. rel_project_id r \<in> set pids) (sn_releases sn))
              (List.filter (\<lambda>(_, r). rel_project_id r \<notin> set pids) (rt_releases s0))\<rparr>;
      s = s\<lparr>rt_tasks := List.filter (\<lambda>(i, t). t_remote_pending t \<or> t_project_id t \<notin> set pids
              \<or> i \<in> t_id ` set (sn_tasks sn)) (rt_tasks s)\<rparr>
    in fold (update_remote_task w) (List.filter (\<lambda>t. t_project_id t \<in> set pids) (sn_tasks sn)) s)"

definition settle_uncertain :: "world \<Rightarrow> string \<Rightarrow> runtime \<Rightarrow> runtime" where
  "settle_uncertain w alias s = fold
     (\<lambda>i s. release_writer w i (s\<lparr>rt_remote_uncertain := hm_remove i (rt_remote_uncertain s)\<rparr>))
     (List.map fst (List.filter (\<lambda>(_, host). host = alias) (rt_remote_uncertain s))) s"

definition release_stopped :: "world \<Rightarrow> snapshot \<Rightarrow> runtime \<Rightarrow> runtime" where
  "release_stopped w sn s = fold (release_writer w)
     (List.map ar_id (List.filter (\<lambda>run. \<not> ar_can_stop run) (sn_agents sn))) s"

definition listed_agents :: "project_id list \<Rightarrow> snapshot \<Rightarrow> agent_run list" where
  "listed_agents pids sn = List.filter (\<lambda>run. ar_project_id run \<in> set pids) (sn_agents sn)"

definition hosted_ids :: "('k \<times> string) list \<Rightarrow> string \<Rightarrow> 'k list" where
  "hosted_ids hosts alias = List.map fst (List.filter (\<lambda>(_, host). host = alias) hosts)"

definition drop_stale_agents :: "string \<Rightarrow> agent_id list \<Rightarrow> daemon \<Rightarrow> daemon" where
  "drop_stale_agents alias listed d = (let
      stale = List.filter (\<lambda>i. i \<notin> set listed) (hosted_ids (dm_agent_hosts d) alias)
    in (on_runtime (\<lambda>s. s\<lparr>rt_agents := fold hm_remove stale (rt_agents s)\<rparr>) d)
         \<lparr>dm_agent_hosts := fold hm_remove stale (dm_agent_hosts d)\<rparr>)"

definition mirror_agent :: "string \<Rightarrow> project list \<Rightarrow> agent_run \<Rightarrow> daemon \<Rightarrow> daemon" where
  "mirror_agent alias ps run d = (let s = dm_runtime d; i = ar_id run in
     case find (\<lambda>p. p_id p = ar_project_id run) (rev ps) of
       None \<Rightarrow> d
     | Some p \<Rightarrow>
         if is_some_and (hm_get (rt_agents s) i) (\<lambda>r. ar_project_id (rec_run r) \<noteq> ar_project_id run)
         then d
         else on_runtime (put_record i \<lparr>rec_run = run, rec_project_root = p_root p,
               rec_messages = (case hm_get (rt_agents s) i of None \<Rightarrow> [] | Some r \<Rightarrow> rec_messages r),
               rec_failure = None\<rparr>)
             (d\<lparr>dm_agent_hosts := hm_insert i alias (dm_agent_hosts d)\<rparr>))"

definition drop_stale_permissions :: "string \<Rightarrow> uuid list \<Rightarrow> daemon \<Rightarrow> daemon" where
  "drop_stale_permissions alias listed d = (let
      stale = List.filter (\<lambda>i. i \<notin> set listed) (hosted_ids (dm_permission_hosts d) alias)
    in d\<lparr>dm_permission_hosts := fold hm_remove stale (dm_permission_hosts d),
         dm_permissions := fold hm_remove stale (dm_permissions d)\<rparr>)"

definition mirror_permission :: "string \<Rightarrow> permission_request \<Rightarrow> daemon \<Rightarrow> daemon" where
  "mirror_permission alias q d =
     (if is_some_and (hm_get (dm_permissions d) (pq_id q)) (\<lambda>old. pq_project_id old \<noteq> pq_project_id q)
      then d
      else d\<lparr>dm_permission_hosts := hm_insert (pq_id q) alias (dm_permission_hosts d),
             dm_permissions := hm_insert (pq_id q) q (dm_permissions d)\<rparr>)"

definition mirror_attention :: "string \<Rightarrow> project_id list \<Rightarrow> agent_id list \<Rightarrow> snapshot \<Rightarrow> daemon \<Rightarrow> daemon"
where
  "mirror_attention alias pids listed sn d = (let
      replaced = hosted_ids (dm_attention_hosts d) alias;
      new = List.filter (\<lambda>a. is_some_and (at_project_id a) (\<lambda>p. p \<in> set pids)
              \<or> is_some_and (at_agent_id a) (\<lambda>i. i \<in> set listed)) (sn_attention sn)
    in (on_runtime (\<lambda>s. s\<lparr>rt_attention :=
            List.filter (\<lambda>a. at_id a \<notin> set replaced) (rt_attention s) @ new\<rparr>) d)
         \<lparr>dm_attention_hosts := fold (\<lambda>a. hm_insert (at_id a) alias) new
            (List.filter (\<lambda>(_, host). host \<noteq> alias) (dm_attention_hosts d))\<rparr>)"

definition mirror_sessions :: "string \<Rightarrow> project list \<Rightarrow> snapshot \<Rightarrow> daemon \<Rightarrow> daemon" where
  "mirror_sessions alias ps sn d = (let
      pids = List.map p_id ps; runs = listed_agents pids sn; listed = List.map ar_id runs;
      asked = List.filter (\<lambda>q. pq_project_id q \<in> set pids) (sn_permissions sn);
      d = fold (mirror_agent alias ps) runs (drop_stale_agents alias listed d);
      d = fold (mirror_permission alias) asked (drop_stale_permissions alias (List.map pq_id asked) d)
    in mirror_attention alias pids listed sn d)"

definition old_snapshot :: "string \<Rightarrow> uuid \<Rightarrow> snapshot \<Rightarrow> daemon \<Rightarrow> bool" where
  "old_snapshot alias epoch sn d = is_some_and (hm_get (dm_event_cursors d) alias)
     (\<lambda>(seen, n). seen = epoch \<and> sn_event_sequence sn < n)"

definition mirror_host :: "world \<Rightarrow> string \<Rightarrow> project list \<Rightarrow> uuid \<Rightarrow> snapshot \<Rightarrow> nat \<Rightarrow> daemon \<Rightarrow> daemon" where
  "mirror_host w alias ps epoch sn generation d0 = (let
      pids = List.map p_id ps;
      d = d0\<lparr>dm_epochs := hm_insert alias epoch (dm_epochs d0)\<rparr>;
      d = (if unwrap_or 0 (hm_get (dm_task_generation d) alias) = generation
           then on_runtime (mirror_tasks w pids sn) d else d);
      d = on_runtime (release_stopped w sn) (on_runtime (settle_uncertain w alias) d);
      d = mirror_sessions alias ps sn d;
      d = tell w (SnapshotReplaced (daemon_snapshot w d)) d
    in tell w (AttentionSnapshotReplaced (rt_attention (dm_runtime d))) d)"

definition reconcile_remote_snapshot :: "world \<Rightarrow> string \<Rightarrow> project list \<Rightarrow> uuid \<Rightarrow> snapshot \<Rightarrow> nat \<Rightarrow>
    daemon \<Rightarrow> daemon option" where
  "reconcile_remote_snapshot w alias ps epoch sn generation d =
     (if old_snapshot alias epoch sn d then Some d
      else map_option (mirror_host w alias ps epoch sn generation)
        (fold_opt (cached_name w alias)
          (List.filter (\<lambda>p. p_id p \<in> set (List.map p_id ps)) (sn_projects sn))
          (d\<lparr>dm_event_cursors := hm_insert alias (epoch, sn_event_sequence sn) (dm_event_cursors d)\<rparr>)))"

section \<open>The stream and the poller\<close>

text \<open>One event of the stream \<open>ensure_remote_event_subscription\<close> keeps open.\<close>

definition take_stream_event :: "world \<Rightarrow> string \<Rightarrow> uuid \<Rightarrow> nat \<Rightarrow> server_event \<Rightarrow> daemon \<Rightarrow> daemon option"
where
  "take_stream_event w alias epoch n ev d =
     (if is_some_and (hm_get (dm_epochs d) alias) (\<lambda>known. known \<noteq> epoch)
         \<or> is_some_and (hm_get (dm_event_cursors d) alias) (\<lambda>(known, m). known = epoch \<and> n \<le> m)
      then Some d
      else map_option (\<lambda>d. d\<lparr>dm_event_cursors := hm_insert alias (epoch, n) (dm_event_cursors d)\<rparr>)
        (case ev of
           SnapshotReplaced sn \<Rightarrow> reconcile_remote_snapshot w alias (host_projects alias (dm_runtime d))
             epoch sn (unwrap_or 0 (hm_get (dm_task_generation d) alias)) d
         | _ \<Rightarrow> forward_remote_event w alias ev d))"

text \<open>
  One round of the poller for a host that still has projects: what it read before the requests,
  what the host answered, and others whenever the lock is free. A restart of the host's daemon is
  noticed under locks of their own. A round gives the number of failures in a row, a \<open>u32\<close>, which
  sets the delay to the next round in seconds.
\<close>

definition host_restarted :: "world \<Rightarrow> (nat \<Rightarrow> daemon \<Rightarrow> daemon) \<Rightarrow> string \<Rightarrow> daemon \<Rightarrow> daemon" where
  "host_restarted w others alias d0 = (let
      d1 = others 2 d0;
      d2 = others 3 (d1\<lparr>dm_event_cursors := hm_remove alias (dm_event_cursors d1)\<rparr>);
      d3 = others 4 (d2\<lparr>dm_terminal_hosts := List.filter (\<lambda>(_, host). host \<noteq> alias) (dm_terminal_hosts d2)\<rparr>)
    in tell w (RemoteRuntimeRestarted alias) d3)"

definition offline_message :: string where
  "offline_message = ''SSH connection unavailable; remote work may still be running''"

definition poll_round :: "world \<Rightarrow> (nat \<Rightarrow> daemon \<Rightarrow> daemon) \<Rightarrow> string \<Rightarrow> (uuid \<times> snapshot) option \<Rightarrow>
    32 word \<Rightarrow> daemon \<Rightarrow> (32 word \<times> daemon) option" where
  "poll_round w others alias answer failures d0 = (let
      ps = host_projects alias (dm_runtime d0);
      d1 = others 0 d0;
      generation = unwrap_or 0 (hm_get (dm_task_generation d1) alias);
      d2 = others 1 d1
    in case opt_filter (\<lambda>(instance, sn). instance = sn_event_epoch sn) answer of
         None \<Rightarrow> Some (if failures = - 1 then failures else failures + 1,
           update_remote_presence w alias ''offline'' (Some offline_message) d2)
       | Some (instance, sn) \<Rightarrow> (let
             d3 = (if is_some_and (hm_get (dm_epochs d2) alias) (\<lambda>epoch. epoch \<noteq> instance)
                   then host_restarted w others alias d2 else d2)
           in map_option (\<lambda>d. (0, update_remote_presence w alias ''online'' None (others 6 d)))
                (reconcile_remote_snapshot w alias ps instance sn generation (others 5 d3))))"

definition poll_delay :: "32 word \<Rightarrow> nat" where
  "poll_delay failures = (if failures = 0 then 3 else min (2 ^ min (unat failures) 5) 30)"

section \<open>Renaming a project\<close>

text \<open>
  \<open>rename_project_for_target\<close>: a local project is renamed in its file, the store and memory; for an
  SSH project the host answers first. The file is what reading it gives; \<open>writes n\<close> is the error
  of the \<open>n\<close>-th write, if it fails. A file is replaced by a rename, so a write that fails leaves it.
\<close>

type_synonym config_file = "(project, store_error) result"

definition save_project_config :: "store_error option \<Rightarrow> project \<Rightarrow> config_file \<Rightarrow>
    (unit, store_error) result \<times> config_file" where
  "save_project_config broken p file = (case broken of Some e \<Rightarrow> (Err e, file) | None \<Rightarrow> (Ok (), Ok p))"

definition remote_metadata :: store_error where
  "remote_metadata = InvalidData ''Cannot write remote project metadata locally''"

definition identity_changed :: store_error where
  "identity_changed = InvalidData ''Project metadata identity has changed; reopen the project''"

definition rename_not_restored :: "store_error \<Rightarrow> store_error \<Rightarrow> store_error" where
  "rename_not_restored e rollback = InvalidData (''Rename was not committed: '' @ store_message e
     @ ''. Restoring project metadata also failed: '' @ store_message rollback
     @ ''. Restore the previous name in .ditch/project.json before retrying.'')"

definition save_local_project_rename :: "(nat \<Rightarrow> store_error option) \<Rightarrow> project \<Rightarrow> config_file \<Rightarrow> store \<Rightarrow>
    config_file \<times> (unit, store_error) result \<times> store" where
  "save_local_project_rename writes p file st =
     (if is_remote p then (file, Err remote_metadata, st)
      else case file of
          Inl e \<Rightarrow> (file, Err e, st)
        | Inr previous \<Rightarrow>
            if p_id previous \<noteq> p_id p then (file, Err identity_changed, st)
            else (case save_project_config (writes 0) p file of
                (Inl e, file) \<Rightarrow> (file, Err e, st)
              | (Inr _, file) \<Rightarrow> (case upsert_project p st of
                    (Inr _, st) \<Rightarrow> (file, Ok (), st)
                  | (Inl e, st) \<Rightarrow> (case save_project_config (writes 1) previous file of
                        (Inl rollback, file) \<Rightarrow> (file, Err (rename_not_restored e rollback), st)
                      | (Inr _, file) \<Rightarrow> (file, Err e, st)))))"

definition rename_unsupported :: server_response where
  "rename_unsupported = ProtocolError ''remote_rename_unsupported''
     ''Update the runtime on this SSH host using Remote Runtime Setup, then retry renaming.''"

definition rename_failed :: server_response where
  "rename_failed = ProtocolError ''remote_rename_failed''
     ''Remote runtime returned an unexpected rename response; reconnect and retry''"

definition rename_mismatch :: server_response where
  "rename_mismatch = ProtocolError ''remote_project_identity_mismatch''
     ''Remote rename response did not match the requested project''"

definition unregistered_project :: server_response where
  "unregistered_project = ProtocolError ''project_not_found'' ''Project is no longer registered''"

definition rename_local :: "world \<Rightarrow> (nat \<Rightarrow> store_error option) \<Rightarrow> project_id \<Rightarrow> string \<Rightarrow>
    config_file \<Rightarrow> daemon \<Rightarrow> server_response \<times> config_file \<times> daemon" where
  "rename_local w writes pid name file d = (let s = dm_runtime d in
     case project_by (\<lambda>p. p_id p = pid) s of
       None \<Rightarrow> (unregistered_project, file, d)
     | Some p \<Rightarrow>
         if p_name p = name then (ProjectRenamed p, file, d)
         else (let p = p\<lparr>p_name := name\<rparr> in
           case save_local_project_rename writes p file (rt_store s) of
             (file, Inl e, st) \<Rightarrow> (ProtocolError ''project_rename_failed'' (store_message e), file,
               d\<lparr>dm_runtime := s\<lparr>rt_store := st\<rparr>\<rparr>)
           | (file, Inr _, st) \<Rightarrow> (ProjectRenamed p, file, tell w (ProjectChanged p)
               (d\<lparr>dm_runtime := s\<lparr>rt_store := st,
                  rt_projects := hm_insert (root_key w p) p (rt_projects s)\<rparr>\<rparr>))))"

definition rename_remote :: "world \<Rightarrow> project \<Rightarrow> string \<Rightarrow> server_response \<Rightarrow> daemon \<Rightarrow>
    (server_response \<times> daemon) option" where
  "rename_remote w p alias answer d = (case answer of
      ProjectRenamed incoming \<Rightarrow>
        if renamed_remote_project p alias incoming = None then Some (rename_mismatch, d)
        else map_option (map_prod (case_sum id ProjectRenamed) id)
               (cache_remote_project_name w alias incoming d)
    | ProtocolError code m \<Rightarrow> Some (answer, d)
    | _ \<Rightarrow> Some (rename_failed, d))"

text \<open>
  \<open>capable\<close>: the capabilities the host's status lists, none when it answers something else, or its
  error; \<open>answer\<close>: its reply to the renaming.
\<close>

definition rename_project_for_target :: "world \<Rightarrow> (nat \<Rightarrow> store_error option) \<Rightarrow>
    (nat \<Rightarrow> daemon \<Rightarrow> daemon) \<Rightarrow> (string list, string \<times> string) result \<Rightarrow> server_response \<Rightarrow>
    project_id \<Rightarrow> string \<Rightarrow> config_file \<Rightarrow> daemon \<Rightarrow> (server_response \<times> config_file \<times> daemon) option"
where
  "rename_project_for_target w writes others capable answer pid name0 file d = (let name = trim name0 in
     if name = [] then Some (ProtocolError ''invalid_project_name'' ''Project name cannot be empty'', file, d)
     else case project_by (\<lambda>p. p_id p = pid) (dm_runtime d) of
         None \<Rightarrow> Some (unregistered_project, file, d)
       | Some p \<Rightarrow> (case remote_alias p of
             None \<Rightarrow> Some (rename_local w writes pid name file (others 0 d))
           | Some alias \<Rightarrow> (case capable of
                 Inl (code, m) \<Rightarrow> Some (ProtocolError code m, file, others 0 d)
               | Inr caps \<Rightarrow>
                   if ''project_rename_v1'' \<in> set caps
                   then map_option (map_prod id (Pair file))
                          (rename_remote w p alias answer (others 1 (others 0 d)))
                   else Some (rename_unsupported, file, others 0 d))))"

end
