(* ===== verification/Agent_Lifecycle.thy ===== *)
theory Agent_Lifecycle
  imports Agent_Sessions
begin

text \<open>
  How a run of an agent ends and what the user does to a session
  (\<open>crates/ditchd/src/runtime_shared.rs\<close>, and the thread of a turn in
  \<open>remote_app_server_runtime.rs\<close>): \<open>finish_agent\<close> when the child has exited, \<open>stop_agent\<close> and
  \<open>force_kill_agent\<close>, and the deletion and renaming of agents and projects.
\<close>

section \<open>The end of a run\<close>

definition run_ended :: "time \<Rightarrow> bool \<Rightarrow> int option \<Rightarrow> bool \<Rightarrow> agent_run \<Rightarrow> agent_run" where
  \<comment> \<open>what \<open>finish_agent\<close> makes of the run; \<open>app_server\<close>: the child was an app server\<close>
  "run_ended now app_server code failed run = (let
      stopping = (ar_state run = AsStopping);
      interrupted = (ar_state run = AsInterrupted);
      app_server_finished = (app_server \<and> ar_state run \<in> {AsCompleted, AsFailed, AsInterrupted});
      run = run\<lparr>ar_can_stop := False\<rparr>;
      run = (if stopping
             then run\<lparr>ar_state := AsInterrupted, ar_last_visible_action := Some ''Stopped by user''\<rparr>
             else if \<not> interrupted \<and> \<not> app_server_finished
             then run\<lparr>ar_state := (if failed then AsFailed else if code = Some 0 then AsCompleted
                                  else AsFailed),
                      ar_last_visible_action := Some (case code of
                          Some c \<Rightarrow> ''Codex exited with code '' @ show_int c
                        | None \<Rightarrow> ''Codex exited without a code'')\<rparr>
             else run);
      run = run\<lparr>ar_updated_at := now, ar_finished_at := Some now\<rparr>;
      run = (if app_server_finished then run else run\<lparr>ar_exit_code := code\<rparr>)
    in run\<lparr>ar_resume_block_reason := no_thread_reason run\<rparr>)"

definition end_failure_text :: "agent_record \<Rightarrow> string" where
  "end_failure_text r = unwrap_or
     (unwrap_or ''The agent failed'' (ar_last_visible_action (rec_run r)))
     (opt_or (rec_failure r)
        (map_option cm_text (find (\<lambda>m. cm_role m = CrSystem) (rev (rec_messages r)))))"

definition end_attention :: "world \<Rightarrow> agent_id \<Rightarrow> agent_record \<Rightarrow> bool \<Rightarrow> runtime \<Rightarrow>
    runtime_attention option" where
  "end_attention w i r blocked s = (let run = rec_run r;
      notice = (\<lambda>kind title body. Some \<lparr>at_id = fresh_uuid w s, at_kind = kind,
        at_agent_id = Some i, at_project_id = Some (ar_project_id run),
        at_project_name = map_option p_name (project_by (\<lambda>p. p_id p = ar_project_id run) s),
        at_agent_name = Some (display_name run), at_title = title, at_body = body,
        at_created_at = w_now w, at_read_at = None\<rparr>)
    in case ar_state run of
        AsFailed \<Rightarrow> if blocked then None
          else notice AkFailed ''Agent failed'' (notification_summary (end_failure_text r))
      | AsCompleted \<Rightarrow> notice AkCompleted ''Agent finished'' ''Task completed successfully.''
      | _ \<Rightarrow> None)"

definition blocked_raised :: "agent_id \<Rightarrow> runtime \<Rightarrow> bool" where
  "blocked_raised i s = list_ex (\<lambda>a. at_agent_id a = Some i \<and> at_kind a = AkBlocked
     \<and> at_title a = cannot_write_title) (rt_attention s)"

definition forget_child :: "agent_id \<Rightarrow> runtime \<Rightarrow> runtime" where
  "forget_child i s = s\<lparr>rt_children := hm_remove i (rt_children s)\<rparr>"

definition report_end :: "world \<Rightarrow> agent_id \<Rightarrow> bool \<Rightarrow> int option \<Rightarrow> bool \<Rightarrow> runtime \<Rightarrow> runtime" where
  "report_end w i app_server code owned s = (case hm_get (rt_agents s) i of
      None \<Rightarrow> s
    | Some r \<Rightarrow> (let
          r' = r\<lparr>rec_run := run_ended (w_now w) app_server code (rec_failure r \<noteq> None) (rec_run r)\<rparr>;
          a = end_attention w i r' (blocked_raised i s) s;
          s = save_record w i r' (if a = None then s else drawn s)
        in case a of
             None \<Rightarrow> s
           | Some a \<Rightarrow> if owned then s else raise_attention w a s))"

definition finish_agent :: "world \<Rightarrow> agent_id \<Rightarrow> uuid option \<Rightarrow> int option \<Rightarrow> daemon \<Rightarrow> daemon" where
  "finish_agent w i run code d0 = (let s = dm_runtime d0 in
     if \<not> reports s i run then d0
     else (let
         owned = i \<in> set (rt_acceptance_owners s);
         app_server = is_some_and (hm_get (rt_children s) i) ch_app_server;
         d = on_runtime (forget_child i) d0;
         d = (if app_server
              then clear_agent_permissions w i (d\<lparr>dm_turns := hs_remove i (dm_turns d)\<rparr>) else d)
       in on_runtime (report_end w i app_server code owned) d))"

definition run_stopped :: "time \<Rightarrow> agent_run \<Rightarrow> agent_run" where
  "run_stopped now run = (let run = run\<lparr>ar_state := AsInterrupted, ar_can_stop := False,
      ar_last_visible_action := Some ''Stopped by user'', ar_updated_at := now,
      ar_finished_at := Some now\<rparr>
    in run\<lparr>ar_resume_block_reason := no_thread_reason run\<rparr>)"

definition finalize_stopped_run :: "world \<Rightarrow> agent_id \<Rightarrow> uuid \<Rightarrow> daemon \<Rightarrow> daemon" where
  "finalize_stopped_run w i run d0 =
     (if \<not> is_current_run (dm_runtime d0) i run then d0
      else (let d = on_runtime (forget_child i) d0;
                d = clear_agent_permissions w i (d\<lparr>dm_turns := hs_remove i (dm_turns d)\<rparr>)
        in on_runtime (change_run w i (run_stopped (w_now w))) d))"

section \<open>The thread of a turn\<close>

text \<open>
  One round of \<open>attach_remote_app_server_turn\<close>: what the channel gave, whether the child has exited
  (and its code), whether two seconds have passed since the clean-up began, and the code the final
  wait yields. The list of rounds is the thread's run; it ends at the first round that finishes the
  agent.
\<close>

record turn_round =
  tu_event :: "turn_event option" \<comment> \<open>\<open>None\<close>: timed out\<close>
  tu_disconnected :: bool
  tu_exited :: bool
  tu_status :: "int option"
  tu_grace_over :: bool
  tu_waited :: "int option"

record turn_thread =
  tt_terminal :: bool
  tt_cleanup :: bool
  tt_closed :: bool

definition exited_early :: string where
  "exited_early = ''Codex App Server exited before completing its turn''"

definition output_lost :: string where
  "output_lost = ''Codex App Server output disconnected before turn completion''"

definition take_event :: "world \<Rightarrow> host_env \<Rightarrow> (agent_run \<Rightarrow> string option) \<Rightarrow>
    (nat \<Rightarrow> daemon \<Rightarrow> daemon) \<Rightarrow> agent_id \<Rightarrow> uuid \<Rightarrow> turn_round \<Rightarrow> turn_thread \<times> daemon \<Rightarrow>
    turn_thread \<times> daemon" where
  "take_event w h title others i run x td = (let (t, d) = td in
     case tu_event x of
       None \<Rightarrow> (if tu_disconnected x then t\<lparr>tt_closed := True\<rparr> else t, d)
     | Some OutputClosed \<Rightarrow> (t\<lparr>tt_closed := True\<rparr>, d)
     | Some ev \<Rightarrow>
         if tt_terminal t then (t, d)
         else (let (ended, d) = handle_turn_event w h title others i run ev d
           in (t\<lparr>tt_terminal := ended, tt_cleanup := (tt_cleanup t \<or> ended)\<rparr>, d)))"

definition close_turn :: "world \<Rightarrow> (nat \<Rightarrow> daemon \<Rightarrow> daemon) \<Rightarrow> agent_id \<Rightarrow> uuid \<Rightarrow>
    turn_thread \<times> daemon \<Rightarrow> turn_thread \<times> daemon" where
  "close_turn w others i run td = (let (t, d) = td in
     if tt_closed t \<and> \<not> tt_terminal t
     then (let d = others 3 (record_terminal_failure w others i output_lost (Some run) d) in
       (t\<lparr>tt_terminal := True, tt_cleanup := True\<rparr>,
        if is_current_run (dm_runtime d) i run
        then d\<lparr>dm_turns := hs_remove i (dm_turns d)\<rparr> else d))
     else (t, d))"

text \<open>\<open>Inl\<close>: the thread has ended; \<open>Inr\<close>: it goes on.\<close>

definition turn_step :: "world \<Rightarrow> host_env \<Rightarrow> (agent_run \<Rightarrow> string option) \<Rightarrow>
    (nat \<Rightarrow> daemon \<Rightarrow> daemon) \<Rightarrow> agent_id \<Rightarrow> uuid \<Rightarrow> turn_round \<Rightarrow> turn_thread \<times> daemon \<Rightarrow>
    daemon + turn_thread \<times> daemon" where
  "turn_step w h title others i run x td = (let (t, d) = take_event w h title others i run x td in
     if tu_exited x \<and> tt_closed t
     then Inl (finish_agent w i (Some run) (tu_status x)
            (if tt_terminal t then d
             else others 4 (record_terminal_failure w others i exited_early (Some run) d)))
     else (let (t, d) = close_turn w others i run (t\<lparr>tt_cleanup := tt_cleanup t \<or> tu_exited x\<rparr>, d)
       in if tt_cleanup t \<and> tu_grace_over x
          then Inl (finish_agent w i (Some run) (tu_waited x) (others 5 d))
          else Inr (t, others 6 d)))"

fun turn_thread_run :: "world \<Rightarrow> host_env \<Rightarrow> (agent_run \<Rightarrow> string option) \<Rightarrow>
    (nat \<Rightarrow> nat \<Rightarrow> daemon \<Rightarrow> daemon) \<Rightarrow> agent_id \<Rightarrow> uuid \<Rightarrow> turn_round list \<Rightarrow> turn_thread \<times> daemon \<Rightarrow>
    bool \<times> daemon" where
  "turn_thread_run w h title others i run [] td = (False, snd td)"
| "turn_thread_run w h title others i run (x # xs) td =
     (case turn_step w h title (others (length xs)) i run x td of
        Inl d \<Rightarrow> (True, d)
      | Inr td' \<Rightarrow> turn_thread_run w h title others i run xs td')"

definition new_turn :: turn_thread where
  "new_turn = \<lparr>tt_terminal = False, tt_cleanup = False, tt_closed = False\<rparr>"

section \<open>Stopping\<close>

datatype signal = SigInt int | SigTerm int | SigKill int

text \<open>
  How the child reacts: whether the app server took the interrupt, and whether the group was gone
  after each signal. The signals sent are part of the result.
\<close>

record stop_course =
  sc_interrupted :: bool
  sc_after_int :: bool
  sc_after_term :: bool
  sc_after_kill :: bool

definition to_group :: "(int \<Rightarrow> signal) \<Rightarrow> int \<Rightarrow> signal list" where
  "to_group sig pid = (if 0 < pid then [sig pid] else [])"

definition cancel_owned :: "agent_id \<Rightarrow> runtime \<Rightarrow> runtime" where
  \<comment> \<open>the loop this agent works for is cancelled\<close>
  "cancel_owned i s = (case find (\<lambda>(_, c). co_owner c = i) (rt_controls s) of
      None \<Rightarrow> s
    | Some (tid, c) \<Rightarrow> s\<lparr>rt_controls := hm_insert tid (c\<lparr>co_cancelled := True\<rparr>) (rt_controls s)\<rparr>)"

definition stop_requested :: "time \<Rightarrow> bool \<Rightarrow> agent_run \<Rightarrow> agent_run" where
  "stop_requested now live run =
     (if live
      then run\<lparr>ar_state := AsStopping, ar_can_stop := False,
             ar_last_visible_action := Some ''Stopping Codex'', ar_updated_at := now\<rparr>
      else run_stopped now run)"

definition stop_failed_message :: string where
  "stop_failed_message = ''Codex did not release its process group; this session is not safe to resume yet.''"

definition force_failed_message :: string where
  "force_failed_message = ''The owned Codex process group did not exit.''"

definition agent_not_found :: server_response where
  "agent_not_found = ProtocolError ''agent_not_found'' ''agent session was not found''"

text \<open>The watcher of the run has a second to finalise it; otherwise this thread does.\<close>

definition await_final :: "world \<Rightarrow> (nat \<Rightarrow> daemon \<Rightarrow> daemon) \<Rightarrow> agent_id \<Rightarrow> uuid \<Rightarrow> daemon \<Rightarrow> daemon"
where
  "await_final w others i run d0 = (let d = others 2 d0 in
     if \<not> is_current_run (dm_runtime d) i run then d
     else finalize_stopped_run w i run (others 3 d))"

definition stop_signals :: "active_child \<Rightarrow> stop_course \<Rightarrow> signal list \<times> bool" where
  "stop_signals c x = (let pid = ch_process_group c in
     if sc_after_int x then (to_group SigInt pid, True)
     else if sc_after_term x then (to_group SigInt pid @ to_group SigTerm pid, True)
     else (to_group SigInt pid @ to_group SigTerm pid @ to_group SigKill pid, sc_after_kill x))"

definition stop_agent :: "world \<Rightarrow> (nat \<Rightarrow> daemon \<Rightarrow> daemon) \<Rightarrow> stop_course \<Rightarrow> agent_id \<Rightarrow> daemon \<Rightarrow>
    server_response \<times> signal list \<times> daemon" where
  "stop_agent w others x i d0 = (let s0 = cancel_owned i (dm_runtime d0) in
     case hm_get (rt_agents s0) i of
       None \<Rightarrow> (agent_not_found, [], d0\<lparr>dm_runtime := s0\<rparr>)
     | Some _ \<Rightarrow> (let
           active = hm_get (rt_children s0) i;
           d = d0\<lparr>dm_runtime := change_run w i (stop_requested (w_now w) (active \<noteq> None)) s0\<rparr>
         in case active of
              None \<Rightarrow> (Accepted, [], d)
            | Some c \<Rightarrow> (let
                  d1 = others 0 d;
                  d = (if ch_app_server c \<and> i \<in> set (dm_turns d1) \<and> sc_interrupted x
                       then others 1 d1 else d1);
                  finalised = (ch_app_server c \<and> i \<in> set (dm_turns d1) \<and> sc_interrupted x
                       \<and> \<not> is_current_run (dm_runtime d) i (ch_run_id c));
                  (signals, gone) = stop_signals c x
                in if finalised then (Accepted, [], d)
                   else if \<not> gone
                   then (ProtocolError ''agent_stop_failed'' stop_failed_message, signals, d)
                   else (Accepted, signals, await_final w others i (ch_run_id c) d))))"

definition force_kill_agent :: "world \<Rightarrow> (nat \<Rightarrow> daemon \<Rightarrow> daemon) \<Rightarrow> bool \<Rightarrow> agent_id \<Rightarrow> daemon \<Rightarrow>
    server_response \<times> signal list \<times> daemon" where
  "force_kill_agent w others gone i d0 = (let d = others 0 (on_runtime (cancel_owned i) d0) in
     if \<not> hm_contains (rt_agents (dm_runtime d)) i then (agent_not_found, [], d)
     else case hm_get (rt_children (dm_runtime d)) i of
         None \<Rightarrow> (ProtocolError ''agent_not_running'' ''agent session is not running'', [], d)
       | Some c \<Rightarrow> (let signals = to_group SigKill (ch_process_group c) in
           if \<not> gone then (ProtocolError ''agent_stop_failed'' force_failed_message, signals, d)
           else (Accepted, signals, await_final w others i (ch_run_id c) (others 1 d))))"

section \<open>Deleting and renaming\<close>

definition delete_agent_run :: "world \<Rightarrow> agent_id \<Rightarrow> daemon \<Rightarrow> server_response \<times> daemon" where
  "delete_agent_run w i d = (let s = dm_runtime d in
     case hm_get (rt_agents s) i of
       None \<Rightarrow> (agent_not_found, d)
     | Some r \<Rightarrow>
         if ar_state (rec_run r) \<in> {AsStarting, AsWorking, AsStopping} \<or> hm_contains (rt_children s) i
         then (ProtocolError ''agent_active'' ''Stop this agent before deleting it permanently.'', d)
         else (case with_store (delete_agent i) s of
             (Inl e, s') \<Rightarrow> (ProtocolError ''agent_delete_failed'' (store_message e), d\<lparr>dm_runtime := s'\<rparr>)
           | (Inr _, s') \<Rightarrow> (Accepted, tell w (AgentDeleted i) (d\<lparr>dm_runtime :=
               s'\<lparr>rt_agents := hm_remove i (rt_agents s'),
                  rt_attention := List.filter (\<lambda>a. at_agent_id a \<noteq> Some i) (rt_attention s')\<rparr>\<rparr>))))"

definition agent_in_use :: "runtime \<Rightarrow> project_id \<Rightarrow> agent_record \<Rightarrow> bool" where
  "agent_in_use s pid r = (let run = rec_run r in ar_project_id run = pid
     \<and> (ar_can_stop run \<or> hm_contains (rt_children s) (ar_id run) \<or> agent_active (ar_state run)))"

definition project_in_use :: "runtime \<Rightarrow> project_id \<Rightarrow> bool" where
  "project_in_use s pid = (list_ex (agent_in_use s pid) (hm_values (rt_agents s))
     \<or> any_task (\<lambda>t. t_project_id t = pid \<and> task_live s t) s)"

definition project_agents :: "runtime \<Rightarrow> project_id \<Rightarrow> agent_id list" where
  "project_agents s pid = List.map (\<lambda>r. ar_id (rec_run r))
     (List.filter (\<lambda>r. ar_project_id (rec_run r) = pid) (hm_values (rt_agents s)))"

definition without_project :: "project_id \<Rightarrow> string \<Rightarrow> runtime \<Rightarrow> runtime" where
  "without_project pid key s = (let is = project_agents s pid in
     s\<lparr>rt_agents := fold hm_remove is (rt_agents s),
       rt_children := fold hm_remove is (rt_children s),
       rt_attention := List.filter (\<lambda>a. at_project_id a \<noteq> Some pid
          \<and> (case at_agent_id a of None \<Rightarrow> True | Some i \<Rightarrow> i \<notin> set is)) (rt_attention s),
       rt_projects := hm_remove key (rt_projects s),
       rt_releases := List.filter (\<lambda>(_, r). rel_project_id r \<noteq> pid) (rt_releases s)\<rparr>)"

definition close_terminal :: "project_id \<Rightarrow> daemon \<Rightarrow> daemon" where
  "close_terminal pid d = (case hm_get (dm_terminal_by_project d) pid of
      None \<Rightarrow> d
    | Some term \<Rightarrow> d\<lparr>dm_terminal_by_project := hm_remove pid (dm_terminal_by_project d),
                   dm_terminals := hs_remove term (dm_terminals d)\<rparr>)"

definition delete_project_run :: "world \<Rightarrow> project_id \<Rightarrow> daemon \<Rightarrow> server_response \<times> daemon" where
  "delete_project_run w pid d = (let s = dm_runtime d in
     case find (\<lambda>(_, p). p_id p = pid) (rt_projects s) of
       None \<Rightarrow> (ProtocolError ''project_not_found'' ''project was not found'', d)
     | Some (key, _) \<Rightarrow>
         if project_in_use s pid
         then (ProtocolError ''project_active''
                 ''Stop this project's active agents before deleting it.'', d)
         else (case with_store (delete_project pid) s of
             (Inl e, s') \<Rightarrow> (ProtocolError ''project_delete_failed'' (store_message e), d\<lparr>dm_runtime := s'\<rparr>)
           | (Inr _, s') \<Rightarrow> (Accepted, tell w (ProjectDeleted pid)
               (on_runtime (without_project pid key) (close_terminal pid (d\<lparr>dm_runtime := s'\<rparr>))))))"

definition name_receipt_key :: "world \<Rightarrow> agent_id \<Rightarrow> setting_key" where
  "name_receipt_key w i = NamedKey (''session-naming:'' @ w_show_uuid w i)"

definition rename_agent :: "world \<Rightarrow> agent_id \<Rightarrow> string option \<Rightarrow> daemon \<Rightarrow> server_response \<times> daemon"
where
  "rename_agent w i title d = (let s = dm_runtime d in
     case hm_get (rt_agents s) i of
       None \<Rightarrow> (agent_not_found, d)
     | Some r \<Rightarrow> (let
           run = (rec_run r)\<lparr>ar_user_title := Option.bind title normalize_session_title\<rparr>;
           retry = (ar_user_title run = None \<and> ar_naming_failed run);
           run = run\<lparr>ar_naming_failed := (ar_naming_failed run \<and> \<not> retry), ar_updated_at := w_now w\<rparr>;
           s = put_record i (r\<lparr>rec_run := run\<rparr>) s;
           s = (if retry then snd (with_store (set_setting (name_receipt_key w i) (SvText ''{}'')) s)
                else s)
         in (Accepted, d\<lparr>dm_runtime := broadcast w (AgentChanged run) (persist_agent i s)\<rparr>)))"

end
