(* ===== verification/Agent_Launch.thy ===== *)
theory Agent_Launch
  imports Agent_Lifecycle Writer_Lease
begin

text \<open>
  Starting a session and prompting one (\<open>start_remote_app_server_session_linked\<close> and
  \<open>prompt_app_server_agent\<close> of \<open>crates/ditchd/src/remote_app_server_runtime.rs\<close>), with the record
  of a failed launch (\<open>persist_launch_failure\<close> of \<open>runtime_shared.rs\<close>).

  The file system, Git, the skill files and the Codex process are outside the model: what they
  answer is a \<open>launch_env\<close>. \<open>others n\<close> is what other threads do where the lock is given back.
\<close>

section \<open>Environment\<close>

text \<open>
  The process either is not started, or dies (or refuses) after the writer learned its group, or
  runs the turn.
\<close>

datatype spawn = SpawnFails string | SpawnDies int string | SpawnRuns int

record launch_env =
  le_canonical :: "path \<Rightarrow> path"
  le_config :: "path \<Rightarrow> project option"
  le_metadata :: "project \<Rightarrow> string option" \<comment> \<open>the error of \<open>ensure_project_metadata\<close>\<close>
  le_is_repository :: "project \<Rightarrow> bool"
  le_executable :: "string \<Rightarrow> bool"
  le_resolve :: "string option \<Rightarrow> string option"
  le_skills :: "project \<Rightarrow> skill_binding list \<Rightarrow> string option" \<comment> \<open>the error of the validation\<close>
  le_spawn :: "agent_id \<Rightarrow> spawn"
  le_run_id :: uuid

section \<open>Checks before a launch\<close>

definition plain_project :: "time \<Rightarrow> string \<Rightarrow> path \<Rightarrow> project_id \<Rightarrow> project" where
  \<comment> \<open>\<open>Project::new\<close>, then the id of the request\<close>
  "plain_project now name dir pid = \<lparr>p_id = pid, p_name = name, p_root = dir, p_created_at = now,
     p_archived_at = None, p_git_policy = RequireRepository, p_execution_target = Local\<rparr>"

definition project_to_start :: "world \<Rightarrow> launch_env \<Rightarrow> project_id \<Rightarrow> string \<Rightarrow> path \<Rightarrow> runtime \<Rightarrow>
    project option" where
  "project_to_start w e pid name dir s = opt_or (project_by (\<lambda>p. p_id p = pid) s)
     (if rt_remote_runtime s then None
      else (let dir = le_canonical e dir in Some (case le_config e dir of
              Some p \<Rightarrow> p\<lparr>p_id := pid\<rparr>
            | None \<Rightarrow> plain_project (w_now w) name dir pid)))"

definition thread_mismatch :: "string \<Rightarrow> path \<Rightarrow> path \<Rightarrow> string" where
  "thread_mismatch thread mine other = ''Codex thread '' @ thread @ '' belongs to '' @ mine @ '', not '' @
     other @ ''. Start a new Codex session for the selected project.''"

definition other_home_message :: string where
  "other_home_message = ''This Codex thread was created under a different CODEX_HOME. Its history is readable, but it cannot be resumed with the current Codex account.''"

definition validate_thread_project :: "string \<Rightarrow> path \<Rightarrow> runtime \<Rightarrow> (unit, string) result" where
  "validate_thread_project thread dir s =
     (case find (\<lambda>r. ar_native_session_id (rec_run r) = Some thread) (hm_values (rt_agents s)) of
        None \<Rightarrow> Ok ()
      | Some r \<Rightarrow>
          if rec_project_root r \<noteq> dir then Err (thread_mismatch thread (rec_project_root r) dir)
          else if ar_origin_codex_home (rec_run r) \<noteq> rt_codex_home s then Err other_home_message
          else Ok ())"

definition no_repository_message :: string where
  "no_repository_message = ''This project is not inside a Git repository. Initialize Git or explicitly allow Codex outside Git.''"

definition verify_project_git_policy :: "launch_env \<Rightarrow> project \<Rightarrow> (unit, server_response) result" where
  "verify_project_git_policy e p =
     (if p_git_policy p = AllowOutsideGit \<or> le_is_repository e p then Ok ()
      else Err (ProtocolError ''git_repository_required'' no_repository_message))"

definition start_checks :: "world \<Rightarrow> launch_env \<Rightarrow> project_id \<Rightarrow> string \<Rightarrow> path \<Rightarrow> string option \<Rightarrow>
    runtime \<Rightarrow> runtime \<Rightarrow> (project, server_response) result" where
  \<comment> \<open>the thread is checked under a lock of its own, in the state \<open>s'\<close>\<close>
  "start_checks w e pid name dir thread s s' = (case project_to_start w e pid name dir s of
      None \<Rightarrow> Err (ProtocolError ''project_not_found'' ''project was not found'')
    | Some p \<Rightarrow>
        if p_name p \<noteq> name \<or> p_root p \<noteq> le_canonical e dir
        then Err (ProtocolError ''project_identity_mismatch''
               ''The project identity does not match this runtime'')
        else (case (case thread of None \<Rightarrow> Ok () | Some t \<Rightarrow> validate_thread_project t (p_root p) s') of
            Inl m \<Rightarrow> Err (ProtocolError ''codex_thread_project_mismatch'' m)
          | Inr _ \<Rightarrow>
              (case le_metadata e p of
                 Some m \<Rightarrow> Err (ProtocolError ''project_metadata_failed'' m)
               | None \<Rightarrow> res_bind (verify_project_git_policy e p) (\<lambda>_. Ok p))))"

text \<open>The saved binary while it still works, or a replacement that is saved; a failure to save is ignored.\<close>

definition active_codex_binary :: "launch_env \<Rightarrow> runtime \<Rightarrow> string option \<times> runtime" where
  "active_codex_binary e s = (let preferred = rt_codex_binary s in
     if is_some_and preferred (le_executable e) then (preferred, s)
     else (let found = le_resolve e preferred; s = s\<lparr>rt_codex_binary := found\<rparr> in
       (found, case found of None \<Rightarrow> s
          | Some b \<Rightarrow> snd (with_store (set_setting codex_binary_key (SvText b)) s))))"

section \<open>A launch that fails\<close>

definition failed_launch_run :: "time \<Rightarrow> string \<Rightarrow> agent_run \<Rightarrow> agent_run" where
  "failed_launch_run now err run = run\<lparr>ar_state := AsFailed, ar_updated_at := now,
     ar_last_visible_action := Some ''Codex could not be started'', ar_state_evidence := err,
     ar_finished_at := Some now, ar_resume_block_reason := no_thread_reason run\<rparr>"

definition launch_attention :: "uuid \<Rightarrow> time \<Rightarrow> project \<Rightarrow> agent_run \<Rightarrow> string \<Rightarrow> runtime_attention" where
  "launch_attention uid now p run err = \<lparr>at_id = uid, at_kind = AkFailed, at_agent_id = Some (ar_id run),
     at_project_id = Some (p_id p), at_project_name = Some (p_name p),
     at_agent_name = Some (display_name run), at_title = ''Codex failed to start'',
     at_body = notification_summary err, at_created_at = now, at_read_at = None\<rparr>"

text \<open>The two transactions of a failed launch: the project, then the agent with its messages.\<close>

definition store_failed_launch :: "project \<Rightarrow> agent_run \<Rightarrow> agent_chat_message \<Rightarrow>
    agent_chat_message \<Rightarrow> runtime_attention \<Rightarrow> string option \<Rightarrow> store \<Rightarrow>
    (unit, store_error) result \<times> store" where
  "store_failed_launch p run m1 m2 a home st = (case upsert_project p st of
      (Inl e, st') \<Rightarrow> (Err e, st')
    | (Inr _, st') \<Rightarrow> persist_failed_agent run m1 m2 a home st')"

definition persist_launch_failure :: "world \<Rightarrow> project \<Rightarrow> agent_run \<Rightarrow> agent_chat_message \<Rightarrow>
    string \<Rightarrow> daemon \<Rightarrow> server_response \<times> daemon" where
  "persist_launch_failure w p run0 user_message err d = (let
      s0 = dm_runtime d;
      run = failed_launch_run (w_now w) err run0;
      m2 = \<lparr>cm_agent_id = ar_id run, cm_role = CrSystem, cm_text = err, cm_created_at = w_now w\<rparr>;
      a = launch_attention (fresh_uuid w s0) (w_now w) p run err
    in case with_store (store_failed_launch p run user_message m2 a (rt_codex_home s0)) (drawn s0) of
         (Inl e, s) \<Rightarrow> (ProtocolError ''agent_store_failed'' (store_message e), d\<lparr>dm_runtime := s\<rparr>)
       | (Inr _, s) \<Rightarrow> (let
             earlier = (case hm_get (rt_agents s) (ar_id run) of None \<Rightarrow> [] | Some r \<Rightarrow> rec_messages r);
             s = s\<lparr>rt_projects := hm_insert (root_key w p) p (rt_projects s),
                  rt_agents := hm_insert (ar_id run) \<lparr>rec_run = run, rec_project_root = p_root p,
                    rec_messages = earlier @ [user_message, m2], rec_failure = Some err\<rparr> (rt_agents s),
                  rt_attention := rt_attention s @ [a]\<rparr>
           in (ProtocolError ''codex_start_failed'' err,
               fold (tell w) [ProjectChanged p, AgentChanged run, AgentMessageAppended user_message,
                 AgentMessageAppended m2, AttentionRaised a] (d\<lparr>dm_runtime := s\<rparr>))))"

section \<open>Starting a session\<close>

definition starting_run :: "world \<Rightarrow> project \<Rightarrow> agent_id \<Rightarrow> task_id option \<Rightarrow> agent_execution_profile \<Rightarrow>
    string \<Rightarrow> string option \<Rightarrow> agent_record option \<Rightarrow> runtime \<Rightarrow> agent_run" where
  "starting_run w p i tid profile prompt thread previous s = \<lparr>
     ar_coordinator_group = agent_coordinator_group s i, ar_id = i, ar_provider = Codex,
     ar_state = AsStarting, ar_can_stop = False, ar_launch_mode = Exec,
     ar_execution_profile = profile, ar_project_id = p_id p, ar_task_id = tid, ar_pane_id = None,
     ar_native_session_id = thread,
     ar_codex_title = Option.bind previous (\<lambda>r. ar_codex_title (rec_run r)),
     ar_naming_failed = is_some_and previous (\<lambda>r. ar_naming_failed (rec_run r)),
     ar_user_title = Option.bind previous (\<lambda>r. ar_user_title (rec_run r)),
     ar_origin_codex_home = rt_codex_home s, ar_current_prompt = Some prompt,
     ar_last_visible_action = Some (if thread = None then ''Starting Codex App Server''
                                    else ''Resuming Codex App Server''),
     ar_state_confidence = 9 / 10,
     ar_state_evidence = ''The runtime accepted an App Server session.'',
     ar_started_at = (case previous of None \<Rightarrow> w_now w | Some r \<Rightarrow> ar_started_at (rec_run r)),
     ar_updated_at = w_now w, ar_finished_at = None, ar_exit_code = None,
     ar_resume_block_reason = None\<rparr>"

definition user_chat :: "world \<Rightarrow> agent_id \<Rightarrow> string \<Rightarrow> agent_chat_message" where
  "user_chat w i prompt = \<lparr>cm_agent_id = i, cm_role = CrUser, cm_text = prompt, cm_created_at = w_now w\<rparr>"

text \<open>
  \<open>spawn_turn\<close>: the group of a process that was started is recorded with its reservation; when that
  fails the launch fails.
\<close>

definition spawn_turn :: "launch_env \<Rightarrow> writer_guard \<Rightarrow> runtime \<Rightarrow>
    (int, string) result \<times> writer_guard \<times> runtime" where
  "spawn_turn e g s = (let started = (\<lambda>pid. guard_started pid g s) in
     case le_spawn e (wg_agent g) of
       SpawnFails m \<Rightarrow> (Err m, g, s)
     | SpawnDies pid m \<Rightarrow> (case started pid of
           (Inl err, g', s') \<Rightarrow> (Err (store_message err), g', s')
         | (Inr _, g', s') \<Rightarrow> (Err m, g', s'))
     | SpawnRuns pid \<Rightarrow> (case started pid of
           (Inl err, g', s') \<Rightarrow> (Err (store_message err), g', s')
         | (Inr _, g', s') \<Rightarrow> (Ok pid, g', s')))"

definition running_child :: "launch_env \<Rightarrow> int \<Rightarrow> active_child" where
  "running_child e pid = \<lparr>ch_run_id = le_run_id e, ch_process_group = pid, ch_app_server = True\<rparr>"

definition launched_run :: "world \<Rightarrow> agent_run \<Rightarrow> agent_run" where
  "launched_run w run = run\<lparr>ar_state := AsWorking, ar_can_stop := True, ar_updated_at := w_now w,
     ar_state_evidence := ''Codex App Server is running for this project.''\<rparr>"

definition commit_launch :: "world \<Rightarrow> launch_env \<Rightarrow> project \<Rightarrow> agent_run \<Rightarrow> agent_record option \<Rightarrow>
    agent_chat_message \<Rightarrow> int \<Rightarrow> writer_guard \<Rightarrow> daemon \<Rightarrow> server_response \<times> daemon" where
  "commit_launch w e p run0 previous m pid g d = (let run = launched_run w run0; i = ar_id run in
     case with_store (persist_new_agent run m (rt_codex_home (dm_runtime d))) (dm_runtime d) of
       (Inl err, s) \<Rightarrow> (ProtocolError ''agent_store_failed'' (store_message err),
         d\<lparr>dm_runtime := drop_guard w g s\<rparr>)
     | (Inr _, s) \<Rightarrow> (let
           s = s\<lparr>rt_agents := hm_insert i \<lparr>rec_run = run, rec_project_root = p_root p,
                    rec_messages = (case previous of None \<Rightarrow> [] | Some r \<Rightarrow> rec_messages r) @ [m],
                    rec_failure = None\<rparr> (rt_agents s),
                rt_children := hm_insert i (running_child e pid) (rt_children s)\<rparr>
         in (AgentStarted run, fold (tell w) [AgentChanged run, AgentMessageAppended m]
               (d\<lparr>dm_runtime := s, dm_turns := hs_insert i (dm_turns d)\<rparr>))))"

definition launch_turn :: "world \<Rightarrow> launch_env \<Rightarrow> (nat \<Rightarrow> daemon \<Rightarrow> daemon) \<Rightarrow> project \<Rightarrow> agent_run \<Rightarrow>
    agent_record option \<Rightarrow> string \<Rightarrow> writer_guard \<Rightarrow> daemon \<Rightarrow> server_response \<times> daemon" where
  "launch_turn w e others p run previous prompt g d0 = (let
      m = user_chat w (ar_id run) prompt;
      dropping = (\<lambda>g (r, d). (r, on_runtime (drop_guard w g) d));
      (binary, s) = active_codex_binary e (dm_runtime d0);
      d = others 4 (d0\<lparr>dm_runtime := s\<rparr>)
    in case binary of
         None \<Rightarrow> dropping g (persist_launch_failure w p run m
           ''No working Codex CLI installation was found for this project.'' d)
       | Some _ \<Rightarrow> (case spawn_turn e g (dm_runtime d) of
             (Inl err, g', s) \<Rightarrow> dropping g' (persist_launch_failure w p run m
               (''Failed to start Codex App Server: '' @ err) (others 5 (d\<lparr>dm_runtime := s\<rparr>)))
           | (Inr pid, g', s) \<Rightarrow> commit_launch w e p run previous m pid g' (others 5 (d\<lparr>dm_runtime := s\<rparr>))))"

definition start_session :: "world \<Rightarrow> launch_env \<Rightarrow> (nat \<Rightarrow> daemon \<Rightarrow> daemon) \<Rightarrow> project_id \<Rightarrow> string \<Rightarrow>
    path \<Rightarrow> string option \<Rightarrow> string \<Rightarrow> agent_execution_profile \<Rightarrow> (task_id \<times> agent_id) option \<Rightarrow>
    daemon \<Rightarrow> server_response \<times> daemon" where
  "start_session w e others pid name dir thread prompt profile0 binding d0 = (let d1 = others 0 d0 in
     case start_checks w e pid name dir thread (dm_runtime d0) (dm_runtime d1) of
       Inl r \<Rightarrow> (r, d1)
     | Inr p \<Rightarrow> (let d1 = others 1 d1 in
         case with_store (upsert_project p) (dm_runtime d1) of
           (Inl err, s) \<Rightarrow> (ProtocolError ''project_store_failed'' (store_message err), d1\<lparr>dm_runtime := s\<rparr>)
         | (Inr _, s) \<Rightarrow> (let
               d2 = others 2 (tell w (ProjectChanged p)
                 (d1\<lparr>dm_runtime := s\<lparr>rt_projects := hm_insert (root_key w p) p (rt_projects s)\<rparr>\<rparr>));
               s = dm_runtime d2;
               profile = profile0\<lparr>ep_transport := AppServer\<rparr>;
               previous = Option.bind binding (\<lambda>(_, i). hm_get (rt_agents s) i);
               (i, s) = (case binding of Some (_, i) \<Rightarrow> (i, s) | None \<Rightarrow> (fresh_uuid w s, drawn s));
               run = starting_run w p i (map_option fst binding) profile prompt thread previous s
             in case acquire w i p profile s of
                  (Inl m, s) \<Rightarrow> (ProtocolError ''workspace_busy'' m, d2\<lparr>dm_runtime := s\<rparr>)
                | (Inr g, s) \<Rightarrow> (let d3 = others 3 (d2\<lparr>dm_runtime := s\<rparr>) in
                    case le_skills e p (ep_skills profile) of
                      Some m \<Rightarrow> (ProtocolError ''skill_unavailable'' m, on_runtime (drop_guard w g) d3)
                    | None \<Rightarrow> launch_turn w e others p run previous prompt g d3))))"

section \<open>Prompting a session\<close>

definition closing_run :: "agent_id \<Rightarrow> runtime \<Rightarrow> uuid option" where
  \<comment> \<open>a turn that has ended while its app server has not yet exited\<close>
  "closing_run i s = Option.bind (opt_filter ch_app_server (hm_get (rt_children s) i)) (\<lambda>c.
     if is_some_and (hm_get (rt_agents s) i)
          (\<lambda>r. ar_state (rec_run r) \<in> {AsCompleted, AsFailed, AsInterrupted})
     then Some (ch_run_id c) else None)"

definition prompt_target :: "agent_id \<Rightarrow> daemon \<Rightarrow> (project_id \<times> string, server_response) result" where
  "prompt_target i d = (let s = dm_runtime d in case hm_get (rt_agents s) i of
      None \<Rightarrow> Err agent_not_found
    | Some r \<Rightarrow>
        if hm_contains (rt_children s) i \<or> i \<in> set (dm_launching d)
        then Err (ProtocolError ''agent_busy'' ''agent session is already working'')
        else case ar_native_session_id (rec_run r) of
            None \<Rightarrow> Err (ProtocolError ''agent_not_resumable''
                      ''This session has no saved Codex thread. Start a new agent instead.'')
          | Some thread \<Rightarrow>
              if ar_origin_codex_home (rec_run r) \<noteq> rt_codex_home s
              then Err (ProtocolError ''codex_home_mismatch'' ''Resume this session with its original Codex home'')
              else Ok (ar_project_id (rec_run r), thread))"

definition prompted_run :: "world \<Rightarrow> agent_execution_profile \<Rightarrow> string \<Rightarrow> agent_run \<Rightarrow> agent_run" where
  "prompted_run w profile prompt run = run\<lparr>ar_state := AsWorking, ar_can_stop := True,
     ar_execution_profile := profile, ar_current_prompt := Some prompt,
     ar_last_visible_action := Some ''Prompt sent to Codex App Server'', ar_updated_at := w_now w,
     ar_finished_at := None, ar_exit_code := None, ar_resume_block_reason := None\<rparr>"

definition commit_prompt :: "world \<Rightarrow> launch_env \<Rightarrow> agent_id \<Rightarrow> agent_execution_profile \<Rightarrow> string \<Rightarrow>
    int \<Rightarrow> writer_guard \<Rightarrow> daemon \<Rightarrow> server_response \<times> daemon" where
  "commit_prompt w e i profile prompt pid g d = (let s = dm_runtime d; m = user_chat w i prompt in
     case hm_get (rt_agents s) i of
       None \<Rightarrow> (agent_not_found, d\<lparr>dm_runtime := drop_guard w g s\<rparr>)
     | Some r \<Rightarrow> (let
           r = r\<lparr>rec_run := prompted_run w profile prompt (rec_run r), rec_failure := None,
                 rec_messages := rec_messages r @ [m]\<rparr>;
           s = persist_agent i (persist_message m (put_record i r s));
           s = s\<lparr>rt_children := hm_insert i (running_child e pid) (rt_children s)\<rparr>
         in (Accepted, fold (tell w) [AgentChanged (rec_run r), AgentMessageAppended m]
               (d\<lparr>dm_runtime := s, dm_turns := hs_insert i (dm_turns d)\<rparr>))))"

text \<open>
  The reservation \<open>dm_launching\<close> keeps two prompts apart while the process is started; it is
  removed on every way out. \<open>None\<close> is the panic of \<open>agents[&agent_id]\<close> when the agent is deleted
  during the launch.
\<close>

definition prompt_turn :: "world \<Rightarrow> launch_env \<Rightarrow> (nat \<Rightarrow> daemon \<Rightarrow> daemon) \<Rightarrow> agent_id \<Rightarrow> project \<Rightarrow>
    string \<Rightarrow> agent_execution_profile \<Rightarrow> writer_guard \<Rightarrow> daemon \<Rightarrow> (server_response \<times> daemon) option" where
  "prompt_turn w e others i p prompt profile0 g d0 = (let
      (binary, s) = active_codex_binary e (dm_runtime d0);
      d = others 4 (d0\<lparr>dm_runtime := s\<rparr>);
      dropping = (\<lambda>g r d. Some (r, on_runtime (drop_guard w g) d))
    in case binary of
         None \<Rightarrow> dropping g (ProtocolError ''codex_not_found''
           ''No working Codex CLI installation was found for this project'') d
       | Some _ \<Rightarrow> (case hm_get (rt_agents (dm_runtime d)) i of
             None \<Rightarrow> None
           | Some r \<Rightarrow> (let profile = profile0\<lparr>ep_skills := ep_skills (ar_execution_profile (rec_run r))\<rparr> in
               case le_skills e p (ep_skills profile) of
                 Some m \<Rightarrow> dropping g (ProtocolError ''skill_unavailable'' m) (others 5 d)
               | None \<Rightarrow> (case spawn_turn e g (dm_runtime (others 5 d)) of
                     (Inl err, g', s) \<Rightarrow> (let msg = ''Failed to start Codex App Server: '' @ err in
                       dropping g' (ProtocolError ''codex_start_failed'' msg)
                         (record_terminal_failure w (\<lambda>n. others (7 + n)) i msg None
                            (others 6 ((others 5 d)\<lparr>dm_runtime := s\<rparr>))))
                   | (Inr pid, g', s) \<Rightarrow> Some (commit_prompt w e i profile prompt pid g'
                       (others 6 ((others 5 d)\<lparr>dm_runtime := s\<rparr>)))))))"

definition unreserved :: "agent_id \<Rightarrow> daemon \<Rightarrow> daemon" where
  "unreserved i d = d\<lparr>dm_launching := hs_remove i (dm_launching d)\<rparr>"

definition reserved_prompt :: "world \<Rightarrow> launch_env \<Rightarrow> (nat \<Rightarrow> daemon \<Rightarrow> daemon) \<Rightarrow> agent_id \<Rightarrow>
    project_id \<Rightarrow> string \<Rightarrow> agent_execution_profile \<Rightarrow> daemon \<Rightarrow> (server_response \<times> daemon) option" where
  "reserved_prompt w e others i pid prompt profile d = (let s = dm_runtime d in
     case project_by (\<lambda>p. p_id p = pid) s of
       None \<Rightarrow> Some (ProtocolError ''project_not_found'' ''Project not registered'', d)
     | Some p \<Rightarrow> (case acquire_direct_prompt w i p profile (dm_runtime (others 2 d)) of
           (Inl m, s) \<Rightarrow> Some (ProtocolError ''workspace_busy'' m, (others 2 d)\<lparr>dm_runtime := s\<rparr>)
         | (Inr g, s) \<Rightarrow> prompt_turn w e others i p prompt profile g
             (others 3 ((others 2 d)\<lparr>dm_runtime := s\<rparr>))))"

definition prompt_agent :: "world \<Rightarrow> launch_env \<Rightarrow> (nat \<Rightarrow> daemon \<Rightarrow> daemon) \<Rightarrow> agent_id \<Rightarrow> string \<Rightarrow>
    agent_execution_profile \<Rightarrow> daemon \<Rightarrow> (server_response \<times> daemon) option" where
  "prompt_agent w e others i prompt profile0 d0 = (let s = dm_runtime d0 in
     if i \<in> set (rt_acceptance_owners s)
     then Some (ProtocolError ''attempt_active'' ''Use Cancel loop before changing its worker prompt.'', d0)
     else (let
         profile = (case hm_get (rt_agents s) i of None \<Rightarrow> profile0
            | Some r \<Rightarrow> profile0\<lparr>ep_skills := ep_skills (ar_execution_profile (rec_run r))\<rparr>);
         d = others 0 d0;
         closing = closing_run i (dm_runtime d);
         d = (if closing = None then d else others 1 d)
       in if is_some_and closing (is_current_run (dm_runtime d) i)
          then Some (ProtocolError ''agent_finalizing''
                 ''The previous turn is still closing; try again shortly'', d)
          else case prompt_target i d of
              Inl r \<Rightarrow> Some (r, d)
            | Inr (pid, _) \<Rightarrow> map_option (map_prod id (unreserved i))
                (reserved_prompt w e others i pid prompt (profile\<lparr>ep_transport := AppServer\<rparr>)
                   (d\<lparr>dm_launching := hs_insert i (dm_launching d)\<rparr>))))"

end
