(* ===== verification/Session_Facts.thy ===== *)
theory Session_Facts
  imports Agent_Launch Writer_Facts
begin

text \<open>
  What the operations on agent sessions do to the sessions: which agent records, children and turns
  each of them changes, that a run that was replaced can do nothing any more, and how a run ends.
\<close>

section \<open>What the primitives leave alone\<close>

lemma with_store_frame [simp]:
  "rt_agents (snd (with_store f s)) = rt_agents s"
  "rt_children (snd (with_store f s)) = rt_children s"
  "rt_projects (snd (with_store f s)) = rt_projects s"
  "rt_acceptance_owners (snd (with_store f s)) = rt_acceptance_owners s"
  "rt_attention (snd (with_store f s)) = rt_attention s"
  "rt_tasks (snd (with_store f s)) = rt_tasks s"
  "rt_writer_leases (snd (with_store f s)) = rt_writer_leases s"
  "rt_codex_home (snd (with_store f s)) = rt_codex_home s"
  by (simp_all add: with_store_def Let_def split: prod.split)

lemma with_store_frameD:
  assumes "with_store f s = (r, s')"
  shows "rt_agents s' = rt_agents s" "rt_children s' = rt_children s" "rt_projects s' = rt_projects s"
    "rt_acceptance_owners s' = rt_acceptance_owners s" "rt_attention s' = rt_attention s"
    "rt_tasks s' = rt_tasks s" "rt_writer_leases s' = rt_writer_leases s" "rt_codex_home s' = rt_codex_home s"
  using with_store_frame[of f s] unfolding assms by simp_all

lemma task_attention_sessions [simp]:
  "rt_agents (task_attention w t s) = rt_agents s" "rt_children (task_attention w t s) = rt_children s"
  "rt_projects (task_attention w t s) = rt_projects s"
  "rt_acceptance_owners (task_attention w t s) = rt_acceptance_owners s"
proof -
  obtain r s' where sv: "with_store (upsert_attention (attention_for w t s)) (drawn s) = (r, s')"
    by (metis prod.exhaust)
  show "rt_agents (task_attention w t s) = rt_agents s" "rt_children (task_attention w t s) = rt_children s"
    "rt_projects (task_attention w t s) = rt_projects s"
    "rt_acceptance_owners (task_attention w t s) = rt_acceptance_owners s"
    using with_store_frameD[OF sv] by (simp_all add: task_attention_def sv split: sum.split)
qed

lemma sync_agent_task_frame [simp]:
  "rt_agents (sync_agent_task w i s) = rt_agents s" "rt_children (sync_agent_task w i s) = rt_children s"
  "rt_projects (sync_agent_task w i s) = rt_projects s"
  "rt_acceptance_owners (sync_agent_task w i s) = rt_acceptance_owners s"
proof -
  have "rt_agents (sync_agent_task w i s) = rt_agents s \<and> rt_children (sync_agent_task w i s) = rt_children s
     \<and> rt_projects (sync_agent_task w i s) = rt_projects s
     \<and> rt_acceptance_owners (sync_agent_task w i s) = rt_acceptance_owners s"
    by (auto simp: sync_agent_task_def Let_def elim!: with_storeE split: option.split prod.split sum.split)
  then show "rt_agents (sync_agent_task w i s) = rt_agents s" "rt_children (sync_agent_task w i s) = rt_children s"
    "rt_projects (sync_agent_task w i s) = rt_projects s"
    "rt_acceptance_owners (sync_agent_task w i s) = rt_acceptance_owners s" by simp_all
qed

lemma broadcast_frame [simp]:
  "rt_agents (broadcast w ev s) = rt_agents s" "rt_children (broadcast w ev s) = rt_children s"
  "rt_projects (broadcast w ev s) = rt_projects s"
  "rt_acceptance_owners (broadcast w ev s) = rt_acceptance_owners s"
  by (simp_all add: broadcast_def before_agent_event_def Let_def split: server_event.split)

lemma persist_frame [simp]:
  "rt_agents (persist_agent i s) = rt_agents s" "rt_children (persist_agent i s) = rt_children s"
  "rt_projects (persist_agent i s) = rt_projects s" "rt_attention (persist_agent i s) = rt_attention s"
  "rt_acceptance_owners (persist_agent i s) = rt_acceptance_owners s"
  "rt_agents (persist_message m s) = rt_agents s" "rt_children (persist_message m s) = rt_children s"
  "rt_projects (persist_message m s) = rt_projects s"
  "rt_acceptance_owners (persist_message m s) = rt_acceptance_owners s"
  by (simp_all add: persist_agent_def persist_message_def split: option.split)

lemma put_record_frame [simp]:
  "rt_agents (put_record i r s) = hm_insert i r (rt_agents s)" "rt_children (put_record i r s) = rt_children s"
  "rt_projects (put_record i r s) = rt_projects s" "rt_attention (put_record i r s) = rt_attention s"
  "rt_acceptance_owners (put_record i r s) = rt_acceptance_owners s"
  "rt_store (put_record i r s) = rt_store s" "rt_tasks (put_record i r s) = rt_tasks s"
  "rt_writer_leases (put_record i r s) = rt_writer_leases s"
  by (simp_all add: put_record_def)

lemma save_record_frame [simp]:
  "rt_agents (save_record w i r s) = hm_insert i r (rt_agents s)"
  "rt_children (save_record w i r s) = rt_children s" "rt_projects (save_record w i r s) = rt_projects s"
  "rt_acceptance_owners (save_record w i r s) = rt_acceptance_owners s"
  by (simp_all add: save_record_def)

lemma raise_frame [simp]:
  "rt_agents (raise_attention w a s) = rt_agents s" "rt_children (raise_attention w a s) = rt_children s"
  "rt_projects (raise_attention w a s) = rt_projects s"
  "rt_acceptance_owners (raise_attention w a s) = rt_acceptance_owners s"
  "rt_agents (raise_if_stored w a s) = rt_agents s" "rt_children (raise_if_stored w a s) = rt_children s"
  "rt_projects (raise_if_stored w a s) = rt_projects s"
  by (auto simp: raise_attention_def raise_if_stored_def Let_def elim!: with_storeE
      split: prod.split sum.split)

lemma on_runtime_simps [simp]:
  "dm_runtime (on_runtime f d) = f (dm_runtime d)" "dm_turns (on_runtime f d) = dm_turns d"
  "dm_agent_hosts (on_runtime f d) = dm_agent_hosts d" "dm_permissions (on_runtime f d) = dm_permissions d"
  "dm_permission_agents (on_runtime f d) = dm_permission_agents d" "dm_streams (on_runtime f d) = dm_streams d"
  "dm_launching (on_runtime f d) = dm_launching d" "dm_instance (on_runtime f d) = dm_instance d"
  by (simp_all add: on_runtime_def)

definition sessions :: "daemon \<Rightarrow> (agent_id, agent_record) hmap \<times> (agent_id, active_child) hmap" where
  "sessions d = (rt_agents (dm_runtime d), rt_children (dm_runtime d))"

lemma resolve_frame [simp]:
  "rt_agents (dm_runtime (resolve_permission_attention w q d)) = rt_agents (dm_runtime d)"
  "rt_children (dm_runtime (resolve_permission_attention w q d)) = rt_children (dm_runtime d)"
  "rt_projects (dm_runtime (resolve_permission_attention w q d)) = rt_projects (dm_runtime d)"
  "rt_acceptance_owners (dm_runtime (resolve_permission_attention w q d)) = rt_acceptance_owners (dm_runtime d)"
  "dm_turns (resolve_permission_attention w q d) = dm_turns d"
  "dm_agent_hosts (resolve_permission_attention w q d) = dm_agent_hosts d"
  "dm_permissions (resolve_permission_attention w q d) = dm_permissions d"
  "dm_permission_agents (resolve_permission_attention w q d) = dm_permission_agents d"
  by (simp_all add: resolve_permission_attention_def)

lemma drop_permission_frame [simp]:
  "rt_agents (dm_runtime (drop_permission w q d)) = rt_agents (dm_runtime d)"
  "rt_children (dm_runtime (drop_permission w q d)) = rt_children (dm_runtime d)"
  "rt_projects (dm_runtime (drop_permission w q d)) = rt_projects (dm_runtime d)"
  "rt_acceptance_owners (dm_runtime (drop_permission w q d)) = rt_acceptance_owners (dm_runtime d)"
  "dm_turns (drop_permission w q d) = dm_turns d" "dm_agent_hosts (drop_permission w q d) = dm_agent_hosts d"
  "dm_permissions (drop_permission w q d) = hm_remove q (dm_permissions d)"
  "dm_permission_agents (drop_permission w q d) = hm_remove q (dm_permission_agents d)"
  by (simp_all add: drop_permission_def)

lemma fold_same:
  assumes "\<And>x d. f (g x d) = f d"
  shows "f (fold g xs d) = f d"
  by (induction xs arbitrary: d) (simp_all add: assms)

lemma clear_permissions_frame [simp]:
  "rt_agents (dm_runtime (clear_agent_permissions w i d)) = rt_agents (dm_runtime d)"
  "rt_children (dm_runtime (clear_agent_permissions w i d)) = rt_children (dm_runtime d)"
  "rt_projects (dm_runtime (clear_agent_permissions w i d)) = rt_projects (dm_runtime d)"
  "rt_acceptance_owners (dm_runtime (clear_agent_permissions w i d)) = rt_acceptance_owners (dm_runtime d)"
  "dm_turns (clear_agent_permissions w i d) = dm_turns d"
  "dm_agent_hosts (clear_agent_permissions w i d) = dm_agent_hosts d"
  unfolding clear_agent_permissions_def
  by (rule fold_same[where f = "\<lambda>d. rt_agents (dm_runtime d)"] fold_same[where f = "\<lambda>d. rt_children (dm_runtime d)"]
      fold_same[where f = "\<lambda>d. rt_projects (dm_runtime d)"] fold_same[where f = "\<lambda>d. rt_acceptance_owners (dm_runtime d)"]
      fold_same[where f = dm_turns] fold_same[where f = dm_agent_hosts]; simp)+

section \<open>A replaced run\<close>

text \<open>The reports of a run that is not the agent's current one change nothing.\<close>

lemma stale_reports:
  assumes "\<not> is_current_run s i run"
  shows "append_chat w i role body (Some run) s = s" "update_agent_action w i action (Some run) s = s"
    "start_agent_turn w i (Some run) s = s" "mark_failure i msg (Some run) s = None"
  using assms by (simp_all add: append_chat_def update_agent_action_def start_agent_turn_def mark_failure_def reports_def)

lemma stale_run:
  assumes "\<not> is_current_run (dm_runtime d) i run"
  shows "record_terminal_failure w others i msg (Some run) d = d" "finish_agent w i (Some run) code d = d"
    "finalize_stopped_run w i run d = d"
  using assms by (simp_all add: record_terminal_failure_def stale_reports finish_agent_def reports_def
    finalize_stopped_run_def Let_def)

lemma stale_current: "\<not> is_current_run (dm_runtime d) i run \<Longrightarrow> current_then i run b f d = (b, d)"
  by (simp add: current_then_def)

text \<open>The thread of a turn changes the state only through the events it takes.\<close>

lemma take_event_state:
  obtains "snd (take_event w h title others i run x (t, d)) = d"
  | ev where "snd (take_event w h title others i run x (t, d)) = snd (handle_turn_event w h title others i run ev d)"
proof (cases "tu_event x")
  case None then show ?thesis by (intro that(1)) (simp add: take_event_def)
next
  case (Some ev)
  have "snd (take_event w h title others i run x (t, d)) = (if ev = OutputClosed \<or> tt_terminal t then d
     else snd (handle_turn_event w h title others i run ev d))"
    by (cases ev) (simp_all add: take_event_def Some Let_def split: prod.split)
  then show ?thesis using that by (cases "ev = OutputClosed \<or> tt_terminal t") simp_all
qed

locale replaced_run =
  fixes P :: "daemon \<Rightarrow> bool" and i :: agent_id and run :: uuid
  assumes replaced: "P d \<Longrightarrow> \<not> is_current_run (dm_runtime d) i run"
begin

lemma event_silent:
  assumes "\<And>n d. P d \<Longrightarrow> P (others n d)" and "P d"
  shows "P (snd (handle_turn_event w h title others i run ev d))"
proof -
  note d = replaced[OF assms(2)]
  have o2: "P (others 2 d)" using assms by blast
  note d' = replaced[OF o2]
  have same: "on_runtime f d = d" if "f (dm_runtime d) = dm_runtime d" for f
    using that by (simp add: on_runtime_def)
  note quiet = stale_current[OF d] stale_current[OF d'] stale_run[OF d]
    same[where f = "append_chat w i role body (Some run)" for role body, OF stale_reports(1)[OF d]]
    same[where f = "update_agent_action w i action (Some run)" for action, OF stale_reports(2)[OF d]]
    same[where f = "start_agent_turn w i (Some run)", OF stale_reports(3)[OF d]]
  have res: "snd (handle_turn_event w h title others i run ev d) \<in> {d, others 2 d}"
  proof (cases ev)
    case (TurnCompleted status err)
    then show ?thesis by (cases err) (simp_all only: handle_turn_event.simps quiet Let_def option.case snd_conv insert_iff simp_thms)
  next
    case (Title v)
    then show ?thesis by (cases "normalize_session_title v")
      (simp_all only: handle_turn_event.simps quiet option.case snd_conv insert_iff simp_thms)
  qed (simp_all only: handle_turn_event.simps quiet Let_def snd_conv insert_iff simp_thms)
  then show ?thesis using assms(2) o2 by auto
qed

lemma step_silent:
  assumes others: "\<And>n d. P d \<Longrightarrow> P (others n d)" and "P d"
  shows "case turn_step w h title others i run x (t, d) of Inl d' \<Rightarrow> P d' | Inr (t', d') \<Rightarrow> P d'"
proof -
  obtain t1 d1 where e: "take_event w h title others i run x (t, d) = (t1, d1)" by (metis prod.exhaust)
  have p1: "P d1"
    by (rule take_event_state[of w h title others i run x t d])
       (simp_all add: e assms(2) event_silent[OF others assms(2)])
  note q = replaced[OF p1]
  have c: "close_turn w others i run (t2, d1) = (t3, d2) \<Longrightarrow> P d2" for t2 t3 d2
    using others[OF p1] p1 replaced[OF others[OF p1]]
    by (auto simp: close_turn_def stale_run[OF q] Let_def split: if_splits)
  have fin: "P d2 \<Longrightarrow> P (finish_agent w i (Some run) code d2)" for d2 code
    by (simp add: stale_run replaced)
  show ?thesis
    using others[OF p1] p1
    by (auto simp: turn_step_def e stale_run[OF q] Let_def dest!: c intro: others fin split: prod.split)
qed

lemma thread_silent:
  assumes "\<And>m n d. P d \<Longrightarrow> P (others m n d)" and "P d"
  shows "P (snd (turn_thread_run w h title others i run xs (t, d)))"
  using assms(2)
proof (induction xs arbitrary: t d)
  case (Cons x xs)
  from step_silent[where others = "others (length xs)" and w = w and h = h and title = title and x = x and t = t,
      OF assms(1) Cons.prems]
  show ?case by (auto simp: Cons.IH split: sum.split)
qed simp

end

text \<open>
  The interpretation: the agent belongs to another run, which no other thread gives up before this
  thread has ended.
\<close>

interpretation overtaken: replaced_run "\<lambda>d. is_current_run (dm_runtime d) i new \<and> new \<noteq> old" i old for i new old
  by unfold_locales (auto simp: is_current_run_def is_some_and_def split: option.splits)

end
