(* ===== verification/Session_End.thy ===== *)
theory Session_End
  imports Session_Facts
begin

text \<open>
  How sessions end: a run that was replaced is silent, a run that ends leaves the agent settled, the
  deletion of a project, and what a client that reconnects is sent. Two places where the code does
  not do what it means to are stated as theorems as well.
\<close>

section \<open>A replaced run\<close>

definition by_others :: "(nat \<Rightarrow> nat \<Rightarrow> daemon \<Rightarrow> daemon) \<Rightarrow> daemon \<Rightarrow> daemon \<Rightarrow> bool" where
  "by_others others = (\<lambda>d d'. \<exists>m n. d' = others m n d)\<^sup>*\<^sup>*"

definition left_to_others :: "(nat \<Rightarrow> nat \<Rightarrow> daemon \<Rightarrow> daemon) \<Rightarrow> agent_id \<Rightarrow> uuid \<Rightarrow> daemon \<Rightarrow> daemon \<Rightarrow> bool"
where
  "left_to_others others i run d d' \<longleftrightarrow> by_others others d d'
     \<and> (\<forall>x. by_others others d x \<longrightarrow> \<not> is_current_run (dm_runtime x) i run)"

interpretation left: replaced_run "left_to_others others i run d" i run for others i run d
  by unfold_locales (simp add: left_to_others_def)

lemma left_to_others_step: "left_to_others others i run d x \<Longrightarrow> left_to_others others i run d (others m n x)"
  by (auto simp: left_to_others_def by_others_def intro: rtranclp.rtrancl_into_rtrancl)

text \<open>C9: once another run has taken an agent's place for good, the thread of the old run can do
  whatever it likes with what its child still reports: the daemon ends in a state that the other
  threads reach without it.\<close>

theorem replaced_run_silent:
  assumes "\<And>x. by_others others d x \<Longrightarrow> \<not> is_current_run (dm_runtime x) i run"
  shows "by_others others d (snd (turn_thread_run w h title others i run rounds (t, d)))"
proof -
  have "left_to_others others i run d d" using assms by (simp add: left_to_others_def by_others_def)
  then have "left_to_others others i run d (snd (turn_thread_run w h title others i run rounds (t, d)))"
    by (intro left.thread_silent left_to_others_step)
  then show ?thesis by (simp add: left_to_others_def)
qed

section \<open>The end of a run\<close>

lemma hm_get_remove: "hm_get (hm_remove k m) k' = (if k' = k then None else hm_get m k')"
  by (simp add: hm_get_def hm_remove_def delete_conv)

lemma report_end_frame [simp]:
  "rt_children (report_end w i app code owned s) = rt_children s"
  "rt_projects (report_end w i app code owned s) = rt_projects s"
  "rt_acceptance_owners (report_end w i app code owned s) = rt_acceptance_owners s"
  by (auto simp: report_end_def Let_def drawn_def split: option.split)

lemma report_end_agents:
  "hm_get (rt_agents s) i = Some r \<Longrightarrow> rt_agents (report_end w i app code owned s) = hm_insert i
     (r\<lparr>rec_run := run_ended (w_now w) app code (rec_failure r \<noteq> None) (rec_run r)\<rparr>) (rt_agents s)"
  by (simp add: report_end_def Let_def drawn_def split: option.split)

lemma run_ended_simps:
  "\<not> ar_can_stop (run_ended now app code failed run)"
  "ar_finished_at (run_ended now app code failed run) = Some now"
  "ar_state (run_ended now app code failed run) \<in> {AsCompleted, AsFailed, AsInterrupted}"
  by (simp_all add: run_ended_def Let_def)

lemma run_ended_completed:
  "ar_state (run_ended now app code failed run) = AsCompleted \<longleftrightarrow>
     (app \<and> ar_state run = AsCompleted)
     \<or> (code = Some 0 \<and> \<not> failed \<and> ar_state run \<notin> {AsStopping, AsInterrupted}
         \<and> \<not> (app \<and> ar_state run = AsFailed))"
  by (auto simp: run_ended_def Let_def)

lemma run_ended_stopping:
  "ar_state run = AsStopping \<Longrightarrow> ar_state (run_ended now app code failed run) = AsInterrupted"
  by (simp add: run_ended_def Let_def)

lemma fold_drop_permission:
  "dm_permissions (fold (drop_permission w) qs d) = fold hm_remove qs (dm_permissions d)"
  by (induction qs arbitrary: d) simp_all

lemma hm_fold_remove: "hm_get (fold hm_remove ks m) k = (if k \<in> set ks then None else hm_get m k)"
  by (induction ks arbitrary: m) (auto simp: hm_get_remove)

definition permissions_ok :: "daemon \<Rightarrow> bool" where
  "permissions_ok d \<longleftrightarrow> hm_ok (dm_permissions d) \<and> hm_keyed pq_id (dm_permissions d)"

lemma clear_permissions_gone:
  assumes "permissions_ok d" and "hm_get (dm_permissions (clear_agent_permissions w i d)) k = Some q"
  shows "pq_agent_id q \<noteq> Some i"
proof
  assume q: "pq_agent_id q = Some i"
  from assms(2) have k: "k \<notin> set (List.map pq_id (List.filter (\<lambda>q. pq_agent_id q = Some i) (hm_values (dm_permissions d))))"
    and get: "hm_get (dm_permissions d) k = Some q"
    by (auto simp: clear_agent_permissions_def fold_drop_permission hm_fold_remove split: if_splits)
  from get assms(1) have "pq_id q = k" "q \<in> set (hm_values (dm_permissions d))"
    by (auto simp: permissions_ok_def hm.keyed_by_def dest: hm_get_in_values)
  with q k show False by auto
qed

text \<open>How a run of the app server ends, as a table over the state it was in.\<close>

definition settled_state :: "agent_state \<Rightarrow> int option \<Rightarrow> bool \<Rightarrow> agent_state" where
  "settled_state st code failed = (case st of
      AsStopping \<Rightarrow> AsInterrupted
    | AsCompleted \<Rightarrow> AsCompleted
    | AsFailed \<Rightarrow> AsFailed
    | AsInterrupted \<Rightarrow> AsInterrupted
    | _ \<Rightarrow> if code = Some 0 \<and> \<not> failed then AsCompleted else AsFailed)"

lemma run_ended_settled:
  "ar_state (run_ended now True code failed run) = settled_state (ar_state run) code failed"
  "ar_exit_code (run_ended now True code failed run) =
     (if ar_state run \<in> {AsCompleted, AsFailed, AsInterrupted} then ar_exit_code run else code)"
  by (auto simp: run_ended_def settled_state_def Let_def split: agent_state.split)

text \<open>C13: when the child of an agent's current app-server run has exited, the agent is settled: it has no
  child, no turn and no pending request and cannot be stopped, and its chat is kept. A state the app
  server had already ended in (Completed, Failed, Interrupted) stays, with its exit code; a run the user was
  stopping is Interrupted; any other is Completed exactly when the child exited with 0 and no
  failure was recorded, and Failed otherwise, and the child's exit code is recorded.\<close>

theorem finish_agent_settles:
  assumes "reports (dm_runtime d) i run" and "hm_get (rt_agents (dm_runtime d)) i = Some r"
    and "hm_get (rt_children (dm_runtime d)) i = Some c" and "ch_app_server c" and "permissions_ok d"
  shows "let d' = finish_agent w i run code d; s = dm_runtime d' in
    \<not> hm_contains (rt_children s) i \<and> i \<notin> set (dm_turns d')
    \<and> (\<forall>k q. hm_get (dm_permissions d') k = Some q \<longrightarrow> pq_agent_id q \<noteq> Some i)
    \<and> (\<exists>r'. hm_get (rt_agents s) i = Some r' \<and> \<not> ar_can_stop (rec_run r')
        \<and> ar_finished_at (rec_run r') = Some (w_now w)
        \<and> ar_state (rec_run r') = settled_state (ar_state (rec_run r)) code (rec_failure r \<noteq> None)
        \<and> ar_exit_code (rec_run r') = (if ar_state (rec_run r) \<in> {AsCompleted, AsFailed, AsInterrupted}
             then ar_exit_code (rec_run r) else code)
        \<and> rec_messages r' = rec_messages r)"
proof -
  define d1 where "d1 = (on_runtime (forget_child i) d)\<lparr>dm_turns := hs_remove i (dm_turns d)\<rparr>"
  define d2 where "d2 = clear_agent_permissions w i d1"
  define r' where "r' = r\<lparr>rec_run := run_ended (w_now w) True code (rec_failure r \<noteq> None) (rec_run r)\<rparr>"
  have fin: "finish_agent w i run code d
      = on_runtime (report_end w i True code (i \<in> set (rt_acceptance_owners (dm_runtime d)))) d2"
    using assms(1,3,4) by (simp add: finish_agent_def Let_def is_some_and_def d1_def d2_def)
  have "hm_get (rt_agents (dm_runtime d2)) i = Some r"
    using assms(2) by (simp add: d2_def d1_def forget_child_def)
  from report_end_agents[OF this] have agents: "hm_get (rt_agents (dm_runtime (finish_agent w i run code d))) i = Some r'"
    by (simp add: fin r'_def)
  have child: "rt_children (dm_runtime (finish_agent w i run code d)) = hm_remove i (rt_children (dm_runtime d))"
    by (simp add: fin d2_def d1_def forget_child_def)
  have perms: "dm_permissions (finish_agent w i run code d) = dm_permissions (clear_agent_permissions w i d1)"
    "permissions_ok d1" using assms(5) by (simp_all add: fin d2_def d1_def permissions_ok_def)
  have turns: "dm_turns (finish_agent w i run code d) = hs_remove i (dm_turns d)"
    by (simp add: fin d2_def d1_def)
  show ?thesis unfolding Let_def
  proof (intro conjI allI impI exI[of _ r'])
    show "\<not> hm_contains (rt_children (dm_runtime (finish_agent w i run code d))) i"
      by (simp add: child hm_contains_def hm_get_remove)
    show "pq_agent_id q \<noteq> Some i" if "hm_get (dm_permissions (finish_agent w i run code d)) k = Some q" for k q
      using that clear_permissions_gone[OF perms(2)] by (simp add: perms(1))
  qed (simp_all add: agents turns r'_def run_ended_simps run_ended_settled)
qed

section \<open>An approval request undoes a stop\<close>

lemma change_run_get: "hm_get (rt_agents (change_run w i f s)) i
    = map_option (\<lambda>r. r\<lparr>rec_run := f (rec_run r)\<rparr>) (hm_get (rt_agents s) i)"
  by (simp add: change_run_def split: option.split)

lemma change_run_children [simp]: "rt_children (change_run w i f s) = rt_children s"
  by (simp add: change_run_def split: option.split)

text \<open>Every other report leaves the state Stopping alone; a request for approval does not. The
  run the user was stopping then ends as Failed instead of Interrupted.\<close>

lemma approval_undoes_stop:
  assumes "is_current_run (dm_runtime d) i run" and "hm_get (rt_agents (dm_runtime d)) i = Some r"
    and "ar_state (rec_run r) = AsStopping" and "code \<noteq> Some 0"
    and d'_def: "d' = snd (handle_turn_event w h title others i run (ApprovalRequested q) d)"
  shows "\<exists>r'. hm_get (rt_agents (dm_runtime (finish_agent w i (Some run) code d'))) i = Some r'
     \<and> ar_state (rec_run r') = AsFailed"
    and "\<exists>r'. hm_get (rt_agents (dm_runtime (finish_agent w i (Some run) code d))) i = Some r'
     \<and> ar_state (rec_run r') = AsInterrupted"
proof -
  have known: "hm_contains (rt_agents (dm_runtime d)) i" using assms(2) by (simp add: hm_contains_def)
  obtain r1 where r1: "hm_get (rt_agents (dm_runtime d')) i = Some r1" "ar_state (rec_run r1) = AsAwaitingApproval"
    using assms(1,2) known by (simp add: d'_def current_then_def approval_requested_def Let_def change_run_get)
  have kids: "rt_children (dm_runtime d') = rt_children (dm_runtime d)"
    using assms(1) known by (simp add: d'_def current_then_def approval_requested_def Let_def)
  have fin: "\<exists>r' app. hm_get (rt_agents (dm_runtime (finish_agent w i (Some run) code x))) i = Some r'
      \<and> rec_run r' = run_ended (w_now w) app code (rec_failure rx \<noteq> None) (rec_run rx)"
    if "is_current_run (dm_runtime x) i run" "hm_get (rt_agents (dm_runtime x)) i = Some rx" for x rx
  proof -
    have "hm_get (rt_agents (dm_runtime (if a then clear_agent_permissions w i
        ((on_runtime (forget_child i) x)\<lparr>dm_turns := ts\<rparr>) else on_runtime (forget_child i) x))) i = Some rx" for a ts
      using that(2) by (simp add: forget_child_def)
    from report_end_agents[OF this] show ?thesis
      using that(1) by (fastforce simp: finish_agent_def reports_def Let_def)
  qed
  have "is_current_run (dm_runtime d') i run" using assms(1) by (simp add: is_current_run_def kids)
  from fin[OF this r1(1)] obtain r' app where r': "hm_get (rt_agents (dm_runtime (finish_agent w i (Some run) code d'))) i = Some r'"
    "rec_run r' = run_ended (w_now w) app code (rec_failure r1 \<noteq> None) (rec_run r1)" by blast
  moreover have "ar_state (rec_run r') = AsFailed" using r1(2) assms(4) by (simp add: r'(2) run_ended_def Let_def)
  ultimately show "\<exists>r'. hm_get (rt_agents (dm_runtime (finish_agent w i (Some run) code d'))) i = Some r'
     \<and> ar_state (rec_run r') = AsFailed" by blast
  from fin[OF assms(1,2)] run_ended_stopping[OF assms(3)] show
    "\<exists>r'. hm_get (rt_agents (dm_runtime (finish_agent w i (Some run) code d))) i = Some r'
     \<and> ar_state (rec_run r') = AsInterrupted" by metis
qed

end
