(* ===== verification/Remote_Facts.thy ===== *)
theory Remote_Facts
  imports Remote_Projection Session_End Store_Integrity
begin

text \<open>
  What a host can do to the daemon that mirrors it. \<open>others_view\<close> is what the daemon shows of everything
  that is not on the host. An event or a snapshot whose identifiers are not taken by something
  elsewhere leaves that view as it is, does not stop the daemon, and keeps the invariant \<open>host_scope\<close>;
  after a snapshot the daemon shows of the host what the snapshot lists.
\<close>

section \<open>Maps seen from outside\<close>

definition outside :: "('v \<Rightarrow> bool) \<Rightarrow> ('k, 'v) hmap \<Rightarrow> 'k \<Rightarrow> 'v option" where
  "outside own m k = opt_filter (\<lambda>v. \<not> own v) (hm_get m k)"

lemma outside_None: "outside own m k = None \<longleftrightarrow> (\<forall>v. hm_get m k = Some v \<longrightarrow> own v)"
  by (auto simp: outside_def opt_filter_def split: option.splits)

lemma outside_insert: "own v \<Longrightarrow> outside own m k = None \<Longrightarrow> outside own (hm_insert k v m) = outside own m"
  by (rule ext) (auto simp: outside_def hm.get_ins)

lemma outside_fold_remove:
  "\<forall>k \<in> set ks. outside own m k = None \<Longrightarrow> outside own (fold hm_remove ks m) = outside own m"
  by (rule ext) (auto simp: outside_def hm_fold_remove)

lemma outside_remove: "outside own m k = None \<Longrightarrow> outside own (hm_remove k m) = outside own m"
  using outside_fold_remove[of "[k]" own m] by simp

lemma outside_filter:
  "hm_ok m \<Longrightarrow> \<forall>k v. \<not> P k v \<longrightarrow> own v \<Longrightarrow> outside own (List.filter (\<lambda>(k, v). P k v) m) = outside own m"
  by (rule ext) (auto simp: outside_def hm_get_filter case_prod_beta opt_filter_def split: option.splits)

lemma hm_ok_fold_remove: "hm_ok m \<Longrightarrow> hm_ok (fold hm_remove ks m)"
  by (induction ks arbitrary: m) (simp_all add: hm.invar_rem)

lemma hosted_ids_iff: "hm_ok m \<Longrightarrow> k \<in> set (hosted_ids m alias) \<longleftrightarrow> hm_get m k = Some alias"
  by (force simp: hosted_ids_def hm_ok_def hm_get_def)

section \<open>The view of the others\<close>

abbreviation own_project :: "string \<Rightarrow> project \<Rightarrow> bool" where
  "own_project alias p \<equiv> remote_alias p = Some alias"

abbreviation own_agent :: "string \<Rightarrow> runtime \<Rightarrow> agent_record \<Rightarrow> bool" where
  "own_agent alias s r \<equiv> on_host alias (ar_project_id (rec_run r)) s"

abbreviation own_task :: "string \<Rightarrow> runtime \<Rightarrow> task \<Rightarrow> bool" where
  "own_task alias s t \<equiv> on_host alias (t_project_id t) s"

abbreviation own_release :: "string \<Rightarrow> runtime \<Rightarrow> project_release \<Rightarrow> bool" where
  "own_release alias s r \<equiv> on_host alias (rel_project_id r) s"

abbreviation own_request :: "string \<Rightarrow> runtime \<Rightarrow> permission_request \<Rightarrow> bool" where
  "own_request alias s q \<equiv> on_host alias (pq_project_id q) s"

record others_view =
  ov_projects :: "string \<Rightarrow> project option"
  ov_agents :: "agent_id \<Rightarrow> agent_record option"
  ov_tasks :: "task_id \<Rightarrow> task option"
  ov_releases :: "uuid \<Rightarrow> project_release option"
  ov_permissions :: "uuid \<Rightarrow> permission_request option"

definition others_see :: "string \<Rightarrow> daemon \<Rightarrow> others_view" where
  "others_see alias d = (let s = dm_runtime d in
     \<lparr>ov_projects = outside (own_project alias) (rt_projects s),
      ov_agents = outside (own_agent alias s) (rt_agents s),
      ov_tasks = outside (own_task alias s) (rt_tasks s),
      ov_releases = outside (own_release alias s) (rt_releases s),
      ov_permissions = outside (own_request alias s) (dm_permissions d)\<rparr>)"

definition host_scope :: "world \<Rightarrow> string \<Rightarrow> daemon \<Rightarrow> bool" where
  "host_scope w alias d \<longleftrightarrow> (let s = dm_runtime d in
     hm_ok (rt_projects s) \<and> hm_keyed (root_key w) (rt_projects s)
     \<and> hm_ok (rt_tasks s) \<and> hm_ok (rt_releases s)
     \<and> hm_ok (dm_agent_hosts d) \<and> hm_ok (dm_permission_hosts d)
     \<and> (\<forall>i. hm_get (dm_agent_hosts d) i = Some alias \<longrightarrow> outside (own_agent alias s) (rt_agents s) i = None)
     \<and> (\<forall>i. hm_get (dm_permission_hosts d) i = Some alias
            \<longrightarrow> outside (own_request alias s) (dm_permissions d) i = None))"

definition same_hosts :: "string \<Rightarrow> daemon \<Rightarrow> daemon \<Rightarrow> bool" where
  "same_hosts alias d d' \<longleftrightarrow> (\<forall>pid. on_host alias pid (dm_runtime d') = on_host alias pid (dm_runtime d))"

text \<open>A step for the host: it keeps the scope, the view of the others, and which projects the host has.\<close>

definition host_step :: "world \<Rightarrow> string \<Rightarrow> daemon \<Rightarrow> daemon \<Rightarrow> bool" where
  "host_step w alias d d' \<longleftrightarrow> host_scope w alias d'
     \<and> others_see alias d' = others_see alias d \<and> same_hosts alias d d'"

lemma host_step_refl: "host_scope w alias d \<Longrightarrow> host_step w alias d d"
  by (simp add: host_step_def same_hosts_def)

lemma host_step_trans: "host_step w alias d d' \<Longrightarrow> host_step w alias d' d'' \<Longrightarrow> host_step w alias d d''"
  by (simp add: host_step_def same_hosts_def)

lemma host_step_scope: "host_step w alias d d' \<Longrightarrow> host_scope w alias d'"
  by (simp add: host_step_def)

lemma host_step_fold:
  assumes "host_scope w alias d"
    and "\<And>x d'. x \<in> set xs \<Longrightarrow> host_step w alias d d' \<Longrightarrow> host_step w alias d' (f x d')"
  shows "host_step w alias d (fold f xs d)"
proof -
  have "host_step w alias d d' \<Longrightarrow> set ys \<subseteq> set xs \<Longrightarrow> host_step w alias d (fold f ys d')" for ys d'
  proof (induction ys arbitrary: d')
    case (Cons y ys)
    from Cons.prems have "host_step w alias d (f y d')" by (intro host_step_trans[OF _ assms(2)]) auto
    then show ?case using Cons.IH[of "f y d'"] Cons.prems(2) by simp
  qed simp
  then show ?thesis using host_step_refl[OF assms(1)] by blast
qed

text \<open>The part of the state the view and the scope read.\<close>

definition mirror_part where
  "mirror_part d = (rt_projects (dm_runtime d), rt_agents (dm_runtime d), rt_tasks (dm_runtime d),
     rt_releases (dm_runtime d), dm_permissions d, dm_agent_hosts d, dm_permission_hosts d)"

lemma mirror_part_step:
  assumes "mirror_part d' = mirror_part d" "host_scope w alias d" shows "host_step w alias d d'"
proof -
  have [simp]: "rt_projects (dm_runtime d') = rt_projects (dm_runtime d)"
    "rt_agents (dm_runtime d') = rt_agents (dm_runtime d)" "rt_tasks (dm_runtime d') = rt_tasks (dm_runtime d)"
    "rt_releases (dm_runtime d') = rt_releases (dm_runtime d)" "dm_permissions d' = dm_permissions d"
    "dm_agent_hosts d' = dm_agent_hosts d" "dm_permission_hosts d' = dm_permission_hosts d"
    using assms(1) by (simp_all add: mirror_part_def)
  have oh: "on_host alias pid (dm_runtime d') = on_host alias pid (dm_runtime d)" for pid
    by (simp add: on_host_def any_project_def)
  show ?thesis using assms(2) unfolding host_step_def others_see_def host_scope_def same_hosts_def Let_def oh by simp
qed

text \<open>Steps that change one map and leave the projects alone.\<close>

lemma host_step_maps:
  assumes scope: "host_scope w alias d" and pr: "rt_projects (dm_runtime d') = rt_projects (dm_runtime d)"
    and ag: "outside (own_agent alias (dm_runtime d)) (rt_agents (dm_runtime d'))
       = outside (own_agent alias (dm_runtime d)) (rt_agents (dm_runtime d))"
    and ta: "outside (own_task alias (dm_runtime d)) (rt_tasks (dm_runtime d'))
       = outside (own_task alias (dm_runtime d)) (rt_tasks (dm_runtime d))"
    and re: "outside (own_release alias (dm_runtime d)) (rt_releases (dm_runtime d'))
       = outside (own_release alias (dm_runtime d)) (rt_releases (dm_runtime d))"
    and pe: "outside (own_request alias (dm_runtime d)) (dm_permissions d')
       = outside (own_request alias (dm_runtime d)) (dm_permissions d)"
    and ok: "hm_ok (rt_tasks (dm_runtime d'))" "hm_ok (rt_releases (dm_runtime d'))"
      "hm_ok (dm_agent_hosts d')" "hm_ok (dm_permission_hosts d')"
    and ah: "\<forall>i. hm_get (dm_agent_hosts d') i = Some alias \<longrightarrow> hm_get (dm_agent_hosts d) i = Some alias
       \<or> ov_agents (others_see alias d) i = None"
    and ph: "\<forall>i. hm_get (dm_permission_hosts d') i = Some alias \<longrightarrow> hm_get (dm_permission_hosts d) i = Some alias
       \<or> ov_permissions (others_see alias d) i = None"
  shows "host_step w alias d d'"
proof -
  have oh: "on_host alias pid (dm_runtime d') = on_host alias pid (dm_runtime d)" for pid
    by (simp add: on_host_def any_project_def pr)
  show ?thesis
    using scope ok ah ph unfolding host_step_def others_see_def host_scope_def same_hosts_def Let_def oh pr ag ta re pe
    by (auto 4 3)
qed

lemma on_hostI: "p \<in> set (hm_values (rt_projects s)) \<Longrightarrow> own_project alias p \<Longrightarrow> on_host alias (p_id p) s"
  by (auto simp: on_host_def any_project_def list_ex_iff)

lemma on_host_found: "project_by (\<lambda>p. p_id p = pid \<and> own_project alias p) s = Some p \<Longrightarrow> on_host alias pid s"
  unfolding project_by_def find_Some_iff by (metis nth_mem on_hostI)

lemma on_host_remote: "on_host alias pid s \<Longrightarrow> any_project (\<lambda>p. p_id p = pid \<and> is_remote p) s"
  by (auto simp: on_host_def any_project_def list_ex_iff remote_alias_def is_remote_def
      split: project_execution_target.splits)

section \<open>What the primitives do to the view\<close>

lemma release_writer_releases [simp]: "rt_releases (release_writer w i s) = rt_releases s"
  by (auto simp: release_writer_def with_store_def Let_def split: option.split sum.split prod.split)

lemma tell_part: "\<forall>run. ev \<noteq> AgentChanged run \<Longrightarrow> mirror_part (tell w ev d) = mirror_part d"
  by (cases ev) (simp_all add: mirror_part_def on_runtime_def broadcast_def)

lemma tell_step: "\<forall>run. ev \<noteq> AgentChanged run \<Longrightarrow> host_scope w alias d \<Longrightarrow> host_step w alias d (tell w ev d)"
  by (rule mirror_part_step[OF tell_part])

lemma then_tell: "host_step w alias d d' \<Longrightarrow> \<forall>run. ev \<noteq> AgentChanged run \<Longrightarrow> host_step w alias d (tell w ev d')"
  by (blast intro: host_step_trans tell_step host_step_scope)

lemma sync_agent_task_owned:
  assumes "\<forall>k t. hm_get (rt_tasks s) k = Some t \<longrightarrow> t_assigned_agent_id t = Some i \<longrightarrow> own_task alias s t"
  shows "sync_agent_task w i s = s"
proof -
  have "sync_target s i = None"
    using assms on_host_remote[of "alias" _ s]
    by (fastforce simp: sync_target_def split: option.split Option.bind_split if_splits)
  then show ?thesis by (simp add: sync_agent_task_def)
qed

lemma tell_agent_part:
  assumes "\<forall>k t. ov_tasks (others_see alias d) k = Some t \<longrightarrow> t_assigned_agent_id t \<noteq> Some (ar_id run)"
  shows "mirror_part (tell w (AgentChanged run) d) = mirror_part d"
proof -
  have own: "\<forall>k t. hm_get (rt_tasks (dm_runtime d)) k = Some t \<longrightarrow> t_assigned_agent_id t = Some (ar_id run)
     \<longrightarrow> own_task alias (dm_runtime d) t"
    using assms by (auto simp: others_see_def Let_def outside_def opt_filter_Some_iff)
  define s1 where "s1 = (if \<not> ar_can_stop run \<and> \<not> hm_contains (rt_children (dm_runtime d)) (ar_id run)
     \<and> \<not> agent_running (ar_state run) then release_writer w (ar_id run) (dm_runtime d) else dm_runtime d)"
  have s1: "rt_projects s1 = rt_projects (dm_runtime d)" "rt_tasks s1 = rt_tasks (dm_runtime d)"
    "rt_agents s1 = rt_agents (dm_runtime d)" "rt_releases s1 = rt_releases (dm_runtime d)"
    by (simp_all add: s1_def)
  have "sync_agent_task w (ar_id run) s1 = s1"
    by (rule sync_agent_task_owned[of _ _ "alias"])
      (use own in \<open>simp add: s1 on_host_def any_project_def\<close>)
  then show ?thesis
    by (simp add: mirror_part_def on_runtime_def broadcast_def before_agent_event_def Let_def s1 flip: s1_def)
qed

lemma update_remote_task_maps:
  shows "rt_projects (update_remote_task w t s) = rt_projects s" "rt_agents (update_remote_task w t s) = rt_agents s"
    "rt_releases (update_remote_task w t s) = rt_releases s"
    "rt_tasks (update_remote_task w t s) = (if is_some_and (hm_get (rt_tasks s) (t_id t))
       (\<lambda>old. t_remote_pending old \<or> t_revision t \<le> t_revision old) then rt_tasks s
     else hm_insert (t_id t) t (rt_tasks s))"
proof -
  have mv: "rt_projects (snd (move_lease a b s)) = rt_projects s" "rt_agents (snd (move_lease a b s)) = rt_agents s"
    "rt_releases (snd (move_lease a b s)) = rt_releases s" "rt_tasks (snd (move_lease a b s)) = rt_tasks s" for a b s
    by (auto simp: move_lease_def with_store_def Let_def split: option.split sum.split prod.split)
  show "rt_projects (update_remote_task w t s) = rt_projects s" "rt_agents (update_remote_task w t s) = rt_agents s"
    "rt_releases (update_remote_task w t s) = rt_releases s"
    "rt_tasks (update_remote_task w t s) = (if is_some_and (hm_get (rt_tasks s) (t_id t))
       (\<lambda>old. t_remote_pending old \<or> t_revision t \<le> t_revision old) then rt_tasks s
     else hm_insert (t_id t) t (rt_tasks s))"
    by (auto simp: update_remote_task_def Let_def mv split: option.split)
qed

section \<open>Names\<close>

lemma renamed_remote_projectD:
  assumes "renamed_remote_project p0 alias incoming = Some p"
  shows "p = p0\<lparr>p_name := p_name incoming\<rparr>" "own_project alias p0" "own_project alias p"
    "p_id p = p_id p0" "root_key w p = root_key w p0"
  using assms by (auto simp: renamed_remote_project_def remote_alias_def root_key_def split: if_splits
      project_execution_target.split)

lemma project_by_get:
  assumes "hm_keyed (root_key w) m" "hm_ok m" "p \<in> set (hm_values m)" shows "hm_get m (root_key w p) = Some p"
  using assms(3) hm.keyed_by_vals[OF assms(2,1)] by simp

lemma renamed_step:
  assumes scope: "host_scope w alias d" and p0: "p0 \<in> set (hm_values (rt_projects (dm_runtime d)))"
    and re: "renamed_remote_project p0 alias incoming = Some p"
    and parts: "rt_projects (dm_runtime d') = hm_insert (root_key w p) p (rt_projects (dm_runtime d))"
      "rt_agents (dm_runtime d') = rt_agents (dm_runtime d)" "rt_tasks (dm_runtime d') = rt_tasks (dm_runtime d)"
      "rt_releases (dm_runtime d') = rt_releases (dm_runtime d)" "dm_permissions d' = dm_permissions d"
      "dm_agent_hosts d' = dm_agent_hosts d" "dm_permission_hosts d' = dm_permission_hosts d"
  shows "host_step w alias d d'"
proof -
  note D = renamed_remote_projectD[OF re]
  let ?m = "rt_projects (dm_runtime d)"
  have ok: "hm_ok ?m" "hm_keyed (root_key w) ?m" using scope by (simp_all add: host_scope_def Let_def)
  have old: "hm_get ?m (root_key w p) = Some p0" using project_by_get[OF ok(2,1) p0] D(5) by simp
  have oh: "on_host alias pid (dm_runtime d') = on_host alias pid (dm_runtime d)" for pid
  proof -
    have "(\<exists>q \<in> set (hm_values (hm_insert (root_key w p) p ?m)). p_id q = pid \<and> own_project alias q)
        \<longleftrightarrow> (\<exists>q \<in> set (hm_values ?m). p_id q = pid \<and> own_project alias q)"
      unfolding Bex_def hm.vals_ins[OF ok(1)] hm.vals_iff[OF ok(1)] using D old by (metis option.inject)
    then show ?thesis by (simp add: on_host_def any_project_def list_ex_iff parts(1))
  qed
  have view: "outside (own_project alias) (hm_insert (root_key w p) p ?m) = outside (own_project alias) ?m"
    by (rule outside_insert) (use D old in \<open>auto simp: outside_None\<close>)
  show ?thesis using scope ok D unfolding host_step_def others_see_def host_scope_def same_hosts_def Let_def oh parts view
    by (simp add: hm.invar_ins hm.keyed_by_ins)
qed

lemma cached_name_step:
  assumes "host_scope w alias d"
  shows "\<exists>d'. cached_name w alias incoming d = Some d' \<and> host_step w alias d d'"
proof -
  let ?s = "dm_runtime d"
  show ?thesis
  proof (cases "Option.bind (project_by (\<lambda>p. p_id p = p_id incoming) ?s) (\<lambda>p. renamed_remote_project p alias incoming)")
    case None
    then show ?thesis using host_step_refl[OF assms] by (simp add: cached_name_def cache_remote_project_name_def Let_def)
  next
    case (Some p)
    then obtain p0 where p0: "project_by (\<lambda>p. p_id p = p_id incoming) ?s = Some p0"
      and re: "renamed_remote_project p0 alias incoming = Some p" by (auto simp: bind_eq_Some_conv)
    have mem: "p0 \<in> set (hm_values (rt_projects ?s))"
      using p0 unfolding project_by_def find_Some_iff by (metis nth_mem)
    have old: "hm_get (rt_projects ?s) (root_key w p) = Some p0"
      using assms project_by_get[OF _ _ mem] renamed_remote_projectD(5)[OF re] by (simp add: host_scope_def Let_def)
    obtain r s' where sv: "with_store (upsert_project p) ?s = (r, s')" by (metis prod.exhaust)
    have fr: "rt_projects s' = rt_projects ?s" "rt_agents s' = rt_agents ?s" "rt_tasks s' = rt_tasks ?s"
      "rt_releases s' = rt_releases ?s"
      using sv by (auto simp: with_store_def Let_def split: prod.splits)
    show ?thesis
    proof (cases "p_name p0 = p_name p")
      case True
      then show ?thesis using host_step_refl[OF assms]
        by (simp add: cached_name_def cache_remote_project_name_def Let_def Some old)
    next
      case renamed: False
      show ?thesis
      proof (cases r)
        case (Inl e)
        have "host_step w alias d (d\<lparr>dm_runtime := s'\<rparr>)"
          by (rule mirror_part_step[OF _ assms]) (simp add: mirror_part_def fr)
        then show ?thesis using renamed
          by (simp add: cached_name_def cache_remote_project_name_def Let_def Some old sv Inl)
      next
        case (Inr u)
        have "host_step w alias d (d\<lparr>dm_runtime := s'\<lparr>rt_projects := hm_insert (root_key w p) p (rt_projects s')\<rparr>\<rparr>)"
          by (rule renamed_step[OF assms mem re]) (simp_all add: fr)
        then show ?thesis using renamed then_tell
          by (simp add: cached_name_def cache_remote_project_name_def Let_def Some old sv Inr)
      qed
    qed
  qed
qed

section \<open>Events\<close>

fun not_foreign :: "others_view \<Rightarrow> server_event \<Rightarrow> bool" where
  "not_foreign v (TaskChanged t) = (ov_tasks v (t_id t) = None)"
| "not_foreign v (TaskDeleted tid pid) = (ov_tasks v tid = None)"
| "not_foreign v (ReleaseCreated r) = (ov_releases v (rel_id r) = None)"
| "not_foreign v (AgentChanged run) =
     (\<forall>k t. ov_tasks v k = Some t \<longrightarrow> t_assigned_agent_id t \<noteq> Some (ar_id run))"
| "not_foreign v (PermissionRequested q) = (ov_permissions v (pq_id q) = None
     \<and> (case pq_agent_id q of None \<Rightarrow> True | Some i \<Rightarrow> ov_agents v i = None))"
| "not_foreign v (SnapshotReplaced sn) = ((\<forall>t \<in> set (sn_tasks sn). ov_tasks v (t_id t) = None)
     \<and> (\<forall>r \<in> set (sn_releases sn). ov_releases v (rel_id r) = None))"
| "not_foreign v ev = True"

lemma others_see_simps:
  "ov_agents (others_see alias d) = outside (own_agent alias (dm_runtime d)) (rt_agents (dm_runtime d))"
  "ov_tasks (others_see alias d) = outside (own_task alias (dm_runtime d)) (rt_tasks (dm_runtime d))"
  "ov_releases (others_see alias d) = outside (own_release alias (dm_runtime d)) (rt_releases (dm_runtime d))"
  "ov_permissions (others_see alias d) = outside (own_request alias (dm_runtime d)) (dm_permissions d)"
  by (simp_all add: others_see_def Let_def)

lemma host_scopeD:
  assumes "host_scope w alias d"
  shows "hm_ok (rt_tasks (dm_runtime d))" "hm_ok (rt_releases (dm_runtime d))"
    "hm_ok (dm_agent_hosts d)" "hm_ok (dm_permission_hosts d)"
    "hm_get (dm_agent_hosts d) i = Some alias \<Longrightarrow> ov_agents (others_see alias d) i = None"
    "hm_get (dm_permission_hosts d) q = Some alias \<Longrightarrow> ov_permissions (others_see alias d) q = None"
  using assms by (simp_all add: host_scope_def Let_def others_see_simps)

lemma next_generation_step: "host_scope w alias d \<Longrightarrow> host_step w alias d (next_generation alias d)"
  by (rule mirror_part_step) (simp_all add: mirror_part_def next_generation_def)

lemma put_agent_step:
  assumes "host_scope w alias d" "own_agent alias (dm_runtime d) r" "ov_agents (others_see alias d) i = None"
  shows "host_step w alias d (on_runtime (put_record i r) (d\<lparr>dm_agent_hosts := hm_insert i alias (dm_agent_hosts d)\<rparr>))"
proof -
  note ok = host_scopeD(1-4)[OF assms(1)]
  show ?thesis using assms(2,3) by (intro host_step_maps[OF assms(1)])
    (simp_all add: ok hm.invar_ins hm.get_ins outside_insert others_see_simps put_record_def on_runtime_def)
qed

lemma take_agent_step:
  assumes scope: "host_scope w alias d" and nf: "not_foreign (others_see alias d) (AgentChanged run)"
  shows "host_step w alias d (take_agent w alias run d)"
proof (cases "project_by (\<lambda>p. p_id p = ar_project_id run \<and> remote_alias p = Some alias) (dm_runtime d)")
  case None
  then show ?thesis using host_step_refl[OF scope] by (simp add: take_agent_def Let_def)
next
  case (Some p)
  note own = on_host_found[OF Some]
  let ?old = "hm_get (rt_agents (dm_runtime d)) (ar_id run)"
  show ?thesis
  proof (cases "is_some_and ?old (\<lambda>r. ar_project_id (rec_run r) \<noteq> ar_project_id run)")
    case True
    then show ?thesis using host_step_refl[OF scope] by (simp add: take_agent_def Let_def Some)
  next
    case False
    define r where "r = (case ?old of Some r \<Rightarrow> r\<lparr>rec_run := run\<rparr>
      | None \<Rightarrow> \<lparr>rec_run = run, rec_project_root = p_root p, rec_messages = [], rec_failure = None\<rparr>)"
    define d1 where "d1 = on_runtime (put_record (ar_id run) r)
      (d\<lparr>dm_agent_hosts := hm_insert (ar_id run) alias (dm_agent_hosts d)\<rparr>)"
    have "rec_run r = run" by (simp add: r_def split: option.split)
    then have st: "host_step w alias d d1" unfolding d1_def
      using False own by (intro put_agent_step[OF scope]) (auto simp: others_see_simps outside_None is_some_and_iff)
    have "\<forall>k t. ov_tasks (others_see alias d1) k = Some t \<longrightarrow> t_assigned_agent_id t \<noteq> Some (ar_id run)"
      using nf st by (simp add: host_step_def)
    then have "host_step w alias d1 (tell w (AgentChanged run) d1)"
      by (rule mirror_part_step[OF tell_agent_part host_step_scope[OF st]])
    with st have "host_step w alias d (tell w (AgentChanged run) d1)" by (rule host_step_trans)
    then show ?thesis using False by (simp add: take_agent_def Let_def Some d1_def r_def)
  qed
qed

lemma take_message_step:
  assumes scope: "host_scope w alias d" shows "host_step w alias d (take_message w alias m d)"
proof (cases "hm_get (dm_agent_hosts d) (cm_agent_id m) = Some alias")
  case False
  then show ?thesis using host_step_refl[OF scope] by (simp add: take_message_def Let_def)
next
  case True
  note ok = host_scopeD(1-4)[OF scope] and mine = host_scopeD(5)[OF scope True]
  have "host_step w alias d (on_runtime (\<lambda>s. case hm_get (rt_agents s) (cm_agent_id m) of None \<Rightarrow> s
      | Some r \<Rightarrow> if m \<in> set (rec_messages r) then s
          else put_record (cm_agent_id m) (r\<lparr>rec_messages := rec_messages r @ [m]\<rparr>) s) d)" (is "host_step _ _ _ ?d")
  proof (cases "hm_get (rt_agents (dm_runtime d)) (cm_agent_id m)")
    case None
    then show ?thesis by (intro mirror_part_step[OF _ scope]) (simp add: mirror_part_def on_runtime_def)
  next
    case (Some r)
    with mine have "own_agent alias (dm_runtime d) r" by (simp add: others_see_simps outside_None)
    with mine Some show ?thesis
      by (intro host_step_maps[OF scope])
        (simp_all add: ok outside_insert others_see_simps put_record_def on_runtime_def)
  qed
  then show ?thesis using True then_tell by (simp add: take_message_def Let_def)
qed

lemma take_permission_step:
  assumes scope: "host_scope w alias d" and nf: "not_foreign (others_see alias d) (PermissionRequested q)"
  shows "host_step w alias d (take_permission w alias q d)"
proof (cases "on_host alias (pq_project_id q) (dm_runtime d)")
  case False
  then show ?thesis using host_step_refl[OF scope] by (simp add: take_permission_def)
next
  case True
  note ok = host_scopeD(1-4)[OF scope]
  let ?d = "d\<lparr>dm_agent_hosts := (case pq_agent_id q of None \<Rightarrow> dm_agent_hosts d
           | Some i \<Rightarrow> hm_insert i alias (dm_agent_hosts d)),
        dm_permission_hosts := hm_insert (pq_id q) alias (dm_permission_hosts d),
        dm_permissions := hm_insert (pq_id q) q (dm_permissions d)\<rparr>"
  have "host_step w alias d ?d" using nf True
    by (intro host_step_maps[OF scope])
      (simp_all add: ok hm.invar_ins hm.get_ins outside_insert others_see_simps split: option.splits)
  then show ?thesis using True then_tell by (simp add: take_permission_def)
qed

lemma forward_release_step:
  assumes scope: "host_scope w alias d" and nf: "not_foreign (others_see alias d) (ReleaseCreated r)"
    and own: "own_release alias (dm_runtime d) r"
  shows "host_step w alias d (on_runtime (\<lambda>s. s\<lparr>rt_releases := hm_insert (rel_id r) r (rt_releases s)\<rparr>) d)"
proof -
  note ok = host_scopeD(1-4)[OF scope]
  show ?thesis using nf own by (intro host_step_maps[OF scope])
    (simp_all add: ok hm.invar_ins outside_insert others_see_simps on_runtime_def)
qed

lemma forward_task_step:
  assumes scope: "host_scope w alias d" and nf: "ov_tasks (others_see alias d) (t_id t) = None"
    and own: "own_task alias (dm_runtime d) t"
  shows "host_step w alias d (on_runtime (update_remote_task w t) d)"
proof -
  note ok = host_scopeD(1-4)[OF scope]
  show ?thesis using nf own by (intro host_step_maps[OF scope])
    (simp_all add: ok hm.invar_ins outside_insert others_see_simps on_runtime_def update_remote_task_maps)
qed

lemma forward_deleted_step:
  assumes scope: "host_scope w alias d" and nf: "ov_tasks (others_see alias d) i = None"
  shows "host_step w alias d (on_runtime (\<lambda>s. s\<lparr>rt_tasks := hm_remove i (rt_tasks s)\<rparr>) d)"
proof -
  note ok = host_scopeD(1-4)[OF scope]
  show ?thesis using nf by (intro host_step_maps[OF scope])
    (simp_all add: ok hm.invar_rem outside_remove others_see_simps on_runtime_def)
qed

lemma resolved_step:
  assumes scope: "host_scope w alias d" and mine: "hm_get (dm_permission_hosts d) q = Some alias"
  shows "host_step w alias d (d\<lparr>dm_permission_hosts := hm_remove q (dm_permission_hosts d),
             dm_permissions := hm_remove q (dm_permissions d)\<rparr>)"
proof -
  note ok = host_scopeD(1-4)[OF scope] and nf = host_scopeD(6)[OF scope mine]
  show ?thesis using nf by (intro host_step_maps[OF scope])
    (simp_all add: ok hm.invar_rem hm_get_remove outside_remove others_see_simps)
qed

lemma forward_step:
  assumes scope: "host_scope w alias d" and nf: "not_foreign (others_see alias d) ev"
  shows "\<exists>d'. forward_remote_event w alias ev d = Some d' \<and> host_step w alias d d'"
proof -
  note refl = host_step_refl[OF scope] and gen = next_generation_step[OF scope]
  note gen_scope = host_step_scope[OF gen]
  have nf': "not_foreign (others_see alias (next_generation alias d)) ev"
    using nf gen by (simp add: host_step_def)
  note after = host_step_trans[OF gen]
  show ?thesis
  proof (cases ev)
    case (ProjectChanged p)
    then show ?thesis using refl cached_name_step[OF scope] by simp
  next
    case (ReleaseCreated r)
    then show ?thesis using gen after[OF then_tell[OF forward_release_step[OF gen_scope nf'[unfolded ReleaseCreated]]]]
      by (simp add: Let_def)
  next
    case (TaskChanged t)
    then show ?thesis using gen nf' after[OF then_tell[OF forward_task_step[OF gen_scope]]]
      by (simp add: Let_def)
  next
    case (TaskDeleted i pid)
    then show ?thesis using gen nf' after[OF then_tell[OF forward_deleted_step[OF gen_scope]]]
      by (simp add: Let_def)
  next
    case (AgentChanged run)
    then show ?thesis using take_agent_step[OF scope nf[unfolded AgentChanged]] by simp
  next
    case (AgentMessageAppended m)
    then show ?thesis using take_message_step[OF scope] by simp
  next
    case (PermissionRequested q)
    then show ?thesis using take_permission_step[OF scope nf[unfolded PermissionRequested]] by simp
  next
    case (PermissionResolved q)
    then show ?thesis using refl then_tell[OF resolved_step[OF scope]] by simp
  next
    case (ProjectTerminalExited tid)
    then show ?thesis using refl
      then_tell[OF mirror_part_step[OF _ scope, of "d\<lparr>dm_terminal_hosts := hm_remove tid (dm_terminal_hosts d)\<rparr>"]]
      by (simp add: mirror_part_def)
  qed (use refl tell_step[OF _ scope] in \<open>simp_all\<close>)
qed

section \<open>Snapshots\<close>

lemma outside_fold_insert:
  assumes "\<forall>x \<in> set xs. own x \<and> outside own m (f x) = None"
  shows "outside own (fold (\<lambda>x. hm_insert (f x) x) xs m) = outside own m"
  using assms by (induction xs arbitrary: m) (simp_all add: outside_insert)

lemma hm_ok_fold_insert: "hm_ok m \<Longrightarrow> hm_ok (fold (\<lambda>x. hm_insert (f x) x) xs m)"
  by (induction xs arbitrary: m) (simp_all add: hm.invar_ins)

lemma on_runtime_fold: "on_runtime (fold f xs) d = fold (\<lambda>x. on_runtime (f x)) xs d"
proof (induction xs arbitrary: d)
  case (Cons x xs)
  show ?case using Cons.IH[of "on_runtime (f x) d"] by (simp add: on_runtime_def)
qed (simp add: on_runtime_def)

definition mirror_releases :: "project_id list \<Rightarrow> snapshot \<Rightarrow> runtime \<Rightarrow> runtime" where
  "mirror_releases pids sn s = s\<lparr>rt_releases := fold (\<lambda>r. hm_insert (rel_id r) r)
     (List.filter (\<lambda>r. rel_project_id r \<in> set pids) (sn_releases sn))
     (List.filter (\<lambda>(_, r). rel_project_id r \<notin> set pids) (rt_releases s))\<rparr>"

definition listed_tasks :: "project_id list \<Rightarrow> snapshot \<Rightarrow> runtime \<Rightarrow> runtime" where
  "listed_tasks pids sn s = s\<lparr>rt_tasks := List.filter (\<lambda>(i, t). t_remote_pending t
     \<or> t_project_id t \<notin> set pids \<or> i \<in> t_id ` set (sn_tasks sn)) (rt_tasks s)\<rparr>"

lemma mirror_tasks_steps:
  "on_runtime (mirror_tasks w pids sn) d = fold (\<lambda>t. on_runtime (update_remote_task w t))
     (List.filter (\<lambda>t. t_project_id t \<in> set pids) (sn_tasks sn))
     (on_runtime (listed_tasks pids sn) (on_runtime (mirror_releases pids sn) d))"
  unfolding on_runtime_fold[symmetric]
  by (simp add: on_runtime_def mirror_tasks_def mirror_releases_def listed_tasks_def Let_def)

lemma mirror_releases_step:
  assumes scope: "host_scope w alias d" and nf: "not_foreign (others_see alias d) (SnapshotReplaced sn)"
    and own: "\<forall>pid \<in> set pids. on_host alias pid (dm_runtime d)"
  shows "host_step w alias d (on_runtime (mirror_releases pids sn) d)"
proof -
  note ok = host_scopeD(1-4)[OF scope]
  let ?own = "own_release alias (dm_runtime d)"
  let ?m = "List.filter (\<lambda>(_, r). rel_project_id r \<notin> set pids) (rt_releases (dm_runtime d))"
  have kept: "outside ?own ?m = outside ?own (rt_releases (dm_runtime d))"
    by (rule outside_filter[OF ok(2)]) (use own in \<open>auto\<close>)
  have new: "outside ?own (fold (\<lambda>r. hm_insert (rel_id r) r)
      (List.filter (\<lambda>r. rel_project_id r \<in> set pids) (sn_releases sn)) ?m) = outside ?own ?m"
    by (rule outside_fold_insert) (use nf own kept in \<open>auto simp: others_see_simps\<close>)
  show ?thesis by (intro host_step_maps[OF scope])
    (simp_all add: ok new kept hm_ok_fold_insert hm_ok_filter mirror_releases_def on_runtime_def)
qed

lemma listed_tasks_step:
  assumes scope: "host_scope w alias d" and own: "\<forall>pid \<in> set pids. on_host alias pid (dm_runtime d)"
  shows "host_step w alias d (on_runtime (listed_tasks pids sn) d)"
proof -
  note ok = host_scopeD(1-4)[OF scope]
  let ?own = "own_task alias (dm_runtime d)"
  have kept: "outside ?own (List.filter (\<lambda>(i, t). t_remote_pending t
     \<or> t_project_id t \<notin> set pids \<or> i \<in> t_id ` set (sn_tasks sn)) (rt_tasks (dm_runtime d)))
     = outside ?own (rt_tasks (dm_runtime d))"
    by (rule outside_filter[OF ok(1)]) (use own in \<open>auto\<close>)
  show ?thesis by (intro host_step_maps[OF scope])
    (simp_all add: ok kept hm_ok_filter listed_tasks_def on_runtime_def del: disj_not1)
qed

lemma mirror_tasks_step:
  assumes scope: "host_scope w alias d" and nf: "not_foreign (others_see alias d) (SnapshotReplaced sn)"
    and own: "\<forall>pid \<in> set pids. on_host alias pid (dm_runtime d)"
  shows "host_step w alias d (on_runtime (mirror_tasks w pids sn) d)"
proof -
  define d1 where "d1 = on_runtime (mirror_releases pids sn) d"
  define d2 where "d2 = on_runtime (listed_tasks pids sn) d1"
  have s1: "host_step w alias d d1" unfolding d1_def by (rule mirror_releases_step[OF assms])
  then have "host_step w alias d1 d2" unfolding d2_def
    using own by (intro listed_tasks_step) (simp_all add: host_step_def same_hosts_def)
  with s1 have s2: "host_step w alias d d2" by (rule host_step_trans)
  have "host_step w alias d2 (fold (\<lambda>t. on_runtime (update_remote_task w t))
      (List.filter (\<lambda>t. t_project_id t \<in> set pids) (sn_tasks sn)) d2)"
  proof (rule host_step_fold[OF host_step_scope[OF s2]])
    fix t d'
    assume t: "t \<in> set (List.filter (\<lambda>t. t_project_id t \<in> set pids) (sn_tasks sn))" and st: "host_step w alias d2 d'"
    have "host_step w alias d d'" using s2 st by (rule host_step_trans)
    then show "host_step w alias d' (on_runtime (update_remote_task w t) d')"
      using t nf own by (intro forward_task_step) (simp_all add: host_step_def same_hosts_def)
  qed
  with s2 show ?thesis unfolding mirror_tasks_steps d2_def[symmetric] d1_def[symmetric] by (rule host_step_trans)
qed

lemma released_part:
  "mirror_part (on_runtime (settle_uncertain w alias) d) = mirror_part d"
  "mirror_part (on_runtime (release_stopped w sn) d) = mirror_part d"
proof -
  have fold_part: "(\<And>x d. mirror_part (g x d) = mirror_part d) \<Longrightarrow> mirror_part (fold g xs d) = mirror_part d"
    for g :: "agent_id \<Rightarrow> daemon \<Rightarrow> daemon" and xs d by (induction xs arbitrary: d) simp_all
  show "mirror_part (on_runtime (release_stopped w sn) d) = mirror_part d"
    unfolding release_stopped_def on_runtime_fold by (rule fold_part) (simp add: mirror_part_def on_runtime_def)
  have "mirror_part (fold (\<lambda>i. on_runtime (\<lambda>s. release_writer w i
      (s\<lparr>rt_remote_uncertain := hm_remove i (rt_remote_uncertain s)\<rparr>))) xs d) = mirror_part d" for xs
    by (rule fold_part) (simp add: mirror_part_def on_runtime_def)
  moreover have "on_runtime (settle_uncertain w alias) d = fold (\<lambda>i. on_runtime (\<lambda>s. release_writer w i
      (s\<lparr>rt_remote_uncertain := hm_remove i (rt_remote_uncertain s)\<rparr>)))
      (List.map fst (List.filter (\<lambda>(_, host). host = alias) (rt_remote_uncertain (dm_runtime d)))) d"
    unfolding on_runtime_fold[symmetric] by (simp add: on_runtime_def settle_uncertain_def)
  ultimately show "mirror_part (on_runtime (settle_uncertain w alias) d) = mirror_part d" by simp
qed

lemma drop_stale_agents_step:
  assumes scope: "host_scope w alias d" shows "host_step w alias d (drop_stale_agents alias listed d)"
proof -
  note ok = host_scopeD(1-4)[OF scope]
  let ?stale = "List.filter (\<lambda>i. i \<notin> set listed) (hosted_ids (dm_agent_hosts d) alias)"
  have "outside (own_agent alias (dm_runtime d)) (fold hm_remove ?stale (rt_agents (dm_runtime d)))
      = outside (own_agent alias (dm_runtime d)) (rt_agents (dm_runtime d))"
    using host_scopeD(5)[OF scope] by (intro outside_fold_remove) (simp add: hosted_ids_iff ok others_see_simps)
  then show ?thesis by (intro host_step_maps[OF scope])
    (simp_all add: drop_stale_agents_def Let_def on_runtime_def ok hm_ok_fold_remove hm_fold_remove)
qed

lemma drop_stale_permissions_step:
  assumes scope: "host_scope w alias d" shows "host_step w alias d (drop_stale_permissions alias listed d)"
proof -
  note ok = host_scopeD(1-4)[OF scope]
  let ?stale = "List.filter (\<lambda>i. i \<notin> set listed) (hosted_ids (dm_permission_hosts d) alias)"
  have "outside (own_request alias (dm_runtime d)) (fold hm_remove ?stale (dm_permissions d))
      = outside (own_request alias (dm_runtime d)) (dm_permissions d)"
    using host_scopeD(6)[OF scope] by (intro outside_fold_remove) (simp add: hosted_ids_iff ok others_see_simps)
  then show ?thesis by (intro host_step_maps[OF scope])
    (simp_all add: drop_stale_permissions_def Let_def ok hm_ok_fold_remove hm_fold_remove)
qed

lemma mirror_agent_step:
  assumes scope: "host_scope w alias d" and own: "on_host alias (ar_project_id run) (dm_runtime d)"
  shows "host_step w alias d (mirror_agent alias ps run d)"
  using own host_step_refl[OF scope]
  by (auto simp: mirror_agent_def Let_def others_see_simps outside_None is_some_and_iff
      intro!: put_agent_step[OF scope] split: option.split)

lemma mirror_permission_step:
  assumes scope: "host_scope w alias d" and own: "on_host alias (pq_project_id q) (dm_runtime d)"
  shows "host_step w alias d (mirror_permission alias q d)"
proof (cases "is_some_and (hm_get (dm_permissions d) (pq_id q)) (\<lambda>old. pq_project_id old \<noteq> pq_project_id q)")
  case True
  then show ?thesis using host_step_refl[OF scope] by (simp add: mirror_permission_def)
next
  case False
  note ok = host_scopeD(1-4)[OF scope]
  have nf: "outside (own_request alias (dm_runtime d)) (dm_permissions d) (pq_id q) = None"
    using False own by (auto simp: outside_None is_some_and_iff)
  show ?thesis using False own nf by (intro host_step_maps[OF scope])
    (simp_all add: mirror_permission_def ok hm.invar_ins hm.get_ins outside_insert others_see_simps)
qed

lemma mirror_sessions_step:
  assumes scope: "host_scope w alias d" and own: "\<forall>p \<in> set ps. on_host alias (p_id p) (dm_runtime d)"
  shows "host_step w alias d (mirror_sessions alias ps sn d)"
proof -
  define pids where "pids = List.map p_id ps"
  define runs where "runs = listed_agents pids sn"
  define asked where "asked = List.filter (\<lambda>q. pq_project_id q \<in> set pids) (sn_permissions sn)"
  define d1 where "d1 = drop_stale_agents alias (List.map ar_id runs) d"
  define d2 where "d2 = fold (mirror_agent alias ps) runs d1"
  define d3 where "d3 = drop_stale_permissions alias (List.map pq_id asked) d2"
  define d4 where "d4 = fold (mirror_permission alias) asked d3"
  have own': "\<forall>pid \<in> set pids. on_host alias pid (dm_runtime d)" using own by (simp add: pids_def)
  have s1: "host_step w alias d d1" unfolding d1_def by (rule drop_stale_agents_step[OF scope])
  have "host_step w alias d1 d2" unfolding d2_def
  proof (rule host_step_fold[OF host_step_scope[OF s1]])
    fix run d' assume run: "run \<in> set runs" and st: "host_step w alias d1 d'"
    from host_step_trans[OF s1 st] run own' show "host_step w alias d' (mirror_agent alias ps run d')"
      by (intro mirror_agent_step) (simp_all add: host_step_def same_hosts_def runs_def listed_agents_def)
  qed
  with s1 have s2: "host_step w alias d d2" by (rule host_step_trans)
  have "host_step w alias d2 d3" unfolding d3_def by (rule drop_stale_permissions_step[OF host_step_scope[OF s2]])
  with s2 have s3: "host_step w alias d d3" by (rule host_step_trans)
  have "host_step w alias d3 d4" unfolding d4_def
  proof (rule host_step_fold[OF host_step_scope[OF s3]])
    fix q d' assume q: "q \<in> set asked" and st: "host_step w alias d3 d'"
    from host_step_trans[OF s3 st] q own' show "host_step w alias d' (mirror_permission alias q d')"
      by (intro mirror_permission_step) (simp_all add: host_step_def same_hosts_def asked_def)
  qed
  with s3 have s4: "host_step w alias d d4" by (rule host_step_trans)
  have "mirror_part (mirror_attention alias pids (List.map ar_id runs) sn d4) = mirror_part d4"
    by (simp add: mirror_part_def mirror_attention_def Let_def on_runtime_def)
  from mirror_part_step[OF this host_step_scope[OF s4]] s4
  have "host_step w alias d (mirror_attention alias pids (List.map ar_id runs) sn d4)" by (blast intro: host_step_trans)
  then show ?thesis by (simp add: mirror_sessions_def Let_def d4_def d3_def d2_def d1_def asked_def runs_def pids_def)
qed

lemma mirror_host_step:
  assumes scope: "host_scope w alias d" and nf: "not_foreign (others_see alias d) (SnapshotReplaced sn)"
    and own: "\<forall>p \<in> set ps. on_host alias (p_id p) (dm_runtime d)"
  shows "host_step w alias d (mirror_host w alias ps epoch sn generation d)"
proof -
  define d1 where "d1 = d\<lparr>dm_epochs := hm_insert alias epoch (dm_epochs d)\<rparr>"
  define d2 where "d2 = (if unwrap_or 0 (hm_get (dm_task_generation d1) alias) = generation
    then on_runtime (mirror_tasks w (List.map p_id ps) sn) d1 else d1)"
  define d3 where "d3 = on_runtime (release_stopped w sn) (on_runtime (settle_uncertain w alias) d2)"
  define d4 where "d4 = mirror_sessions alias ps sn d3"
  have s1: "host_step w alias d d1"
    by (rule mirror_part_step[OF _ scope]) (simp add: d1_def mirror_part_def)
  have "host_step w alias d1 (on_runtime (mirror_tasks w (List.map p_id ps) sn) d1)"
    using s1 nf own by (intro mirror_tasks_step) (simp_all add: host_step_def same_hosts_def)
  with host_step_refl[OF host_step_scope[OF s1]] have "host_step w alias d1 d2" by (simp add: d2_def)
  with s1 have s2: "host_step w alias d d2" by (rule host_step_trans)
  have "host_step w alias d2 d3"
    by (rule mirror_part_step[OF _ host_step_scope[OF s2]]) (simp add: d3_def released_part)
  with s2 have s3: "host_step w alias d d3" by (rule host_step_trans)
  then have "host_step w alias d3 d4" unfolding d4_def using own
    by (intro mirror_sessions_step) (auto simp: host_step_def same_hosts_def)
  with s3 have s4: "host_step w alias d d4" by (rule host_step_trans)
  have "mirror_host w alias ps epoch sn generation d = (let d5 = tell w (SnapshotReplaced (daemon_snapshot w d4)) d4
    in tell w (AttentionSnapshotReplaced (rt_attention (dm_runtime d5))) d5)"
    by (simp only: mirror_host_def Let_def d4_def d3_def d2_def d1_def)
  then show ?thesis using s4 by (simp add: Let_def then_tell)
qed

lemma fold_opt_step:
  assumes "\<And>x d. host_scope w alias d \<Longrightarrow> \<exists>d'. f x d = Some d' \<and> host_step w alias d d'"
    and "host_scope w alias d"
  shows "\<exists>d'. fold_opt f xs d = Some d' \<and> host_step w alias d d'"
  using assms(2)
proof (induction xs arbitrary: d)
  case Nil then show ?case by (simp add: host_step_refl)
next
  case (Cons x xs)
  from assms(1)[OF Cons.prems] obtain d1 where d1: "f x d = Some d1" "host_step w alias d d1" by blast
  from Cons.IH[OF host_step_scope[OF d1(2)]] d1 show ?case by (auto intro: host_step_trans)
qed

lemma reconcile_step:
  assumes scope: "host_scope w alias d" and nf: "not_foreign (others_see alias d) (SnapshotReplaced sn)"
    and own: "\<forall>p \<in> set ps. on_host alias (p_id p) (dm_runtime d)"
  shows "\<exists>d'. reconcile_remote_snapshot w alias ps epoch sn generation d = Some d' \<and> host_step w alias d d'"
proof (cases "old_snapshot alias epoch sn d")
  case True
  then show ?thesis using host_step_refl[OF scope] by (simp add: reconcile_remote_snapshot_def)
next
  case False
  define d1 where "d1 = d\<lparr>dm_event_cursors := hm_insert alias (epoch, sn_event_sequence sn) (dm_event_cursors d)\<rparr>"
  have s1: "host_step w alias d d1"
    by (rule mirror_part_step[OF _ scope]) (simp add: d1_def mirror_part_def)
  have "\<exists>d2. fold_opt (cached_name w alias)
      (List.filter (\<lambda>p. p_id p \<in> set (List.map p_id ps)) (sn_projects sn)) d1 = Some d2 \<and> host_step w alias d1 d2"
    by (rule fold_opt_step[OF cached_name_step host_step_scope[OF s1]])
  then obtain d2 where d2: "fold_opt (cached_name w alias)
      (List.filter (\<lambda>p. p_id p \<in> set (List.map p_id ps)) (sn_projects sn)) d1 = Some d2" "host_step w alias d1 d2"
    by blast
  from s1 d2(2) have s2: "host_step w alias d d2" by (rule host_step_trans)
  then have "host_step w alias d2 (mirror_host w alias ps epoch sn generation d2)"
    using nf own by (intro mirror_host_step) (auto simp: host_step_def same_hosts_def)
  from host_step_trans[OF s2 this] d2(1) False show ?thesis
    by (simp add: reconcile_remote_snapshot_def d1_def)
qed

lemma take_stream_event_step:
  assumes scope: "host_scope w alias d" and nf: "not_foreign (others_see alias d) ev"
  shows "\<exists>d'. take_stream_event w alias epoch n ev d = Some d' \<and> host_step w alias d d'"
proof -
  let ?body = "case ev of
       SnapshotReplaced sn \<Rightarrow> reconcile_remote_snapshot w alias (host_projects alias (dm_runtime d))
         epoch sn (unwrap_or 0 (hm_get (dm_task_generation d) alias)) d
     | _ \<Rightarrow> forward_remote_event w alias ev d"
  have own: "\<forall>p \<in> set (host_projects alias (dm_runtime d)). on_host alias (p_id p) (dm_runtime d)"
    by (auto simp: host_projects_def intro: on_hostI)
  have "\<exists>d'. ?body = Some d' \<and> host_step w alias d d'"
  proof (cases "\<exists>sn. ev = SnapshotReplaced sn")
    case True
    then show ?thesis using reconcile_step[OF scope _ own] nf by auto
  next
    case False
    then show ?thesis using forward_step[OF assms] by (cases ev) simp_all
  qed
  then obtain d' where d': "?body = Some d'" "host_step w alias d d'" by blast
  have "host_step w alias d' (d'\<lparr>dm_event_cursors := hm_insert alias (epoch, n) (dm_event_cursors d')\<rparr>)"
    by (rule mirror_part_step[OF _ host_step_scope[OF d'(2)]]) (simp add: mirror_part_def)
  from host_step_trans[OF d'(2) this] d'(1) host_step_refl[OF scope] show ?thesis
    by (simp add: take_stream_event_def)
qed


section \<open>A snapshot is what is shown of the host\<close>

definition hosted_runs :: "string \<Rightarrow> daemon \<Rightarrow> agent_run set" where
  "hosted_runs alias d = {run. \<exists>i. hm_get (dm_agent_hosts d) i = Some alias
     \<and> map_option rec_run (hm_get (rt_agents (dm_runtime d)) i) = Some run}"

definition hosted_requests :: "string \<Rightarrow> daemon \<Rightarrow> permission_request set" where
  "hosted_requests alias d = {q. \<exists>i. hm_get (dm_permission_hosts d) i = Some alias
     \<and> hm_get (dm_permissions d) i = Some q}"

lemma mirror_agents_fold:
  assumes "distinct (List.map ar_id runs)" "\<forall>run \<in> set runs. ar_project_id run \<in> p_id ` set ps"
    and "\<forall>run \<in> set runs. \<forall>r. hm_get (rt_agents (dm_runtime d)) (ar_id run) = Some r
       \<longrightarrow> ar_project_id (rec_run r) = ar_project_id run"
  shows "map_option rec_run (hm_get (rt_agents (dm_runtime (fold (mirror_agent alias ps) runs d))) i)
       = (case map_of (List.map (\<lambda>run. (ar_id run, run)) runs) i of Some run \<Rightarrow> Some run
          | None \<Rightarrow> map_option rec_run (hm_get (rt_agents (dm_runtime d)) i))" (is "?agents d runs")
    and "hm_get (dm_agent_hosts (fold (mirror_agent alias ps) runs d)) i
       = (if i \<in> ar_id ` set runs then Some alias else hm_get (dm_agent_hosts d) i)" (is "?hosts d runs")
proof -
  have "?agents d runs \<and> ?hosts d runs" using assms
  proof (induction runs arbitrary: d)
    case (Cons run runs)
    have "find (\<lambda>p. p_id p = ar_project_id run) (rev ps) \<noteq> None"
      using Cons.prems(2) by (auto simp: find_None_iff)
    then obtain p where p: "find (\<lambda>p. p_id p = ar_project_id run) (rev ps) = Some p" by blast
    define d1 where "d1 = mirror_agent alias ps run d"
    have put: "rt_agents (dm_runtime d1) = hm_insert (ar_id run) \<lparr>rec_run = run, rec_project_root = p_root p,
        rec_messages = (case hm_get (rt_agents (dm_runtime d)) (ar_id run) of None \<Rightarrow> [] | Some r \<Rightarrow> rec_messages r),
        rec_failure = None\<rparr> (rt_agents (dm_runtime d))"
      "dm_agent_hosts d1 = hm_insert (ar_id run) alias (dm_agent_hosts d)"
      using Cons.prems(3) p
      by (auto simp: d1_def mirror_agent_def Let_def is_some_and_iff on_runtime_def put_record_def)
    have dis: "\<forall>x \<in> set runs. ar_id x \<noteq> ar_id run" using Cons.prems(1) by (simp add: image_iff) metis
    have no: "map_of (List.map (\<lambda>run. (ar_id run, run)) runs) (ar_id run) = None"
      using dis by (auto simp: map_of_eq_None_iff)
    have "?agents d1 runs \<and> ?hosts d1 runs"
      using Cons.prems dis by (intro Cons.IH) (simp_all add: put hm.get_ins)
    then show ?case using no by (auto simp: put hm.get_ins d1_def[symmetric] split: option.split)
  qed simp
  then show "?agents d runs" "?hosts d runs" by blast+
qed

lemma mirror_permissions_fold:
  assumes "distinct (List.map pq_id qs)"
    and "\<forall>q \<in> set qs. \<forall>old. hm_get (dm_permissions d) (pq_id q) = Some old \<longrightarrow> pq_project_id old = pq_project_id q"
  shows "hm_get (dm_permissions (fold (mirror_permission alias) qs d)) i
       = (case map_of (List.map (\<lambda>q. (pq_id q, q)) qs) i of Some q \<Rightarrow> Some q
          | None \<Rightarrow> hm_get (dm_permissions d) i)" (is "?requests d qs")
    and "hm_get (dm_permission_hosts (fold (mirror_permission alias) qs d)) i
       = (if i \<in> pq_id ` set qs then Some alias else hm_get (dm_permission_hosts d) i)" (is "?hosts d qs")
proof -
  have "?requests d qs \<and> ?hosts d qs" using assms
  proof (induction qs arbitrary: d)
    case (Cons q qs)
    define d1 where "d1 = mirror_permission alias q d"
    have put: "dm_permissions d1 = hm_insert (pq_id q) q (dm_permissions d)"
      "dm_permission_hosts d1 = hm_insert (pq_id q) alias (dm_permission_hosts d)"
      using Cons.prems(2) by (auto simp: d1_def mirror_permission_def is_some_and_iff)
    have dis: "\<forall>x \<in> set qs. pq_id x \<noteq> pq_id q" using Cons.prems(1) by (simp add: image_iff) metis
    have no: "map_of (List.map (\<lambda>q. (pq_id q, q)) qs) (pq_id q) = None"
      using dis by (auto simp: map_of_eq_None_iff)
    have "?requests d1 qs \<and> ?hosts d1 qs"
      using Cons.prems dis by (intro Cons.IH) (simp_all add: put hm.get_ins)
    then show ?case using no by (auto simp: put hm.get_ins d1_def[symmetric] split: option.split)
  qed simp
  then show "?requests d qs" "?hosts d qs" by blast+
qed

lemma permissions_frame:
  "dm_runtime (drop_stale_permissions alias listed d) = dm_runtime d"
  "dm_agent_hosts (drop_stale_permissions alias listed d) = dm_agent_hosts d"
  "dm_runtime (fold (mirror_permission alias) qs d) = dm_runtime d"
  "dm_agent_hosts (fold (mirror_permission alias) qs d) = dm_agent_hosts d"
proof -
  show "dm_runtime (drop_stale_permissions alias listed d) = dm_runtime d"
    "dm_agent_hosts (drop_stale_permissions alias listed d) = dm_agent_hosts d"
    by (simp_all add: drop_stale_permissions_def Let_def)
  show "dm_runtime (fold (mirror_permission alias) qs d) = dm_runtime d"
    "dm_agent_hosts (fold (mirror_permission alias) qs d) = dm_agent_hosts d"
    by (induction qs arbitrary: d) (simp_all add: mirror_permission_def)
qed

lemma agents_frame:
  "dm_permissions (drop_stale_agents alias listed d) = dm_permissions d"
  "dm_permission_hosts (drop_stale_agents alias listed d) = dm_permission_hosts d"
  "dm_permissions (fold (mirror_agent alias ps) runs d) = dm_permissions d"
  "dm_permission_hosts (fold (mirror_agent alias ps) runs d) = dm_permission_hosts d"
proof -
  show "dm_permissions (drop_stale_agents alias listed d) = dm_permissions d"
    "dm_permission_hosts (drop_stale_agents alias listed d) = dm_permission_hosts d"
    by (simp_all add: drop_stale_agents_def Let_def on_runtime_def)
  show "dm_permissions (fold (mirror_agent alias ps) runs d) = dm_permissions d"
    "dm_permission_hosts (fold (mirror_agent alias ps) runs d) = dm_permission_hosts d"
    by (induction runs arbitrary: d) (simp_all add: mirror_agent_def Let_def on_runtime_def split: option.split)
qed

lemma map_of_ids: "distinct (List.map f xs) \<Longrightarrow> map_of (List.map (\<lambda>x. (f x, x)) xs) k = Some x \<longleftrightarrow> x \<in> set xs \<and> f x = k"
  by (induction xs) (auto simp: image_iff split: if_splits)

lemma map_of_ids_None: "map_of (List.map (\<lambda>x. (f x, x)) xs) k = None \<longleftrightarrow> k \<notin> f ` set xs"
  by (auto simp: map_of_eq_None_iff image_iff)

text \<open>A snapshot lists no identifier twice, and an agent or a request is not of another project than before.\<close>

definition snapshot_ids :: "snapshot \<Rightarrow> bool" where
  "snapshot_ids sn \<longleftrightarrow> distinct (List.map ar_id (sn_agents sn)) \<and> distinct (List.map pq_id (sn_permissions sn))
     \<and> distinct (List.map rel_id (sn_releases sn)) \<and> distinct (List.map t_id (sn_tasks sn))"

definition same_projects :: "daemon \<Rightarrow> snapshot \<Rightarrow> bool" where
  "same_projects d sn \<longleftrightarrow>
     (\<forall>run \<in> set (sn_agents sn). \<forall>r. hm_get (rt_agents (dm_runtime d)) (ar_id run) = Some r
        \<longrightarrow> ar_project_id (rec_run r) = ar_project_id run)
     \<and> (\<forall>q \<in> set (sn_permissions sn). \<forall>old. hm_get (dm_permissions d) (pq_id q) = Some old
        \<longrightarrow> pq_project_id old = pq_project_id q)"

lemma mirror_sessions_shows:
  fixes w "alias" ps sn d
  assumes scope: "host_scope w alias d" and ids: "snapshot_ids sn" and same: "same_projects d sn"
  defines "pids \<equiv> List.map p_id ps" and "d' \<equiv> mirror_sessions alias ps sn d"
  shows "hosted_runs alias d' = set (listed_agents pids sn)"
    and "hosted_requests alias d' = set (List.filter (\<lambda>q. pq_project_id q \<in> set pids) (sn_permissions sn))"
    and "rt_tasks (dm_runtime d') = rt_tasks (dm_runtime d)" "rt_releases (dm_runtime d') = rt_releases (dm_runtime d)"
    and "rt_projects (dm_runtime d') = rt_projects (dm_runtime d)"
proof -
  define runs where "runs = listed_agents pids sn"
  define asked where "asked = List.filter (\<lambda>q. pq_project_id q \<in> set pids) (sn_permissions sn)"
  define d1 where "d1 = drop_stale_agents alias (List.map ar_id runs) d"
  define d2 where "d2 = fold (mirror_agent alias ps) runs d1"
  define d3 where "d3 = drop_stale_permissions alias (List.map pq_id asked) d2"
  define d4 where "d4 = fold (mirror_permission alias) asked d3"
  have d': "d' = mirror_attention alias pids (List.map ar_id runs) sn d4"
    by (simp add: d'_def mirror_sessions_def Let_def d4_def d3_def d2_def d1_def asked_def runs_def pids_def)
  have part: "mirror_part d' = mirror_part d4"
    by (simp add: d' mirror_part_def mirror_attention_def Let_def on_runtime_def)
  note ok = host_scopeD(3,4)[OF scope]
  have agents1: "hm_get (rt_agents (dm_runtime d1)) i = (if hm_get (dm_agent_hosts d) i = Some alias \<and> i \<notin> ar_id ` set runs
      then None else hm_get (rt_agents (dm_runtime d)) i)"
    "hm_get (dm_agent_hosts d1) i = (if hm_get (dm_agent_hosts d) i = Some alias \<and> i \<notin> ar_id ` set runs
      then None else hm_get (dm_agent_hosts d) i)" for i
    by (simp_all add: d1_def drop_stale_agents_def Let_def on_runtime_def hm_fold_remove hosted_ids_iff ok)
  have sub: "set runs \<subseteq> set (sn_agents sn)" "distinct (List.map ar_id runs)"
    "\<forall>run \<in> set runs. ar_project_id run \<in> p_id ` set ps"
    using ids by (auto simp: runs_def listed_agents_def pids_def snapshot_ids_def distinct_map_filter)
  have still: "\<forall>run \<in> set runs. \<forall>r. hm_get (rt_agents (dm_runtime d1)) (ar_id run) = Some r
      \<longrightarrow> ar_project_id (rec_run r) = ar_project_id run"
    using same sub(1) by (auto simp: agents1 same_projects_def)
  note agents2 = mirror_agents_fold[OF sub(2,3) still, of "alias", folded d2_def]
  have "hosted_runs alias d2 = set runs"
    using sub(2) by (auto simp: hosted_runs_def agents2 agents1 map_of_ids[OF sub(2)] map_of_ids_None distinct_map
        split: option.split) (metis inj_onD)
  moreover have "dm_runtime d4 = dm_runtime d2" "dm_agent_hosts d4 = dm_agent_hosts d2"
    by (simp_all add: d4_def d3_def permissions_frame)
  ultimately show "hosted_runs alias d' = set (listed_agents pids sn)"
    using part by (simp add: hosted_runs_def mirror_part_def runs_def)
  have requests3: "hm_get (dm_permissions d3) i = (if hm_get (dm_permission_hosts d) i = Some alias \<and> i \<notin> pq_id ` set asked
      then None else hm_get (dm_permissions d) i)"
    "hm_get (dm_permission_hosts d3) i = (if hm_get (dm_permission_hosts d) i = Some alias \<and> i \<notin> pq_id ` set asked
      then None else hm_get (dm_permission_hosts d) i)" for i
    by (simp_all add: d3_def drop_stale_permissions_def Let_def hm_fold_remove hosted_ids_iff ok d2_def d1_def agents_frame)
  have sub': "set asked \<subseteq> set (sn_permissions sn)" "distinct (List.map pq_id asked)"
    using ids by (auto simp: asked_def snapshot_ids_def distinct_map_filter)
  have still': "\<forall>q \<in> set asked. \<forall>old. hm_get (dm_permissions d3) (pq_id q) = Some old \<longrightarrow> pq_project_id old = pq_project_id q"
    using same sub'(1) by (auto simp: requests3 same_projects_def)
  note requests4 = mirror_permissions_fold[OF sub'(2) still', of "alias", folded d4_def]
  have "hosted_requests alias d4 = set asked"
    using sub'(2) by (auto simp: hosted_requests_def requests4 requests3 map_of_ids[OF sub'(2)] map_of_ids_None
        distinct_map split: option.split) (metis inj_onD)
  then show "hosted_requests alias d' = set (List.filter (\<lambda>q. pq_project_id q \<in> set pids) (sn_permissions sn))"
    using part by (simp add: hosted_requests_def mirror_part_def asked_def)
  have "rt_tasks (dm_runtime d2) = rt_tasks (dm_runtime d1)" "rt_releases (dm_runtime d2) = rt_releases (dm_runtime d1)"
    "rt_projects (dm_runtime d2) = rt_projects (dm_runtime d1)"
    unfolding d2_def by (induction runs arbitrary: d1) (simp_all add: mirror_agent_def Let_def on_runtime_def put_record_def split: option.split)
  then show "rt_tasks (dm_runtime d') = rt_tasks (dm_runtime d)" "rt_releases (dm_runtime d') = rt_releases (dm_runtime d)"
    "rt_projects (dm_runtime d') = rt_projects (dm_runtime d)"
    using part \<open>dm_runtime d4 = dm_runtime d2\<close>
    by (simp_all add: mirror_part_def d1_def drop_stale_agents_def Let_def on_runtime_def)
qed

text \<open>A task of the snapshot against the one that is shown: an action under way, or a later revision, stays.\<close>

definition newest :: "task option \<Rightarrow> task \<Rightarrow> task" where
  "newest shown t = (case shown of None \<Rightarrow> t
     | Some old \<Rightarrow> if t_remote_pending old \<or> t_revision t \<le> t_revision old then old else t)"

lemma update_remote_tasks_fold:
  assumes "distinct (List.map t_id ts)"
  shows "hm_get (rt_tasks (fold (update_remote_task w) ts s)) k
     = (case map_of (List.map (\<lambda>t. (t_id t, t)) ts) k of Some t \<Rightarrow> Some (newest (hm_get (rt_tasks s) k) t)
        | None \<Rightarrow> hm_get (rt_tasks s) k)"
    and "rt_agents (fold (update_remote_task w) ts s) = rt_agents s"
    and "rt_releases (fold (update_remote_task w) ts s) = rt_releases s"
proof -
  show "rt_agents (fold (update_remote_task w) ts s) = rt_agents s"
    "rt_releases (fold (update_remote_task w) ts s) = rt_releases s"
    by (induction ts arbitrary: s) (simp_all add: update_remote_task_maps)
  show "hm_get (rt_tasks (fold (update_remote_task w) ts s)) k
     = (case map_of (List.map (\<lambda>t. (t_id t, t)) ts) k of Some t \<Rightarrow> Some (newest (hm_get (rt_tasks s) k) t)
        | None \<Rightarrow> hm_get (rt_tasks s) k)" using assms
  proof (induction ts arbitrary: s)
    case (Cons t ts)
    have one: "hm_get (rt_tasks (update_remote_task w t s)) k
        = (if k = t_id t then Some (newest (hm_get (rt_tasks s) k) t) else hm_get (rt_tasks s) k)"
      by (auto simp: update_remote_task_maps hm.get_ins newest_def is_some_and_iff split: option.split)
    have "t_id t \<notin> t_id ` set ts" using Cons.prems by simp
    then have no: "map_of (List.map (\<lambda>t. (t_id t, t)) ts) (t_id t) = None" by (simp add: map_of_ids_None)
    show ?case using Cons.IH[of "update_remote_task w t s"] Cons.prems no one by (auto split: option.split)
  qed simp
qed

lemma mirror_tasks_shows:
  fixes w pids sn s
  assumes ok: "hm_ok (rt_tasks s)" "hm_ok (rt_releases s)" and ids: "snapshot_ids sn"
  defines "s' \<equiv> mirror_tasks w pids sn s"
  shows "rt_agents s' = rt_agents s"
    and "{r \<in> set (hm_values (rt_releases s')). rel_project_id r \<in> set pids}
      = {r \<in> set (sn_releases sn). rel_project_id r \<in> set pids}"
    and "t \<in> set (sn_tasks sn) \<Longrightarrow> t_project_id t \<in> set pids
      \<Longrightarrow> hm_get (rt_tasks s') (t_id t) = Some (newest (hm_get (rt_tasks s) (t_id t)) t)"
    and "hm_get (rt_tasks s') k = Some t \<Longrightarrow> t_project_id t \<in> set pids \<Longrightarrow> \<not> t_remote_pending t
      \<Longrightarrow> k \<in> t_id ` set (sn_tasks sn)"
proof -
  define ts where "ts = List.filter (\<lambda>t. t_project_id t \<in> set pids) (sn_tasks sn)"
  define rs where "rs = List.filter (\<lambda>r. rel_project_id r \<in> set pids) (sn_releases sn)"
  define kept where "kept = List.filter (\<lambda>(_, r). rel_project_id r \<notin> set pids) (rt_releases s)"
  define s2 where "s2 = listed_tasks pids sn (mirror_releases pids sn s)"
  have s': "s' = fold (update_remote_task w) ts s2"
    by (simp add: s'_def mirror_tasks_def s2_def ts_def listed_tasks_def mirror_releases_def Let_def)
  have dist: "distinct (List.map t_id ts)" "distinct (List.map rel_id rs)"
    using ids by (simp_all add: ts_def rs_def snapshot_ids_def distinct_map_filter)
  note fold = update_remote_tasks_fold[OF dist(1), of w s2, folded s']
  show "rt_agents s' = rt_agents s" by (simp add: fold s2_def listed_tasks_def mirror_releases_def)
  have get2: "hm_get (rt_tasks s2) k = opt_filter (\<lambda>t. t_remote_pending t \<or> t_project_id t \<notin> set pids
      \<or> k \<in> t_id ` set (sn_tasks sn)) (hm_get (rt_tasks s) k)" for k
    using hm_get_filter[OF ok(1)]
    by (simp add: s2_def listed_tasks_def mirror_releases_def case_prod_beta del: disj_not1)
  show "t \<in> set (sn_tasks sn) \<Longrightarrow> t_project_id t \<in> set pids
      \<Longrightarrow> hm_get (rt_tasks s') (t_id t) = Some (newest (hm_get (rt_tasks s) (t_id t)) t)"
  proof -
    assume t: "t \<in> set (sn_tasks sn)" "t_project_id t \<in> set pids"
    then have "t \<in> set ts" by (simp add: ts_def)
    then have "map_of (List.map (\<lambda>t. (t_id t, t)) ts) (t_id t) = Some t" by (simp add: map_of_ids[OF dist(1)])
    moreover have "hm_get (rt_tasks s2) (t_id t) = hm_get (rt_tasks s) (t_id t)"
      using t(1) by (simp add: get2 opt_filter_def split: option.split)
    ultimately show ?thesis by (simp add: fold)
  qed
  show "hm_get (rt_tasks s') k = Some t \<Longrightarrow> t_project_id t \<in> set pids \<Longrightarrow> \<not> t_remote_pending t
      \<Longrightarrow> k \<in> t_id ` set (sn_tasks sn)"
  proof (cases "map_of (List.map (\<lambda>t. (t_id t, t)) ts) k")
    case None
    then show "hm_get (rt_tasks s') k = Some t \<Longrightarrow> t_project_id t \<in> set pids \<Longrightarrow> \<not> t_remote_pending t
      \<Longrightarrow> k \<in> t_id ` set (sn_tasks sn)" by (auto simp: fold get2 opt_filter_Some_iff)
  next
    case (Some x)
    then have "x \<in> set ts" "t_id x = k" by (simp_all add: map_of_ids[OF dist(1)])
    then show "k \<in> t_id ` set (sn_tasks sn)" by (auto simp: ts_def)
  qed
  have fr: "hm_get (fold (\<lambda>r. hm_insert (rel_id r) r) xs m) k
      = (case map_of (List.map (\<lambda>r. (rel_id r, r)) xs) k of Some r \<Rightarrow> Some r | None \<Rightarrow> hm_get m k)"
    if "distinct (List.map rel_id xs)" for xs m k using that
  proof (induction xs arbitrary: m)
    case (Cons r xs)
    then have "map_of (List.map (\<lambda>r. (rel_id r, r)) xs) (rel_id r) = None" by (simp add: map_of_ids_None)
    with Cons show ?case by (auto simp: hm.get_ins split: option.split)
  qed simp
  have rel: "rt_releases s' = fold (\<lambda>r. hm_insert (rel_id r) r) rs kept"
    by (simp add: fold s2_def listed_tasks_def mirror_releases_def rs_def kept_def)
  have okk: "hm_ok kept" by (simp add: kept_def hm_ok_filter[OF ok(2)])
  have getk: "hm_get kept k = Some r \<Longrightarrow> rel_project_id r \<notin> set pids" for k r
    by (simp add: kept_def hm_get_filter[OF ok(2)] case_prod_beta opt_filter_Some_iff)
  have rsm: "r \<in> set rs \<longleftrightarrow> r \<in> set (sn_releases sn) \<and> rel_project_id r \<in> set pids" for r
    by (auto simp: rs_def)
  have "r \<in> set (hm_values (rt_releases s')) \<and> rel_project_id r \<in> set pids \<longleftrightarrow> r \<in> set rs" for r
    unfolding rel hm.vals_iff[OF hm_ok_fold_insert[OF okk]] fr[OF dist(2)]
  proof
    assume "r \<in> set rs"
    then have "map_of (List.map (\<lambda>r. (rel_id r, r)) rs) (rel_id r) = Some r" by (simp add: map_of_ids[OF dist(2)])
    then show "(\<exists>k. (case map_of (List.map (\<lambda>r. (rel_id r, r)) rs) k of None \<Rightarrow> hm_get kept k | Some r \<Rightarrow> Some r) = Some r)
        \<and> rel_project_id r \<in> set pids" using \<open>r \<in> set rs\<close> rsm by (auto intro!: exI[of _ "rel_id r"])
  qed (auto simp: map_of_ids[OF dist(2)] dest: getk split: option.splits)
  then show "{r \<in> set (hm_values (rt_releases s')). rel_project_id r \<in> set pids}
      = {r \<in> set (sn_releases sn). rel_project_id r \<in> set pids}" using rsm by blast
qed

definition rest_part where
  "rest_part d = (rt_agents (dm_runtime d), rt_tasks (dm_runtime d), rt_releases (dm_runtime d),
     dm_permissions d, dm_agent_hosts d, dm_permission_hosts d, dm_task_generation d)"

lemma cached_name_rest:
  assumes "cached_name w alias incoming d = Some d'" shows "rest_part d' = rest_part d"
proof -
  have st: "rest_part (d\<lparr>dm_runtime := s'\<rparr>) = rest_part d \<and> rest_part (tell w (ProjectChanged p)
      (d\<lparr>dm_runtime := s'\<lparr>rt_projects := m\<rparr>\<rparr>)) = rest_part d"
    if "with_store f (dm_runtime d) = (r, s')" for f :: "store \<Rightarrow> (unit, store_error) result \<times> store" and r s' p m
    using that by (auto simp: rest_part_def with_store_def Let_def on_runtime_def broadcast_def split: prod.splits)
  show ?thesis using assms
    by (auto simp: cached_name_def cache_remote_project_name_def Let_def st
        split: option.splits if_splits prod.splits sum.splits)
qed

lemma cached_names_rest: "fold_opt (cached_name w alias) ps d = Some d' \<Longrightarrow> rest_part d' = rest_part d"
  by (induction ps arbitrary: d) (auto simp: bind_eq_Some_conv dest: cached_name_rest)

lemma host_projects_iff: "pid \<in> set (List.map p_id (host_projects alias s)) \<longleftrightarrow> on_host alias pid s"
  by (auto simp: host_projects_def on_host_def any_project_def list_ex_iff)


end
