(* ===== verification/Session_Requests.thy ===== *)
theory Session_Requests
  imports Session_End Board_Properties
begin

text \<open>
  What the requests on sessions guarantee: a client that reconnects, the deletion of a project, and
  two races the code loses.
\<close>

section \<open>Reconnecting\<close>

definition numbered :: "server_event list \<Rightarrow> (nat \<times> server_event) list" where
  \<comment> \<open>the complete log of a daemon that has broadcast these events since it started\<close>
  "numbered evs = List.map (\<lambda>j. (Suc j, evs ! j)) [0..<length evs]"

lemma numbered_snoc: "numbered (evs @ [ev]) = numbered evs @ [(Suc (length evs), ev)]"
  by (simp add: numbered_def nth_append)

lemma numbered_length [simp]: "length (numbered evs) = length evs"
  by (simp add: numbered_def)

lemma broadcast_event_next: "rt_next_sequence (broadcast_event w ev s) = Suc (rt_next_sequence s)"
  by (simp add: broadcast_event_def Let_def split: prod.split)

lemma broadcast_event_log:
  assumes "replay_ok w s" and "rt_replay s = drop k (numbered evs)" and "rt_next_sequence s = Suc (length evs)"
    and "k \<le> length evs"
  shows "\<exists>m \<le> Suc (length evs). rt_replay (broadcast_event w ev s) = drop m (numbered (evs @ [ev]))"
proof -
  let ?len = "\<lambda>(k, e). w_line_len w k e" and ?n = "rt_next_sequence s"
  let ?xs = "rt_replay s @ [(?n, ev)]"
  obtain ys b where e: "evict ?len ?xs (rt_replay_bytes s + w_line_len w ?n ev) = (ys, b)" by fastforce
  have "rt_replay_bytes s + w_line_len w ?n ev = sum_list (List.map ?len ?xs)"
    using assms by (simp add: replay_ok_def)
  from evict_suffix[OF this e] obtain j where j: "j \<le> length ?xs" "ys = drop j ?xs" by blast
  have "?xs = drop k (numbered (evs @ [ev]))" using assms by (simp add: numbered_snoc)
  then have "ys = drop (j + k) (numbered (evs @ [ev]))" using j(2) by (simp only: drop_drop)
  moreover have "j + k \<le> Suc (length evs)" using j(1) assms(2,4) by simp
  moreover have "rt_replay (broadcast_event w ev s) = ys" using e by (simp add: broadcast_event_def Let_def)
  ultimately show ?thesis by blast
qed

lemma log_after:
  assumes "rt_replay s = []" and "rt_replay_bytes s = 0" and "rt_next_sequence s = 1"
  shows "replay_ok w (fold (broadcast_event w) evs s)
    \<and> rt_next_sequence (fold (broadcast_event w) evs s) = Suc (length evs)
    \<and> (\<exists>k \<le> length evs. rt_replay (fold (broadcast_event w) evs s) = drop k (numbered evs))"
proof (induction evs rule: rev_induct)
  case Nil then show ?case using assms by (simp add: replay_ok_def numbered_def)
next
  case (snoc ev evs)
  let ?s = "fold (broadcast_event w) evs s"
  from snoc obtain k where "k \<le> length evs" "rt_replay ?s = drop k (numbered evs)" by blast
  moreover note snoc
  ultimately have "replay_ok w (broadcast_event w ev ?s)"
    "\<exists>m \<le> Suc (length evs). rt_replay (broadcast_event w ev ?s) = drop m (numbered (evs @ [ev]))"
    using broadcast_event_log[of w ?s k evs ev] replay_ok_event[of w ?s ev] by blast+
  with snoc show ?case by (simp add: broadcast_event_next)
qed

lemma numbered_since: "List.filter (\<lambda>(m, _). n < m) (drop k (numbered evs)) = drop (max n k) (numbered evs)"
proof -
  have at: "numbered evs ! j = (Suc j, evs ! j)" if "j < length evs" for j
    using that by (simp add: numbered_def)
  have "List.filter (\<lambda>(m, _). n < m) (drop j (numbered evs)) = drop (max n j) (numbered evs)"
    if "length evs - j = c" for c j
    using that
  proof (induction c arbitrary: j)
    case 0 then show ?case by simp
  next
    case (Suc c)
    then have j: "j < length evs" by simp
    have d: "drop j (numbered evs) = (Suc j, evs ! j) # drop (Suc j) (numbered evs)"
      using j at[OF j] Cons_nth_drop_Suc[of j "numbered evs"] by simp
    have "List.filter (\<lambda>(m, _). n < m) (drop (Suc j) (numbered evs)) = drop (max n (Suc j)) (numbered evs)"
      using Suc by (intro Suc.IH) simp
    then show ?case using d by (cases "n < Suc j") (auto simp: max_def less_Suc_eq_le)
  qed
  then show ?thesis by simp
qed

text \<open>C16: a client that disconnected after the n-th event and reconnects is sent exactly the events
  it missed, in order, so that it holds the same log as a client that stayed, as long as the daemon
  has not restarted and the buffer reaches back to the event after n; otherwise it is sent one
  snapshot, which stands for all events so far.\<close>

theorem reconnect_equals_staying:
  assumes "rt_replay s0 = []" and "rt_replay_bytes s0 = 0" and "rt_next_sequence s0 = 1"
    and d: "dm_runtime d = fold (broadcast_event w) evs s0" and "n \<le> length evs"
  shows "let sent = subscribe_since w (Some (epoch, n)) d in
    if epoch = dm_instance d \<and> length evs \<le> n + length (rt_replay (dm_runtime d))
    then take n (numbered evs) @ List.map snd sent = numbered evs \<and> fst ` set sent \<subseteq> {dm_instance d}
    else sent = [(dm_instance d, length evs, SnapshotReplaced (daemon_snapshot w d))]"
proof -
  from log_after[OF assms(1-3), of w evs] obtain k where ok: "rt_next_sequence (dm_runtime d) = Suc (length evs)"
    and k: "k \<le> length evs" "rt_replay (dm_runtime d) = drop k (numbered evs)" unfolding d by blast
  have first: "(case rt_replay (dm_runtime d) of [] \<Rightarrow> n = length evs | (first, _) # _ \<Rightarrow> first \<le> n + 1) \<longleftrightarrow> k \<le> n"
  proof (cases "k < length evs")
    case True
    then have "drop k (numbered evs) = (Suc k, evs ! k) # drop (Suc k) (numbered evs)"
      using Cons_nth_drop_Suc[of k "numbered evs"] by (simp add: numbered_def)
    then show ?thesis by (simp add: k(2))
  next
    case False with k assms(5) show ?thesis by auto
  qed
  have reach: "length evs \<le> n + length (rt_replay (dm_runtime d)) \<longleftrightarrow> k \<le> n" using k assms(5) by auto
  have can: "can_replay (Some (epoch, n)) d \<longleftrightarrow> epoch = dm_instance d \<and> k \<le> n"
    unfolding can_replay_def Let_def ok is_some_and_def diff_Suc_1 using assms(5) first by simp
  show ?thesis
  proof (cases "epoch = dm_instance d \<and> k \<le> n")
    case True
    then have go: "can_replay (Some (epoch, n)) d" and mx: "max n k = n" using can by simp_all
    have "subscribe_since w (Some (epoch, n)) d = List.map (\<lambda>(m, ev). (dm_instance d, m, ev)) (drop n (numbered evs))"
      using go by (simp add: subscribe_since_def Let_def k(2) numbered_since mx)
    with True show ?thesis unfolding Let_def reach by (auto simp: o_def case_prod_unfold)
  next
    case False
    then have "\<not> can_replay (Some (epoch, n)) d" using can by simp
    then show ?thesis unfolding Let_def reach if_not_P[OF False] by (simp add: subscribe_since_def ok Let_def)
  qed
qed

definition sample_daemon :: "runtime \<Rightarrow> daemon" where
  "sample_daemon s = \<lparr>dm_runtime = s, dm_instance = 9, dm_permissions = [], dm_permission_agents = [],
     dm_turns = [], dm_streams = [], dm_launching = [], dm_terminals = [], dm_terminal_by_project = [],
     dm_agent_hosts = [], dm_terminal_hosts = [], dm_attention_hosts = [], dm_permission_hosts = [],
     dm_epochs = [], dm_event_cursors = [], dm_task_generation = [], dm_connection_states = []\<rparr>"

lemma sample_daemon_simps [simp]:
  "dm_runtime (sample_daemon s) = s" "dm_instance (sample_daemon s) = 9" "dm_permissions (sample_daemon s) = []"
  "dm_turns (sample_daemon s) = []" "dm_launching (sample_daemon s) = []" "dm_agent_hosts (sample_daemon s) = []"
  "dm_terminal_by_project (sample_daemon s) = []"
  by (simp_all add: sample_daemon_def)

theorem reconnect_equals_staying_witness:
  "let d = sample_daemon (fold (broadcast_event sample_world) [AttentionDismissed 1, AttentionDismissed 2]
      (sample_runtime sample_task [])) in
    subscribe_since sample_world (Some (9, 1)) d = [(9, 2, AttentionDismissed 2)]"
proof -
  let ?evs = "[AttentionDismissed 1, AttentionDismissed 2]"
  let ?s = "fold (broadcast_event sample_world) ?evs (sample_runtime sample_task [])"
  let ?sent = "subscribe_since sample_world (Some (9, 1)) (sample_daemon ?s)"
  have k: "length (rt_replay ?s) = 2"
    by (simp add: broadcast_event_def replay_limit_def replay_byte_limit_def Let_def)
  have "take 1 (numbered ?evs) @ List.map snd ?sent = numbered ?evs \<and> fst ` set ?sent \<subseteq> {9}"
    using reconnect_equals_staying[of "sample_runtime sample_task []" "sample_daemon ?s" sample_world ?evs 1 9] k
    by (simp add: Let_def)
  then have "List.map snd ?sent = [(2, AttentionDismissed 2)]" "fst ` set ?sent \<subseteq> {9}"
    by (simp_all add: numbered_def upt_rec)
  then have "?sent = [(9, 2, AttentionDismissed 2)]" by (cases ?sent) auto
  then show ?thesis by (simp add: Let_def)
qed

section \<open>Deleting a project\<close>

lemma broadcast_deleted [simp]:
  "broadcast w (ProjectDeleted pid) s = broadcast_event w (ProjectDeleted pid) s"
  "broadcast w (AgentDeleted i) s = broadcast_event w (AgentDeleted i) s"
  by (simp_all add: broadcast_def)

definition of_project :: "runtime \<Rightarrow> project_id \<Rightarrow> agent_id \<Rightarrow> bool" where
  "of_project s pid i \<longleftrightarrow> is_some_and (hm_get (rt_agents s) i) (\<lambda>r. ar_project_id (rec_run r) = pid)"

lemma project_agents_iff:
  assumes "hm_ok (rt_agents s)" and "hm_keyed (\<lambda>r. ar_id (rec_run r)) (rt_agents s)"
  shows "i \<in> set (project_agents s pid) \<longleftrightarrow> of_project s pid i"
proof -
  have "i \<in> set (project_agents s pid) \<longleftrightarrow>
    (\<exists>r \<in> set (hm_values (rt_agents s)). ar_project_id (rec_run r) = pid \<and> ar_id (rec_run r) = i)"
    by (auto simp: project_agents_def)
  also have "\<dots> \<longleftrightarrow> (\<exists>r. hm_get (rt_agents s) i = Some r \<and> ar_project_id (rec_run r) = pid)"
  proof -
    have "hm_get (rt_agents s) (ar_id (rec_run r)) = Some r" if "r \<in> set (hm_values (rt_agents s))" for r
      using that hm.keyed_by_vals[OF assms] by blast
    moreover have "ar_id (rec_run r) = i \<and> r \<in> set (hm_values (rt_agents s))" if "hm_get (rt_agents s) i = Some r" for r
      using that assms(2) hm_get_in_values[OF that] unfolding hm.keyed_by_def by blast
    ultimately show ?thesis by blast
  qed
  finally show ?thesis by (simp add: of_project_def is_some_and_def split: option.split)
qed

lemma close_terminal_runtime [simp]: "dm_runtime (close_terminal pid d) = dm_runtime d"
  by (simp add: close_terminal_def split: option.split)

lemma with_in_tx:
  assumes "with_store (in_tx stmt) s = (Inr u, s')"
  shows "stmt (st_db (rt_store s)) = Inr (st_db (rt_store s'))"
  using assms by (auto simp: in_tx_def Let_def elim!: with_storeE split: if_splits sum.splits)

lemma with_in_tx_error:
  assumes "with_store (in_tx stmt) s = (Inl e, s')"
  shows "st_db (rt_store s') = st_db (rt_store s)"
  using assms by (auto simp: in_tx_def Let_def elim!: with_storeE split: if_splits sum.splits)

lemma delete_project_cases:
  assumes "with_store (delete_project pid) s = (r, s')"
  obtains e where "r = Inl e" "st_db (rt_store s') = st_db (rt_store s)"
  | "r = Inr ()" "\<forall>r \<in> set (hm_values (db_tasks (st_db (rt_store s)))). tk_project r \<noteq> pid"
    "stmt_delete_project pid (st_db (rt_store s)) = Inr (st_db (rt_store s'))"
proof (cases "\<exists>r \<in> set (hm_values (db_tasks (st_db (rt_store s)))). tk_project r = pid")
  case True
  then have "r = Inl project_has_tasks" "s' = s" using assms by (simp_all add: with_store_def delete_project_def)
  then show ?thesis by (intro that(1)) simp_all
next
  case False
  then have tx: "with_store (in_tx (stmt_delete_project pid)) s = (r, s')"
    using assms by (simp add: with_store_def delete_project_def)
  show ?thesis
  proof (cases r)
    case (Inl e) with tx show ?thesis by (intro that(1)) (simp_all add: with_in_tx_error)
  next
    case (Inr u) with tx False show ?thesis by (intro that(2)) (auto dest: with_in_tx)
  qed
qed

lemma deleted_rows:
  assumes "stmt_delete_project pid db = Inr db'"
  shows "hm_get (db_projects db') pid = None"
    "db' = db\<lparr>db_permissions := db_permissions db', db_attention := db_attention db', db_messages := db_messages db',
       db_agents := db_agents db', db_tasks := List.filter (\<lambda>(_, r). tk_project r \<noteq> pid) (db_tasks db),
       db_releases := db_releases db', db_projects := hm_remove pid (db_projects db)\<rparr>"
    "db_agents db' = List.filter (\<lambda>(_, r). agr_project r \<noteq> pid) (db_agents db)"
    "db_messages db' = List.filter (\<lambda>(a, _). \<not> project_agent db pid (Some a)) (db_messages db)"
    "db_attention db' = List.filter (\<lambda>(_, r). atr_project r \<noteq> Some pid \<and> \<not> project_agent db pid (atr_agent r)) (db_attention db)"
    "db_permissions db' = List.filter (\<lambda>(_, r). pr_project r \<noteq> pid \<and> \<not> project_agent db pid (pr_agent r)) (db_permissions db)"
    "db_releases db' = List.filter (\<lambda>(_, r). rel_project_id r \<noteq> pid) (db_releases db)"
  using assms by (auto simp: stmt_delete_project_def Let_def case_prod_unfold hm_get_remove)

lemma filter_all_values: "\<forall>r \<in> set (hm_values m). P r \<Longrightarrow> List.filter (\<lambda>(_, r). P r) m = m"
  by (auto simp: filter_id_conv hm_values_def)

text \<open>C22: a project is deleted only when none of its agents is active, its board is idle and it has
  no stored task; then it is gone from memory and store alike, with its agents, their children and
  messages, its releases, the notices and permission rows of the project and of its agents, and with
  nothing else: every table and map is the old one without exactly these entries, and the rest of both is
  as before. A refused deletion changes neither.\<close>

theorem project_deletion_clean:
  assumes "delete_project_run w pid d = (res, d')" and "hm_ok (rt_agents (dm_runtime d))"
    and "hm_keyed (\<lambda>r. ar_id (rec_run r)) (rt_agents (dm_runtime d))"
  shows "let s = dm_runtime d; s' = dm_runtime d'; db = st_db (rt_store s); db' = st_db (rt_store s') in
    if res = Accepted
    then \<not> project_in_use s pid \<and> (\<forall>r \<in> set (hm_values (db_tasks db)). tk_project r \<noteq> pid)
      \<and> (\<exists>key p. find (\<lambda>(_, p). p_id p = pid) (rt_projects s) = Some (key, p) \<and> rt_projects s' = hm_remove key (rt_projects s))
      \<and> (\<forall>i. hm_get (rt_agents s') i = (if of_project s pid i then None else hm_get (rt_agents s) i))
      \<and> (\<forall>i. hm_get (rt_children s') i = (if of_project s pid i then None else hm_get (rt_children s) i))
      \<and> rt_attention s' = List.filter (\<lambda>a. at_project_id a \<noteq> Some pid
          \<and> \<not> is_some_and (at_agent_id a) (of_project s pid)) (rt_attention s)
      \<and> rt_releases s' = List.filter (\<lambda>(_, r). rel_project_id r \<noteq> pid) (rt_releases s)
      \<and> rt_tasks s' = rt_tasks s \<and> rt_controls s' = rt_controls s \<and> rt_writer_leases s' = rt_writer_leases s
      \<and> db' = db\<lparr>db_projects := hm_remove pid (db_projects db),
          db_agents := List.filter (\<lambda>(_, r). agr_project r \<noteq> pid) (db_agents db),
          db_messages := List.filter (\<lambda>(a, _). \<not> project_agent db pid (Some a)) (db_messages db),
          db_attention := List.filter (\<lambda>(_, r). atr_project r \<noteq> Some pid \<and> \<not> project_agent db pid (atr_agent r)) (db_attention db),
          db_permissions := List.filter (\<lambda>(_, r). pr_project r \<noteq> pid \<and> \<not> project_agent db pid (pr_agent r)) (db_permissions db),
          db_releases := List.filter (\<lambda>(_, r). rel_project_id r \<noteq> pid) (db_releases db)\<rparr>
    else rt_agents s' = rt_agents s \<and> rt_children s' = rt_children s \<and> rt_projects s' = rt_projects s
      \<and> rt_attention s' = rt_attention s \<and> rt_releases s' = rt_releases s \<and> rt_tasks s' = rt_tasks s \<and> db' = db"
proof -
  let ?s = "dm_runtime d"
  consider (none) "find (\<lambda>(_, p). p_id p = pid) (rt_projects ?s) = None"
    | (busy) key p where "find (\<lambda>(_, p). p_id p = pid) (rt_projects ?s) = Some (key, p)" "project_in_use ?s pid"
    | (idle) key p where "find (\<lambda>(_, p). p_id p = pid) (rt_projects ?s) = Some (key, p)" "\<not> project_in_use ?s pid"
    by (metis option.exhaust prod.exhaust)
  then show ?thesis
  proof cases
    case idle
    obtain r s1 where sv: "with_store (delete_project pid) ?s = (r, s1)" by (metis prod.exhaust)
    note same = with_store_frameD[OF sv]
    show ?thesis
      using delete_project_cases[OF sv]
    proof cases
      case (1 e)
      have "rt_releases s1 = rt_releases ?s" using sv by (auto simp: with_store_def split: prod.splits)
      moreover have "res = ProtocolError ''project_delete_failed'' (store_message e)" "dm_runtime d' = s1"
        using assms(1) idle sv 1(1) by (auto simp: delete_project_run_def Let_def)
      ultimately show ?thesis by (simp add: Let_def same 1(2))
    next
      case 2
      note free = 2(2) and db = 2(3)
      define s2 where "s2 = without_project pid key s1"
      have d': "dm_runtime d' = broadcast_event w (ProjectDeleted pid) s2" "res = Accepted"
        using assms(1) idle sv 2(1) by (auto simp: delete_project_run_def Let_def s2_def)
      have mine: "project_agents s1 pid = project_agents ?s pid" by (simp add: project_agents_def same)
      have gone: "hm_get (rt_agents s2) i = (if of_project ?s pid i then None else hm_get (rt_agents ?s) i)"
        "hm_get (rt_children s2) i = (if of_project ?s pid i then None else hm_get (rt_children ?s) i)" for i
        by (simp_all add: s2_def without_project_def Let_def mine hm_fold_remove same project_agents_iff[OF assms(2,3)])
      have at: "rt_attention s2 = List.filter (\<lambda>a. at_project_id a \<noteq> Some pid
          \<and> \<not> is_some_and (at_agent_id a) (of_project ?s pid)) (rt_attention ?s)"
        by (simp add: s2_def without_project_def Let_def mine same project_agents_iff[OF assms(2,3)] is_some_and_def
            option.case_eq_if)
      have mem: "rt_projects s2 = hm_remove key (rt_projects ?s)"
        "rt_releases s2 = List.filter (\<lambda>(_, r). rel_project_id r \<noteq> pid) (rt_releases ?s)"
        "rt_tasks s2 = rt_tasks ?s" "rt_controls s2 = rt_controls ?s" "rt_writer_leases s2 = rt_writer_leases ?s"
        "rt_store s2 = rt_store s1"
        using sv by (auto simp: s2_def without_project_def Let_def with_store_def split: prod.splits)
      have found: "\<exists>k p. find (\<lambda>(_, p). p_id p = pid) (rt_projects ?s) = Some (k, p) \<and> rt_projects s2 = hm_remove k (rt_projects ?s)"
        using idle(1) mem(1) by blast
      have tasks: "List.filter (\<lambda>(_, r). tk_project r \<noteq> pid) (db_tasks (st_db (rt_store ?s))) = db_tasks (st_db (rt_store ?s))"
        using free by (rule filter_all_values)
      note rows = deleted_rows(2)[OF db, unfolded tasks deleted_rows(3-)[OF db]]
      have all: "st_db (rt_store s2) = (st_db (rt_store ?s))\<lparr>db_projects := hm_remove pid (db_projects (st_db (rt_store ?s))),
          db_agents := List.filter (\<lambda>(_, r). agr_project r \<noteq> pid) (db_agents (st_db (rt_store ?s))),
          db_messages := List.filter (\<lambda>(a, _). \<not> project_agent (st_db (rt_store ?s)) pid (Some a)) (db_messages (st_db (rt_store ?s))),
          db_attention := List.filter (\<lambda>(_, r). atr_project r \<noteq> Some pid \<and> \<not> project_agent (st_db (rt_store ?s)) pid (atr_agent r)) (db_attention (st_db (rt_store ?s))),
          db_permissions := List.filter (\<lambda>(_, r). pr_project r \<noteq> pid \<and> \<not> project_agent (st_db (rt_store ?s)) pid (pr_agent r)) (db_permissions (st_db (rt_store ?s))),
          db_releases := List.filter (\<lambda>(_, r). rel_project_id r \<noteq> pid) (db_releases (st_db (rt_store ?s)))\<rparr>"
        unfolding mem(6) by (subst rows) simp
      show ?thesis unfolding Let_def if_P[OF d'(2)]
        unfolding d'(1) broadcast_event_simps
        by (intro conjI allI) (rule free idle(2) gone mem at found all)+
    qed
  next
    case none
    then have "res \<noteq> Accepted" "d' = d" using assms(1) by (auto simp: delete_project_run_def Let_def)
    then show ?thesis by (simp add: Let_def)
  next
    case busy
    then have "res \<noteq> Accepted" "d' = d" using assms(1) by (auto simp: delete_project_run_def Let_def)
    then show ?thesis by (simp add: Let_def)
  qed
qed

abbreviation idle_session :: daemon where
  "idle_session \<equiv> sample_daemon ((sample_runtime sample_task [(4, spare_agent)])\<lparr>rt_tasks := [],
     rt_store := sample_store\<rparr>)"

lemma idle_session_deleted:
  "fst (delete_project_run sample_world 1 idle_session) = Accepted"
  by (simp add: delete_project_run_def project_in_use_def agent_in_use_def any_task_def hm_values_def
    hm_contains_def hm_get_def spare_agent_def done_agent_def with_store_def delete_project_def in_tx_def
    stmt_delete_project_def sample_store_def empty_database_def Let_def)

theorem project_deletion_clean_witness:
  "hm_get (rt_agents (dm_runtime idle_session)) 4 = Some spare_agent
   \<and> hm_get (rt_agents (dm_runtime (snd (delete_project_run sample_world 1 idle_session)))) 4 = None"
proof -
  let ?s = "dm_runtime idle_session"
  obtain d' where del: "delete_project_run sample_world 1 idle_session = (Accepted, d')"
    using idle_session_deleted by (metis prod.exhaust fst_conv)
  have "hm_ok (rt_agents ?s)" "hm_keyed (\<lambda>r. ar_id (rec_run r)) (rt_agents ?s)"
    by (simp_all add: hm_ok_def hm.keyed_by_def hm_get_def spare_agent_def done_agent_def)
  from project_deletion_clean[OF del this]
  have "hm_get (rt_agents (dm_runtime d')) 4 = (if of_project ?s 1 4 then None else hm_get (rt_agents ?s) 4)"
    unfolding Let_def by simp
  moreover have "of_project ?s 1 4"
    by (simp add: of_project_def is_some_and_def hm_get_def spare_agent_def done_agent_def)
  ultimately have "hm_get (rt_agents (dm_runtime (snd (delete_project_run sample_world 1 idle_session)))) 4 = None"
    unfolding del by simp
  moreover have "hm_get (rt_agents ?s) 4 = Some spare_agent" by (simp add: hm_get_def)
  ultimately show ?thesis by blast
qed

text \<open>
  The tasks of an SSH host's project are only in memory, so they do not stop the deletion; they stay
  in memory and in every later snapshot, although the snapshot leaves the project's releases out.
\<close>

lemma deleted_project_keeps_tasks:
  assumes "delete_project_run w pid d = (Accepted, d')"
  shows "sn_tasks (daemon_snapshot w d') = sn_tasks (daemon_snapshot w d)"
  using assms by (auto simp: delete_project_run_def Let_def daemon_snapshot_def without_project_def
    elim!: with_storeE split: option.splits if_splits prod.splits sum.splits)

section \<open>A prompt that races a deletion\<close>

text \<open>
  A session that is being prompted has no child and is not yet Working, so it can be deleted while the
  prompt looks for the Codex binary. The prompt then indexes the map of agents with an identifier that
  is gone: it panics with the state's lock held.
\<close>

definition ready_env :: launch_env where
  "ready_env = \<lparr>le_canonical = id, le_config = (\<lambda>_. None), le_metadata = (\<lambda>_. None),
     le_is_repository = (\<lambda>_. True), le_executable = (\<lambda>_. True), le_resolve = (\<lambda>_. Some ''codex''),
     le_skills = (\<lambda>_ _. None), le_spawn = (\<lambda>_. SpawnRuns 99), le_run_id = 77\<rparr>"

definition deleting :: "nat \<Rightarrow> daemon \<Rightarrow> daemon" where
  \<comment> \<open>another client deletes the agent while the binary is looked for\<close>
  "deleting n d = (if n = 4 then snd (delete_agent_run sample_world 4 d) else d)"

lemma deleting_removes:
  assumes "hm_get (rt_agents (dm_runtime d)) 4 = Some spare_agent" and "rt_children (dm_runtime d) = []"
    and "st_faults (rt_store (dm_runtime d)) = []"
  shows "hm_get (rt_agents (dm_runtime (deleting 4 d))) 4 = None"
  using assms by (simp add: deleting_def delete_agent_run_def spare_agent_def done_agent_def hm_contains_def
    hm_get_def[of "[]"] with_store_def delete_agent_def in_tx_def stmt_delete_agent_def Let_def hm_get_remove)

lemma prompt_turn_panics:
  assumes "hm_get (rt_agents (dm_runtime d)) 4 = Some spare_agent" and "rt_children (dm_runtime d) = []"
    and "st_faults (rt_store (dm_runtime d)) = []" and "rt_codex_binary (dm_runtime d) = Some b"
  shows "prompt_turn w ready_env deleting 4 p prompt profile g d = None"
  using deleting_removes[OF assms(1-3)] assms(4)
  by (simp add: prompt_turn_def active_codex_binary_def ready_env_def is_some_and_def Let_def)

section \<open>A session at work\<close>

definition busy_agent :: agent_record where
  "busy_agent = done_agent\<lparr>rec_run := (rec_run done_agent)\<lparr>ar_state := AsStopping, ar_task_id := None\<rparr>\<rparr>"

definition busy_child :: active_child where
  "busy_child = \<lparr>ch_run_id = 5, ch_process_group = 50, ch_app_server = True\<rparr>"

abbreviation busy_session :: daemon where
  "busy_session \<equiv> (sample_daemon ((sample_runtime sample_task [(4, busy_agent)])
     \<lparr>rt_children := [(4, busy_child)]\<rparr>))\<lparr>dm_turns := [4]\<rparr>"

theorem replaced_run_silent_witness:
  "\<forall>h. by_others (\<lambda>_ _ d. d) busy_session (snd (turn_thread_run sample_world h (\<lambda>_. None) (\<lambda>_ _ d. d) 4 6
     [\<lparr>tu_event = Some (TurnFailed ''lost''), tu_disconnected = False, tu_exited = False, tu_status = None,
       tu_grace_over = False, tu_waited = None\<rparr>] (new_turn, busy_session)))"
proof (intro allI replaced_run_silent)
  fix x assume "by_others (\<lambda>_ _ d. d) busy_session x"
  then have "x = busy_session"
    unfolding by_others_def by (induction rule: rtranclp_induct) simp_all
  then show "\<not> is_current_run (dm_runtime x) 4 6"
    by (simp add: is_current_run_def is_some_and_def hm_get_def busy_child_def)
qed

theorem finish_agent_settles_witness:
  "\<exists>r'. hm_get (rt_agents (dm_runtime (finish_agent sample_world 4 (Some 5) None busy_session))) 4 = Some r'
     \<and> ar_state (rec_run r') = AsInterrupted"
proof -
  let ?d = "finish_agent sample_world 4 (Some 5) None busy_session"
  have "reports (dm_runtime busy_session) 4 (Some 5)"
    by (simp add: reports_def is_current_run_def is_some_and_def hm_get_def busy_child_def)
  moreover have "hm_get (rt_agents (dm_runtime busy_session)) 4 = Some busy_agent"
    "hm_get (rt_children (dm_runtime busy_session)) 4 = Some busy_child" by (simp_all add: hm_get_def)
  moreover have "ch_app_server busy_child" "permissions_ok busy_session"
    by (simp_all add: busy_child_def permissions_ok_def hm_ok_def hm.keyed_by_def hm_get_def)
  ultimately have "let d' = ?d; s = dm_runtime d' in \<exists>r'. hm_get (rt_agents s) 4 = Some r'
      \<and> ar_state (rec_run r') = settled_state (ar_state (rec_run busy_agent)) None (rec_failure busy_agent \<noteq> None)"
    using finish_agent_settles[of busy_session 4 "Some 5" busy_agent busy_child sample_world None]
    unfolding Let_def by blast
  then show ?thesis by (simp add: Let_def busy_agent_def settled_state_def)
qed

end
