(* ===== verification/Remote_Requests.thy ===== *)
theory Remote_Requests
  imports Remote_Facts Session_Requests
begin

text \<open>
  Renaming of projects, events that are delivered twice, what the checks of identifiers leave open, and
  the facts of \<open>Remote_Facts\<close> at a small daemon with one local and one SSH project.
\<close>

section \<open>Renaming\<close>

lemma upsert_project_row:
  assumes "upsert_project p st = (r, st')"
  shows "r = Inr u \<Longrightarrow> map_option p_name (hm_get (db_projects (st_db st')) (p_id p)) = Some (p_name p)"
    and "r = Inl e \<Longrightarrow> st_db st' = st_db st"
  using assms by (auto simp: upsert_project_def in_tx_def stmt_upsert_project_def Let_def hm.get_ins
      split: if_splits sum.splits option.splits)

lemma save_rename_cases:
  assumes "save_local_project_rename writes p file st = (file', r, st')"
  shows "(r = Ok () \<and> file' = Ok p \<and> map_option p_name (hm_get (db_projects (st_db st')) (p_id p)) = Some (p_name p))
    \<or> (\<exists>e. r = Err e \<and> st_db st' = st_db st
        \<and> (file' = file \<or> (\<exists>e1 e2. e = rename_not_restored e1 e2 \<and> writes 1 = Some e2 \<and> file' = Ok p)))"
proof (cases "upsert_project p st")
  case (Pair ur st2)
  show ?thesis
  proof (cases ur)
    case (Inl e)
    then show ?thesis using assms Pair upsert_project_row(2)[OF Pair Inl]
      by (auto simp: save_local_project_rename_def save_project_config_def split: if_splits sum.splits option.splits)
  next
    case (Inr u)
    then show ?thesis using assms Pair upsert_project_row(1)[OF Pair Inr]
      by (auto simp: save_local_project_rename_def save_project_config_def split: if_splits sum.splits option.splits)
  qed
qed

text \<open>C29: Renaming a local project either changes its file, its row in the store and the project in
  memory to the new name, or it answers with an error and changes none of them; the file alone may
  keep the new name when it could not be restored, and then the error says so.\<close>

theorem rename_all_or_nothing:
  assumes found: "project_by (\<lambda>p. p_id p = pid) (dm_runtime d) = Some p"
    and run: "rename_local w writes pid name file d = (answer, file', d')"
  shows "(answer = ProjectRenamed (p\<lparr>p_name := name\<rparr>) \<and> (p_name p \<noteq> name \<longrightarrow>
        file' = Ok (p\<lparr>p_name := name\<rparr>)
        \<and> map_option p_name (hm_get (db_projects (st_db (rt_store (dm_runtime d')))) pid) = Some name
        \<and> rt_projects (dm_runtime d')
            = hm_insert (root_key w p) (p\<lparr>p_name := name\<rparr>) (rt_projects (dm_runtime d))))
    \<or> (\<exists>e. answer = ProtocolError ''project_rename_failed'' (store_message e)
        \<and> rt_projects (dm_runtime d') = rt_projects (dm_runtime d)
        \<and> st_db (rt_store (dm_runtime d')) = st_db (rt_store (dm_runtime d))
        \<and> (file' = file \<or> (\<exists>e1 e2. e = rename_not_restored e1 e2 \<and> writes 1 = Some e2
             \<and> file' = Ok (p\<lparr>p_name := name\<rparr>))))"
proof (cases "p_name p = name")
  case True
  then show ?thesis using run by (auto simp: rename_local_def Let_def found)
next
  case False
  have pid: "p_id p = pid" using found by (auto simp: project_by_def find_Some_iff)
  have key: "root_key w (p\<lparr>p_name := x\<rparr>) = root_key w p" for x
    by (simp add: root_key_def split: project_execution_target.split)
  obtain f2 r st2 where sv: "save_local_project_rename writes (p\<lparr>p_name := name\<rparr>) file (rt_store (dm_runtime d))
      = (f2, r, st2)" by (metis prod.exhaust)
  from save_rename_cases[OF sv] show ?thesis
  proof
    assume "r = Ok () \<and> f2 = Ok (p\<lparr>p_name := name\<rparr>) \<and> map_option p_name
      (hm_get (db_projects (st_db st2)) (p_id (p\<lparr>p_name := name\<rparr>))) = Some (p_name (p\<lparr>p_name := name\<rparr>))"
    then show ?thesis using run False
      by (intro disjI1) (auto simp: rename_local_def Let_def found sv pid key on_runtime_def broadcast_def)
  next
    assume "\<exists>e. r = Err e \<and> st_db st2 = st_db (rt_store (dm_runtime d))
      \<and> (f2 = file \<or> (\<exists>e1 e2. e = rename_not_restored e1 e2 \<and> writes 1 = Some e2 \<and> f2 = Ok (p\<lparr>p_name := name\<rparr>)))"
    then obtain e where e: "r = Err e" "st_db st2 = st_db (rt_store (dm_runtime d))"
      "f2 = file \<or> (\<exists>e1 e2. e = rename_not_restored e1 e2 \<and> writes 1 = Some e2 \<and> f2 = Ok (p\<lparr>p_name := name\<rparr>))"
      by blast
    have "answer = ProtocolError ''project_rename_failed'' (store_message e)" "file' = f2"
      "d' = d\<lparr>dm_runtime := (dm_runtime d)\<lparr>rt_store := st2\<rparr>\<rparr>"
      using run False e(1) by (simp_all add: rename_local_def Let_def found sv)
    then show ?thesis using e by (intro disjI2 exI[of _ e]) simp
  qed
qed

section \<open>Events delivered again\<close>

lemma stream_event_seen:
  assumes "take_stream_event w alias epoch n ev d = Some d'" "m \<le> n"
  shows "take_stream_event w alias epoch m ev' d' = Some d'"
  using assms by (auto simp: take_stream_event_def is_some_and_iff hm.get_ins split: if_splits)

text \<open>After an event of an epoch, whatever the stream repeats up to that event changes nothing.\<close>

lemma fold_opt_append: "fold_opt f (xs @ ys) d = Option.bind (fold_opt f xs d) (fold_opt f ys)"
  by (induction xs arbitrary: d) (auto split: Option.bind_split)

lemma repeated_events:
  assumes "\<forall>(e, m, _) \<in> set again. e = epoch \<and> m \<le> n"
  shows "fold_opt (\<lambda>(e, m, ev). take_stream_event w alias e m ev) (evs @ [(epoch, n, ev)] @ again) d
    = fold_opt (\<lambda>(e, m, ev). take_stream_event w alias e m ev) (evs @ [(epoch, n, ev)]) d"
proof -
  have "take_stream_event w alias epoch n ev d0 = Some d1
      \<Longrightarrow> fold_opt (\<lambda>(e, m, ev). take_stream_event w alias e m ev) again d1 = Some d1" for d0 d1
    using assms by (induction again) (auto simp: stream_event_seen)
  then show ?thesis by (auto simp: fold_opt_append split: Option.bind_split)
qed

section \<open>What the checks leave open\<close>

text \<open>The project of a task that is replaced or deleted is not looked at, only that of the event.\<close>

lemma event_takes_any_task:
  assumes "on_host alias (t_project_id t) (dm_runtime d)"
    and "hm_get (rt_tasks (dm_runtime d)) (t_id t) = Some old" "\<not> t_remote_pending old" "t_revision old < t_revision t"
  shows "\<exists>d'. forward_remote_event w alias (TaskChanged t) d = Some d'
    \<and> hm_get (rt_tasks (dm_runtime d')) (t_id t) = Some t"
  using assms by (simp add: Let_def next_generation_def newer_task_def on_runtime_def broadcast_def
      update_remote_task_maps is_some_and_iff hm.get_ins)

lemma event_deletes_any_task:
  assumes "on_host alias pid (dm_runtime d)"
    and "hm_get (rt_tasks (dm_runtime d)) i = Some old" "\<not> t_remote_pending old"
  shows "\<exists>d'. forward_remote_event w alias (TaskDeleted i pid) d = Some d'
    \<and> hm_get (rt_tasks (dm_runtime d')) i = None"
  using assms by (simp add: Let_def next_generation_def on_runtime_def broadcast_def is_some_and_iff hm_get_remove)

text \<open>A permission request makes its agent the host's, which the next snapshot removes unless it is listed.\<close>

lemma request_adopts_any_agent:
  assumes "on_host alias (pq_project_id q) (dm_runtime d)" "pq_agent_id q = Some i" "hm_ok (dm_agent_hosts d)"
    and "i \<notin> set listed"
  shows "hm_get (rt_agents (dm_runtime (drop_stale_agents alias listed (take_permission w alias q d)))) i = None"
  using assms by (simp add: drop_stale_agents_def take_permission_def Let_def on_runtime_def hm_fold_remove
      hosted_ids_iff hm.invar_ins hm.get_ins)

text \<open>The poller names the projects before it asks the host: one deleted meanwhile gets its agents back.\<close>

lemma late_snapshot_revives:
  assumes "host_scope w alias d" "snapshot_ids sn" "same_projects d sn"
    and "p \<in> set ps" "\<not> on_host alias (p_id p) (dm_runtime d)"
    and "run \<in> set (sn_agents sn)" "ar_project_id run = p_id p"
  shows "run \<in> hosted_runs alias (mirror_sessions alias ps sn d)"
    and "\<not> on_host alias (ar_project_id run) (dm_runtime (mirror_sessions alias ps sn d))"
  using assms mirror_sessions_shows[OF assms(1-3), of ps]
  by (auto simp: listed_agents_def on_host_def any_project_def)

section \<open>A daemon with a local project and one on an SSH host\<close>

definition ssh_project :: project where
  "ssh_project = sample_project\<lparr>p_id := 2, p_root := ''/r'', p_execution_target := Remote 5 ''h''\<rparr>"

definition mirror_daemon :: daemon where
  "mirror_daemon = sample_daemon ((sample_runtime sample_task [])\<lparr>rt_projects :=
     [(''/p'', sample_project), (''remote://u/r'', ssh_project)]\<rparr>)"

definition host_run :: agent_run where
  "host_run = (rec_run spare_agent)\<lparr>ar_id := 30, ar_project_id := 2\<rparr>"

definition host_snapshot :: snapshot where
  "host_snapshot = \<lparr>sn_event_epoch = 4, sn_event_sequence = 2, sn_remote_hosts = [], sn_projects = [],
     sn_releases = [], sn_tasks = [], sn_agents = [host_run], sn_attention = [], sn_messages = [],
     sn_permissions = []\<rparr>"

lemma sample_project_of_task [simp]: "t_project_id sample_task = 1"
  using new_task_fields[OF sample_new_task] by simp

lemma mirror_daemon_scope: "host_scope sample_world ''h'' mirror_daemon"
  by (simp add: host_scope_def Let_def mirror_daemon_def hm_ok_def hm.keyed_by_def hm_get_def sample_daemon_def
      root_key_def ssh_project_def sample_world_def sample_runtime_def)

lemma mirror_daemon_view:
  "ov_tasks (others_see ''h'' mirror_daemon) k = (if k = t_id sample_task then Some sample_task else None)"
  "ov_releases (others_see ''h'' mirror_daemon) i = None"
  by (simp_all add: others_see_simps outside_def mirror_daemon_def hm_get_def on_host_def any_project_def
      hm_values_def remote_alias_def ssh_project_def sample_runtime_def)



theorem rename_all_or_nothing_witness:
  "case rename_local sample_world (\<lambda>_. None) 1 ''Q'' (Ok sample_project) mirror_daemon of (answer, file, d) \<Rightarrow>
     answer = ProjectRenamed (sample_project\<lparr>p_name := ''Q''\<rparr>) \<and> file = Ok (sample_project\<lparr>p_name := ''Q''\<rparr>)
     \<and> map_option p_name (hm_get (db_projects (st_db (rt_store (dm_runtime d)))) 1) = Some ''Q''"
proof -
  have found: "project_by (\<lambda>p. p_id p = 1) (dm_runtime mirror_daemon) = Some sample_project"
    by (simp add: project_by_def mirror_daemon_def hm_values_def)
  obtain answer config d where run: "rename_local sample_world (\<lambda>_. None) 1 ''Q'' (Ok sample_project) mirror_daemon
      = (answer, config, d)" by (metis prod.exhaust)
  have "\<exists>st. save_local_project_rename (\<lambda>_. None) (sample_project\<lparr>p_name := ''Q''\<rparr>) (Ok sample_project)
      (rt_store (dm_runtime mirror_daemon)) = (Ok (sample_project\<lparr>p_name := ''Q''\<rparr>), Ok (), st)"
    by (simp add: save_local_project_rename_def save_project_config_def is_remote_def upsert_project_def
        in_tx_def stmt_upsert_project_def mirror_daemon_def sample_store_def with_task_def empty_database_def
        hm_values_def split: option.split)
  moreover have name: "p_name sample_project \<noteq> ''Q''" by (simp add: sample_project_def)
  ultimately have "answer = ProjectRenamed (sample_project\<lparr>p_name := ''Q''\<rparr>)"
    using run unfolding rename_local_def Let_def found by auto
  then show ?thesis using rename_all_or_nothing[OF found run] name unfolding run by auto
qed

end
