(* ===== verification/Project_Clone.thy ===== *)
theory Project_Clone
  imports Acceptance_Evidence Remote_Projection Agent_Launch
begin

text \<open>
  Cloning a repository (\<open>crates/ditchd/src/project_clone.rs\<close>): what addresses and folders are accepted,
  what is read from git's output, the thread of a clone, its registration as a project, and the
  requests that start, watch, cancel and retry it. The file system is a map from paths to entries that
  others may change; the process is what the thread observes of it; the parser of addresses is an
  argument.
\<close>

section \<open>Accepted input\<close>

definition valid_host :: "string \<Rightarrow> bool" where
  "valid_host host = (host \<noteq> [] \<and> \<not> starts_with host ''-''
     \<and> list_all (\<lambda>c. ascii_alphanumeric c \<or> c \<in> set ''.-_'') host)"

text \<open>What \<open>url::Url::parse\<close> gives.\<close>

record parsed_url =
  pu_scheme :: string
  pu_host :: "string option"
  pu_username :: string
  pu_password :: "string option"
  pu_query :: "string option"
  pu_fragment :: "string option"
  pu_path :: string

definition invalid_url :: string where
  "invalid_url = ''Use an HTTPS or SSH Git URL without passwords, tokens, query strings, or fragments.''"

definition accepted_url :: "parsed_url \<Rightarrow> bool" where
  "accepted_url u = (\<not> (\<not> is_some_and (pu_host u) valid_host \<or> pu_password u \<noteq> None \<or> pu_query u \<noteq> None
     \<or> pu_fragment u \<noteq> None \<or> pu_scheme u = ''https'' \<and> pu_username u \<noteq> []
     \<or> pu_scheme u = ''ssh'' \<and> pu_username u \<noteq> [] \<and> \<not> valid_host (pu_username u)
     \<or> dropWhile (\<lambda>c. c = CHR ''/'') (pu_path u) = []))"

definition split_once :: "char \<Rightarrow> string \<Rightarrow> (string \<times> string) option" where
  "split_once c v = (if c \<in> set v then Some (takeWhile (\<lambda>x. x \<noteq> c) v, tl (dropWhile (\<lambda>x. x \<noteq> c) v)) else None)"

definition accepted_scp :: "string \<Rightarrow> bool" where
  "accepted_scp v = is_some_and (split_once CHR '':'' v) (\<lambda>(authority, path). let
      (user, host) = unwrap_or (''git'', authority) (split_once CHR ''@'' authority)
    in valid_host user \<and> valid_host host \<and> path \<noteq> [] \<and> \<not> starts_with path ''-'' \<and> \<not> starts_with path ''/''
      \<and> CHR '':'' \<notin> set path \<and> CHR ''?'' \<notin> set path \<and> CHR ''#'' \<notin> set path
      \<and> list_all (\<lambda>p. p \<noteq> [] \<and> p \<noteq> ''.'' \<and> p \<noteq> ''..'') (split_byte CHR ''/'' path))"

definition validate_url :: "(string \<Rightarrow> parsed_url option) \<Rightarrow> string \<Rightarrow> (unit, string) result" where
  "validate_url parse v =
     (if v = [] \<or> 4096 < length v \<or> list_ex (\<lambda>c. control_char c \<or> is_whitespace c) (utf8_chars v)
      then Err invalid_url
      else if starts_with v ''https://'' \<or> starts_with v ''ssh://''
      then (if is_some_and (parse v) accepted_url then Ok () else Err invalid_url)
      else if accepted_scp v then Ok () else Err invalid_url)"

record clone_input =
  ci_url :: string
  ci_parent :: path
  ci_folder :: string
  ci_name :: string

text \<open>The entry of a path, without following it, with its device and number where they can be read.\<close>

datatype disk_entry = DiskDir nat nat | DiskFile nat nat | DiskLink nat nat | DiskDenied

record clone_disk =
  dk_entry :: "path \<Rightarrow> disk_entry option"
  dk_canonical :: "path \<Rightarrow> path option"

definition is_directory :: "disk_entry option \<Rightarrow> bool" where
  "is_directory e = (case e of Some (DiskDir _ _) \<Rightarrow> True | _ \<Rightarrow> False)"

definition path_push :: "path \<Rightarrow> string \<Rightarrow> path" where
  \<comment> \<open>\<open>Path::join\<close>\<close>
  "path_push dir p = (if starts_with p ''/'' then p else if dir = [] then p else join_path dir p)"

definition has_control :: "string \<Rightarrow> bool" where
  "has_control v = list_ex control_char (utf8_chars v)"

definition valid_folder :: "string \<Rightarrow> bool" where
  "valid_folder folder = (\<not> (folder = [] \<or> 255 < length folder \<or> folder = ''.'' \<or> folder = ''..''
     \<or> starts_with folder ''-'' \<or> CHR ''/'' \<in> set folder \<or> CHR 0x5C \<in> set folder \<or> has_control folder))"

definition destination :: "clone_disk \<Rightarrow> clone_input \<Rightarrow> (path, string) result" where
  "destination k i =
     (if blank (ci_name i) \<or> 256 < length (ci_name i) \<or> has_control (ci_name i)
      then Err ''Enter a project name (up to 256 characters).''
      else if \<not> valid_folder (ci_folder i)
      then Err ''Use a single new folder name, without slashes or traversal.''
      else if \<not> starts_with (ci_parent i) ''/''
      then Err ''Choose an absolute destination parent directory.''
      else case dk_canonical k (ci_parent i) of
          None \<Rightarrow> Err ''Destination parent is unavailable. Check its permissions.''
        | Some parent \<Rightarrow>
            if \<not> is_directory (dk_entry k parent) then Err ''Destination parent must be a directory.''
            else Ok (path_push parent (ci_folder i)))"

section \<open>Git's output\<close>

datatype clone_phase = CpValidating | CpCloning | CpCheckout | CpConfiguring | CpCompleted | CpFailed
  | CpCancelled

definition terminal :: "clone_phase \<Rightarrow> bool" where
  "terminal p = (p \<in> {CpCompleted, CpFailed, CpCancelled})"

record clone_status =
  cs_operation_id :: uuid
  cs_destination :: path
  cs_phase :: clone_phase
  cs_percentage :: "8 word option"
  cs_label :: "string option"
  cs_error :: "string option"
  cs_project :: "project option"
  cs_checkout_ready :: bool

definition progress_labels :: "string list" where
  "progress_labels = [''Enumerating objects'', ''Counting objects'', ''Compressing objects'',
     ''Receiving objects'', ''Resolving deltas'', ''Updating files'', ''Filtering content'']"

definition parse_u8 :: "string \<Rightarrow> 8 word option" where
  \<comment> \<open>\<open>str::parse::<u8>\<close>: digits after an optional plus sign, without overflow\<close>
  "parse_u8 v = (let digits = (if starts_with v ''+'' then tl v else v);
       n = foldl (\<lambda>n c. 10 * n + (byte_of c - 48)) 0 digits
     in if digits \<noteq> [] \<and> list_all ascii_digit digits \<and> n < 256 then Some (of_nat n) else None)"

definition strip_prefix :: "string \<Rightarrow> string \<Rightarrow> string option" where
  "strip_prefix p v = (if starts_with v p then Some (drop (length p) v) else None)"

definition progress_of :: "string \<Rightarrow> string \<Rightarrow> (clone_phase \<times> string \<times> 8 word option) option" where
  "progress_of line label = map_option (\<lambda>rest.
      (if label \<in> {''Updating files'', ''Filtering content''} then CpCheckout else CpCloning, label,
       opt_filter (\<lambda>p. p \<le> 100)
         (Option.bind (split_once CHR ''%'' rest) (\<lambda>(n, _). parse_u8 (trim n)))))
    (strip_prefix (label @ '':'') (trim (unwrap_or line (strip_prefix ''remote: '' line))))"

definition progress :: "string \<Rightarrow> (clone_phase \<times> string \<times> 8 word option) option" where
  "progress line = Option.bind (find (\<lambda>label. progress_of line label \<noteq> None) progress_labels) (progress_of line)"

record output_parser =
  op_line :: string
  op_error :: "string option"

definition max_line :: nat where "max_line = 4096"

definition diagnosis :: "string \<Rightarrow> string option" where
  "diagnosis lower =
     (if contains lower ''host key verification failed''
      then Some ''SSH host key verification failed. Verify this host in Terminal before retrying.''
      else if contains lower ''authentication failed'' \<or> contains lower ''permission denied (publickey)''
        \<or> contains lower ''could not read username'' \<or> contains lower ''repository not found''
      then Some ''Git authentication or repository access failed. Check the URL and your existing credential helper or SSH agent in Terminal.''
      else if contains lower ''permission denied'' \<or> contains lower ''no space left''
      then Some ''Git cannot write the checkout. Check destination permissions and free space.''
      else if contains lower ''could not resolve'' \<or> contains lower ''unable to access''
        \<or> contains lower ''connection'' \<or> contains lower ''timed out''
      then Some ''Git could not reach the repository. Check your network, URL, and SSH configuration.''
      else None)"

definition parse_line :: "output_parser \<Rightarrow> clone_status \<Rightarrow> output_parser \<times> clone_status" where
  "parse_line p st = (let line = utf8_lossy (op_line p) in
     (p\<lparr>op_error := opt_or (diagnosis (List.map to_ascii_lower line)) (op_error p)\<rparr>,
      case progress line of None \<Rightarrow> st
      | Some (phase, label, percent) \<Rightarrow>
          st\<lparr>cs_phase := phase, cs_label := Some label, cs_percentage := percent\<rparr>))"

definition feed_byte :: "char \<Rightarrow> output_parser \<times> clone_status \<Rightarrow> output_parser \<times> clone_status" where
  "feed_byte c x = (let (p, st) = x in
     if c = CHR 0x0D \<or> c = CHR 0x0A
     then (let (p, st) = parse_line p st in (p\<lparr>op_line := []\<rparr>, st))
     else if length (op_line p) < max_line then (p\<lparr>op_line := op_line p @ [c]\<rparr>, st)
     else (p, st))"

definition feed :: "string \<Rightarrow> output_parser \<times> clone_status \<Rightarrow> output_parser \<times> clone_status" where
  "feed bytes = fold feed_byte bytes"

section \<open>Running git\<close>

record clone_op =
  co_input :: clone_input
  co_status :: clone_status
  co_cancelled :: bool
  co_owned :: "(path \<times> nat \<times> nat) option"
  co_project :: "project option"

record clone_state =
  cl_op :: clone_op
  cl_disk :: clone_disk
  cl_runtime :: runtime

definition with_status :: "(clone_status \<Rightarrow> clone_status) \<Rightarrow> clone_op \<Rightarrow> clone_op" where
  "with_status f op = op\<lparr>co_status := f (co_status op)\<rparr>"

definition on_status :: "(clone_status \<Rightarrow> clone_status) \<Rightarrow> clone_state \<Rightarrow> clone_state" where
  "on_status f c = c\<lparr>cl_op := with_status f (cl_op c)\<rparr>"

text \<open>
  A wait of git: the reads of its output, whether the deadline has passed, and what \<open>try_wait\<close> says.
  Others take a lock, or change files, at the given moments.
\<close>

datatype wait_answer = StillRunning | GitExited bool | WaitFailed

record git_poll =
  gp_output :: "string list"
  gp_over :: bool
  gp_wait :: wait_answer

datatype git_start = GitStarted | GitMissing | GitRefused | GitUnmonitored

record git_run =
  gr_start :: git_start
  gr_polls :: "git_poll list"
  gr_rest :: "string list"

datatype clone_moment = BeforeReserve | AfterMkdir | DuringClone nat | AfterClone | BeforeFailure | BeforeRemoval
  | BeforeRegistration | DuringVerify nat | AfterVerify

type_synonym clone_others = "clone_moment \<Rightarrow> clone_state \<Rightarrow> clone_state"

definition drain :: "string list \<Rightarrow> output_parser \<times> clone_state \<Rightarrow> output_parser \<times> clone_state" where
  "drain chunks x = (let (p, c) = x; (p, st) = fold feed chunks (p, co_status (cl_op c))
     in (p, on_status (\<lambda>_. st) c))"

definition clone_cancelled :: string where "clone_cancelled = ''Clone cancelled.''"

definition clone_timed_out :: string where
  "clone_timed_out = ''Clone timed out. Check your connection and retry.''"

definition git_failed :: string where
  "git_failed = ''Git clone failed. Check repository access and your Git configuration in Terminal.''"

definition git_unwatched :: string where
  "git_unwatched = ''Unable to monitor Git clone.''"

text \<open>\<open>None\<close>: git is still running when the observations end.\<close>

fun git_loop :: "(nat \<Rightarrow> clone_state \<Rightarrow> clone_state) \<Rightarrow> nat \<Rightarrow> git_poll list \<Rightarrow> output_parser \<times> clone_state \<Rightarrow>
    ((unit, string) result \<times> output_parser \<times> clone_state) option" where
  "git_loop others k [] x = None"
| "git_loop others k (t # ts) x = (let (p, c) = drain (gp_output t) x; c = others k c in
     if co_cancelled (cl_op c) then Some (Err clone_cancelled, p, c)
     else if gp_over t then Some (Err clone_timed_out, p, c)
     else case gp_wait t of
         GitExited ok \<Rightarrow> Some (if ok then Ok () else Err git_failed, p, c)
       | WaitFailed \<Rightarrow> Some (Err git_unwatched, p, c)
       | StillRunning \<Rightarrow> git_loop others (Suc k) ts (p, c))"

definition git_missing :: string where
  "git_missing = ''Git is not installed or is unavailable to Ditch. Install Git and restart the runtime.''"

definition git_refused :: string where
  "git_refused = ''Git could not start. Check executable permissions.''"

definition git_unmonitored :: string where
  "git_unmonitored = ''Cannot monitor Git output.''"

definition explained :: "string option \<Rightarrow> string \<Rightarrow> string" where
  "explained diagnostic e =
     (if e = clone_cancelled \<or> contains e ''timed out'' then e else unwrap_or e diagnostic)"

definition run_git :: "(nat \<Rightarrow> clone_state \<Rightarrow> clone_state) \<Rightarrow> git_run \<Rightarrow> clone_state \<Rightarrow>
    ((unit, string) result \<times> clone_state) option" where
  "run_git others g c = (case gr_start g of
      GitMissing \<Rightarrow> Some (Err git_missing, c)
    | GitRefused \<Rightarrow> Some (Err git_refused, c)
    | GitUnmonitored \<Rightarrow> Some (Err git_unmonitored, c)
    | GitStarted \<Rightarrow> map_option (\<lambda>(r, p, c). let
          (p, c) = drain (gr_rest g) (p, c);
          (p, st) = parse_line p (co_status (cl_op c))
        in (map_err (explained (op_error p)) r, on_status (\<lambda>_. st) c))
        (git_loop others 0 (gr_polls g) (\<lparr>op_line = [], op_error = None\<rparr>, c)))"

section \<open>The thread of a clone\<close>

definition owned_dir :: "clone_disk \<Rightarrow> path \<times> nat \<times> nat \<Rightarrow> bool" where
  "owned_dir k x = (case x of (dir, dev, ino) \<Rightarrow>
     dk_entry k dir = Some (DiskDir dev ino) \<and> dk_canonical k dir = Some dir)"

definition owns_destination :: "clone_disk \<Rightarrow> clone_op \<Rightarrow> bool" where
  "owns_destination k op = is_some_and (co_owned op) (owned_dir k)"

text \<open>
  The creation of the directory: \<open>made\<close> is the identity it gets, or nothing when it cannot be created.
  Its metadata is read in a second step, before which others may change the files (\<open>between\<close>).
\<close>

definition entry_identity :: "disk_entry option \<Rightarrow> (nat \<times> nat) option" where
  "entry_identity x = (case x of
      Some (DiskDir dev ino) \<Rightarrow> Some (dev, ino)
    | Some (DiskFile dev ino) \<Rightarrow> Some (dev, ino)
    | Some (DiskLink dev ino) \<Rightarrow> Some (dev, ino)
    | _ \<Rightarrow> None)"

definition occupied_message :: string where
  "occupied_message = ''Destination already exists. Choose a new folder; Ditch never overwrites it.''"

definition not_created :: string where
  "not_created = ''Cannot create destination. Check parent directory permissions and free space.''"

definition make_dir :: "(nat \<times> nat) option \<Rightarrow> path \<Rightarrow> clone_disk \<Rightarrow> (unit, string) result \<times> clone_disk" where
  "make_dir made dir k = (if dk_entry k dir \<noteq> None then (Err occupied_message, k)
     else case made of None \<Rightarrow> (Err not_created, k)
       | Some (dev, ino) \<Rightarrow> (Ok (), k\<lparr>dk_entry := (dk_entry k)(dir \<mapsto> DiskDir dev ino)\<rparr>))"

definition create_dir :: "(nat \<times> nat) option \<Rightarrow> (clone_disk \<Rightarrow> clone_disk) \<Rightarrow> path \<Rightarrow> clone_disk \<Rightarrow>
    (nat \<times> nat, string) result \<times> clone_disk" where
  "create_dir made between dir k = (case make_dir made dir k of
      (Inl e, k) \<Rightarrow> (Err e, k)
    | (Inr _, k) \<Rightarrow> (ok_or ''Cannot inspect destination.'' (entry_identity (dk_entry (between k) dir)), between k))"

definition reserve :: "(nat \<times> nat) option \<Rightarrow> (clone_state \<Rightarrow> clone_state) \<Rightarrow> path \<Rightarrow> clone_state \<Rightarrow>
    (unit, string) result \<times> clone_state" where
  \<comment> \<open>the operation's lock is held, so that of what others do only the files matter\<close>
  "reserve made others dir c =
     (if co_cancelled (cl_op c) then (Err clone_cancelled, c)
      else case create_dir made (\<lambda>k. cl_disk (others (c\<lparr>cl_disk := k\<rparr>))) dir (cl_disk c) of
          (Inl e, k) \<Rightarrow> (Err e, c\<lparr>cl_disk := k\<rparr>)
        | (Inr (dev, ino), k) \<Rightarrow> (Ok (), c\<lparr>cl_disk := k, cl_op := with_status
            (\<lambda>st. st\<lparr>cs_destination := dir, cs_phase := CpCloning\<rparr>)
            ((cl_op c)\<lparr>co_owned := Some (dir, dev, ino)\<rparr>)\<rparr>))"

definition has_repository :: "clone_disk \<Rightarrow> path \<Rightarrow> bool" where
  "has_repository k dir = is_directory (dk_entry k (path_push dir ''.git''))"

definition destination_changed :: string where
  "destination_changed = ''Clone destination changed or is not a repository; inspect it before retrying.''"

definition keep_checkout :: "time \<Rightarrow> uuid \<Rightarrow> path \<Rightarrow> clone_state \<Rightarrow> (unit, string) result \<times> clone_state" where
  "keep_checkout now fresh dir c =
     (if \<not> owns_destination (cl_disk c) (cl_op c) \<or> \<not> has_repository (cl_disk c) dir
      then (Err destination_changed, c)
      else (Ok (), c\<lparr>cl_op := with_status (\<lambda>st. st\<lparr>cs_checkout_ready := True\<rparr>)
        ((cl_op c)\<lparr>co_project := Some (plain_project now (ci_name (co_input (cl_op c))) dir fresh)\<rparr>)\<rparr>))"

text \<open>
  \<open>fs::remove_dir_all\<close>: everything at and below the path goes, or, when it fails half way, any part of
  it. A link at the path itself is removed and not followed.
\<close>

record removal =
  rv_done :: bool
  rv_removed :: "path \<Rightarrow> bool"

definition at_or_below :: "path \<Rightarrow> path \<Rightarrow> bool" where
  "at_or_below dir p = (p = dir \<or> starts_with p (dir @ ''/''))"

definition remove_dir_all :: "removal \<Rightarrow> path \<Rightarrow> clone_disk \<Rightarrow> bool \<times> clone_disk" where
  "remove_dir_all r dir k = (case dk_entry k dir of
      Some (DiskDir _ _) \<Rightarrow> (rv_done r, k\<lparr>dk_entry := (\<lambda>p.
        if at_or_below dir p \<and> (rv_done r \<or> rv_removed r p) then None else dk_entry k p)\<rparr>)
    | Some (DiskLink _ _) \<Rightarrow>
        (rv_done r, if rv_done r then k\<lparr>dk_entry := (dk_entry k)(dir := None)\<rparr> else k)
    | _ \<Rightarrow> (False, k))"

record clone_env =
  ce_parse :: "string \<Rightarrow> parsed_url option"
  ce_made :: "(nat \<times> nat) option"
  ce_clone :: git_run
  ce_removal :: removal
  ce_fresh :: uuid
  ce_verify :: git_run
  ce_metadata :: "store_error option" \<comment> \<open>the error of \<open>ensure_project_metadata\<close>\<close>
  ce_config :: "store_error option" \<comment> \<open>the error of writing the project's configuration\<close>

definition clone_checkout :: "world \<Rightarrow> clone_env \<Rightarrow> clone_others \<Rightarrow> clone_state \<Rightarrow>
    ((unit, string) result \<times> clone_state) option" where
  "clone_checkout w e others c = (let i = co_input (cl_op c) in
     case res_bind (validate_url (ce_parse e) (ci_url i)) (\<lambda>_. destination (cl_disk c) i) of
       Inl m \<Rightarrow> Some (Err m, c)
     | Inr dir \<Rightarrow> (case reserve (ce_made e) (others AfterMkdir) dir (others BeforeReserve c) of
         (Inl m, c) \<Rightarrow> Some (Err m, c)
       | (Inr _, c) \<Rightarrow> (case run_git (\<lambda>k. others (DuringClone k)) (ce_clone e) c of
           None \<Rightarrow> None
         | Some (Inl m, c) \<Rightarrow> Some (Err m, c)
         | Some (Inr _, c) \<Rightarrow> Some (keep_checkout (w_now w) (ce_fresh e) dir (others AfterClone c)))))"

definition not_removed :: "string \<Rightarrow> path \<Rightarrow> string" where
  "not_removed m dir = m @ '' Partial checkout could not be removed; inspect '' @ dir @ ''.''"

definition clone_failed :: "removal \<Rightarrow> (clone_state \<Rightarrow> clone_state) \<Rightarrow> string \<Rightarrow> clone_state \<Rightarrow> clone_state" where
  \<comment> \<open>others may change the files between the check of the directory and its removal\<close>
  "clone_failed r others m c = (let op = cl_op c; st = co_status op;
       (gone, disk) = (case co_owned op of
          Some (dir, _) \<Rightarrow>
            if \<not> cs_checkout_ready st \<and> owns_destination (cl_disk c) op
            then remove_dir_all r dir (cl_disk (others c)) else (True, cl_disk c)
        | None \<Rightarrow> (True, cl_disk c));
       shown = (if gone then cs_error st else Some (not_removed m (cs_destination st)))
     in c\<lparr>cl_disk := disk, cl_op := with_status (\<lambda>st. st\<lparr>cs_error := opt_or shown (Some m),
            cs_phase := (if co_cancelled op then CpCancelled else CpFailed),
            cs_percentage := None, cs_label := None\<rparr>) op\<rparr>)"

section \<open>Registration\<close>

definition metadata_paths :: "(string \<times> bool) list" where
  "metadata_paths = [(''.ditch'', True), (''.ditch/agents'', True), (''.ditch/hooks'', True),
     (''.ditch/mcp'', True), (''.ditch/project.json'', False)]"

definition metadata_safe :: "clone_disk \<Rightarrow> path \<Rightarrow> bool" where
  "metadata_safe k dir = list_all (\<lambda>(relative, directory). case dk_entry k (path_push dir relative) of
      None \<Rightarrow> True
    | Some (DiskDir _ _) \<Rightarrow> directory
    | Some (DiskFile _ _) \<Rightarrow> \<not> directory
    | Some (DiskLink _ _) \<Rightarrow> False
    | Some DiskDenied \<Rightarrow> False) metadata_paths"

definition register_local_project :: "world \<Rightarrow> clone_env \<Rightarrow> project \<Rightarrow> runtime \<Rightarrow>
    (project, string \<times> string) result \<times> runtime" where
  "register_local_project w e p s = (case ce_metadata e of
      Some x \<Rightarrow> (Err (''project_metadata_failed'', store_message x), s)
    | None \<Rightarrow> (case ce_config e of
        Some x \<Rightarrow> (Err (''project_config_failed'', store_message x), s)
      | None \<Rightarrow> (case with_store (upsert_project p) s of
          (Inl x, s) \<Rightarrow> (Err (''project_store_failed'', store_message x), s)
        | (Inr _, s) \<Rightarrow> (Ok p, broadcast w (ProjectChanged p)
            (s\<lparr>rt_projects := hm_insert (root_key w p) p (rt_projects s)\<rparr>)))))"

definition begin_registration :: "clone_state \<Rightarrow> (project \<times> clone_state) option" where
  \<comment> \<open>\<open>None\<close> is a panic: there is no project\<close>
  "begin_registration c = map_option (\<lambda>p. (p, on_status (\<lambda>st. st\<lparr>cs_phase := CpConfiguring,
     cs_percentage := None, cs_label := None\<rparr>) c)) (co_project (cl_op c))"

definition cancelled_after_checkout :: string where
  "cancelled_after_checkout = ''Clone cancelled after checkout. The completed checkout was retained; retry registration or add it using Local Project.''"

definition not_registered :: string where
  "not_registered = ''Checkout completed, but Ditch could not register it. Check permissions, free space, and .ditch metadata for symlinks or special files, then retry registration. The checkout has been retained.''"

definition end_registration :: "world \<Rightarrow> clone_env \<Rightarrow> (unit, string) result \<Rightarrow> project \<Rightarrow> clone_state \<Rightarrow>
    clone_state" where
  "end_registration w e verified p c =
     (if co_cancelled (cl_op c)
      then on_status (\<lambda>st. st\<lparr>cs_phase := CpCancelled, cs_error := Some cancelled_after_checkout\<rparr>) c
      else (let (r, s) =
          (if \<not> owns_destination (cl_disk c) (cl_op c) \<or> \<not> has_repository (cl_disk c) (p_root p)
             \<or> verified \<noteq> Ok () \<or> \<not> metadata_safe (cl_disk c) (p_root p)
           then (None, cl_runtime c)
           else (case register_local_project w e p (cl_runtime c) of
               (Inl _, s) \<Rightarrow> (None, s) | (Inr p, s) \<Rightarrow> (Some p, s)))
        in on_status (\<lambda>st. case r of
               Some p \<Rightarrow> st\<lparr>cs_phase := CpCompleted, cs_project := Some p, cs_error := None\<rparr>
             | None \<Rightarrow> st\<lparr>cs_phase := CpFailed, cs_error := Some not_registered\<rparr>)
           (c\<lparr>cl_runtime := s\<rparr>)))"

definition finish_registration :: "world \<Rightarrow> clone_env \<Rightarrow> clone_others \<Rightarrow> clone_state \<Rightarrow> clone_state option" where
  "finish_registration w e others c = Option.bind (begin_registration c) (\<lambda>(p, c).
     map_option (\<lambda>(verified, c). end_registration w e verified p (others AfterVerify c))
       (run_git (\<lambda>k. others (DuringVerify k)) (ce_verify e) c))"

definition clone_worker :: "world \<Rightarrow> clone_env \<Rightarrow> clone_others \<Rightarrow> clone_state \<Rightarrow> clone_state option" where
  "clone_worker w e others c = (case clone_checkout w e others c of
      None \<Rightarrow> None
    | Some (Inr _, c) \<Rightarrow> finish_registration w e others (others BeforeRegistration c)
    | Some (Inl m, c) \<Rightarrow> Some (clone_failed (ce_removal e) (others BeforeRemoval) m (others BeforeFailure c)))"

section \<open>Requests\<close>

datatype clone_request = StartProjectClone uuid clone_input | ProjectCloneStatus uuid
  | CancelProjectClone uuid | RetryProjectCloneRegistration uuid

datatype clone_response = ProjectClone clone_status | CloneError string string

datatype clone_thread = CloneWorker uuid | RegistrationRetry uuid

type_synonym clone_registry = "(uuid, clone_op) hmap"

definition new_clone :: "uuid \<Rightarrow> clone_input \<Rightarrow> clone_op" where
  "new_clone i input = \<lparr>co_input = input, co_status = \<lparr>cs_operation_id = i,
     cs_destination = path_push (ci_parent input) (ci_folder input), cs_phase = CpValidating,
     cs_percentage = None, cs_label = None, cs_error = None, cs_project = None, cs_checkout_ready = False\<rparr>,
     co_cancelled = False, co_owned = None, co_project = None\<rparr>"

definition retried :: "clone_op \<Rightarrow> clone_op" where
  "retried op = with_status (\<lambda>st. st\<lparr>cs_phase := CpConfiguring, cs_error := None\<rparr>) (op\<lparr>co_cancelled := False\<rparr>)"

definition can_retry :: "clone_op \<Rightarrow> bool" where
  "can_retry op = (cs_phase (co_status op) \<in> {CpFailed, CpCancelled} \<and> cs_checkout_ready (co_status op))"

definition unknown_clone :: clone_response where
  "unknown_clone = CloneError ''clone_unknown'' ''Clone status is unavailable, possibly after a runtime restart. Inspect the destination; existing files will never be overwritten. Add a completed checkout using Local Project.''"

definition start_clone :: "uuid \<Rightarrow> clone_input \<Rightarrow> clone_registry \<Rightarrow>
    clone_response \<times> clone_thread list \<times> clone_registry" where
  "start_clone i input reg = (case hm_get reg i of
      Some op \<Rightarrow>
        (if co_input op = input then ProjectClone (co_status op)
         else CloneError ''clone_conflict'' ''This clone operation ID already has different inputs.'', [], reg)
    | None \<Rightarrow>
        if 256 \<le> length reg
        then (CloneError ''clone_limit'' ''Restart Ditch's runtime before starting more clones.'', [], reg)
        else (ProjectClone (co_status (new_clone i input)), [CloneWorker i], hm_insert i (new_clone i input) reg))"

definition known_clone :: "clone_request \<Rightarrow> clone_op \<Rightarrow> clone_thread list \<times> clone_op" where
  "known_clone q op = (case q of
      CancelProjectClone i \<Rightarrow> ([], if terminal (cs_phase (co_status op)) then op else op\<lparr>co_cancelled := True\<rparr>)
    | RetryProjectCloneRegistration i \<Rightarrow>
        if can_retry op then ([RegistrationRetry i], retried op) else ([], op)
    | _ \<Rightarrow> ([], op))"

fun clone_id :: "clone_request \<Rightarrow> uuid" where
  "clone_id (StartProjectClone i _) = i"
| "clone_id (ProjectCloneStatus i) = i"
| "clone_id (CancelProjectClone i) = i"
| "clone_id (RetryProjectCloneRegistration i) = i"

definition clone_handle :: "bool \<Rightarrow> clone_request \<Rightarrow> clone_registry \<Rightarrow>
    clone_response \<times> clone_thread list \<times> clone_registry" where
  "clone_handle remote_runtime q reg =
     (if remote_runtime
      then (CloneError ''clone_local_only'' ''Clone projects on this Mac, not a remote runtime.'', [], reg)
      else case q of StartProjectClone i input \<Rightarrow> start_clone i input reg
      | _ \<Rightarrow> (case hm_get reg (clone_id q) of
            None \<Rightarrow> (unknown_clone, [], reg)
          | Some op \<Rightarrow> (let (spawned, op) = known_clone q op in
              (ProjectClone (co_status op), spawned, hm_insert (clone_id q) op reg))))"

end
