(* ===== verification/Clone_Facts.thy ===== *)
theory Clone_Facts
  imports Project_Clone Store_Integrity Runtime_Facts
begin

text \<open>
  What a clone guarantees: what an accepted address and folder can be, that requests which are repeated
  start one thread, how the thread ends whatever git prints and whoever cancels, and that only a directory
  the clone itself made is ever removed.
\<close>

section \<open>Addresses\<close>

lemma take_Suc_0: "take (length [c]) v = [c] \<longleftrightarrow> v \<noteq> [] \<and> hd v = c"
  by (cases v) auto

lemma starts_with_char: "starts_with v [c] \<longleftrightarrow> v \<noteq> [] \<and> hd v = c"
  unfolding starts_with_def by (rule take_Suc_0)

lemma valid_host_chars: "valid_host h \<Longrightarrow> c \<in> set h \<Longrightarrow> ascii_alphanumeric c \<or> c = CHR ''.'' \<or> c = CHR ''-'' \<or> c = CHR ''_''"
  by (auto simp: valid_host_def list_all_iff)

lemma split_onceD:
  assumes "split_once c v = Some (a, b)" shows "v = a @ c # b" "c \<notin> set a"
proof -
  have "c \<in> set v" and a: "a = takeWhile (\<lambda>x. x \<noteq> c) v" and b: "b = tl (dropWhile (\<lambda>x. x \<noteq> c) v)"
    using assms by (auto simp: split_once_def split: if_splits)
  then obtain ds where "dropWhile (\<lambda>x. x \<noteq> c) v = c # ds"
    by (metis (mono_tags, lifting) dropWhile_eq_Nil_conv hd_dropWhile list.exhaust_sel)
  then show "v = a @ c # b" using takeWhile_dropWhile_id[of "\<lambda>x. x \<noteq> c" v] a b by simp
  show "c \<notin> set a" unfolding a by (auto dest: set_takeWhileD)
qed

lemma alnum_not: "\<not> ascii_alphanumeric CHR '':''" "\<not> ascii_alphanumeric CHR ''/''" "\<not> ascii_alphanumeric CHR ''@''"
  "\<not> ascii_alphanumeric CHR ''-''"
  by (simp_all add: ascii_alphanumeric_def byte_of_def)

text \<open>C27: An address that is accepted cannot be taken for an option of git or a transport helper, and
  carries no query or fragment: it does not begin with a dash, has no white space or control character, and
  is either an https or ssh address with a plain host, without password, query or fragment, and without a
  user (https) or with a plain one (ssh); or it has the form host:path or user@host:path with plain names, one
  colon, no question or number sign in the path, and no path component that is empty or leads upwards.\<close>

theorem accepted_address_safe:
  assumes "validate_url parse v = Ok ()"
  shows "v \<noteq> [] \<and> hd v \<noteq> CHR ''-'' \<and> length v \<le> 4096 \<and> (\<forall>c \<in> set (utf8_chars v). \<not> control_char c \<and> \<not> is_whitespace c)
    \<and> (((starts_with v ''https://'' \<or> starts_with v ''ssh://'') \<and> (\<exists>u h. parse v = Some u \<and> pu_host u = Some h
          \<and> valid_host h \<and> pu_password u = None \<and> pu_query u = None \<and> pu_fragment u = None
          \<and> (pu_scheme u = ''https'' \<longrightarrow> pu_username u = [])
          \<and> (pu_scheme u = ''ssh'' \<longrightarrow> pu_username u = [] \<or> valid_host (pu_username u))))
       \<or> (\<exists>authority path. v = authority @ CHR '':'' # path \<and> CHR '':'' \<notin> set authority \<and> CHR '':'' \<notin> set path
            \<and> (valid_host authority \<or> (\<exists>user host. authority = user @ CHR ''@'' # host \<and> valid_host user \<and> valid_host host))
            \<and> path \<noteq> [] \<and> hd path \<notin> {CHR ''/'', CHR ''-''} \<and> CHR ''?'' \<notin> set path \<and> CHR ''#'' \<notin> set path
            \<and> set (split_byte CHR ''/'' path) \<inter> {[], ''.'', ''..''} = {}))"
proof -
  have basic: "v \<noteq> []" "length v \<le> 4096" "\<forall>c \<in> set (utf8_chars v). \<not> control_char c \<and> \<not> is_whitespace c"
    using assms by (auto simp: validate_url_def list_ex_iff split: if_splits)
  show ?thesis
  proof (cases "starts_with v ''https://'' \<or> starts_with v ''ssh://''")
    case True
    then have "hd v = CHR ''h'' \<or> hd v = CHR ''s''"
      by (cases v) (auto simp: starts_with_def)
    moreover obtain u where u: "parse v = Some u" "accepted_url u"
      using assms True by (auto simp: validate_url_def is_some_and_iff split: if_splits)
    ultimately show ?thesis using True basic by (auto simp: accepted_url_def is_some_and_iff)
  next
    case False
    then have "accepted_scp v" using assms by (auto simp: validate_url_def split: if_splits)
    then obtain authority path where sp: "split_once CHR '':'' v = Some (authority, path)"
      and ok: "(let (user, host) = unwrap_or (''git'', authority) (split_once CHR ''@'' authority)
        in valid_host user \<and> valid_host host \<and> path \<noteq> [] \<and> \<not> starts_with path ''-'' \<and> \<not> starts_with path ''/''
          \<and> CHR '':'' \<notin> set path \<and> CHR ''?'' \<notin> set path \<and> CHR ''#'' \<notin> set path
          \<and> list_all (\<lambda>p. p \<noteq> [] \<and> p \<noteq> ''.'' \<and> p \<noteq> ''..'') (split_byte CHR ''/'' path))"
      by (auto simp: accepted_scp_def is_some_and_iff)
    note v = split_onceD[OF sp]
    have auth: "authority \<noteq> [] \<and> hd authority \<noteq> CHR ''-'' \<and> (valid_host authority
        \<or> (\<exists>user host. authority = user @ CHR ''@'' # host \<and> valid_host user \<and> valid_host host))"
    proof (cases "split_once CHR ''@'' authority")
      case None
      then have "valid_host authority" using ok by (simp add: Let_def)
      then show ?thesis by (auto simp: valid_host_def starts_with_char)
    next
      case (Some uh)
      obtain user host where uh: "uh = (user, host)" by (cases uh)
      have "valid_host user" "valid_host host" using ok Some uh by (simp_all add: Let_def)
      moreover have "authority = user @ CHR ''@'' # host" using split_onceD(1) Some uh by blast
      ultimately show ?thesis by (auto simp: valid_host_def starts_with_char)
    qed
    have "CHR '':'' \<notin> set path \<and> path \<noteq> [] \<and> hd path \<notin> {CHR ''/'', CHR ''-''} \<and> CHR ''?'' \<notin> set path
        \<and> CHR ''#'' \<notin> set path \<and> set (split_byte CHR ''/'' path) \<inter> {[], ''.'', ''..''} = {}"
      using ok by (auto simp: Let_def starts_with_char list_all_iff split: prod.splits)
    moreover have "hd v \<noteq> CHR ''-''" using auth v(1) by simp
    ultimately show ?thesis using basic auth v by blast
  qed
qed

lemma accepted_folder_is_child:
  assumes "destination k i = Ok dir"
  shows "\<exists>parent. dk_canonical k (ci_parent i) = Some parent \<and> dir = path_push parent (ci_folder i)
    \<and> CHR ''/'' \<notin> set (ci_folder i) \<and> ci_folder i \<notin> {[], ''.'', ''..''} \<and> is_directory (dk_entry k parent)"
  using assms by (auto simp: destination_def valid_folder_def split: if_splits option.splits)

section \<open>Requests\<close>

text \<open>Requests, and what the threads of the clones do to their operations; the threads started so far.\<close>

inductive clone_step :: "clone_thread list \<times> clone_registry \<Rightarrow> clone_thread list \<times> clone_registry \<Rightarrow> bool" where
  clone_request: "clone_handle remote q reg = (answer, spawned, reg') \<Longrightarrow> clone_step (ts, reg) (ts @ spawned, reg')"
| clone_thread_moves: "hm_get reg i = Some op \<Longrightarrow> co_input op' = co_input op \<Longrightarrow>
    clone_step (ts, reg) (ts, hm_insert i op' reg)"

definition worker_ids :: "clone_thread list \<Rightarrow> uuid list" where
  "worker_ids ts = List.map_filter (\<lambda>t. case t of CloneWorker i \<Rightarrow> Some i | _ \<Rightarrow> None) ts"

lemma worker_ids_simps [simp]:
  "worker_ids [] = []" "worker_ids (CloneWorker i # ts) = i # worker_ids ts"
  "worker_ids (RegistrationRetry i # ts) = worker_ids ts"
  "worker_ids (ts @ us) = worker_ids ts @ worker_ids us"
  by (simp_all add: worker_ids_def List.map_filter_simps List.map_filter_def)

definition clones_ok :: "clone_thread list \<times> clone_registry \<Rightarrow> bool" where
  "clones_ok x \<longleftrightarrow> (let (ts, reg) = x in hm_ok reg \<and> length reg \<le> 256 \<and> distinct (worker_ids ts)
     \<and> (\<forall>i. i \<in> set (worker_ids ts) \<longleftrightarrow> hm_contains reg i))"

lemma length_insert_known: "hm_contains reg i \<Longrightarrow> length (hm_insert i op reg) = length reg"
  unfolding hm_contains_def hm_get_def hm_insert_def
  by (induction reg) (auto split: if_splits)

lemma length_insert_le: "length (hm_insert i op reg) \<le> Suc (length reg)"
  unfolding hm_insert_def by (induction reg) auto

lemma clones_ok_update: "clones_ok (ts, reg) \<Longrightarrow> hm_contains reg i \<Longrightarrow> clones_ok (ts, hm_insert i op reg)"
  by (auto simp: clones_ok_def hm.invar_ins length_insert_known hm_contains_insert)

lemma clones_ok_step: "clone_step x y \<Longrightarrow> clones_ok x \<Longrightarrow> clones_ok y"
proof (induction rule: clone_step.induct)
  case (clone_request remote q reg answer spawned reg' ts)
  note run = clone_request(1) and ok = clone_request(2)
  show ?case
  proof (cases "\<exists>i input. q = StartProjectClone i input \<and> \<not> remote \<and> hm_get reg i = None \<and> length reg < 256")
    case True
    then obtain i input where q: "q = StartProjectClone i input" "\<not> remote" "hm_get reg i = None" "length reg < 256" by blast
    then have "spawned = [CloneWorker i]" "reg' = hm_insert i (new_clone i input) reg"
      using run by (auto simp: clone_handle_def start_clone_def)
    moreover have "length (hm_insert i (new_clone i input) reg) \<le> 256"
      using length_insert_le[of i "new_clone i input" reg] q(4) by simp
    moreover have "i \<notin> set (worker_ids ts)" using ok q(3) by (simp add: clones_ok_def hm_contains_def)
    ultimately show ?thesis using ok by (auto simp: clones_ok_def hm.invar_ins hm_contains_insert)
  next
    case False
    then have "(reg' = reg \<or> (\<exists>op. hm_contains reg (clone_id q) \<and> reg' = hm_insert (clone_id q) op reg))
        \<and> worker_ids spawned = []"
      using run by (cases q) (auto simp: clone_handle_def start_clone_def known_clone_def hm_contains_def Let_def not_less
          split: if_splits option.splits prod.splits)
    then show ?thesis using ok clones_ok_update[OF ok] by (auto simp: clones_ok_def)
  qed
next
  case (clone_thread_moves reg i op op' ts)
  then show ?case by (intro clones_ok_update) (simp_all add: hm_contains_def)
qed

text \<open>C26: However often the requests of a clone are repeated, its thread starts once: among the threads
  started since the daemon began there is one for each known clone, of which there are at most 256; to
  start a known clone again answers its present state, or a conflict when the input differs, and changes
  nothing.\<close>

theorem clone_starts_once:
  assumes "clone_step\<^sup>*\<^sup>* ([], []) (ts, reg)"
  shows "distinct (worker_ids ts) \<and> length reg \<le> 256 \<and> (\<forall>i. i \<in> set (worker_ids ts) \<longleftrightarrow> hm_contains reg i)
    \<and> (\<forall>i op input. hm_get reg i = Some op \<longrightarrow> clone_handle False (StartProjectClone i input) reg
        = (if co_input op = input then ProjectClone (co_status op)
           else CloneError ''clone_conflict'' ''This clone operation ID already has different inputs.'', [], reg))"
proof -
  have "clones_ok x" if "clone_step\<^sup>*\<^sup>* ([], []) x" for x
    using that
  proof (induction rule: rtranclp_induct)
    case base
    show ?case by (simp add: clones_ok_def hm_ok_def hm_contains_def hm_get_def)
  next
    case (step x y)
    show ?case by (rule clones_ok_step[OF step.hyps(2) step.IH])
  qed
  from this[OF assms] show ?thesis by (simp add: clones_ok_def clone_handle_def start_clone_def)
qed

section \<open>What is read from git\<close>

definition diagnoses :: "string list" where
  "diagnoses = [''SSH host key verification failed. Verify this host in Terminal before retrying.'',
     ''Git authentication or repository access failed. Check the URL and your existing credential helper or SSH agent in Terminal.'',
     ''Git cannot write the checkout. Check destination permissions and free space.'',
     ''Git could not reach the repository. Check your network, URL, and SSH configuration.'']"

definition clone_texts :: "string list" where
  "clone_texts = diagnoses @ [clone_cancelled, clone_timed_out, git_failed, git_unwatched, git_missing,
     git_refused, git_unmonitored, invalid_url, occupied_message, not_created, ''Cannot inspect destination.'',
     destination_changed, cancelled_after_checkout, not_registered,
     ''Enter a project name (up to 256 characters).'',
     ''Use a single new folder name, without slashes or traversal.'',
     ''Choose an absolute destination parent directory.'',
     ''Destination parent is unavailable. Check its permissions.'', ''Destination parent must be a directory.'']"

definition percent_ok :: "clone_status \<Rightarrow> bool" where
  "percent_ok st \<longleftrightarrow> (\<forall>p. cs_percentage st = Some p \<longrightarrow> p \<le> 100)"

definition parser_ok :: "output_parser \<Rightarrow> bool" where
  "parser_ok p \<longleftrightarrow> length (op_line p) \<le> max_line \<and> (\<forall>e. op_error p = Some e \<longrightarrow> e \<in> set diagnoses)"

text \<open>While git runs only its progress and the request to cancel reach the operation.\<close>

definition watched :: "clone_op \<Rightarrow> clone_op \<Rightarrow> bool" where
  "watched op op' \<longleftrightarrow> co_input op' = co_input op \<and> co_owned op' = co_owned op \<and> co_project op' = co_project op
     \<and> (co_cancelled op \<longrightarrow> co_cancelled op')
     \<and> (let st = co_status op; st' = co_status op' in cs_operation_id st' = cs_operation_id st
         \<and> cs_destination st' = cs_destination st \<and> cs_error st' = cs_error st \<and> cs_project st' = cs_project st
         \<and> cs_checkout_ready st' = cs_checkout_ready st \<and> (\<not> terminal (cs_phase st) \<longrightarrow> \<not> terminal (cs_phase st'))
         \<and> (percent_ok st \<longrightarrow> percent_ok st'))"

lemma watched_refl: "watched op op"
  by (simp add: watched_def)

lemma watched_trans: "watched a b \<Longrightarrow> watched b c \<Longrightarrow> watched a c"
  by (auto simp: watched_def Let_def)

lemma diagnosis_text: "diagnosis x = Some e \<Longrightarrow> e \<in> set diagnoses"
  by (auto simp: diagnosis_def diagnoses_def split: if_splits)

lemma progress_bound:
  assumes "progress line = Some (phase, label, percent)"
  shows "phase = CpCloning \<or> phase = CpCheckout" "percent = Some p \<Longrightarrow> p \<le> 100"
  using assms by (auto simp: progress_def progress_of_def bind_eq_Some_conv opt_filter_Some_iff split: if_splits)

lemma parse_line_watched:
  assumes "parser_ok p" "parse_line p st = (p', st')"
  shows "parser_ok p'" "watched op (op\<lparr>co_status := st\<rparr>) \<Longrightarrow> watched op (op\<lparr>co_status := st'\<rparr>)"
proof -
  have p': "p' = p\<lparr>op_error := opt_or (diagnosis (List.map to_ascii_lower (utf8_lossy (op_line p)))) (op_error p)\<rparr>"
    and st': "st' = (case progress (utf8_lossy (op_line p)) of None \<Rightarrow> st
      | Some (phase, label, percent) \<Rightarrow> st\<lparr>cs_phase := phase, cs_label := Some label, cs_percentage := percent\<rparr>)"
    using assms(2) by (simp_all add: parse_line_def Let_def)
  show "parser_ok p'" using assms(1) diagnosis_text by (auto simp: parser_ok_def p' opt_or_def split: option.splits)
  assume w: "watched op (op\<lparr>co_status := st\<rparr>)"
  show "watched op (op\<lparr>co_status := st'\<rparr>)"
  proof (cases "progress (utf8_lossy (op_line p))")
    case None
    then show ?thesis using w by (simp add: st')
  next
    case (Some x)
    obtain phase label percent where x: "x = (phase, label, percent)" by (metis prod.exhaust)
    note b = progress_bound[OF Some[unfolded x]]
    have "\<not> terminal phase" using b(1) by (auto simp: terminal_def)
    moreover have "percent_ok (st\<lparr>cs_phase := phase, cs_label := Some label, cs_percentage := percent\<rparr>)"
      using b(2) by (simp add: percent_ok_def)
    ultimately show ?thesis using w by (simp add: st' Some x watched_def Let_def)
  qed
qed

lemma feed_byte_watched:
  assumes "parser_ok p" "feed_byte c (p, st) = (p', st')"
  shows "parser_ok p' \<and> (watched op (op\<lparr>co_status := st\<rparr>) \<longrightarrow> watched op (op\<lparr>co_status := st'\<rparr>))"
proof (cases "c = CHR 0x0D \<or> c = CHR 0x0A")
  case True
  obtain p2 st2 where l: "parse_line p st = (p2, st2)" by (metis prod.exhaust)
  show ?thesis using parse_line_watched(1)[OF assms(1) l] parse_line_watched(2)[OF assms(1) l, of op] assms(2) True
    by (auto simp: feed_byte_def Let_def l parser_ok_def)
next
  case False
  then show ?thesis using assms by (auto simp: feed_byte_def parser_ok_def max_line_def split: if_splits)
qed

lemma feed_watched:
  "parser_ok p \<Longrightarrow> feed bytes (p, st) = (p', st') \<Longrightarrow>
     parser_ok p' \<and> (watched op (op\<lparr>co_status := st\<rparr>) \<longrightarrow> watched op (op\<lparr>co_status := st'\<rparr>))"
proof (induction bytes arbitrary: p st)
  case Nil then show ?case by (simp add: feed_def)
next
  case (Cons c bytes)
  obtain p2 st2 where b: "feed_byte c (p, st) = (p2, st2)" by (metis prod.exhaust)
  from feed_byte_watched[OF Cons.prems(1) b, of op] Cons.IH[of p2 st2] Cons.prems(2) b show ?case
    by (simp add: feed_def)
qed

lemma drain_watched:
  assumes "parser_ok p" "drain chunks (p, c) = (p', c')"
  shows "parser_ok p'" "watched (cl_op c) (cl_op c')" "cl_disk c' = cl_disk c" "cl_runtime c' = cl_runtime c"
proof -
  have "parser_ok p2 \<and> watched (cl_op c) ((cl_op c)\<lparr>co_status := st2\<rparr>)"
    if "fold feed chunks (p, st) = (p2, st2)" "watched (cl_op c) ((cl_op c)\<lparr>co_status := st\<rparr>)" for st p2 st2
    using that assms(1)
  proof (induction chunks arbitrary: p st)
    case (Cons x xs)
    obtain p3 st3 where f: "feed x (p, st) = (p3, st3)" by (metis prod.exhaust)
    from feed_watched[OF Cons.prems(3) f, of "cl_op c"] Cons show ?case by (simp add: f)
  qed simp
  moreover obtain p2 st2 where f: "fold feed chunks (p, co_status (cl_op c)) = (p2, st2)" by (metis prod.exhaust)
  ultimately have "parser_ok p2 \<and> watched (cl_op c) ((cl_op c)\<lparr>co_status := st2\<rparr>)" using watched_refl[of "cl_op c"] by simp
  moreover have "p' = p2" "c' = on_status (\<lambda>_. st2) c" using assms(2) f by (simp_all add: drain_def)
  ultimately show "parser_ok p'" "watched (cl_op c) (cl_op c')" "cl_disk c' = cl_disk c" "cl_runtime c' = cl_runtime c"
    by (simp_all add: on_status_def with_status_def)
qed

text \<open>Others may cancel the clone; the disk and the runtime are theirs to change.\<close>

definition cancels_only :: "clone_others \<Rightarrow> bool" where
  "cancels_only others \<longleftrightarrow> (\<forall>m c. \<exists>b. cl_op (others m c) = (cl_op c)\<lparr>co_cancelled := co_cancelled (cl_op c) \<or> b\<rparr>)"

lemma cancels_watched: "cancels_only others \<Longrightarrow> watched (cl_op c) (cl_op (others m c))"
proof -
  assume "cancels_only others"
  then obtain b where "cl_op (others m c) = (cl_op c)\<lparr>co_cancelled := co_cancelled (cl_op c) \<or> b\<rparr>"
    by (auto simp: cancels_only_def)
  then show ?thesis by (simp add: watched_def)
qed

lemma git_loop_watched:
  assumes "\<And>k c. watched (cl_op c) (cl_op (others k c))"
  shows "parser_ok p \<Longrightarrow> git_loop others k ts (p, c) = Some (r, p', c') \<Longrightarrow> parser_ok p' \<and> watched (cl_op c) (cl_op c')
     \<and> (\<forall>e. r = Err e \<longrightarrow> e \<in> {clone_cancelled, clone_timed_out, git_failed, git_unwatched})
     \<and> (r = Err clone_cancelled \<longrightarrow> co_cancelled (cl_op c'))"
proof (induction ts arbitrary: k p c)
  case (Cons t ts)
  obtain p2 c2 where d: "drain (gp_output t) (p, c) = (p2, c2)" by (metis prod.exhaust)
  note w = drain_watched[OF Cons.prems(1) d]
  have w3: "watched (cl_op c) (cl_op (others k c2))" by (rule watched_trans[OF w(2) assms])
  show ?case
  proof (cases "\<not> co_cancelled (cl_op (others k c2)) \<and> \<not> gp_over t \<and> gp_wait t = StillRunning")
    case True
    with Cons.prems(2) d have "git_loop others (Suc k) ts (p2, others k c2) = Some (r, p', c')"
      by (simp add: Let_def)
    from Cons.IH[OF w(1) this] show ?thesis using w3 watched_trans by blast
  next
    case False
    then show ?thesis using Cons.prems(2) d w(1) w3
      by (auto simp: Let_def clone_cancelled_def clone_timed_out_def git_failed_def git_unwatched_def
          split: if_splits wait_answer.splits)
  qed
qed simp

lemma diagnoses_texts: "set diagnoses \<subseteq> set clone_texts"
  by (auto simp: clone_texts_def)

lemma parse_line_state:
  assumes "parser_ok p" "parse_line p (co_status (cl_op c)) = (p', st)"
  shows "parser_ok p'" "watched (cl_op c) (cl_op (on_status (\<lambda>_. st) c))"
  using parse_line_watched(1)[OF assms] parse_line_watched(2)[OF assms, of "cl_op c"] watched_refl[of "cl_op c"]
  by (simp_all add: on_status_def with_status_def)

lemma run_git_watched:
  assumes others: "\<And>k c. watched (cl_op c) (cl_op (others k c))" and run: "run_git others g c = Some (r, c')"
  shows "watched (cl_op c) (cl_op c')" "r = Err m \<Longrightarrow> m \<in> set clone_texts"
proof -
  have "watched (cl_op c) (cl_op c') \<and> (\<forall>m. r = Err m \<longrightarrow> m \<in> set clone_texts)"
  proof (cases "gr_start g = GitStarted")
    case True
    let ?p0 = "\<lparr>op_line = [], op_error = None\<rparr>"
    obtain r1 p1 c1 where l: "git_loop others 0 (gr_polls g) (?p0, c) = Some (r1, p1, c1)"
      using run True by (auto simp: run_git_def)
    have "parser_ok ?p0" by (simp add: parser_ok_def)
    from git_loop_watched[OF others this l] have p1: "parser_ok p1" and w1: "watched (cl_op c) (cl_op c1)"
      and r1: "\<forall>e. r1 = Err e \<longrightarrow> e \<in> {clone_cancelled, clone_timed_out, git_failed, git_unwatched}" by blast+
    obtain p2 c2 where d: "drain (gr_rest g) (p1, c1) = (p2, c2)" by (metis prod.exhaust)
    obtain p3 st where f: "parse_line p2 (co_status (cl_op c2)) = (p3, st)" by (metis prod.exhaust)
    have eq: "r = map_err (explained (op_error p3)) r1" "c' = on_status (\<lambda>_. st) c2"
      using run True l d f by (auto simp: run_git_def Let_def)
    note w2 = drain_watched(1,2)[OF p1 d] and w3 = parse_line_state[OF drain_watched(1)[OF p1 d] f]
    have "watched (cl_op c) (cl_op c')"
      using watched_trans[OF w1 watched_trans[OF w2(2) w3(2)]] eq(2) by simp
    moreover have "m \<in> set clone_texts" if "r = Err m" for m
    proof -
      from that eq(1) obtain e where e: "r1 = Err e" "m = explained (op_error p3) e"
        by (cases r1) (auto simp: map_err_def)
      have "e \<in> set clone_texts" using r1 e(1) by (auto simp: clone_texts_def)
      moreover have "\<forall>x. op_error p3 = Some x \<longrightarrow> x \<in> set clone_texts"
        using w3(1) diagnoses_texts by (auto simp: parser_ok_def)
      ultimately show ?thesis using e(2) by (auto simp: explained_def unwrap_or_def split: option.splits)
    qed
    ultimately show ?thesis by blast
  next
    case False
    then show ?thesis using run watched_refl by (cases "gr_start g") (auto simp: run_git_def clone_texts_def)
  qed
  then show "watched (cl_op c) (cl_op c')" "r = Err m \<Longrightarrow> m \<in> set clone_texts" by blast+
qed

section \<open>How a clone ends\<close>

definition live_clone :: "clone_op \<Rightarrow> bool" where
  "live_clone op \<longleftrightarrow> (let st = co_status op in \<not> terminal (cs_phase st) \<and> cs_error st = None
     \<and> cs_project st = None \<and> percent_ok st)"

lemma watched_live: "watched op op' \<Longrightarrow> live_clone op \<Longrightarrow> live_clone op'"
  by (simp add: watched_def live_clone_def Let_def)

lemma destination_text: "destination k i = Err m \<Longrightarrow> m \<in> set clone_texts"
  by (auto simp: destination_def clone_texts_def split: if_splits option.splits)

lemma create_dir_cases:
  assumes "create_dir made between dir k = (r, k')"
  shows "case r of
      Inl m \<Rightarrow> m \<in> {occupied_message, not_created, ''Cannot inspect destination.''}
    | Inr x \<Rightarrow> dk_entry k dir = None \<and> (\<exists>dev ino. made = Some (dev, ino) \<and> entry_identity (dk_entry
        (between (k\<lparr>dk_entry := (dk_entry k)(dir \<mapsto> DiskDir dev ino)\<rparr>)) dir) = Some x)"
proof (cases "dk_entry k dir = None \<and> made \<noteq> None")
  case True
  then obtain dev ino where m: "made = Some (dev, ino)" by auto
  with True assms show ?thesis
    by (cases "entry_identity (dk_entry (between (k\<lparr>dk_entry := (dk_entry k)(dir \<mapsto> DiskDir dev ino)\<rparr>)) dir)")
      (auto simp: create_dir_def make_dir_def)
next
  case False
  then show ?thesis using assms by (auto simp: create_dir_def make_dir_def split: if_splits option.splits)
qed

lemma reserve_result:
  assumes "reserve md others dir c = (r, c')" "live_clone (cl_op c)"
  shows "live_clone (cl_op c')" "co_input (cl_op c') = co_input (cl_op c)" "co_project (cl_op c') = co_project (cl_op c)"
    "cs_checkout_ready (co_status (cl_op c')) = cs_checkout_ready (co_status (cl_op c))"
    "r = Ok () \<Longrightarrow> cs_destination (co_status (cl_op c')) = dir" "r = Err m \<Longrightarrow> m \<in> set clone_texts"
proof -
  obtain x k where d: "create_dir md (\<lambda>k. cl_disk (others (c\<lparr>cl_disk := k\<rparr>))) dir (cl_disk c) = (x, k)"
    by (metis prod.exhaust)
  note created = create_dir_cases[OF d]
  show "live_clone (cl_op c')" "co_input (cl_op c') = co_input (cl_op c)" "co_project (cl_op c') = co_project (cl_op c)"
    "cs_checkout_ready (co_status (cl_op c')) = cs_checkout_ready (co_status (cl_op c))"
    "r = Ok () \<Longrightarrow> cs_destination (co_status (cl_op c')) = dir"
    using assms d by (auto simp: reserve_def with_status_def live_clone_def terminal_def percent_ok_def Let_def
      split: if_splits sum.splits)
  show "r = Err m \<Longrightarrow> m \<in> set clone_texts"
    using assms(1) d created by (auto simp: reserve_def clone_texts_def split: if_splits sum.splits)
qed

definition checkout_of :: "clone_env \<Rightarrow> clone_op \<Rightarrow> bool" where
  "checkout_of e op \<longleftrightarrow> cs_checkout_ready (co_status op) \<and> (\<exists>p. co_project op = Some p \<and> p_id p = ce_fresh e
     \<and> p_name p = ci_name (co_input op) \<and> p_root p = cs_destination (co_status op))"

lemma watched_checkout: "watched op op' \<Longrightarrow> checkout_of e op \<Longrightarrow> checkout_of e op'"
  by (simp add: watched_def checkout_of_def Let_def)

definition no_checkout :: "clone_op \<Rightarrow> bool" where
  "no_checkout op \<longleftrightarrow> \<not> cs_checkout_ready (co_status op) \<and> co_project op = None"

lemma watched_no_checkout: "watched op op' \<Longrightarrow> no_checkout op \<Longrightarrow> no_checkout op'"
  by (simp add: watched_def no_checkout_def Let_def)

lemma clone_checkout_result:
  assumes others: "cancels_only others" and live: "live_clone (cl_op c)" "no_checkout (cl_op c)"
    and run: "clone_checkout w e others c = Some (r, c')"
  shows "live_clone (cl_op c') \<and> co_input (cl_op c') = co_input (cl_op c)
    \<and> (case r of Inr _ \<Rightarrow> checkout_of e (cl_op c') | Inl m \<Rightarrow> no_checkout (cl_op c') \<and> m \<in> set clone_texts)"
proof (cases "res_bind (validate_url (ce_parse e) (ci_url (co_input (cl_op c)))) (\<lambda>_. destination (cl_disk c) (co_input (cl_op c)))")
  case (Inl m)
  have "m \<in> set clone_texts" using Inl destination_text
    by (cases "validate_url (ce_parse e) (ci_url (co_input (cl_op c)))")
      (auto simp: validate_url_def clone_texts_def split: if_splits)
  then show ?thesis using run Inl live by (auto simp: clone_checkout_def Let_def)
next
  case (Inr dir)
  define c1 where "c1 = others BeforeReserve c"
  have w1: "watched (cl_op c) (cl_op c1)" unfolding c1_def by (rule cancels_watched[OF others])
  obtain r2 c2 where rs: "reserve (ce_made e) (others AfterMkdir) dir c1 = (r2, c2)" by (metis prod.exhaust)
  note live1 = watched_live[OF w1 live(1)] and res = reserve_result[OF rs watched_live[OF w1 live(1)]]
  have no2: "no_checkout (cl_op c2)" using watched_no_checkout[OF w1 live(2)] res(3,4) by (simp add: no_checkout_def)
  have in2: "co_input (cl_op c2) = co_input (cl_op c)" using w1 res(2) by (simp add: watched_def)
  show ?thesis
  proof (cases r2)
    case (Inl m)
    then show ?thesis using run Inr rs res no2 in2 by (auto simp: clone_checkout_def Let_def c1_def)
  next
    case ok2: (Inr u)
    then obtain r3 c3 where g: "run_git (\<lambda>k. others (DuringClone k)) (ce_clone e) c2 = Some (r3, c3)"
      using run Inr rs by (auto simp: clone_checkout_def Let_def c1_def split: option.splits)
    note w3 = run_git_watched[OF cancels_watched[OF others] g]
    have live3: "live_clone (cl_op c3)" "no_checkout (cl_op c3)" "co_input (cl_op c3) = co_input (cl_op c)"
      using watched_live[OF w3(1) res(1)] watched_no_checkout[OF w3(1) no2] w3(1) in2 by (simp_all add: watched_def)
    show ?thesis
    proof (cases r3)
      case (Inl m)
      then show ?thesis using run Inr rs ok2 g live3 w3(2) by (auto simp: clone_checkout_def Let_def c1_def)
    next
      case ok3: (Inr u)
      define c4 where "c4 = others AfterClone c3"
      have w4: "watched (cl_op c3) (cl_op c4)" unfolding c4_def by (rule cancels_watched[OF others])
      have dest: "cs_destination (co_status (cl_op c4)) = dir"
        using res(5) ok2 w3(1) w4 by (simp add: watched_def Let_def)
      have "(r, c') = keep_checkout (w_now w) (ce_fresh e) dir c4"
        using run Inr rs ok2 g ok3 by (auto simp: clone_checkout_def Let_def c1_def c4_def)
      then show ?thesis
        using watched_live[OF w4 live3(1)] watched_no_checkout[OF w4 live3(2)] w4 live3(3) dest
        by (auto simp: keep_checkout_def with_status_def live_clone_def checkout_of_def no_checkout_def percent_ok_def
            plain_project_def watched_def clone_texts_def Let_def split: if_splits)
    qed
  qed
qed

lemma register_local_result:
  assumes "register_local_project w e p s = (Ok q, s')"
  shows "q = p" "hm_get (rt_projects s') (root_key w p) = Some p"
  using assms by (auto simp: register_local_project_def hm.get_ins broadcast_def with_store_def Let_def
      split: option.splits sum.splits prod.splits)

text \<open>A thread has ended: what the operation then shows.\<close>

definition clone_settled :: "world \<Rightarrow> clone_env \<Rightarrow> clone_state \<Rightarrow> bool" where
  "clone_settled w e c \<longleftrightarrow> (let op = cl_op c; st = co_status op in
     terminal (cs_phase st) \<and> percent_ok st \<and> (cs_phase st = CpCancelled \<longleftrightarrow> co_cancelled op)
     \<and> (if cs_phase st = CpCompleted
        then cs_error st = None \<and> (\<exists>p. cs_project st = Some p \<and> p_id p = ce_fresh e
          \<and> p_name p = ci_name (co_input op) \<and> p_root p = cs_destination st
          \<and> hm_get (rt_projects (cl_runtime c)) (root_key w p) = Some p)
        else cs_project st = None \<and> (\<exists>m \<in> set clone_texts. cs_error st = Some m
          \<or> (\<not> cs_checkout_ready st \<and> cs_error st = Some (not_removed m (cs_destination st)))))
     \<and> (if cs_checkout_ready st then checkout_of e op else no_checkout op))"

lemma end_registration_settled:
  assumes "live_clone (cl_op c)" "checkout_of e (cl_op c)" "co_project (cl_op c) = Some p"
  shows "clone_settled w e (end_registration w e verified p c)"
proof (cases "co_cancelled (cl_op c)")
  case True
  then show ?thesis using assms
    by (simp add: end_registration_def clone_settled_def on_status_def with_status_def live_clone_def checkout_of_def
        terminal_def percent_ok_def clone_texts_def Let_def)
next
  case False
  define r where "r = (if \<not> owns_destination (cl_disk c) (cl_op c) \<or> \<not> has_repository (cl_disk c) (p_root p)
       \<or> verified \<noteq> Ok () \<or> \<not> metadata_safe (cl_disk c) (p_root p)
     then (None, cl_runtime c)
     else (case register_local_project w e p (cl_runtime c) of
         (Inl _, s) \<Rightarrow> (None, s) | (Inr p, s) \<Rightarrow> (Some p, s)))"
  obtain q s where rq: "r = (q, s)" by (metis prod.exhaust)
  have eq: "end_registration w e verified p c = on_status (\<lambda>st. case q of
       Some p \<Rightarrow> st\<lparr>cs_phase := CpCompleted, cs_project := Some p, cs_error := None\<rparr>
     | None \<Rightarrow> st\<lparr>cs_phase := CpFailed, cs_error := Some not_registered\<rparr>) (c\<lparr>cl_runtime := s\<rparr>)"
    using False rq[unfolded r_def] unfolding end_registration_def Let_def by simp
  have made: "q = Some x \<Longrightarrow> x = p \<and> hm_get (rt_projects s) (root_key w p) = Some p" for x
    using rq register_local_result unfolding r_def by (auto split: if_splits sum.splits prod.splits)
  show ?thesis
  proof (cases q)
    case None
    then show ?thesis using assms False
      by (simp add: eq clone_settled_def on_status_def with_status_def live_clone_def checkout_of_def
          terminal_def percent_ok_def clone_texts_def Let_def)
  next
    case (Some x)
    then show ?thesis using assms False made[OF Some]
      by (simp add: eq clone_settled_def on_status_def with_status_def live_clone_def checkout_of_def
          terminal_def percent_ok_def Let_def)
  qed
qed

lemma clone_failed_op:
  "\<exists>shown disk. shown \<in> {cs_error (co_status (cl_op c)), Some (not_removed m (cs_destination (co_status (cl_op c))))}
     \<and> clone_failed r others m c = c\<lparr>cl_disk := disk, cl_op := with_status (\<lambda>st. st\<lparr>cs_error := opt_or shown (Some m),
            cs_phase := (if co_cancelled (cl_op c) then CpCancelled else CpFailed),
            cs_percentage := None, cs_label := None\<rparr>) (cl_op c)\<rparr>"
proof -
  obtain gone disk where x: "(case co_owned (cl_op c) of
          Some (dir, _) \<Rightarrow>
            if \<not> cs_checkout_ready (co_status (cl_op c)) \<and> owns_destination (cl_disk c) (cl_op c)
            then remove_dir_all r dir (cl_disk (others c)) else (True, cl_disk c)
        | None \<Rightarrow> (True, cl_disk c)) = (gone, disk)" by (metis prod.exhaust)
  show ?thesis unfolding clone_failed_def Let_def x
    by (rule exI[of _ "if gone then cs_error (co_status (cl_op c)) else Some (not_removed m (cs_destination (co_status (cl_op c))))"],
        rule exI[of _ disk]) simp
qed

lemma clone_failed_settled:
  assumes "live_clone (cl_op c)" "no_checkout (cl_op c)" "m \<in> set clone_texts"
  shows "clone_settled w e (clone_failed r others m c)" "co_input (cl_op (clone_failed r others m c)) = co_input (cl_op c)"
proof -
  obtain shown disk where x: "shown \<in> {cs_error (co_status (cl_op c)), Some (not_removed m (cs_destination (co_status (cl_op c))))}"
    "clone_failed r others m c = c\<lparr>cl_disk := disk, cl_op := with_status (\<lambda>st. st\<lparr>cs_error := opt_or shown (Some m),
            cs_phase := (if co_cancelled (cl_op c) then CpCancelled else CpFailed),
            cs_percentage := None, cs_label := None\<rparr>) (cl_op c)\<rparr>" using clone_failed_op[of c m r others] by (elim exE conjE)
  have "opt_or shown (Some m) = Some m \<or> opt_or shown (Some m) = Some (not_removed m (cs_destination (co_status (cl_op c))))"
    using assms(1) x(1) by (auto simp: live_clone_def Let_def)
  then have t: "\<exists>m \<in> set clone_texts. opt_or shown (Some m0) = Some m
      \<or> opt_or shown (Some m0) = Some (not_removed m (cs_destination (co_status (cl_op c))))" if "m0 = m" for m0
    using assms(3) that by auto
  show "clone_settled w e (clone_failed r others m c)"
    using assms(1,2) t[OF refl] unfolding x(2) clone_settled_def
    by (simp add: with_status_def live_clone_def no_checkout_def terminal_def percent_ok_def Let_def)
  show "co_input (cl_op (clone_failed r others m c)) = co_input (cl_op c)"
    unfolding x(2) by (simp add: with_status_def)
qed

definition git_ends :: "git_run \<Rightarrow> bool" where
  "git_ends g \<longleftrightarrow> (gr_start g = GitStarted \<longrightarrow> (\<exists>t \<in> set (gr_polls g). gp_over t \<or> gp_wait t \<noteq> StillRunning))"

lemma git_loop_ends:
  "\<exists>t \<in> set ts. gp_over t \<or> gp_wait t \<noteq> StillRunning \<Longrightarrow> git_loop others k ts x \<noteq> None"
proof (induction ts arbitrary: k x)
  case (Cons t ts)
  show ?case
  proof (cases "gp_over t \<or> gp_wait t \<noteq> StillRunning")
    case True
    then show ?thesis by (auto simp: Let_def split: prod.split wait_answer.split)
  next
    case False
    then have "\<exists>t \<in> set ts. gp_over t \<or> gp_wait t \<noteq> StillRunning" using Cons.prems by auto
    from Cons.IH[OF this] show ?thesis using False by (auto simp: Let_def split: prod.split)
  qed
qed simp

lemma run_git_ends: "git_ends g \<Longrightarrow> run_git others g c \<noteq> None"
  by (cases "gr_start g") (simp_all add: run_git_def git_ends_def git_loop_ends)

lemma finish_registration_settled:
  assumes others: "cancels_only others" and ends: "git_ends (ce_verify e)"
    and live: "live_clone (cl_op c)" "checkout_of e (cl_op c)"
  shows "\<exists>c'. finish_registration w e others c = Some c' \<and> clone_settled w e c'
    \<and> co_input (cl_op c') = co_input (cl_op c)"
proof -
  obtain p where p: "co_project (cl_op c) = Some p" using live(2) by (auto simp: checkout_of_def)
  define c1 where "c1 = on_status (\<lambda>st. st\<lparr>cs_phase := CpConfiguring, cs_percentage := None, cs_label := None\<rparr>) c"
  have b: "begin_registration c = Some (p, c1)" using p by (simp add: begin_registration_def c1_def)
  have live1: "live_clone (cl_op c1)" "checkout_of e (cl_op c1)" "co_project (cl_op c1) = Some p"
    "co_input (cl_op c1) = co_input (cl_op c)"
    using live p by (simp_all add: c1_def on_status_def with_status_def live_clone_def checkout_of_def terminal_def
        percent_ok_def Let_def)
  obtain r c2 where g: "run_git (\<lambda>k. others (DuringVerify k)) (ce_verify e) c1 = Some (r, c2)"
    using run_git_ends[OF ends] by (metis not_None_eq prod.exhaust)
  have w: "watched (cl_op c1) (cl_op (others AfterVerify c2))"
    by (rule watched_trans[OF run_git_watched(1)[OF cancels_watched[OF others] g] cancels_watched[OF others]])
  have "clone_settled w e (end_registration w e r p (others AfterVerify c2))"
    using watched_live[OF w live1(1)] watched_checkout[OF w live1(2)] w live1(3)
    by (intro end_registration_settled) (simp_all add: watched_def)
  moreover have "co_input (cl_op (end_registration w e r p (others AfterVerify c2))) = co_input (cl_op c)"
    using w live1(4) by (simp add: end_registration_def on_status_def with_status_def watched_def split: prod.split)
  ultimately show ?thesis using b g by (simp add: finish_registration_def)
qed

text \<open>C14: Once git has ended, was cancelled or has run out of time the thread of a clone ends, whatever
  git printed and whoever cancelled in between: either the project with the fresh identity is
  registered at the destination, or the operation says Cancelled exactly when it was cancelled and Failed
  otherwise, with one of the fixed texts as the error, so that nothing git printed is shown; a
  percentage never exceeds 100, and a completed checkout is kept for a retry.\<close>

theorem clone_settles:
  assumes others: "cancels_only others" and ends: "git_ends (ce_clone e)" "git_ends (ce_verify e)"
    and start: "cl_op c = (new_clone i input)\<lparr>co_cancelled := b\<rparr>"
  shows "\<exists>c'. clone_worker w e others c = Some c' \<and> clone_settled w e c' \<and> co_input (cl_op c') = input"
proof -
  have live: "live_clone (cl_op c)" "no_checkout (cl_op c)" "co_input (cl_op c) = input"
    by (simp_all add: start new_clone_def live_clone_def no_checkout_def terminal_def percent_ok_def)
  have "clone_checkout w e others c \<noteq> None"
    using run_git_ends[OF ends(1)]
    by (auto simp: clone_checkout_def Let_def split: sum.split prod.split option.split) (metis option.distinct(1))
  then obtain r c1 where k: "clone_checkout w e others c = Some (r, c1)" by fastforce
  note res = clone_checkout_result[OF others live(1,2) k]
  show ?thesis
  proof (cases r)
    case (Inl m)
    define c2 where "c2 = others BeforeFailure c1"
    have w2: "watched (cl_op c1) (cl_op c2)" unfolding c2_def by (rule cancels_watched[OF others])
    have "clone_settled w e (clone_failed (ce_removal e) (others BeforeRemoval) m c2)"
      using res Inl watched_live[OF w2] watched_no_checkout[OF w2] by (intro clone_failed_settled(1)) simp_all
    moreover have "co_input (cl_op (clone_failed (ce_removal e) (others BeforeRemoval) m c2)) = input"
      using w2 res live(3) Inl watched_live[OF w2] watched_no_checkout[OF w2]
      by (subst clone_failed_settled(2)) (simp_all add: watched_def)
    ultimately show ?thesis using k Inl by (simp add: clone_worker_def c2_def)
  next
    case (Inr u)
    define c2 where "c2 = others BeforeRegistration c1"
    have w2: "watched (cl_op c1) (cl_op c2)" unfolding c2_def by (rule cancels_watched[OF others])
    have "\<exists>c'. finish_registration w e others c2 = Some c' \<and> clone_settled w e c' \<and> co_input (cl_op c') = co_input (cl_op c2)"
      using res Inr watched_live[OF w2] watched_checkout[OF w2]
      by (intro finish_registration_settled[OF others ends(2)]) simp_all
    moreover have "co_input (cl_op c2) = input" using w2 res live(3) by (simp add: watched_def)
    ultimately show ?thesis using k Inr by (simp add: clone_worker_def c2_def)
  qed
qed

section \<open>What is removed\<close>

text \<open>Where the directory of a clone comes from: nothing was at its path before it was made there.\<close>

definition made_here :: "clone_env \<Rightarrow> clone_others \<Rightarrow> clone_state \<Rightarrow> path \<Rightarrow> nat \<times> nat \<Rightarrow> bool" where
  "made_here e others c dir x \<longleftrightarrow> (let c0 = others BeforeReserve c in
     destination (cl_disk c) (co_input (cl_op c)) = Ok dir \<and> dk_entry (cl_disk c0) dir = None
     \<and> (\<exists>dev ino. ce_made e = Some (dev, ino) \<and> entry_identity (dk_entry (cl_disk (others AfterMkdir
           (c0\<lparr>cl_disk := (cl_disk c0)\<lparr>dk_entry := (dk_entry (cl_disk c0))(dir \<mapsto> DiskDir dev ino)\<rparr>\<rparr>))) dir) = Some x))"

definition owned_by :: "clone_env \<Rightarrow> clone_others \<Rightarrow> clone_state \<Rightarrow> clone_op \<Rightarrow> bool" where
  "owned_by e others c op \<longleftrightarrow> (\<forall>dir x. co_owned op = Some (dir, x) \<longrightarrow> made_here e others c dir x)"

lemma watched_owned: "watched op op' \<Longrightarrow> owned_by e others c op \<Longrightarrow> owned_by e others c op'"
  by (simp add: watched_def owned_by_def)

lemma reserve_owned:
  assumes "reserve (ce_made e) (others AfterMkdir) dir (others BeforeReserve c) = (r, c')"
    and "co_owned (cl_op (others BeforeReserve c)) = None"
    and "destination (cl_disk c) (co_input (cl_op c)) = Ok dir"
  shows "owned_by e others c (cl_op c')"
proof -
  let ?c = "others BeforeReserve c"
  obtain x k where d: "create_dir (ce_made e) (\<lambda>k. cl_disk (others AfterMkdir (?c\<lparr>cl_disk := k\<rparr>))) dir (cl_disk ?c) = (x, k)"
    by (metis prod.exhaust)
  show ?thesis
    using assms d create_dir_cases[OF d]
    by (auto simp: reserve_def owned_by_def made_here_def with_status_def Let_def split: if_splits sum.splits)
qed

lemma clone_checkout_owned:
  assumes others: "cancels_only others" and none: "co_owned (cl_op c) = None"
    and run: "clone_checkout w e others c = Some (r, c')"
  shows "owned_by e others c (cl_op c')"
proof (cases "res_bind (validate_url (ce_parse e) (ci_url (co_input (cl_op c)))) (\<lambda>_. destination (cl_disk c) (co_input (cl_op c)))")
  case (Inl m)
  then show ?thesis using run none by (auto simp: clone_checkout_def Let_def owned_by_def)
next
  case (Inr dir)
  then have dest: "destination (cl_disk c) (co_input (cl_op c)) = Ok dir" by (simp add: res_bind_Ok_iff)
  obtain r2 c2 where rs: "reserve (ce_made e) (others AfterMkdir) dir (others BeforeReserve c) = (r2, c2)"
    by (metis prod.exhaust)
  have "co_owned (cl_op (others BeforeReserve c)) = None"
    using cancels_watched[OF others, of c BeforeReserve] none by (simp add: watched_def)
  note own2 = reserve_owned[OF rs this dest]
  show ?thesis
  proof (cases r2)
    case (Inl m)
    then show ?thesis using run Inr rs own2 by (auto simp: clone_checkout_def Let_def)
  next
    case ok2: (Inr u)
    then obtain r3 c3 where g: "run_git (\<lambda>k. others (DuringClone k)) (ce_clone e) c2 = Some (r3, c3)"
      using run Inr rs by (auto simp: clone_checkout_def Let_def split: option.splits)
    note own3 = watched_owned[OF run_git_watched(1)[OF cancels_watched[OF others] g] own2]
    note own4 = watched_owned[OF cancels_watched[OF others, of c3 AfterClone] own3]
    show ?thesis using run Inr rs ok2 g own3 own4
      by (cases r3) (auto simp: clone_checkout_def Let_def keep_checkout_def with_status_def owned_by_def split: if_splits)
  qed
qed

lemma remove_dir_all_outside:
  "\<not> at_or_below dir p \<Longrightarrow> dk_entry (snd (remove_dir_all r dir k)) p = dk_entry k p"
  by (auto simp: remove_dir_all_def at_or_below_def split: option.split disk_entry.split)

text \<open>C15: A clone that fails removes nothing outside the directory it made itself. Either it leaves the files
  as they are, or there was nothing at the destination before it created the directory there, the directory
  found there when it checks, which is no completed checkout, has the identity read right after the
  creation, and only what is at and below that path is removed (what others put below it included); this
  holds whatever others do to the files, also between the creation and the reading of the identity and
  between the check and the removal, and whether or not the removal completes.\<close>

theorem clone_removes_only_own:
  assumes others: "cancels_only others" and start: "cl_op c = (new_clone i input)\<lparr>co_cancelled := b\<rparr>"
    and run: "clone_checkout w e others c = Some (Err m, c1)"
    and c2: "c2 = others BeforeFailure c1" and c3: "c3 = clone_failed r (others BeforeRemoval) m c2"
  shows "cl_disk c3 = cl_disk c2
    \<or> (\<exists>dir dev ino. made_here e others c dir (dev, ino) \<and> dk_entry (cl_disk c2) dir = Some (DiskDir dev ino)
        \<and> dk_canonical (cl_disk c2) dir = Some dir \<and> \<not> cs_checkout_ready (co_status (cl_op c2))
        \<and> (\<forall>p. \<not> at_or_below dir p \<longrightarrow> dk_entry (cl_disk c3) p = dk_entry (cl_disk (others BeforeRemoval c2)) p))"
proof -
  have "owned_by e others c (cl_op c1)" by (rule clone_checkout_owned[OF others _ run]) (simp add: start new_clone_def)
  then have own: "owned_by e others c (cl_op c2)" unfolding c2 by (rule watched_owned[OF cancels_watched[OF others]])
  show ?thesis
  proof (cases "\<not> cs_checkout_ready (co_status (cl_op c2)) \<and> owns_destination (cl_disk c2) (cl_op c2)")
    case True
    then obtain dir dev ino where o: "co_owned (cl_op c2) = Some (dir, dev, ino)"
      "dk_entry (cl_disk c2) dir = Some (DiskDir dev ino)" "dk_canonical (cl_disk c2) dir = Some dir"
      by (auto simp: owns_destination_def owned_dir_def is_some_and_iff)
    have "cl_disk c3 = snd (remove_dir_all r dir (cl_disk (others BeforeRemoval c2)))"
      using True o(1) by (simp add: c3 clone_failed_def Let_def split: prod.split)
    then have "\<forall>p. \<not> at_or_below dir p \<longrightarrow> dk_entry (cl_disk c3) p = dk_entry (cl_disk (others BeforeRemoval c2)) p"
      using remove_dir_all_outside by simp
    moreover have "made_here e others c dir (dev, ino)" using own o(1) by (simp add: owned_by_def)
    ultimately show ?thesis using o True by blast
  next
    case False
    then show ?thesis by (auto simp: c3 clone_failed_def Let_def split: option.split)
  qed
qed

lemma registration_keeps_disk: "cl_disk (end_registration w e verified p c) = cl_disk c"
  by (simp add: end_registration_def on_status_def Let_def split: prod.split)

section \<open>A clone\<close>

definition sample_input :: clone_input where
  "sample_input = \<lparr>ci_url = ''a:b'', ci_parent = ''/src'', ci_folder = ''repo'', ci_name = ''Repo''\<rparr>"

definition sample_poll :: git_poll where
  "sample_poll = \<lparr>gp_output = [''Receiving objects: 52%'', [CHR 0x0A]], gp_over = False, gp_wait = GitExited False\<rparr>"

definition sample_clone_env :: clone_env where
  "sample_clone_env = \<lparr>ce_parse = (\<lambda>_. None), ce_made = Some (1, 77),
     ce_clone = \<lparr>gr_start = GitStarted, gr_polls = [sample_poll], gr_rest = [''fatal: Authentication failed'']\<rparr>,
     ce_removal = \<lparr>rv_done = True, rv_removed = (\<lambda>_. False)\<rparr>, ce_fresh = 40,
     ce_verify = \<lparr>gr_start = GitMissing, gr_polls = [], gr_rest = []\<rparr>, ce_metadata = None, ce_config = None\<rparr>"

definition sample_clone :: "runtime \<Rightarrow> clone_state" where
  "sample_clone s = \<lparr>cl_op = new_clone 5 sample_input,
     cl_disk = \<lparr>dk_entry = [''/src'' \<mapsto> DiskDir 1 2], dk_canonical = Some\<rparr>, cl_runtime = s\<rparr>"

lemma sample_address: "validate_url parse ''a:b'' = Ok ()"
  by (simp add: validate_url_def starts_with_def accepted_scp_def split_once_def valid_host_def
      ascii_alphanumeric_def byte_of_def is_whitespace_def control_char_def is_cont_def is_some_and_def
      unwrap_or_def Let_def)

definition parsed_sample :: parsed_url where
  "parsed_sample = \<lparr>pu_scheme = ''https'', pu_host = Some ''h'', pu_username = [], pu_password = None, pu_query = None,
     pu_fragment = None, pu_path = ''/r''\<rparr>"

lemma sample_https: "validate_url (\<lambda>_. Some parsed_sample) ''https://h/r'' = Ok ()"
  by code_simp

theorem accepted_address_safe_witness:
  "validate_url (\<lambda>_. None) ''a:b'' = Ok () \<and> hd ''a:b'' \<noteq> CHR ''-''
   \<and> validate_url (\<lambda>_. Some parsed_sample) ''https://h/r'' = Ok () \<and> hd ''https://h/r'' \<noteq> CHR ''-''"
  by (intro conjI sample_address sample_https conjunct1[OF conjunct2[OF accepted_address_safe[OF sample_address]]]
      conjunct1[OF conjunct2[OF accepted_address_safe[OF sample_https]]])

theorem clone_removes_only_own_witness:
  "let e = sample_clone_env\<lparr>ce_clone := (ce_clone sample_clone_env)\<lparr>gr_start := GitMissing\<rparr>\<rparr>;
       c = sample_clone (sample_runtime sample_task [])
   in \<exists>c1 c3. clone_checkout sample_world e (\<lambda>_ c. c) c = Some (Err git_missing, c1)
     \<and> c3 = clone_failed (ce_removal e) (\<lambda>c. c) git_missing c1 \<and> dk_entry (cl_disk c3) ''/src/repo'' = None
     \<and> (\<forall>p. \<not> at_or_below ''/src/repo'' p \<longrightarrow> dk_entry (cl_disk c3) p = dk_entry (cl_disk c1) p)"
proof -
  let ?e = "sample_clone_env\<lparr>ce_clone := (ce_clone sample_clone_env)\<lparr>gr_start := GitMissing\<rparr>\<rparr>"
  let ?c = "sample_clone (sample_runtime sample_task [])"
  have dest: "destination (cl_disk ?c) sample_input = Ok ''/src/repo''"
    by (simp add: destination_def sample_clone_def sample_input_def valid_folder_def has_control_def control_char_def
        byte_of_def starts_with_def is_directory_def path_push_def join_path_def is_cont_def blank_def trim_def is_whitespace_def)
  obtain c1 where run: "clone_checkout sample_world ?e (\<lambda>_ c. c) ?c = Some (Err git_missing, c1)"
    and disk: "dk_entry (cl_disk c1) = [''/src'' \<mapsto> DiskDir 1 2, ''/src/repo'' \<mapsto> DiskDir 1 77]"
      "dk_canonical (cl_disk c1) = Some" and op: "co_owned (cl_op c1) = Some (''/src/repo'', 1, 77)"
      "\<not> cs_checkout_ready (co_status (cl_op c1))"
    using dest by (simp add: clone_checkout_def sample_clone_env_def sample_clone_def sample_input_def sample_address
        new_clone_def reserve_def create_dir_def make_dir_def entry_identity_def run_git_def with_status_def Let_def)
  define c3 where "c3 = clone_failed (ce_removal ?e) (\<lambda>c. c) git_missing c1"
  have gone: "dk_entry (cl_disk c3) ''/src/repo'' = None"
    using op disk by (simp add: c3_def clone_failed_def owns_destination_def owned_dir_def remove_dir_all_def
        at_or_below_def sample_clone_env_def Let_def)
  have "cancels_only (\<lambda>_ c. c)" unfolding cancels_only_def by (intro allI exI[of _ False]) simp
  moreover have "cl_op ?c = (new_clone 5 sample_input)\<lparr>co_cancelled := False\<rparr>"
    by (simp add: sample_clone_def new_clone_def)
  ultimately have "cl_disk c3 = cl_disk c1
    \<or> (\<exists>dir dev ino. made_here ?e (\<lambda>_ c. c) ?c dir (dev, ino) \<and> dk_entry (cl_disk c1) dir = Some (DiskDir dev ino)
        \<and> dk_canonical (cl_disk c1) dir = Some dir \<and> \<not> cs_checkout_ready (co_status (cl_op c1))
        \<and> (\<forall>p. \<not> at_or_below dir p \<longrightarrow> dk_entry (cl_disk c3) p = dk_entry (cl_disk c1) p))"
    by (rule clone_removes_only_own[OF _ _ run refl c3_def])
  moreover have "made_here ?e (\<lambda>_ c. c) ?c dir x \<Longrightarrow> dir = ''/src/repo''" for dir x
    using dest by (simp add: made_here_def sample_clone_def new_clone_def)
  ultimately have "\<forall>p. \<not> at_or_below ''/src/repo'' p \<longrightarrow> dk_entry (cl_disk c3) p = dk_entry (cl_disk c1) p" by metis
  with run gone c3_def show ?thesis unfolding Let_def by blast
qed

theorem clone_starts_once_witness:
  "distinct (worker_ids [CloneWorker 5]) \<and> clone_handle False (StartProjectClone 5 sample_input)
      [(5, new_clone 5 sample_input)] = (ProjectClone (co_status (new_clone 5 sample_input)), [], [(5, new_clone 5 sample_input)])"
proof -
  have "clone_handle False (StartProjectClone 5 sample_input) []
      = (ProjectClone (co_status (new_clone 5 sample_input)), [CloneWorker 5], [(5, new_clone 5 sample_input)])"
    by (simp add: clone_handle_def start_clone_def hm_get_def hm_insert_def)
  from clone_request[OF this, of "[]"]
  have "clone_step\<^sup>*\<^sup>* ([], []) ([CloneWorker 5], [(5, new_clone 5 sample_input)])" by (intro r_into_rtranclp) simp
  from clone_starts_once[OF this] show ?thesis by (simp add: hm_get_def new_clone_def)
qed

theorem clone_settles_witness:
  "\<exists>c'. clone_worker sample_world sample_clone_env (\<lambda>_ c. c) (sample_clone (sample_runtime sample_task [])) = Some c'
     \<and> clone_settled sample_world sample_clone_env c'"
proof -
  have "git_ends (ce_clone sample_clone_env)" "git_ends (ce_verify sample_clone_env)"
    by (simp_all add: git_ends_def sample_clone_env_def sample_poll_def)
  moreover have "cancels_only (\<lambda>_ c. c)" unfolding cancels_only_def by (intro allI exI[of _ False]) simp
  moreover have "cl_op (sample_clone (sample_runtime sample_task [])) = (new_clone 5 sample_input)\<lparr>co_cancelled := False\<rparr>"
    by (simp add: sample_clone_def new_clone_def)
  ultimately show ?thesis
    using clone_settles[where others = "\<lambda>_ c. c" and e = sample_clone_env and i = 5 and b = False
      and c = "sample_clone (sample_runtime sample_task [])" and input = sample_input and w = sample_world]
    by blast
qed

end
