(* ===== verification/Spec2Isabelle.thy ===== *)
theory Spec2Isabelle
  imports Store_Integrity Startup Request_Properties Plan_Slots Handoff_Recovery Release_Facts Cycle_Sample Cycle_Termination Remote_Requests Clone_Facts
begin

text \<open>
  Verification library of the Ditch runtime, the daemon (\<open>src/crates/ditchd\<close>) that keeps a user's
  boards of tasks, runs coding agents on them and asks for human acceptance, with the crates it
  rests on: \<open>ditch_core\<close> (domain and workflow) and \<open>ditch_store\<close> (SQLite). Paths below are under
  \<open>src/crates\<close>.

  How the parts interact. A client request is a \<open>task_request\<close>. The handlers of the daemon run one at
  a time under the state lock: each is a function of the \<open>world\<close> (clock, fresh identifiers,
  environment) and the \<open>runtime\<close>, and returns its answer and the new runtime. A handler saves what it
  changes in one transaction of the store, with the receipt of its request, and only then publishes
  the new tasks in memory and broadcasts events. Threads (the queue dispatcher, planners, agents,
  connections to SSH hosts) take the lock for one such step at a time; where the source releases
  the lock inside an operation, what other threads do meanwhile is an argument of the definition.

  Conventions. Strings are UTF-8 bytes, \<open>Uuid\<close>s natural numbers, a \<open>HashMap\<close> an association list under
  the contract \<open>keyed_store\<close>, a task revision a 64 bit word, other integers \<open>nat\<close> or \<open>int\<close> with the checked,
  saturating and wrapping operations written out. \<open>Result\<close> is a sum with the error left. The n-th fresh
  identifier is \<open>w_uuid w n\<close>; \<open>rt_draws\<close> counts them.

  Theories, from the bottom up, and what their lemmas show:
  \<^item> \<open>Rust_Prelude\<close>: results, options, integers, UTF-8, hash maps and the locale \<open>keyed_store\<close>.
  \<^item> \<open>Domain\<close>: the records and enums of \<open>ditch_core\<close> and \<open>ditch_protocol\<close>.
  \<^item> \<open>Task_Workflow\<close> (\<open>ditch_core/src/tasks.rs\<close>): drafts, transitions, revisions, leases, releases.
    Transitions refine the board as its users see it; only a user accepts; one of several stale
    requests wins (locale \<open>versioned\<close>).
  \<^item> \<open>Store_Database\<close>, \<open>Task_Store\<close> (\<open>ditch_store/src\<close>): tables, transactions, receipts, recovery.
    \<open>Store_Integrity\<close>: the locale \<open>statement_invariant\<close> lifts invariants of statements to runs of the
    store; integrity, the permanence of receipts and of histories are its interpretations.
  \<^item> \<open>Runtime_State\<close>, \<open>Runtime_Facts\<close> (\<open>ditchd/src/runtime_shared.rs\<close>, \<open>task_runtime.rs\<close>): the runtime, events and
    their replay buffer, release and reaping of writers, tasks following their agents.
  \<^item> \<open>Board_Queue\<close>, \<open>Board_Facts\<close>, \<open>Board_Order\<close>, \<open>Board_Properties\<close> (\<open>task_queue_runtime.rs\<close>): the queue of a board,
    its requests and its dispatcher. The queue is first-in first-out (locale \<open>fifo\<close>), one board task
    runs per workspace, a free board makes progress.
  \<^item> \<open>Writer_Lease\<close>, \<open>Writer_Facts\<close> (\<open>task_runtime.rs\<close>): reservations of workspaces; the table of leases is
    exclusive (locale \<open>lease_table\<close>) and equals the store's.
  \<^item> \<open>Startup\<close> (\<open>runtime_shared.rs\<close>): the state after a restart.
  \<^item> \<open>Task_Planning\<close>, \<open>Planning_Facts\<close> (\<open>task_planning_runtime.rs\<close>): plan jobs; they end once and never overwrite
    a user's text.
  \<^item> \<open>Acceptance_Config\<close> (\<open>ditch_core/src/acceptance.rs\<close>): contracts and reports.
  \<^item> \<open>Task_Requests\<close>, \<open>Board_Columns\<close>, \<open>Request_Properties\<close> (\<open>task_runtime.rs\<close>): \<open>prepare_task_request\<close>; moves, refusals
    and starts.
  \<^item> \<open>Runtime_Store\<close>, \<open>Plan_Slots\<close>: every handler changes the store by the store's operations only, and
    keeps the bound on running plans (collections \<open>store_runs\<close> and \<open>plan_safes\<close>).
  \<^item> \<open>Board_Handoff\<close>, \<open>Handoff_Facts\<close>, \<open>Handoff_Recovery\<close> (\<open>remote_task_handoff.rs\<close>): the transfer of a task to the
    SSH host of its project; content is kept, lost replies are recovered from. Two rounds of a
    transfer are the code's own bound; a retry count as large as the number of lost replies is
    enough.
  \<^item> \<open>Acceptance_Evidence\<close> (\<open>acceptance_evidence.rs\<close>), \<open>Acceptance_Runtime\<close>, \<open>Validator_Run\<close>, \<open>Acceptance_Cycle\<close>
    (\<open>acceptance_runtime.rs\<close>): evidence of checks, the requests on review and releases, and the loop of
    attempts as a thread that other threads interleave with.
    \<open>Review_Facts\<close>, \<open>Release_Facts\<close>, \<open>Validator_Facts\<close>: only current evidence is accepted, batches are accepted
    as a whole, a check's verdict is the exit code of a command that ended by itself.
    \<open>Cycle_Relations\<close>, \<open>Cycle_Invariants\<close>: what the loop's sections have in common (locales
    \<open>thread_relation\<close>, \<open>cycle_sections\<close>, \<open>loop_relation\<close>), interpreted for the store, the tasks in memory, the
    reservations, the plans and the evidence. \<open>Cycle_Facts\<close>, \<open>Cycle_Sample\<close>: what a submission rests on.
    \<open>Cycle_Termination\<close>: the loop ends; a fuel beyond the moment of its deadline is enough.
  \<^item> \<open>Daemon_State\<close>, \<open>Agent_Sessions\<close>, \<open>Agent_Lifecycle\<close>, \<open>Agent_Launch\<close> (\<open>runtime_shared.rs\<close>,
    \<open>remote_app_server_runtime.rs\<close>): the rest of the daemon's state, sessions of coding agents from their launch
    through the events of a turn to their end, stop, kill and deletion, and what subscribers are sent.
    \<open>Session_Facts\<close>, \<open>Session_End\<close>, \<open>Session_Requests\<close>: a run that was replaced changes nothing more (locale
    \<open>replaced_run\<close>), how a run ends, reconnecting clients, deleted projects.
  \<^item> \<open>Remote_Projection\<close> (\<open>runtime_shared.rs\<close>, \<open>ssh_remote.rs\<close>): what the daemon shows of SSH hosts, from the events
    and snapshots of their daemons, and the renaming of projects. \<open>Remote_Facts\<close>, \<open>Remote_Requests\<close>: a host
    reaches only what is on the host, a snapshot is what is shown afterwards, a renaming takes effect in
    file, store and memory or not at all.
  \<^item> \<open>Project_Clone\<close>, \<open>Clone_Facts\<close> (\<open>project_clone.rs\<close>): clones of repositories; accepted addresses, the end of
    the thread whatever git does, the directories it may remove, requests that are repeated.

  Not modelled: process handling, sockets and the wire format, the Codex app server, the GitHub
  client, SSH transport and the installation on hosts, skills on disk, sessions' names, the command
  line and the desktop application. They are pure input and output around the handlers above or
  talk to programs outside the repository; what they answer is an argument here. Clock readings
  within one handler are one reading, and reads of a healthy database do not fail.
\<close>

end
